(* ===== verification/Go_Prelude.thy ===== *)
theory Go_Prelude
  imports Main "HOL-Library.AList" "HOL-Library.Sublist" "HOL-Library.Multiset"
begin

text \<open>
  The part of the Go language and of its standard library that the supervisor's sources use:
  byte strings and the functions of package \<open>strings\<close>, \<open>int64\<close> arithmetic with its
  wrap-around, \<open>time.Time\<close> and \<open>time.Duration\<close>, and built-in maps with their unspecified
  iteration order. The lemmas are the generic ones the component theories share.

  Strings are byte sequences, as in Go. Case conversion and white space are those of ASCII;
  on text with other bytes Go also folds letters outside ASCII, which no definition here does.
\<close>

named_theorems go_simps \<open>equations that evaluate the Go library functions\<close>

section \<open>Strings\<close>

definition is_space :: "char \<Rightarrow> bool" where
  "is_space c \<longleftrightarrow> (let n = (of_char c :: nat) in (9 \<le> n \<and> n \<le> 13) \<or> n = 32)"

definition to_lower_char :: "char \<Rightarrow> char" where
  "to_lower_char c =
     (let n = (of_char c :: nat) in if 65 \<le> n \<and> n \<le> 90 then char_of (n + 32) else c)"

definition ToLower :: "string \<Rightarrow> string" where
  "ToLower s = map to_lower_char s"

definition TrimLeft :: "(char \<Rightarrow> bool) \<Rightarrow> string \<Rightarrow> string" where
  "TrimLeft P s = dropWhile P s"

definition TrimRight :: "(char \<Rightarrow> bool) \<Rightarrow> string \<Rightarrow> string" where
  "TrimRight P s = rev (dropWhile P (rev s))"

definition TrimSpace :: "string \<Rightarrow> string" where
  "TrimSpace s = TrimRight is_space (TrimLeft is_space s)"

definition TrimChar :: "string \<Rightarrow> char \<Rightarrow> string" where
  "TrimChar s c = TrimRight (\<lambda>x. x = c) (TrimLeft (\<lambda>x. x = c) s)"

definition HasPrefix :: "string \<Rightarrow> string \<Rightarrow> bool" where
  "HasPrefix s p \<longleftrightarrow> take (length p) s = p"

definition HasSuffix :: "string \<Rightarrow> string \<Rightarrow> bool" where
  "HasSuffix s p \<longleftrightarrow> HasPrefix (rev s) (rev p)"

definition TrimPrefix :: "string \<Rightarrow> string \<Rightarrow> string" where
  "TrimPrefix s p = (if HasPrefix s p then drop (length p) s else s)"

definition TrimSuffix :: "string \<Rightarrow> string \<Rightarrow> string" where
  "TrimSuffix s p = (if HasSuffix s p then take (length s - length p) s else s)"

fun Contains :: "string \<Rightarrow> string \<Rightarrow> bool" where
  "Contains [] p \<longleftrightarrow> p = []"
| "Contains (c # s) p \<longleftrightarrow> HasPrefix (c # s) p \<or> Contains s p"

text \<open>\<open>strings.EqualFold\<close>: equality up to case.\<close>

definition EqualFold :: "string \<Rightarrow> string \<Rightarrow> bool" where
  "EqualFold a b \<longleftrightarrow> ToLower a = ToLower b"

text \<open>\<open>strings.Split\<close> on a one-byte separator; it never returns an empty slice.\<close>

fun Split :: "string \<Rightarrow> char \<Rightarrow> string list" where
  "Split [] c = [[]]"
| "Split (x # xs) c =
     (if x = c then [] # Split xs c
      else (case Split xs c of [] \<Rightarrow> [[x]] | p # ps \<Rightarrow> (x # p) # ps))"

fun Join :: "string list \<Rightarrow> string \<Rightarrow> string" where
  "Join [] sep = []"
| "Join [x] sep = x"
| "Join (x # y # zs) sep = x @ sep @ Join (y # zs) sep"

text \<open>\<open>strings.Index\<close> and \<open>strings.LastIndex\<close> of one byte; Go's \<open>-1\<close> is \<open>None\<close>.\<close>

fun Index :: "string \<Rightarrow> char \<Rightarrow> nat option" where
  "Index [] c = None"
| "Index (x # xs) c = (if x = c then Some 0 else map_option Suc (Index xs c))"

fun LastIndex :: "string \<Rightarrow> char \<Rightarrow> nat option" where
  "LastIndex [] c = None"
| "LastIndex (x # xs) c =
     (case LastIndex xs c of Some n \<Rightarrow> Some (Suc n) | None \<Rightarrow> if x = c then Some 0 else None)"

lemmas [go_simps] = is_space_def to_lower_char_def ToLower_def TrimLeft_def TrimRight_def
  TrimSpace_def TrimChar_def HasPrefix_def HasSuffix_def TrimPrefix_def TrimSuffix_def
  EqualFold_def

lemma HasPrefix_iff_prefix: "HasPrefix s p \<longleftrightarrow> prefix p s"
  by (metis HasPrefix_def append_eq_conv_conj append_take_drop_id prefix_def)

lemma HasSuffix_iff_suffix: "HasSuffix s p \<longleftrightarrow> suffix p s"
  by (simp add: HasSuffix_def HasPrefix_iff_prefix suffix_to_prefix)

lemma HasPrefix_append [simp]: "HasPrefix (p @ s) p"
  by (simp add: HasPrefix_def)

lemma HasPrefix_Nil [simp]: "HasPrefix s []"
  by (simp add: HasPrefix_def)

lemma Contains_iff_sublist: "Contains s p \<longleftrightarrow> sublist p s"
  by (induction s p rule: Contains.induct)
     (auto simp: HasPrefix_iff_prefix sublist_Cons_right)

lemma TrimSuffix_idem_char:
  "TrimSuffix s [c] = s \<or> s = TrimSuffix s [c] @ [c]"
proof (cases s rule: rev_cases)
  case Nil
  then show ?thesis by (simp add: TrimSuffix_def)
next
  case (snoc ys y)
  then show ?thesis
    by (auto simp: TrimSuffix_def HasSuffix_def HasPrefix_def)
qed

lemma ToLower_Nil [simp]: "ToLower [] = []"
  by (simp add: ToLower_def)

lemma ToLower_eq_Nil [simp]: "ToLower s = [] \<longleftrightarrow> s = []"
  by (simp add: ToLower_def)

lemma length_ToLower [simp]: "length (ToLower s) = length s"
  by (simp add: ToLower_def)

lemma to_lower_char_idem [simp]: "to_lower_char (to_lower_char c) = to_lower_char c"
  by (auto simp: to_lower_char_def Let_def of_char_of take_bit_eq_mod)

lemma ToLower_idem [simp]: "ToLower (ToLower s) = ToLower s"
  by (simp add: ToLower_def)

lemma length_TrimRight_le: "length (TrimRight P s) \<le> length s"
  by (metis TrimRight_def length_dropWhile_le length_rev)

lemma length_TrimLeft_le: "length (TrimLeft P s) \<le> length s"
  by (simp add: TrimLeft_def length_dropWhile_le)

lemma set_TrimRight: "set (TrimRight P s) \<subseteq> set s"
  by (auto simp: TrimRight_def dest: set_dropWhileD)

lemma set_TrimLeft: "set (TrimLeft P s) \<subseteq> set s"
  by (auto simp: TrimLeft_def dest: set_dropWhileD)

lemma last_TrimRight: "TrimRight P s \<noteq> [] \<Longrightarrow> \<not> P (last (TrimRight P s))"
  by (metis TrimRight_def hd_dropWhile last_rev rev_is_Nil_conv)

lemma hd_TrimLeft: "TrimLeft P s \<noteq> [] \<Longrightarrow> \<not> P (hd (TrimLeft P s))"
  by (simp add: TrimLeft_def hd_dropWhile)

lemma TrimRight_prefix: "prefix (TrimRight P s) s"
  by (metis TrimRight_def rev_rev_ident suffix_dropWhile suffix_to_prefix)

lemma hd_TrimRight: "TrimRight P s \<noteq> [] \<Longrightarrow> hd (TrimRight P s) = hd s"
  using TrimRight_prefix[of P s] by (metis hd_append2 prefix_def)

lemma hd_TrimSpace: "TrimSpace s \<noteq> [] \<Longrightarrow> \<not> is_space (hd (TrimSpace s))"
  by (metis TrimSpace_def TrimRight_def dropWhile.simps(1) hd_TrimLeft hd_TrimRight rev.simps(1))

lemma last_TrimSpace: "TrimSpace s \<noteq> [] \<Longrightarrow> \<not> is_space (last (TrimSpace s))"
  by (simp add: TrimSpace_def last_TrimRight)

lemma TrimLeft_id: "(s = [] \<or> \<not> P (hd s)) \<Longrightarrow> TrimLeft P s = s"
  by (cases s) (auto simp: TrimLeft_def)

lemma TrimRight_id: "(s = [] \<or> \<not> P (last s)) \<Longrightarrow> TrimRight P s = s"
  by (cases s rule: rev_cases) (auto simp: TrimRight_def)

lemma TrimSpace_idem [simp]: "TrimSpace (TrimSpace s) = TrimSpace s"
proof -
  have "TrimLeft is_space (TrimSpace s) = TrimSpace s"
    by (rule TrimLeft_id) (use hd_TrimSpace in blast)
  moreover have "TrimRight is_space (TrimSpace s) = TrimSpace s"
    by (rule TrimRight_id) (use last_TrimSpace in blast)
  ultimately show ?thesis by (simp add: TrimSpace_def)
qed

lemma TrimSpace_Nil [simp]: "TrimSpace [] = []"
  by (simp add: TrimSpace_def TrimLeft_def TrimRight_def)

lemma TrimSpace_blank: "TrimSpace s = [] \<longleftrightarrow> (\<forall>c \<in> set s. is_space c)"
proof
  assume "TrimSpace s = []"
  then have "\<forall>c \<in> set (dropWhile is_space s). is_space c" by (simp add: TrimSpace_def TrimLeft_def TrimRight_def)
  then have "dropWhile is_space s = []" by (metis hd_dropWhile hd_in_set)
  then show "\<forall>c \<in> set s. is_space c" by simp
qed (auto simp: TrimSpace_def TrimLeft_def TrimRight_def dest: set_dropWhileD)

lemma Split_not_Nil [simp]: "Split s c \<noteq> []"
  by (induction s c rule: Split.induct) (auto split: list.splits)

lemma Split_no_sep: "p \<in> set (Split s c) \<Longrightarrow> c \<notin> set p"
  by (induction s c arbitrary: p rule: Split.induct) (auto split: list.splits if_splits)

lemma Join_Split: "Join (Split s c) [c] = s"
proof (induction s)
  case Nil
  then show ?case by simp
next
  case (Cons x xs)
  obtain p ps where ps: "Split xs c = p # ps" by (cases "Split xs c") auto
  with Cons show ?case by (cases ps) auto
qed

lemma Split_first: "c \<notin> set x \<Longrightarrow> Split (x @ c # s) c = x # Split s c"
  by (induction x) auto

lemma Split_plain: "c \<notin> set x \<Longrightarrow> Split x c = [x]"
  by (induction x) auto

lemma Split_Join:
  assumes "ls \<noteq> []" "\<forall>l \<in> set ls. c \<notin> set l"
  shows "Split (Join ls [c]) c = ls"
  using assms
proof (induction ls "[c]" rule: Join.induct)
  case (3 x y zs)
  then show ?case by (simp add: Split_first)
qed (simp_all add: Split_plain)

lemma insort_key_map: "(\<And>x. k (g x) = k x) \<Longrightarrow> insort_key k (g x) (map g xs) = map g (insort_key k x xs)"
  by (induction xs) auto

lemma sort_key_map: "(\<And>x. k (g x) = k x) \<Longrightarrow> sort_key k (map g xs) = map g (sort_key k xs)"
  by (induction xs) (simp_all add: insort_key_map)

lemma find_SomeD: "find P xs = Some x \<Longrightarrow> x \<in> set xs \<and> P x"
  by (auto simp: find_Some_iff)

lemma find_unique:
  "distinct (map f xs) \<Longrightarrow> x \<in> set xs \<Longrightarrow> f x = k \<Longrightarrow> find (\<lambda>y. f y = k) xs = Some x"
  by (induction xs) auto

lemma Index_Some: "Index s c = Some n \<Longrightarrow> n < length s \<and> s ! n = c \<and> c \<notin> set (take n s)"
  by (induction s arbitrary: n) (auto split: if_splits)

lemma Index_None: "Index s c = None \<longleftrightarrow> c \<notin> set s"
  by (induction s) auto

lemma LastIndex_None: "LastIndex s c = None \<longleftrightarrow> c \<notin> set s"
  by (induction s) (auto split: option.splits)

lemma LastIndex_Some:
  "LastIndex s c = Some n \<Longrightarrow> n < length s \<and> s ! n = c \<and> c \<notin> set (drop (Suc n) s)"
  by (induction s arbitrary: n) (auto split: option.splits if_splits simp: LastIndex_None)

section \<open>Machine integers\<close>

text \<open>
  \<open>int64\<close> and the 64-bit \<open>int\<close>: two's complement. A value that arithmetic produced is
  wrapped; a counter that cannot leave the range (a length, a number of containers) is a plain
  \<open>int\<close>.
\<close>

definition wrap64 :: "int \<Rightarrow> int" where
  "wrap64 x = (x + 2 ^ 63) mod 2 ^ 64 - 2 ^ 63"

definition int64_range :: "int \<Rightarrow> bool" where
  "int64_range x \<longleftrightarrow> - (2 ^ 63) \<le> x \<and> x < 2 ^ 63"

definition sat64 :: "int \<Rightarrow> int" where
  "sat64 x = max (- (2 ^ 63)) (min (2 ^ 63 - 1) x)"

lemma wrap64_range: "int64_range (wrap64 x)"
  unfolding wrap64_def int64_range_def
  using pos_mod_sign[of "2 ^ 64" "x + 2 ^ 63"] pos_mod_bound[of "2 ^ 64" "x + 2 ^ 63"] by simp

lemma wrap64_id: "int64_range x \<Longrightarrow> wrap64 x = x"
  unfolding wrap64_def int64_range_def by (simp add: mod_pos_pos_trivial)

lemma sat64_id: "int64_range x \<Longrightarrow> sat64 x = x"
  by (simp add: sat64_def int64_range_def)

lemma sat64_range: "int64_range (sat64 x)"
  by (simp add: sat64_def int64_range_def)

lemma sat64_mono: "x \<le> y \<Longrightarrow> sat64 x \<le> sat64 y"
  by (auto simp: sat64_def)

text \<open>\<open>strconv.Atoi\<close>: an optional sign and decimal digits whose value fits; \<open>None\<close> is the error.\<close>

definition digit_val :: "char \<Rightarrow> int option" where
  "digit_val c = (let n = (of_char c :: int) in if 48 \<le> n \<and> n \<le> 57 then Some (n - 48) else None)"

fun digits_val :: "int \<Rightarrow> string \<Rightarrow> int option" where
  "digits_val acc [] = Some acc"
| "digits_val acc (c # s) =
     (case digit_val c of None \<Rightarrow> None | Some v \<Rightarrow> digits_val (acc * 10 + v) s)"

definition Atoi :: "string \<Rightarrow> int option" where
  "Atoi s =
     (let (neg, t) = (case s of [] \<Rightarrow> (False, [])
                      | c # r \<Rightarrow> if c = CHR ''-'' then (True, r)
                                 else if c = CHR ''+'' then (False, r) else (False, s))
      in if t = [] then None
         else (case digits_val 0 t of
                 None \<Rightarrow> None
               | Some n \<Rightarrow> (let v = if neg then - n else n in if int64_range v then Some v else None)))"

lemma Atoi_range: "Atoi s = Some v \<Longrightarrow> int64_range v"
  by (auto simp: Atoi_def Let_def split: prod.splits if_splits option.splits)

text \<open>\<open>strconv.Itoa\<close>, \<open>strconv.FormatInt\<close> in base ten and \<open>%d\<close>.\<close>

fun digits_of :: "nat \<Rightarrow> string" where
  "digits_of n = (if n < 10 then [char_of (48 + n)] else digits_of (n div 10) @ [char_of (48 + n mod 10)])"

declare digits_of.simps [simp del]

definition Itoa :: "int \<Rightarrow> string" where
  "Itoa i = (if i < 0 then ''-'' @ digits_of (nat (- i)) else digits_of (nat i))"

lemma digits_val_snoc:
  "digits_val acc (s @ [c]) = (case digits_val acc s of None \<Rightarrow> None | Some m \<Rightarrow> map_option (\<lambda>v. m * 10 + v) (digit_val c))"
  by (induction s arbitrary: acc) (simp_all split: option.split)

lemma digits_val_digits_of: "digits_val 0 (digits_of n) = Some (int n)"
proof (induction n rule: digits_of.induct)
  case (1 n)
  have d: "digit_val (char_of (48 + k)) = Some (int k)" if "k < 10" for k
  proof -
    have "(of_char (char_of (48 + k)) :: int) = int (of_char (char_of (48 + k)))" by (rule of_nat_of_char [symmetric])
    with that show ?thesis by (simp add: digit_val_def of_char_of Let_def del: of_nat_of_char)
  qed
  show ?case
  proof (cases "n < 10")
    case True
    then show ?thesis by (subst digits_of.simps) (simp add: d)
  next
    case False
    have "int (n div 10) * 10 + int (n mod 10) = int n" by presburger
    with False 1 d [of "n mod 10"] show ?thesis by (subst digits_of.simps) (simp add: digits_val_snoc)
  qed
qed

lemma digits_of_not_Nil: "digits_of n \<noteq> []"
  by (subst digits_of.simps) simp

lemma Atoi_Itoa:
  assumes "int64_range i"
  shows "Atoi (Itoa i) = Some i"
proof -
  have hd: "hd (digits_of k) \<noteq> CHR ''-'' \<and> hd (digits_of k) \<noteq> CHR ''+''" for k
    using digits_val_digits_of [of k] digits_of_not_Nil [of k]
    by (cases "digits_of k") (auto simp: digit_val_def split: option.splits)
  then have shape: "(case digits_of k of [] \<Rightarrow> (False, []) | c # r \<Rightarrow> if c = CHR ''-'' then (True, r)
      else if c = CHR ''+'' then (False, r) else (False, digits_of k)) = (False, digits_of k)" for k
    using digits_of_not_Nil [of k] hd [of k] by (cases "digits_of k") simp_all
  show ?thesis using assms
    by (cases "i < 0") (simp_all add: Atoi_def Itoa_def shape digits_val_digits_of digits_of_not_Nil)
qed

section \<open>Time\<close>

text \<open>
  A \<open>time.Time\<close> is the number of nanoseconds since the Unix epoch, the zero value being
  January 1 of the year 1; a \<open>time.Duration\<close> is an \<open>int64\<close> of nanoseconds and \<open>Sub\<close>
  saturates.
\<close>

type_synonym gotime = int
type_synonym duration = int

definition zero_time :: gotime where
  "zero_time = - 62135596800000000000"

definition IsZero :: "gotime \<Rightarrow> bool" where
  "IsZero t \<longleftrightarrow> t = zero_time"

definition time_sub :: "gotime \<Rightarrow> gotime \<Rightarrow> duration" where
  "time_sub a b = sat64 (a - b)"

definition Second :: duration where "Second = 1000000000"
definition Minute :: duration where "Minute = 60 * Second"
definition Millisecond :: duration where "Millisecond = 1000000"

text \<open>\<open>time.Duration(n) * time.Second\<close>.\<close>

definition seconds :: "int \<Rightarrow> duration" where
  "seconds n = wrap64 (n * Second)"

lemmas [go_simps] = zero_time_def IsZero_def time_sub_def Second_def Minute_def
  Millisecond_def seconds_def wrap64_def sat64_def

lemma seconds_exact:
  assumes "0 \<le> n" "n \<le> 9223372036"
  shows "seconds n = n * 1000000000"
  using assms by (simp add: seconds_def Second_def wrap64_id int64_range_def)

section \<open>Maps\<close>

text \<open>
  A Go map is an association list with one entry per key. \<open>range\<close> visits its entries in an
  order the language leaves open: every loop takes that order as an argument, a list of positions.
  An argument that is no permutation of the positions stands for the list's own order, so that
  every value of it is an order \<open>range\<close> may take.
\<close>

type_synonym ('k, 'v) gomap = "('k \<times> 'v) list"

definition go_range :: "nat list \<Rightarrow> 'a list \<Rightarrow> 'a list" where
  "go_range p xs =
     (if length p = length xs \<and> distinct p \<and> (\<forall>i \<in> set p. i < length xs)
      then map (\<lambda>i. xs ! i) p else xs)"

lemma mset_go_range [simp]: "mset (go_range p xs) = mset xs"
proof (cases "length p = length xs \<and> distinct p \<and> (\<forall>i \<in> set p. i < length xs)")
  case True
  then have sub: "set p \<subseteq> {..<length xs}" and card: "card (set p) = length xs"
    by (auto simp: distinct_card)
  then have "set p = {..<length xs}"
    by (intro card_subset_eq) auto
  then have "set p = set [0..<length xs]" by (simp add: atLeast0LessThan)
  with True have "mset p = mset [0..<length xs]"
    using set_eq_iff_mset_eq_distinct[of p "[0..<length xs]"] by simp
  then have "mset (map (\<lambda>i. xs ! i) p) = mset (map (\<lambda>i. xs ! i) [0..<length xs])"
    by (metis mset_map)
  with True show ?thesis by (simp add: go_range_def map_nth)
qed (auto simp: go_range_def)

lemma set_go_range [simp]: "set (go_range p xs) = set xs"
  by (metis mset_eq_setD mset_go_range)

lemma length_go_range [simp]: "length (go_range p xs) = length xs"
  by (metis mset_eq_length mset_go_range)

lemma distinct_map_fst_go_range [simp]:
  "distinct (map fst (go_range p xs)) \<longleftrightarrow> distinct (map fst xs)"
  by (metis mset_eq_imp_distinct_iff mset_go_range mset_map)

lemma go_range_Nil [simp]: "go_range p [] = []"
  by (metis length_0_conv length_go_range list.size(3))

lemma length_filter_go_range [simp]:
  "length (filter P (go_range p xs)) = length (filter P xs)"
  by (metis mset_filter mset_go_range size_mset)

lemma map_of_go_range [simp]:
  "distinct (map fst m) \<Longrightarrow> map_of (go_range p m) = map_of m"
  by (metis distinct_map_fst_go_range map_of_inject_set set_go_range)

definition mput :: "'k \<Rightarrow> 'v \<Rightarrow> ('k, 'v) gomap \<Rightarrow> ('k, 'v) gomap" where
  "mput k v m = AList.update k v m"

definition mdel :: "'k \<Rightarrow> ('k, 'v) gomap \<Rightarrow> ('k, 'v) gomap" where
  "mdel k m = AList.delete k m"

abbreviation mget :: "('k, 'v) gomap \<Rightarrow> 'k \<Rightarrow> 'v option" where
  "mget m k \<equiv> map_of m k"

abbreviation wf_map :: "('k, 'v) gomap \<Rightarrow> bool" where
  "wf_map m \<equiv> distinct (map fst m)"

lemma mget_mput [simp]: "mget (mput k v m) = (mget m)(k \<mapsto> v)"
  by (simp add: mput_def update_conv' fun_upd_def)

lemma mget_mdel [simp]: "mget (mdel k m) = (mget m)(k := None)"
  by (simp add: mdel_def delete_conv' fun_upd_def)

lemma set_mput_sub: "x \<in> set (mput k v m) \<Longrightarrow> x = (k, v) \<or> x \<in> set m"
  unfolding mput_def by (induction m) (auto split: if_splits)

lemma wf_map_mput [simp]: "wf_map m \<Longrightarrow> wf_map (mput k v m)"
  by (simp add: mput_def distinct_update)

lemma wf_map_mdel [simp]: "wf_map m \<Longrightarrow> wf_map (mdel k m)"
  by (simp add: mdel_def distinct_delete)

lemma mput_simps [go_simps]:
  "mput k v [] = [(k, v)]"
  "mput k v (p # m) = (if fst p = k then (k, v) # m else p # mput k v m)"
  by (simp_all add: mput_def)

lemma mdel_simps [go_simps]:
  "mdel k [] = []"
  "mdel k (p # m) = (if k = fst p then mdel k m else p # mdel k m)"
  by (cases p) (simp_all add: mdel_def)

lemma mput_absent: "mget m k = None \<Longrightarrow> mput k v m = m @ [(k, v)]"
  by (induction m) (auto simp: mput_def split: if_splits)

lemma set_mdel: "set (mdel k m) = {e \<in> set m. fst e \<noteq> k}"
  by (auto simp: mdel_def AList.delete_eq)

lemma mdel_absent [simp]: "mget m k = None \<Longrightarrow> mdel k m = m"
  by (metis delete_id map_of_eq_None_iff mdel_def)

lemma mdel_Nil_iff: "wf_map m \<Longrightarrow> mdel k m = [] \<longleftrightarrow> m = [] \<or> (\<exists>v. m = [(k, v)])"
proof (induction m)
  case (Cons e m)
  show ?case
  proof (cases "fst e = k")
    case True
    with Cons.prems have "mdel k m = m"
      by (metis distinct.simps(2) list.simps(9) list.set_map map_of_eq_None_iff mdel_absent)
    with True show ?thesis by (cases e) (auto simp: mdel_simps)
  next
    case False
    then show ?thesis by (cases e) (auto simp: mdel_simps)
  qed
qed (simp add: mdel_simps)

lemma mput_not_Nil [simp]: "mput k v m \<noteq> []"
  by (simp add: mput_def)

text \<open>A number attached to every entry of a map: what inserting and deleting a key change.\<close>

lemma sum_list_mput:
  fixes f :: "'k \<times> 'v \<Rightarrow> nat"
  assumes "wf_map m"
  shows "sum_list (map f (mput k v m)) + (case mget m k of None \<Rightarrow> 0 | Some w \<Rightarrow> f (k, w))
       = sum_list (map f m) + f (k, v)"
  using assms by (induction m) (auto simp: mput_simps split: option.splits)

lemma sum_list_mdel:
  fixes f :: "'k \<times> 'v \<Rightarrow> nat"
  assumes "wf_map m"
  shows "sum_list (map f (mdel k m)) + (case mget m k of None \<Rightarrow> 0 | Some w \<Rightarrow> f (k, w))
       = sum_list (map f m)"
  using assms
proof (induction m)
  case (Cons e m)
  then show ?case
    by (cases "fst e = k") (auto simp: mdel_simps map_of_eq_None_iff[symmetric] split: option.splits)
qed simp

lemma sum_list_go_range [simp]:
  fixes f :: "'a \<Rightarrow> nat"
  shows "sum_list (map f (go_range p xs)) = sum_list (map f xs)"
  by (metis mset_go_range mset_map sum_mset_sum_list)

end
