(* ===== verification/Reconciler.thy ===== *)
theory Reconciler
  imports Go_Prelude
begin

text \<open>
  \<open>src/internal/orchestrator/auditor.go\<close>: the reconciler's tracking state, a map from pool name
  to a map from container id to \<open>RunnerStatus\<close>, with its operations. \<open>Audit\<close> takes the answer
  of the container engine and the iteration orders of its two map loops as arguments and returns
  the new state with the report. The second half states what the operations do to a runner's entry
  and to the number of running containers, and the contract (\<open>runner_registry\<close>) on which the pool
  controller relies.
\<close>

section \<open>State and operations\<close>

record RunnerStatus =
  rsID :: string
  rsName :: string
  rsPoolName :: string
  rsState :: string
  rsIPAddress :: string
  rsExitCode :: int
  rsSpawnedAt :: gotime
  rsIsBusy :: bool
  rsOnDemand :: bool
  rsTargetURL :: string

type_synonym pool_map = "(string, RunnerStatus) gomap"
type_synonym tracked = "(string, pool_map) gomap"

record AuditReport =
  arTotalTracked :: nat
  arActive :: "RunnerStatus list"
  arExited :: "RunnerStatus list"
  arAdopted :: "RunnerStatus list"
  arDisappeared :: "string list"

datatype audit_error = ProviderNil | AuditingRunners string

definition NewReconciler :: tracked where
  "NewReconciler = []"

definition pool_of :: "tracked \<Rightarrow> string \<Rightarrow> pool_map" where
  "pool_of T p = (case mget T p of None \<Rightarrow> [] | Some pm \<Rightarrow> pm)"

definition TrackedPoolRunners :: "nat list \<Rightarrow> string \<Rightarrow> tracked \<Rightarrow> RunnerStatus list" where
  "TrackedPoolRunners ord poolName T =
     (case mget T poolName of
        None \<Rightarrow> []
      | Some pm \<Rightarrow> map snd (go_range ord pm))"

definition TrackRunner :: "RunnerStatus \<Rightarrow> tracked \<Rightarrow> tracked" where
  "TrackRunner status T =
     mput (rsPoolName status) (mput (rsID status) status (pool_of T (rsPoolName status))) T"

definition UntrackRunner :: "string \<Rightarrow> string \<Rightarrow> tracked \<Rightarrow> tracked" where
  "UntrackRunner poolName containerID T =
     (case mget T poolName of
        None \<Rightarrow> T
      | Some pm \<Rightarrow>
          (let pm' = mdel containerID pm
           in if pm' = [] then mdel poolName T else mput poolName pm' T))"

text \<open>\<open>MarkRunnerBusy\<close> stops at the first entry, in iteration order, whose id or name matches.\<close>

fun mark_pools ::
  "(string \<Rightarrow> nat list) \<Rightarrow> string \<Rightarrow> bool \<Rightarrow> (string \<times> pool_map) list \<Rightarrow> tracked \<Rightarrow> tracked" where
  "mark_pools ords n busy [] T = T"
| "mark_pools ords n busy ((p, pm) # rest) T =
     (case find (\<lambda>(i, st). rsID st = n \<or> rsName st = n) (go_range (ords p) pm) of
        None \<Rightarrow> mark_pools ords n busy rest T
      | Some (i, st) \<Rightarrow> mput p (mput i (st\<lparr>rsIsBusy := busy\<rparr>) pm) T)"

definition MarkRunnerBusy ::
  "nat list \<Rightarrow> (string \<Rightarrow> nat list) \<Rightarrow> string \<Rightarrow> bool \<Rightarrow> tracked \<Rightarrow> tracked" where
  "MarkRunnerBusy ord ords n busy T = mark_pools ords n busy (go_range ord T) T"

subsection \<open>Audit\<close>

text \<open>What a live status inherits from the entry that is already tracked.\<close>

definition merge_status :: "RunnerStatus \<Rightarrow> RunnerStatus \<Rightarrow> RunnerStatus" where
  "merge_status existing s =
     (let s1 = (if \<not> rsIsBusy s \<and> rsIsBusy existing
                then s\<lparr>rsIsBusy := rsIsBusy existing\<rparr> else s);
          s2 = (if IsZero (rsSpawnedAt s1) \<and> \<not> IsZero (rsSpawnedAt existing)
                then s1\<lparr>rsSpawnedAt := rsSpawnedAt existing\<rparr> else s1)
      in if \<not> rsOnDemand s2 \<and> rsOnDemand existing
         then s2\<lparr>rsOnDemand := rsOnDemand existing\<rparr> else s2)"

definition audit_live :: "RunnerStatus \<Rightarrow> tracked \<times> AuditReport \<Rightarrow> tracked \<times> AuditReport" where
  "audit_live s TR =
     (let (T, rep) = TR;
          pm = pool_of T (rsPoolName s);
          (s', rep1) =
            (case mget pm (rsID s) of
               Some existing \<Rightarrow> (merge_status existing s, rep)
             | None \<Rightarrow> (s, rep\<lparr>arAdopted := arAdopted rep @ [s]\<rparr>));
          T' = mput (rsPoolName s) (mput (rsID s) s' pm) T
      in (T', if rsState s' = ''running''
              then rep1\<lparr>arActive := arActive rep1 @ [s']\<rparr>
              else rep1\<lparr>arExited := arExited rep1 @ [s']\<rparr>))"

text \<open>The sweep over the tracked pools: entries whose container the engine no longer lists.\<close>

definition audit_sweep ::
  "(string \<Rightarrow> nat list) \<Rightarrow> string list \<Rightarrow> string \<times> pool_map \<Rightarrow> tracked \<times> string list
     \<Rightarrow> tracked \<times> string list" where
  "audit_sweep ords live e TD =
     (let (p, pm) = e; (T, gone) = TD;
          ids = map fst (go_range (ords p) pm);
          gone' = gone @ filter (\<lambda>i. i \<notin> set live) ids;
          pm' = filter (\<lambda>e. fst e \<in> set live) pm
      in (if pm' = [] then mdel p T else mput p pm' T, gone'))"

definition empty_report :: AuditReport where
  "empty_report = \<lparr>arTotalTracked = 0, arActive = [], arExited = [], arAdopted = [],
     arDisappeared = []\<rparr>"

definition Audit ::
  "(string + RunnerStatus list) option \<Rightarrow> nat list \<Rightarrow> (string \<Rightarrow> nat list) \<Rightarrow> tracked
     \<Rightarrow> tracked \<times> (audit_error + AuditReport)" where
  "Audit provider ord ords T =
     (case provider of
        None \<Rightarrow> (T, Inl ProviderNil)
      | Some (Inl e) \<Rightarrow> (T, Inl (AuditingRunners e))
      | Some (Inr liveStatuses) \<Rightarrow>
          (let (T1, rep) = fold audit_live liveStatuses (T, empty_report);
               (T2, gone) = fold (audit_sweep ords (map rsID liveStatuses)) (go_range ord T1) (T1, []);
               total = sum_list (map (\<lambda>e. length (snd e)) T2)
           in (T2, Inr (rep\<lparr>arDisappeared := gone, arTotalTracked := total\<rparr>))))"

definition RebuildState ::
  "(string + RunnerStatus list) option \<Rightarrow> nat list \<Rightarrow> (string \<Rightarrow> nat list) \<Rightarrow> tracked
     \<Rightarrow> tracked \<times> (audit_error + AuditReport)" where
  "RebuildState = Audit"

section \<open>Well-formed tracking state\<close>

definition wf_pool :: "string \<Rightarrow> pool_map \<Rightarrow> bool" where
  "wf_pool p pm \<longleftrightarrow>
     wf_map pm \<and> (\<forall>e \<in> set pm. rsID (snd e) = fst e \<and> rsPoolName (snd e) = p)"

definition wf_tracked :: "tracked \<Rightarrow> bool" where
  "wf_tracked T \<longleftrightarrow> wf_map T \<and> (\<forall>e \<in> set T. wf_pool (fst e) (snd e))"

definition no_empty_pool :: "tracked \<Rightarrow> bool" where
  "no_empty_pool T \<longleftrightarrow> (\<forall>e \<in> set T. snd e \<noteq> [])"

definition lookup :: "tracked \<Rightarrow> string \<Rightarrow> string \<Rightarrow> RunnerStatus option" where
  "lookup T p i = mget (pool_of T p) i"

lemma wf_tracked_Nil [simp]: "wf_tracked []"
  by (simp add: wf_tracked_def)

lemma wf_pool_Nil [simp]: "wf_pool p []"
  by (simp add: wf_pool_def)

lemma wf_tracked_wf_map [simp, dest]: "wf_tracked T \<Longrightarrow> wf_map T"
  by (simp add: wf_tracked_def)

lemma set_mput: "wf_map m \<Longrightarrow> set (mput k v m) = insert (k, v) {e \<in> set m. fst e \<noteq> k}"
  by (induction m) (auto simp: mput_simps rev_image_eqI)

lemma wf_pool_mget: "wf_tracked T \<Longrightarrow> mget T p = Some pm \<Longrightarrow> wf_pool p pm"
  by (metis wf_tracked_def map_of_SomeD fst_conv snd_conv)

lemma wf_pool_of [simp]: "wf_tracked T \<Longrightarrow> wf_pool p (pool_of T p)"
  by (cases "mget T p") (simp_all only: pool_of_def option.case wf_pool_Nil wf_pool_mget)

lemma wf_tracked_mput: "wf_tracked T \<Longrightarrow> wf_pool p pm \<Longrightarrow> wf_tracked (mput p pm T)"
  by (auto simp: wf_tracked_def set_mput)

lemma wf_tracked_mdel: "wf_tracked T \<Longrightarrow> wf_tracked (mdel p T)"
  by (auto simp: wf_tracked_def set_mdel)

lemma wf_pool_mput:
  "wf_pool p pm \<Longrightarrow> rsID st = i \<Longrightarrow> rsPoolName st = p \<Longrightarrow> wf_pool p (mput i st pm)"
  by (auto simp: wf_pool_def set_mput)

lemma wf_pool_mdel: "wf_pool p pm \<Longrightarrow> wf_pool p (mdel i pm)"
  by (auto simp: wf_pool_def set_mdel)

lemma wf_pool_filter: "wf_pool p pm \<Longrightarrow> wf_pool p (filter P pm)"
  by (auto simp: wf_pool_def distinct_map_filter)

lemma wf_TrackRunner: "wf_tracked T \<Longrightarrow> wf_tracked (TrackRunner st T)"
  unfolding TrackRunner_def by (intro wf_tracked_mput wf_pool_mput wf_pool_of) auto

lemma wf_UntrackRunner: "wf_tracked T \<Longrightarrow> wf_tracked (UntrackRunner p i T)"
  using wf_tracked_mdel[of T p] wf_tracked_mput[of T p] wf_pool_mdel[of p _ i]
    wf_pool_mget[of T p]
  by (cases "mget T p") (simp_all only: UntrackRunner_def Let_def option.case split: if_splits, blast)

lemma pool_of_mput [simp]: "pool_of (mput p pm T) q = (if q = p then pm else pool_of T q)"
  by (simp add: pool_of_def)

lemma pool_of_mdel [simp]: "pool_of (mdel p T) q = (if q = p then [] else pool_of T q)"
  by (simp add: pool_of_def)

lemma lookup_TrackRunner:
  "lookup (TrackRunner st T) p i =
     (if p = rsPoolName st \<and> i = rsID st then Some st else lookup T p i)"
  by (simp add: lookup_def TrackRunner_def)

lemma lookup_UntrackRunner:
  "lookup (UntrackRunner q j T) p i = (if p = q \<and> i = j then None else lookup T p i)"
  by (auto simp: lookup_def UntrackRunner_def Let_def pool_of_def split: option.splits)
     (metis fun_upd_apply map_of.simps(1) mget_mdel)+

section \<open>How many containers run\<close>

definition is_running :: "RunnerStatus \<Rightarrow> bool" where
  "is_running st \<longleftrightarrow> rsState st = ''running''"

definition running_in :: "pool_map \<Rightarrow> nat" where
  "running_in pm = sum_list (map (\<lambda>e. if is_running (snd e) then 1 else 0) pm)"

definition pool_running :: "string \<Rightarrow> tracked \<Rightarrow> nat" where
  "pool_running p T = running_in (pool_of T p)"

definition total_running :: "tracked \<Rightarrow> nat" where
  "total_running T = sum_list (map (\<lambda>e. running_in (snd e)) T)"

lemma running_in_filter: "running_in pm = length (filter (\<lambda>e. is_running (snd e)) pm)"
  by (induction pm) (auto simp: running_in_def)

lemma running_in_Nil [simp]: "running_in [] = 0"
  by (simp add: running_in_def)

lemma running_in_mput:
  "wf_map pm \<Longrightarrow> running_in (mput i st pm) + (case mget pm i of None \<Rightarrow> 0 | Some w \<Rightarrow> of_bool (is_running w))
     = running_in pm + of_bool (is_running st)"
  unfolding running_in_def
  using sum_list_mput[of pm "\<lambda>e. if is_running (snd e) then 1 else 0" i st]
  by (cases "mget pm i") (simp_all only: option.case, auto)

lemma running_in_mdel:
  "wf_map pm \<Longrightarrow> running_in (mdel i pm) + (case mget pm i of None \<Rightarrow> 0 | Some w \<Rightarrow> of_bool (is_running w))
     = running_in pm"
  unfolding running_in_def
  using sum_list_mdel[of pm "\<lambda>e. if is_running (snd e) then 1 else 0" i]
  by (cases "mget pm i") (simp_all only: option.case, auto)

lemma total_running_mput:
  assumes "wf_map T"
  shows "total_running (mput p pm T) + running_in (pool_of T p) = total_running T + running_in pm"
  using sum_list_mput[OF assms, of "\<lambda>e. running_in (snd e)" p pm]
  by (auto simp: total_running_def pool_of_def split: option.splits)

lemma total_running_mdel:
  assumes "wf_map T"
  shows "total_running (mdel p T) + running_in (pool_of T p) = total_running T"
  using sum_list_mdel[OF assms, of "\<lambda>e. running_in (snd e)" p]
  by (auto simp: total_running_def pool_of_def split: option.splits)

lemma pool_running_le_total:
  assumes "wf_map T"
  shows "pool_running p T \<le> total_running T"
  using total_running_mdel[OF assms, of p] by (simp add: pool_running_def)

text \<open>Whether a running container is tracked under a pool and an id, as a number.\<close>

definition runs :: "tracked \<Rightarrow> string \<Rightarrow> string \<Rightarrow> nat" where
  "runs T p i = (case lookup T p i of None \<Rightarrow> 0 | Some w \<Rightarrow> of_bool (is_running w))"

lemma total_TrackRunner:
  assumes "wf_tracked T"
  shows "total_running (TrackRunner st T) + runs T (rsPoolName st) (rsID st)
       = total_running T + of_bool (is_running st)"
proof -
  let ?p = "rsPoolName st" and ?i = "rsID st"
  have "wf_map (pool_of T ?p)" using wf_pool_of[OF assms, of ?p] by (simp add: wf_pool_def)
  note running_in_mput[OF this, of ?i st]
  moreover have "wf_map T" using assms by simp
  note total_running_mput[OF this, of ?p "mput ?i st (pool_of T ?p)"]
  ultimately show ?thesis by (simp add: TrackRunner_def runs_def lookup_def)
qed

lemma pool_TrackRunner:
  assumes "wf_tracked T"
  shows "pool_running p (TrackRunner st T) + (if p = rsPoolName st then runs T p (rsID st) else 0)
       = pool_running p T + (if p = rsPoolName st then of_bool (is_running st) else 0)"
proof -
  have "wf_map (pool_of T (rsPoolName st))"
    using wf_pool_of[OF assms] by (simp add: wf_pool_def)
  from running_in_mput[OF this, of "rsID st" st] show ?thesis
    by (simp add: pool_running_def TrackRunner_def runs_def lookup_def)
qed

lemma UntrackRunner_pool_of:
  "pool_of (UntrackRunner q i T) p = (if p = q then mdel i (pool_of T p) else pool_of T p)"
  by (auto simp: UntrackRunner_def pool_of_def Let_def mdel_simps split: option.splits)

lemma pool_UntrackRunner:
  assumes "wf_tracked T"
  shows "pool_running p (UntrackRunner q i T) + (if p = q then runs T p i else 0) = pool_running p T"
proof -
  have "wf_map (pool_of T p)" using wf_pool_of[OF assms] by (simp add: wf_pool_def)
  from running_in_mdel[OF this, of i] show ?thesis
    by (cases "p = q") (simp_all add: pool_running_def UntrackRunner_pool_of runs_def lookup_def)
qed

lemma total_UntrackRunner:
  assumes "wf_tracked T"
  shows "total_running (UntrackRunner q i T) + runs T q i = total_running T"
proof (cases "mget T q")
  case None
  then show ?thesis by (simp add: UntrackRunner_def runs_def lookup_def pool_of_def)
next
  case (Some pm)
  then have "wf_map pm" using wf_pool_mget[OF assms] by (simp add: wf_pool_def)
  note d = running_in_mdel[OF this, of i]
  have wf: "wf_map T" using assms by simp
  from Some d total_running_mput[OF wf, of q "mdel i pm"] total_running_mdel[OF wf, of q]
  show ?thesis
    by (auto simp: UntrackRunner_def runs_def lookup_def pool_of_def Let_def)
qed

lemma length_running_TrackedPoolRunners [simp]:
  "length (filter is_running (TrackedPoolRunners ord p T)) = pool_running p T"
proof (cases "mget T p")
  case (Some pm)
  have "length (filter is_running (map snd (go_range ord pm)))
      = length (filter (\<lambda>e. is_running (snd e)) (go_range ord pm))"
    by (simp add: filter_map o_def)
  with Some show ?thesis
    by (simp add: TrackedPoolRunners_def pool_running_def pool_of_def running_in_filter)
qed (simp add: TrackedPoolRunners_def pool_running_def pool_of_def)

lemma set_TrackedPoolRunners:
  "set (TrackedPoolRunners ord p T) = snd ` set (pool_of T p)"
  by (auto simp: TrackedPoolRunners_def pool_of_def split: option.splits)


section \<open>The contract with the pool controller\<close>

text \<open>
  What the controller uses of the reconciler: registering a runner adds at most one running
  container, to the runner's own pool; forgetting one adds none and leaves the other pools alone.
\<close>

locale runner_registry =
  fixes track :: "'r \<Rightarrow> 't \<Rightarrow> 't"
    and untrack :: "string \<Rightarrow> string \<Rightarrow> 't \<Rightarrow> 't"
    and total :: "'t \<Rightarrow> nat"
    and inpool :: "string \<Rightarrow> 't \<Rightarrow> nat"
    and home :: "'r \<Rightarrow> string"
    and invar :: "'t \<Rightarrow> bool"
  assumes track_invar: "invar T \<Longrightarrow> invar (track r T)"
    and untrack_invar: "invar T \<Longrightarrow> invar (untrack p i T)"
    and track_total: "invar T \<Longrightarrow> total (track r T) \<le> Suc (total T)"
    and untrack_total: "invar T \<Longrightarrow> total (untrack p i T) \<le> total T"
    and track_home: "invar T \<Longrightarrow> inpool (home r) (track r T) \<le> Suc (inpool (home r) T)"
    and track_other: "invar T \<Longrightarrow> p \<noteq> home r \<Longrightarrow> inpool p (track r T) = inpool p T"
    and untrack_pool: "invar T \<Longrightarrow> inpool p (untrack q i T) \<le> inpool p T"
begin

lemma track_pool_le: "invar T \<Longrightarrow> inpool p (track r T) \<le> Suc (inpool p T)"
  using track_home[of T r] track_other[of T p r] by (cases "p = home r") auto

lemma guarded_track: "invar T \<Longrightarrow> total T < B \<Longrightarrow> total (track r T) \<le> B"
  using track_total[of T r] by linarith

lemma untrack_many:
  "invar T \<Longrightarrow> invar (fold (untrack p) is T) \<and> total (fold (untrack p) is T) \<le> total T
     \<and> inpool q (fold (untrack p) is T) \<le> inpool q T"
proof (induction "is" arbitrary: T)
  case (Cons i "is")
  from Cons.IH[OF untrack_invar[OF Cons.prems, of p i]] untrack_total[OF Cons.prems, of p i]
    untrack_pool[OF Cons.prems, of q p i]
  show ?case by auto
qed simp

end

interpretation registry: runner_registry TrackRunner UntrackRunner total_running pool_running
  rsPoolName wf_tracked
proof
  fix T and r :: RunnerStatus and p q i :: string
  assume wf: "wf_tracked T"
  show "wf_tracked (TrackRunner r T)" using wf by (rule wf_TrackRunner)
  show "wf_tracked (UntrackRunner p i T)" using wf by (rule wf_UntrackRunner)
  show "total_running (TrackRunner r T) \<le> Suc (total_running T)"
    using total_TrackRunner[OF wf, of r] by (cases "is_running r") auto
  show "total_running (UntrackRunner p i T) \<le> total_running T"
    using total_UntrackRunner[OF wf, of p i] by linarith
  show "pool_running (rsPoolName r) (TrackRunner r T) \<le> Suc (pool_running (rsPoolName r) T)"
    using pool_TrackRunner[OF wf, of "rsPoolName r" r] by (cases "is_running r") auto
  show "pool_running p (TrackRunner r T) = pool_running p T" if "p \<noteq> rsPoolName r"
    using pool_TrackRunner[OF wf, of p r] that by simp
  show "pool_running p (UntrackRunner q i T) \<le> pool_running p T"
    using pool_UntrackRunner[OF wf, of p q i] by linarith
qed

section \<open>Marking a runner busy\<close>

definition names :: "string \<Rightarrow> RunnerStatus \<Rightarrow> bool" where
  "names n st \<longleftrightarrow> rsID st = n \<or> rsName st = n"

lemma mark_pools_cases:
  assumes "\<And>p pm. (p, pm) \<in> set es \<Longrightarrow> mget T p = Some pm"
  obtains (none) "mark_pools ords n busy es T = T"
      "\<forall>(p, pm) \<in> set es. \<forall>e \<in> set pm. \<not> names n (snd e)"
  | (one) p pm i st where "mget T p = Some pm" "(i, st) \<in> set pm" "names n st"
      "mark_pools ords n busy es T = mput p (mput i (st\<lparr>rsIsBusy := busy\<rparr>) pm) T"
  using assms
proof (induction es arbitrary: thesis)
  case Nil
  then show ?case by simp
next
  case (Cons e es)
  obtain p pm where e: "e = (p, pm)" by (cases e)
  let ?f = "find (\<lambda>(i, st). rsID st = n \<or> rsName st = n) (go_range (ords p) pm)"
  show ?case
  proof (cases ?f)
    case None
    then have no: "\<forall>x \<in> set pm. \<not> names n (snd x)"
      by (force simp: find_None_iff names_def)
    have step: "mark_pools ords n busy (e # es) T = mark_pools ords n busy es T"
      using e None by simp
    show ?thesis
    proof (rule Cons.IH)
      assume "mark_pools ords n busy es T = T"
        and "\<forall>(p, pm) \<in> set es. \<forall>e \<in> set pm. \<not> names n (snd e)"
      then show thesis using Cons.prems(1) step no e by auto
    next
      fix q qm i st
      assume "mget T q = Some qm" "(i, st) \<in> set qm" "names n st"
        "mark_pools ords n busy es T = mput q (mput i (st\<lparr>rsIsBusy := busy\<rparr>) qm) T"
      then show thesis using Cons.prems(2) step by auto
    next
      show "\<And>p pm. (p, pm) \<in> set es \<Longrightarrow> mget T p = Some pm" using Cons.prems(3) by simp
    qed
  next
    case (Some x)
    obtain i st where x: "x = (i, st)" by (cases x)
    from Some x have "(i, st) \<in> set (go_range (ords p) pm)"
      by (metis find_Some_iff nth_mem)
    moreover from Some x have "names n st" by (auto simp: find_Some_iff names_def)
    ultimately have "(i, st) \<in> set pm" "names n st" by simp_all
    then show ?thesis using Cons.prems(2)[of p pm i st] Cons.prems(3)[of p pm] e Some x by simp
  qed
qed

lemma MarkRunnerBusy_cases:
  assumes "wf_tracked T"
  obtains (none) "MarkRunnerBusy ord ords n busy T = T"
      "\<And>p i st. lookup T p i = Some st \<Longrightarrow> \<not> names n st"
  | (one) p i st where "lookup T p i = Some st" "names n st"
      "MarkRunnerBusy ord ords n busy T = TrackRunner (st\<lparr>rsIsBusy := busy\<rparr>) T"
      "rsID st = i" "rsPoolName st = p"
proof -
  have get: "\<And>p pm. (p, pm) \<in> set (go_range ord T) \<Longrightarrow> mget T p = Some pm"
    using assms by (simp add: wf_tracked_def)
  show thesis
  proof (rule mark_pools_cases[of "go_range ord T" T ords n busy, OF get], assumption)
    assume 1: "mark_pools ords n busy (go_range ord T) T = T"
      and 2: "\<forall>(p, pm) \<in> set (go_range ord T). \<forall>e \<in> set pm. \<not> names n (snd e)"
    have "\<not> names n st" if "lookup T p i = Some st" for p i st
    proof -
      from that obtain pm where "mget T p = Some pm" "mget pm i = Some st"
        by (auto simp: lookup_def pool_of_def split: option.splits)
      then have "(p, pm) \<in> set T" "(i, st) \<in> set pm" by (simp_all add: map_of_SomeD)
      with 2 show ?thesis by fastforce
    qed
    with 1 show thesis using none by (simp add: MarkRunnerBusy_def)
  next
    fix p pm i st
    assume a: "mget T p = Some pm" "(i, st) \<in> set pm" "names n st"
      "mark_pools ords n busy (go_range ord T) T = mput p (mput i (st\<lparr>rsIsBusy := busy\<rparr>) pm) T"
    from wf_pool_mget[OF assms a(1)] a(2)
    have w: "rsID st = i" "rsPoolName st = p" "mget pm i = Some st"
      by (auto simp: wf_pool_def)
    show thesis
      by (rule one[of p i st])
         (use a w in \<open>simp_all add: lookup_def pool_of_def MarkRunnerBusy_def TrackRunner_def\<close>)
  qed
qed

lemma MarkRunnerBusy_counts:
  assumes "wf_tracked T"
  shows "wf_tracked (MarkRunnerBusy ord ords n busy T) \<and>
    total_running (MarkRunnerBusy ord ords n busy T) = total_running T \<and>
    pool_running q (MarkRunnerBusy ord ords n busy T) = pool_running q T"
proof (cases rule: MarkRunnerBusy_cases[OF assms, of ord ords n busy])
  case 1
  then show ?thesis using assms by simp
next
  case (2 p i st)
  have "runs T p i = of_bool (is_running st)" by (simp add: runs_def 2)
  moreover have "is_running (st\<lparr>rsIsBusy := busy\<rparr>) = is_running st" by (simp add: is_running_def)
  ultimately show ?thesis
    using 2 wf_TrackRunner[OF assms] total_TrackRunner[OF assms, of "st\<lparr>rsIsBusy := busy\<rparr>"]
      pool_TrackRunner[OF assms, of q "st\<lparr>rsIsBusy := busy\<rparr>"]
    by (auto split: if_splits)
qed

end
