(* ===== verification/Naming.thy ===== *)
theory Naming
  imports Go_Prelude
begin

text \<open>
  \<open>src/internal/orchestrator/naming.go\<close>: container names \<open>ghrs-<pool-slug>-<6 hex digits>\<close>.
  The random suffix is an argument. The lemmas give the shape of the slug and the length of the
  name.
\<close>

definition DockerMaxContainerNameLen :: nat where "DockerMaxContainerNameLen = 64"

definition LabelManaged :: string where "LabelManaged = ''com.github-runner-supervisor.managed''"
definition LabelPoolName :: string where "LabelPoolName = ''com.github-runner-supervisor.pool-name''"
definition LabelID :: string where "LabelID = ''com.github-runner-supervisor.id''"
definition LabelSpawnedAt :: string where
  "LabelSpawnedAt = ''com.github-runner-supervisor.spawned-at''"
definition LabelTaskType :: string where "LabelTaskType = ''com.github-runner-supervisor.task-type''"
definition LabelTargetURL :: string where
  "LabelTargetURL = ''com.github-runner-supervisor.target-url''"
definition DefaultRunnerImage :: string where
  "DefaultRunnerImage = ''ghcr.io/noosxe/runner-aio:latest''"

definition alnum :: "char \<Rightarrow> bool" where
  "alnum c \<longleftrightarrow> (let n = (of_char c :: nat) in (97 \<le> n \<and> n \<le> 122) \<or> (48 \<le> n \<and> n \<le> 57))"

text \<open>\<open>nonAlphaNumRegex.ReplaceAllString(s, "-")\<close>: each maximal run of other bytes is one hyphen.\<close>

fun replace_runs :: "bool \<Rightarrow> string \<Rightarrow> string" where
  "replace_runs inrun [] = []"
| "replace_runs inrun (c # s) =
     (if alnum c then c # replace_runs False s
      else if inrun then replace_runs True s
      else CHR ''-'' # replace_runs True s)"

definition SlugifyPoolName :: "string \<Rightarrow> string" where
  "SlugifyPoolName poolName =
     (let lower = ToLower (TrimSpace poolName);
          cleaned = replace_runs False lower;
          trimmed0 = TrimChar cleaned (CHR ''-'');
          trimmed1 = (if trimmed0 = [] then ''pool'' else trimmed0);
          maxSlugLen = DockerMaxContainerNameLen - length ''ghrs-'' - length ''-123456'';
          trimmed2 = (if length trimmed1 > maxSlugLen
                      then TrimRight (\<lambda>c. c = CHR ''-'') (take maxSlugLen trimmed1)
                      else trimmed1)
      in if trimmed2 = [] then ''pool'' else trimmed2)"

definition GenerateContainerName :: "string \<Rightarrow> string \<Rightarrow> string" where
  "GenerateContainerName randomHex poolName =
     ''ghrs-'' @ SlugifyPoolName poolName @ ''-'' @ randomHex"

lemmas [go_simps] = DockerMaxContainerNameLen_def alnum_def SlugifyPoolName_def
  GenerateContainerName_def

section \<open>Shape of a slug\<close>

definition slug_char :: "char \<Rightarrow> bool" where
  "slug_char c \<longleftrightarrow> alnum c \<or> c = CHR ''-''"

lemma set_replace_runs: "c \<in> set (replace_runs b s) \<Longrightarrow> slug_char c"
  by (induction b s rule: replace_runs.induct) (auto simp: slug_char_def split: if_splits)

lemma set_TrimChar: "set (TrimChar s c) \<subseteq> set s"
  unfolding TrimChar_def by (rule order.trans[OF set_TrimRight set_TrimLeft])

lemma hd_TrimChar: "TrimChar s c \<noteq> [] \<Longrightarrow> hd (TrimChar s c) \<noteq> c"
  using hd_TrimRight[of "\<lambda>x. x = c" "TrimLeft (\<lambda>x. x = c) s"] hd_TrimLeft[of "\<lambda>x. x = c" s]
  by (cases "TrimLeft (\<lambda>x. x = c) s = []") (simp_all add: TrimChar_def TrimRight_def)

lemma last_TrimChar: "TrimChar s c \<noteq> [] \<Longrightarrow> last (TrimChar s c) \<noteq> c"
  unfolding TrimChar_def by (rule last_TrimRight)

lemma slug_char_pool: "c \<in> set ''pool'' \<Longrightarrow> slug_char c \<and> c \<noteq> CHR ''-''"
  by (auto simp: slug_char_def alnum_def)

text \<open>
  A slug is never empty, has at most 52 bytes, consists of lower-case letters, digits and hyphens
  and neither starts nor ends with a hyphen.
\<close>

definition good_slug :: "string \<Rightarrow> bool" where
  "good_slug s \<longleftrightarrow> s \<noteq> [] \<and> length s \<le> 52 \<and> (\<forall>c \<in> set s. slug_char c) \<and>
     hd s \<noteq> CHR ''-'' \<and> last s \<noteq> CHR ''-''"

lemma good_slug_pool: "good_slug ''pool''"
  unfolding good_slug_def using slug_char_pool by auto

lemma good_slug_cut:
  assumes "s \<noteq> []" "\<forall>c \<in> set s. slug_char c" "hd s \<noteq> CHR ''-''" "last s \<noteq> CHR ''-''"
  shows "good_slug (if length s > 52 then TrimRight (\<lambda>c. c = CHR ''-'') (take 52 s) else s)"
proof (cases "length s > 52")
  case True
  let ?t = "TrimRight (\<lambda>c. c = CHR ''-'') (take 52 s)"
  obtain c s' where s: "s = c # s'" using assms(1) by (cases s) auto
  then obtain u where u: "take 52 s = c # u" by (simp add: numeral_eq_Suc)
  have ne: "?t \<noteq> []"
  proof
    assume "?t = []"
    then have "dropWhile (\<lambda>c. c = CHR ''-'') (rev (take 52 s)) = []" by (simp add: TrimRight_def)
    then have "\<forall>x \<in> set (take 52 s). x = CHR ''-''" by (simp add: dropWhile_eq_Nil_conv)
    with u s assms(3) show False by simp
  qed
  then have "hd ?t = hd s" using hd_TrimRight[OF ne] s u by simp
  moreover have "last ?t \<noteq> CHR ''-''" using last_TrimRight[OF ne] by simp
  moreover have "length ?t \<le> 52" using length_TrimRight_le[of _ "take 52 s"] by (metis length_take min.bounded_iff)
  moreover have "\<forall>c \<in> set ?t. slug_char c"
    using set_TrimRight[of "\<lambda>c. c = CHR ''-''" "take 52 s"] set_take_subset[of 52 s] assms(2) by blast
  ultimately show ?thesis using True ne assms(3) by (simp add: good_slug_def)
qed (use assms in \<open>simp add: good_slug_def\<close>)

lemma good_slug_SlugifyPoolName: "good_slug (SlugifyPoolName n)"
proof -
  define t0 where "t0 = TrimChar (replace_runs False (ToLower (TrimSpace n))) (CHR ''-'')"
  define t1 where "t1 = (if t0 = [] then ''pool'' else t0)"
  have "t1 \<noteq> [] \<and> (\<forall>c \<in> set t1. slug_char c) \<and> hd t1 \<noteq> CHR ''-'' \<and> last t1 \<noteq> CHR ''-''"
  proof (cases "t0 = []")
    case True
    then show ?thesis using good_slug_pool by (simp add: t1_def good_slug_def)
  next
    case False
    have "\<forall>c \<in> set t0. slug_char c"
      using set_TrimChar set_replace_runs unfolding t0_def by blast
    then show ?thesis using False hd_TrimChar last_TrimChar unfolding t1_def t0_def by simp
  qed
  then have good: "good_slug (if length t1 > 52 then TrimRight (\<lambda>c. c = CHR ''-'') (take 52 t1) else t1)"
    by (intro good_slug_cut) auto
  then have "(if length t1 > 52 then TrimRight (\<lambda>c. c = CHR ''-'') (take 52 t1) else t1) \<noteq> []"
    by (simp add: good_slug_def)
  moreover have "SlugifyPoolName n =
      (let t2 = (if length t1 > 52 then TrimRight (\<lambda>c. c = CHR ''-'') (take 52 t1) else t1)
       in if t2 = [] then ''pool'' else t2)"
    unfolding SlugifyPoolName_def DockerMaxContainerNameLen_def t1_def t0_def by simp
  ultimately show ?thesis using good by (simp only: Let_def if_False)
qed

text \<open>
  A container name fits into Docker's limit and alphabet. Whatever the pool is called, the name of a
  new runner is \<open>ghrs-\<close>, a slug of lower-case letters, digits and hyphens that neither starts nor ends
  with a hyphen, a hyphen and the random suffix; with the six hexadecimal digits that the program draws
  it has at most 64 bytes.
\<close>

theorem GenerateContainerName_shape:
  assumes "length hex = 6"
  shows "length (GenerateContainerName hex pool) \<le> DockerMaxContainerNameLen \<and>
     (\<exists>slug. GenerateContainerName hex pool = ''ghrs-'' @ slug @ ''-'' @ hex \<and> slug \<noteq> [] \<and>
        (\<forall>c \<in> set slug. alnum c \<or> c = CHR ''-'') \<and> hd slug \<noteq> CHR ''-'' \<and> last slug \<noteq> CHR ''-'')"
  using good_slug_SlugifyPoolName[of pool] assms
  by (auto simp: GenerateContainerName_def good_slug_def DockerMaxContainerNameLen_def slug_char_def)

theorem GenerateContainerName_shape_witness:
  "length (GenerateContainerName ''00ff0a'' ''My Pool!'') \<le> 64 \<and>
   GenerateContainerName ''00ff0a'' ''My Pool!'' = ''ghrs-my-pool-00ff0a''"
proof -
  have "GenerateContainerName ''00ff0a'' ''My Pool!'' = ''ghrs-my-pool-00ff0a''" by code_simp
  with GenerateContainerName_shape[of "''00ff0a''" "''My Pool!''"] show ?thesis
    by (simp add: DockerMaxContainerNameLen_def)
qed

end
