(* ===== verification/Go_Json.thy ===== *)
theory Go_Json
  imports Go_Prelude
begin

text \<open>
  The part of \<open>encoding/json\<close> and \<open>unicode/utf8\<close> that the supervisor uses: the grammar of a JSON
  text, as a parser into \<open>json\<close> values (\<open>parse_json\<close>), and \<open>json.Unmarshal\<close> into a slice of
  strings (\<open>Unmarshal_strings\<close>). A string literal is unquoted as Go does it: escapes are resolved,
  a lone surrogate and every byte that is no UTF-8 become U+FFFD.

  The parser takes fuel. Every call consumes a byte before it calls itself, so more fuel than the
  text has bytes is enough; \<open>parse_fuel_mono\<close> shows that more fuel never changes an answer.
\<close>

section \<open>UTF-8\<close>

abbreviation byte :: "char \<Rightarrow> nat" where "byte c \<equiv> of_char c"

definition cont :: "nat \<Rightarrow> nat \<Rightarrow> char \<Rightarrow> bool" where
  "cont lo hi c \<longleftrightarrow> lo \<le> byte c \<and> byte c \<le> hi"

text \<open>Bytes of the valid encoding a string starts with; 0 when there is none.\<close>

fun rune_len :: "string \<Rightarrow> nat" where
  "rune_len [] = 0"
| "rune_len (a # s) =
     (let n = byte a in
      if n < 128 then 1
      else if 194 \<le> n \<and> n \<le> 223 then
        (case s of b # _ \<Rightarrow> if cont 128 191 b then 2 else 0 | _ \<Rightarrow> 0)
      else if 224 \<le> n \<and> n \<le> 239 then
        (case s of b # c # _ \<Rightarrow>
            if cont (if n = 224 then 160 else 128) (if n = 237 then 159 else 191) b \<and> cont 128 191 c
            then 3 else 0
         | _ \<Rightarrow> 0)
      else if 240 \<le> n \<and> n \<le> 244 then
        (case s of b # c # d # _ \<Rightarrow>
            if cont (if n = 240 then 144 else 128) (if n = 244 then 143 else 191) b \<and>
               cont 128 191 c \<and> cont 128 191 d
            then 4 else 0
         | _ \<Rightarrow> 0)
      else 0)"

definition encode_rune :: "nat \<Rightarrow> string" where
  "encode_rune r =
     (if r < 128 then [char_of r]
      else if r < 2048 then [char_of (192 + r div 64), char_of (128 + r mod 64)]
      else if r < 65536 then
        [char_of (224 + r div 4096), char_of (128 + r div 64 mod 64), char_of (128 + r mod 64)]
      else [char_of (240 + r div 262144), char_of (128 + r div 4096 mod 64),
            char_of (128 + r div 64 mod 64), char_of (128 + r mod 64)])"

definition RuneError :: nat where "RuneError = 65533"

section \<open>JSON texts\<close>

datatype json =
  JNull
| JBool bool
| JNum string
| JStr string
| JArr "json list"
| JObj "(string \<times> json) list"

definition json_ws :: "char \<Rightarrow> bool" where
  "json_ws c \<longleftrightarrow> byte c \<in> {32, 9, 13, 10}"

abbreviation skip_ws :: "string \<Rightarrow> string" where
  "skip_ws s \<equiv> dropWhile json_ws s"

definition hex_digit :: "char \<Rightarrow> nat option" where
  "hex_digit c =
     (let n = byte c in
      if 48 \<le> n \<and> n \<le> 57 then Some (n - 48)
      else if 97 \<le> n \<and> n \<le> 102 then Some (n - 87)
      else if 65 \<le> n \<and> n \<le> 70 then Some (n - 55) else None)"

text \<open>The four hexadecimal digits after \<open>\u\<close>.\<close>

fun hex4 :: "string \<Rightarrow> nat option" where
  "hex4 (a # b # c # d # _) =
     (case (hex_digit a, hex_digit b, hex_digit c, hex_digit d) of
        (Some w, Some x, Some y, Some z) \<Rightarrow> Some (((w * 16 + x) * 16 + y) * 16 + z)
      | _ \<Rightarrow> None)"
| "hex4 _ = None"

text \<open>A low surrogate escape that completes the high surrogate \<open>hi\<close>.\<close>

fun low_surrogate :: "nat \<Rightarrow> string \<Rightarrow> nat option" where
  "low_surrogate hi (a # b # s) =
     (if byte a = 92 \<and> b = CHR ''u'' \<and> 55296 \<le> hi \<and> hi < 56320 then
        (case hex4 s of
           Some lo \<Rightarrow> if 56320 \<le> lo \<and> lo < 57344
                      then Some ((hi - 55296) * 1024 + (lo - 56320) + 65536) else None
         | None \<Rightarrow> None)
      else None)"
| "low_surrogate hi _ = None"

definition simple_escape :: "char \<Rightarrow> string option" where
  "simple_escape e =
     (if byte e = 34 \<or> byte e = 92 \<or> e = CHR ''/'' then Some [e]
      else if e = CHR ''b'' then Some [char_of (8 :: nat)]
      else if e = CHR ''f'' then Some [char_of (12 :: nat)]
      else if e = CHR ''n'' then Some [char_of (10 :: nat)]
      else if e = CHR ''r'' then Some [char_of (13 :: nat)]
      else if e = CHR ''t'' then Some [char_of (9 :: nat)] else None)"

text \<open>A string literal after its opening quote: its value and the text behind it.\<close>

function json_string :: "string \<Rightarrow> (string \<times> string) option" where
  "json_string [] = None"
| "json_string (c # s) =
     (if byte c = 34 then Some ([], s)
      else if byte c < 32 then None
      else if byte c = 92 then
        (case s of
           [] \<Rightarrow> None
         | e # r \<Rightarrow>
             (if e = CHR ''u'' then
                (case hex4 r of
                   None \<Rightarrow> None
                 | Some n \<Rightarrow>
                     (if 55296 \<le> n \<and> n < 57344 then
                        (case low_surrogate n (drop 4 r) of
                           Some m \<Rightarrow> map_option (apfst (append (encode_rune m))) (json_string (drop 10 r))
                         | None \<Rightarrow> map_option (apfst (append (encode_rune RuneError))) (json_string (drop 4 r)))
                      else map_option (apfst (append (encode_rune n))) (json_string (drop 4 r))))
              else
                (case simple_escape e of
                   None \<Rightarrow> None
                 | Some t \<Rightarrow> map_option (apfst (append t)) (json_string r))))
      else if byte c < 128 then map_option (apfst (Cons c)) (json_string s)
      else
        (case rune_len (c # s) of
           0 \<Rightarrow> map_option (apfst (append (encode_rune RuneError))) (json_string s)
         | Suc k \<Rightarrow> map_option (apfst (append (c # take k s))) (json_string (drop k s))))"
  by pat_completeness auto
termination by (relation "measure length") auto

text \<open>A number literal: the literal and the text behind it.\<close>

definition is_digit :: "char \<Rightarrow> bool" where
  "is_digit c \<longleftrightarrow> 48 \<le> byte c \<and> byte c \<le> 57"

definition json_int :: "string \<Rightarrow> (string \<times> string) option" where
  "json_int s = (case s of
     [] \<Rightarrow> None
   | c # r \<Rightarrow> if c = CHR ''0'' then Some ([c], r)
              else if is_digit c then Some (c # takeWhile is_digit r, dropWhile is_digit r)
              else None)"

definition json_frac :: "string \<Rightarrow> (string \<times> string) option" where
  "json_frac s = (case s of
     c # r \<Rightarrow> if c = CHR ''.'' then
                (if takeWhile is_digit r = [] then None
                 else Some (c # takeWhile is_digit r, dropWhile is_digit r))
              else Some ([], s)
   | [] \<Rightarrow> Some ([], s))"

definition json_exp :: "string \<Rightarrow> (string \<times> string) option" where
  "json_exp s = (case s of
     c # r \<Rightarrow> if c = CHR ''e'' \<or> c = CHR ''E'' then
                (let (sg, r') = (case r of d # t \<Rightarrow> if d = CHR ''+'' \<or> d = CHR ''-'' then ([d], t)
                                                    else ([], r)
                                 | [] \<Rightarrow> ([], r))
                 in if takeWhile is_digit r' = [] then None
                    else Some (c # sg @ takeWhile is_digit r', dropWhile is_digit r'))
              else Some ([], s)
   | [] \<Rightarrow> Some ([], s))"

definition json_number :: "string \<Rightarrow> (string \<times> string) option" where
  "json_number s =
     (let (sg, s0) = (case s of c # r \<Rightarrow> if c = CHR ''-'' then ([c], r) else ([], s) | [] \<Rightarrow> ([], s))
      in case json_int s0 of
           None \<Rightarrow> None
         | Some (i, s1) \<Rightarrow>
             (case json_frac s1 of
                None \<Rightarrow> None
              | Some (f, s2) \<Rightarrow>
                  (case json_exp s2 of
                     None \<Rightarrow> None
                   | Some (e, s3) \<Rightarrow> Some (sg @ i @ f @ e, s3))))"

definition maxNestingDepth :: nat where "maxNestingDepth = 10000"

text \<open>
  Values, the elements of an array and the members of an object. The lists are read after their
  opening bracket or after a comma; \<open>d\<close> is the nesting depth.
\<close>

fun json_value :: "nat \<Rightarrow> nat \<Rightarrow> string \<Rightarrow> (json \<times> string) option"
and json_elems :: "nat \<Rightarrow> nat \<Rightarrow> string \<Rightarrow> (json list \<times> string) option"
and json_members :: "nat \<Rightarrow> nat \<Rightarrow> string \<Rightarrow> ((string \<times> json) list \<times> string) option" where
  "json_value 0 d s = None"
| "json_value (Suc n) d s =
     (case skip_ws s of
        [] \<Rightarrow> None
      | c # r \<Rightarrow>
          (if c = CHR ''['' then
             (if d \<ge> maxNestingDepth then None
              else (case skip_ws r of
                      c' # r' \<Rightarrow> if c' = CHR '']'' then Some (JArr [], r')
                                else map_option (apfst JArr) (json_elems n (Suc d) r)
                    | [] \<Rightarrow> None))
           else if c = CHR ''{'' then
             (if d \<ge> maxNestingDepth then None
              else (case skip_ws r of
                      c' # r' \<Rightarrow> if c' = CHR ''}'' then Some (JObj [], r')
                                else map_option (apfst JObj) (json_members n (Suc d) r)
                    | [] \<Rightarrow> None))
           else if byte c = 34 then map_option (apfst JStr) (json_string r)
           else if HasPrefix (c # r) ''null'' then Some (JNull, drop 3 r)
           else if HasPrefix (c # r) ''true'' then Some (JBool True, drop 3 r)
           else if HasPrefix (c # r) ''false'' then Some (JBool False, drop 4 r)
           else map_option (apfst JNum) (json_number (c # r))))"
| "json_elems 0 d s = None"
| "json_elems (Suc n) d s =
     (case json_value n d s of
        None \<Rightarrow> None
      | Some (v, r) \<Rightarrow>
          (case skip_ws r of
             [] \<Rightarrow> None
           | c # r' \<Rightarrow>
               (if c = CHR '']'' then Some ([v], r')
                else if c = CHR '','' then map_option (apfst (Cons v)) (json_elems n d r')
                else None)))"
| "json_members 0 d s = None"
| "json_members (Suc n) d s =
     (case skip_ws s of
        [] \<Rightarrow> None
      | q # r \<Rightarrow>
          (if byte q \<noteq> 34 then None
           else (case json_string r of
                   None \<Rightarrow> None
                 | Some (k, r1) \<Rightarrow>
                     (case skip_ws r1 of
                        [] \<Rightarrow> None
                      | c # r2 \<Rightarrow>
                          (if c \<noteq> CHR '':'' then None
                           else (case json_value n d r2 of
                                   None \<Rightarrow> None
                                 | Some (v, r3) \<Rightarrow>
                                     (case skip_ws r3 of
                                        [] \<Rightarrow> None
                                      | e # r4 \<Rightarrow>
                                          (if e = CHR ''}'' then Some ([(k, v)], r4)
                                           else if e = CHR '','' then
                                             map_option (apfst (Cons (k, v))) (json_members n d r4)
                                           else None))))))))"

definition parse_json :: "string \<Rightarrow> json option" where
  "parse_json s =
     (case json_value (Suc (2 * length s)) 0 s of
        Some (v, r) \<Rightarrow> if skip_ws r = [] then Some v else None
      | None \<Rightarrow> None)"

section \<open>Decoding into a slice of strings\<close>

text \<open>
  \<open>json.Unmarshal\<close> into a nil \<open>[]string\<close>: \<open>null\<close> leaves the slice empty, a \<open>null\<close> element leaves
  the zero value, an element of any other type is an error.
\<close>

fun string_elems :: "json list \<Rightarrow> string list option" where
  "string_elems [] = Some []"
| "string_elems (JStr s # vs) = map_option (Cons s) (string_elems vs)"
| "string_elems (JNull # vs) = map_option (Cons []) (string_elems vs)"
| "string_elems _ = None"

definition Unmarshal_strings :: "string \<Rightarrow> string list option" where
  "Unmarshal_strings s =
     (case parse_json s of
        Some (JArr vs) \<Rightarrow> string_elems vs
      | Some JNull \<Rightarrow> Some []
      | _ \<Rightarrow> None)"

section \<open>Fuel\<close>

lemma parse_fuel_step:
  "(\<forall>d s x. json_value n d s = Some x \<longrightarrow> json_value (Suc n) d s = Some x) \<and>
   (\<forall>d s y. json_elems n d s = Some y \<longrightarrow> json_elems (Suc n) d s = Some y) \<and>
   (\<forall>d s z. json_members n d s = Some z \<longrightarrow> json_members (Suc n) d s = Some z)"
proof (induction n)
  case (Suc n)
  note [simp del] = json_value.simps json_elems.simps json_members.simps
  from Suc have v: "\<And>d s x. json_value n d s = Some x \<Longrightarrow> json_value (Suc n) d s = Some x"
    and e: "\<And>d s x. json_elems n d s = Some x \<Longrightarrow> json_elems (Suc n) d s = Some x"
    and m: "\<And>d s x. json_members n d s = Some x \<Longrightarrow> json_members (Suc n) d s = Some x"
    by auto
  have "json_value (Suc (Suc n)) d s = Some x" if "json_value (Suc n) d s = Some x" for d s x
    using that unfolding json_value.simps(2)[of "Suc n" d s] json_value.simps(2)[of n d s]
    by (cases "skip_ws s") (simp_all split: if_split_asm list.split_asm, auto dest: e m)
  moreover have "json_elems (Suc (Suc n)) d s = Some x" if "json_elems (Suc n) d s = Some x" for d s x
    using that unfolding json_elems.simps(2)[of "Suc n" d s] json_elems.simps(2)[of n d s]
    by (cases "json_value n d s")
       (simp_all split: if_split_asm list.split_asm prod.split_asm, auto simp: v dest: e)
  moreover have "json_members (Suc (Suc n)) d s = Some x" if "json_members (Suc n) d s = Some x" for d s x
    using that unfolding json_members.simps(2)[of "Suc n" d s] json_members.simps(2)[of n d s]
    by (simp split: if_split_asm list.split_asm option.split_asm prod.split_asm)
       (auto simp: v dest: m)
  ultimately show ?case by blast
qed simp

lemma parse_fuel_mono:
  assumes "n \<le> m"
  shows "json_value n d s = Some x \<Longrightarrow> json_value m d s = Some x"
  using assms by (induction m rule: dec_induct) (use parse_fuel_step in blast)+

end
