(* ===== verification/Log_Files.thy ===== *)
theory Log_Files
  imports Go_Prelude
begin

text \<open>
  \<open>path/filepath\<close> on a Unix system (\<open>Clean\<close>, \<open>Join\<close>), and the location of a runner's captured log
  of \<open>src/internal/orchestrator/logs.go\<close>.
\<close>

section \<open>Paths\<close>

text \<open>One step of \<open>Clean\<close> over the components; \<open>out\<close> holds the result's components in reverse.\<close>

definition clean_step :: "bool \<Rightarrow> string \<Rightarrow> string list \<Rightarrow> string list" where
  "clean_step rooted c out =
     (if c = [] \<or> c = ''.'' then out
      else if c = ''..'' then
        (case out of
           [] \<Rightarrow> if rooted then [] else [''..'']
         | o1 # os \<Rightarrow> if o1 = ''..'' then ''..'' # out else os)
      else c # out)"

definition Clean :: "string \<Rightarrow> string" where
  "Clean path =
     (let rooted = HasPrefix path ''/'';
          out = rev (fold (clean_step rooted) (Split path (CHR ''/'')) []);
          res = (if rooted then ''/'' else []) @ Join out ''/''
      in if res = [] then ''.'' else res)"

definition path_join :: "string list \<Rightarrow> string" where
  "path_join elem =
     (let rest = dropWhile (\<lambda>e. e = []) elem in if rest = [] then [] else Clean (Join rest ''/''))"

lemmas [go_simps] = clean_step_def Clean_def path_join_def

section \<open>Runner logs\<close>

definition LogPath :: "string \<Rightarrow> string \<Rightarrow> string" where
  "LogPath dataDir runnerID = path_join [dataDir, ''logs'', runnerID @ ''.log.jsonl.gz'']"

lemma LogPath_example: "LogPath ''/data/'' ''abc'' = ''/data/logs/abc.log.jsonl.gz''"
  by (simp add: LogPath_def go_simps)

end
