(* ===== verification/Controller.thy ===== *)
theory Controller
  imports Go_Effects Reconciler Naming Go_Json Log_Files
begin

text \<open>
  \<open>src/internal/orchestrator/controller.go\<close>: the pool controller. Its state is the record
  \<open>controller\<close> (the tracked runners of its reconciler, the provisioning queue, the lifecycle state,
  the heartbeat and the global quota) and every method is a computation over it.

  What lies outside is a parameter, \<open>deps\<close>: the database, the container engine, the Git providers,
  the clock, random names and map iteration orders. An external call takes the number of
  the call (\<open>tick\<close>) as an argument, so that its answers may differ from call to call and no
  assumption is made about them. A dependency that Go allows to be nil is an \<open>option\<close>. The calls
  that change something outside are recorded in \<open>trace\<close>, oldest first. Where the code would
  dereference a nil dependency \<open>panicked\<close> is set; what follows in such a run has no meaning.
\<close>

section \<open>Data\<close>

record RunnerPool =
  pID :: int
  pName :: string
  pProvider :: string
  pRepositoryUrl :: string
  pScope :: string
  pAuthProfileID :: int
  pMinIdleRunners :: int
  pMaxConcurrency :: int
  pLabels :: string
  pRunnerImage :: string
  pAllowDocker :: bool
  pMaxRunnerLifetimeSeconds :: int
  pCpuLimit :: "string option"
  pMemoryLimit :: "string option"
  pCreatedAt :: gotime
  pUpdatedAt :: gotime

record PoolTarget =
  ptID :: int
  ptPoolID :: int
  ptTargetUrl :: string
  ptCreatedAt :: gotime

record RunnerConfig =
  rcName :: string
  rcRepoURL :: string
  rcToken :: string
  rcLabels :: "string list"
  rcWorkDir :: string
  rcImage :: string
  rcCPULimit :: string
  rcMemoryLimit :: string
  rcAllowDocker :: bool
  rcEnv :: "string list"
  rcPoolName :: string
  rcDockerHostID :: string
  rcNetwork :: string

definition empty_config :: RunnerConfig where
  "empty_config = \<lparr>rcName = [], rcRepoURL = [], rcToken = [], rcLabels = [], rcWorkDir = [],
     rcImage = [], rcCPULimit = [], rcMemoryLimit = [], rcAllowDocker = False, rcEnv = [],
     rcPoolName = [], rcDockerHostID = [], rcNetwork = []\<rparr>"

record ProvisionRequest =
  prPoolName :: string
  prTargetURL :: string
  prCreatedAt :: gotime

record ContainerEvent =
  ceContainerID :: string
  cePoolName :: string
  ceAction :: string
  ceExitCode :: int
  ceTimestamp :: gotime

datatype ControllerState = StateStopped | StateBooting | StateRunning | StatePaused

datatype ScalingMode = ScalingWebhook | ScalingPolling

datatype go_error =
  ErrControllerStopped
| ErrEngineUnreachable string
| LoadingPools string
| ResolvingProvider string
| ValidatingCredentials string
| RegistrationToken string
| SpawningRunner string
| EngineError string
| ContextDone

text \<open>The calls by which the controller changes the world outside.\<close>

datatype effect =
  Spawned RunnerConfig string
| SpawnFailed RunnerConfig
| Terminated string
| Deregistered string string string
| CapturedLogs string
| RecordedTimeout int string string gotime gotime
| TaskExit string int string

section \<open>Interfaces\<close>

record ContainerProvider =
  cpSpawnRunner :: "nat \<Rightarrow> RunnerConfig \<Rightarrow> string + string"
  cpTerminateRunner :: "nat \<Rightarrow> string \<Rightarrow> string option"
  cpAuditRunners :: "nat \<Rightarrow> string + RunnerStatus list"
  cpCaptureLogs :: "nat \<Rightarrow> string \<Rightarrow> string \<Rightarrow> string \<times> string option"
  cpPing :: "nat \<Rightarrow> string option"

record GitProvider =
  gpScalingMode :: ScalingMode
  gpGetRegistrationToken :: "nat \<Rightarrow> string \<Rightarrow> string \<Rightarrow> string + string"
  gpValidateCredentials :: "nat \<Rightarrow> string option"
  gpPollQueuedJobs :: "nat \<Rightarrow> string \<Rightarrow> string + int"
  gpDeregisterRunner :: "(nat \<Rightarrow> string \<Rightarrow> string \<Rightarrow> string \<Rightarrow> string option) option"

record PoolRepository =
  dbListRunnerPools :: "nat \<Rightarrow> string + RunnerPool list"
  dbListPoolTargetsByPoolId :: "(nat \<Rightarrow> int \<Rightarrow> string + PoolTarget list) option"
  dbGetAppSetting :: "(nat \<Rightarrow> string \<Rightarrow> string + string) option"
  dbRecordJobTimeout :: "(nat \<Rightarrow> int \<Rightarrow> string \<Rightarrow> string \<Rightarrow> gotime \<Rightarrow> gotime \<Rightarrow> string option) option"

record deps =
  db :: "PoolRepository option"
  jobRecorder :: "(nat \<Rightarrow> int \<Rightarrow> string \<Rightarrow> string \<Rightarrow> gotime \<Rightarrow> gotime \<Rightarrow> string option) option"
  engine :: "ContainerProvider option"
  providerResolver :: "(nat \<Rightarrow> int \<Rightarrow> string + GitProvider) option"
  reconciler :: "ContainerProvider option option"
  taskExitHandler :: "(nat \<Rightarrow> string \<Rightarrow> int \<Rightarrow> string \<Rightarrow> bool \<times> string option) option"
  dataDir :: string
  shutdownTimeout :: duration
  shutdownPollInterval :: duration
  interval :: duration
  scaleToZeroGracePeriod :: duration
  Now :: "nat \<Rightarrow> gotime"
  randomHex :: "nat \<Rightarrow> string"
  pool_order :: "nat \<Rightarrow> nat list"
  runner_order :: "nat \<Rightarrow> string \<Rightarrow> nat list"

record controller =
  tracked :: tracked
  queue :: "ProvisionRequest list"
  cstate :: ControllerState
  lastHeartbeat :: gotime
  globalMaxRunners :: int
  tick :: nat
  trace :: "effect list"
  panicked :: bool

section \<open>Construction and lifecycle state\<close>

record ControllerOptions =
  oDB :: "PoolRepository option"
  oJobRecorder :: "(nat \<Rightarrow> int \<Rightarrow> string \<Rightarrow> string \<Rightarrow> gotime \<Rightarrow> gotime \<Rightarrow> string option) option"
  oContainerEngine :: "ContainerProvider option"
  oProviderResolver :: "(nat \<Rightarrow> int \<Rightarrow> string + GitProvider) option"
  oReconciler :: "(ContainerProvider option \<times> tracked) option"
  oDataDir :: string
  oGlobalMaxRunners :: int
  oShutdownTimeout :: duration
  oShutdownPollInterval :: duration
  oInterval :: duration
  oScaleToZeroGracePeriod :: duration
  oTaskExitHandler :: "(nat \<Rightarrow> string \<Rightarrow> int \<Rightarrow> string \<Rightarrow> bool \<times> string option) option"

definition DefaultControlLoopInterval :: duration where "DefaultControlLoopInterval = 10 * Second"
definition DefaultHeartbeatTimeout :: duration where "DefaultHeartbeatTimeout = 30 * Second"
definition DefaultTotalAllowedRunners :: int where "DefaultTotalAllowedRunners = 20"
definition DefaultShutdownTimeout :: duration where "DefaultShutdownTimeout = 300 * Second"
definition DefaultShutdownPollInterval :: duration where "DefaultShutdownPollInterval = 5 * Second"
definition DefaultScaleToZeroGracePeriod :: duration where
  "DefaultScaleToZeroGracePeriod = 5 * Minute"

text \<open>
  The clock, the random names and the iteration orders come with the environment \<open>env\<close>, whose
  other fields are ignored.
\<close>

definition NewPoolController :: "deps \<Rightarrow> ControllerOptions \<Rightarrow> deps \<times> controller" where
  "NewPoolController env opts =
     (let intv = (if oInterval opts \<le> 0 then DefaultControlLoopInterval else oInterval opts);
          rec = (case oReconciler opts of
                   None \<Rightarrow> (if oContainerEngine opts \<noteq> None
                            then Some (oContainerEngine opts, NewReconciler) else None)
                 | Some r \<Rightarrow> Some r);
          globalMax = (if oGlobalMaxRunners opts \<le> 0 then DefaultTotalAllowedRunners
                       else oGlobalMaxRunners opts);
          sTimeout = (if oShutdownTimeout opts \<le> 0 then DefaultShutdownTimeout
                      else oShutdownTimeout opts);
          sPoll = (if oShutdownPollInterval opts \<le> 0 then DefaultShutdownPollInterval
                   else oShutdownPollInterval opts);
          jobRec = (case oJobRecorder opts of
                      None \<Rightarrow> (case oDB opts of None \<Rightarrow> None | Some r \<Rightarrow> dbRecordJobTimeout r)
                    | Some r \<Rightarrow> Some r);
          grace = (if oScaleToZeroGracePeriod opts \<le> 0 then DefaultScaleToZeroGracePeriod
                   else oScaleToZeroGracePeriod opts)
      in (env\<lparr>db := oDB opts, jobRecorder := jobRec, engine := oContainerEngine opts,
              providerResolver := oProviderResolver opts, reconciler := map_option fst rec,
              taskExitHandler := oTaskExitHandler opts, dataDir := oDataDir opts,
              shutdownTimeout := sTimeout, shutdownPollInterval := sPoll, interval := intv,
              scaleToZeroGracePeriod := grace\<rparr>,
          \<lparr>tracked = (case rec of None \<Rightarrow> [] | Some r \<Rightarrow> snd r), queue = [], cstate = StateStopped,
           lastHeartbeat = zero_time, globalMaxRunners = globalMax, tick = 0, trace = [],
           panicked = False\<rparr>))"

definition State :: "controller \<Rightarrow> ControllerState" where
  "State c = cstate c"

definition set_state :: "ControllerState \<Rightarrow> (controller, unit) state" where
  "set_state st = modify (\<lambda>c. c\<lparr>cstate := st\<rparr>)"

definition Pause :: "(controller, unit) state" where
  "Pause = modify (\<lambda>c. if cstate c = StateRunning then c\<lparr>cstate := StatePaused\<rparr> else c)"

definition Resume :: "(controller, unit) state" where
  "Resume = modify (\<lambda>c. if cstate c = StatePaused then c\<lparr>cstate := StateRunning\<rparr> else c)"

section \<open>External calls\<close>

definition next_tick :: "(controller, nat) state" where
  "next_tick = do { n \<leftarrow> gets tick; modify (\<lambda>c. c\<lparr>tick := Suc n\<rparr>); State_Monad.return n }"

definition emit :: "effect \<Rightarrow> (controller, unit) state" where
  "emit e = modify (\<lambda>c. c\<lparr>trace := trace c @ [e]\<rparr>)"

definition nil_panic :: "(controller, unit) state" where
  "nil_panic = modify (\<lambda>c. c\<lparr>panicked := True\<rparr>)"

definition time_now :: "deps \<Rightarrow> (controller, gotime) state" where
  "time_now d = do { n \<leftarrow> next_tick; State_Monad.return (Now d n) }"

definition engine_terminate :: "ContainerProvider \<Rightarrow> string \<Rightarrow> (controller, string option) state" where
  "engine_terminate e i = do {
     n \<leftarrow> next_tick;
     emit (Terminated i);
     State_Monad.return (cpTerminateRunner e n i)
   }"

definition engine_capture :: "ContainerProvider \<Rightarrow> string \<Rightarrow> string \<Rightarrow> (controller, string) state" where
  "engine_capture e i dir = do {
     n \<leftarrow> next_tick;
     emit (CapturedLogs i);
     State_Monad.return (fst (cpCaptureLogs e n i dir))
   }"

definition track :: "RunnerStatus \<Rightarrow> (controller, unit) state" where
  "track r = modify (\<lambda>c. c\<lparr>tracked := TrackRunner r (tracked c)\<rparr>)"

definition untrack :: "string \<Rightarrow> string \<Rightarrow> (controller, unit) state" where
  "untrack p i = modify (\<lambda>c. c\<lparr>tracked := UntrackRunner p i (tracked c)\<rparr>)"

definition tracked_pool_runners :: "deps \<Rightarrow> string \<Rightarrow> (controller, RunnerStatus list) state" where
  "tracked_pool_runners d p = do {
     n \<leftarrow> next_tick;
     gets (\<lambda>c. TrackedPoolRunners (runner_order d n p) p (tracked c))
   }"

definition run_audit ::
  "deps \<Rightarrow> ContainerProvider option \<Rightarrow> (controller, audit_error + AuditReport) state" where
  "run_audit d prov = do {
     n \<leftarrow> next_tick;
     T \<leftarrow> gets tracked;
     let (T', r) = Audit (map_option (\<lambda>e. cpAuditRunners e n) prov) (pool_order d n) (runner_order d n) T;
     modify (\<lambda>c. c\<lparr>tracked := T'\<rparr>);
     State_Monad.return r
   }"

section \<open>Counting\<close>

definition TotalActiveRunners :: "deps \<Rightarrow> controller \<Rightarrow> int" where
  "TotalActiveRunners d c =
     (if reconciler d = None then 0
      else fold (\<lambda>(p, poolMap) n.
             fold (\<lambda>(i, r) n. if rsState r = ''running'' then n + 1 else n) poolMap n) (tracked c) 0)"

text \<open>The number of busy and of idle running containers; \<open>int32\<close> counters.\<close>

definition count_runner :: "string \<times> RunnerStatus \<Rightarrow> int \<times> int \<Rightarrow> int \<times> int" where
  "count_runner e acc =
     (let (i, r) = e; (active, idle) = acc
      in if rsState r = ''running'' then (if rsIsBusy r then (active + 1, idle) else (active, idle + 1))
         else (active, idle))"

definition PoolStats :: "deps \<Rightarrow> string \<Rightarrow> controller \<Rightarrow> int \<times> int" where
  "PoolStats d poolName c =
     (if reconciler d = None then (0, 0)
      else (case mget (tracked c) poolName of
              None \<Rightarrow> (0, 0)
            | Some poolMap \<Rightarrow> fold count_runner poolMap (0, 0)))"

definition SystemRunnerStats :: "deps \<Rightarrow> controller \<Rightarrow> int \<times> int" where
  "SystemRunnerStats d c =
     (if reconciler d = None then (0, 0)
      else fold (\<lambda>(p, poolMap) acc. fold count_runner poolMap acc) (tracked c) (0, 0))"

definition QueueLength :: "controller \<Rightarrow> int" where
  "QueueLength c = int (length (queue c))"

definition QueueLengthForPool :: "string \<Rightarrow> controller \<Rightarrow> int" where
  "QueueLengthForPool poolName c =
     fold (\<lambda>req n. if prPoolName req = poolName then n + 1 else n) (queue c) 0"

definition running_count :: "RunnerStatus list \<Rightarrow> int" where
  "running_count rs = fold (\<lambda>r n. if rsState r = ''running'' then n + 1 else n) rs 0"

section \<open>Pools and their targets\<close>

definition loadPools :: "deps \<Rightarrow> (controller, string + RunnerPool list) state" where
  "loadPools d =
     (case db d of
        None \<Rightarrow> State_Monad.return (Inr [])
      | Some r \<Rightarrow> do { n \<leftarrow> next_tick; State_Monad.return (dbListRunnerPools r n) })"

definition own_target :: "RunnerPool \<Rightarrow> string list" where
  "own_target p = (if TrimSpace (pRepositoryUrl p) \<noteq> [] then [TrimSpace (pRepositoryUrl p)] else [])"

definition clean_targets :: "PoolTarget list \<Rightarrow> string list" where
  "clean_targets ts = filter (\<lambda>u. u \<noteq> []) (map (\<lambda>t. TrimSpace (ptTargetUrl t)) ts)"

definition loadPoolTargets :: "deps \<Rightarrow> RunnerPool \<Rightarrow> (controller, string list) state" where
  "loadPoolTargets d p =
     (case (case db d of None \<Rightarrow> None | Some r \<Rightarrow> dbListPoolTargetsByPoolId r) of
        None \<Rightarrow> State_Monad.return (own_target p)
      | Some list \<Rightarrow> do {
          n \<leftarrow> next_tick;
          State_Monad.return
            (case list n (pID p) of
               Inl _ \<Rightarrow> own_target p
             | Inr ts \<Rightarrow> if clean_targets ts \<noteq> [] then clean_targets ts else own_target p)
        })"

definition runner_label :: "RunnerStatus \<Rightarrow> string" where
  "runner_label r = (if rsName r = [] then rsID r else rsName r)"

definition deregisterRunner :: "deps \<Rightarrow> RunnerStatus \<Rightarrow> (controller, unit) state" where
  "deregisterRunner d r =
     (case providerResolver d of
        None \<Rightarrow> skip
      | Some resolve \<Rightarrow> do {
          res \<leftarrow> loadPools d;
          case res of
            Inl _ \<Rightarrow> skip
          | Inr pools \<Rightarrow>
              (case find (\<lambda>p. pName p = rsPoolName r) pools of
                 None \<Rightarrow> skip
               | Some p \<Rightarrow> do {
                   n \<leftarrow> next_tick;
                   case resolve n (pAuthProfileID p) of
                     Inl _ \<Rightarrow> skip
                   | Inr gitProv \<Rightarrow>
                       (case gpDeregisterRunner gitProv of
                          None \<Rightarrow> skip
                        | Some dereg \<Rightarrow> do {
                            m \<leftarrow> next_tick;
                            emit (Deregistered (pScope p)
                                   (if rsTargetURL r = [] then pRepositoryUrl p else rsTargetURL r)
                                   (runner_label r))
                          })
                 })
        })"

text \<open>The three calls by which a runner of pool \<open>poolName\<close> is scaled down.\<close>

definition remove_runner :: "deps \<Rightarrow> ContainerProvider \<Rightarrow> string \<Rightarrow> RunnerStatus \<Rightarrow> (controller, unit) state"
  where
  "remove_runner d e poolName r = do {
     deregisterRunner d r;
     engine_terminate e (rsID r);
     untrack poolName (rsID r)
   }"

section \<open>Spawning\<close>

definition formatLabels :: "string \<Rightarrow> string" where
  "formatLabels raw =
     (if raw = [] then ''self-hosted,linux''
      else (case Unmarshal_strings raw of
              Some arr \<Rightarrow> if arr \<noteq> [] then Join arr '','' else raw
            | None \<Rightarrow> raw))"

definition runner_env :: "RunnerPool \<Rightarrow> string \<Rightarrow> string \<Rightarrow> string \<Rightarrow> string list" where
  "runner_env p targetURL token containerName =
     [''GITHUB_REPOSITORY_URL='' @ targetURL,
      ''RUNNER_TOKEN='' @ token,
      ''RUNNER_NAME='' @ containerName,
      ''RUNNER_LABELS='' @ formatLabels (pLabels p),
      ''RUNNER_WORKDIR=_work'',
      ''RUNNER_EPHEMERAL=1''] @
     (if Contains (ToLower (pProvider p)) ''gitea'' then [''GITEA_INSTANCE_URL='' @ targetURL]
      else if Contains (ToLower (pProvider p)) ''forgejo'' then [''FORGEJO_INSTANCE_URL='' @ targetURL]
      else [])"

definition runner_config :: "RunnerPool \<Rightarrow> string \<Rightarrow> string \<Rightarrow> string \<Rightarrow> RunnerConfig" where
  "runner_config p targetURL token containerName =
     empty_config\<lparr>rcName := containerName, rcPoolName := pName p, rcRepoURL := targetURL,
       rcToken := token, rcImage := pRunnerImage p, rcAllowDocker := pAllowDocker p,
       rcEnv := runner_env p targetURL token containerName,
       rcCPULimit := (case pCpuLimit p of None \<Rightarrow> [] | Some l \<Rightarrow> l),
       rcMemoryLimit := (case pMemoryLimit p of None \<Rightarrow> [] | Some l \<Rightarrow> l)\<rparr>"

definition new_status :: "RunnerPool \<Rightarrow> string \<Rightarrow> string \<Rightarrow> gotime \<Rightarrow> bool \<Rightarrow> string \<Rightarrow> RunnerStatus" where
  "new_status p i containerName now onDemand targetURL =
     \<lparr>rsID = i, rsName = containerName, rsPoolName = pName p, rsState = ''running'',
      rsIPAddress = [], rsExitCode = 0, rsSpawnedAt = now, rsIsBusy = False, rsOnDemand = onDemand,
      rsTargetURL = targetURL\<rparr>"

definition register_runner :: "deps \<Rightarrow> RunnerStatus \<Rightarrow> (controller, unit) state" where
  "register_runner d r = (if reconciler d = None then nil_panic else track r)"

text \<open>From the registration token on.\<close>

definition spawn_with ::
  "deps \<Rightarrow> RunnerPool \<Rightarrow> GitProvider \<Rightarrow> bool \<Rightarrow> string \<Rightarrow> (controller, go_error option) state" where
  "spawn_with d p gitProv onDemand targetURL = do {
     n \<leftarrow> next_tick;
     case gpGetRegistrationToken gitProv n (pScope p) targetURL of
       Inl e \<Rightarrow> State_Monad.return (Some (RegistrationToken e))
     | Inr token \<Rightarrow> do {
         h \<leftarrow> next_tick;
         let containerName = GenerateContainerName (randomHex d h) (pName p);
         let config = runner_config p targetURL token containerName;
         case engine d of
           None \<Rightarrow> do { nil_panic; State_Monad.return None }
         | Some e \<Rightarrow> do {
             k \<leftarrow> next_tick;
             case cpSpawnRunner e k config of
               Inl er \<Rightarrow> do { emit (SpawnFailed config); State_Monad.return (Some (SpawningRunner er)) }
             | Inr i \<Rightarrow> do {
                 emit (Spawned config i);
                 now \<leftarrow> time_now d;
                 register_runner d (new_status p i containerName now onDemand targetURL);
                 State_Monad.return None
               }
           }
       }
   }"

definition spawnSingleRunner ::
  "deps \<Rightarrow> RunnerPool \<Rightarrow> GitProvider option \<Rightarrow> bool \<Rightarrow> string \<Rightarrow> (controller, go_error option) state"
  where
  "spawnSingleRunner d p gitProv onDemand targetURL0 =
     (let targetURL = (if targetURL0 = [] then pRepositoryUrl p else targetURL0)
      in case gitProv of
           Some g \<Rightarrow> spawn_with d p g onDemand targetURL
         | None \<Rightarrow>
             (case providerResolver d of
                None \<Rightarrow> do { nil_panic; State_Monad.return None }
              | Some resolve \<Rightarrow> do {
                  n \<leftarrow> next_tick;
                  case resolve n (pAuthProfileID p) of
                    Inl e \<Rightarrow> State_Monad.return (Some (ResolvingProvider e))
                  | Inr g \<Rightarrow> spawn_with d p g onDemand targetURL
                }))"

definition enqueueRequest :: "deps \<Rightarrow> string \<Rightarrow> string \<Rightarrow> (controller, unit) state" where
  "enqueueRequest d poolName targetURL = do {
     now \<leftarrow> time_now d;
     modify (\<lambda>c. c\<lparr>queue := queue c @
       [\<lparr>prPoolName = poolName, prTargetURL = targetURL, prCreatedAt = now\<rparr>]\<rparr>)
   }"

text \<open>Whether the global quota is exhausted.\<close>

definition saturated :: "deps \<Rightarrow> controller \<Rightarrow> bool" where
  "saturated d c \<longleftrightarrow> globalMaxRunners c > 0 \<and> TotalActiveRunners d c \<ge> globalMaxRunners c"

section \<open>The provisioning queue\<close>

definition pool_index :: "RunnerPool list \<Rightarrow> (string, RunnerPool) gomap" where
  "pool_index pools = fold (\<lambda>p m. mput (pName p) p m) pools []"

text \<open>The target of a queued request that names none.\<close>

definition request_target ::
  "deps \<Rightarrow> RunnerPool \<Rightarrow> int \<Rightarrow> ProvisionRequest \<Rightarrow> (controller, string) state" where
  "request_target d p poolActive req =
     (if prTargetURL req \<noteq> [] then State_Monad.return (prTargetURL req)
      else do {
        targets \<leftarrow> loadPoolTargets d p;
        State_Monad.return
          (if targets \<noteq> [] then targets ! nat (poolActive mod int (length targets))
           else pRepositoryUrl p)
      })"

text \<open>One queued request: whether it stays in the queue.\<close>

definition drain_spawn :: "deps \<Rightarrow> RunnerPool \<Rightarrow> ProvisionRequest \<Rightarrow> (controller, bool) state" where
  "drain_spawn d p req = do {
     rs \<leftarrow> tracked_pool_runners d (pName p);
     let poolActive = running_count rs;
     if pMaxConcurrency p > 0 \<and> poolActive \<ge> pMaxConcurrency p then State_Monad.return True
     else do {
       targetURL \<leftarrow> request_target d p poolActive req;
       err \<leftarrow> spawnSingleRunner d p None True targetURL;
       State_Monad.return (err \<noteq> None)
     }
   }"

definition drain_one ::
  "deps \<Rightarrow> (string, RunnerPool) gomap \<Rightarrow> ProvisionRequest \<Rightarrow> (controller, bool) state" where
  "drain_one d poolMap req = do {
     sat \<leftarrow> gets (saturated d);
     if sat then State_Monad.return True
     else (case mget poolMap (prPoolName req) of
             None \<Rightarrow> State_Monad.return False
           | Some p \<Rightarrow>
               (if reconciler d = None then do { nil_panic; State_Monad.return True }
                else drain_spawn d p req))
   }"

fun drain_loop ::
  "deps \<Rightarrow> (string, RunnerPool) gomap \<Rightarrow> ProvisionRequest list
     \<Rightarrow> (controller, ProvisionRequest list) state" where
  "drain_loop d poolMap [] = State_Monad.return []"
| "drain_loop d poolMap (req # reqs) = do {
     keep \<leftarrow> drain_one d poolMap req;
     rest \<leftarrow> drain_loop d poolMap reqs;
     State_Monad.return (if keep then req # rest else rest)
   }"

text \<open>
  The critical sections of \<open>drainQueue\<close> are its first read of the queue and its final write;
  what lies between works on the copy \<open>queueCopy\<close>.
\<close>

definition drain_copy :: "deps \<Rightarrow> ProvisionRequest list \<Rightarrow> (controller, ProvisionRequest list option) state"
  where
  "drain_copy d queueCopy =
     (if queueCopy = [] then State_Monad.return None
      else do {
        res \<leftarrow> loadPools d;
        case res of
          Inl _ \<Rightarrow> State_Monad.return None
        | Inr pools \<Rightarrow> do {
            remaining \<leftarrow> drain_loop d (pool_index pools) queueCopy;
            State_Monad.return (Some remaining)
          }
      })"

definition drain_store :: "ProvisionRequest list option \<Rightarrow> (controller, unit) state" where
  "drain_store r = (case r of None \<Rightarrow> skip | Some remaining \<Rightarrow> modify (\<lambda>c. c\<lparr>queue := remaining\<rparr>))"

definition drainQueue :: "deps \<Rightarrow> (controller, unit) state" where
  "drainQueue d = do {
     queueCopy \<leftarrow> gets queue;
     r \<leftarrow> drain_copy d queueCopy;
     drain_store r
   }"

section \<open>Reconciling one pool\<close>

text \<open>
  Numbers that a Git provider reports are wrapped to 64 bits. The other sums and differences here
  are of numbers of containers and of the pool's limits, which are stored non-negative, and stay in
  range.
\<close>

fun poll_queued :: "GitProvider \<Rightarrow> string list \<Rightarrow> int \<Rightarrow> (controller, int) state" where
  "poll_queued g [] totalQueued = State_Monad.return totalQueued"
| "poll_queued g (t # ts) totalQueued = do {
     n \<leftarrow> next_tick;
     case gpPollQueuedJobs g n t of
       Inl _ \<Rightarrow> poll_queued g ts totalQueued
     | Inr q \<Rightarrow> poll_queued g ts (wrap64 (totalQueued + q))
   }"

definition is_polling :: "GitProvider option \<Rightarrow> bool" where
  "is_polling gitProv = (case gitProv of None \<Rightarrow> False | Some g \<Rightarrow> gpScalingMode g = ScalingPolling)"

text \<open>The target before and after the cap of the pool.\<close>

definition polled_target :: "int \<Rightarrow> int \<Rightarrow> int \<Rightarrow> int \<Rightarrow> int" where
  "polled_target minIdle activeCount idleCount totalQueued =
     (if totalQueued > idleCount then
        (let deficit = totalQueued - idleCount
         in if wrap64 (activeCount + deficit) > minIdle then wrap64 (activeCount + deficit) else minIdle)
      else minIdle)"

definition capped_target :: "RunnerPool \<Rightarrow> int \<Rightarrow> int" where
  "capped_target p t = (if pMaxConcurrency p > 0 \<and> t > pMaxConcurrency p then pMaxConcurrency p else t)"

text \<open>Step 1: idle runners beyond \<open>max_concurrency\<close>; the rest of the idle runners is returned.\<close>

fun cap_loop ::
  "deps \<Rightarrow> ContainerProvider \<Rightarrow> string \<Rightarrow> int \<Rightarrow> int \<Rightarrow> RunnerStatus list
     \<Rightarrow> (controller, int \<times> RunnerStatus list) state" where
  "cap_loop d e poolName excess drained [] = State_Monad.return (drained, [])"
| "cap_loop d e poolName excess drained (r # rs) =
     (if drained < excess then do {
        remove_runner d e poolName r;
        cap_loop d e poolName excess (drained + 1) rs
      } else do {
        (n, remainingIdle) \<leftarrow> cap_loop d e poolName excess drained rs;
        State_Monad.return (n, r # remainingIdle)
      })"

definition enforce_cap ::
  "deps \<Rightarrow> ContainerProvider \<Rightarrow> RunnerPool \<Rightarrow> int \<Rightarrow> RunnerStatus list
     \<Rightarrow> (controller, int \<times> RunnerStatus list) state" where
  "enforce_cap d e p activeCount idleRunners =
     (if pMaxConcurrency p > 0 \<and> activeCount > pMaxConcurrency p then do {
        (drained, remainingIdle) \<leftarrow>
          cap_loop d e (pName p) (activeCount - pMaxConcurrency p) 0 idleRunners;
        State_Monad.return (activeCount - drained, remainingIdle)
      } else State_Monad.return (activeCount, idleRunners))"

text \<open>Step 2: scale-to-zero pools and pools with a fixed idle target.\<close>

definition grace_period :: "deps \<Rightarrow> RunnerPool \<Rightarrow> duration" where
  "grace_period d p =
     (if pMaxRunnerLifetimeSeconds p > 0 \<and>
         seconds (pMaxRunnerLifetimeSeconds p) < scaleToZeroGracePeriod d
      then seconds (pMaxRunnerLifetimeSeconds p) else scaleToZeroGracePeriod d)"

definition is_stale :: "duration \<Rightarrow> gotime \<Rightarrow> RunnerStatus \<Rightarrow> bool" where
  "is_stale grace now r \<longleftrightarrow>
     \<not> rsOnDemand r \<or>
     (rsOnDemand r \<and> (\<not> IsZero (rsSpawnedAt r) \<and> time_sub now (rsSpawnedAt r) \<ge> grace))"

fun remove_all ::
  "deps \<Rightarrow> ContainerProvider \<Rightarrow> string \<Rightarrow> int \<Rightarrow> RunnerStatus list \<Rightarrow> (controller, int) state" where
  "remove_all d e poolName activeCount [] = State_Monad.return activeCount"
| "remove_all d e poolName activeCount (r # rs) = do {
     remove_runner d e poolName r;
     remove_all d e poolName (activeCount - 1) rs
   }"

definition scale_down ::
  "deps \<Rightarrow> ContainerProvider \<Rightarrow> RunnerPool \<Rightarrow> int \<Rightarrow> int \<Rightarrow> RunnerStatus list \<Rightarrow> (controller, int) state"
  where
  "scale_down d e p effectiveTarget activeCount idleRunners =
     (if pMinIdleRunners p = 0 then do {
        now \<leftarrow> time_now d;
        remove_all d e (pName p) activeCount (filter (is_stale (grace_period d p) now) idleRunners)
      } else if int (length idleRunners) > effectiveTarget then
        remove_all d e (pName p) activeCount
          (take (nat (int (length idleRunners) - effectiveTarget)) idleRunners)
      else State_Monad.return activeCount)"

text \<open>Step 3: the spawns that are missing.\<close>

fun spawn_loop ::
  "deps \<Rightarrow> RunnerPool \<Rightarrow> GitProvider option \<Rightarrow> bool \<Rightarrow> string list \<Rightarrow> nat \<Rightarrow> int
     \<Rightarrow> (controller, go_error option) state" where
  "spawn_loop d p gitProv onDemand targets 0 activeCount = State_Monad.return None"
| "spawn_loop d p gitProv onDemand targets (Suc needed) activeCount = do {
     queued \<leftarrow> gets (QueueLengthForPool (pName p));
     if pMaxConcurrency p > 0 \<and> activeCount + queued \<ge> pMaxConcurrency p then State_Monad.return None
     else do {
       let targetURL = targets ! nat (activeCount mod int (length targets));
       sat \<leftarrow> gets (saturated d);
       if sat then do {
         enqueueRequest d (pName p) targetURL;
         spawn_loop d p gitProv onDemand targets needed activeCount
       } else do {
         err \<leftarrow> spawnSingleRunner d p gitProv onDemand targetURL;
         case err of
           Some e \<Rightarrow> State_Monad.return (Some e)
         | None \<Rightarrow> spawn_loop d p gitProv onDemand targets needed (activeCount + 1)
       }
     }
   }"

definition replenish ::
  "deps \<Rightarrow> RunnerPool \<Rightarrow> GitProvider option \<Rightarrow> string list \<Rightarrow> int \<Rightarrow> int
     \<Rightarrow> (controller, go_error option) state" where
  "replenish d p gitProv targets effectiveTarget activeCount = do {
     queuedForPool \<leftarrow> gets (QueueLengthForPool (pName p));
     let needed = effectiveTarget - (activeCount + queuedForPool);
     if needed \<le> 0 then State_Monad.return None
     else spawn_loop d p gitProv (pMinIdleRunners p = 0 \<or> is_polling gitProv) targets
            (nat needed) activeCount
   }"

text \<open>\<open>min_idle_runners\<close>, raised to the number of queued jobs for a provider that is polled.\<close>

definition wanted_runners ::
  "RunnerPool \<Rightarrow> GitProvider option \<Rightarrow> string list \<Rightarrow> int \<Rightarrow> int \<Rightarrow> (controller, int) state" where
  "wanted_runners p gitProv targets activeCount idleCount =
     (case gitProv of
        None \<Rightarrow> State_Monad.return (pMinIdleRunners p)
      | Some g \<Rightarrow>
          (if gpScalingMode g = ScalingPolling then do {
             totalQueued \<leftarrow> poll_queued g targets 0;
             State_Monad.return (polled_target (pMinIdleRunners p) activeCount idleCount totalQueued)
           } else State_Monad.return (pMinIdleRunners p)))"

definition reconcilePoolWithProvider ::
  "deps \<Rightarrow> RunnerPool \<Rightarrow> GitProvider option \<Rightarrow> (controller, go_error option) state" where
  "reconcilePoolWithProvider d p gitProv =
     (case engine d of
        None \<Rightarrow> State_Monad.return None
      | Some e \<Rightarrow>
          (if reconciler d = None then State_Monad.return None
           else do {
             rs \<leftarrow> tracked_pool_runners d (pName p);
             let active0 = running_count rs;
             let idle0 = filter (\<lambda>r. rsState r = ''running'' \<and> \<not> rsIsBusy r) rs;
             targets \<leftarrow> loadPoolTargets d p;
             if targets = [] then State_Monad.return None
             else do {
               wanted \<leftarrow> wanted_runners p gitProv targets active0 (int (length idle0));
               (active1, idle1) \<leftarrow> enforce_cap d e p active0 idle0;
               active2 \<leftarrow> scale_down d e p (capped_target p wanted) active1 idle1;
               replenish d p gitProv targets (capped_target p wanted) active2
             }
           }))"

definition reconcilePool :: "deps \<Rightarrow> RunnerPool \<Rightarrow> (controller, go_error option) state" where
  "reconcilePool d p =
     (case providerResolver d of
        None \<Rightarrow> State_Monad.return None
      | Some resolve \<Rightarrow> do {
          n \<leftarrow> next_tick;
          case resolve n (pAuthProfileID p) of
            Inl er \<Rightarrow> State_Monad.return (Some (ResolvingProvider er))
          | Inr g \<Rightarrow> reconcilePoolWithProvider d p (Some g)
        })"

definition validateAndProvisionPool :: "deps \<Rightarrow> RunnerPool \<Rightarrow> (controller, go_error option) state" where
  "validateAndProvisionPool d p =
     (case providerResolver d of
        None \<Rightarrow> State_Monad.return None
      | Some resolve \<Rightarrow> do {
          n \<leftarrow> next_tick;
          case resolve n (pAuthProfileID p) of
            Inl er \<Rightarrow> State_Monad.return (Some (ResolvingProvider er))
          | Inr g \<Rightarrow> do {
              m \<leftarrow> next_tick;
              case gpValidateCredentials g m of
                Some er \<Rightarrow> State_Monad.return (Some (ValidatingCredentials er))
              | None \<Rightarrow> reconcilePoolWithProvider d p (Some g)
            }
        })"

section \<open>Reaping and lifetime limits\<close>

definition reapContainer :: "deps \<Rightarrow> string \<Rightarrow> string \<Rightarrow> (controller, unit) state" where
  "reapContainer d containerID poolName = do {
     (case engine d of
        None \<Rightarrow> skip
      | Some e \<Rightarrow>
          (if dataDir d \<noteq> [] then do { engine_capture e containerID (dataDir d); skip } else skip));
     (case engine d of None \<Rightarrow> skip | Some e \<Rightarrow> do { engine_terminate e containerID; skip });
     (if reconciler d = None then skip else untrack poolName containerID);
     drainQueue d
   }"

text \<open>The pool whose runners are checked, the limit and the current time are fixed in the loop.\<close>

definition is_hung :: "duration \<Rightarrow> gotime \<Rightarrow> RunnerStatus \<Rightarrow> bool" where
  "is_hung lifetimeLimit now r \<longleftrightarrow>
     rsState r = ''running'' \<and> \<not> IsZero (rsSpawnedAt r) \<and>
     time_sub now (rsSpawnedAt r) > lifetimeLimit"

definition kill_hung ::
  "deps \<Rightarrow> ContainerProvider \<Rightarrow> RunnerPool \<Rightarrow> gotime \<Rightarrow> RunnerStatus \<Rightarrow> (controller, unit) state" where
  "kill_hung d e p now r = do {
     logPath \<leftarrow> (if dataDir d \<noteq> [] then engine_capture e (rsID r) (dataDir d)
                 else State_Monad.return []);
     engine_terminate e (rsID r);
     untrack (pName p) (rsID r);
     (case jobRecorder d of
        None \<Rightarrow> skip
      | Some rec \<Rightarrow> do {
          n \<leftarrow> next_tick;
          emit (RecordedTimeout (pID p) (runner_label r) logPath (rsSpawnedAt r) now)
        });
     drainQueue d
   }"

definition check_pool_hung ::
  "deps \<Rightarrow> ContainerProvider \<Rightarrow> gotime \<Rightarrow> RunnerPool \<Rightarrow> (controller, unit) state" where
  "check_pool_hung d e now p =
     (if pMaxRunnerLifetimeSeconds p \<le> 0 then skip
      else do {
        rs \<leftarrow> tracked_pool_runners d (pName p);
        for_each rs (\<lambda>r. if is_hung (seconds (pMaxRunnerLifetimeSeconds p)) now r
                         then kill_hung d e p now r else skip)
      })"

definition checkHungRunners :: "deps \<Rightarrow> RunnerPool list \<Rightarrow> (controller, unit) state" where
  "checkHungRunners d pools =
     (case engine d of
        None \<Rightarrow> skip
      | Some e \<Rightarrow>
          (if reconciler d = None then skip
           else do { now \<leftarrow> time_now d; for_each pools (check_pool_hung d e now) }))"

definition CheckHungRunners :: "deps \<Rightarrow> (controller, go_error option) state" where
  "CheckHungRunners d = do {
     res \<leftarrow> loadPools d;
     case res of
       Inl er \<Rightarrow> State_Monad.return (Some (LoadingPools er))
     | Inr pools \<Rightarrow> do { checkHungRunners d pools; State_Monad.return None }
   }"

section \<open>Boot, reconciliation and events\<close>

definition beat :: "deps \<Rightarrow> (controller, unit) state" where
  "beat d = do { now \<leftarrow> time_now d; modify (\<lambda>c. c\<lparr>lastHeartbeat := now\<rparr>) }"

definition engine_ping :: "deps \<Rightarrow> (controller, string option) state" where
  "engine_ping d =
     (case engine d of
        None \<Rightarrow> State_Monad.return None
      | Some e \<Rightarrow> do { n \<leftarrow> next_tick; State_Monad.return (cpPing e n) })"

definition provision_pools :: "deps \<Rightarrow> RunnerPool list \<Rightarrow> (controller, go_error option) state" where
  "provision_pools d pools = do {
     for_each pools (\<lambda>p. do { validateAndProvisionPool d p; skip });
     set_state StateRunning;
     beat d;
     State_Monad.return None
   }"

definition Boot :: "deps \<Rightarrow> (controller, go_error option) state" where
  "Boot d = do {
     set_state StateBooting;
     (case reconciler d of None \<Rightarrow> skip | Some prov \<Rightarrow> do { run_audit d prov; skip });
     ping \<leftarrow> engine_ping d;
     case ping of
       Some er \<Rightarrow> do { set_state StateStopped; State_Monad.return (Some (ErrEngineUnreachable er)) }
     | None \<Rightarrow> do {
         res \<leftarrow> loadPools d;
         case res of
           Inl er \<Rightarrow> do { set_state StateStopped; State_Monad.return (Some (LoadingPools er)) }
         | Inr pools \<Rightarrow> provision_pools d pools
       }
   }"

definition drainPool :: "deps \<Rightarrow> string \<Rightarrow> (controller, unit) state" where
  "drainPool d poolName =
     (case engine d of
        None \<Rightarrow> skip
      | Some e \<Rightarrow>
          (if reconciler d = None then skip
           else do {
             rs \<leftarrow> tracked_pool_runners d poolName;
             for_each rs (\<lambda>r. if rsState r = ''running'' then remove_runner d e poolName r else skip);
             modify (\<lambda>c. c\<lparr>queue := filter (\<lambda>req. prPoolName req \<noteq> poolName) (queue c)\<rparr>)
           }))"

text \<open>\<open>total_allowed_runners\<close> from the settings, when it is a positive number.\<close>

definition refresh_quota :: "deps \<Rightarrow> (controller, unit) state" where
  "refresh_quota d =
     (case (case db d of None \<Rightarrow> None | Some r \<Rightarrow> dbGetAppSetting r) of
        None \<Rightarrow> skip
      | Some getSetting \<Rightarrow> do {
          n \<leftarrow> next_tick;
          case getSetting n ''total_allowed_runners'' of
            Inl _ \<Rightarrow> skip
          | Inr v \<Rightarrow>
              (case Atoi v of
                 None \<Rightarrow> skip
               | Some val \<Rightarrow> if val > 0 then modify (\<lambda>c. c\<lparr>globalMaxRunners := val\<rparr>) else skip)
        })"

definition removed_pools :: "deps \<Rightarrow> RunnerPool list \<Rightarrow> (controller, string list) state" where
  "removed_pools d pools =
     (if reconciler d = None then State_Monad.return []
      else do {
        n \<leftarrow> next_tick;
        gets (\<lambda>c. filter (\<lambda>t. t \<notin> set (map pName pools)) (map fst (go_range (pool_order d n) (tracked c))))
      })"

definition audit_and_reap :: "deps \<Rightarrow> ContainerProvider option \<Rightarrow> (controller, unit) state" where
  "audit_and_reap d prov = do {
     r \<leftarrow> run_audit d prov;
     case r of
       Inl _ \<Rightarrow> skip
     | Inr report \<Rightarrow> for_each (arExited report) (\<lambda>x. reapContainer d (rsID x) (rsPoolName x))
   }"

text \<open>Steps 5 to 7 of a cycle.\<close>

definition reconcile_pools :: "deps \<Rightarrow> RunnerPool list \<Rightarrow> (controller, go_error option) state" where
  "reconcile_pools d pools = do {
     removed \<leftarrow> removed_pools d pools;
     for_each removed (drainPool d);
     checkHungRunners d pools;
     for_each pools (\<lambda>p. do { reconcilePool d p; skip });
     beat d;
     State_Monad.return None
   }"

definition Reconcile :: "deps \<Rightarrow> (controller, go_error option) state" where
  "Reconcile d = do {
     st \<leftarrow> gets cstate;
     if st = StatePaused \<or> st = StateStopped then State_Monad.return None
     else do {
       (case reconciler d of None \<Rightarrow> skip | Some prov \<Rightarrow> audit_and_reap d prov);
       refresh_quota d;
       drainQueue d;
       res \<leftarrow> loadPools d;
       case res of
         Inl er \<Rightarrow> State_Monad.return (Some (LoadingPools er))
       | Inr pools \<Rightarrow> reconcile_pools d pools
     }
   }"

definition Reload :: "deps \<Rightarrow> (controller, go_error option) state" where
  "Reload d = Reconcile d"

definition reap_and_replenish :: "deps \<Rightarrow> ContainerEvent \<Rightarrow> (controller, go_error option) state" where
  "reap_and_replenish d event = do {
     reapContainer d (ceContainerID event) (cePoolName event);
     if cePoolName event = [] then State_Monad.return None
     else do {
       res \<leftarrow> loadPools d;
       case res of
         Inl er \<Rightarrow> State_Monad.return (Some (LoadingPools er))
       | Inr pools \<Rightarrow>
           (case find (\<lambda>p. pName p = cePoolName event) pools of
              None \<Rightarrow> State_Monad.return None
            | Some p \<Rightarrow> reconcilePool d p)
     }
   }"

definition HandleContainerEvent :: "deps \<Rightarrow> ContainerEvent \<Rightarrow> (controller, go_error option) state" where
  "HandleContainerEvent d event = do {
     st \<leftarrow> gets cstate;
     if st = StatePaused \<or> st = StateStopped then State_Monad.return None
     else if ceAction event \<noteq> ''die'' \<and> ceAction event \<noteq> ''destroy'' then State_Monad.return None
     else (case taskExitHandler d of
             None \<Rightarrow> reap_and_replenish d event
           | Some handler \<Rightarrow> do {
               n \<leftarrow> next_tick;
               let logPath = (if dataDir d \<noteq> [] then LogPath (dataDir d) (ceContainerID event) else []);
               emit (TaskExit (ceContainerID event) (ceExitCode event) logPath);
               if fst (handler n (ceContainerID event) (ceExitCode event) logPath) then do {
                 (case engine d of None \<Rightarrow> skip
                  | Some e \<Rightarrow> do { engine_terminate e (ceContainerID event); skip });
                 drainQueue d;
                 State_Monad.return None
               } else reap_and_replenish d event
             })
   }"

section \<open>The control loop\<close>

text \<open>
  The \<open>select\<close> loops of \<open>Start\<close> and \<open>GracefulShutdown\<close> run along the list of the cases that fire.
  At the end of the list the loop is still waiting: the result is \<open>None\<close>. The outer \<open>option\<close> is
  that, the inner one the returned error.
\<close>

datatype loop_event = TickerFired | TimeoutFired | CtxDone

fun control_loop :: "deps \<Rightarrow> loop_event list \<Rightarrow> (controller, go_error option option) state" where
  "control_loop d [] = State_Monad.return None"
| "control_loop d (TickerFired # evs) = do { Reconcile d; control_loop d evs }"
| "control_loop d (TimeoutFired # evs) = control_loop d evs"
| "control_loop d (CtxDone # evs) = do { set_state StateStopped; State_Monad.return (Some (Some ContextDone)) }"

text \<open>Container events are handled by a separate goroutine, \<open>HandleContainerEvent\<close>.\<close>

definition Start :: "deps \<Rightarrow> loop_event list \<Rightarrow> (controller, go_error option option) state" where
  "Start d evs = do {
     err \<leftarrow> Boot d;
     case err of
       Some e \<Rightarrow> State_Monad.return (Some (Some e))
     | None \<Rightarrow> control_loop d evs
   }"

datatype Status = StatusOK | StatusDegraded | StatusFail

definition ReadinessCheck :: "gotime \<Rightarrow> controller \<Rightarrow> Status" where
  "ReadinessCheck now c =
     (if cstate c = StateStopped then StatusFail
      else if IsZero (lastHeartbeat c) \<or> time_sub now (lastHeartbeat c) > DefaultHeartbeatTimeout
      then StatusDegraded else StatusOK)"

section \<open>Shutdown\<close>

text \<open>The running containers of all pools in the order the two nested loops meet them.\<close>

definition all_runners :: "deps \<Rightarrow> nat \<Rightarrow> controller \<Rightarrow> RunnerStatus list" where
  "all_runners d n c =
     concat (map (\<lambda>(p, pm). map snd (go_range (runner_order d n p) pm))
                 (go_range (pool_order d n) (tracked c)))"

definition stop_idle :: "deps \<Rightarrow> ContainerProvider \<Rightarrow> RunnerStatus \<Rightarrow> (controller, unit) state" where
  "stop_idle d e r =
     (if rsState r \<noteq> ''running'' then skip
      else if \<not> rsIsBusy r then do {
        deregisterRunner d r;
        engine_terminate e (rsID r);
        skip
      } else skip)"

definition forget_idle :: "tracked \<Rightarrow> tracked" where
  "forget_idle T =
     map (\<lambda>(p, pm). (p, filter (\<lambda>(i, r). \<not> (rsState r = ''running'' \<and> \<not> rsIsBusy r)) pm)) T"

text \<open>
  The nested loops of \<open>forceTerminateRemaining\<close> delete from the maps they range over, the entry
  they are at, so each entry is met once.
\<close>

definition force_runner ::
  "deps \<Rightarrow> ContainerProvider \<Rightarrow> string \<Rightarrow> string \<times> RunnerStatus \<Rightarrow> (controller, unit) state" where
  "force_runner d e poolName ir =
     (let (i, r) = ir
      in if rsState r = ''running'' then do {
           deregisterRunner d r;
           engine_terminate e i;
           modify (\<lambda>c. c\<lparr>tracked := mput poolName (mdel i (pool_of (tracked c) poolName)) (tracked c)\<rparr>)
         } else skip)"

definition force_pool ::
  "deps \<Rightarrow> nat \<Rightarrow> ContainerProvider \<Rightarrow> string \<times> pool_map \<Rightarrow> (controller, unit) state" where
  "force_pool d n e ppm =
     (let (poolName, poolMap) = ppm
      in do {
           for_each (go_range (runner_order d n poolName) poolMap) (force_runner d e poolName);
           modify (\<lambda>c. if pool_of (tracked c) poolName = []
                       then c\<lparr>tracked := mdel poolName (tracked c)\<rparr> else c)
         })"

definition forceTerminateRemaining :: "deps \<Rightarrow> (controller, unit) state" where
  "forceTerminateRemaining d =
     (case engine d of
        None \<Rightarrow> skip
      | Some e \<Rightarrow>
          (if reconciler d = None then skip
           else do {
             n \<leftarrow> next_tick;
             T \<leftarrow> gets tracked;
             for_each (go_range (pool_order d n) T) (force_pool d n e)
           }))"

fun shutdown_loop ::
  "deps \<Rightarrow> ContainerProvider option \<Rightarrow> loop_event list \<Rightarrow> (controller, go_error option option) state"
  where
  "shutdown_loop d prov [] = State_Monad.return None"
| "shutdown_loop d prov (CtxDone # evs) = do {
     forceTerminateRemaining d;
     set_state StateStopped;
     State_Monad.return (Some (Some ContextDone))
   }"
| "shutdown_loop d prov (TimeoutFired # evs) = do {
     forceTerminateRemaining d;
     set_state StateStopped;
     State_Monad.return (Some None)
   }"
| "shutdown_loop d prov (TickerFired # evs) = do {
     audit_and_reap d prov;
     n \<leftarrow> gets (TotalActiveRunners d);
     if n = 0 then do { set_state StateStopped; State_Monad.return (Some None) }
     else shutdown_loop d prov evs
   }"

definition GracefulShutdown :: "deps \<Rightarrow> loop_event list \<Rightarrow> (controller, go_error option option) state" where
  "GracefulShutdown d evs = do {
     Pause;
     case (reconciler d, engine d) of
       (Some prov, Some e) \<Rightarrow> do {
         n \<leftarrow> next_tick;
         rs \<leftarrow> gets (all_runners d n);
         for_each rs (stop_idle d e);
         modify (\<lambda>c. c\<lparr>tracked := forget_idle (tracked c)\<rparr>);
         if filter (\<lambda>r. rsState r = ''running'' \<and> rsIsBusy r) rs = [] then do {
           set_state StateStopped;
           State_Monad.return (Some None)
         } else shutdown_loop d prov evs
       }
     | _ \<Rightarrow> do { set_state StateStopped; State_Monad.return (Some None) }
   }"

definition ImmediateShutdown :: "deps \<Rightarrow> (controller, go_error option) state" where
  "ImmediateShutdown d = do {
     Pause;
     forceTerminateRemaining d;
     set_state StateStopped;
     State_Monad.return None
   }"

section \<open>Runner management\<close>

record RunnerInstanceInfo =
  riID :: string
  riName :: string
  riPoolName :: string
  riState :: string
  riIPAddress :: string
  riSpawnedAt :: gotime
  riIsBusy :: bool

definition PoolRunners :: "deps \<Rightarrow> string \<Rightarrow> (controller, RunnerInstanceInfo list) state" where
  "PoolRunners d poolName =
     (if reconciler d = None then State_Monad.return []
      else do {
        statuses \<leftarrow> tracked_pool_runners d poolName;
        State_Monad.return (map (\<lambda>s.
          \<lparr>riID = rsID s, riName = rsName s, riPoolName = rsPoolName s, riState = rsState s,
           riIPAddress = rsIPAddress s, riSpawnedAt = rsSpawnedAt s, riIsBusy = rsIsBusy s\<rparr>) statuses)
      })"

definition TerminateRunner :: "deps \<Rightarrow> string \<Rightarrow> string \<Rightarrow> (controller, go_error option) state" where
  "TerminateRunner d poolName containerID = do {
     err \<leftarrow> (case engine d of None \<Rightarrow> State_Monad.return None | Some e \<Rightarrow> engine_terminate e containerID);
     case err of
       Some er \<Rightarrow> State_Monad.return (Some (EngineError er))
     | None \<Rightarrow> do {
         (if reconciler d = None then skip else untrack poolName containerID);
         State_Monad.return None
       }
   }"

end
