(* ===== verification/Go_Url.thy ===== *)
theory Go_Url
  imports Go_Json
begin

text \<open>
  The part of \<open>net/url\<close> that the supervisor uses: \<open>url.Parse\<close>, \<open>(*URL).String\<close> and
  \<open>(*URL).EscapedPath\<close> with the escaping rules they need. \<open>None\<close> is the error of Go. An IP
  literal in brackets is accepted without a check of what the brackets hold.
\<close>

datatype encoding = encodePath | encodeUserPassword | encodeHost | encodeFragment

record Userinfo =
  uiUsername :: string
  uiPassword :: "string option"

record URL =
  uScheme :: string
  uOpaque :: string
  uUser :: "Userinfo option"
  uHost :: string
  uPath :: string
  uRawPath :: string
  uOmitHost :: bool
  uForceQuery :: bool
  uRawQuery :: string
  uFragment :: string

definition empty_url :: URL where
  "empty_url = \<lparr>uScheme = [], uOpaque = [], uUser = None, uHost = [], uPath = [], uRawPath = [],
     uOmitHost = False, uForceQuery = False, uRawQuery = [], uFragment = []\<rparr>"

section \<open>Escaping\<close>

definition is_letter :: "char \<Rightarrow> bool" where
  "is_letter c \<longleftrightarrow> (97 \<le> byte c \<and> byte c \<le> 122) \<or> (65 \<le> byte c \<and> byte c \<le> 90)"

definition single_quote :: char where "single_quote = char_of (39 :: nat)"
definition double_quote :: char where "double_quote = char_of (34 :: nat)"

definition shouldEscape :: "char \<Rightarrow> encoding \<Rightarrow> bool" where
  "shouldEscape c mode =
     (if is_letter c \<or> is_digit c then False
      else if mode = encodeHost \<and>
              c \<in> set ([single_quote, double_quote] @ ''!$&()*+,;=:[]<>'') then False
      else if c \<in> set ''-_.~'' then False
      else if c \<in> set ''$&+,/:;=?@'' then
        (case mode of
           encodePath \<Rightarrow> c = CHR ''?''
         | encodeUserPassword \<Rightarrow> c \<in> set ''@/?:''
         | encodeFragment \<Rightarrow> False
         | encodeHost \<Rightarrow> True)
      else if mode = encodeFragment \<and> c \<in> set ''!()*'' then False
      else True)"

definition upper_hex :: "nat \<Rightarrow> char" where
  "upper_hex n = (if n < 10 then char_of (48 + n) else char_of (55 + n))"

definition escape :: "string \<Rightarrow> encoding \<Rightarrow> string" where
  "escape s mode = concat (map (\<lambda>c.
     if shouldEscape c mode then [CHR ''%'', upper_hex (byte c div 16), upper_hex (byte c mod 16)]
     else [c]) s)"

fun unescape :: "encoding \<Rightarrow> string \<Rightarrow> string option" where
  "unescape mode [] = Some []"
| "unescape mode (c # s) =
     (if c = CHR ''%'' then
        (case s of
           a # b # r \<Rightarrow>
             (case (hex_digit a, hex_digit b) of
                (Some x, Some y) \<Rightarrow>
                  (if mode = encodeHost \<and> x < 8 \<and> \<not> (a = CHR ''2'' \<and> b = CHR ''5'') then None
                   else map_option (Cons (char_of (16 * x + y))) (unescape mode r))
              | _ \<Rightarrow> None)
         | _ \<Rightarrow> None)
      else if mode = encodeHost \<and> byte c < 128 \<and> shouldEscape c mode then None
      else map_option (Cons c) (unescape mode s))"

definition validEncodedPath :: "string \<Rightarrow> bool" where
  "validEncodedPath s \<longleftrightarrow>
     (\<forall>c \<in> set s. c \<in> set (single_quote # ''!$&()*+,;=:@[]%'') \<or> \<not> shouldEscape c encodePath)"

section \<open>Parsing\<close>

definition is_ctl :: "char \<Rightarrow> bool" where
  "is_ctl c \<longleftrightarrow> byte c < 32 \<or> byte c = 127"

text \<open>\<open>strings.Cut\<close> at a byte.\<close>

definition cut :: "char \<Rightarrow> string \<Rightarrow> string \<times> string" where
  "cut c s = (takeWhile (\<lambda>x. x \<noteq> c) s, drop 1 (dropWhile (\<lambda>x. x \<noteq> c) s))"

definition scheme_char :: "char \<Rightarrow> bool" where
  "scheme_char c \<longleftrightarrow> is_letter c \<or> is_digit c \<or> c \<in> set ''+-.''"

definition getScheme :: "string \<Rightarrow> (string \<times> string) option" where
  "getScheme s =
     (case dropWhile scheme_char s of
        [] \<Rightarrow> Some ([], s)
      | c # r \<Rightarrow>
          (if c \<noteq> CHR '':'' then Some ([], s)
           else (case takeWhile scheme_char s of
                   [] \<Rightarrow> None
                 | h # t \<Rightarrow> if is_letter h then Some (h # t, r) else Some ([], s))))"

definition validOptionalPort :: "string \<Rightarrow> bool" where
  "validOptionalPort port \<longleftrightarrow>
     (case port of [] \<Rightarrow> True | c # r \<Rightarrow> c = CHR '':'' \<and> (\<forall>x \<in> set r. is_digit x))"

definition parseHost :: "string \<Rightarrow> string option" where
  "parseHost host =
     (let ok = (if HasPrefix host ''['' then
                  (case LastIndex host (CHR '']'') of
                     None \<Rightarrow> False
                   | Some i \<Rightarrow> validOptionalPort (drop (Suc i) host))
                else (case LastIndex host (CHR '':'') of
                        None \<Rightarrow> True
                      | Some i \<Rightarrow> validOptionalPort (drop i host)))
      in if ok then unescape encodeHost host else None)"

definition validUserinfo :: "string \<Rightarrow> bool" where
  "validUserinfo s \<longleftrightarrow>
     (\<forall>c \<in> set s. is_letter c \<or> is_digit c \<or> c \<in> set (single_quote # ''-._:~!$&()*+,;=%@''))"

definition parseUserinfo :: "string \<Rightarrow> Userinfo option" where
  "parseUserinfo u =
     (if \<not> validUserinfo u then None
      else if CHR '':'' \<notin> set u then
        map_option (\<lambda>n. \<lparr>uiUsername = n, uiPassword = None\<rparr>) (unescape encodeUserPassword u)
      else (let (n, pw) = cut (CHR '':'') u
            in case (unescape encodeUserPassword n, unescape encodeUserPassword pw) of
                 (Some n', Some pw') \<Rightarrow> Some \<lparr>uiUsername = n', uiPassword = Some pw'\<rparr>
               | _ \<Rightarrow> None))"

definition parseAuthority :: "string \<Rightarrow> (Userinfo option \<times> string) option" where
  "parseAuthority a =
     (case LastIndex a (CHR ''@'') of
        None \<Rightarrow> map_option (Pair None) (parseHost a)
      | Some i \<Rightarrow>
          (case parseHost (drop (Suc i) a) of
             None \<Rightarrow> None
           | Some h \<Rightarrow> map_option (\<lambda>u. (Some u, h)) (parseUserinfo (take i a))))"

definition setPath :: "string \<Rightarrow> URL \<Rightarrow> URL option" where
  "setPath p u =
     (case unescape encodePath p of
        None \<Rightarrow> None
      | Some path \<Rightarrow>
          Some (u\<lparr>uPath := path, uRawPath := (if p = escape path encodePath then [] else p)\<rparr>))"

text \<open>From the part behind the scheme and the query on.\<close>

definition parse_rest :: "string \<Rightarrow> URL \<Rightarrow> URL option" where
  "parse_rest rest u =
     (if \<not> HasPrefix rest ''/'' \<and> uScheme u \<noteq> [] then Some (u\<lparr>uOpaque := rest\<rparr>)
      else if \<not> HasPrefix rest ''/'' \<and> CHR '':'' \<in> set (fst (cut (CHR ''/'') rest)) then None
      else if (uScheme u \<noteq> [] \<or> \<not> HasPrefix rest ''///'') \<and> HasPrefix rest ''//'' then
        (let a = drop 2 rest;
             authority = takeWhile (\<lambda>x. x \<noteq> CHR ''/'') a;
             path = dropWhile (\<lambda>x. x \<noteq> CHR ''/'') a
         in case parseAuthority authority of
              None \<Rightarrow> None
            | Some (user, host) \<Rightarrow> setPath path (u\<lparr>uUser := user, uHost := host\<rparr>))
      else setPath rest (if uScheme u \<noteq> [] \<and> HasPrefix rest ''/'' then u\<lparr>uOmitHost := True\<rparr> else u))"

definition parse_url :: "string \<Rightarrow> URL option" where
  "parse_url s =
     (if \<exists>c \<in> set s. is_ctl c then None
      else if s = ''*'' then Some (empty_url\<lparr>uPath := ''*''\<rparr>)
      else (case getScheme s of
              None \<Rightarrow> None
            | Some (scheme, rest) \<Rightarrow>
                (let u = empty_url\<lparr>uScheme := ToLower scheme\<rparr>
                 in if HasSuffix rest ''?'' \<and> length (filter (\<lambda>c. c = CHR ''?'') rest) = 1
                    then parse_rest (butlast rest) (u\<lparr>uForceQuery := True\<rparr>)
                    else (let (r, q) = cut (CHR ''?'') rest in parse_rest r (u\<lparr>uRawQuery := q\<rparr>)))))"

definition Parse :: "string \<Rightarrow> URL option" where
  "Parse rawURL =
     (let (s, frag) = cut (CHR ''#'') rawURL
      in case parse_url s of
           None \<Rightarrow> None
         | Some u \<Rightarrow>
             (if frag = [] then Some u
              else map_option (\<lambda>f. u\<lparr>uFragment := f\<rparr>) (unescape encodeFragment frag)))"

section \<open>Printing\<close>

definition EscapedPath :: "URL \<Rightarrow> string" where
  "EscapedPath u =
     (if uRawPath u \<noteq> [] \<and> validEncodedPath (uRawPath u) \<and>
         unescape encodePath (uRawPath u) = Some (uPath u) then uRawPath u
      else if uPath u = ''*'' then ''*'' else escape (uPath u) encodePath)"

definition userinfo_string :: "Userinfo \<Rightarrow> string" where
  "userinfo_string ui =
     escape (uiUsername ui) encodeUserPassword @
     (case uiPassword ui of None \<Rightarrow> [] | Some pw \<Rightarrow> '':'' @ escape pw encodeUserPassword)"

definition url_head :: "URL \<Rightarrow> string" where
  "url_head u =
     (if uScheme u \<noteq> [] then uScheme u @ '':'' else []) @
     (if uOpaque u \<noteq> [] then []
      else if (uScheme u \<noteq> [] \<or> uHost u \<noteq> [] \<or> uUser u \<noteq> None) \<and>
              \<not> (uOmitHost u \<and> uHost u = [] \<and> uUser u = None) then
        (if uHost u \<noteq> [] \<or> uPath u \<noteq> [] \<or> uUser u \<noteq> None then ''//'' else []) @
        (case uUser u of None \<Rightarrow> [] | Some ui \<Rightarrow> userinfo_string ui @ ''@'') @
        escape (uHost u) encodeHost
      else [])"

text \<open>\<open>String\<close> of a URL without a fragment, the only ones that are printed.\<close>

definition url_string :: "URL \<Rightarrow> string" where
  "url_string u =
     (if uOpaque u \<noteq> [] then url_head u @ uOpaque u
      else (let h = url_head u;
                path = EscapedPath u;
                h1 = (if path \<noteq> [] \<and> hd path \<noteq> CHR ''/'' \<and> uHost u \<noteq> [] then h @ ''/'' else h);
                h2 = (if h1 = [] \<and> CHR '':'' \<in> set (fst (cut (CHR ''/'') path)) then ''./'' else h1)
            in h2 @ path)) @
     (if uForceQuery u \<or> uRawQuery u \<noteq> [] then ''?'' @ uRawQuery u else [])"

lemmas [go_simps] = empty_url_def is_letter_def single_quote_def double_quote_def shouldEscape_def
  upper_hex_def escape_def validEncodedPath_def is_ctl_def cut_def scheme_char_def getScheme_def
  validOptionalPort_def parseHost_def validUserinfo_def parseUserinfo_def parseAuthority_def
  setPath_def parse_rest_def parse_url_def Parse_def EscapedPath_def userinfo_string_def url_head_def
  url_string_def is_digit_def hex_digit_def

section \<open>Escaping is undone by unescaping\<close>

lemma hex_digit_upper_hex: "n < 16 \<Longrightarrow> hex_digit (upper_hex n) = Some n"
  by (auto simp: hex_digit_def upper_hex_def Let_def of_char_of take_bit_eq_mod)

lemma unescape_escape:
  assumes "mode \<noteq> encodeHost"
  shows "unescape mode (escape s mode) = Some s"
proof (induction s)
  case (Cons c s)
  have percent: "shouldEscape (CHR ''%'') mode"
    using assms by (simp add: shouldEscape_def is_letter_def is_digit_def split: encoding.splits)
  have "byte c < 256" by simp
  then have "byte c div 16 < 16" "byte c mod 16 < 16" by (simp_all add: div_less_iff_less_mult)
  then have "hex_digit (upper_hex (byte c div 16)) = Some (byte c div 16)"
    "hex_digit (upper_hex (byte c mod 16)) = Some (byte c mod 16)"
    by (simp_all add: hex_digit_upper_hex)
  with Cons percent assms show ?case
    by (auto simp: escape_def)
qed (simp add: escape_def)

end
