(* ===== verification/Go_Crypto.thy ===== *)
theory Go_Crypto
  imports Go_Json "HOL-Library.Word"
begin

unbundle bit_operations_syntax

text \<open>
  The primitives of \<open>crypto/sha256\<close>, \<open>crypto/hmac\<close>, \<open>crypto/subtle\<close> and \<open>encoding/hex\<close> that the
  supervisor uses. SHA-256 follows FIPS 180-4 on 32-bit words, HMAC follows RFC 2104.
\<close>

type_synonym w32 = "32 word"

definition rotr :: "nat \<Rightarrow> w32 \<Rightarrow> w32" where
  "rotr n x = drop_bit n x OR push_bit (32 - n) x"

definition sha_K :: "w32 list" where
  "sha_K = [
   0x428a2f98, 0x71374491, 0xb5c0fbcf, 0xe9b5dba5, 0x3956c25b, 0x59f111f1, 0x923f82a4, 0xab1c5ed5,
   0xd807aa98, 0x12835b01, 0x243185be, 0x550c7dc3, 0x72be5d74, 0x80deb1fe, 0x9bdc06a7, 0xc19bf174,
   0xe49b69c1, 0xefbe4786, 0x0fc19dc6, 0x240ca1cc, 0x2de92c6f, 0x4a7484aa, 0x5cb0a9dc, 0x76f988da,
   0x983e5152, 0xa831c66d, 0xb00327c8, 0xbf597fc7, 0xc6e00bf3, 0xd5a79147, 0x06ca6351, 0x14292967,
   0x27b70a85, 0x2e1b2138, 0x4d2c6dfc, 0x53380d13, 0x650a7354, 0x766a0abb, 0x81c2c92e, 0x92722c85,
   0xa2bfe8a1, 0xa81a664b, 0xc24b8b70, 0xc76c51a3, 0xd192e819, 0xd6990624, 0xf40e3585, 0x106aa070,
   0x19a4c116, 0x1e376c08, 0x2748774c, 0x34b0bcb5, 0x391c0cb3, 0x4ed8aa4a, 0x5b9cca4f, 0x682e6ff3,
   0x748f82ee, 0x78a5636f, 0x84c87814, 0x8cc70208, 0x90befffa, 0xa4506ceb, 0xbef9a3f7, 0xc67178f2]"

definition sha_H0 :: "w32 list" where
  "sha_H0 = [0x6a09e667, 0xbb67ae85, 0x3c6ef372, 0xa54ff53a, 0x510e527f, 0x9b05688c, 0x1f83d9ab,
     0x5be0cd19]"

text \<open>One step of the message schedule, on the sixteen latest words, and one round.\<close>

definition schedule_step :: "w32 list \<Rightarrow> w32" where
  "schedule_step ws =
     (let a = ws ! 1; b = ws ! 14;
          s0 = rotr 7 a XOR rotr 18 a XOR drop_bit 3 a;
          s1 = rotr 17 b XOR rotr 19 b XOR drop_bit 10 b
      in ws ! 0 + s0 + ws ! 9 + s1)"

fun schedule :: "nat \<Rightarrow> w32 list \<Rightarrow> w32 list" where
  "schedule 0 ws = ws"
| "schedule (Suc n) ws = hd ws # schedule n (tl ws @ [schedule_step ws])"

fun sha_round :: "w32 \<times> w32 \<Rightarrow> w32 list \<Rightarrow> w32 list" where
  "sha_round (k, w) [a, b, c, d, e, f, g, h] =
     (let S1 = rotr 6 e XOR rotr 11 e XOR rotr 25 e;
          ch = (e AND f) XOR (NOT e AND g);
          t1 = h + S1 + ch + k + w;
          S0 = rotr 2 a XOR rotr 13 a XOR rotr 22 a;
          maj = (a AND b) XOR (a AND c) XOR (b AND c)
      in [t1 + (S0 + maj), a, b, c, d + t1, e, f, g])"
| "sha_round _ xs = xs"

definition compress :: "w32 list \<Rightarrow> w32 list \<Rightarrow> w32 list" where
  "compress H block = map2 (+) H (fold sha_round (zip sha_K (schedule 48 block)) H)"

definition be_word :: "string \<Rightarrow> w32" where
  "be_word bs = fold (\<lambda>c w. push_bit 8 w + word_of_nat (byte c)) bs 0"

definition word_be :: "w32 \<Rightarrow> string" where
  "word_be w = map (\<lambda>k. char_of (unat (drop_bit k w) mod 256)) [24, 16, 8, 0]"

text \<open>Groups of \<open>n\<close> elements; the padded message has no incomplete one.\<close>

fun groups :: "nat \<Rightarrow> nat \<Rightarrow> 'a list \<Rightarrow> 'a list list" where
  "groups 0 n xs = []"
| "groups (Suc k) n xs = take n xs # groups k n (drop n xs)"

definition sha_pad :: "string \<Rightarrow> string" where
  "sha_pad m =
     (let n = length m; z = (119 - n mod 64) mod 64
      in m @ [char_of (128 :: nat)] @ replicate z (char_of (0 :: nat)) @
         map (\<lambda>k. char_of ((8 * n) div 256 ^ k mod 256)) [7, 6, 5, 4, 3, 2, 1, 0])"

definition sha256 :: "string \<Rightarrow> string" where
  "sha256 m =
     (let p = sha_pad m; blocks = groups (length p div 64) 64 p
      in concat (map word_be (fold (\<lambda>b H. compress H (map be_word (groups 16 4 b))) blocks sha_H0)))"

definition xor_bytes :: "nat \<Rightarrow> string \<Rightarrow> string" where
  "xor_bytes k s = map (\<lambda>c. char_of (byte c XOR k)) s"

definition hmac_sha256 :: "string \<Rightarrow> string \<Rightarrow> string" where
  "hmac_sha256 key m =
     (let k0 = (if length key > 64 then sha256 key else key);
          k = k0 @ replicate (64 - length k0) (char_of (0 :: nat))
      in sha256 (xor_bytes 0x5c k @ sha256 (xor_bytes 0x36 k @ m)))"

definition lower_hex :: "nat \<Rightarrow> char" where
  "lower_hex n = (if n < 10 then char_of (48 + n) else char_of (87 + n))"

definition EncodeToString :: "string \<Rightarrow> string" where
  "EncodeToString s = concat (map (\<lambda>c. [lower_hex (byte c div 16), lower_hex (byte c mod 16)]) s)"

text \<open>\<open>subtle.ConstantTimeCompare\<close>: 1 on equal contents.\<close>

definition ConstantTimeCompare :: "string \<Rightarrow> string \<Rightarrow> nat" where
  "ConstantTimeCompare x y = (if x = y then 1 else 0)"

section \<open>Shape of the results\<close>

lemma length_EncodeToString [simp]: "length (EncodeToString s) = 2 * length s"
  by (induction s) (auto simp: EncodeToString_def)

definition is_lower_hex :: "char \<Rightarrow> bool" where
  "is_lower_hex c \<longleftrightarrow> (48 \<le> byte c \<and> byte c \<le> 57) \<or> (97 \<le> byte c \<and> byte c \<le> 102)"

lemma is_lower_hex_digit: "n < 16 \<Longrightarrow> is_lower_hex (lower_hex n)"
  by (auto simp: is_lower_hex_def lower_hex_def of_char_of)

lemma EncodeToString_chars: "c \<in> set (EncodeToString s) \<Longrightarrow> is_lower_hex c"
  by (auto simp: EncodeToString_def div_less_iff_less_mult intro!: is_lower_hex_digit)

lemma length_compress:
  "length H = 8 \<Longrightarrow> length (fold sha_round kws H) = 8"
proof (induction kws arbitrary: H)
  case (Cons kw kws)
  have "length (sha_round kw H) = 8"
    using Cons.prems by (cases "(kw, H)" rule: sha_round.cases) (auto simp: Let_def)
  with Cons.IH show ?case by simp
qed simp

lemma length_sha256: "length (sha256 m) = 32"
proof -
  have *: "length (fold (\<lambda>b H. compress H (f b)) bs H) = 8" if "length H = 8" for f bs H
    using that by (induction bs arbitrary: H) (auto simp: compress_def length_compress)
  have "length (concat (map word_be ws)) = 4 * length ws" for ws
    by (induction ws) (auto simp: word_be_def)
  then show ?thesis by (simp add: sha256_def Let_def * sha_H0_def)
qed

end
