(* ===== verification/Webhook.thy ===== *)
theory Webhook
  imports Go_Crypto Go_Effects
begin

text \<open>
  \<open>src/internal/webhook/webhook.go\<close>: the receiver of \<open>workflow_job\<close> webhooks. A request is its
  header fields and its body; \<open>Handle\<close> answers with a status code and a JSON body and runs the
  event handler, a computation over the handler's own state. The locale \<open>webhook_receiver\<close> states
  the contract towards that handler: it is run on verified events only.
\<close>

section \<open>Payloads\<close>

record WorkflowJobPayload =
  wjID :: int
  wjRunID :: int
  wjWorkflowName :: string
  wjHeadBranch :: string
  wjHeadSHA :: string
  wjStatus :: string
  wjConclusion :: string
  wjLabels :: "string list"
  wjRunnerID :: int
  wjRunnerName :: string
  wjRunnerGroupID :: int

record RepositoryPayload =
  repID :: int
  repName :: string
  repFullName :: string
  repHTMLURL :: string
  repCloneURL :: string

record SenderPayload =
  sdID :: int
  sdLogin :: string

record WorkflowJobEvent =
  evAction :: string
  evWorkflowJob :: WorkflowJobPayload
  evRepository :: RepositoryPayload
  evSender :: SenderPayload

definition empty_event :: WorkflowJobEvent where
  "empty_event = \<lparr>evAction = [],
     evWorkflowJob = \<lparr>wjID = 0, wjRunID = 0, wjWorkflowName = [], wjHeadBranch = [], wjHeadSHA = [],
       wjStatus = [], wjConclusion = [], wjLabels = [], wjRunnerID = 0, wjRunnerName = [],
       wjRunnerGroupID = 0\<rparr>,
     evRepository = \<lparr>repID = 0, repName = [], repFullName = [], repHTMLURL = [], repCloneURL = []\<rparr>,
     evSender = \<lparr>sdID = 0, sdLogin = []\<rparr>\<rparr>"

subsection \<open>\<open>json.Unmarshal\<close> into them\<close>

text \<open>
  A member sets the field whose name it has up to case; \<open>null\<close> leaves a field alone, a value of the
  wrong type is an error, other members are ignored.
\<close>

fun dec_string :: "json \<Rightarrow> string \<Rightarrow> string option" where
  "dec_string (JStr s) old = Some s"
| "dec_string JNull old = Some old"
| "dec_string _ old = None"

fun dec_int :: "json \<Rightarrow> int \<Rightarrow> int option" where
  "dec_int (JNum l) old = Atoi l"
| "dec_int JNull old = Some old"
| "dec_int _ old = None"

text \<open>An element of an array is decoded over the one the slice already has at its place.\<close>

fun dec_elems :: "json list \<Rightarrow> string list \<Rightarrow> string list option" where
  "dec_elems [] old = Some []"
| "dec_elems (v # vs) old =
     (case dec_string v (case old of [] \<Rightarrow> [] | o1 # _ \<Rightarrow> o1) of
        None \<Rightarrow> None
      | Some s \<Rightarrow> map_option (Cons s) (dec_elems vs (tl old)))"

fun dec_strings :: "json \<Rightarrow> string list \<Rightarrow> string list option" where
  "dec_strings (JArr vs) old = dec_elems vs old"
| "dec_strings JNull old = Some []"
| "dec_strings _ old = None"

fun dec_members :: "(string \<Rightarrow> json \<Rightarrow> 'r \<Rightarrow> 'r option) \<Rightarrow> (string \<times> json) list \<Rightarrow> 'r \<Rightarrow> 'r option" where
  "dec_members f [] r = Some r"
| "dec_members f ((k, v) # ms) r = (case f k v r of None \<Rightarrow> None | Some r' \<Rightarrow> dec_members f ms r')"

fun dec_object :: "(string \<Rightarrow> json \<Rightarrow> 'r \<Rightarrow> 'r option) \<Rightarrow> json \<Rightarrow> 'r \<Rightarrow> 'r option" where
  "dec_object f (JObj ms) r = dec_members f ms r"
| "dec_object f JNull r = Some r"
| "dec_object f _ r = None"

definition job_field :: "string \<Rightarrow> json \<Rightarrow> WorkflowJobPayload \<Rightarrow> WorkflowJobPayload option" where
  "job_field k v r =
     (if EqualFold k ''id'' then map_option (\<lambda>x. r\<lparr>wjID := x\<rparr>) (dec_int v (wjID r))
      else if EqualFold k ''run_id'' then map_option (\<lambda>x. r\<lparr>wjRunID := x\<rparr>) (dec_int v (wjRunID r))
      else if EqualFold k ''workflow_name'' then
        map_option (\<lambda>x. r\<lparr>wjWorkflowName := x\<rparr>) (dec_string v (wjWorkflowName r))
      else if EqualFold k ''head_branch'' then
        map_option (\<lambda>x. r\<lparr>wjHeadBranch := x\<rparr>) (dec_string v (wjHeadBranch r))
      else if EqualFold k ''head_sha'' then
        map_option (\<lambda>x. r\<lparr>wjHeadSHA := x\<rparr>) (dec_string v (wjHeadSHA r))
      else if EqualFold k ''status'' then map_option (\<lambda>x. r\<lparr>wjStatus := x\<rparr>) (dec_string v (wjStatus r))
      else if EqualFold k ''conclusion'' then
        map_option (\<lambda>x. r\<lparr>wjConclusion := x\<rparr>) (dec_string v (wjConclusion r))
      else if EqualFold k ''labels'' then map_option (\<lambda>x. r\<lparr>wjLabels := x\<rparr>) (dec_strings v (wjLabels r))
      else if EqualFold k ''runner_id'' then map_option (\<lambda>x. r\<lparr>wjRunnerID := x\<rparr>) (dec_int v (wjRunnerID r))
      else if EqualFold k ''runner_name'' then
        map_option (\<lambda>x. r\<lparr>wjRunnerName := x\<rparr>) (dec_string v (wjRunnerName r))
      else if EqualFold k ''runner_group_id'' then
        map_option (\<lambda>x. r\<lparr>wjRunnerGroupID := x\<rparr>) (dec_int v (wjRunnerGroupID r))
      else Some r)"

definition repo_field :: "string \<Rightarrow> json \<Rightarrow> RepositoryPayload \<Rightarrow> RepositoryPayload option" where
  "repo_field k v r =
     (if EqualFold k ''id'' then map_option (\<lambda>x. r\<lparr>repID := x\<rparr>) (dec_int v (repID r))
      else if EqualFold k ''name'' then map_option (\<lambda>x. r\<lparr>repName := x\<rparr>) (dec_string v (repName r))
      else if EqualFold k ''full_name'' then
        map_option (\<lambda>x. r\<lparr>repFullName := x\<rparr>) (dec_string v (repFullName r))
      else if EqualFold k ''html_url'' then
        map_option (\<lambda>x. r\<lparr>repHTMLURL := x\<rparr>) (dec_string v (repHTMLURL r))
      else if EqualFold k ''clone_url'' then
        map_option (\<lambda>x. r\<lparr>repCloneURL := x\<rparr>) (dec_string v (repCloneURL r))
      else Some r)"

definition sender_field :: "string \<Rightarrow> json \<Rightarrow> SenderPayload \<Rightarrow> SenderPayload option" where
  "sender_field k v r =
     (if EqualFold k ''id'' then map_option (\<lambda>x. r\<lparr>sdID := x\<rparr>) (dec_int v (sdID r))
      else if EqualFold k ''login'' then map_option (\<lambda>x. r\<lparr>sdLogin := x\<rparr>) (dec_string v (sdLogin r))
      else Some r)"

definition event_field :: "string \<Rightarrow> json \<Rightarrow> WorkflowJobEvent \<Rightarrow> WorkflowJobEvent option" where
  "event_field k v e =
     (if EqualFold k ''action'' then map_option (\<lambda>x. e\<lparr>evAction := x\<rparr>) (dec_string v (evAction e))
      else if EqualFold k ''workflow_job'' then
        map_option (\<lambda>x. e\<lparr>evWorkflowJob := x\<rparr>) (dec_object job_field v (evWorkflowJob e))
      else if EqualFold k ''repository'' then
        map_option (\<lambda>x. e\<lparr>evRepository := x\<rparr>) (dec_object repo_field v (evRepository e))
      else if EqualFold k ''sender'' then
        map_option (\<lambda>x. e\<lparr>evSender := x\<rparr>) (dec_object sender_field v (evSender e))
      else Some e)"

definition Unmarshal_event :: "string \<Rightarrow> WorkflowJobEvent option" where
  "Unmarshal_event body =
     (case parse_json body of
        None \<Rightarrow> None
      | Some v \<Rightarrow> dec_object event_field v empty_event)"

section \<open>Signatures and headers\<close>

record request =
  reqHeader :: "(string \<times> string) list"
  reqBody :: "string + string"

text \<open>\<open>Header.Get\<close>: the first value of a field, whose name is compared up to case.\<close>

definition header_get :: "request \<Rightarrow> string \<Rightarrow> string" where
  "header_get req k =
     (case find (\<lambda>(k', v). EqualFold k' k) (reqHeader req) of None \<Rightarrow> [] | Some (k', v) \<Rightarrow> v)"

definition SignPayload :: "string \<Rightarrow> string \<Rightarrow> string" where
  "SignPayload payload secret = EncodeToString (hmac_sha256 secret payload)"

definition VerifySignature :: "string \<Rightarrow> string \<Rightarrow> string \<Rightarrow> bool" where
  "VerifySignature secret payload signatureHeader =
     (if secret = [] \<or> signatureHeader = [] then False
      else (let sigHex0 = TrimSpace signatureHeader;
                sigHex = (if HasPrefix (ToLower sigHex0) ''sha256='' then drop 7 sigHex0 else sigHex0);
                expectedHex = EncodeToString (hmac_sha256 secret payload)
            in ConstantTimeCompare sigHex expectedHex = 1))"

definition first_of :: "string \<Rightarrow> string \<Rightarrow> string" where
  "first_of a b = (if a \<noteq> [] then a else b)"

definition ExtractSignatureHeader :: "request \<Rightarrow> string \<Rightarrow> string" where
  "ExtractSignatureHeader req prov =
     (let p = ToLower prov in
      if p = ''github'' then header_get req ''X-Hub-Signature-256''
      else if p = ''gitea'' then
        first_of (header_get req ''X-Gitea-Signature'') (header_get req ''X-Hub-Signature-256'')
      else if p = ''forgejo'' then
        first_of (header_get req ''X-Forgejo-Signature'')
          (first_of (header_get req ''X-Gitea-Signature'') (header_get req ''X-Hub-Signature-256''))
      else first_of (header_get req ''X-Hub-Signature-256'') (header_get req ''X-Gitea-Signature''))"

definition ExtractEventHeader :: "request \<Rightarrow> string \<Rightarrow> string" where
  "ExtractEventHeader req prov =
     (let p = ToLower prov in
      if p = ''github'' then header_get req ''X-GitHub-Event''
      else if p = ''gitea'' then
        first_of (header_get req ''X-Gitea-Event'') (header_get req ''X-GitHub-Event'')
      else if p = ''forgejo'' then
        first_of (header_get req ''X-Forgejo-Event'') (header_get req ''X-Gitea-Event'')
      else first_of (header_get req ''X-GitHub-Event'') (header_get req ''X-Gitea-Event''))"

definition StaticSecretResolver :: "(string, string) gomap \<Rightarrow> string \<Rightarrow> string option" where
  "StaticSecretResolver secrets prov =
     (case mget secrets (ToLower prov) of
        Some s \<Rightarrow> if s \<noteq> [] then Some s else None
      | None \<Rightarrow> None)"

section \<open>The receiver\<close>

record response =
  rspStatus :: nat
  rspBody :: json

definition http_error :: "nat \<Rightarrow> string \<Rightarrow> response" where
  "http_error code msg = \<lparr>rspStatus = code, rspBody = JObj [(''error'', JStr msg)]\<rparr>"

definition accepted :: "string \<Rightarrow> WorkflowJobEvent \<Rightarrow> response" where
  "accepted prov e = \<lparr>rspStatus = 202, rspBody = JObj [
     (''action'', JStr (evAction e)), (''job_id'', JNum (Itoa (wjID (evWorkflowJob e)))),
     (''provider'', JStr prov), (''repo'', JStr (repFullName (evRepository e))),
     (''status'', JStr ''accepted'')]\<rparr>"

definition known_provider :: "string \<Rightarrow> bool" where
  "known_provider p \<longleftrightarrow> p = ''github'' \<or> p = ''gitea'' \<or> p = ''forgejo''"

text \<open>What a request is, once its signature has been verified.\<close>

datatype verdict = Reject response | Answer response | Dispatch response string WorkflowJobEvent

definition max_body :: nat where "max_body = 10 * 1024 * 1024"

definition dispatch_event :: "string \<Rightarrow> string \<Rightarrow> verdict" where
  "dispatch_event prov body =
     (case Unmarshal_event body of
        None \<Rightarrow> Reject (http_error 400 ''invalid json payload'')
      | Some e \<Rightarrow>
          (if evAction e = [] then Reject (http_error 400 ''action is required'')
           else if evAction e \<notin> {''queued'', ''in_progress'', ''completed'', ''waiting''} then
             Answer \<lparr>rspStatus = 200,
               rspBody = JObj [(''status'', JStr ''ignored''), (''action'', JStr (evAction e))]\<rparr>
           else Dispatch (accepted prov e) prov e))"

definition judge :: "(string \<Rightarrow> string option) \<Rightarrow> string \<Rightarrow> request \<Rightarrow> verdict" where
  "judge resolveSecret provider0 req =
     (let prov = ToLower (TrimSpace provider0) in
      if \<not> known_provider prov then Reject (http_error 400 ''unsupported provider'')
      else (case resolveSecret prov of
              None \<Rightarrow> Reject (http_error 500 ''webhook secret not configured'')
            | Some secret \<Rightarrow>
                (if secret = [] then Reject (http_error 500 ''webhook secret not configured'')
                 else (let sigHeader = ExtractSignatureHeader req prov in
                   if sigHeader = [] then Reject (http_error 401 ''missing signature'')
                   else (case reqBody req of
                           Inl _ \<Rightarrow> Reject (http_error 400 ''failed reading request body'')
                         | Inr whole \<Rightarrow>
                             (let body = take max_body whole in
                              if \<not> VerifySignature secret body sigHeader
                              then Reject (http_error 401 ''invalid signature'')
                              else if ExtractEventHeader req prov = ''ping'' then
                                Answer \<lparr>rspStatus = 200,
                                  rspBody = JObj [(''status'', JStr ''ok''), (''message'', JStr ''pong'')]\<rparr>
                              else dispatch_event prov body))))))"

text \<open>The handler runs after the answer has been written; its error is only logged.\<close>

definition Handle ::
  "(string \<Rightarrow> string option) \<Rightarrow> (string \<Rightarrow> WorkflowJobEvent \<Rightarrow> ('s, 'e option) state) option
     \<Rightarrow> string \<Rightarrow> request \<Rightarrow> ('s, response) state" where
  "Handle resolveSecret eventHandler provider0 req =
     (case judge resolveSecret provider0 req of
        Reject r \<Rightarrow> State_Monad.return r
      | Answer r \<Rightarrow> State_Monad.return r
      | Dispatch r prov e \<Rightarrow>
          (case eventHandler of
             None \<Rightarrow> State_Monad.return r
           | Some h \<Rightarrow> do { err \<leftarrow> h prov e; State_Monad.return r }))"

section \<open>Signatures\<close>

lemma SignPayload_hex: "c \<in> set (SignPayload payload secret) \<Longrightarrow> is_lower_hex c"
  unfolding SignPayload_def by (rule EncodeToString_chars)

lemma length_SignPayload: "length (SignPayload payload secret) = 64"
  by (simp add: SignPayload_def hmac_sha256_def Let_def length_sha256)

lemma lower_hex_plain: "is_lower_hex c \<Longrightarrow> \<not> is_space c \<and> to_lower_char c = c"
  by (auto simp: is_lower_hex_def is_space_def to_lower_char_def Let_def)

lemma TrimSpace_plain: "\<forall>c \<in> set s. \<not> is_space c \<Longrightarrow> TrimSpace s = s"
  by (cases s rule: rev_cases) (auto simp: TrimSpace_def TrimLeft_id TrimRight_id hd_append)

lemma SignPayload_not_prefixed: "\<not> HasPrefix (ToLower (SignPayload payload secret)) ''sha256=''"
proof
  let ?s = "SignPayload payload secret"
  assume "HasPrefix (ToLower ?s) ''sha256=''"
  then obtain r where r: "map to_lower_char ?s = CHR ''s'' # r"
    by (auto simp: HasPrefix_iff_prefix prefix_def ToLower_def)
  then obtain c where "c \<in> set ?s" "to_lower_char c = CHR ''s''"
    by (cases ?s) auto
  then have "is_lower_hex (CHR ''s'')" using SignPayload_hex lower_hex_plain by metis
  then show False by (simp add: is_lower_hex_def)
qed

lemma VerifySignature_own:
  assumes "secret \<noteq> []"
  shows "VerifySignature secret payload (SignPayload payload secret)"
proof -
  have "TrimSpace (SignPayload payload secret) = SignPayload payload secret"
    using TrimSpace_plain SignPayload_hex lower_hex_plain by blast
  moreover have "SignPayload payload secret \<noteq> []" using length_SignPayload[of payload secret] by auto
  ultimately show ?thesis
    using assms SignPayload_not_prefixed[of payload secret]
    by (simp add: VerifySignature_def Let_def ConstantTimeCompare_def SignPayload_def)
qed

text \<open>
  C7. A signature header is accepted exactly when, trimmed, it is the lower-case hexadecimal
  HMAC-SHA256 of the payload under the (non-empty) secret, alone or after \<open>sha256=\<close> in any case. So
  the supervisor's own signatures verify, and nothing but them does.
\<close>

theorem VerifySignature_iff:
  "VerifySignature secret payload header \<longleftrightarrow> secret \<noteq> [] \<and>
     (TrimSpace header = SignPayload payload secret \<or>
      (\<exists>pre. ToLower pre = ''sha256='' \<and> TrimSpace header = pre @ SignPayload payload secret))"
proof (cases "HasPrefix (ToLower (TrimSpace header)) ''sha256=''")
  case True
  let ?h = "TrimSpace header"
  have lower: "ToLower (take 7 ?h) = ''sha256=''"
    using True by (simp add: HasPrefix_def ToLower_def take_map eval_nat_numeral)
  have "?h \<noteq> SignPayload payload secret" using True SignPayload_not_prefixed by metis
  moreover have "header \<noteq> []" using True by (auto simp: HasPrefix_def)
  moreover have "drop 7 ?h = SignPayload payload secret \<longleftrightarrow>
      (\<exists>pre. ToLower pre = ''sha256='' \<and> ?h = pre @ SignPayload payload secret)"
  proof
    assume "drop 7 ?h = SignPayload payload secret"
    then have "?h = take 7 ?h @ SignPayload payload secret" by (metis append_take_drop_id)
    with lower show "\<exists>pre. ToLower pre = ''sha256='' \<and> ?h = pre @ SignPayload payload secret" by blast
  next
    assume "\<exists>pre. ToLower pre = ''sha256='' \<and> ?h = pre @ SignPayload payload secret"
    then obtain pre where pre: "ToLower pre = ''sha256=''" "?h = pre @ SignPayload payload secret" by blast
    have "length pre = 7" using arg_cong[OF pre(1), of length] by simp
    with pre(2) show "drop 7 ?h = SignPayload payload secret" by simp
  qed
  ultimately show ?thesis
    using True by (auto simp: VerifySignature_def Let_def ConstantTimeCompare_def SignPayload_def)
next
  case False
  let ?h = "TrimSpace header"
  have "SignPayload payload secret \<noteq> []" using length_SignPayload[of payload secret] by auto
  then have "?h = SignPayload payload secret \<Longrightarrow> header \<noteq> []" by auto
  moreover have "\<not> (\<exists>pre. ToLower pre = ''sha256='' \<and> ?h = pre @ SignPayload payload secret)"
    using False by (auto simp: HasPrefix_def ToLower_def)
  ultimately show ?thesis
    using False by (auto simp: VerifySignature_def Let_def ConstantTimeCompare_def SignPayload_def)
qed

section \<open>The contract with the event handler\<close>

text \<open>What the receiver has established about an event that it hands on.\<close>

definition authentic :: "(string \<Rightarrow> string option) \<Rightarrow> request \<Rightarrow> string \<Rightarrow> WorkflowJobEvent \<Rightarrow> bool" where
  "authentic resolveSecret req prov e \<longleftrightarrow>
     (\<exists>secret whole. known_provider prov \<and> resolveSecret prov = Some secret \<and> reqBody req = Inr whole \<and>
        VerifySignature secret (take max_body whole) (ExtractSignatureHeader req prov) \<and>
        Unmarshal_event (take max_body whole) = Some e \<and>
        evAction e \<in> {''queued'', ''in_progress'', ''completed'', ''waiting''})"

lemma judge_Dispatch:
  assumes "judge resolveSecret prov0 req = Dispatch r prov e"
  shows "prov = ToLower (TrimSpace prov0) \<and> rspStatus r = 202 \<and> authentic resolveSecret req prov e"
  using assms
  by (auto simp: judge_def dispatch_event_def accepted_def authentic_def Let_def
      split: if_splits option.splits sum.splits)

locale event_handler =
  fixes handler :: "string \<Rightarrow> WorkflowJobEvent \<Rightarrow> ('s, 'e option) state" and I :: "'s \<Rightarrow> bool"
  assumes handler_I: "preserves I (handler prov e)"
begin

lemma Handle_I: "preserves I (Handle resolveSecret (Some handler) prov0 req)"
  unfolding Handle_def
  by (cases "judge resolveSecret prov0 req") (auto intro!: keeps handler_I)

end

lemma Handle_changes_only_if_authentic:
  assumes "exec (Handle resolveSecret (Some handler) prov0 req) s \<noteq> s"
  shows "\<exists>e. authentic resolveSecret req (ToLower (TrimSpace prov0)) e \<and>
     rspStatus (fst (run_state (Handle resolveSecret (Some handler) prov0 req) s)) = 202 \<and>
     exec (Handle resolveSecret (Some handler) prov0 req) s =
       exec (handler (ToLower (TrimSpace prov0)) e) s"
proof (cases "judge resolveSecret prov0 req")
  case (Dispatch r prov e)
  with judge_Dispatch[OF Dispatch] show ?thesis
    by (auto simp: Handle_def exec_def split: prod.splits)
qed (use assms in \<open>simp_all add: Handle_def\<close>)

text \<open>
  The receiver acts on authentic events only. A request that makes \<open>Handle\<close> change the handler's
  state was sent to a known provider's endpoint, carries a valid signature of (the first ten megabytes
  of) its body under that provider's secret, and its body decodes to the event handled, with one of the
  four job actions; it is answered with 202. Every other request leaves the state alone.
\<close>

theorem Handle_authentic:
  assumes "exec (Handle resolveSecret (Some handler) prov0 req) s \<noteq> s"
  shows "\<exists>e. authentic resolveSecret req (ToLower (TrimSpace prov0)) e \<and>
     rspStatus (fst (run_state (Handle resolveSecret (Some handler) prov0 req) s)) = 202 \<and>
     exec (Handle resolveSecret (Some handler) prov0 req) s =
       exec (handler (ToLower (TrimSpace prov0)) e) s"
  using Handle_changes_only_if_authentic[OF assms] .

definition ex_body :: string where
  "ex_body = [CHR ''{'', CHR 0x22] @ ''action'' @ [CHR 0x22, CHR '':'', CHR 0x22] @ ''queued'' @
     [CHR 0x22, CHR ''}'']"

definition ex_request :: request where
  "ex_request = \<lparr>reqHeader = [(''X-Hub-Signature-256'', SignPayload ex_body ''key'')],
     reqBody = Inr ex_body\<rparr>"

definition count_events :: "string \<Rightarrow> WorkflowJobEvent \<Rightarrow> (nat, string option) state" where
  "count_events prov e = do { modify Suc; State_Monad.return None }"

theorem Handle_authentic_witness:
  "\<exists>e. authentic (\<lambda>p. Some ''key'') ex_request ''github'' e \<and>
     exec (Handle (\<lambda>p. Some ''key'') (Some count_events) ''github'' ex_request) 0 = 1"
proof -
  have gh: "ToLower (TrimSpace ''github'') = ''github''" by code_simp
  have body: "take max_body ex_body = ex_body" by (simp add: max_body_def ex_body_def)
  have event: "Unmarshal_event ex_body = Some (empty_event\<lparr>evAction := ''queued''\<rparr>)" by code_simp
  have sign: "ExtractSignatureHeader ex_request ''github'' = SignPayload ex_body ''key''"
    by (simp add: ExtractSignatureHeader_def ex_request_def header_get_def EqualFold_def go_simps Let_def)
  have ping: "ExtractEventHeader ex_request ''github'' = []"
    by (simp add: ExtractEventHeader_def ex_request_def header_get_def EqualFold_def go_simps Let_def)
  have rb: "reqBody ex_request = Inr ex_body" by (simp add: ex_request_def)
  have ne: "SignPayload ex_body ''key'' \<noteq> []" using length_SignPayload[of ex_body "''key''"] by auto
  have "judge (\<lambda>p. Some ''key'') ''github'' ex_request =
      Dispatch (accepted ''github'' (empty_event\<lparr>evAction := ''queued''\<rparr>)) ''github''
        (empty_event\<lparr>evAction := ''queued''\<rparr>)"
    by (simp add: judge_def Let_def gh known_provider_def sign ne ping rb body
        VerifySignature_own dispatch_event_def event)
  then have "exec (Handle (\<lambda>p. Some ''key'') (Some count_events) ''github'' ex_request) 0 = 1"
    by (simp add: Handle_def count_events_def exec_def)
  with Handle_authentic[of "\<lambda>p. Some ''key''" count_events "''github''" ex_request 0] gh show ?thesis
    by auto
qed

end
