(* ===== verification/Webhook_Scaling.thy ===== *)
theory Webhook_Scaling
  imports Controller Go_Url Webhook
begin

text \<open>
  \<open>src/internal/orchestrator/webhook_scaling.go\<close>: normalising repository URLs, matching a job's
  labels and repository against the pools, and \<open>HandleWorkflowJob\<close>, which provisions a runner for a
  queued job and marks runners busy and idle.
\<close>

section \<open>URLs and labels\<close>

definition strip_git :: "string \<Rightarrow> string" where
  "strip_git s = TrimSuffix (TrimSuffix (TrimSuffix s ''/'') ''.git'') ''/''"

definition NormalizeRepositoryURL :: "string \<Rightarrow> string" where
  "NormalizeRepositoryURL raw =
     (let rawURL = TrimSpace raw in
      if rawURL = [] then []
      else (case Parse rawURL of
              None \<Rightarrow> strip_git (ToLower rawURL)
            | Some u \<Rightarrow>
                TrimSuffix (url_string (u\<lparr>uScheme := ToLower (uScheme u), uHost := ToLower (uHost u),
                  uPath := ToLower (strip_git (uPath u)), uRawQuery := [], uFragment := []\<rparr>)) ''/''))"

definition default_labels :: "string list" where
  "default_labels = [''self-hosted'', ''linux'']"

definition split_labels :: "string \<Rightarrow> string list" where
  "split_labels raw =
     (let res = filter (\<lambda>l. l \<noteq> []) (map TrimSpace (Split raw (CHR '','')))
      in if res = [] then default_labels else res)"

definition parsePoolLabels :: "string \<Rightarrow> string list" where
  "parsePoolLabels raw =
     (if raw = [] then default_labels
      else (case Unmarshal_strings raw of
              Some arr \<Rightarrow> if arr \<noteq> [] then arr else split_labels raw
            | None \<Rightarrow> split_labels raw))"

definition clean_label :: "string \<Rightarrow> string" where
  "clean_label l = ToLower (TrimSpace l)"

definition LabelsMatch :: "string \<Rightarrow> string list \<Rightarrow> bool" where
  "LabelsMatch poolLabelsRaw requiredLabels =
     (if requiredLabels = [] then True
      else (let poolLabelSet = map clean_label (parsePoolLabels poolLabelsRaw)
            in list_all (\<lambda>req. clean_label req = [] \<or> clean_label req \<in> set poolLabelSet) requiredLabels))"

section \<open>Matching a pool\<close>

definition candidate_urls :: "string \<Rightarrow> WorkflowJobEvent \<Rightarrow> string list" where
  "candidate_urls pName0 event =
     (let r = evRepository event in
      (if repHTMLURL r \<noteq> [] then [NormalizeRepositoryURL (repHTMLURL r)] else []) @
      (if repCloneURL r \<noteq> [] then [NormalizeRepositoryURL (repCloneURL r)] else []) @
      (if repFullName r \<noteq> [] \<and> pName0 = ''github''
       then [NormalizeRepositoryURL (''https://github.com/'' @ repFullName r)] else []))"

definition repo_matches :: "string list \<Rightarrow> string \<Rightarrow> string \<Rightarrow> bool" where
  "repo_matches cands fullName targetURL \<longleftrightarrow>
     list_ex (\<lambda>c. targetURL = c) cands \<or> (fullName \<noteq> [] \<and> HasSuffix targetURL (''/'' @ fullName))"

definition org_matches :: "string list \<Rightarrow> string \<Rightarrow> string \<Rightarrow> bool" where
  "org_matches cands fullName targetURL \<longleftrightarrow>
     list_ex (\<lambda>c. HasPrefix c (targetURL @ ''/'')) cands \<or>
     (fullName \<noteq> [] \<and>
      HasSuffix targetURL (''/'' @ (case Index fullName (CHR ''/'') of None \<Rightarrow> fullName | Some i \<Rightarrow> take i fullName)))"

definition url_host :: "string \<Rightarrow> string" where
  "url_host s = (case Parse s of None \<Rightarrow> [] | Some u \<Rightarrow> uHost u)"

definition global_matches :: "string list \<Rightarrow> string \<Rightarrow> bool" where
  "global_matches cands targetURL \<longleftrightarrow>
     url_host targetURL \<noteq> [] \<and>
     list_ex (\<lambda>c. url_host c \<noteq> [] \<and> EqualFold (url_host targetURL) (url_host c)) cands"

definition target_score :: "string \<Rightarrow> string list \<Rightarrow> string \<Rightarrow> string \<Rightarrow> int" where
  "target_score scope cands fullName rawTarget =
     (let targetURL = NormalizeRepositoryURL rawTarget in
      if scope = ''repo'' then (if repo_matches cands fullName targetURL then 300 else - 1)
      else if scope = ''org'' then (if org_matches cands fullName targetURL then 200 else - 1)
      else if scope = ''global'' then (if global_matches cands targetURL then 100 else - 1)
      else - 1)"

definition pool_scope :: "RunnerPool \<Rightarrow> string" where
  "pool_scope p = (let s = ToLower (TrimSpace (pScope p)) in if s = [] then ''repo'' else s)"

definition pool_eligible :: "string \<Rightarrow> string list \<Rightarrow> RunnerPool \<Rightarrow> bool" where
  "pool_eligible pName0 labels p \<longleftrightarrow>
     ToLower (TrimSpace (pProvider p)) = pName0 \<and> LabelsMatch (pLabels p) labels"

definition match_targets :: "(int, string list) gomap \<Rightarrow> RunnerPool \<Rightarrow> string list" where
  "match_targets poolTargets p =
     (let targets = (case mget poolTargets (pID p) of None \<Rightarrow> [] | Some ts \<Rightarrow> ts)
      in if targets = [] \<and> pRepositoryUrl p \<noteq> [] then [pRepositoryUrl p] else targets)"

text \<open>The best match so far: a pool, its target and the score; no match scores \<open>-1\<close>.\<close>

type_synonym best = "(RunnerPool \<times> string) option \<times> int"

definition try_target ::
  "string list \<Rightarrow> string \<Rightarrow> RunnerPool \<Rightarrow> string \<Rightarrow> best \<Rightarrow> best" where
  "try_target cands fullName p rawTarget b =
     (let score = target_score (pool_scope p) cands fullName rawTarget
      in if score > snd b then (Some (p, rawTarget), score) else b)"

definition try_pool ::
  "string \<Rightarrow> WorkflowJobEvent \<Rightarrow> (int, string list) gomap \<Rightarrow> RunnerPool \<Rightarrow> best \<Rightarrow> best" where
  "try_pool pName0 event poolTargets p b =
     (if \<not> pool_eligible pName0 (wjLabels (evWorkflowJob event)) p then b
      else fold (try_target (candidate_urls pName0 event)
                   (ToLower (TrimSpace (repFullName (evRepository event)))) p)
             (match_targets poolTargets p) b)"

definition MatchPoolForEventWithTargets ::
  "RunnerPool list \<Rightarrow> (int, string list) gomap \<Rightarrow> string \<Rightarrow> WorkflowJobEvent option
     \<Rightarrow> (RunnerPool \<times> string) option" where
  "MatchPoolForEventWithTargets pools poolTargets providerName event0 =
     (case event0 of
        None \<Rightarrow> None
      | Some event \<Rightarrow>
          (case fst (fold (try_pool (ToLower (TrimSpace providerName)) event poolTargets) pools (None, - 1)) of
             None \<Rightarrow> None
           | Some (p, t) \<Rightarrow> Some (p, if t = [] then pRepositoryUrl p else t)))"

definition MatchPoolForEvent ::
  "RunnerPool list \<Rightarrow> string \<Rightarrow> WorkflowJobEvent option \<Rightarrow> RunnerPool option" where
  "MatchPoolForEvent pools providerName event =
     map_option fst (MatchPoolForEventWithTargets pools [] providerName event)"

section \<open>Handling a workflow job\<close>

fun load_all_targets ::
  "deps \<Rightarrow> RunnerPool list \<Rightarrow> (int, string list) gomap \<Rightarrow> (controller, (int, string list) gomap) state" where
  "load_all_targets d [] m = State_Monad.return m"
| "load_all_targets d (p # ps) m = do {
     ts \<leftarrow> loadPoolTargets d p;
     load_all_targets d ps (mput (pID p) ts m)
   }"

text \<open>
  The two capacity checks of the handler, before and after it takes the provisioning lock, are the
  same code; \<open>continue\<close> is what runs when both the pool and the quota have room.
\<close>

definition capacity_check ::
  "deps \<Rightarrow> RunnerPool \<Rightarrow> string \<Rightarrow> (controller, go_error option) state \<Rightarrow> (controller, go_error option) state"
  where
  "capacity_check d p targetURL continue = do {
     rs \<leftarrow> tracked_pool_runners d (pName p);
     if pMaxConcurrency p > 0 \<and> running_count rs \<ge> pMaxConcurrency p then State_Monad.return None
     else do {
       sat \<leftarrow> gets (saturated d);
       if sat then do { enqueueRequest d (pName p) targetURL; State_Monad.return None }
       else continue
     }
   }"

definition handle_queued ::
  "deps \<Rightarrow> string \<Rightarrow> WorkflowJobEvent \<Rightarrow> (controller, go_error option) state" where
  "handle_queued d providerName event = do {
     res \<leftarrow> loadPools d;
     case res of
       Inl er \<Rightarrow> State_Monad.return (Some (LoadingPools er))
     | Inr pools \<Rightarrow> do {
         targets \<leftarrow> load_all_targets d pools [];
         case MatchPoolForEventWithTargets pools targets providerName (Some event) of
           None \<Rightarrow> State_Monad.return None
         | Some (p, targetURL) \<Rightarrow>
             (if reconciler d = None then do { nil_panic; State_Monad.return None }
              else capacity_check d p targetURL
                     (capacity_check d p targetURL (spawnSingleRunner d p None True targetURL)))
       }
   }"

definition mark_busy :: "deps \<Rightarrow> string \<Rightarrow> bool \<Rightarrow> (controller, unit) state" where
  "mark_busy d n busy =
     (if n \<noteq> [] \<and> reconciler d \<noteq> None then do {
        k \<leftarrow> next_tick;
        modify (\<lambda>c. c\<lparr>tracked := MarkRunnerBusy (pool_order d k) (runner_order d k) n busy (tracked c)\<rparr>)
      } else skip)"

definition HandleWorkflowJob ::
  "deps \<Rightarrow> string \<Rightarrow> WorkflowJobEvent option \<Rightarrow> (controller, go_error option) state" where
  "HandleWorkflowJob d providerName event0 =
     (case event0 of
        None \<Rightarrow> State_Monad.return None
      | Some event \<Rightarrow> do {
          st \<leftarrow> gets cstate;
          if st = StateStopped then State_Monad.return (Some ErrControllerStopped)
          else if st = StatePaused then State_Monad.return None
          else if evAction event = ''queued'' then handle_queued d providerName event
          else if evAction event = ''in_progress'' then do {
            mark_busy d (wjRunnerName (evWorkflowJob event)) True;
            State_Monad.return None
          } else if evAction event = ''completed'' then do {
            mark_busy d (wjRunnerName (evWorkflowJob event)) False;
            State_Monad.return None
          } else State_Monad.return None
        })"

end
