(* ===== verification/Audit_Props.thy ===== *)
theory Audit_Props
  imports Reconciler
begin

text \<open>
  What \<open>Audit\<close> (\<open>src/internal/orchestrator/auditor.go\<close>) does: the tracked entries after a cycle
  as a function of the entries before and of the engine's list (\<open>Audit_lookup\<close>), and the report.
  Docker's container ids are unique, so the engine's list has one status per id.
\<close>

section \<open>The loop over the live containers\<close>

definition refresh :: "tracked \<Rightarrow> RunnerStatus \<Rightarrow> RunnerStatus" where
  "refresh T s = (case lookup T (rsPoolName s) (rsID s) of
                    None \<Rightarrow> s | Some existing \<Rightarrow> merge_status existing s)"

lemma merge_status_frame [simp]:
  "rsID (merge_status e s) = rsID s" "rsName (merge_status e s) = rsName s"
  "rsPoolName (merge_status e s) = rsPoolName s" "rsState (merge_status e s) = rsState s"
  "rsTargetURL (merge_status e s) = rsTargetURL s"
  by (simp_all add: merge_status_def Let_def)

lemma merge_status_fields:
  "rsIsBusy (merge_status e s) \<longleftrightarrow> rsIsBusy s \<or> rsIsBusy e"
  "rsOnDemand (merge_status e s) \<longleftrightarrow> rsOnDemand s \<or> rsOnDemand e"
  "rsSpawnedAt (merge_status e s) =
     (if IsZero (rsSpawnedAt s) then rsSpawnedAt e else rsSpawnedAt s)"
  by (auto simp: merge_status_def Let_def IsZero_def)

lemma refresh_frame [simp]:
  "rsID (refresh T s) = rsID s" "rsPoolName (refresh T s) = rsPoolName s"
  "rsState (refresh T s) = rsState s"
  by (simp_all add: refresh_def split: option.splits)

definition report_live :: "tracked \<Rightarrow> RunnerStatus \<Rightarrow> AuditReport \<Rightarrow> AuditReport" where
  "report_live T s rep =
     (let rep1 = (if lookup T (rsPoolName s) (rsID s) = None
                  then rep\<lparr>arAdopted := arAdopted rep @ [s]\<rparr> else rep)
      in if is_running (refresh T s) then rep1\<lparr>arActive := arActive rep1 @ [refresh T s]\<rparr>
         else rep1\<lparr>arExited := arExited rep1 @ [refresh T s]\<rparr>)"

lemma audit_live_eq:
  "audit_live s (T, rep) = (TrackRunner (refresh T s) T, report_live T s rep)"
  by (cases "lookup T (rsPoolName s) (rsID s)")
     (simp_all add: audit_live_def report_live_def Let_def refresh_def lookup_def TrackRunner_def
        is_running_def)

definition live_at :: "RunnerStatus list \<Rightarrow> string \<Rightarrow> string \<Rightarrow> RunnerStatus option" where
  "live_at L p i = find (\<lambda>s. rsPoolName s = p \<and> rsID s = i) L"

lemma live_at_simps [simp]:
  "live_at [] p i = None"
  "live_at (s # L) p i = (if rsPoolName s = p \<and> rsID s = i then Some s else live_at L p i)"
  by (simp_all add: live_at_def)

lemma live_at_None: "i \<notin> rsID ` set L \<Longrightarrow> live_at L p i = None"
  by (induction L) auto

lemma live_at_Some:
  "live_at L p i = Some s \<Longrightarrow> s \<in> set L \<and> rsPoolName s = p \<and> rsID s = i"
  by (induction L) (auto split: if_splits)

lemma live_at_eq_Some:
  "distinct (map rsID L) \<Longrightarrow> s \<in> set L \<Longrightarrow> live_at L (rsPoolName s) (rsID s) = Some s"
  by (induction L) (auto simp: rev_image_eqI)

text \<open>After the loop every listed container has its refreshed status; nothing else changed.\<close>

lemma fold_live_wf:
  "wf_tracked T \<Longrightarrow> wf_tracked (fst (fold audit_live L (T, rep)))"
  by (induction L arbitrary: T rep) (simp_all add: audit_live_eq wf_TrackRunner)

lemma lookup_after_live:
  "rsID t \<noteq> rsID s \<Longrightarrow>
     lookup (TrackRunner (refresh T s) T) (rsPoolName t) (rsID t) = lookup T (rsPoolName t) (rsID t)"
  by (simp add: lookup_TrackRunner)

lemma refresh_after_live:
  "rsID t \<noteq> rsID s \<Longrightarrow> refresh (TrackRunner (refresh T s) T) t = refresh T t"
  by (simp add: refresh_def[of _ t] lookup_after_live)

lemma fold_live_lookup:
  assumes "distinct (map rsID L)"
  shows "lookup (fst (fold audit_live L (T, rep))) p i =
          (case live_at L p i of None \<Rightarrow> lookup T p i | Some s \<Rightarrow> Some (refresh T s))"
  using assms
proof (induction L arbitrary: T rep)
  case (Cons s L)
  show ?case
  proof (cases "live_at L p i")
    case None
    with Cons show ?thesis by (simp add: audit_live_eq lookup_TrackRunner)
  next
    case (Some t)
    then have t: "t \<in> set L" "rsPoolName t = p" "rsID t = i" by (auto dest: live_at_Some)
    with Cons.prems have "rsID t \<noteq> rsID s" by (auto simp: rev_image_eqI)
    with Cons Some t show ?thesis by (auto simp: audit_live_eq refresh_after_live)
  qed
qed simp

lemma fold_live_report:
  assumes "distinct (map rsID L)"
  shows "snd (fold audit_live L (T, rep)) =
          rep\<lparr>arActive := arActive rep @ filter is_running (map (refresh T) L),
              arExited := arExited rep @ filter (\<lambda>s. \<not> is_running s) (map (refresh T) L),
              arAdopted := arAdopted rep @
                filter (\<lambda>s. lookup T (rsPoolName s) (rsID s) = None) L\<rparr>"
  using assms
proof (induction L arbitrary: T rep)
  case (Cons s L)
  let ?T = "TrackRunner (refresh T s) T"
  have ne: "rsID t \<noteq> rsID s" if "t \<in> set L" for t
    using that Cons.prems by (auto simp: rev_image_eqI)
  then have maps: "map (refresh ?T) L = map (refresh T) L"
    by (simp add: refresh_after_live)
  have adopted: "filter (\<lambda>t. lookup ?T (rsPoolName t) (rsID t) = None) L
       = filter (\<lambda>t. lookup T (rsPoolName t) (rsID t) = None) L"
    by (rule filter_cong) (simp_all add: lookup_after_live ne)
  have "snd (fold audit_live (s # L) (T, rep)) = snd (fold audit_live L (?T, report_live T s rep))"
    by (simp add: audit_live_eq)
  also have "\<dots> = (report_live T s rep)
      \<lparr>arActive := arActive (report_live T s rep) @ filter is_running (map (refresh T) L),
       arExited := arExited (report_live T s rep) @ filter (\<lambda>s. \<not> is_running s) (map (refresh T) L),
       arAdopted := arAdopted (report_live T s rep) @
         filter (\<lambda>s. lookup T (rsPoolName s) (rsID s) = None) L\<rparr>"
    using Cons.prems by (subst Cons.IH) (simp_all only: maps adopted list.map distinct.simps)
  finally show ?case by (simp add: report_live_def Let_def)
qed simp

section \<open>The sweep over the tracked pools\<close>

definition still :: "string list \<Rightarrow> pool_map \<Rightarrow> pool_map" where
  "still live pm = filter (\<lambda>e. fst e \<in> set live) pm"

lemma mget_still: "mget (still live pm) i = (if i \<in> set live then mget pm i else None)"
  by (induction pm) (auto simp: still_def)

lemma audit_sweep_eq:
  "audit_sweep ords live (p, pm) (T, gone) =
     (if still live pm = [] then mdel p T else mput p (still live pm) T,
      gone @ filter (\<lambda>i. i \<notin> set live) (map fst (go_range (ords p) pm)))"
  by (simp add: audit_sweep_def still_def Let_def)

lemma fold_sweep_wf:
  assumes "wf_tracked T" "\<And>p pm. (p, pm) \<in> set es \<Longrightarrow> wf_pool p pm"
  shows "wf_tracked (fst (fold (audit_sweep ords live) es (T, gone)))"
  using assms
proof (induction es arbitrary: T gone)
  case (Cons e es)
  obtain q qm where e: "e = (q, qm)" by (cases e)
  have "wf_pool q (still live qm)"
    using Cons.prems(2)[of q qm] e by (simp add: still_def wf_pool_filter)
  with Cons e show ?case
    by (simp add: audit_sweep_eq wf_tracked_mdel wf_tracked_mput)
qed simp

lemma fold_sweep_pool_of:
  assumes "distinct (map fst es)"
  shows "pool_of (fst (fold (audit_sweep ords live) es (T, gone))) p =
          (case mget es p of None \<Rightarrow> pool_of T p | Some pm \<Rightarrow> still live pm)"
  using assms
proof (induction es arbitrary: T gone)
  case (Cons e es)
  obtain q qm where e: "e = (q, qm)" by (cases e)
  with Cons.prems have "mget es q = None" by (simp add: map_of_eq_None_iff)
  with Cons e show ?case by (auto simp: audit_sweep_eq split: option.split)
qed simp

lemma fold_sweep_mget:
  assumes "distinct (map fst es)"
  shows "mget (fst (fold (audit_sweep ords live) es (T, gone))) p =
          (case mget es p of None \<Rightarrow> mget T p
           | Some pm \<Rightarrow> if still live pm = [] then None else Some (still live pm))"
  using assms
proof (induction es arbitrary: T gone)
  case (Cons e es)
  obtain q qm where e: "e = (q, qm)" by (cases e)
  with Cons.prems have "mget es q = None" by (simp add: map_of_eq_None_iff)
  with Cons e show ?case by (auto simp: audit_sweep_eq split: option.split)
qed simp

lemma fold_sweep_gone:
  "set (snd (fold (audit_sweep ords live) es (T, gone))) =
     set gone \<union> {i. \<exists>(p, pm) \<in> set es. i \<in> fst ` set pm \<and> i \<notin> set live}"
proof (induction es arbitrary: T gone)
  case (Cons e es)
  then show ?case by (cases e) (force simp: audit_sweep_eq)
qed simp

section \<open>A whole audit cycle\<close>

text \<open>An audit in which the container \<open>a\<close>, busy since before, still runs and \<open>b\<close> has gone.\<close>

definition ex_live :: RunnerStatus where
  "ex_live = \<lparr>rsID = ''a'', rsName = ''ghrs-ci-a'', rsPoolName = ''ci'', rsState = ''running'',
     rsIPAddress = [], rsExitCode = 0, rsSpawnedAt = zero_time, rsIsBusy = False, rsOnDemand = False,
     rsTargetURL = []\<rparr>"

definition ex_tracked :: tracked where
  "ex_tracked = [(''ci'', [(''a'', ex_live\<lparr>rsIsBusy := True, rsSpawnedAt := 5\<rparr>),
                           (''b'', ex_live\<lparr>rsID := ''b''\<rparr>)])]"

lemma lookup_pool_of: "pool_of T p = pool_of T' p \<Longrightarrow> lookup T p i = lookup T' p i"
  by (simp add: lookup_def)

lemma Audit_ok_eq:
  "Audit (Some (Inr L)) ord ords T =
     (let T1 = fst (fold audit_live L (T, empty_report));
          rep = snd (fold audit_live L (T, empty_report));
          TD = fold (audit_sweep ords (map rsID L)) (go_range ord T1) (T1, [])
      in (fst TD, Inr (rep\<lparr>arDisappeared := snd TD,
                           arTotalTracked := sum_list (map (\<lambda>e. length (snd e)) (fst TD))\<rparr>)))"
  by (simp add: Audit_def Let_def split_def)

lemma Audit_wf:
  assumes "distinct (map rsID L)" "wf_tracked T"
  shows "wf_tracked (fst (Audit (Some (Inr L)) ord ords T))"
    and "no_empty_pool (fst (Audit (Some (Inr L)) ord ords T))"
proof -
  define T1 where "T1 = fst (fold audit_live L (T, empty_report))"
  have wf1: "wf_tracked T1" using fold_live_wf[OF assms(2)] by (simp add: T1_def)
  let ?TD = "fold (audit_sweep ords (map rsID L)) (go_range ord T1) (T1, [])"
  have wf2: "wf_tracked (fst ?TD)"
    by (rule fold_sweep_wf[OF wf1]) (use wf1 in \<open>auto simp: wf_tracked_def\<close>)
  then show "wf_tracked (fst (Audit (Some (Inr L)) ord ords T))"
    by (simp add: Audit_ok_eq Let_def T1_def)
  have "pm \<noteq> []" if "(p, pm) \<in> set (fst ?TD)" for p pm
  proof -
    have "mget (fst ?TD) p = Some pm" using wf2 that by simp
    moreover have "mget (fst ?TD) p = (case mget T1 p of None \<Rightarrow> None
       | Some pm \<Rightarrow> if still (map rsID L) pm = [] then None else Some (still (map rsID L) pm))"
      using fold_sweep_mget[of "go_range ord T1"] wf1
      by (simp split: option.split)
    ultimately show ?thesis by (auto split: option.splits if_splits)
  qed
  then show "no_empty_pool (fst (Audit (Some (Inr L)) ord ords T))"
    by (auto simp: no_empty_pool_def Audit_ok_eq Let_def T1_def)
qed

text \<open>
  C6. The tracked runners after an audit, as a function of those before and of the engine's list:
  a container that the engine lists is tracked under its pool, with the engine's status, to which the
  busy and on-demand marks and a known start time of the entry already there are added; every entry
  whose container the engine no longer lists is gone.
\<close>

theorem Audit_lookup:
  assumes "distinct (map rsID L)" "wf_tracked T"
  shows "lookup (fst (Audit (Some (Inr L)) ord ords T)) p i =
     (if i \<in> rsID ` set L
      then (case live_at L p i of None \<Rightarrow> lookup T p i | Some s \<Rightarrow> Some (refresh T s))
      else None)"
proof -
  define T1 where "T1 = fst (fold audit_live L (T, empty_report))"
  have wf1: "wf_map T1" using fold_live_wf[OF assms(2)] by (simp add: T1_def)
  let ?TD = "fold (audit_sweep ords (map rsID L)) (go_range ord T1) (T1, [])"
  have "pool_of (fst ?TD) p = still (map rsID L) (pool_of T1 p)"
    using fold_sweep_pool_of[of "go_range ord T1"] wf1
    by (simp add: pool_of_def[of T1] still_def split: option.split)
  then have "lookup (fst ?TD) p i = (if i \<in> rsID ` set L then lookup T1 p i else None)"
    by (simp add: lookup_def mget_still)
  then show ?thesis
    using fold_live_lookup[OF assms(1), of T empty_report p i]
    by (simp add: Audit_ok_eq Let_def T1_def)
qed

theorem Audit_lookup_witness:
  "lookup (fst (Audit (Some (Inr [ex_live])) [] (\<lambda>p. []) ex_tracked)) ''ci'' ''a'' =
     Some (ex_live\<lparr>rsIsBusy := True, rsSpawnedAt := 5\<rparr>) \<and>
   lookup (fst (Audit (Some (Inr [ex_live])) [] (\<lambda>p. []) ex_tracked)) ''ci'' ''b'' = None"
proof -
  have "wf_tracked ex_tracked" by (simp add: ex_tracked_def ex_live_def wf_tracked_def wf_pool_def)
  from Audit_lookup[OF _ this, of "[ex_live]" "[]" "\<lambda>p. []"] show ?thesis
    by (simp add: ex_tracked_def ex_live_def refresh_def merge_status_def lookup_def pool_of_def
        IsZero_def zero_time_def)
qed

text \<open>
  The report of an audit is accurate: the running and the exited containers of the engine's list
  with their merged statuses and in its order, the containers that were not tracked as adopted, the
  tracked ids that the engine no longer lists as disappeared, and the size of the new tracking state.
\<close>

theorem Audit_report:
  assumes "distinct (map rsID L)" "wf_tracked T"
  shows "\<exists>rep. snd (Audit (Some (Inr L)) ord ords T) = Inr rep \<and>
     arActive rep = filter is_running (map (refresh T) L) \<and>
     arExited rep = filter (\<lambda>s. \<not> is_running s) (map (refresh T) L) \<and>
     arAdopted rep = filter (\<lambda>s. lookup T (rsPoolName s) (rsID s) = None) L \<and>
     set (arDisappeared rep) = {i. (\<exists>p. lookup T p i \<noteq> None) \<and> i \<notin> rsID ` set L} \<and>
     arTotalTracked rep = sum_list (map (\<lambda>e. length (snd e)) (fst (Audit (Some (Inr L)) ord ords T)))"
proof -
  define T1 where "T1 = fst (fold audit_live L (T, empty_report))"
  have wf1: "wf_tracked T1" using fold_live_wf[OF assms(2)] by (simp add: T1_def)
  have look: "lookup T1 p i = (case live_at L p i of None \<Rightarrow> lookup T p i | Some s \<Rightarrow> Some (refresh T s))"
    for p i using fold_live_lookup[OF assms(1)] by (simp add: T1_def)
  have mem: "(\<exists>(p, pm) \<in> set T1. i \<in> fst ` set pm) \<longleftrightarrow> (\<exists>p. lookup T1 p i \<noteq> None)" for i
  proof
    assume "\<exists>(p, pm) \<in> set T1. i \<in> fst ` set pm"
    then obtain p pm where "(p, pm) \<in> set T1" "i \<in> fst ` set pm" by auto
    then have "mget T1 p = Some pm" "mget pm i \<noteq> None"
      using wf1 by (simp_all add: map_of_eq_None_iff)
    then have "lookup T1 p i \<noteq> None" by (simp add: lookup_def pool_of_def)
    then show "\<exists>p. lookup T1 p i \<noteq> None" ..
  next
    assume "\<exists>p. lookup T1 p i \<noteq> None"
    then obtain p pm where "mget T1 p = Some pm" "mget pm i \<noteq> None"
      by (fastforce simp: lookup_def pool_of_def split: option.splits)
    then show "\<exists>(p, pm) \<in> set T1. i \<in> fst ` set pm"
      by (metis (no_types, lifting) case_prodI map_of_SomeD map_of_eq_None_iff)
  qed
  have gone: "{i. \<exists>(p, pm) \<in> set T1. i \<in> fst ` set pm \<and> i \<notin> set (map rsID L)} =
        {i. (\<exists>p. lookup T p i \<noteq> None) \<and> i \<notin> rsID ` set L}"
  proof (rule Collect_cong)
    fix i
    have "(\<exists>(p, pm) \<in> set T1. i \<in> fst ` set pm \<and> i \<notin> set (map rsID L)) \<longleftrightarrow>
          (\<exists>p. lookup T1 p i \<noteq> None) \<and> i \<notin> rsID ` set L"
      using mem[of i] by fastforce
    also have "\<dots> \<longleftrightarrow> (\<exists>p. lookup T p i \<noteq> None) \<and> i \<notin> rsID ` set L"
      by (cases "i \<in> rsID ` set L") (simp_all add: look live_at_None)
    finally show "(\<exists>(p, pm) \<in> set T1. i \<in> fst ` set pm \<and> i \<notin> set (map rsID L)) \<longleftrightarrow>
          (\<exists>p. lookup T p i \<noteq> None) \<and> i \<notin> rsID ` set L" .
  qed
  show ?thesis
    using gone fold_live_report[OF assms(1), of T empty_report]
    by (simp add: Audit_ok_eq Let_def T1_def fold_sweep_gone empty_report_def)
qed

theorem Audit_report_witness:
  "\<exists>rep. snd (Audit (Some (Inr [ex_live])) [] (\<lambda>p. []) ex_tracked) = Inr rep \<and>
     length (arActive rep) = 1 \<and> arAdopted rep = [] \<and> set (arDisappeared rep) = {''b''}"
proof -
  have wf: "wf_tracked ex_tracked" by (simp add: ex_tracked_def ex_live_def wf_tracked_def wf_pool_def)
  have b: "{i. (\<exists>p. lookup ex_tracked p i \<noteq> None) \<and> i \<notin> rsID ` set [ex_live]} = {''b''}"
    by (auto simp: ex_tracked_def ex_live_def lookup_def pool_of_def split: if_splits)
  have act: "filter is_running (map (refresh ex_tracked) [ex_live]) = [refresh ex_tracked ex_live]"
    by (simp add: is_running_def) (simp add: ex_live_def)
  have adopted: "filter (\<lambda>s. lookup ex_tracked (rsPoolName s) (rsID s) = None) [ex_live] = []"
    by (simp add: ex_live_def ex_tracked_def lookup_def pool_of_def)
  have "distinct (map rsID [ex_live])" by simp
  from Audit_report[OF this wf, of "[]" "\<lambda>p. []"] obtain rep where
    "snd (Audit (Some (Inr [ex_live])) [] (\<lambda>p. []) ex_tracked) = Inr rep"
    "arActive rep = [refresh ex_tracked ex_live]" "arAdopted rep = []" "set (arDisappeared rep) = {''b''}"
    unfolding b act adopted by blast
  then show ?thesis by (intro exI[of _ rep]) simp
qed

end
