(* ===== verification/Controller_Logic.thy ===== *)
theory Controller_Logic
  imports Controller Audit_Props
begin

text \<open>
  Proof rules for the pool controller. A \<open>quiet\<close> computation calls the outside world but changes
  nothing of the controller's own state; the locale \<open>provisioning\<close> states what an invariant of the
  tracked runners has to satisfy to survive every path on which the controller provisions, removes or
  reaps runners, and proves that it does.
\<close>

section \<open>Quiet computations\<close>

named_theorems quiet_rules \<open>computations that leave the controller's own state alone\<close>

definition quiet :: "(controller, 'a) state \<Rightarrow> bool" where
  "quiet m \<longleftrightarrow> (\<forall>c. \<exists>n tr. exec m c = c\<lparr>tick := n, trace := tr\<rparr>)"

lemma quietI: "(\<And>c. \<exists>n tr. exec m c = c\<lparr>tick := n, trace := tr\<rparr>) \<Longrightarrow> quiet m"
  by (simp add: quiet_def)

lemma quiet_return [quiet_rules]: "quiet (State_Monad.return x)"
  by (rule quietI) (metis controller.surjective controller.update_convs(6,7) exec_return)

lemma quiet_gets [quiet_rules]: "quiet (gets f)"
proof (rule quietI)
  fix c :: controller
  have "exec (gets f) c = c\<lparr>tick := tick c, trace := trace c\<rparr>" by (simp add: exec_def)
  then show "\<exists>n tr. exec (gets f) c = c\<lparr>tick := n, trace := tr\<rparr>" by blast
qed

lemma quiet_skip [quiet_rules]: "quiet skip"
  unfolding skip_def by (rule quiet_return)

lemma quiet_bind [quiet_rules]:
  assumes "quiet m" "\<And>a. quiet (f a)"
  shows "quiet (State_Monad.bind m f)"
proof (rule quietI)
  fix c
  obtain n tr where 1: "exec m c = c\<lparr>tick := n, trace := tr\<rparr>"
    using assms(1) unfolding quiet_def by blast
  obtain n' tr' where "exec (f (fst (run_state m c))) (exec m c) = (exec m c)\<lparr>tick := n', trace := tr'\<rparr>"
    using assms(2) unfolding quiet_def by blast
  with 1 show "\<exists>n tr. exec (State_Monad.bind m f) c = c\<lparr>tick := n, trace := tr\<rparr>"
    by (auto simp: exec_bind)
qed

lemma quiet_cases [quiet_rules]:
  "(b \<Longrightarrow> quiet m) \<Longrightarrow> (\<not> b \<Longrightarrow> quiet m') \<Longrightarrow> quiet (if b then m else m')"
  "(x = None \<Longrightarrow> quiet m) \<Longrightarrow> (\<And>y. x = Some y \<Longrightarrow> quiet (f y)) \<Longrightarrow>
     quiet (case x of None \<Rightarrow> m | Some y \<Rightarrow> f y)"
  "(\<And>y. s = Inl y \<Longrightarrow> quiet (g y)) \<Longrightarrow> (\<And>y. s = Inr y \<Longrightarrow> quiet (h y)) \<Longrightarrow>
     quiet (case s of Inl y \<Rightarrow> g y | Inr y \<Rightarrow> h y)"
  by (auto split: option.split sum.split)

lemma hoare_quiet:
  assumes "quiet m" "\<And>c n tr. P c \<Longrightarrow> P (c\<lparr>tick := n, trace := tr\<rparr>)"
  shows "hoare P m (\<lambda>_. P)"
  unfolding hoare_def
proof (intro allI impI)
  fix c assume "P c"
  obtain n tr where "exec m c = c\<lparr>tick := n, trace := tr\<rparr>"
    using assms(1) unfolding quiet_def by blast
  then have "P (exec m c)" using assms(2)[OF \<open>P c\<close>] by simp
  then show "case run_state m c of (a, s') \<Rightarrow> P s'"
    by (cases "run_state m c") (simp add: exec_def)
qed

lemma quiet_next_tick [quiet_rules]: "quiet next_tick"
proof (rule quietI)
  fix c
  have "exec next_tick c = c\<lparr>tick := Suc (tick c), trace := trace c\<rparr>"
    by (simp add: exec_def next_tick_def)
  then show "\<exists>n tr. exec next_tick c = c\<lparr>tick := n, trace := tr\<rparr>" by blast
qed

lemma quiet_emit [quiet_rules]: "quiet (emit e)"
proof (rule quietI)
  fix c
  have "exec (emit e) c = c\<lparr>tick := tick c, trace := trace c @ [e]\<rparr>"
    by (simp add: exec_def emit_def)
  then show "\<exists>n tr. exec (emit e) c = c\<lparr>tick := n, trace := tr\<rparr>" by blast
qed

lemma quiet_calls [quiet_rules]:
  "quiet (time_now d)" "quiet (engine_terminate e i)" "quiet (engine_capture e i dir)"
  "quiet (loadPools d)" "quiet (loadPoolTargets d p)" "quiet (engine_ping d)"
  "quiet (request_target d p n req)" "quiet (tracked_pool_runners d q)" "quiet (removed_pools d ps)"
  unfolding time_now_def engine_terminate_def engine_capture_def loadPools_def loadPoolTargets_def
    engine_ping_def request_target_def tracked_pool_runners_def removed_pools_def
  by (intro quiet_rules)+

lemma quiet_deregisterRunner [quiet_rules]: "quiet (deregisterRunner d r)"
  unfolding deregisterRunner_def by (intro quiet_rules)

lemma quiet_poll_queued [quiet_rules]: "quiet (poll_queued g ts n)"
  by (induction ts arbitrary: n) (auto intro!: quiet_rules)

lemma quiet_wanted_runners [quiet_rules]: "quiet (wanted_runners p g ts n k)"
  unfolding wanted_runners_def by (intro quiet_rules)

section \<open>What the counters count\<close>

lemma fold_count: "fold (\<lambda>r n. if P r then n + 1 else n) rs (k :: int) = k + int (length (filter P rs))"
  by (induction rs arbitrary: k) auto

lemma running_count_filter: "running_count rs = int (length (filter is_running rs))"
  unfolding running_count_def is_running_def using fold_count[of "\<lambda>r. rsState r = ''running''" rs 0]
  by simp

lemma TotalActiveRunners_total:
  assumes "reconciler d \<noteq> None"
  shows "TotalActiveRunners d c = int (total_running (tracked c))"
proof -
  have inner: "fold (\<lambda>(i, r) n. if rsState r = ''running'' then n + 1 else n) pm k
      = k + int (running_in pm)" for pm :: pool_map and k :: int
    by (induction pm arbitrary: k) (auto simp: running_in_def is_running_def)
  have "fold (\<lambda>(p, pm) n. fold (\<lambda>(i, r) n. if rsState r = ''running'' then n + 1 else n) pm n) T k
      = k + int (total_running T)" for T :: tracked and k :: int
    by (induction T arbitrary: k) (auto simp: inner total_running_def)
  then show ?thesis using assms by (auto simp: TotalActiveRunners_def)
qed

lemma QueueLengthForPool_filter:
  "QueueLengthForPool q c = int (length (filter (\<lambda>req. prPoolName req = q) (queue c)))"
  unfolding QueueLengthForPool_def using fold_count[of "\<lambda>req. prPoolName req = q" "queue c" 0] by simp

lemma QueueLengthForPool_nonneg [simp]: "0 \<le> QueueLengthForPool q c"
  by (simp add: QueueLengthForPool_filter)

lemma saturated_frame [simp]:
  "saturated d (c\<lparr>tick := n\<rparr>) = saturated d c" "saturated d (c\<lparr>trace := tr\<rparr>) = saturated d c"
  "saturated d (c\<lparr>queue := q\<rparr>) = saturated d c" "saturated d (c\<lparr>panicked := b\<rparr>) = saturated d c"
  by (simp_all add: saturated_def TotalActiveRunners_def)

section \<open>The guard of a spawn\<close>

text \<open>What every path has checked when it registers a new runner of pool \<open>p\<close>.\<close>

definition may_spawn :: "deps \<Rightarrow> RunnerPool \<Rightarrow> controller \<Rightarrow> bool" where
  "may_spawn d p c \<longleftrightarrow> \<not> saturated d c \<and>
     (pMaxConcurrency p > 0 \<longrightarrow> int (pool_running (pName p) (tracked c)) < pMaxConcurrency p)"

lemma may_spawn_frame [simp]:
  "may_spawn d p (c\<lparr>tick := n\<rparr>) = may_spawn d p c" "may_spawn d p (c\<lparr>trace := tr\<rparr>) = may_spawn d p c"
  "may_spawn d p (c\<lparr>queue := q\<rparr>) = may_spawn d p c" "may_spawn d p (c\<lparr>panicked := b\<rparr>) = may_spawn d p c"
  by (simp_all add: may_spawn_def)

text \<open>
  The runners that a pool's reconciliation still holds: the pool has \<open>active\<close> running containers, and
  the listed ones are among them.
\<close>

definition holds :: "string \<Rightarrow> int \<Rightarrow> RunnerStatus list \<Rightarrow> controller \<Rightarrow> bool" where
  "holds q active rs c \<longleftrightarrow> int (pool_running q (tracked c)) = active \<and> distinct (map rsID rs) \<and>
     (\<forall>r \<in> set rs. lookup (tracked c) q (rsID r) = Some r \<and> is_running r)"

lemma holds_frame [simp]:
  "holds q n rs (c\<lparr>tick := k\<rparr>) = holds q n rs c" "holds q n rs (c\<lparr>trace := tr\<rparr>) = holds q n rs c"
  "holds q n rs (c\<lparr>queue := qu\<rparr>) = holds q n rs c"
  by (simp_all add: holds_def)

lemma holds_subset:
  "holds q n rs c \<Longrightarrow> set rs' \<subseteq> set rs \<Longrightarrow> distinct (map rsID rs') \<Longrightarrow> holds q n rs' c"
  by (auto simp: holds_def)

lemma holds_filter: "holds q n rs c \<Longrightarrow> holds q n (filter P rs) c"
  by (rule holds_subset) (auto simp: holds_def distinct_map_filter)

lemma holds_take: "holds q n rs c \<Longrightarrow> holds q n (take k rs) c"
  by (rule holds_subset) (auto simp: holds_def take_map[symmetric] distinct_take dest: in_set_takeD)

lemma holds_untrack:
  assumes "wf_tracked (tracked c)" "holds q n (r # rs) c"
  shows "holds q (n - 1) rs (c\<lparr>tracked := UntrackRunner q (rsID r) (tracked c)\<rparr>)"
proof -
  from assms(2) have "runs (tracked c) q (rsID r) = 1"
    by (simp add: holds_def runs_def)
  with pool_UntrackRunner[OF assms(1), of q q "rsID r"] assms(2)
  have "int (pool_running q (UntrackRunner q (rsID r) (tracked c))) = n - 1"
    by (simp add: holds_def)
  moreover from assms(2) have "rsID r \<notin> rsID ` set rs" by (simp add: holds_def)
  then have "\<forall>s \<in> set rs. rsID s \<noteq> rsID r" by (metis imageI)
  ultimately show ?thesis using assms(2) by (simp add: holds_def lookup_UntrackRunner)
qed

lemma holds_tracked:
  assumes "wf_tracked (tracked c)"
  shows "holds q (running_count (TrackedPoolRunners ord q (tracked c)))
           (filter is_running (TrackedPoolRunners ord q (tracked c))) c"
proof (cases "mget (tracked c) q")
  case None
  then show ?thesis
    by (simp add: holds_def TrackedPoolRunners_def running_count_filter pool_running_def pool_of_def)
next
  case (Some pm)
  from wf_pool_mget[OF assms Some] have wf: "wf_map pm"
    and ids: "\<And>i st. (i, st) \<in> set pm \<Longrightarrow> rsID st = i" by (auto simp: wf_pool_def)
  have "map (rsID \<circ> snd) (go_range ord pm) = map fst (go_range ord pm)"
    by (auto simp: ids)
  then have "distinct (map rsID (map snd (go_range ord pm)))"
    using wf by (simp only: map_map distinct_map_fst_go_range)
  then have "distinct (map rsID (filter is_running (map snd (go_range ord pm))))"
    by (rule distinct_map_filter)
  moreover have "lookup (tracked c) q (rsID r) = Some r" if "r \<in> snd ` set pm" for r
    using that Some wf ids by (auto simp: lookup_def pool_of_def)
  moreover have "TrackedPoolRunners ord q (tracked c) = map snd (go_range ord pm)"
    using Some by (simp add: TrackedPoolRunners_def)
  moreover have "int (pool_running q (tracked c)) = running_count (TrackedPoolRunners ord q (tracked c))"
    by (simp only: running_count_filter length_running_TrackedPoolRunners)
  ultimately show ?thesis unfolding holds_def by simp
qed

lemma hoare_tracked_pool_runners:
  assumes "\<And>c n tr. P c \<Longrightarrow> P (c\<lparr>tick := n, trace := tr\<rparr>)"
    and "\<And>rs. hoare (\<lambda>c. P c \<and> (\<exists>ord. rs = TrackedPoolRunners ord q (tracked c))) (k rs) Q"
  shows "hoare P (State_Monad.bind (tracked_pool_runners d q) k) Q"
proof (rule hoare_bind[where R = "\<lambda>rs c. P c \<and> (\<exists>ord. rs = TrackedPoolRunners ord q (tracked c))"])
  show "hoare P (tracked_pool_runners d q)
      (\<lambda>rs c. P c \<and> (\<exists>ord. rs = TrackedPoolRunners ord q (tracked c)))"
    using hoare_quiet[OF quiet_calls(8), of P d q] assms(1)
    by (auto simp: tracked_pool_runners_def next_tick_def hoare_def)
qed (rule assms(2))

section \<open>Pools of the database\<close>

definition from_db :: "deps \<Rightarrow> RunnerPool \<Rightarrow> bool" where
  "from_db d p \<longleftrightarrow>
     (\<exists>r n ps. db d = Some r \<and> dbListRunnerPools r n = Inr ps \<and> p \<in> set ps)"

lemma hoare_loadPools:
  assumes "\<And>c n tr. P c \<Longrightarrow> P (c\<lparr>tick := n, trace := tr\<rparr>)"
    and "\<And>e. hoare P (k (Inl e)) Q"
    and "\<And>ps. \<forall>p \<in> set ps. from_db d p \<Longrightarrow> hoare P (k (Inr ps)) Q"
  shows "hoare P (State_Monad.bind (loadPools d) k) Q"
proof (rule hoare_bind[where R = "\<lambda>res c. P c \<and> (\<forall>ps. res = Inr ps \<longrightarrow> (\<forall>p \<in> set ps. from_db d p))"])
  show "hoare P (loadPools d) (\<lambda>res c. P c \<and> (\<forall>ps. res = Inr ps \<longrightarrow> (\<forall>p \<in> set ps. from_db d p)))"
    using hoare_quiet[OF quiet_calls(4), of P d] assms(1)
    by (auto simp: loadPools_def next_tick_def hoare_def from_db_def split: option.splits)
  show "hoare (\<lambda>c. P c \<and> (\<forall>ps. res = Inr ps \<longrightarrow> (\<forall>p \<in> set ps. from_db d p))) (k res) Q" for res
    using assms(2,3) by (cases res) (auto simp: hoare_def)
qed

lemma pool_index_from_db:
  assumes "\<forall>p \<in> set ps. from_db d p" "mget (pool_index ps) q = Some p"
  shows "from_db d p \<and> pName p = q"
proof -
  have "mget (fold (\<lambda>p m. mput (pName p) p m) ps m) q = Some p \<Longrightarrow>
      mget m q = Some p \<or> (p \<in> set ps \<and> pName p = q)" for m
  proof (induction ps arbitrary: m)
    case (Cons a ps)
    then show ?case using Cons.IH[of "mput (pName a) a m"] by (auto split: if_splits)
  qed simp
  from this[of "[]"] assms show ?thesis by (auto simp: pool_index_def)
qed

section \<open>Invariants of provisioning\<close>

definition wired :: "deps \<Rightarrow> bool" where
  "wired d \<longleftrightarrow> engine d \<noteq> None \<and> reconciler d \<noteq> None \<and> providerResolver d \<noteq> None"

text \<open>
  The contract between an invariant \<open>I\<close> and the provisioning code: it does not depend on the outside
  world or the queue, nor, unless all dependencies are there, on a panic; it holds only of well-formed tracking states, survives the removal of a runner and
  the registration of one whose guard has been checked.
\<close>

locale provisioning =
  fixes d :: deps and I :: "controller \<Rightarrow> bool"
  assumes frame: "I c \<Longrightarrow> I (c\<lparr>tick := n, trace := tr\<rparr>)"
    and queue_frame: "I c \<Longrightarrow> I (c\<lparr>queue := q\<rparr>)"
    and panic_frame: "\<not> wired d \<Longrightarrow> I c \<Longrightarrow> I (c\<lparr>panicked := b\<rparr>)"
    and wf: "I c \<Longrightarrow> wf_tracked (tracked c)"
    and untrack_I: "I c \<Longrightarrow> I (c\<lparr>tracked := UntrackRunner pool i (tracked c)\<rparr>)"
    and track_I: "I c \<Longrightarrow> from_db d p \<Longrightarrow> may_spawn d p c \<Longrightarrow> rsPoolName r = pName p \<Longrightarrow>
      I (c\<lparr>tracked := TrackRunner r (tracked c)\<rparr>)"
begin

lemma quiet_I: "quiet m \<Longrightarrow> preserves I m"
  unfolding preserves_def by (rule hoare_quiet) (auto intro: frame)

lemmas quiets_I = quiet_calls[THEN quiet_I] quiet_next_tick[THEN quiet_I] quiet_emit[THEN quiet_I]
  quiet_deregisterRunner[THEN quiet_I]

lemma queue_I: "preserves I (modify (\<lambda>c. c\<lparr>queue := f c\<rparr>))"
  by (rule preserves_modify) (rule queue_frame)

lemma untracks_I: "preserves I (untrack pool i)"
  unfolding untrack_def by (rule preserves_modify) (rule untrack_I)

lemma panic_I: "\<not> wired d \<Longrightarrow> preserves I nil_panic"
  unfolding nil_panic_def by (rule preserves_modify) (rule panic_frame)

lemma remove_runner_I: "preserves I (remove_runner d e pool r)"
  unfolding remove_runner_def by (intro keeps untracks_I quiets_I)

lemma enqueueRequest_I: "preserves I (enqueueRequest d q t)"
  unfolding enqueueRequest_def by (intro keeps queue_I quiets_I)

lemma enqueueRequest_return_I:
  "preserves I (State_Monad.bind (enqueueRequest d q t) (\<lambda>_. State_Monad.return x))"
  by (intro keeps enqueueRequest_I)

text \<open>A guarded spawn adds at most one running container, to its own pool.\<close>

definition ready :: "RunnerPool \<Rightarrow> int \<Rightarrow> controller \<Rightarrow> bool" where
  "ready p a c \<longleftrightarrow> I c \<and> from_db d p \<and> may_spawn d p c \<and> int (pool_running (pName p) (tracked c)) \<le> a"

definition below :: "RunnerPool \<Rightarrow> int \<Rightarrow> controller \<Rightarrow> bool" where
  "below p a c \<longleftrightarrow> I c \<and> int (pool_running (pName p) (tracked c)) \<le> a"

lemma ready_quiet: "quiet m \<Longrightarrow> hoare (ready p a) m (\<lambda>_. ready p a)"
  by (rule hoare_quiet) (auto simp: ready_def intro: frame)

lemma below_quiet: "quiet m \<Longrightarrow> hoare (below p a) m (\<lambda>_. below p a)"
  by (rule hoare_quiet) (auto simp: below_def intro: frame)

lemma ready_below: "ready p a c \<Longrightarrow> a \<le> b \<Longrightarrow> below p b c"
  by (simp add: ready_def below_def)

lemma track_ready:
  assumes "ready p a c" "rsPoolName r = pName p"
  shows "below p (a + 1) (c\<lparr>tracked := TrackRunner r (tracked c)\<rparr>)"
proof -
  have "pool_running (pName p) (TrackRunner r (tracked c)) \<le> Suc (pool_running (pName p) (tracked c))"
    using assms(1) wf registry.track_pool_le by (simp add: ready_def)
  then show ?thesis using assms track_I[of c p r] by (simp add: ready_def below_def)
qed

lemma register_ready:
  assumes "rsPoolName r = pName p"
  shows "hoare (ready p a) (register_runner d r) (\<lambda>_. below p (a + 1))"
  unfolding register_runner_def
proof (rule hoare_if)
  show "hoare (ready p a) nil_panic (\<lambda>_. below p (a + 1))" if "reconciler d = None"
    unfolding nil_panic_def
    by (rule hoare_modify) (use that in \<open>simp add: ready_def below_def panic_frame wired_def\<close>)
  show "hoare (ready p a) (track r) (\<lambda>_. below p (a + 1))"
    unfolding track_def by (rule hoare_modify) (rule track_ready[OF _ assms])
qed

lemmas ready_steps = hoare_bind[OF ready_quiet[OF quiet_next_tick]]
  hoare_bind[OF ready_quiet[OF quiet_emit]] hoare_bind[OF ready_quiet[OF quiet_calls(1)]]

lemma ready_return: "hoare (ready p a) (State_Monad.return x) (\<lambda>_. below p (a + 1))"
  by (rule hoare_return) (auto intro: ready_below)

lemma ready_panic:
  "\<not> wired d \<Longrightarrow> hoare (ready p a) (State_Monad.bind nil_panic (\<lambda>_. State_Monad.return x)) (\<lambda>_. below p (a + 1))"
  by (rule hoare_bind[where R = "\<lambda>_. below p (a + 1)"])
     (auto simp: nil_panic_def below_def ready_def intro!: hoare_modify hoare_return panic_frame)

lemma ready_register:
  "hoare (ready p a)
     (State_Monad.bind (register_runner d (new_status p i nm now od t)) (\<lambda>_. State_Monad.return x))
     (\<lambda>_. below p (a + 1))"
  by (rule hoare_bind[OF register_ready]) (auto simp: new_status_def intro: hoare_return)

lemma spawn_with_ready: "hoare (ready p a) (spawn_with d p g od t) (\<lambda>_. below p (a + 1))"
  unfolding spawn_with_def Let_def
  by (intro hoare_case_sum hoare_case_option ready_steps ready_return ready_panic ready_register)
     (simp_all add: wired_def)

lemma spawnSingleRunner_ready:
  "hoare (ready p a) (spawnSingleRunner d p g od t) (\<lambda>_. below p (a + 1))"
  unfolding spawnSingleRunner_def Let_def
  by (intro hoare_case_sum hoare_case_option ready_steps ready_return ready_panic spawn_with_ready)
     (simp_all add: wired_def)

lemma below_I: "below p a c \<Longrightarrow> I c"
  by (simp add: below_def)

lemma below_weaken: "hoare P m (\<lambda>_. below p a) \<Longrightarrow> hoare P m (\<lambda>_. I)"
  by (erule hoare_post) (rule below_I)

lemma spawn_after_count:
  assumes "\<not> (pMaxConcurrency p > 0 \<and> running_count rs \<ge> pMaxConcurrency p)" "from_db d p"
    and "\<And>a. hoare (ready p a) m (\<lambda>_. below p (a + 1))"
  shows "hoare (\<lambda>c. (I c \<and> \<not> saturated d c) \<and>
           (\<exists>ord. rs = TrackedPoolRunners ord (pName p) (tracked c))) m (\<lambda>_. I)"
  using assms(3)[of "running_count rs"]
  by (rule hoare_weaken)
     (use assms(1,2) in \<open>auto simp: ready_def may_spawn_def running_count_filter dest: below_I\<close>)

lemma drain_spawn_I:
  assumes "from_db d p"
  shows "hoare (\<lambda>c. I c \<and> \<not> saturated d c) (drain_spawn d p req) (\<lambda>_. I)"
  unfolding drain_spawn_def Let_def
proof (rule hoare_tracked_pool_runners, goal_cases)
  case (2 rs)
  show ?case
  proof (rule hoare_if, goal_cases)
    case 2
    show ?case
      by (rule spawn_after_count[OF 2 assms])
         (intro hoare_bind[OF ready_quiet] hoare_bind[OF spawnSingleRunner_ready] quiet_rules hoare_return)
  qed (auto intro: hoare_return)
qed (auto intro: frame)

lemma panic_return_I: "\<not> wired d \<Longrightarrow> preserves I (State_Monad.bind nil_panic (\<lambda>_. State_Monad.return x))"
  by (intro keeps panic_I)

lemma drain_one_I:
  assumes "\<And>q p. mget poolMap q = Some p \<Longrightarrow> from_db d p"
  shows "preserves I (drain_one d poolMap req)"
  unfolding drain_one_def preserves_def
proof (rule hoare_bind_gets, rule hoare_if, goal_cases)
  case (2 sat)
  then have "hoare (\<lambda>c. I c \<and> \<not> saturated d c)
      (case mget poolMap (prPoolName req) of None \<Rightarrow> State_Monad.return False
       | Some p \<Rightarrow> if reconciler d = None then State_Monad.bind nil_panic (\<lambda>_. State_Monad.return True)
                   else drain_spawn d p req) (\<lambda>_. I)"
    by (intro hoare_case_option hoare_if drain_spawn_I hoare_return
          hoare_pre[OF panic_return_I[unfolded preserves_def]]) (auto dest: assms simp: wired_def)
  then show ?case by (rule hoare_pre) (use 2 in auto)
qed (auto intro: hoare_return)

lemma drain_loop_I:
  assumes "\<And>q p. mget poolMap q = Some p \<Longrightarrow> from_db d p"
  shows "preserves I (drain_loop d poolMap reqs)"
  by (induction reqs) (auto intro!: keeps drain_one_I dest: assms)

lemma loadPools_I:
  assumes "\<And>e. preserves I (k (Inl e))"
    and "\<And>ps. \<forall>p \<in> set ps. from_db d p \<Longrightarrow> preserves I (k (Inr ps))"
  shows "preserves I (State_Monad.bind (loadPools d) k)"
  using assms unfolding preserves_def by (intro hoare_loadPools frame) auto

lemma drain_copy_I: "preserves I (drain_copy d qc)"
  unfolding drain_copy_def
  by (intro preserves_if preserves_return loadPools_I)
     (auto intro!: keeps drain_loop_I dest: pool_index_from_db)

lemma drainQueue_I: "preserves I (drainQueue d)"
  unfolding drainQueue_def drain_store_def by (intro keeps drain_copy_I queue_I)

lemma reapContainer_I: "preserves I (reapContainer d i q)"
  unfolding reapContainer_def
  by (intro keeps drainQueue_I untracks_I quiets_I)

lemma checkHungRunners_I: "preserves I (checkHungRunners d pools)"
  unfolding checkHungRunners_def check_pool_hung_def kill_hung_def
  by (intro keeps drainQueue_I untracks_I quiets_I)

lemma drainPool_I: "preserves I (drainPool d q)"
  unfolding drainPool_def by (intro keeps queue_I remove_runner_I quiets_I)

text \<open>Reconciling a pool: the count that the code keeps is the number of running containers.\<close>

definition counted :: "string \<Rightarrow> int \<Rightarrow> RunnerStatus list \<Rightarrow> controller \<Rightarrow> bool" where
  "counted q n rs c \<longleftrightarrow> I c \<and> holds q n rs c"

lemma counted_quiet: "quiet m \<Longrightarrow> hoare (counted q n rs) m (\<lambda>_. counted q n rs)"
  by (rule hoare_quiet) (auto simp: counted_def intro: frame)

lemma counted_sub: "counted q n rs c \<Longrightarrow> counted q n (filter P rs) c"
  "counted q n rs c \<Longrightarrow> counted q n (take k rs) c"
  by (auto simp: counted_def intro: holds_filter holds_take)

lemma remove_runner_counted:
  "hoare (counted q n (r # rs)) (remove_runner d e q r) (\<lambda>_. counted q (n - 1) rs)"
  unfolding remove_runner_def untrack_def
  by (intro hoare_bind[OF counted_quiet] quiet_rules hoare_modify)
     (auto simp: counted_def intro: untrack_I holds_untrack wf)

lemma cap_loop_counted:
  "hoare (counted q n rs) (cap_loop d e q excess k rs)
     (\<lambda>(m, rest). counted q (n - (m - k)) rest)"
proof (induction rs arbitrary: n k)
  case (Cons r rs)
  have skipped: "hoare (counted q n (r # rs)) (cap_loop d e q excess k rs)
      (\<lambda>(m, rest) c. counted q (n - (m - k)) (r # rest) c)" if "\<not> k < excess"
  proof -
    have same: "run_state (cap_loop d e q excess k rs) c = ((k, rs), c)" for c
      using that by (induction rs) auto
    show ?thesis by (auto simp: hoare_def same)
  qed
  show ?case
  proof (cases "k < excess")
    case True
    have "n - 1 - (m - (k + 1)) = n - (m - k)" for m by simp
    with Cons.IH[of "n - 1" "k + 1"] show ?thesis
      using True by (simp add: hoare_bind[OF remove_runner_counted])
  next
    case False
    have "hoare (counted q n (r # rs))
        (State_Monad.bind (cap_loop d e q excess k rs) (\<lambda>(m, rest). State_Monad.return (m, r # rest)))
        (\<lambda>(m, rest). counted q (n - (m - k)) rest)"
      by (rule hoare_bind[OF skipped[OF False]]) (auto intro!: hoare_return split: prod.splits)
    with False show ?thesis by simp
  qed
qed (simp add: hoare_return)

lemma enforce_cap_counted:
  "hoare (counted (pName p) n rs) (enforce_cap d e p n rs) (\<lambda>(m, rest). counted (pName p) m rest)"
proof (cases "pMaxConcurrency p > 0 \<and> n > pMaxConcurrency p")
  case True
  have "hoare (counted (pName p) n rs)
     (State_Monad.bind (cap_loop d e (pName p) (n - pMaxConcurrency p) 0 rs)
       (\<lambda>(drained, rest). State_Monad.return (n - drained, rest)))
     (\<lambda>(m, rest). counted (pName p) m rest)"
    by (rule hoare_bind[OF cap_loop_counted]) (auto intro!: hoare_return split: prod.splits)
  with True show ?thesis by (simp add: enforce_cap_def)
qed (auto simp: enforce_cap_def intro: hoare_return)

lemma remove_all_counted:
  "hoare (counted q n rs) (remove_all d e q n rs) (\<lambda>m. counted q m [])"
proof (induction rs arbitrary: n)
  case (Cons r rs)
  then show ?case by (simp add: hoare_bind[OF remove_runner_counted])
qed (simp add: hoare_return)

lemma scale_down_counted:
  "hoare (counted (pName p) n rs) (scale_down d e p t n rs) (\<lambda>m. counted (pName p) m [])"
  unfolding scale_down_def
  by (intro hoare_if hoare_bind[OF counted_quiet] quiet_rules
        hoare_pre[OF remove_all_counted] hoare_return counted_sub)
     (auto simp: counted_def holds_def)

lemma counted_below: "counted (pName p) n rs c \<Longrightarrow> below p n c"
  by (simp add: counted_def holds_def below_def)

lemma enqueueRequest_below: "hoare (below p a) (enqueueRequest d q t) (\<lambda>_. below p a)"
  unfolding enqueueRequest_def
  by (intro hoare_bind[OF below_quiet] quiet_rules hoare_modify) (auto simp: below_def intro: queue_frame)

lemma spawn_loop_below:
  assumes "from_db d p"
  shows "hoare (below p a) (spawn_loop d p g od ts k a) (\<lambda>_. I)"
proof (induction k arbitrary: a)
  case (Suc k)
  show ?case
    unfolding spawn_loop.simps Let_def
  proof (intro hoare_bind_gets hoare_if, goal_cases)
    case 2
    show ?case
      by (rule hoare_pre[OF hoare_bind[OF enqueueRequest_below Suc]]) simp
  next
    case (3 queued sat)
    have "hoare (ready p a)
        (State_Monad.bind (spawnSingleRunner d p g od (ts ! nat (a mod int (length ts))))
          (\<lambda>err. case err of None \<Rightarrow> spawn_loop d p g od ts k (a + 1)
                 | Some e \<Rightarrow> State_Monad.return (Some e))) (\<lambda>_. I)"
      by (intro hoare_bind[OF spawnSingleRunner_ready] hoare_case_option hoare_return Suc below_I)
    then show ?case
    proof (rule hoare_pre)
      fix c
      assume "(below p a c \<and> QueueLengthForPool (pName p) c = queued) \<and> saturated d c = sat"
      then have "0 \<le> queued" "I c" "int (pool_running (pName p) (tracked c)) \<le> a"
        "saturated d c = sat" by (auto simp: below_def)
      with 3 assms show "ready p a c" by (auto simp: ready_def may_spawn_def)
    qed
  qed (auto simp: below_def intro: hoare_return)
qed (auto simp: below_def intro: hoare_return)

text \<open>The code filters the running and the idle runners in one loop.\<close>

lemma counted_idle:
  assumes "I c" "rs = TrackedPoolRunners ord q (tracked c)"
  shows "counted q (running_count rs) (filter (\<lambda>r. rsState r = ''running'' \<and> \<not> rsIsBusy r) rs) c"
proof -
  have "filter (\<lambda>r. rsState r = ''running'' \<and> \<not> rsIsBusy r) rs
      = filter (\<lambda>r. \<not> rsIsBusy r) (filter is_running rs)"
    by (simp add: is_running_def conj_commute)
  with holds_filter[OF holds_tracked[OF wf[OF assms(1)], of q ord], of "\<lambda>r. \<not> rsIsBusy r"] assms
  show ?thesis by (simp only: counted_def)
qed

lemma replenish_I:
  assumes "from_db d p"
  shows "hoare (counted (pName p) n []) (replenish d p g ts t n) (\<lambda>_. I)"
  unfolding replenish_def Let_def
  by (intro hoare_bind_gets hoare_if hoare_return hoare_pre[OF spawn_loop_below[OF assms]])
     (auto simp: counted_def holds_def below_def)

lemma reconcilePoolWithProvider_I:
  assumes "from_db d p"
  shows "preserves I (reconcilePoolWithProvider d p g)"
  unfolding reconcilePoolWithProvider_def Let_def preserves_def
proof (intro hoare_case_option hoare_if hoare_tracked_pool_runners, goal_cases)
  case (4 e rs)
  let ?n = "running_count rs" and ?idle = "filter (\<lambda>r. rsState r = ''running'' \<and> \<not> rsIsBusy r) rs"
  have rest: "hoare (counted (pName p) ?n ?idle)
      (State_Monad.bind (enforce_cap d e p ?n ?idle) (\<lambda>(active1, idle1).
         State_Monad.bind (scale_down d e p t active1 idle1) (replenish d p g ts t))) (\<lambda>_. I)" for t ts
    by (rule hoare_bind[OF enforce_cap_counted], clarsimp split: prod.splits)
       (rule hoare_bind[OF scale_down_counted replenish_I[OF assms]])
  have targets: "hoare (counted (pName p) ?n ?idle)
      (if ts = [] then State_Monad.return None
       else State_Monad.bind (wanted_runners p g ts ?n (int (length ?idle))) (\<lambda>w.
         State_Monad.bind (enforce_cap d e p ?n ?idle) (\<lambda>(active1, idle1).
         State_Monad.bind (scale_down d e p (capped_target p w) active1 idle1)
           (replenish d p g ts (capped_target p w))))) (\<lambda>_. I)" for ts
    by (intro hoare_if hoare_bind[OF counted_quiet[OF quiet_wanted_runners] rest] hoare_return)
       (simp add: counted_def)
  show ?case
    by (rule hoare_pre[OF hoare_bind[OF counted_quiet[OF quiet_calls(5)] targets]])
       (auto intro: counted_idle)
qed (auto intro: hoare_return frame)

lemma reconcilePool_I: "from_db d p \<Longrightarrow> preserves I (reconcilePool d p)"
  unfolding reconcilePool_def by (intro keeps reconcilePoolWithProvider_I quiets_I)

lemma validateAndProvisionPool_I: "from_db d p \<Longrightarrow> preserves I (validateAndProvisionPool d p)"
  unfolding validateAndProvisionPool_def
  by (intro keeps reconcilePoolWithProvider_I quiets_I)

lemma reap_and_replenish_I: "preserves I (reap_and_replenish d ev)"
  unfolding reap_and_replenish_def
  by (intro preserves_bind[OF reapContainer_I] preserves_if preserves_return loadPools_I)
     (auto intro!: keeps reconcilePool_I simp: find_Some_iff)

lemma HandleContainerEvent_I: "preserves I (HandleContainerEvent d ev)"
  unfolding HandleContainerEvent_def Let_def
  by (intro keeps reap_and_replenish_I drainQueue_I quiets_I)

lemma CheckHungRunners_I: "preserves I (CheckHungRunners d)"
  unfolding CheckHungRunners_def
  by (intro keeps checkHungRunners_I quiets_I)

lemma TerminateRunner_I: "preserves I (TerminateRunner d q i)"
  unfolding TerminateRunner_def by (intro keeps untracks_I quiets_I)

end

text \<open>
  An invariant of the whole life cycle also survives an audit, a change of the quota and of the
  lifecycle state, the heartbeat and the bookkeeping of the shutdown.
\<close>

locale lifecycle = provisioning +
  assumes state_I: "I c \<Longrightarrow> I (c\<lparr>cstate := st\<rparr>)"
    and beat_I: "I c \<Longrightarrow> I (c\<lparr>lastHeartbeat := t\<rparr>)"
    and quota_I: "I c \<Longrightarrow> 0 < v \<Longrightarrow> I (c\<lparr>globalMaxRunners := v\<rparr>)"
    and audit_I: "I c \<Longrightarrow> I (c\<lparr>tracked := fst (Audit res ord ords (tracked c))\<rparr>)"
    and forget_I: "I c \<Longrightarrow> I (c\<lparr>tracked := forget_idle (tracked c)\<rparr>)"
    and force_I: "I c \<Longrightarrow> I (c\<lparr>tracked := mput q (mdel i (pool_of (tracked c) q)) (tracked c)\<rparr>)"
    and drop_I: "I c \<Longrightarrow> I (c\<lparr>tracked := mdel q (tracked c)\<rparr>)"
    and busy_I: "I c \<Longrightarrow> I (c\<lparr>tracked := MarkRunnerBusy ord ords n busy (tracked c)\<rparr>)"
begin

lemma set_state_I: "preserves I (set_state st)"
  unfolding set_state_def by (rule preserves_modify) (rule state_I)

lemma run_audit_I: "preserves I (run_audit d prov)"
proof (rule preservesI)
  fix c assume "I c"
  then have "I (c\<lparr>tick := Suc (tick c), trace := trace c\<rparr>)" by (rule frame)
  from audit_I[OF this] show "I (exec (run_audit d prov) c)"
    by (simp add: run_audit_def exec_def next_tick_def Let_def split_def)
qed

lemma Pause_I: "preserves I Pause"
  unfolding Pause_def by (rule preserves_modify) (simp add: state_I)

lemma Resume_I: "preserves I Resume"
  unfolding Resume_def by (rule preserves_modify) (simp add: state_I)

lemma heartbeat_I: "preserves I (beat d)"
  unfolding beat_def by (intro keeps quiets_I preserves_modify beat_I)

lemma refresh_quota_I: "preserves I (refresh_quota d)"
  unfolding refresh_quota_def
  by (intro keeps quiets_I preserves_modify quota_I)

lemma Boot_I: "preserves I (Boot d)"
proof -
  have "preserves I (provision_pools d ps)" if "\<forall>p \<in> set ps. from_db d p" for ps
    unfolding provision_pools_def
    using that by (intro keeps validateAndProvisionPool_I set_state_I heartbeat_I) blast
  then show ?thesis
    unfolding Boot_def
    by (intro keeps(4,6,7) preserves_bind[OF set_state_I] preserves_bind[OF quiet_I[OF quiet_calls(6)]]
          loadPools_I preserves_bind[OF run_audit_I] preserves_skip)
       (auto intro!: keeps set_state_I run_audit_I)
qed

lemma audit_and_reap_I: "preserves I (audit_and_reap d prov)"
  unfolding audit_and_reap_def by (intro keeps run_audit_I reapContainer_I)

lemma reconcile_pools_I: "\<forall>p \<in> set ps. from_db d p \<Longrightarrow> preserves I (reconcile_pools d ps)"
  unfolding reconcile_pools_def
  by (intro keeps drainPool_I checkHungRunners_I reconcilePool_I heartbeat_I quiets_I)
     blast

lemma Reconcile_I: "preserves I (Reconcile d)"
proof -
  have load: "preserves I (State_Monad.bind (loadPools d) (\<lambda>res.
      case res of Inl er \<Rightarrow> State_Monad.return (Some (LoadingPools er)) | Inr ps \<Rightarrow> reconcile_pools d ps))"
    by (rule loadPools_I) (auto intro: keeps reconcile_pools_I)
  show ?thesis
    unfolding Reconcile_def by (rule load audit_and_reap_I refresh_quota_I drainQueue_I keeps)+
qed

lemma forceTerminateRemaining_I: "preserves I (forceTerminateRemaining d)"
  unfolding forceTerminateRemaining_def force_pool_def force_runner_def Let_def
  by (intro keeps quiets_I preserves_modify)
     (auto intro: force_I drop_I)

lemma shutdown_loop_I: "preserves I (shutdown_loop d prov evs)"
proof (induction evs)
  case (Cons ev evs)
  then show ?case
    by (cases ev) (auto intro!: keeps set_state_I forceTerminateRemaining_I audit_and_reap_I)
qed (auto intro: keeps)

lemma GracefulShutdown_I: "preserves I (GracefulShutdown d evs)"
  unfolding GracefulShutdown_def stop_idle_def
  by (intro keeps Pause_I set_state_I shutdown_loop_I quiets_I preserves_modify)
     (auto intro: forget_I)

lemma ImmediateShutdown_I: "preserves I (ImmediateShutdown d)"
  unfolding ImmediateShutdown_def
  by (intro keeps Pause_I set_state_I forceTerminateRemaining_I)

lemma control_loop_I: "preserves I (control_loop d evs)"
proof (induction evs)
  case (Cons ev evs)
  then show ?case by (cases ev) (auto intro!: keeps set_state_I Reconcile_I)
qed (auto intro: keeps)

lemma Start_I: "preserves I (Start d evs)"
  unfolding Start_def by (intro keeps Boot_I control_loop_I)

end

end
