(* ===== verification/Controller_Invariants.thy ===== *)
theory Controller_Invariants
  imports Controller_Logic
begin

text \<open>
  The invariants of the pool controller, as instances of the contracts of \<open>Controller_Logic\<close>: the
  tracking state stays well formed, the global quota and the limit of a pool bound the running
  containers, and a controller with all its dependencies never dereferences nil.
\<close>

section \<open>Well-formed tracking state\<close>

lemma Audit_wf_tracked:
  assumes "wf_tracked T"
  shows "wf_tracked (fst (Audit res ord ords T))"
proof (cases res)
  case (Some r)
  show ?thesis
  proof (cases r)
    case (Inr L)
    define T1 where "T1 = fst (fold audit_live L (T, empty_report))"
    have wf1: "wf_tracked T1" using fold_live_wf[OF assms] by (simp add: T1_def)
    have "wf_tracked (fst (fold (audit_sweep ords (map rsID L)) (go_range ord T1) (T1, [])))"
      by (rule fold_sweep_wf[OF wf1]) (use wf1 in \<open>auto simp: wf_tracked_def\<close>)
    then show ?thesis using Some Inr by (simp add: Audit_ok_eq Let_def T1_def)
  qed (use Some assms in \<open>simp add: Audit_def\<close>)
qed (use assms in \<open>simp add: Audit_def\<close>)

lemma wf_forget_idle:
  assumes "wf_tracked T"
  shows "wf_tracked (forget_idle T)"
proof -
  have "map fst (forget_idle T) = map fst T" by (simp add: forget_idle_def split_def)
  then have "wf_map (forget_idle T)" using assms by (simp only: wf_tracked_def)
  with assms show ?thesis
    by (auto simp: wf_tracked_def forget_idle_def wf_pool_filter simp del: map_map)
qed

lemma wf_force:
  "wf_tracked T \<Longrightarrow> wf_tracked (mput q (mdel i (pool_of T q)) T)"
  by (intro wf_tracked_mput wf_pool_mdel wf_pool_of)

lemma wf_busy: "wf_tracked T \<Longrightarrow> wf_tracked (MarkRunnerBusy ord ords n busy T)"
  using MarkRunnerBusy_counts by blast

abbreviation tracked_ok :: "controller \<Rightarrow> bool" where
  "tracked_ok c \<equiv> wf_tracked (tracked c)"

interpretation wf_life: lifecycle d tracked_ok for d
  by unfold_locales
     (simp_all add: wf_TrackRunner wf_UntrackRunner Audit_wf_tracked wf_forget_idle wf_force
        wf_tracked_mdel wf_busy)

section \<open>No nil dereference\<close>

definition sound :: "deps \<Rightarrow> controller \<Rightarrow> bool" where
  "sound d c \<longleftrightarrow> wired d \<and> \<not> panicked c \<and> wf_tracked (tracked c)"

interpretation no_panic: lifecycle d "sound d" for d
  by unfold_locales
     (simp_all add: sound_def wf_TrackRunner wf_UntrackRunner Audit_wf_tracked wf_forget_idle wf_force
        wf_tracked_mdel wf_busy)

section \<open>The global quota\<close>

definition within_bound :: "deps \<Rightarrow> int \<Rightarrow> int \<Rightarrow> controller \<Rightarrow> bool" where
  "within_bound d g B c \<longleftrightarrow> reconciler d \<noteq> None \<and> wf_tracked (tracked c) \<and> globalMaxRunners c = g \<and>
     0 < g \<and> g \<le> B \<and> int (total_running (tracked c)) \<le> B"

interpretation quota: provisioning d "within_bound d g B" for d g B
proof
  fix c p pool i and r :: RunnerStatus
  assume c: "within_bound d g B c"
  show "within_bound d g B (c\<lparr>tracked := UntrackRunner pool i (tracked c)\<rparr>)"
    using c wf_UntrackRunner registry.untrack_total[of "tracked c" pool i] by (simp add: within_bound_def)
  assume "may_spawn d p c"
  with c have "int (total_running (tracked c)) < g"
    by (simp add: within_bound_def may_spawn_def saturated_def TotalActiveRunners_total)
  with c registry.track_total[of "tracked c" r]
  show "within_bound d g B (c\<lparr>tracked := TrackRunner r (tracked c)\<rparr>)"
    by (simp add: within_bound_def wf_TrackRunner)
qed (simp_all add: within_bound_def)

section \<open>The limit of a pool\<close>

definition limited :: "deps \<Rightarrow> string \<Rightarrow> int \<Rightarrow> controller \<Rightarrow> bool" where
  "limited d q B c \<longleftrightarrow> wf_tracked (tracked c) \<and>
     (\<forall>p. from_db d p \<longrightarrow> pName p = q \<longrightarrow> 0 < pMaxConcurrency p \<and> pMaxConcurrency p \<le> B) \<and>
     int (pool_running q (tracked c)) \<le> B"

interpretation pool_limit: provisioning d "limited d q B" for d q B
proof
  fix c p pool i and r :: RunnerStatus
  assume c: "limited d q B c"
  show "limited d q B (c\<lparr>tracked := UntrackRunner pool i (tracked c)\<rparr>)"
    using c wf_UntrackRunner registry.untrack_pool[of "tracked c" q pool i] by (simp add: limited_def)
  assume "from_db d p" "may_spawn d p c" "rsPoolName r = pName p"
  show "limited d q B (c\<lparr>tracked := TrackRunner r (tracked c)\<rparr>)"
  proof (cases "pName p = q")
    case True
    with c \<open>from_db d p\<close> \<open>may_spawn d p c\<close>
    have "int (pool_running q (tracked c)) < B" by (fastforce simp: limited_def may_spawn_def)
    with c registry.track_pool_le[of "tracked c" q r] show ?thesis
      by (simp add: limited_def wf_TrackRunner)
  next
    case False
    with c registry.track_other[of "tracked c" q r] \<open>rsPoolName r = pName p\<close> show ?thesis
      by (simp add: limited_def wf_TrackRunner)
  qed
qed (simp_all add: limited_def)

end
