(* ===== verification/Example_Env.thy ===== *)
theory Example_Env
  imports Controller
begin

text \<open>
  A concrete environment for the witnesses: one pool \<open>ci\<close> with two warm runners wanted and at most
  three, an engine whose containers are numbered by the call that created them, and a provider that
  hands out a token for every request.
\<close>

definition ex_pool :: RunnerPool where
  "ex_pool = \<lparr>pID = 1, pName = ''ci'', pProvider = ''github'',
     pRepositoryUrl = ''https://github.com/o/r'', pScope = ''repo'', pAuthProfileID = 1,
     pMinIdleRunners = 2, pMaxConcurrency = 3, pLabels = [], pRunnerImage = ''img'',
     pAllowDocker = False, pMaxRunnerLifetimeSeconds = 3600, pCpuLimit = None, pMemoryLimit = None,
     pCreatedAt = 0, pUpdatedAt = 0\<rparr>"

definition ex_db :: PoolRepository where
  "ex_db = \<lparr>dbListRunnerPools = (\<lambda>n. Inr [ex_pool]), dbListPoolTargetsByPoolId = None,
     dbGetAppSetting = None, dbRecordJobTimeout = None\<rparr>"

definition ex_provider :: GitProvider where
  "ex_provider = \<lparr>gpScalingMode = ScalingWebhook, gpGetRegistrationToken = (\<lambda>n s t. Inr ''tok''),
     gpValidateCredentials = (\<lambda>n. None), gpPollQueuedJobs = (\<lambda>n t. Inr 0),
     gpDeregisterRunner = Some (\<lambda>n s t r. None)\<rparr>"

definition ex_engine :: ContainerProvider where
  "ex_engine = \<lparr>cpSpawnRunner = (\<lambda>n cfg. Inr (replicate n (CHR ''x''))),
     cpTerminateRunner = (\<lambda>n i. None), cpAuditRunners = (\<lambda>n. Inr []),
     cpCaptureLogs = (\<lambda>n i dir. (dir, None)), cpPing = (\<lambda>n. None)\<rparr>"

definition ex_deps :: deps where
  "ex_deps = \<lparr>db = Some ex_db, jobRecorder = None, engine = Some ex_engine,
     providerResolver = Some (\<lambda>n a. Inr ex_provider), reconciler = Some (Some ex_engine),
     taskExitHandler = None, dataDir = [], shutdownTimeout = 300, shutdownPollInterval = 5,
     interval = 10, scaleToZeroGracePeriod = 300, Now = (\<lambda>n. int n), randomHex = (\<lambda>n. ''00ff00''),
     pool_order = (\<lambda>n. []), runner_order = (\<lambda>n p. [])\<rparr>"

definition ex_runner :: "string \<Rightarrow> bool \<Rightarrow> RunnerStatus" where
  "ex_runner i busy = \<lparr>rsID = i, rsName = ''ghrs-ci-'' @ i, rsPoolName = ''ci'', rsState = ''running'',
     rsIPAddress = [], rsExitCode = 0, rsSpawnedAt = 1, rsIsBusy = busy, rsOnDemand = False,
     rsTargetURL = []\<rparr>"

definition ex_ctl :: controller where
  "ex_ctl = \<lparr>tracked = [(''ci'', [(''a'', ex_runner ''a'' True)])],
     queue = [\<lparr>prPoolName = ''ci'', prTargetURL = [], prCreatedAt = 0\<rparr>], cstate = StateRunning,
     lastHeartbeat = 0, globalMaxRunners = 2, tick = 0, trace = [], panicked = False\<rparr>"

lemmas ex_simps = ex_pool_def ex_db_def ex_provider_def ex_engine_def ex_deps_def ex_runner_def
  ex_ctl_def

definition ex_event :: ContainerEvent where
  "ex_event = \<lparr>ceContainerID = ''a'', cePoolName = ''ci'', ceAction = ''die'', ceExitCode = 0,
     ceTimestamp = 0\<rparr>"

end
