(* ===== verification/Scaling_Props.thy ===== *)
theory Scaling_Props
  imports Webhook_Scaling Controller_Invariants Example_Env
begin

text \<open>
  What \<open>HandleWorkflowJob\<close> keeps (the contracts of \<open>Controller_Logic\<close>, extended to the webhook path)
  and what the pool it chooses is.
\<close>

section \<open>The webhook path keeps the invariants\<close>

lemma quiet_load_all_targets [quiet_rules]: "quiet (load_all_targets d ps m)"
  by (induction ps arbitrary: m) (auto intro!: quiet_rules)

text \<open>The pairs of an eligible pool and one of its targets, in the order they are tried.\<close>

definition offers ::
  "string \<Rightarrow> WorkflowJobEvent \<Rightarrow> (int, string list) gomap \<Rightarrow> RunnerPool list \<Rightarrow> (RunnerPool \<times> string) list"
  where
  "offers n ev pt ps =
     [(p, t). p \<leftarrow> ps, pool_eligible n (wjLabels (evWorkflowJob ev)) p, t \<leftarrow> match_targets pt p]"

definition offer_score :: "string \<Rightarrow> WorkflowJobEvent \<Rightarrow> RunnerPool \<times> string \<Rightarrow> int" where
  "offer_score n ev o1 =
     target_score (pool_scope (fst o1)) (candidate_urls n ev)
       (ToLower (TrimSpace (repFullName (evRepository ev)))) (snd o1)"

definition try_offer :: "string \<Rightarrow> WorkflowJobEvent \<Rightarrow> RunnerPool \<times> string \<Rightarrow> best \<Rightarrow> best" where
  "try_offer n ev o1 b = (if offer_score n ev o1 > snd b then (Some o1, offer_score n ev o1) else b)"

lemma try_offer_pair [simp]:
  "try_offer n ev x (r, m) =
     (if offer_score n ev x > m then (Some x, offer_score n ev x) else (r, m))"
  by (simp add: try_offer_def)

lemma fold_targets:
  "fold (try_target (candidate_urls n ev) (ToLower (TrimSpace (repFullName (evRepository ev)))) p) ts b
     = fold (try_offer n ev) (map (Pair p) ts) b"
  by (induction ts arbitrary: b) (simp_all add: try_offer_def try_target_def offer_score_def Let_def)

lemma fold_pools: "fold (try_pool n ev pt) ps b = fold (try_offer n ev) (offers n ev pt ps) b"
  by (induction ps arbitrary: b) (simp_all add: offers_def try_pool_def fold_targets)

lemma fold_offers:
  "case fold (try_offer n ev) os (None, k) of (r, m) \<Rightarrow>
     (case r of
        None \<Rightarrow> m = k \<and> (\<forall>x \<in> set os. offer_score n ev x \<le> k)
      | Some y \<Rightarrow> y \<in> set os \<and> offer_score n ev y > k \<and> m = offer_score n ev y \<and>
          (\<forall>x \<in> set os. offer_score n ev x \<le> offer_score n ev y))"
proof (induction os rule: rev_induct)
  case (snoc x os)
  obtain r m where rm: "fold (try_offer n ev) os (None, k) = (r, m)" by fastforce
  show ?case
  proof (cases r)
    case None
    with snoc rm show ?thesis by auto
  next
    case (Some y)
    with snoc rm have y: "y \<in> set os" "offer_score n ev y > k" "m = offer_score n ev y"
      "\<forall>x \<in> set os. offer_score n ev x \<le> offer_score n ev y" by auto
    show ?thesis
    proof (cases "offer_score n ev x > m")
      case True
      then have "\<forall>z \<in> set os. offer_score n ev z \<le> offer_score n ev x" using y by force
      with rm Some y True show ?thesis by simp
    qed (use rm Some y in simp)
  qed
qed simp

lemma Match_offer:
  assumes "MatchPoolForEventWithTargets ps pt prov (Some ev) = Some (p, t)"
    and "n = ToLower (TrimSpace prov)"
  shows "\<exists>raw. (p, raw) \<in> set (offers n ev pt ps) \<and>
     t = (if raw = [] then pRepositoryUrl p else raw) \<and> offer_score n ev (p, raw) > - 1 \<and>
     (\<forall>x \<in> set (offers n ev pt ps). offer_score n ev x \<le> offer_score n ev (p, raw))"
proof -
  from assms obtain raw m where
    best: "fold (try_offer n ev) (offers n ev pt ps) (None, - 1) = (Some (p, raw), m)"
    and t: "t = (if raw = [] then pRepositoryUrl p else raw)"
    by (cases "fold (try_offer n ev) (offers n ev pt ps) (None, - 1)")
       (auto simp: MatchPoolForEventWithTargets_def fold_pools split: option.splits prod.splits)
  have "(p, raw) \<in> set (offers n ev pt ps)" "offer_score n ev (p, raw) > - 1"
    "\<forall>x \<in> set (offers n ev pt ps). offer_score n ev x \<le> offer_score n ev (p, raw)"
    using fold_offers[where n = n and ev = ev and os = "offers n ev pt ps" and k = "- 1"] unfolding best by simp_all
  with t show ?thesis by blast
qed

lemma Match_None:
  assumes "n = ToLower (TrimSpace prov)"
  shows "MatchPoolForEventWithTargets ps pt prov (Some ev) = None \<longleftrightarrow>
     (\<forall>x \<in> set (offers n ev pt ps). offer_score n ev x \<le> - 1)"
proof -
  obtain r m where rm: "fold (try_offer n ev) (offers n ev pt ps) (None, - 1) = (r, m)" by fastforce
  then have "MatchPoolForEventWithTargets ps pt prov (Some ev) = None \<longleftrightarrow> r = None"
    using assms by (auto simp: MatchPoolForEventWithTargets_def fold_pools split: option.splits)
  moreover have "r = None \<longleftrightarrow> (\<forall>x \<in> set (offers n ev pt ps). offer_score n ev x \<le> - 1)"
    using fold_offers[where n = n and ev = ev and os = "offers n ev pt ps" and k = "- 1"] unfolding rm
    by (cases r) (simp, force)
  ultimately show ?thesis by blast
qed

lemma Match_in_pools:
  "MatchPoolForEventWithTargets ps pt prov (Some ev) = Some (p, t) \<Longrightarrow> p \<in> set ps"
  by (drule Match_offer[OF _ refl]) (auto simp: offers_def split: if_splits)

context provisioning
begin

lemma capacity_check_I:
  assumes "from_db d p" "hoare (\<lambda>c. (I c \<and> \<not> saturated d c) \<and>
      (pMaxConcurrency p > 0 \<longrightarrow> int (pool_running (pName p) (tracked c)) < pMaxConcurrency p)) m (\<lambda>_. I)"
  shows "preserves I (capacity_check d p t m)"
  unfolding capacity_check_def preserves_def
proof (rule hoare_tracked_pool_runners, goal_cases)
  case (2 rs)
  show ?case
  proof (rule hoare_if, goal_cases)
    case 1
    show ?case by (rule hoare_return) simp
  next
    case 2
    then show ?case
      by (intro hoare_bind_gets hoare_if hoare_pre[OF assms(2)]
            hoare_pre[OF enqueueRequest_return_I[unfolded preserves_def]])
         (auto simp: running_count_filter)
  qed
qed (auto intro: frame)

lemma spawn_guarded_I:
  assumes "from_db d p"
  shows "hoare (\<lambda>c. (I c \<and> \<not> saturated d c) \<and>
      (pMaxConcurrency p > 0 \<longrightarrow> int (pool_running (pName p) (tracked c)) < pMaxConcurrency p))
    (spawnSingleRunner d p None od t) (\<lambda>_. I)"
proof (rule hoareI)
  fix c a c'
  assume c: "(I c \<and> \<not> saturated d c) \<and>
      (pMaxConcurrency p > 0 \<longrightarrow> int (pool_running (pName p) (tracked c)) < pMaxConcurrency p)"
    and run: "run_state (spawnSingleRunner d p None od t) c = (a, c')"
  from c assms have "ready p (int (pool_running (pName p) (tracked c))) c"
    by (simp add: ready_def may_spawn_def)
  from hoareD[OF spawnSingleRunner_ready this run] show "I c'" by (rule below_I)
qed

lemma handle_queued_I: "preserves I (handle_queued d prov ev)"
  unfolding handle_queued_def
proof (rule loadPools_I, goal_cases)
  case (2 ps)
  have inner: "from_db d p \<Longrightarrow> preserves I (capacity_check d p t (spawnSingleRunner d p None True t))" for p t
    by (intro capacity_check_I spawn_guarded_I)
  have outer: "preserves I (capacity_check d p t (capacity_check d p t (spawnSingleRunner d p None True t)))"
    if "from_db d p" for p t
    by (intro capacity_check_I[OF that] hoare_pre[OF inner[OF that, unfolded preserves_def]]) simp
  show ?case
    using 2 by (auto intro!: keeps quiet_I[OF quiet_load_all_targets] outer panic_I
        dest: Match_in_pools simp: wired_def)
qed (auto intro: keeps)

end

context lifecycle
begin

lemma mark_busy_I: "preserves I (mark_busy d n busy)"
  unfolding mark_busy_def by (intro keeps quiets_I preserves_modify busy_I)

lemma HandleWorkflowJob_I: "preserves I (HandleWorkflowJob d prov ev)"
  unfolding HandleWorkflowJob_def by (intro keeps handle_queued_I mark_busy_I)

end

section \<open>The pool that is chosen\<close>


definition ex_org :: RunnerPool where
  "ex_org = ex_pool\<lparr>pID := 2, pName := ''org'', pScope := ''org'', pRepositoryUrl := ''https://github.com/o/''\<rparr>"

definition ex_queued :: WorkflowJobEvent where
  "ex_queued = empty_event\<lparr>evAction := ''queued'',
     evRepository := (evRepository empty_event)\<lparr>repHTMLURL := ''https://GitHub.com/o/r.git''\<rparr>\<rparr>"


end
