(* ===== verification/System.thy ===== *)
theory System
  imports Scaling_Props Example_Env
begin

text \<open>
  The controller as a transition system: its entry points are called in any order, each running to
  its end. The methods that provision runners hold the provisioning lock (\<open>provisionMu\<close>), so that a
  run of the program interleaves whole steps; the exception, the queue that \<open>HandleWorkflowJob\<close>
  extends without the lock, is the subject of \<open>Queue_Props\<close>.
\<close>

section \<open>Steps and reachable states\<close>

inductive step :: "deps \<Rightarrow> controller \<Rightarrow> controller \<Rightarrow> bool" for d where
  step_boot: "step d c (exec (Boot d) c)"
| step_reconcile: "step d c (exec (Reconcile d) c)"
| step_check_hung: "step d c (exec (CheckHungRunners d) c)"
| step_event: "step d c (exec (HandleContainerEvent d ev) c)"
| step_webhook: "step d c (exec (HandleWorkflowJob d prov job) c)"
| step_terminate: "step d c (exec (TerminateRunner d q i) c)"
| step_pause: "step d c (exec Pause c)"
| step_resume: "step d c (exec Resume c)"
| step_graceful: "step d c (exec (GracefulShutdown d evs) c)"
| step_immediate: "step d c (exec (ImmediateShutdown d) c)"

inductive_cases stepE: "step d c c'"

inductive reach :: "deps \<Rightarrow> controller \<Rightarrow> controller \<Rightarrow> bool" for d c0 where
  reach_start: "reach d c0 c0"
| reach_step: "reach d c0 c \<Longrightarrow> step d c c' \<Longrightarrow> reach d c0 c'"

context lifecycle
begin

lemma step_I: "step d c c' \<Longrightarrow> I c \<Longrightarrow> I c'"
  by (erule stepE)
     (simp_all add: Boot_I Reconcile_I CheckHungRunners_I HandleContainerEvent_I HandleWorkflowJob_I
        TerminateRunner_I Pause_I Resume_I GracefulShutdown_I ImmediateShutdown_I preservesD)

lemma reach_I: "reach d c0 c \<Longrightarrow> I c0 \<Longrightarrow> I c"
  by (induction rule: reach.induct) (auto intro: step_I)

end

section \<open>Every reachable state is sound\<close>

text \<open>
  C4. A controller built with an engine and a provider resolver never dereferences a nil dependency,
  and its tracking state is well formed (one entry per container, filed under its own pool and id) in
  every state that any sequence of calls can reach.
\<close>

theorem reachable_sound:
  assumes "NewPoolController env opts = (d, c0)" "oContainerEngine opts = Some e"
    and "oProviderResolver opts = Some r" "oReconciler opts = None" "reach d c0 c"
  shows "\<not> panicked c \<and> wf_tracked (tracked c)"
proof -
  from assms(1-4) have "sound d c0"
    by (auto simp: NewPoolController_def Let_def sound_def wired_def NewReconciler_def)
  with assms(5) show ?thesis using no_panic.reach_I by (auto simp: sound_def)
qed

definition ex_opts :: ControllerOptions where
  "ex_opts = \<lparr>oDB = Some ex_db, oJobRecorder = None, oContainerEngine = Some ex_engine,
     oProviderResolver = Some (\<lambda>n a. Inr ex_provider), oReconciler = None, oDataDir = [],
     oGlobalMaxRunners = 0, oShutdownTimeout = 0, oShutdownPollInterval = 0, oInterval = 0,
     oScaleToZeroGracePeriod = 0, oTaskExitHandler = None\<rparr>"

theorem reachable_sound_witness:
  "\<not> panicked (exec (Boot (fst (NewPoolController ex_deps ex_opts))) (snd (NewPoolController ex_deps ex_opts)))"
  using reachable_sound[OF surjective_pairing, where env = ex_deps and opts = ex_opts
      and e = ex_engine and r = "\<lambda>n a. Inr ex_provider"
      and c = "exec (Boot (fst (NewPoolController ex_deps ex_opts))) (snd (NewPoolController ex_deps ex_opts))"]
    reach_step[OF reach_start step_boot]
  by (simp add: ex_opts_def)

end
