(* ===== verification/Queue_Props.thy ===== *)
theory Queue_Props
  imports Scaling_Props Example_Env
begin

text \<open>
  The provisioning queue: what \<open>drainQueue\<close> does with the queued requests, and the interleaving in
  which a request that \<open>HandleWorkflowJob\<close> queues without the provisioning lock is lost.
\<close>

section \<open>Silent computations\<close>

named_theorems silent_rules \<open>computations that leave the queue and the trace of effects alone\<close>

definition silent :: "(controller, 'a) state \<Rightarrow> bool" where
  "silent m \<longleftrightarrow> (\<forall>c. trace (exec m c) = trace c \<and> queue (exec m c) = queue c)"

lemma silentI: "(\<And>c. trace (exec m c) = trace c) \<Longrightarrow> (\<And>c. queue (exec m c) = queue c) \<Longrightarrow> silent m"
  by (simp add: silent_def)

lemma silent_basic [silent_rules]:
  "silent (State_Monad.return x)" "silent (gets f)" "silent skip" "silent next_tick" "silent nil_panic"
  "silent (track r)"
  by (simp_all add: silent_def exec_def next_tick_def nil_panic_def track_def)

lemma silent_bind [silent_rules]:
  "silent m \<Longrightarrow> (\<And>a. silent (f a)) \<Longrightarrow> silent (State_Monad.bind m f)"
  by (simp add: silent_def exec_bind)

lemma silent_cases [silent_rules]:
  "(b \<Longrightarrow> silent m) \<Longrightarrow> (\<not> b \<Longrightarrow> silent m') \<Longrightarrow> silent (if b then m else m')"
  "(x = None \<Longrightarrow> silent m) \<Longrightarrow> (\<And>y. x = Some y \<Longrightarrow> silent (f y)) \<Longrightarrow>
     silent (case x of None \<Rightarrow> m | Some y \<Rightarrow> f y)"
  "(\<And>y. s = Inl y \<Longrightarrow> silent (g y)) \<Longrightarrow> (\<And>y. s = Inr y \<Longrightarrow> silent (h y)) \<Longrightarrow>
     silent (case s of Inl y \<Rightarrow> g y | Inr y \<Rightarrow> h y)"
  by (auto split: option.split sum.split)

lemma silent_calls [silent_rules]:
  "silent (time_now d)" "silent (loadPools d)" "silent (loadPoolTargets d p)"
  "silent (request_target d p n req)" "silent (tracked_pool_runners d q)" "silent (register_runner d r)"
  unfolding time_now_def loadPools_def loadPoolTargets_def request_target_def tracked_pool_runners_def
    register_runner_def
  by (intro silent_rules)+

section \<open>Conservation of requests\<close>

fun is_spawn :: "effect \<Rightarrow> bool" where
  "is_spawn (Spawned cfg i) = True"
| "is_spawn _ = False"

definition spawned :: "controller \<Rightarrow> nat" where
  "spawned c = length (filter is_spawn (trace c))"

text \<open>The queue and the number of containers started so far.\<close>

definition ledger :: "ProvisionRequest list \<Rightarrow> nat \<Rightarrow> controller \<Rightarrow> bool" where
  "ledger qu k c \<longleftrightarrow> queue c = qu \<and> spawned c = k"

lemma ledger_silent: "silent m \<Longrightarrow> hoare (ledger qu k) m (\<lambda>_. ledger qu k)"
  by (auto simp: hoare_def silent_def exec_def ledger_def spawned_def split: prod.splits)
     (metis snd_conv)+

lemma ledger_emit:
  "hoare (ledger qu k) (emit e) (\<lambda>_. ledger qu (if is_spawn e then Suc k else k))"
  by (auto simp: hoare_def emit_def ledger_def spawned_def)

lemmas ledger_steps = hoare_bind[OF ledger_silent[OF silent_basic(4)]] hoare_bind[OF ledger_emit]
  hoare_bind[OF ledger_silent[OF silent_calls(1)]] hoare_bind[OF ledger_silent[OF silent_calls(6)]]

text \<open>A spawn starts one container, exactly when it reports no error.\<close>

lemma spawn_with_ledger:
  assumes "engine d \<noteq> None"
  shows "hoare (ledger qu k) (spawn_with d p g od t) (\<lambda>err. ledger qu (if err = None then Suc k else k))"
  unfolding spawn_with_def Let_def
  by (intro hoare_case_sum hoare_case_option ledger_steps hoare_return) (use assms in auto)

lemma spawnSingleRunner_ledger:
  assumes "wired d"
  shows "hoare (ledger qu k) (spawnSingleRunner d p g od t)
           (\<lambda>err. ledger qu (if err = None then Suc k else k))"
  unfolding spawnSingleRunner_def Let_def
  by (intro hoare_case_sum hoare_case_option ledger_steps hoare_return spawn_with_ledger)
     (use assms in \<open>auto simp: wired_def\<close>)

lemma drain_spawn_ledger:
  assumes "wired d"
  shows "hoare (ledger qu k) (drain_spawn d p req) (\<lambda>keep. ledger qu (if keep then k else Suc k))"
  unfolding drain_spawn_def Let_def
  by (intro hoare_bind[OF ledger_silent] silent_rules hoare_if hoare_return
        hoare_bind[OF spawnSingleRunner_ledger[OF assms]]) auto

lemma drain_one_ledger:
  assumes "wired d" "mget poolMap (prPoolName req) \<noteq> None"
  shows "hoare (ledger qu k) (drain_one d poolMap req) (\<lambda>keep. ledger qu (if keep then k else Suc k))"
  unfolding drain_one_def
  by (intro hoare_bind[OF ledger_silent] silent_rules hoare_if hoare_return hoare_case_option
        drain_spawn_ledger[OF assms(1)]) (use assms in \<open>auto simp: wired_def\<close>)

lemma drain_loop_ledger:
  assumes "wired d" "\<forall>req \<in> set reqs. mget poolMap (prPoolName req) \<noteq> None"
  shows "hoare (ledger qu k) (drain_loop d poolMap reqs)
           (\<lambda>rest c. subseq rest reqs \<and> ledger qu (k + (length reqs - length rest)) c)"
  using assms(2)
proof (induction reqs arbitrary: k)
  case (Cons req reqs)
  have one: "hoare (ledger qu k) (drain_one d poolMap req) (\<lambda>keep. ledger qu (if keep then k else Suc k))"
    using Cons.prems by (intro drain_one_ledger[OF assms(1)]) simp
  have len: "length rest \<le> length reqs" if "subseq rest reqs" for rest
    using that by (rule list_emb_length)
  show ?case
    unfolding drain_loop.simps
  proof (rule hoare_bind[OF one])
    fix keep
    have "hoare (ledger qu (if keep then k else Suc k)) (drain_loop d poolMap reqs)
        (\<lambda>rest c. subseq rest reqs \<and> ledger qu ((if keep then k else Suc k) + (length reqs - length rest)) c)"
      using Cons by simp
    then show "hoare (ledger qu (if keep then k else Suc k))
        (State_Monad.bind (drain_loop d poolMap reqs)
           (\<lambda>rest. State_Monad.return (if keep then req # rest else rest)))
        (\<lambda>rest c. subseq rest (req # reqs) \<and> ledger qu (k + (length (req # reqs) - length rest)) c)"
      by (rule hoare_bind)
         (auto intro!: hoare_return simp: len Suc_diff_le split: if_splits)
  qed
qed (auto intro: hoare_return)

lemma pool_index_known: "q \<in> pName ` set ps \<Longrightarrow> mget (pool_index ps) q \<noteq> None"
proof -
  have "mget m q \<noteq> None \<or> q \<in> pName ` set ps \<Longrightarrow> mget (fold (\<lambda>p m. mput (pName p) p m) ps m) q \<noteq> None" for m
    by (induction ps arbitrary: m) (auto split: if_splits)
  then show "q \<in> pName ` set ps \<Longrightarrow> ?thesis" by (simp add: pool_index_def)
qed

text \<open>Requests whose pools are all stored: what leaves the queue has been started.\<close>

definition known_requests :: "deps \<Rightarrow> controller \<Rightarrow> bool" where
  "known_requests d c \<longleftrightarrow> (\<forall>r n ps req. db d = Some r \<longrightarrow> dbListRunnerPools r n = Inr ps \<longrightarrow>
     req \<in> set (queue c) \<longrightarrow> prPoolName req \<in> pName ` set ps)"

lemma drain_copy_ledger:
  assumes "wired d" "db d = Some r" "known_requests d c"
  shows "hoare (ledger (queue c) k) (drain_copy d (queue c))
     (\<lambda>rest c'. case rest of
        None \<Rightarrow> ledger (queue c) k c'
      | Some q \<Rightarrow> subseq q (queue c) \<and> ledger (queue c) (k + (length (queue c) - length q)) c')"
proof -
  have load: "hoare (ledger (queue c) k) (loadPools d)
      (\<lambda>res c'. ledger (queue c) k c' \<and>
         (\<forall>ps. res = Inr ps \<longrightarrow> (\<forall>req \<in> set (queue c). mget (pool_index ps) (prPoolName req) \<noteq> None)))"
  proof (rule hoareI)
    fix s res s'
    assume "ledger (queue c) k s" "run_state (loadPools d) s = (res, s')"
    then show "ledger (queue c) k s' \<and>
         (\<forall>ps. res = Inr ps \<longrightarrow> (\<forall>req \<in> set (queue c). mget (pool_index ps) (prPoolName req) \<noteq> None))"
      using assms(2,3) pool_index_known
      by (auto simp: loadPools_def next_tick_def ledger_def spawned_def known_requests_def)
  qed
  have loop: "hoare (\<lambda>c'. ledger (queue c) k c' \<and>
       (\<forall>req \<in> set (queue c). mget (pool_index ps) (prPoolName req) \<noteq> None))
     (State_Monad.bind (drain_loop d (pool_index ps) (queue c)) (\<lambda>q. State_Monad.return (Some q)))
     (\<lambda>rest c'. case rest of None \<Rightarrow> ledger (queue c) k c'
      | Some q \<Rightarrow> subseq q (queue c) \<and> ledger (queue c) (k + (length (queue c) - length q)) c')" for ps
  proof (cases "\<forall>req \<in> set (queue c). mget (pool_index ps) (prPoolName req) \<noteq> None")
    case True
    show ?thesis
      by (rule hoare_pre[OF hoare_bind[OF drain_loop_ledger[OF assms(1) True]]])
         (auto intro!: hoare_return)
  qed (auto simp: hoare_def)
  show ?thesis
    unfolding drain_copy_def
    by (intro hoare_if hoare_return hoare_bind[OF load] hoare_case_sum hoare_pre[OF loop]) auto
qed



section \<open>A saturated queue\<close>

lemma drain_loop_saturated:
  "saturated d c \<Longrightarrow> run_state (drain_loop d poolMap reqs) c = (reqs, c)"
  by (induction reqs) (auto simp: drain_one_def)

text \<open>
  While the global quota is exhausted, draining changes neither the queue nor the tracked runners
  and calls neither the engine nor a provider: it does nothing but read the pools.
\<close>

theorem drainQueue_saturated:
  assumes "saturated d c"
  shows "\<exists>n. exec (drainQueue d) c = c\<lparr>tick := n\<rparr>"
proof (cases "queue c = []")
  case True
  then have "exec (drainQueue d) c = c\<lparr>tick := tick c\<rparr>"
    by (simp add: drainQueue_def drain_copy_def drain_store_def exec_def)
  then show ?thesis by blast
next
  case False
  then show ?thesis
    using drain_loop_saturated[of d "c\<lparr>tick := Suc (tick c)\<rparr>"] drain_loop_saturated[of d c] assms
    by (cases "db d")
       (auto simp: drainQueue_def drain_copy_def drain_store_def exec_def loadPools_def next_tick_def
         split: sum.splits intro: exI[of _ "tick c"] exI[of _ "Suc (tick c)"])
qed

definition ex_full :: controller where
  "ex_full = ex_ctl\<lparr>globalMaxRunners := 1\<rparr>"

theorem drainQueue_saturated_witness:
  "saturated ex_deps ex_full \<and> queue (exec (drainQueue ex_deps) ex_full) = queue ex_full"
proof -
  have "saturated ex_deps ex_full" by code_simp
  with drainQueue_saturated[OF this] show ?thesis by auto
qed

section \<open>The queue without the lock\<close>

definition ex_job :: WorkflowJobEvent where
  "ex_job = empty_event\<lparr>evAction := ''queued'',
     evRepository := (evRepository empty_event)\<lparr>repHTMLURL := ''https://github.com/o/r''\<rparr>\<rparr>"

text \<open>
  The interleaving that loses a request. With the quota exhausted, a reconciliation that has read
  the queue (\<open>drain_copy\<close>) and not yet written it back (\<open>drain_store\<close>) lets \<open>HandleWorkflowJob\<close> in,
  which checks the quota and queues its request without the provisioning lock and reports success; the
  write-back then overwrites the queue, and the request is gone.
\<close>

theorem drainQueue_loses_concurrent_request:
  "let (remaining, c1) = run_state (drain_copy ex_deps (queue ex_full)) ex_full;
       (err, c2) = run_state (HandleWorkflowJob ex_deps ''github'' (Some ex_job)) c1;
       c3 = exec (drain_store remaining) c2
   in err = None \<and> length (queue c2) = 2 \<and> queue c3 = queue ex_full \<and> length (queue c3) = 1"
  by code_simp

end
