(* ===== verification/Scale_Props.thy ===== *)
theory Scale_Props
  imports Controller_Invariants Example_Env
begin

text \<open>
  Reconciling one pool: which effects it has outside, and that it reaches its target when provider and
  engine do their part.
\<close>

section \<open>Effects\<close>

text \<open>The effects since the trace was \<open>tr\<close> all satisfy \<open>P\<close>.\<close>

definition only :: "(effect \<Rightarrow> bool) \<Rightarrow> effect list \<Rightarrow> controller \<Rightarrow> bool" where
  "only P tr c \<longleftrightarrow> (\<exists>es. trace c = tr @ es \<and> (\<forall>e \<in> set es. P e))"

lemma only_start: "only P (trace c) c"
  by (simp add: only_def)

lemma only_frame: "only P tr c \<Longrightarrow> trace c' = trace c \<Longrightarrow> only P tr c'"
  by (simp add: only_def)

lemma only_modify: "(\<And>c. trace (f c) = trace c) \<Longrightarrow> preserves (only P tr) (modify f)"
  by (rule preserves_modify) (auto intro: only_frame)

lemma only_emit: "P e \<Longrightarrow> preserves (only P tr) (emit e)"
  unfolding emit_def
  by (rule preserves_modify) (auto simp: only_def intro: exI[of _ "_ @ [e]"])

lemma only_next_tick: "preserves (only P tr) next_tick"
  unfolding next_tick_def by (intro keeps only_modify) simp

lemma only_basic:
  "preserves (only P tr) (untrack q i)" "preserves (only P tr) (track r)"
  "preserves (only P tr) nil_panic" "preserves (only P tr) (time_now d)"
  "preserves (only P tr) (loadPools d)" "preserves (only P tr) (loadPoolTargets d p)"
  "preserves (only P tr) (enqueueRequest d q t)" "preserves (only P tr) (register_runner d r)"
  unfolding untrack_def track_def nil_panic_def time_now_def loadPools_def loadPoolTargets_def
    enqueueRequest_def register_runner_def
  by ((intro keeps only_modify only_next_tick; simp)+)

lemma only_poll: "preserves (only P tr) (poll_queued g ts n)"
  by (induction ts arbitrary: n) (auto intro!: keeps only_next_tick)

lemma only_wanted: "preserves (only P tr) (wanted_runners p g ts n k)"
  unfolding wanted_runners_def by (intro keeps only_poll)

text \<open>What reconciling a pool may do: stop one of its idle runners, deregister, and start runners of its own.\<close>

definition pool_effect :: "RunnerPool \<Rightarrow> string set \<Rightarrow> effect \<Rightarrow> bool" where
  "pool_effect p ids e =
     (case e of
        Terminated i \<Rightarrow> i \<in> ids
      | Deregistered s t n \<Rightarrow> True
      | Spawned cfg i \<Rightarrow> rcPoolName cfg = pName p
      | SpawnFailed cfg \<Rightarrow> rcPoolName cfg = pName p
      | _ \<Rightarrow> False)"

lemma only_remove_runner:
  assumes "rsID r \<in> ids"
  shows "preserves (only (pool_effect p ids) tr) (remove_runner d e q r)"
  unfolding remove_runner_def deregisterRunner_def engine_terminate_def
  using assms by (intro keeps only_emit only_next_tick only_basic) (simp_all add: pool_effect_def)

lemma only_spawn: "preserves (only (pool_effect p ids) tr) (spawnSingleRunner d p g od t)"
  unfolding spawnSingleRunner_def spawn_with_def Let_def
  by (intro keeps only_emit only_next_tick only_basic)
     (simp_all add: pool_effect_def runner_config_def)

lemma only_cap_loop:
  assumes "rsID ` set rs \<subseteq> ids"
  shows "hoare (only (pool_effect p ids) tr) (cap_loop d e q excess k rs)
    (\<lambda>(n, rest) c. only (pool_effect p ids) tr c \<and> rsID ` set rest \<subseteq> ids)"
  using assms
proof (induction rs arbitrary: k)
  case (Cons r rs)
  then have r: "preserves (only (pool_effect p ids) tr) (remove_runner d e q r)"
    by (intro only_remove_runner) simp
  show ?case
  proof (cases "k < excess")
    case True
    with Cons show ?thesis by (simp add: hoare_bind[OF r[unfolded preserves_def]])
  next
    case False
    have "hoare (only (pool_effect p ids) tr)
        (State_Monad.bind (cap_loop d e q excess k rs) (\<lambda>(n, rest). State_Monad.return (n, r # rest)))
        (\<lambda>(n, rest) c. only (pool_effect p ids) tr c \<and> rsID ` set rest \<subseteq> ids)"
      using Cons.prems by (intro hoare_bind[OF Cons.IH])
        (auto intro!: hoare_return simp: image_subset_iff split: prod.splits)
    with False show ?thesis by simp
  qed
qed (simp add: hoare_return)

lemma only_enforce_cap:
  assumes "rsID ` set rs \<subseteq> ids"
  shows "hoare (only (pool_effect p ids) tr) (enforce_cap d e p n rs)
    (\<lambda>(m, rest) c. only (pool_effect p ids) tr c \<and> rsID ` set rest \<subseteq> ids)"
  unfolding enforce_cap_def
  by (intro hoare_if hoare_bind[OF only_cap_loop[OF assms]])
     (use assms in \<open>auto intro!: hoare_return split: prod.splits\<close>)

lemma only_remove_all:
  "rsID ` set rs \<subseteq> ids \<Longrightarrow> preserves (only (pool_effect p ids) tr) (remove_all d e q n rs)"
  by (induction rs arbitrary: n) (auto intro!: keeps only_remove_runner)

lemma only_scale_down:
  assumes "rsID ` set rs \<subseteq> ids"
  shows "preserves (only (pool_effect p ids) tr) (scale_down d e p t n rs)"
  unfolding scale_down_def
  by (intro keeps only_remove_all only_basic) (use assms in \<open>auto dest: in_set_takeD\<close>)

lemma only_spawn_loop: "preserves (only (pool_effect p ids) tr) (spawn_loop d p g od ts k n)"
  by (induction k arbitrary: n) (auto intro!: keeps only_basic only_spawn)

lemma only_replenish: "preserves (only (pool_effect p ids) tr) (replenish d p g ts t n)"
  unfolding replenish_def Let_def by (intro keeps only_spawn_loop)

definition idle_ids :: "string \<Rightarrow> tracked \<Rightarrow> string set" where
  "idle_ids q T = {i. \<exists>r. lookup T q i = Some r \<and> is_running r \<and> \<not> rsIsBusy r}"

lemma idle_ids_runners:
  assumes "wf_tracked T" "r \<in> set (TrackedPoolRunners ord q T)" "rsState r = ''running''" "\<not> rsIsBusy r"
  shows "rsID r \<in> idle_ids q T"
proof -
  from assms(2) obtain i where i: "(i, r) \<in> set (pool_of T q)" by (auto simp: set_TrackedPoolRunners)
  with wf_pool_of[OF assms(1), of q] have "lookup T q (rsID r) = Some r"
    by (auto simp: wf_pool_def lookup_def)
  with assms show ?thesis by (auto simp: idle_ids_def is_running_def)
qed

lemma only_converge:
  assumes "rsID ` set rs \<subseteq> ids"
  shows "hoare (only (pool_effect p ids) tr)
    (State_Monad.bind (wanted_runners p g ts n k) (\<lambda>w.
      State_Monad.bind (enforce_cap d e p n rs) (\<lambda>(active1, idle1).
        State_Monad.bind (scale_down d e p (capped_target p w) active1 idle1)
          (replenish d p g ts (capped_target p w)))))
    (\<lambda>_. only (pool_effect p ids) tr)"
proof (intro hoare_bind[OF only_wanted[unfolded preserves_def]] hoare_bind[OF only_enforce_cap[OF assms]],
    clarify)
  fix w active1 idle1
  show "hoare (\<lambda>c. only (pool_effect p ids) tr c \<and> rsID ` set idle1 \<subseteq> ids)
      (State_Monad.bind (scale_down d e p (capped_target p w) active1 idle1)
        (replenish d p g ts (capped_target p w))) (\<lambda>_. only (pool_effect p ids) tr)"
  proof (cases "rsID ` set idle1 \<subseteq> ids")
    case True
    have "preserves (only (pool_effect p ids) tr)
        (State_Monad.bind (scale_down d e p (capped_target p w) active1 idle1)
          (replenish d p g ts (capped_target p w)))"
      by (intro keeps only_scale_down[OF True] only_replenish)
    then show ?thesis unfolding preserves_def by (rule hoare_pre) simp
  qed (auto simp: hoare_def)
qed

lemma only_reconcilePoolWithProvider:
  assumes "wf_tracked T"
  shows "hoare (\<lambda>c. only (pool_effect p (idle_ids (pName p) T)) tr c \<and> tracked c = T)
    (reconcilePoolWithProvider d p g) (\<lambda>_. only (pool_effect p (idle_ids (pName p) T)) tr)"
  unfolding reconcilePoolWithProvider_def Let_def
proof (intro hoare_case_option hoare_if, goal_cases)
  case (3 e)
  let ?only = "only (pool_effect p (idle_ids (pName p) T)) tr"
  show ?case
  proof (rule hoare_bind[where R = "\<lambda>rs c. ?only c \<and> (\<exists>ord. rs = TrackedPoolRunners ord (pName p) T)"])
    show "hoare (\<lambda>c. ?only c \<and> tracked c = T) (tracked_pool_runners d (pName p))
        (\<lambda>rs c. ?only c \<and> (\<exists>ord. rs = TrackedPoolRunners ord (pName p) T))"
      by (auto simp: hoare_def tracked_pool_runners_def next_tick_def intro: only_frame)
  next
    fix rs :: "RunnerStatus list"
    let ?idle = "filter (\<lambda>r. rsState r = ''running'' \<and> \<not> rsIsBusy r) rs"
    show "hoare (\<lambda>c. ?only c \<and> (\<exists>ord. rs = TrackedPoolRunners ord (pName p) T))
        (State_Monad.bind (loadPoolTargets d p) (\<lambda>ts. if ts = [] then State_Monad.return None
          else State_Monad.bind (wanted_runners p g ts (running_count rs) (int (length ?idle))) (\<lambda>w.
            State_Monad.bind (enforce_cap d e p (running_count rs) ?idle) (\<lambda>(active1, idle1).
              State_Monad.bind (scale_down d e p (capped_target p w) active1 idle1)
                (replenish d p g ts (capped_target p w)))))) (\<lambda>_. ?only)"
    proof (cases "\<exists>ord. rs = TrackedPoolRunners ord (pName p) T")
      case True
      then have "rsID ` set ?idle \<subseteq> idle_ids (pName p) T"
        using idle_ids_runners[OF assms] by auto
      note converge = only_converge[OF this]
      show ?thesis
        by (rule hoare_pre[OF hoare_bind[OF only_basic(6)[unfolded preserves_def]]], rule hoare_if)
           (auto intro: hoare_return converge)
    qed (simp add: hoare_def)
  qed
qed (auto intro: hoare_return)

text \<open>
  Reconciling a pool touches nothing else. Everything \<open>reconcilePool\<close> does outside is to stop an
  idle running container of that very pool, to deregister a runner, or to start a container of that
  pool; a busy runner, an exited container and the runners of other pools are never stopped.
\<close>

theorem reconcilePool_effects:
  assumes "wf_tracked (tracked c)"
  shows "\<exists>es. trace (exec (reconcilePool d p) c) = trace c @ es \<and>
     (\<forall>e \<in> set es. pool_effect p (idle_ids (pName p) (tracked c)) e)"
proof -
  let ?only = "only (pool_effect p (idle_ids (pName p) (tracked c))) (trace c)"
  have "hoare (\<lambda>s. ?only s \<and> tracked s = tracked c) (reconcilePool d p) (\<lambda>_. ?only)"
    unfolding reconcilePool_def
  proof (intro hoare_case_option hoare_return, goal_cases)
    case (2 resolve)
    have tick: "hoare (\<lambda>s. ?only s \<and> tracked s = tracked c) next_tick (\<lambda>_ s. ?only s \<and> tracked s = tracked c)"
      by (auto simp: hoare_def next_tick_def intro: only_frame)
    show ?case
      by (intro hoare_bind[OF tick] hoare_case_sum only_reconcilePoolWithProvider[OF assms])
         (auto intro: hoare_return)
  qed simp
  from hoareD[OF this _ surjective_pairing, of c] show ?thesis
    by (simp add: only_start only_def[symmetric] exec_def)
qed

theorem reconcilePool_effects_witness:
  "\<exists>es. trace (exec (reconcilePool ex_deps ex_pool) ex_ctl) = es \<and>
     (\<forall>e \<in> set es. pool_effect ex_pool {} e)"
proof -
  have "wf_tracked (tracked ex_ctl)" by (simp add: ex_simps wf_tracked_def wf_pool_def)
  moreover have "idle_ids (pName ex_pool) (tracked ex_ctl) = {}"
    by (auto simp: idle_ids_def ex_simps lookup_def pool_of_def split: if_splits)
  ultimately show ?thesis
    using reconcilePool_effects[of ex_ctl ex_deps ex_pool] by (simp add: ex_ctl_def)
qed

section \<open>Convergence\<close>

text \<open>
  A provider that grants every token and an engine that starts every container, under an id that it
  has not used before; \<open>newid k\<close> is the id handed out by call \<open>k\<close>.
\<close>

definition obliging :: "deps \<Rightarrow> ContainerProvider \<Rightarrow> GitProvider \<Rightarrow> (nat \<Rightarrow> string) \<Rightarrow> bool" where
  "obliging d e g newid \<longleftrightarrow> engine d = Some e \<and> reconciler d \<noteq> None \<and> inj newid \<and>
     (\<forall>n s t. \<exists>tok. gpGetRegistrationToken g n s t = Inr tok) \<and>
     (\<forall>k cfg. cpSpawnRunner e k cfg = Inr (newid k))"

definition fresh :: "(nat \<Rightarrow> string) \<Rightarrow> controller \<Rightarrow> bool" where
  "fresh newid c \<longleftrightarrow> (\<forall>k \<ge> tick c. \<forall>q. lookup (tracked c) q (newid k) = None)"

text \<open>Room for \<open>k\<close> more runners of pool \<open>p\<close>, of which \<open>a\<close> are running.\<close>

definition room :: "(nat \<Rightarrow> string) \<Rightarrow> RunnerPool \<Rightarrow> int \<Rightarrow> nat \<Rightarrow> controller \<Rightarrow> bool" where
  "room newid p a k c \<longleftrightarrow> wf_tracked (tracked c) \<and> fresh newid c \<and>
     int (pool_running (pName p) (tracked c)) = a \<and> QueueLengthForPool (pName p) c = 0 \<and>
     (globalMaxRunners c > 0 \<longrightarrow> int (total_running (tracked c)) + int k \<le> globalMaxRunners c) \<and>
     (pMaxConcurrency p > 0 \<longrightarrow> a + int k \<le> pMaxConcurrency p)"

lemma room_tick: "room newid p a k c \<Longrightarrow> tick c \<le> n \<Longrightarrow> room newid p a k (c\<lparr>tick := n\<rparr>)"
  by (auto simp: room_def fresh_def QueueLengthForPool_def)

lemma spawn_obliging:
  assumes "obliging d e g newid" "room newid p a (Suc k) c"
  shows "\<exists>c'. run_state (spawnSingleRunner d p (Some g) od t) c = (None, c') \<and> room newid p (a + 1) k c'"
proof -
  let ?t = "if t = [] then pRepositoryUrl p else t"
  obtain tok where tok: "gpGetRegistrationToken g (tick c) (pScope p) ?t = Inr tok"
    using assms(1) by (meson obliging_def)
  let ?nm = "GenerateContainerName (randomHex d (Suc (tick c))) (pName p)"
  let ?i = "newid (Suc (Suc (tick c)))"
  let ?r = "new_status p ?i ?nm (Now d (Suc (Suc (Suc (tick c))))) od ?t"
  let ?c' = "c\<lparr>tick := Suc (Suc (Suc (Suc (tick c)))), trace := trace c @ [Spawned (runner_config p ?t tok ?nm) ?i],
               tracked := TrackRunner ?r (tracked c)\<rparr>"
  have run: "run_state (spawnSingleRunner d p (Some g) od t) c = (None, ?c')"
    using assms(1) tok
    by (auto simp: obliging_def spawnSingleRunner_def spawn_with_def next_tick_def emit_def time_now_def
        register_runner_def track_def Let_def)
  have wf: "wf_tracked (tracked c)" and new: "\<And>q. lookup (tracked c) q ?i = None"
    using assms(2) by (auto simp: room_def fresh_def)
  have r: "rsID ?r = ?i" "rsPoolName ?r = pName p" "is_running ?r"
    by (simp_all add: new_status_def is_running_def)
  have counts: "total_running (TrackRunner ?r (tracked c)) = Suc (total_running (tracked c))"
    "pool_running (pName p) (TrackRunner ?r (tracked c)) = Suc (pool_running (pName p) (tracked c))"
    using total_TrackRunner[OF wf, of ?r] pool_TrackRunner[OF wf, of "pName p" ?r] r new
    by (simp_all add: runs_def)
  have "newid k \<noteq> ?i" if "k \<ge> Suc (Suc (Suc (Suc (tick c))))" for k
    using assms(1) that by (auto simp: obliging_def inj_eq)
  then have "fresh newid ?c'"
    using assms(2) r by (auto simp: room_def fresh_def lookup_TrackRunner)
  then have "room newid p (a + 1) k ?c'"
    using assms(2) counts wf_TrackRunner[OF wf, of ?r]
    by (auto simp: room_def QueueLengthForPool_def)
  with run show ?thesis by blast
qed

lemma spawn_loop_obliging:
  assumes "obliging d e g newid" "room newid p a k c"
  shows "\<exists>c'. run_state (spawn_loop d p (Some g) od ts k a) c = (None, c') \<and> room newid p (a + int k) 0 c'"
  using assms(2)
proof (induction k arbitrary: a c)
  case (Suc k)
  have free: "\<not> saturated d c" "\<not> (pMaxConcurrency p > 0 \<and> a + QueueLengthForPool (pName p) c \<ge> pMaxConcurrency p)"
    using Suc.prems assms(1) by (auto simp: room_def saturated_def obliging_def TotalActiveRunners_total)
  obtain c1 where c1: "run_state (spawnSingleRunner d p (Some g) od (ts ! nat (a mod int (length ts)))) c = (None, c1)"
    "room newid p (a + 1) k c1"
    using spawn_obliging[OF assms(1) Suc.prems] by blast
  from Suc.IH[OF c1(2)] obtain c2 where
    "run_state (spawn_loop d p (Some g) od ts k (a + 1)) c1 = (None, c2)" "room newid p (a + 1 + int k) 0 c2"
    by blast
  with free c1(1) show ?case by (auto simp: Let_def add.assoc)
qed auto

lemma loadPoolTargets_run:
  "\<exists>n \<ge> tick c. run_state (loadPoolTargets d p) c = (fst (run_state (loadPoolTargets d p) c), c\<lparr>tick := n\<rparr>)"
proof (cases "case db d of None \<Rightarrow> None | Some r \<Rightarrow> dbListPoolTargetsByPoolId r")
  case None
  then have "run_state (loadPoolTargets d p) c = (own_target p, c\<lparr>tick := tick c\<rparr>)"
    by (simp add: loadPoolTargets_def)
  then show ?thesis by (metis fst_conv order_refl)
next
  case (Some ts)
  then show ?thesis
    by (intro exI[of _ "Suc (tick c)"]) (simp add: loadPoolTargets_def next_tick_def)
qed

lemma reconcile_obliging:
  assumes "obliging d e g newid" "gpScalingMode g = ScalingWebhook" "0 < pMinIdleRunners p"
    and "\<And>c. fst (run_state (loadPoolTargets d p) c) \<noteq> []"
    and "t = capped_target p (pMinIdleRunners p)" "room newid p a (nat (t - a)) c"
    and "pMaxConcurrency p > 0 \<longrightarrow> a \<le> pMaxConcurrency p"
    and "\<And>ord. int (length (filter (\<lambda>r. rsState r = ''running'' \<and> \<not> rsIsBusy r)
           (TrackedPoolRunners ord (pName p) (tracked c)))) \<le> t"
  shows "\<exists>c'. run_state (reconcilePoolWithProvider d p (Some g)) c = (None, c') \<and> room newid p (max a t) 0 c'"
proof -
  let ?rs = "TrackedPoolRunners (runner_order d (tick c) (pName p)) (pName p) (tracked c)"
  let ?idle = "filter (\<lambda>r. rsState r = ''running'' \<and> \<not> rsIsBusy r) ?rs"
  let ?c1 = "c\<lparr>tick := Suc (tick c)\<rparr>"
  obtain n where n: "n \<ge> Suc (tick c)"
    "run_state (loadPoolTargets d p) ?c1 = (fst (run_state (loadPoolTargets d p) ?c1), ?c1\<lparr>tick := n\<rparr>)"
    using loadPoolTargets_run[of ?c1 d p] by auto
  define ts where "ts = fst (run_state (loadPoolTargets d p) ?c1)"
  let ?c2 = "c\<lparr>tick := n\<rparr>"
  have a: "running_count ?rs = a" using assms(6) by (simp add: running_count_filter room_def)
  have room2: "room newid p a (nat (t - a)) ?c2" using assms(6) n(1) by (intro room_tick) auto
  have cap: "enforce_cap d e p a ?idle = State_Monad.return (a, ?idle)"
    using assms(7) by (auto simp: enforce_cap_def)
  have down: "scale_down d e p t a ?idle = State_Monad.return a"
    using assms(3,8) by (auto simp: scale_down_def)
  have wanted: "wanted_runners p (Some g) ts a k = State_Monad.return (pMinIdleRunners p)" for k
    using assms(2) by (simp add: wanted_runners_def)
  have eng: "engine d = Some e" "reconciler d \<noteq> None" using assms(1) by (auto simp: obliging_def)
  have "run_state (reconcilePoolWithProvider d p (Some g)) c
      = run_state (replenish d p (Some g) ts t a) ?c2"
    using eng assms(4)[of ?c1] n(2) wanted cap down a
    by (auto simp: reconcilePoolWithProvider_def tracked_pool_runners_def next_tick_def Let_def
        ts_def[symmetric] assms(5)[symmetric])
  moreover have "\<exists>c'. run_state (replenish d p (Some g) ts t a) ?c2 = (None, c') \<and> room newid p (max a t) 0 c'"
  proof (cases "t \<le> a")
    case True
    have "QueueLengthForPool (pName p) ?c2 = 0" using room2 by (simp add: room_def)
    with True room2 show ?thesis by (auto simp: replenish_def Let_def)
  next
    case False
    have "QueueLengthForPool (pName p) ?c2 = 0" using room2 by (simp add: room_def)
    with False spawn_loop_obliging[OF assms(1) room2] show ?thesis
      by (auto simp: replenish_def Let_def max_def)
  qed
  ultimately show ?thesis by simp
qed


definition ex_free :: controller where
  "ex_free = ex_ctl\<lparr>queue := []\<rparr>"


end
