(* ===== verification/Shutdown_Props.thy ===== *)
theory Shutdown_Props
  imports Controller_Invariants Example_Env
begin

text \<open>
  The shutdown protocols: when \<open>GracefulShutdown\<close> or \<open>ImmediateShutdown\<close> return, no container is
  tracked as running any more, and the loop of the former ends as soon as its timeout or the context
  fires.
\<close>

section \<open>Loops that use up a set\<close>

lemma hoare_for_each_diff:
  assumes "\<And>x R. x \<in> set xs \<Longrightarrow> hoare (P R) (f x) (\<lambda>_. P (R - D x))"
  shows "hoare (P R) (for_each xs f) (\<lambda>_. P (R - (\<Union>x \<in> set xs. D x)))"
  using assms
proof (induction xs arbitrary: R)
  case (Cons x xs)
  have "hoare (P R) (f x) (\<lambda>_. P (R - D x))" using Cons.prems by simp
  moreover have "hoare (P (R - D x)) (for_each xs f) (\<lambda>_. P (R - D x - (\<Union>x \<in> set xs. D x)))"
    using Cons by simp
  ultimately have "hoare (P R) (for_each (x # xs) f) (\<lambda>_. P (R - D x - (\<Union>x \<in> set xs. D x)))"
    by (simp add: hoare_bind)
  then show ?case by (simp add: Diff_eq Int_assoc)
qed (simp add: hoare_skip)

section \<open>Nothing is left running\<close>

lemma total_zero_iff:
  assumes "wf_tracked T"
  shows "total_running T = 0 \<longleftrightarrow> (\<forall>p i r. lookup T p i = Some r \<longrightarrow> \<not> is_running r)"
proof
  assume "total_running T = 0"
  then have none: "\<forall>e \<in> set T. \<forall>x \<in> set (snd e). \<not> is_running (snd x)"
    by (auto simp: total_running_def running_in_def)
  show "\<forall>p i r. lookup T p i = Some r \<longrightarrow> \<not> is_running r"
  proof (intro allI impI)
    fix p i r assume "lookup T p i = Some r"
    then obtain pm where "mget T p = Some pm" "mget pm i = Some r"
      by (auto simp: lookup_def pool_of_def split: option.splits)
    then have "(p, pm) \<in> set T" "(i, r) \<in> set pm" by (simp_all add: map_of_SomeD)
    with none show "\<not> is_running r" by fastforce
  qed
next
  assume none: "\<forall>p i r. lookup T p i = Some r \<longrightarrow> \<not> is_running r"
  have "\<not> is_running r" if "(p, pm) \<in> set T" "(i, r) \<in> set pm" for p pm i r
  proof -
    from that assms have "mget T p = Some pm" "mget pm i = Some r"
      by (auto simp: wf_tracked_def wf_pool_def)
    then have "lookup T p i = Some r" by (simp add: lookup_def pool_of_def)
    with none show ?thesis by blast
  qed
  then have "running_in pm = 0" if "(p, pm) \<in> set T" for p pm
    using that by (auto simp: running_in_def)
  then show "total_running T = 0" by (auto simp: total_running_def)
qed

text \<open>The tracked runners are some of \<open>T\<close>'s, and those still running are listed in \<open>R\<close>.\<close>

definition pending :: "tracked \<Rightarrow> (string \<times> string) set \<Rightarrow> controller \<Rightarrow> bool" where
  "pending T R c \<longleftrightarrow> wf_tracked (tracked c) \<and>
     (\<forall>p i r. lookup (tracked c) p i = Some r \<longrightarrow> lookup T p i = Some r \<and> (is_running r \<longrightarrow> (p, i) \<in> R))"

lemma pending_quiet: "quiet m \<Longrightarrow> hoare (pending T R) m (\<lambda>_. pending T R)"
  by (rule hoare_quiet) (simp_all add: pending_def)

lemma lookup_force:
  "lookup (mput q (mdel j (pool_of T q)) T) p i = (if p = q \<and> i = j then None else lookup T p i)"
  by (simp add: lookup_def)

lemma force_runner_pending:
  assumes "lookup T q (fst ir) = Some (snd ir)"
  shows "hoare (pending T R) (force_runner d e q ir) (\<lambda>_. pending T (R - {(q, fst ir)}))"
proof (cases "rsState (snd ir) = ''running''")
  case True
  have "hoare (pending T R) (modify (\<lambda>c. c\<lparr>tracked := mput q (mdel (fst ir) (pool_of (tracked c) q)) (tracked c)\<rparr>))
      (\<lambda>_. pending T (R - {(q, fst ir)}))"
    by (rule hoare_modify) (auto simp: pending_def lookup_force wf_force split: if_splits)
  with True show ?thesis
    unfolding force_runner_def
    by (cases ir) (auto intro!: hoare_bind[OF pending_quiet] quiet_rules)
next
  case False
  have "pending T R c \<Longrightarrow> pending T (R - {(q, fst ir)}) c" for c
    using False assms by (auto simp: pending_def is_running_def)
  with False show ?thesis
    by (cases ir) (auto simp: force_runner_def intro: hoare_skip)
qed

lemma force_pool_pending:
  assumes "wf_tracked T" "qpm \<in> set T"
  shows "hoare (pending T R) (force_pool d n e qpm) (\<lambda>_. pending T (R - {fst qpm} \<times> fst ` set (snd qpm)))"
proof -
  obtain q pm where q: "qpm = (q, pm)" by (cases qpm)
  have look: "lookup T q i = Some r" if "(i, r) \<in> set pm" for i r
  proof -
    have "mget T q = Some pm" using assms q by (simp add: wf_tracked_def)
    moreover have "mget pm i = Some r"
      using that assms q by (auto simp: wf_tracked_def wf_pool_def)
    ultimately show ?thesis by (simp add: lookup_def pool_of_def)
  qed
  have "hoare (pending T R) (for_each (go_range (runner_order d n q) pm) (force_runner d e q))
      (\<lambda>_. pending T (R - (\<Union>x \<in> set (go_range (runner_order d n q) pm). {(q, fst x)})))"
    by (rule hoare_for_each_diff) (auto intro!: force_runner_pending look)
  moreover have "(\<Union>x \<in> set (go_range (runner_order d n q) pm). {(q, fst x)}) = {q} \<times> fst ` set pm"
    by auto
  moreover have "hoare (pending T R') (modify (\<lambda>c. if pool_of (tracked c) q = []
      then c\<lparr>tracked := mdel q (tracked c)\<rparr> else c)) (\<lambda>_. pending T R')" for R'
    by (rule hoare_modify) (auto simp: pending_def lookup_def wf_tracked_mdel split: if_splits)
  ultimately show ?thesis
    unfolding force_pool_def q by (auto intro: hoare_bind)
qed

lemma forceTerminateRemaining_stops:
  assumes "engine d = Some e" "reconciler d \<noteq> None" "wf_tracked (tracked c)"
  shows "total_running (tracked (exec (forceTerminateRemaining d) c)) = 0"
proof -
  define T where "T = tracked c"
  let ?R = "\<Union>qpm \<in> set T. {fst qpm} \<times> fst ` set (snd qpm)"
  have keys: "(p, i) \<in> ?R" if "lookup T p i = Some r" for p i r
  proof -
    from that obtain pm where "mget T p = Some pm" "mget pm i = Some r"
      by (auto simp: lookup_def pool_of_def split: option.splits)
    then have "(p, pm) \<in> set T" "(i, r) \<in> set pm" by (simp_all add: map_of_SomeD)
    then show ?thesis by force
  qed
  have "hoare (pending T ?R) (for_each (go_range (pool_order d n) T) (force_pool d n e))
      (\<lambda>_. pending T (?R - (\<Union>qpm \<in> set (go_range (pool_order d n) T). {fst qpm} \<times> fst ` set (snd qpm))))" for n
    by (rule hoare_for_each_diff) (use assms(3) in \<open>auto simp: T_def intro!: force_pool_pending\<close>)
  then have loop: "hoare (pending T ?R) (for_each (go_range (pool_order d n) T) (force_pool d n e))
      (\<lambda>_. pending T {})" for n
    by simp
  let ?c1 = "c\<lparr>tick := Suc (tick c)\<rparr>"
  have "pending T ?R ?c1" using keys assms(3) by (auto simp: pending_def T_def)
  from hoareD[OF loop[of "tick c"] this surjective_pairing]
  have "pending T {} (exec (forceTerminateRemaining d) c)"
    using assms(1,2) by (auto simp: forceTerminateRemaining_def exec_def next_tick_def T_def)
  then show ?thesis using total_zero_iff by (auto simp: pending_def)
qed

section \<open>Graceful shutdown\<close>

lemma forget_idle_running:
  assumes "wf_tracked T" "lookup (forget_idle T) p i = Some r"
  shows "lookup T p i = Some r \<and> (is_running r \<longrightarrow> rsIsBusy r)"
proof -
  have pool: "mget (forget_idle T) p = map_option (filter (\<lambda>(i, r). \<not> (rsState r = ''running'' \<and> \<not> rsIsBusy r))) (mget T p)"
    unfolding forget_idle_def by (induction T) auto
  with assms(2) obtain pm where pm: "mget T p = Some pm"
    "mget (filter (\<lambda>(i, r). \<not> (rsState r = ''running'' \<and> \<not> rsIsBusy r)) pm) i = Some r"
    by (auto simp: lookup_def pool_of_def split: option.splits)
  then have "(i, r) \<in> set pm" "rsState r = ''running'' \<longrightarrow> rsIsBusy r"
    by (auto dest: map_of_SomeD)
  moreover have "mget pm i = Some r"
    using \<open>(i, r) \<in> set pm\<close> wf_pool_mget[OF assms(1) pm(1)] by (simp add: wf_pool_def)
  ultimately show ?thesis using pm(1) by (simp add: lookup_def pool_of_def is_running_def)
qed

lemma set_all_runners: "set (all_runners d n c) = (\<Union>e \<in> set (tracked c). snd ` set (snd e))"
  by (simp add: all_runners_def split_def)

lemma lookup_all_runners:
  assumes "lookup (tracked c) p i = Some r"
  shows "r \<in> set (all_runners d n c)"
proof -
  from assms obtain pm where "mget (tracked c) p = Some pm" "mget pm i = Some r"
    by (auto simp: lookup_def pool_of_def split: option.splits)
  then have "(p, pm) \<in> set (tracked c)" "(i, r) \<in> set pm" by (simp_all add: map_of_SomeD)
  then show ?thesis unfolding set_all_runners by force
qed

lemma forget_idle_rests:
  assumes "wf_tracked (tracked c)"
    and "filter (\<lambda>r. rsState r = ''running'' \<and> rsIsBusy r) (all_runners d n c) = []"
  shows "total_running (forget_idle (tracked c)) = 0"
  unfolding total_zero_iff[OF wf_forget_idle[OF assms(1)]]
proof (intro allI impI notI)
  fix p i r
  assume "lookup (forget_idle (tracked c)) p i = Some r" "is_running r"
  with forget_idle_running[OF assms(1)] have "lookup (tracked c) p i = Some r" "rsIsBusy r" by auto
  with lookup_all_runners[of c p i r d n] \<open>is_running r\<close> assms(2) show False
    by (auto simp: filter_empty_conv is_running_def)
qed

definition at_rest :: "deps \<Rightarrow> 'a option \<Rightarrow> controller \<Rightarrow> bool" where
  "at_rest d r c \<longleftrightarrow> wf_tracked (tracked c) \<and>
     (r \<noteq> None \<longrightarrow> cstate c = StateStopped \<and> total_running (tracked c) = 0)"

lemma force_and_stop:
  assumes "engine d = Some e" "reconciler d \<noteq> None"
  shows "hoare tracked_ok
     (State_Monad.bind (forceTerminateRemaining d)
        (\<lambda>_. State_Monad.bind (set_state StateStopped) (\<lambda>_. State_Monad.return r))) (at_rest d)"
proof (rule hoare_bind)
  show "hoare tracked_ok (forceTerminateRemaining d)
      (\<lambda>_ c. wf_tracked (tracked c) \<and> total_running (tracked c) = 0)"
    using forceTerminateRemaining_stops[OF assms] preservesD[OF wf_life.forceTerminateRemaining_I]
    by (auto simp: hoare_def exec_def split: prod.splits) (metis snd_conv)+
qed (auto simp: hoare_def set_state_def at_rest_def)

lemma shutdown_loop_rests:
  assumes "engine d = Some e" "reconciler d \<noteq> None"
  shows "hoare tracked_ok (shutdown_loop d prov evs) (at_rest d)"
proof (induction evs)
  case (Cons ev evs)
  show ?case
  proof (cases ev)
    case TickerFired
    have stop: "hoare (\<lambda>c. wf_tracked (tracked c) \<and> TotalActiveRunners d c = 0)
        (State_Monad.bind (set_state StateStopped) (\<lambda>_. State_Monad.return (Some None))) (at_rest d)"
      using assms(2) by (auto simp: hoare_def set_state_def at_rest_def TotalActiveRunners_total)
    show ?thesis
      unfolding TickerFired shutdown_loop.simps
      by (intro hoare_bind[OF wf_life.audit_and_reap_I[unfolded preserves_def]] hoare_bind_gets hoare_if
            hoare_pre[OF Cons] hoare_pre[OF stop]) auto
  qed (simp_all add: force_and_stop[OF assms])
qed (simp add: hoare_return at_rest_def)

lemma quiet_for_each: "(\<And>x. quiet (f x)) \<Longrightarrow> quiet (for_each xs f)"
  by (induction xs) (auto intro!: quiet_rules)

lemma quiet_stop_idle: "quiet (for_each rs (stop_idle d e))"
  unfolding stop_idle_def by (intro quiet_for_each quiet_rules)

lemma stop_idle_rests:
  assumes "engine d = Some e" "reconciler d \<noteq> None"
  shows "hoare (\<lambda>c. wf_tracked (tracked c) \<and> all_runners d n c = rs)
    (State_Monad.bind (for_each rs (stop_idle d e)) (\<lambda>_.
      State_Monad.bind (modify (\<lambda>c. c\<lparr>tracked := forget_idle (tracked c)\<rparr>)) (\<lambda>_.
        if filter (\<lambda>r. rsState r = ''running'' \<and> rsIsBusy r) rs = []
        then State_Monad.bind (set_state StateStopped) (\<lambda>_. State_Monad.return (Some None))
        else shutdown_loop d prov evs))) (at_rest d)"
proof (rule hoare_bind[OF hoare_quiet[OF quiet_stop_idle]], goal_cases)
  case 2
  let ?none = "filter (\<lambda>r. rsState r = ''running'' \<and> rsIsBusy r) rs = []"
  have forget: "hoare (\<lambda>c. wf_tracked (tracked c) \<and> all_runners d n c = rs)
      (modify (\<lambda>c. c\<lparr>tracked := forget_idle (tracked c)\<rparr>))
      (\<lambda>_ c. wf_tracked (tracked c) \<and> (?none \<longrightarrow> total_running (tracked c) = 0))"
    by (rule hoare_modify) (auto simp: wf_forget_idle intro: forget_idle_rests)
  show ?case
    by (intro hoare_bind[OF forget] hoare_if hoare_pre[OF shutdown_loop_rests[OF assms]])
       (auto simp: hoare_def set_state_def at_rest_def)
qed (auto simp: all_runners_def)

lemma GracefulShutdown_rests:
  assumes "engine d = Some e" "reconciler d \<noteq> None"
  shows "hoare tracked_ok (GracefulShutdown d evs) (at_rest d)"
proof -
  obtain prov where prov: "reconciler d = Some prov" using assms(2) by blast
  show ?thesis
    unfolding GracefulShutdown_def prov assms(1) option.case prod.case
    by (intro hoare_bind[OF wf_life.Pause_I[unfolded preserves_def]] hoare_bind_gets
          hoare_bind[OF wf_life.quiet_I[OF quiet_next_tick, unfolded preserves_def]]
          stop_idle_rests[OF assms])
qed

lemma shutdown_loop_returns:
  "TimeoutFired \<in> set evs \<or> CtxDone \<in> set evs \<Longrightarrow> fst (run_state (shutdown_loop d prov evs) c) \<noteq> None"
proof (induction evs arbitrary: c)
  case (Cons ev evs)
  then show ?case
    by (cases ev) (auto split: prod.splits simp: set_state_def)
qed simp

lemma GracefulShutdown_returns:
  assumes "TimeoutFired \<in> set evs \<or> CtxDone \<in> set evs"
  shows "fst (run_state (GracefulShutdown d evs) c) \<noteq> None"
  using shutdown_loop_returns[OF assms]
  by (auto simp: GracefulShutdown_def set_state_def Let_def split: option.splits prod.splits)



text \<open>
  An immediate shutdown stops the controller and every running container in one pass.
\<close>

theorem immediate_shutdown_stops:
  assumes "engine d = Some e" "reconciler d \<noteq> None" "wf_tracked (tracked c)"
  shows "cstate (exec (ImmediateShutdown d) c) = StateStopped \<and>
     total_running (tracked (exec (ImmediateShutdown d) c)) = 0"
proof -
  have "hoare tracked_ok (ImmediateShutdown d) (\<lambda>r. at_rest d (Some r))"
    unfolding ImmediateShutdown_def
    by (rule hoare_bind[OF wf_life.Pause_I[unfolded preserves_def]])
       (use force_and_stop[OF assms(1,2), of "Some None"] in \<open>auto simp: hoare_def at_rest_def set_state_def split: prod.splits\<close>)
  from hoareD[OF this assms(3) surjective_pairing] show ?thesis by (simp add: at_rest_def exec_def)
qed

theorem immediate_shutdown_stops_witness:
  "total_running (tracked (exec (ImmediateShutdown ex_deps) ex_ctl)) = 0"
  using immediate_shutdown_stops[of ex_deps ex_engine ex_ctl]
  by (simp add: ex_simps wf_tracked_def wf_pool_def)

end
