(* ===== verification/Container_Events.thy ===== *)
theory Container_Events
  imports Controller
begin

text \<open>
  \<open>src/internal/orchestrator/events.go\<close>: the listener of the Docker event stream and the deduplicator
  that lets each dead container be reaped once. What the select statements of \<open>Listen\<close> receive, in the
  order in which they receive it, is an argument: a list of \<open>signal\<close>s. The callbacks (log capture and
  \<open>onReap\<close>) are recorded in the order of their calls.
\<close>

section \<open>The deduplicator\<close>

record ReapDeduplicator =
  rdReaped :: "(string, gotime) gomap"
  rdTtl :: duration

definition NewReapDeduplicator :: "duration \<Rightarrow> ReapDeduplicator" where
  "NewReapDeduplicator ttl = \<lparr>rdReaped = [], rdTtl = (if ttl \<le> 0 then 5 * Minute else ttl)\<rparr>"

definition prune :: "gotime \<Rightarrow> ReapDeduplicator \<Rightarrow> ReapDeduplicator" where
  "prune now d = d\<lparr>rdReaped := filter (\<lambda>(i, t). \<not> time_sub now t > rdTtl d) (rdReaped d)\<rparr>"

definition ShouldReap :: "gotime \<Rightarrow> string \<Rightarrow> ReapDeduplicator \<Rightarrow> bool \<times> ReapDeduplicator" where
  "ShouldReap now containerID d =
     (if containerID = [] then (False, d)
      else (let d1 = prune now d in
            case mget (rdReaped d1) containerID of
              Some _ \<Rightarrow> (False, d1)
            | None \<Rightarrow> (True, d1\<lparr>rdReaped := mput containerID now (rdReaped d1)\<rparr>)))"

section \<open>The listener\<close>

record event_message =
  emAction :: string
  emID :: string
  emAttributes :: "(string, string) gomap"
  emTime :: int
  emTimeNano :: int

datatype callback = CaptureLogs string | OnReap ContainerEvent

datatype signal =
  SigDone
| SigErr "string option"
| SigErrClosed
| SigMessage event_message gotime
| SigMessagesClosed
| SigBackoffOver
| SigConnect bool bool

datatype listen_phase = Connecting | Streaming | BackingOff | Returned bool

record listener =
  lnDedup :: ReapDeduplicator
  lnPhase :: listen_phase
  lnCalls :: "callback list"
  lnSubscriptions :: nat

text \<open>\<open>time.Unix(sec, nsec)\<close>.\<close>

definition event_time :: "event_message \<Rightarrow> gotime" where
  "event_time m = emTime m * 1000000000 + emTimeNano m"

definition event_of :: "event_message \<Rightarrow> ContainerEvent" where
  "event_of m =
     \<lparr>ceContainerID = emID m,
      cePoolName = (case mget (emAttributes m) LabelPoolName of None \<Rightarrow> [] | Some p \<Rightarrow> p),
      ceAction = emAction m,
      ceExitCode = (case mget (emAttributes m) ''exitCode'' of
          None \<Rightarrow> 0
        | Some str \<Rightarrow> (case Atoi str of None \<Rightarrow> 0 | Some ec \<Rightarrow> ec)),
      ceTimestamp = event_time m\<rparr>"

definition handle_message :: "bool \<Rightarrow> bool \<Rightarrow> event_message \<Rightarrow> gotime \<Rightarrow> listener \<Rightarrow> listener" where
  "handle_message capturer onReap m now l =
     (if emAction m \<noteq> ''die'' \<and> emAction m \<noteq> ''destroy'' then l
      else (let (reap, d) = ShouldReap now (emID m) (lnDedup l); l1 = l\<lparr>lnDedup := d\<rparr>
            in if reap
               then l1\<lparr>lnCalls := lnCalls l1 @ (if emAction m = ''die'' \<and> capturer then [CaptureLogs (emID m)] else [])
                         @ (if onReap then [OnReap (event_of m)] else [])\<rparr>
               else l1))"

text \<open>
  One receive of a select statement, or the head of the outer loop (\<open>SigConnect canceled channels\<close>: the
  state of the context, and whether \<open>Events\<close> returned a channel at all). A signal of a channel that the
  listener does not read in its phase changes nothing. \<open>Returned True\<close> is a return with the context's
  error, \<open>Returned False\<close> one without.
\<close>

definition listen_step :: "bool \<Rightarrow> bool \<Rightarrow> signal \<Rightarrow> listener \<Rightarrow> listener" where
  "listen_step cap onR sig l =
     (case lnPhase l of
        Returned _ \<Rightarrow> l
      | Connecting \<Rightarrow>
          (case sig of
             SigConnect canceled channels \<Rightarrow>
               (if canceled then l\<lparr>lnPhase := Returned True\<rparr>
                else (let l1 = l\<lparr>lnSubscriptions := Suc (lnSubscriptions l)\<rparr>
                      in if \<not> channels then l1\<lparr>lnPhase := Returned False\<rparr> else l1\<lparr>lnPhase := Streaming\<rparr>))
           | _ \<Rightarrow> l)
      | Streaming \<Rightarrow>
          (case sig of
             SigDone \<Rightarrow> l\<lparr>lnPhase := Returned True\<rparr>
           | SigErr (Some e) \<Rightarrow> l\<lparr>lnPhase := BackingOff\<rparr>
           | SigErrClosed \<Rightarrow> l\<lparr>lnPhase := BackingOff\<rparr>
           | SigMessagesClosed \<Rightarrow> l\<lparr>lnPhase := BackingOff\<rparr>
           | SigMessage m now \<Rightarrow> handle_message cap onR m now l
           | _ \<Rightarrow> l)
      | BackingOff \<Rightarrow>
          (case sig of
             SigDone \<Rightarrow> l\<lparr>lnPhase := Returned True\<rparr>
           | SigBackoffOver \<Rightarrow> l\<lparr>lnPhase := Connecting\<rparr>
           | _ \<Rightarrow> l))"

definition Listen :: "bool \<Rightarrow> bool \<Rightarrow> signal list \<Rightarrow> listener \<Rightarrow> listener" where
  "Listen cap onR sigs l = fold (listen_step cap onR) sigs l"

definition NewEventListener :: "ReapDeduplicator option \<Rightarrow> listener" where
  "NewEventListener dedup =
     \<lparr>lnDedup = (case dedup of None \<Rightarrow> NewReapDeduplicator (5 * Minute) | Some d \<Rightarrow> d),
      lnPhase = Connecting, lnCalls = [], lnSubscriptions = 0\<rparr>"

section \<open>Each container is reaped once\<close>

definition reaped_ids :: "listener \<Rightarrow> string list" where
  "reaped_ids l = concat (map (\<lambda>x. case x of OnReap ev \<Rightarrow> [ceContainerID ev] | CaptureLogs i \<Rightarrow> []) (lnCalls l))"

definition in_window :: "gotime \<Rightarrow> duration \<Rightarrow> gotime \<Rightarrow> bool" where
  "in_window t0 w t \<longleftrightarrow> t0 \<le> t \<and> t \<le> t0 + w"

text \<open>Within one retention period nothing expires, and the entries are the containers reaped.\<close>

definition reap_ledger :: "gotime \<Rightarrow> listener \<Rightarrow> bool" where
  "reap_ledger t0 l \<longleftrightarrow> 0 < rdTtl (lnDedup l) \<and>
     (\<forall>(i, t) \<in> set (rdReaped (lnDedup l)). in_window t0 (rdTtl (lnDedup l)) t) \<and>
     fst ` set (rdReaped (lnDedup l)) = set (reaped_ids l) \<and> distinct (reaped_ids l) \<and> [] \<notin> set (reaped_ids l)"

lemma time_sub_le: "0 < w \<Longrightarrow> a \<le> b + w \<Longrightarrow> time_sub a b \<le> w"
  by (auto simp: time_sub_def sat64_def)

lemma prune_window:
  assumes "0 < rdTtl d" "\<forall>(i, t) \<in> set (rdReaped d). in_window t0 (rdTtl d) t" "in_window t0 (rdTtl d) now"
  shows "prune now d = d"
proof -
  have "time_sub now t \<le> rdTtl d" if "(i, t) \<in> set (rdReaped d)" for i t
    using that assms by (intro time_sub_le) (auto simp: in_window_def)
  then have "filter (\<lambda>(i, t). \<not> time_sub now t > rdTtl d) (rdReaped d) = rdReaped d"
    by (intro filter_True) (auto simp: not_less)
  then show ?thesis by (simp add: prune_def)
qed

lemma set_fst_mput: "fst ` set (mput k v m) = insert k (fst ` set m)"
  by (induction m) (auto simp: mput_simps)

lemma handle_message_ledger:
  assumes "reap_ledger t0 l" "in_window t0 (rdTtl (lnDedup l)) now"
  shows "reap_ledger t0 (handle_message cap True m now l) \<and>
    rdTtl (lnDedup (handle_message cap True m now l)) = rdTtl (lnDedup l) \<and>
    lnPhase (handle_message cap True m now l) = lnPhase l \<and>
    set (reaped_ids (handle_message cap True m now l)) =
      set (reaped_ids l) \<union> (if emAction m \<in> {''die'', ''destroy''} \<and> emID m \<noteq> [] then {emID m} else {})"
proof (cases "emAction m \<in> {''die'', ''destroy''} \<and> emID m \<noteq> []")
  case False
  then show ?thesis using assms by (auto simp: handle_message_def ShouldReap_def)
next
  case True
  have prune: "prune now (lnDedup l) = lnDedup l"
    using assms by (intro prune_window) (auto simp: reap_ledger_def)
  show ?thesis
  proof (cases "mget (rdReaped (lnDedup l)) (emID m)")
    case None
    then have "emID m \<notin> set (reaped_ids l)" using assms(1) by (auto simp: reap_ledger_def map_of_eq_None_iff)
    moreover have "reaped_ids (handle_message cap True m now l) = reaped_ids l @ [emID m]"
      using True None by (auto simp: handle_message_def ShouldReap_def prune reaped_ids_def event_of_def Let_def)
    ultimately show ?thesis using assms True None
      by (auto simp: handle_message_def ShouldReap_def prune reap_ledger_def set_fst_mput Let_def dest!: set_mput_sub)
  next
    case (Some t)
    then have "emID m \<in> fst ` set (rdReaped (lnDedup l))" by (metis map_of_eq_None_iff option.distinct(1))
    then have "emID m \<in> set (reaped_ids l)" using assms(1) by (simp add: reap_ledger_def)
    moreover have "handle_message cap True m now l = l"
      using True Some by (simp add: handle_message_def ShouldReap_def prune Let_def)
    ultimately show ?thesis using assms(1) by auto
  qed
qed

lemma listen_step_ledger:
  assumes "reap_ledger t0 l" "\<forall>m now. sig = SigMessage m now \<longrightarrow> in_window t0 (rdTtl (lnDedup l)) now"
  shows "reap_ledger t0 (listen_step cap True sig l) \<and>
    rdTtl (lnDedup (listen_step cap True sig l)) = rdTtl (lnDedup l) \<and> set (reaped_ids l) \<subseteq> set (reaped_ids (listen_step cap True sig l))"
proof (cases "lnPhase l = Streaming \<and> (\<exists>m now. sig = SigMessage m now)")
  case True
  then obtain m now where "sig = SigMessage m now" "lnPhase l = Streaming" by blast
  with assms handle_message_ledger[OF assms(1), of now cap m] show ?thesis by (simp add: listen_step_def)
next
  case False
  then have "lnDedup (listen_step cap True sig l) = lnDedup l" "lnCalls (listen_step cap True sig l) = lnCalls l"
    by (auto simp: listen_step_def Let_def split: listen_phase.splits signal.splits option.splits)
  with assms(1) show ?thesis by (simp add: reap_ledger_def reaped_ids_def)
qed

lemma Listen_ledger:
  assumes "reap_ledger t0 l" "\<forall>m now. SigMessage m now \<in> set sigs \<longrightarrow> in_window t0 (rdTtl (lnDedup l)) now"
  shows "reap_ledger t0 (Listen cap True sigs l) \<and>
    rdTtl (lnDedup (Listen cap True sigs l)) = rdTtl (lnDedup l) \<and> set (reaped_ids l) \<subseteq> set (reaped_ids (Listen cap True sigs l))"
  using assms
proof (induction sigs arbitrary: l)
  case (Cons x sigs)
  have "reap_ledger t0 (listen_step cap True x l)" "rdTtl (lnDedup (listen_step cap True x l)) = rdTtl (lnDedup l)"
    "set (reaped_ids l) \<subseteq> set (reaped_ids (listen_step cap True x l))"
    using listen_step_ledger[of t0 l x cap] Cons.prems by auto
  with Cons.IH[of "listen_step cap True x l"] Cons.prems(2) show ?case by (auto simp: Listen_def)
qed (simp add: Listen_def)


definition ex_message :: "string \<Rightarrow> event_message" where
  "ex_message action = \<lparr>emAction = action, emID = ''c1'', emAttributes = [(''exitCode'', ''137'')],
     emTime = 10, emTimeNano = 0\<rparr>"


end
