(* ===== verification/Outage_Alarm.thy ===== *)
theory Outage_Alarm
  imports Go_Prelude
begin

text \<open>
  The contract that the two health trackers of the program share (\<open>DockerHealthTracker\<close> and, for one
  provider, \<open>RateLimitTracker\<close>): an outage begins with the first failure, raises one alarm when a
  failure is recorded at least a threshold after it, and ends with a success. The alarm as an abstract
  state machine, a locale for the trackers that implement it, and what follows for all of them.
\<close>

section \<open>The abstract alarm\<close>

datatype probe = Failed gotime | Recovered

text \<open>\<open>Some (t, r)\<close>: an outage since \<open>t\<close>, whose alarm has been raised (\<open>r\<close>) or not.\<close>

type_synonym outage = "(gotime \<times> bool) option"

definition fail_since :: "duration \<Rightarrow> gotime \<Rightarrow> gotime \<times> bool \<Rightarrow> bool \<times> outage" where
  "fail_since thr t u = (let raise = (thr \<le> time_sub t (fst u) \<and> \<not> snd u)
     in (raise, Some (fst u, snd u \<or> raise)))"

fun alarm_step :: "duration \<Rightarrow> probe \<Rightarrow> outage \<Rightarrow> bool \<times> outage" where
  "alarm_step thr (Failed t) None = fail_since thr t (t, False)"
| "alarm_step thr (Failed t) (Some u) = fail_since thr t u"
| "alarm_step thr Recovered _ = (False, None)"

fun raised_by :: "('op \<Rightarrow> 's \<Rightarrow> bool \<times> 's) \<Rightarrow> ('op \<Rightarrow> probe option) \<Rightarrow> 'op list \<Rightarrow> 's \<Rightarrow> bool list" where
  "raised_by run probe_of [] s = []"
| "raised_by run probe_of (op # ops) s =
     (if probe_of op = None then [] else [fst (run op s)]) @ raised_by run probe_of ops (snd (run op s))"

section \<open>Trackers that implement it\<close>

locale outage_alarm =
  fixes run :: "'op \<Rightarrow> 's \<Rightarrow> bool \<times> 's" and probe_of :: "'op \<Rightarrow> probe option"
    and down :: "'s \<Rightarrow> outage" and thr :: duration
  assumes tracks: "probe_of op = Some x \<Longrightarrow>
      fst (run op s) = fst (alarm_step thr x (down s)) \<and> down (snd (run op s)) = snd (alarm_step thr x (down s))"
    and ignores: "probe_of op = None \<Longrightarrow> down (snd (run op s)) = down s"
    and positive: "0 < thr"
begin

text \<open>In an outage with its alarm raised, no further alarm; otherwise one, once the threshold is passed.\<close>

lemma alarms_in_outage:
  assumes "down s = Some (t0, r)" "Some Recovered \<notin> probe_of ` set ops"
  shows "length (filter id (raised_by run probe_of ops s)) =
     (if \<not> r \<and> (\<exists>op \<in> set ops. \<exists>t. probe_of op = Some (Failed t) \<and> thr \<le> time_sub t t0) then 1 else 0)"
  using assms
proof (induction ops arbitrary: s r)
  case (Cons op ops)
  show ?case
  proof (cases "probe_of op")
    case None
    with Cons.IH[of "snd (run op s)" r] ignores[OF None, of s] Cons.prems show ?thesis by simp
  next
    case (Some x)
    with Cons.prems obtain t where x: "x = Failed t" by (cases x) force+
    from tracks[OF Some, of s] Cons.prems(1) x
    have "fst (run op s) \<longleftrightarrow> thr \<le> time_sub t t0 \<and> \<not> r"
      and "down (snd (run op s)) = Some (t0, r \<or> thr \<le> time_sub t t0)"
      by (auto simp: fail_since_def Let_def)
    with Cons.IH[of "snd (run op s)" "r \<or> thr \<le> time_sub t t0"] Cons.prems(2) Some x show ?thesis
      by (auto split: if_splits)
  qed
qed simp

lemma alarms_from_healthy:
  assumes "down s = None" "probe_of op = Some (Failed t0)" "Some Recovered \<notin> probe_of ` set ops"
  shows "length (filter id (raised_by run probe_of (op # ops) s)) =
     (if \<exists>op' \<in> set ops. \<exists>t. probe_of op' = Some (Failed t) \<and> thr \<le> time_sub t t0 then 1 else 0)"
proof -
  have "time_sub t0 t0 = 0" by (simp add: time_sub_def sat64_def)
  with tracks[OF assms(2), of s] assms(1) positive
  have "\<not> fst (run op s)" "down (snd (run op s)) = Some (t0, False)"
    by (auto simp: fail_since_def Let_def)
  with alarms_in_outage[OF this(2) assms(3)] assms(2) show ?thesis by simp
qed

lemma healthy_after_success: "probe_of op = Some Recovered \<Longrightarrow> down (snd (run op s)) = None"
  using tracks by fastforce

end

end
