(* ===== verification/Docker_Health.thy ===== *)
theory Docker_Health
  imports Outage_Alarm
begin

text \<open>
  \<open>src/internal/orchestrator/degraded.go\<close>: the health tracker of a Docker host, which pauses spawning
  while the daemon is unreachable, limits the rate of log lines about it and raises an alert after five
  minutes. The clock (\<open>nowFn\<close>) is an argument of the operations that read it. \<open>RecordFailure\<close> hands the
  alert to the handler, when there is one, on a goroutine: here the alert is part of its result. Of the
  alert's text the model keeps what it is made of, the host and the rounded duration.
\<close>

section \<open>The tracker\<close>

definition PersistentDockerDownThreshold :: duration where "PersistentDockerDownThreshold = 5 * Minute"
definition DefaultLogCooldown :: duration where "DefaultLogCooldown = 30 * Second"

text \<open>\<open>Duration.Round\<close>: to the nearest multiple of \<open>m\<close>, halves away from zero, saturating.\<close>

definition duration_round :: "duration \<Rightarrow> duration \<Rightarrow> duration" where
  "duration_round d m =
     (if m \<le> 0 then d
      else (let r = \<bar>d\<bar> mod m in
            if d < 0
            then (if r + r < m then d + r else if wrap64 (d - m + r) < d then d - m + r else - (2 ^ 63))
            else (if r + r < m then d - r else if wrap64 (d + m - r) > d then d + m - r else 2 ^ 63 - 1)))"

record DockerAlert =
  daHostID :: string
  daStartedAt :: gotime
  daDuration :: duration
  daMessage :: "string \<times> duration"

record DockerHealthTracker =
  htHostID :: string
  htDownSince :: gotime
  htIsDown :: bool
  htAlertRaised :: bool
  htLastLogged :: gotime
  htLogCooldown :: duration
  htAlertHandler :: bool

definition NewDockerHealthTracker :: "string \<Rightarrow> bool \<Rightarrow> DockerHealthTracker" where
  "NewDockerHealthTracker hostID handler =
     \<lparr>htHostID = (if hostID = [] then ''local'' else hostID), htDownSince = zero_time, htIsDown = False,
      htAlertRaised = False, htLastLogged = zero_time, htLogCooldown = DefaultLogCooldown,
      htAlertHandler = handler\<rparr>"

definition SetLogCooldown :: "duration \<Rightarrow> DockerHealthTracker \<Rightarrow> DockerHealthTracker" where
  "SetLogCooldown d t = t\<lparr>htLogCooldown := d\<rparr>"

record failure_report =
  frDown :: duration
  frShouldLog :: bool
  frRaised :: bool
  frAlert :: "DockerAlert option"

definition RecordFailure :: "gotime \<Rightarrow> DockerHealthTracker \<Rightarrow> failure_report \<times> DockerHealthTracker" where
  "RecordFailure now t =
     (let t1 = (if htIsDown t then t else t\<lparr>htIsDown := True, htDownSince := now, htAlertRaised := False\<rparr>);
          downDuration = time_sub now (htDownSince t1);
          shouldLog = (IsZero (htLastLogged t1) \<or> time_sub now (htLastLogged t1) \<ge> htLogCooldown t1);
          t2 = (if shouldLog then t1\<lparr>htLastLogged := now\<rparr> else t1);
          raisedAlert = (downDuration \<ge> PersistentDockerDownThreshold \<and> \<not> htAlertRaised t2);
          t3 = (if raisedAlert then t2\<lparr>htAlertRaised := True\<rparr> else t2)
      in (\<lparr>frDown = downDuration, frShouldLog = shouldLog, frRaised = raisedAlert,
           frAlert = (if raisedAlert \<and> htAlertHandler t3
             then Some \<lparr>daHostID = htHostID t3, daStartedAt = htDownSince t3, daDuration = downDuration,
               daMessage = (htHostID t3, duration_round downDuration Second)\<rparr> else None)\<rparr>, t3))"

definition RecordSuccess :: "DockerHealthTracker \<Rightarrow> bool \<times> DockerHealthTracker" where
  "RecordSuccess t = (htIsDown t, t\<lparr>htIsDown := False, htDownSince := zero_time, htAlertRaised := False\<rparr>)"

definition IsDegraded :: "DockerHealthTracker \<Rightarrow> bool" where
  "IsDegraded t = htIsDown t"

definition DownDuration :: "gotime \<Rightarrow> DockerHealthTracker \<Rightarrow> duration" where
  "DownDuration now t = (if \<not> htIsDown t then 0 else time_sub now (htDownSince t))"

datatype spawn_error = ErrDaemonDegraded

definition CanSpawn :: "DockerHealthTracker \<Rightarrow> spawn_error option" where
  "CanSpawn t = (if htIsDown t then Some ErrDaemonDegraded else None)"

definition Status :: "DockerHealthTracker \<Rightarrow> string" where
  "Status t = (if htIsDown t then ''degraded'' else ''ok'')"

section \<open>The alarm\<close>

datatype health_op = OpFailure gotime | OpSuccess | OpCooldown duration

fun health_run :: "health_op \<Rightarrow> DockerHealthTracker \<Rightarrow> bool \<times> DockerHealthTracker" where
  "health_run (OpFailure now) t = (let (r, t') = RecordFailure now t in (frRaised r, t'))"
| "health_run OpSuccess t = (False, snd (RecordSuccess t))"
| "health_run (OpCooldown d) t = (False, SetLogCooldown d t)"

fun health_probe :: "health_op \<Rightarrow> probe option" where
  "health_probe (OpFailure now) = Some (Failed now)"
| "health_probe OpSuccess = Some Recovered"
| "health_probe (OpCooldown d) = None"

definition health_down :: "DockerHealthTracker \<Rightarrow> outage" where
  "health_down t = (if htIsDown t then Some (htDownSince t, htAlertRaised t) else None)"

interpretation docker_alarm:
  outage_alarm health_run health_probe health_down PersistentDockerDownThreshold
proof
  show "health_probe op = Some x \<Longrightarrow>
      fst (health_run op s) = fst (alarm_step PersistentDockerDownThreshold x (health_down s)) \<and>
      health_down (snd (health_run op s)) = snd (alarm_step PersistentDockerDownThreshold x (health_down s))"
    for op x s
    by (cases op) (auto simp: RecordFailure_def RecordSuccess_def health_down_def fail_since_def Let_def)
  show "health_probe op = None \<Longrightarrow> health_down (snd (health_run op s)) = health_down s" for op s
    by (cases op) (simp_all add: SetLogCooldown_def health_down_def)
qed (simp add: PersistentDockerDownThreshold_def Minute_def Second_def)



end
