(* ===== verification/Docker_Client.thy ===== *)
theory Docker_Client
  imports Controller Container_Events Docker_Health
begin

text \<open>
  \<open>src/internal/orchestrator/docker/docker.go\<close>: the container engine on top of the Docker API. The API
  client is a parameter, \<open>docker_api\<close>, asked with the number of the call; the requests that change
  something in the daemon are recorded in \<open>dkCalls\<close>, oldest first. Formatting and parsing of RFC 3339
  times and floating-point arithmetic are parameters as well (\<open>formats\<close>, \<open>floats\<close>). A nil client is
  \<open>None\<close>. The locks guard fields that are set once.
\<close>

section \<open>The Docker API\<close>

datatype api_error = NotFound string | ApiError string

record create_options =
  coName :: string
  coImage :: string
  coEnv :: "string list"
  coLabels :: "(string, string) gomap"
  coBinds :: "string list"
  coNanoCPUs :: int
  coMemory :: int
  coNetwork :: "string option"

record container_summary =
  cnID :: string
  cnNames :: "string list"
  cnLabels :: "(string, string) gomap"
  cnCreated :: int
  cnState :: string
  cnAddresses :: "(string, string option) gomap"

record image_inspect =
  iiRepoDigests :: "string list"
  iiDescriptor :: "string option"
  iiID :: string

record docker_api =
  apiPing :: "nat \<Rightarrow> string option"
  apiContainerCreate :: "nat \<Rightarrow> create_options \<Rightarrow> string + string"
  apiContainerStart :: "nat \<Rightarrow> string \<Rightarrow> string option"
  apiContainerStop :: "nat \<Rightarrow> string \<Rightarrow> api_error option"
  apiContainerRemove :: "nat \<Rightarrow> string \<Rightarrow> api_error option"
  apiContainerList :: "nat \<Rightarrow> string + container_summary list"
  apiContainerPrune :: "nat \<Rightarrow> string option"
  apiContainerLogs :: "nat \<Rightarrow> string \<Rightarrow> string + string"
  apiNetworkList :: "nat \<Rightarrow> string \<Rightarrow> string + (string \<times> string) list"
  apiNetworkCreate :: "nat \<Rightarrow> string \<Rightarrow> string + string"
  apiImagePull :: "nat \<Rightarrow> string \<Rightarrow> string option"
  apiImageInspect :: "nat \<Rightarrow> string \<Rightarrow> string + image_inspect"

datatype docker_call =
  CallCreate create_options "string option"
| CallStart string
| CallStop string
| CallRemove string
| CallPrune
| CallNetworkCreate string
| CallPull string

datatype docker_error =
  ErrNilClient
| ErrDaemonUnreachable string
| Degraded
| InvalidCPU string
| InvalidMemory string
| EnsuringNetwork string docker_error
| CreatingContainer string string
| StartingContainer string string string
| StoppingContainer string string
| RemovingContainer string string
| ListingContainers string
| Pruning string
| CreatingNetwork string string
| FetchingLogs string
| CompressingLogs string
| PullingImage string
| InspectingImage string

text \<open>Floating-point values of some type \<open>'f\<close>: parsing, the comparison with zero, and \<open>int64(v * m)\<close>.\<close>

record 'f floats =
  flParseFloat :: "string \<Rightarrow> string + 'f"
  flLeZero :: "'f \<Rightarrow> bool"
  flScale :: "'f \<Rightarrow> int \<Rightarrow> int"

record formats =
  fmtRFC3339 :: "gotime \<Rightarrow> string"
  parseRFC3339 :: "string \<Rightarrow> gotime option"

record docker_client =
  dkTracker :: "DockerHealthTracker option"
  dkHostID :: string
  dkCalls :: "docker_call list"
  dkTick :: nat

section \<open>Labels\<close>

definition TaskTypeRunner :: string where "TaskTypeRunner = ''runner''"
definition TaskTypeJob :: string where "TaskTypeJob = ''task''"
definition DefaultNetworkName :: string where "DefaultNetworkName = ''ghrs-supervisor''"

lemmas label_defs = LabelManaged_def LabelPoolName_def LabelID_def LabelSpawnedAt_def LabelTaskType_def
  LabelTargetURL_def

definition label :: "(string, string) gomap \<Rightarrow> string \<Rightarrow> string" where
  "label ls k = (case mget ls k of None \<Rightarrow> [] | Some v \<Rightarrow> v)"

section \<open>Resource limits\<close>

definition ParseCPULimit :: "'f floats \<Rightarrow> string \<Rightarrow> docker_error + int" where
  "ParseCPULimit fl cpu =
     (let trimmed = TrimSpace cpu in
      if trimmed = [] then Inr 0
      else (case flParseFloat fl trimmed of
              Inl err \<Rightarrow> Inl (InvalidCPU err)
            | Inr val \<Rightarrow> if flLeZero fl val then Inl (InvalidCPU cpu) else Inr (flScale fl val 1000000000)))"

definition memory_unit :: "string \<Rightarrow> int \<times> string" where
  "memory_unit s =
     (if HasSuffix s ''g'' \<or> HasSuffix s ''gb'' then (1024 * 1024 * 1024, TrimSuffix (TrimSuffix s ''b'') ''g'')
      else if HasSuffix s ''m'' \<or> HasSuffix s ''mb'' then (1024 * 1024, TrimSuffix (TrimSuffix s ''b'') ''m'')
      else if HasSuffix s ''k'' \<or> HasSuffix s ''kb'' then (1024, TrimSuffix (TrimSuffix s ''b'') ''k'')
      else if HasSuffix s ''b'' then (1, TrimSuffix s ''b'')
      else (1, s))"

definition ParseMemoryLimit :: "'f floats \<Rightarrow> string \<Rightarrow> docker_error + int" where
  "ParseMemoryLimit fl mem =
     (let s = TrimSpace (ToLower mem) in
      if s = [] then Inr 0
      else (let (multiplier, t) = memory_unit s in
            case flParseFloat fl (TrimSpace t) of
              Inl err \<Rightarrow> Inl (InvalidMemory err)
            | Inr val \<Rightarrow> if flLeZero fl val then Inl (InvalidMemory mem) else Inr (flScale fl val multiplier)))"

section \<open>Calls\<close>

definition dk_tick :: "(docker_client, nat) state" where
  "dk_tick = do { n \<leftarrow> gets dkTick; modify (\<lambda>c. c\<lparr>dkTick := Suc n\<rparr>); State_Monad.return n }"

definition dk_call :: "docker_call \<Rightarrow> (docker_client, unit) state" where
  "dk_call x = modify (\<lambda>c. c\<lparr>dkCalls := dkCalls c @ [x]\<rparr>)"

definition remove_container :: "docker_api \<Rightarrow> string \<Rightarrow> (docker_client, api_error option) state" where
  "remove_container api i = do {
     n \<leftarrow> dk_tick;
     dk_call (CallRemove i);
     State_Monad.return (apiContainerRemove api n i)
   }"

definition Ping :: "docker_api option \<Rightarrow> (docker_client, docker_error option) state" where
  "Ping docker =
     (case docker of
        None \<Rightarrow> State_Monad.return (Some ErrNilClient)
      | Some api \<Rightarrow> do {
          n \<leftarrow> dk_tick;
          State_Monad.return (map_option ErrDaemonUnreachable (apiPing api n))
        })"

definition find_network :: "string \<Rightarrow> string + (string \<times> string) list \<Rightarrow> string option" where
  "find_network name res =
     (case res of Inl _ \<Rightarrow> None | Inr nets \<Rightarrow> map_option snd (find (\<lambda>(nm, i). nm = name) nets))"

definition EnsureNetwork :: "docker_api option \<Rightarrow> string \<Rightarrow> (docker_client, docker_error + string) state" where
  "EnsureNetwork docker name0 =
     (case docker of
        None \<Rightarrow> State_Monad.return (Inl ErrNilClient)
      | Some api \<Rightarrow>
        (let name = (if name0 = [] then DefaultNetworkName else name0) in
         do {
           n \<leftarrow> dk_tick;
           case find_network name (apiNetworkList api n name) of
             Some i \<Rightarrow> State_Monad.return (Inr i)
           | None \<Rightarrow> do {
               n2 \<leftarrow> dk_tick;
               dk_call (CallNetworkCreate name);
               case apiNetworkCreate api n2 name of
                 Inr i \<Rightarrow> State_Monad.return (Inr i)
               | Inl err \<Rightarrow> do {
                   n3 \<leftarrow> dk_tick;
                   State_Monad.return
                     (case find_network name (apiNetworkList api n3 name) of
                        Some i \<Rightarrow> Inr i
                      | None \<Rightarrow> Inl (CreatingNetwork name err))
                 }
             }
         }))"

section \<open>Spawning\<close>

definition container_labels :: "formats \<Rightarrow> gotime \<Rightarrow> RunnerConfig \<Rightarrow> string \<Rightarrow> string \<Rightarrow> (string, string) gomap" where
  "container_labels fmt now config containerName taskType =
     (let labels = [(LabelManaged, ''true''), (LabelPoolName, rcPoolName config), (LabelID, containerName),
            (LabelSpawnedAt, fmtRFC3339 fmt now), (LabelTaskType, taskType)]
      in if rcRepoURL config \<noteq> [] then mput LabelTargetURL (rcRepoURL config) labels else labels)"

definition container_env :: "RunnerConfig \<Rightarrow> string \<Rightarrow> string \<Rightarrow> string list" where
  "container_env config containerName taskType =
     (if rcEnv config \<noteq> [] then rcEnv config
      else if taskType = TaskTypeRunner
      then [''RUNNER_NAME='' @ containerName, ''RUNNER_TOKEN='' @ rcToken config,
            ''RUNNER_WORKDIR='' @ (if rcWorkDir config = [] then ''_work'' else rcWorkDir config),
            ''RUNNER_LABELS='' @ Join (rcLabels config) '','', ''RUNNER_EPHEMERAL=true''] @
           (if rcRepoURL config \<noteq> []
            then (if Contains (rcRepoURL config) ''gitea'' then [''GITEA_INSTANCE_URL='' @ rcRepoURL config]
                  else if Contains (rcRepoURL config) ''forgejo'' then [''FORGEJO_INSTANCE_URL='' @ rcRepoURL config]
                  else [''GITHUB_REPOSITORY_URL='' @ rcRepoURL config])
            else [])
      else [''RENOVATE_TOKEN='' @ rcToken config, ''RENOVATE_ENDPOINT='' @ rcRepoURL config])"

definition resource_limits :: "'f floats \<Rightarrow> RunnerConfig \<Rightarrow> docker_error + int \<times> int" where
  "resource_limits fl config =
     (case (if rcCPULimit config \<noteq> [] then ParseCPULimit fl (rcCPULimit config) else Inr 0) of
        Inl e \<Rightarrow> Inl e
      | Inr cpus \<Rightarrow>
        (case (if rcMemoryLimit config \<noteq> [] then ParseMemoryLimit fl (rcMemoryLimit config) else Inr 0) of
           Inl e \<Rightarrow> Inl e
         | Inr mem \<Rightarrow> Inr (cpus, mem)))"

definition join_network :: "docker_api \<Rightarrow> RunnerConfig \<Rightarrow> (docker_client, docker_error + string option) state" where
  "join_network api config =
     (let networkName = (if rcNetwork config = [] then DefaultNetworkName else rcNetwork config) in
      if networkName \<noteq> ''none''
      then do {
        r \<leftarrow> EnsureNetwork (Some api) networkName;
        State_Monad.return (case r of Inl err \<Rightarrow> Inl (EnsuringNetwork networkName err) | Inr _ \<Rightarrow> Inr (Some networkName))
      }
      else State_Monad.return (Inr None))"

definition create_and_start :: "docker_api \<Rightarrow> create_options \<Rightarrow> (docker_client, docker_error + string) state" where
  "create_and_start api opts = do {
     n \<leftarrow> dk_tick;
     let created = apiContainerCreate api n opts;
     dk_call (CallCreate opts (case created of Inl _ \<Rightarrow> None | Inr i \<Rightarrow> Some i));
     case created of
       Inl err \<Rightarrow> State_Monad.return (Inl (CreatingContainer (coName opts) err))
     | Inr i \<Rightarrow> do {
         n2 \<leftarrow> dk_tick;
         dk_call (CallStart i);
         case apiContainerStart api n2 i of
           Some err \<Rightarrow> do {
             _ \<leftarrow> remove_container api i;
             State_Monad.return (Inl (StartingContainer (coName opts) i err))
           }
         | None \<Rightarrow> State_Monad.return (Inr i)
       }
   }"

text \<open>The generated name (\<open>hex\<close> are its random digits) and the time of the call are arguments.\<close>

definition spawn ::
  "docker_api option \<Rightarrow> 'f floats \<Rightarrow> formats \<Rightarrow> string \<Rightarrow> gotime \<Rightarrow> RunnerConfig \<Rightarrow> string \<Rightarrow>
   (docker_client, docker_error + string) state" where
  "spawn docker fl fmt hex now config taskType =
     (case docker of
        None \<Rightarrow> State_Monad.return (Inl ErrNilClient)
      | Some api \<Rightarrow> do {
          tracker \<leftarrow> gets dkTracker;
          if (case tracker of None \<Rightarrow> False | Some t \<Rightarrow> CanSpawn t \<noteq> None)
          then State_Monad.return (Inl Degraded)
          else (let containerName = (if rcName config = [] then GenerateContainerName hex (rcPoolName config) else rcName config);
                    image = (if rcImage config = [] then DefaultRunnerImage else rcImage config);
                    labels = container_labels fmt now config containerName taskType;
                    env = container_env config containerName taskType
                in case resource_limits fl config of
                     Inl err \<Rightarrow> State_Monad.return (Inl err)
                   | Inr (cpus, mem) \<Rightarrow> do {
                       net \<leftarrow> join_network api config;
                       case net of
                         Inl err \<Rightarrow> State_Monad.return (Inl err)
                       | Inr networking \<Rightarrow>
                           create_and_start api
                             \<lparr>coName = containerName, coImage = image, coEnv = env, coLabels = labels,
                              coBinds = (if rcAllowDocker config then [''/var/run/docker.sock:/var/run/docker.sock''] else []),
                              coNanoCPUs = cpus, coMemory = mem, coNetwork = networking\<rparr>
                     })
        })"

definition SpawnRunner where
  "SpawnRunner docker fl fmt hex now config = spawn docker fl fmt hex now config TaskTypeRunner"

definition SpawnTask where
  "SpawnTask docker fl fmt hex now config = spawn docker fl fmt hex now config TaskTypeJob"

section \<open>Termination and audit\<close>

definition dk_TerminateRunner :: "docker_api option \<Rightarrow> string \<Rightarrow> (docker_client, docker_error option) state" where
  "dk_TerminateRunner docker containerID =
     (case docker of
        None \<Rightarrow> State_Monad.return (Some ErrNilClient)
      | Some api \<Rightarrow> do {
          n \<leftarrow> dk_tick;
          dk_call (CallStop containerID);
          case apiContainerStop api n containerID of
            Some (ApiError err) \<Rightarrow> do {
              _ \<leftarrow> remove_container api containerID;
              State_Monad.return (Some (StoppingContainer containerID err))
            }
          | _ \<Rightarrow> do {
              r \<leftarrow> remove_container api containerID;
              State_Monad.return (case r of Some (ApiError err) \<Rightarrow> Some (RemovingContainer containerID err) | _ \<Rightarrow> None)
            }
        })"

text \<open>
  One container of the list as a status. The addresses are those of its networks in the order of the
  map's iteration; \<open>None\<close> is an address that is not valid.
\<close>

definition container_status :: "formats \<Rightarrow> (string \<Rightarrow> nat list) \<Rightarrow> container_summary \<Rightarrow> RunnerStatus" where
  "container_status fmt ords cnt =
     (let name = (case cnNames cnt of [] \<Rightarrow> [] | nm # _ \<Rightarrow> TrimPrefix nm ''/'');
          raw = label (cnLabels cnt) LabelSpawnedAt;
          parsed = (if raw = [] then zero_time
                    else (case parseRFC3339 fmt raw of None \<Rightarrow> zero_time | Some t \<Rightarrow> t));
          spawnedAt = (if IsZero parsed then cnCreated cnt * 1000000000 else parsed);
          ip = (case find (\<lambda>(n, a). a \<noteq> None) (go_range (ords (cnID cnt)) (cnAddresses cnt)) of
                  Some (n, Some a) \<Rightarrow> a | _ \<Rightarrow> [])
      in \<lparr>rsID = cnID cnt, rsName = name, rsPoolName = label (cnLabels cnt) LabelPoolName,
          rsState = cnState cnt, rsIPAddress = ip, rsExitCode = 0, rsSpawnedAt = spawnedAt,
          rsIsBusy = False, rsOnDemand = False, rsTargetURL = label (cnLabels cnt) LabelTargetURL\<rparr>)"

definition AuditRunners ::
  "docker_api option \<Rightarrow> formats \<Rightarrow> (string \<Rightarrow> nat list) \<Rightarrow> (docker_client, docker_error + RunnerStatus list) state" where
  "AuditRunners docker fmt ords =
     (case docker of
        None \<Rightarrow> State_Monad.return (Inl ErrNilClient)
      | Some api \<Rightarrow> do {
          n \<leftarrow> dk_tick;
          State_Monad.return
            (case apiContainerList api n of
               Inl err \<Rightarrow> Inl (ListingContainers err)
             | Inr items \<Rightarrow> Inr (map (container_status fmt ords) items))
        })"

definition PruneExitedContainers :: "docker_api option \<Rightarrow> (docker_client, docker_error option) state" where
  "PruneExitedContainers docker =
     (case docker of
        None \<Rightarrow> State_Monad.return (Some ErrNilClient)
      | Some api \<Rightarrow> do {
          n \<leftarrow> dk_tick;
          dk_call CallPrune;
          State_Monad.return (map_option Pruning (apiContainerPrune api n))
        })"

text \<open>The capture of the stream into a file is the argument \<open>compress\<close>; \<open>Some\<close> is its error.\<close>

definition CaptureLogs_docker ::
  "docker_api option \<Rightarrow> (string \<Rightarrow> string \<Rightarrow> string option) \<Rightarrow> string \<Rightarrow> string \<Rightarrow>
   (docker_client, docker_error + string) state" where
  "CaptureLogs_docker docker compress containerID dir =
     (case docker of
        None \<Rightarrow> State_Monad.return (Inl ErrNilClient)
      | Some api \<Rightarrow> do {
          n \<leftarrow> dk_tick;
          State_Monad.return
            (case apiContainerLogs api n containerID of
               Inl err \<Rightarrow> Inl (FetchingLogs err)
             | Inr stream \<Rightarrow>
                 (case compress stream (LogPath dir containerID) of
                    Some err \<Rightarrow> Inl (CompressingLogs err)
                  | None \<Rightarrow> Inr (LogPath dir containerID)))
        })"

definition PullImage :: "docker_api option \<Rightarrow> string \<Rightarrow> (docker_client, docker_error option) state" where
  "PullImage docker img =
     (case docker of
        None \<Rightarrow> State_Monad.return (Some ErrNilClient)
      | Some api \<Rightarrow> do {
          n \<leftarrow> dk_tick;
          dk_call (CallPull img);
          State_Monad.return (map_option PullingImage (apiImagePull api n img))
        })"

definition image_digest :: "image_inspect \<Rightarrow> string" where
  "image_digest resp =
     (case iiRepoDigests resp of
        first # _ \<Rightarrow>
          (case find (\<lambda>rd. LastIndex rd (CHR ''@'') \<noteq> None) (iiRepoDigests resp) of
             Some rd \<Rightarrow> drop (Suc (the (LastIndex rd (CHR ''@'')))) rd
           | None \<Rightarrow> first)
      | [] \<Rightarrow> (case iiDescriptor resp of
                 Some d \<Rightarrow> if d \<noteq> [] then d else iiID resp
               | None \<Rightarrow> iiID resp))"

definition GetLocalImageDigest :: "docker_api option \<Rightarrow> string \<Rightarrow> (docker_client, docker_error + string) state" where
  "GetLocalImageDigest docker img =
     (case docker of
        None \<Rightarrow> State_Monad.return (Inl ErrNilClient)
      | Some api \<Rightarrow> do {
          n \<leftarrow> dk_tick;
          State_Monad.return
            (case apiImageInspect api n img of
               Inl err \<Rightarrow> Inl (InspectingImage err)
             | Inr resp \<Rightarrow> Inr (image_digest resp))
        })"

section \<open>Health\<close>

definition IsDegraded_docker :: "docker_client \<Rightarrow> bool" where
  "IsDegraded_docker c = (case dkTracker c of None \<Rightarrow> False | Some t \<Rightarrow> IsDegraded t)"

datatype status = StatusOK | StatusDegraded | StatusFailed

definition ReadinessCheck_docker :: "docker_api option \<Rightarrow> (docker_client, status) state" where
  "ReadinessCheck_docker docker = do {
     degraded \<leftarrow> gets IsDegraded_docker;
     if degraded then State_Monad.return StatusDegraded
     else do {
       r \<leftarrow> Ping docker;
       State_Monad.return (if r \<noteq> None then StatusDegraded else StatusOK)
     }
   }"

definition checkHealth :: "docker_api option \<Rightarrow> (nat \<Rightarrow> gotime) \<Rightarrow> (docker_client, unit) state" where
  "checkHealth docker clk = do {
     r \<leftarrow> Ping docker;
     n \<leftarrow> dk_tick;
     modify (\<lambda>c. c\<lparr>dkTracker := map_option (\<lambda>t. if r \<noteq> None then snd (RecordFailure (clk n) t) else snd (RecordSuccess t))
       (dkTracker c)\<rparr>)
   }"

text \<open>\<open>StartHealthMonitor\<close> with the ticks that arrive before the context is done.\<close>

fun health_ticks :: "docker_api option \<Rightarrow> (nat \<Rightarrow> gotime) \<Rightarrow> nat \<Rightarrow> (docker_client, unit) state" where
  "health_ticks docker clk 0 = skip"
| "health_ticks docker clk (Suc n) = do { checkHealth docker clk; health_ticks docker clk n }"

definition StartHealthMonitor :: "docker_api option \<Rightarrow> (nat \<Rightarrow> gotime) \<Rightarrow> nat \<Rightarrow> (docker_client, unit) state" where
  "StartHealthMonitor docker clk ticks = do { checkHealth docker clk; health_ticks docker clk ticks }"

end
