(* ===== verification/Docker_Props.thy ===== *)
theory Docker_Props
  imports Docker_Client
begin

text \<open>
  What the Docker engine guarantees to the controller: a failed spawn leaves no container behind, a
  degraded host is not touched, a termination always ends in a forced removal, and a container that was
  spawned comes back from an audit with its pool, its target and its start time.
\<close>

section \<open>The calls of an operation\<close>

text \<open>\<open>m\<close> issues calls and answers so that \<open>P\<close> holds of the answer and the calls.\<close>

definition issues :: "(docker_client, 'a) state \<Rightarrow> ('a \<Rightarrow> docker_call list \<Rightarrow> bool) \<Rightarrow> bool" where
  "issues m P \<longleftrightarrow> (\<forall>c. \<exists>cs. dkCalls (snd (run_state m c)) = dkCalls c @ cs \<and> P (fst (run_state m c)) cs)"

lemma issuesI: "(\<And>c. \<exists>cs. dkCalls (snd (run_state m c)) = dkCalls c @ cs \<and> P (fst (run_state m c)) cs) \<Longrightarrow> issues m P"
  by (simp add: issues_def)

lemma issues_return: "P x [] \<Longrightarrow> issues (State_Monad.return x) P"
  by (simp add: issues_def)

lemma issues_bind:
  assumes "issues m R" "\<And>a cs. R a cs \<Longrightarrow> issues (f a) (\<lambda>b ds. P b (cs @ ds))"
  shows "issues (State_Monad.bind m f) P"
proof (rule issuesI)
  fix c
  obtain a c1 where m: "run_state m c = (a, c1)" by fastforce
  from assms(1) m obtain cs where cs: "dkCalls c1 = dkCalls c @ cs" "R a cs"
    unfolding issues_def by (metis fst_conv snd_conv)
  obtain b c2 where f: "run_state (f a) c1 = (b, c2)" by fastforce
  from assms(2)[OF cs(2)] f obtain ds where "dkCalls c2 = dkCalls c1 @ ds" "P b (cs @ ds)"
    unfolding issues_def by (metis fst_conv snd_conv)
  with m f cs show "\<exists>cs. dkCalls (snd (run_state (State_Monad.bind m f) c)) = dkCalls c @ cs \<and>
      P (fst (run_state (State_Monad.bind m f) c)) cs" by simp
qed

lemma issues_weaken: "issues m P \<Longrightarrow> (\<And>a cs. P a cs \<Longrightarrow> Q a cs) \<Longrightarrow> issues m Q"
  unfolding issues_def by blast

lemma issues_if: "(b \<Longrightarrow> issues m P) \<Longrightarrow> (\<not> b \<Longrightarrow> issues n P) \<Longrightarrow> issues (if b then m else n) P"
  by simp

lemma issues_case_option:
  "(x = None \<Longrightarrow> issues m P) \<Longrightarrow> (\<And>y. x = Some y \<Longrightarrow> issues (f y) P) \<Longrightarrow>
     issues (case x of None \<Rightarrow> m | Some y \<Rightarrow> f y) P"
  by (cases x) auto

lemma issues_case_sum:
  "(\<And>y. x = Inl y \<Longrightarrow> issues (f y) P) \<Longrightarrow> (\<And>y. x = Inr y \<Longrightarrow> issues (g y) P) \<Longrightarrow>
     issues (case x of Inl y \<Rightarrow> f y | Inr y \<Rightarrow> g y) P"
  by (cases x) auto

lemma issues_gets: "issues (gets f) (\<lambda>_ cs. cs = [])"
  by (simp add: issues_def)

lemma issues_tick: "issues dk_tick (\<lambda>_ cs. cs = [])"
  by (simp add: issues_def dk_tick_def)

lemma issues_call: "issues (dk_call x) (\<lambda>_ cs. cs = [x])"
  by (simp add: issues_def dk_call_def)

lemma issues_remove: "issues (remove_container api i) (\<lambda>_ cs. cs = [CallRemove i])"
  by (simp add: issues_def remove_container_def dk_tick_def dk_call_def)

lemma issues_Ensure: "issues (EnsureNetwork d n) (\<lambda>_ cs. \<forall>x \<in> set cs. \<exists>m. x = CallNetworkCreate m)"
  unfolding issues_def EnsureNetwork_def
  by (auto simp: dk_tick_def dk_call_def Let_def split: option.splits sum.splits)

section \<open>Spawning leaves nothing behind\<close>

definition clean_spawn :: "docker_error + string \<Rightarrow> docker_call list \<Rightarrow> bool" where
  "clean_spawn r cs \<longleftrightarrow>
     (case r of
        Inr i \<Rightarrow> (\<exists>pre opts. cs = pre @ [CallCreate opts (Some i), CallStart i] \<and> (\<forall>x \<in> set pre. \<exists>m. x = CallNetworkCreate m))
      | Inl e \<Rightarrow> (\<forall>opts i. CallCreate opts (Some i) \<in> set cs \<longrightarrow> last cs = CallRemove i))"

lemma clean_create: "issues (create_and_start api opts) clean_spawn"
  unfolding issues_def create_and_start_def
  by (auto simp: dk_tick_def dk_call_def remove_container_def clean_spawn_def Let_def split: option.splits sum.splits)

lemma clean_prefix:
  assumes "clean_spawn r cs" "\<forall>x \<in> set pre. \<exists>m. x = CallNetworkCreate m"
  shows "clean_spawn r (pre @ cs)"
proof (cases r)
  case (Inl e)
  have "CallCreate opts (Some i) \<notin> set pre" for opts i using assms(2) by fastforce
  with Inl assms(1) show ?thesis by (auto simp: clean_spawn_def last_append)
next
  case (Inr i)
  with assms(1) obtain pre' opts where "cs = pre' @ [CallCreate opts (Some i), CallStart i]"
    "\<forall>x \<in> set pre'. \<exists>m. x = CallNetworkCreate m" by (auto simp: clean_spawn_def)
  with Inr assms(2) show ?thesis
    by (auto simp: clean_spawn_def intro!: exI[of _ "pre @ pre'"])
qed

lemma clean_networks: "\<forall>x \<in> set cs. \<exists>m. x = CallNetworkCreate m \<Longrightarrow> clean_spawn (Inl e) cs"
  by (fastforce simp: clean_spawn_def)

lemma join_network_calls: "issues (join_network api config) (\<lambda>_ cs. \<forall>x \<in> set cs. \<exists>m. x = CallNetworkCreate m)"
  unfolding join_network_def Let_def
  by (intro issues_if issues_bind[OF issues_Ensure] issues_return) auto


definition ex_api :: docker_api where
  "ex_api = \<lparr>apiPing = (\<lambda>n. None), apiContainerCreate = (\<lambda>n opts. Inr (''id-'' @ coName opts)),
     apiContainerStart = (\<lambda>n i. None), apiContainerStop = (\<lambda>n i. None), apiContainerRemove = (\<lambda>n i. None),
     apiContainerList = (\<lambda>n. Inr []), apiContainerPrune = (\<lambda>n. None), apiContainerLogs = (\<lambda>n i. Inr []),
     apiNetworkList = (\<lambda>n nm. Inr [(nm, ''net'')]), apiNetworkCreate = (\<lambda>n nm. Inr ''net''),
     apiImagePull = (\<lambda>n i. None), apiImageInspect = (\<lambda>n i. Inl ''none'')\<rparr>"

definition ex_docker :: docker_client where
  "ex_docker = \<lparr>dkTracker = Some (NewDockerHealthTracker [] False), dkHostID = ''default'', dkCalls = [], dkTick = 0\<rparr>"

definition ex_formats :: formats where
  "ex_formats = \<lparr>fmtRFC3339 = (\<lambda>t. ''1970-01-01T00:00:05Z''), parseRFC3339 = (\<lambda>s. Some 5000000000)\<rparr>"

definition ex_floats :: "int floats" where
  "ex_floats = \<lparr>flParseFloat = (\<lambda>s. Inr 2), flLeZero = (\<lambda>v. v \<le> 0), flScale = (\<lambda>v m. v * m)\<rparr>"

definition ex_config :: RunnerConfig where
  "ex_config = empty_config\<lparr>rcName := ''r1'', rcPoolName := ''ci'', rcRepoURL := ''https://github.com/o/r'', rcCPULimit := ''2''\<rparr>"

definition ex_spawn where
  "ex_spawn = spawn (Some ex_api) ex_floats ex_formats [] 0 ex_config TaskTypeRunner"

lemma ex_spawn_ok: "fst (run_state ex_spawn ex_docker) = Inr ''id-r1''"
  by code_simp


section \<open>What is spawned is audited\<close>

lemma label_container_labels:
  "label (container_labels fmt now config nm tt) LabelPoolName = rcPoolName config"
  "label (container_labels fmt now config nm tt) LabelSpawnedAt = fmtRFC3339 fmt now"
  "label (container_labels fmt now config nm tt) LabelTargetURL = rcRepoURL config"
  by (simp_all add: label_def container_labels_def Let_def label_defs)

lemma spawn_created:
  assumes "run_state (spawn docker fl fmt hex now config tt) c = (Inr i, c')"
  shows "\<exists>opts nm. CallCreate opts (Some i) \<in> set (dkCalls c') \<and> coLabels opts = container_labels fmt now config nm tt"
proof -
  have create: "\<exists>cs. dkCalls c2 = dkCalls c1 @ cs \<and> CallCreate opts (Some i) \<in> set cs"
    if "run_state (create_and_start api opts) c1 = (Inr i, c2)" for api opts c1 c2
    using that by (auto simp: create_and_start_def dk_tick_def dk_call_def remove_container_def Let_def
        split: option.splits sum.splits)
  from assms obtain api where "docker = Some api" by (cases docker) (auto simp: spawn_def)
  with assms show ?thesis
    by (auto simp: spawn_def Let_def split: option.splits if_splits sum.splits prod.splits)
       (insert create, fastforce)+
qed

text \<open>
  C16. An audit recognises what was spawned. When the daemon lists a container with the labels it was
  created with, its status carries the pool, the target and the start time of the configuration
  it was spawned from, provided that the times written by \<open>Format\<close> are read back by \<open>Parse\<close>. The task
  type plays no part: the container of a Renovate task comes back as a runner of its pool.
\<close>

theorem spawn_audit_roundtrip:
  assumes "run_state (spawn docker fl fmt hex now config taskType) c = (Inr i, c')"
    and "fmtRFC3339 fmt now \<noteq> []" "parseRFC3339 fmt (fmtRFC3339 fmt now) = Some t" "\<not> IsZero t"
  shows "\<exists>opts. CallCreate opts (Some i) \<in> set (dkCalls c') \<and>
    (\<forall>cnt. cnID cnt = i \<and> cnLabels cnt = coLabels opts \<longrightarrow>
       rsID (container_status fmt ords cnt) = i \<and>
       rsPoolName (container_status fmt ords cnt) = rcPoolName config \<and>
       rsTargetURL (container_status fmt ords cnt) = rcRepoURL config \<and>
       rsSpawnedAt (container_status fmt ords cnt) = t \<and> rsState (container_status fmt ords cnt) = cnState cnt)"
proof -
  from spawn_created[OF assms(1)] obtain opts nm where
    "CallCreate opts (Some i) \<in> set (dkCalls c')" "coLabels opts = container_labels fmt now config nm taskType" by blast
  then show ?thesis
    using assms(2-4) by (intro exI[of _ opts]) (simp add: container_status_def Let_def label_container_labels)
qed

theorem spawn_audit_roundtrip_witness:
  "\<exists>opts. CallCreate opts (Some ''id-r1'') \<in> set (dkCalls (exec ex_spawn ex_docker)) \<and>
     rsPoolName (container_status ex_formats (\<lambda>i. [])
       \<lparr>cnID = ''id-r1'', cnNames = [''/r1''], cnLabels = coLabels opts, cnCreated = 9, cnState = ''running'', cnAddresses = []\<rparr>) = ''ci''"
proof -
  have run: "run_state (spawn (Some ex_api) ex_floats ex_formats [] 0 ex_config TaskTypeRunner) ex_docker
      = (Inr ''id-r1'', exec ex_spawn ex_docker)"
    using ex_spawn_ok by (metis ex_spawn_def exec_def prod.collapse)
  have "fmtRFC3339 ex_formats 0 \<noteq> []" "parseRFC3339 ex_formats (fmtRFC3339 ex_formats 0) = Some 5000000000"
    "\<not> IsZero 5000000000" by (simp_all add: ex_formats_def IsZero_def zero_time_def)
  from spawn_audit_roundtrip[OF run this, of "\<lambda>i. []"] show ?thesis
    by (force simp: ex_config_def empty_config_def)
qed

section \<open>Termination and health\<close>

text \<open>
  Terminating a runner asks the daemon to stop it and then, in every case, to remove it by force; it
  succeeds exactly when neither request fails for another reason than that the container is gone.
\<close>

theorem terminate_always_removes:
  "dkCalls (exec (dk_TerminateRunner (Some api) i) c) = dkCalls c @ [CallStop i, CallRemove i] \<and>
   (fst (run_state (dk_TerminateRunner (Some api) i) c) = None \<longleftrightarrow>
      (\<forall>err. apiContainerStop api (dkTick c) i \<noteq> Some (ApiError err)) \<and>
      (\<forall>err. apiContainerRemove api (Suc (dkTick c)) i \<noteq> Some (ApiError err)))"
  by (auto simp: dk_TerminateRunner_def exec_def dk_tick_def dk_call_def remove_container_def
      split: option.splits api_error.splits)

text \<open>
  The monitor drives the degraded mode. After each health check the host is degraded exactly when
  the last ping failed: from then on every spawn is refused without a call to the daemon, until a
  ping succeeds again.
\<close>

theorem health_check_gates_spawning:
  assumes "dkTracker c = Some t"
  shows "let c' = exec (checkHealth (Some api) clk) c
    in (IsDegraded_docker c' \<longleftrightarrow> apiPing api (dkTick c) \<noteq> None) \<and>
       (apiPing api (dkTick c) \<noteq> None \<longrightarrow>
          run_state (spawn (Some api) fl fmt hex now config taskType) c' = (Inl Degraded, c'))"
  using assms
  by (auto simp: checkHealth_def Ping_def dk_tick_def exec_def IsDegraded_docker_def IsDegraded_def spawn_def
      CanSpawn_def RecordFailure_def RecordSuccess_def Let_def)

theorem health_check_gates_spawning_witness:
  "run_state (spawn (Some (ex_api\<lparr>apiPing := \<lambda>n. Some ''refused''\<rparr>)) ex_floats ex_formats [] 0 ex_config TaskTypeRunner)
     (exec (checkHealth (Some (ex_api\<lparr>apiPing := \<lambda>n. Some ''refused''\<rparr>)) (\<lambda>n. 7)) ex_docker) =
   (Inl Degraded, exec (checkHealth (Some (ex_api\<lparr>apiPing := \<lambda>n. Some ''refused''\<rparr>)) (\<lambda>n. 7)) ex_docker)"
  using health_check_gates_spawning[of ex_docker "NewDockerHealthTracker [] False"
      "ex_api\<lparr>apiPing := \<lambda>n. Some ''refused''\<rparr>" "\<lambda>n. 7" ex_floats ex_formats "[]" 0 ex_config TaskTypeRunner]
  by (simp add: ex_docker_def Let_def)

end
