(* ===== verification/Rate_Limit.thy ===== *)
theory Rate_Limit
  imports Outage_Alarm Go_Effects
begin

text \<open>
  \<open>src/internal/provider/ratelimit.go\<close>: the tracker of rate-limited providers and the HTTP transport
  that retries with a back-off. The base transport, the request's \<open>GetBody\<close>, the sleep, the clocks, the
  parser of HTTP dates and the random jitter (computed in floating point) are the parameter \<open>http_env\<close>;
  each is asked with the number of the call, so that its answers may vary. Nothing is assumed of them.
  The alert's text, made of the provider and the rounded duration, is left out.
\<close>

section \<open>The tracker\<close>

definition MaxBackoffCap :: duration where "MaxBackoffCap = 15 * Minute"
definition PersistentAlertThreshold :: duration where "PersistentAlertThreshold = 10 * Minute"
definition DefaultBaseDelay :: duration where "DefaultBaseDelay = 1 * Second"
definition DefaultMaxRetries :: int where "DefaultMaxRetries = 4"

record RateLimitAlert =
  raProvider :: string
  raStartedAt :: gotime
  raDuration :: duration

record RateLimitTracker =
  rlStartedAt :: "(string, gotime) gomap"
  rlAlertRaised :: "(string, bool) gomap"
  rlAlertHandler :: bool

definition NewRateLimitTracker :: "bool \<Rightarrow> RateLimitTracker" where
  "NewRateLimitTracker handler = \<lparr>rlStartedAt = [], rlAlertRaised = [], rlAlertHandler = handler\<rparr>"

text \<open>The result: the duration, whether an alert was raised, and what the handler was given.\<close>

definition RecordRateLimit ::
  "string \<Rightarrow> gotime \<Rightarrow> RateLimitTracker \<Rightarrow> (duration \<times> bool \<times> RateLimitAlert option) \<times> RateLimitTracker" where
  "RecordRateLimit name now t =
     (let (start, t1) = (case mget (rlStartedAt t) name of
            Some start \<Rightarrow> (start, t)
          | None \<Rightarrow> (now, t\<lparr>rlStartedAt := mput name now (rlStartedAt t),
                           rlAlertRaised := mput name False (rlAlertRaised t)\<rparr>));
          dur = time_sub now start;
          raisedAlert = (dur \<ge> PersistentAlertThreshold \<and> mget (rlAlertRaised t1) name \<noteq> Some True);
          t2 = (if raisedAlert then t1\<lparr>rlAlertRaised := mput name True (rlAlertRaised t1)\<rparr> else t1)
      in ((dur, raisedAlert,
           if raisedAlert \<and> rlAlertHandler t2
           then Some \<lparr>raProvider = name, raStartedAt = start, raDuration = dur\<rparr> else None), t2))"

definition RecordSuccess_provider :: "string \<Rightarrow> RateLimitTracker \<Rightarrow> RateLimitTracker" where
  "RecordSuccess_provider name t =
     t\<lparr>rlStartedAt := mdel name (rlStartedAt t), rlAlertRaised := mdel name (rlAlertRaised t)\<rparr>"

definition IsRateLimited :: "string \<Rightarrow> RateLimitTracker \<Rightarrow> bool" where
  "IsRateLimited name t \<longleftrightarrow> mget (rlStartedAt t) name \<noteq> None"

section \<open>The transport\<close>

record http_response =
  hrStatusCode :: int
  hrHeader :: "(string \<times> string) list"
  hrBody :: string

text \<open>\<open>Header.Get\<close>: the first value of a field, whose name is compared up to case.\<close>

definition response_header :: "http_response \<Rightarrow> string \<Rightarrow> string" where
  "response_header r k =
     (case find (\<lambda>(k', v). EqualFold k' k) (hrHeader r) of None \<Rightarrow> [] | Some (k', v) \<Rightarrow> v)"

record http_env =
  heRoundTrip :: "nat \<Rightarrow> string + http_response"
  heGetBody :: "(nat \<Rightarrow> string option) option"
  heSleep :: "nat \<Rightarrow> duration \<Rightarrow> string option"
  heNow :: "nat \<Rightarrow> gotime"
  heParseTime :: "string \<Rightarrow> gotime option"
  heJitter :: "nat \<Rightarrow> duration \<Rightarrow> duration"

record RateLimitTransport =
  rtProviderName :: string
  rtBaseDelay :: duration
  rtMaxBackoff :: duration
  rtMaxRetries :: int
  rtHasTracker :: bool

definition NewRateLimitTransport :: "string \<Rightarrow> RateLimitTransport" where
  "NewRateLimitTransport name = \<lparr>rtProviderName = name, rtBaseDelay = DefaultBaseDelay,
     rtMaxBackoff = MaxBackoffCap, rtMaxRetries = DefaultMaxRetries, rtHasTracker = True\<rparr>"

definition isRateLimited :: "http_response \<Rightarrow> bool" where
  "isRateLimited resp =
     (if hrStatusCode resp = 429 then True
      else if hrStatusCode resp = 403 then
        (if response_header resp ''X-RateLimit-Remaining'' = ''0'' then True
         else response_header resp ''Retry-After'' \<noteq> [])
      else False)"

definition clampDelay :: "RateLimitTransport \<Rightarrow> duration \<Rightarrow> duration" where
  "clampDelay t d =
     (let maxCap = (if rtMaxBackoff t \<le> 0 then MaxBackoffCap else rtMaxBackoff t)
      in if d > maxCap then maxCap else if d < 100 * Millisecond then 100 * Millisecond else d)"

text \<open>\<open>time.Unix(s, 0)\<close>: a \<open>Time\<close> counts the seconds since the year 1 in an \<open>int64\<close>.\<close>

definition time_Unix :: "int \<Rightarrow> gotime" where
  "time_Unix s = (wrap64 (s + 62135596800) - 62135596800) * 1000000000"

definition retry_after_delay :: "RateLimitTransport \<Rightarrow> string \<Rightarrow> duration option" where
  "retry_after_delay t retryAfter =
     (if retryAfter = [] then None
      else (case Atoi (TrimSpace retryAfter) of
              Some n \<Rightarrow> if n > 0 then Some (clampDelay t (seconds n)) else None
            | None \<Rightarrow> None))"

definition date_delay :: "RateLimitTransport \<Rightarrow> gotime \<Rightarrow> gotime option \<Rightarrow> duration option" where
  "date_delay t now target =
     (case target of
        None \<Rightarrow> None
      | Some when \<Rightarrow> (let diff = time_sub when now in if diff > 0 then Some (clampDelay t diff) else None))"

definition reset_time :: "string \<Rightarrow> gotime option" where
  "reset_time resetHeader =
     (if resetHeader = [] then None
      else (case Atoi (TrimSpace resetHeader) of
              Some n \<Rightarrow> if n > 0 then Some (time_Unix n) else None
            | None \<Rightarrow> None))"

definition backoff_delay :: "RateLimitTransport \<Rightarrow> (duration \<Rightarrow> duration) \<Rightarrow> nat \<Rightarrow> duration" where
  "backoff_delay t jitter attempt =
     (let base = (if rtBaseDelay t \<le> 0 then DefaultBaseDelay else rtBaseDelay t);
          multiplier = wrap64 (2 ^ attempt);
          backoff = wrap64 (base * multiplier)
      in clampDelay t (wrap64 (backoff + jitter backoff)))"

definition calculateDelay :: "RateLimitTransport \<Rightarrow> http_env \<Rightarrow> nat \<Rightarrow> http_response \<Rightarrow> nat \<Rightarrow> duration" where
  "calculateDelay t e n resp attempt =
     (let now = heNow e n; retryAfter = response_header resp ''Retry-After'' in
      case retry_after_delay t retryAfter of
        Some d \<Rightarrow> d
      | None \<Rightarrow>
        (case date_delay t now (if retryAfter = [] then None else heParseTime e retryAfter) of
           Some d \<Rightarrow> d
         | None \<Rightarrow>
           (case date_delay t now (reset_time (response_header resp ''X-RateLimit-Reset'')) of
              Some d \<Rightarrow> d
            | None \<Rightarrow> backoff_delay t (heJitter e n) attempt)))"

record rt_state =
  rtTracker :: RateLimitTracker
  rtSent :: nat
  rtSleeps :: "duration list"
  rtAlerts :: "RateLimitAlert list"
  rtTick :: nat

datatype rt_result =
  RtResponse "http_response option"
| RtResetBody string
| RtTransport string
| ErrContextCanceled string

definition rt_tick :: "(rt_state, nat) state" where
  "rt_tick = do { n \<leftarrow> gets rtTick; modify (\<lambda>s. s\<lparr>rtTick := Suc n\<rparr>); State_Monad.return n }"

definition rt_send :: "http_env \<Rightarrow> (rt_state, string + http_response) state" where
  "rt_send e = do {
     n \<leftarrow> rt_tick;
     modify (\<lambda>s. s\<lparr>rtSent := Suc (rtSent s)\<rparr>);
     State_Monad.return (heRoundTrip e n)
   }"

definition reset_body :: "http_env \<Rightarrow> int \<Rightarrow> (rt_state, string option) state" where
  "reset_body e attempt =
     (if attempt > 0 then
        (case heGetBody e of
           None \<Rightarrow> State_Monad.return None
         | Some getBody \<Rightarrow> do { n \<leftarrow> rt_tick; State_Monad.return (getBody n) })
      else State_Monad.return None)"

definition track_success :: "RateLimitTransport \<Rightarrow> (rt_state, unit) state" where
  "track_success t =
     (if rtHasTracker t
      then modify (\<lambda>s. s\<lparr>rtTracker := RecordSuccess_provider (rtProviderName t) (rtTracker s)\<rparr>) else skip)"

definition track_limit :: "RateLimitTransport \<Rightarrow> http_env \<Rightarrow> (rt_state, unit) state" where
  "track_limit t e =
     (if rtHasTracker t
      then do {
        n \<leftarrow> rt_tick;
        modify (\<lambda>s. let ((d, raised, al), tr) = RecordRateLimit (rtProviderName t) (heNow e n) (rtTracker s)
                     in s\<lparr>rtTracker := tr, rtAlerts := rtAlerts s @ (case al of None \<Rightarrow> [] | Some x \<Rightarrow> [x])\<rparr>)
      }
      else skip)"

definition back_off :: "RateLimitTransport \<Rightarrow> http_env \<Rightarrow> http_response \<Rightarrow> int \<Rightarrow> (rt_state, string option) state" where
  "back_off t e resp attempt = do {
     n \<leftarrow> rt_tick;
     let delay = calculateDelay t e n resp (nat attempt);
     modify (\<lambda>s. s\<lparr>rtSleeps := rtSleeps s @ [delay]\<rparr>);
     State_Monad.return (heSleep e n delay)
   }"

function rt_loop :: "RateLimitTransport \<Rightarrow> http_env \<Rightarrow> int \<Rightarrow> http_response option \<Rightarrow> (rt_state, rt_result) state" where
  "rt_loop t e attempt last_resp =
     (if attempt > rtMaxRetries t then State_Monad.return (RtResponse last_resp)
      else do {
        getErr \<leftarrow> reset_body e attempt;
        case getErr of
          Some err \<Rightarrow> State_Monad.return (RtResetBody err)
        | None \<Rightarrow> do {
            r \<leftarrow> rt_send e;
            case r of
              Inl err \<Rightarrow> State_Monad.return (RtTransport err)
            | Inr resp \<Rightarrow>
                if \<not> isRateLimited resp
                then do { track_success t; State_Monad.return (RtResponse (Some resp)) }
                else do {
                  track_limit t e;
                  if attempt = rtMaxRetries t then State_Monad.return (RtResponse (Some resp))
                  else do {
                    sleepErr \<leftarrow> back_off t e resp attempt;
                    case sleepErr of
                      Some err \<Rightarrow> State_Monad.return (ErrContextCanceled err)
                    | None \<Rightarrow> rt_loop t e (attempt + 1) (Some resp)
                  }
                }
          }
      })"
  by pat_completeness auto
termination by (relation "measure (\<lambda>(t, e, attempt, r). nat (rtMaxRetries t + 1 - attempt))") auto

declare rt_loop.simps [simp del]

definition RoundTrip :: "RateLimitTransport \<Rightarrow> http_env \<Rightarrow> (rt_state, rt_result) state" where
  "RoundTrip t e = rt_loop t e 0 None"

section \<open>One alert per episode\<close>

datatype rate_op = RateLimited string gotime | Succeeded string

fun rate_run :: "rate_op \<Rightarrow> RateLimitTracker \<Rightarrow> bool \<times> RateLimitTracker" where
  "rate_run (RateLimited name now) t = (let ((d, raised, al), t') = RecordRateLimit name now t in (raised, t'))"
| "rate_run (Succeeded name) t = (False, RecordSuccess_provider name t)"

fun rate_probe :: "string \<Rightarrow> rate_op \<Rightarrow> probe option" where
  "rate_probe q (RateLimited name now) = (if name = q then Some (Failed now) else None)"
| "rate_probe q (Succeeded name) = (if name = q then Some Recovered else None)"

definition rate_down :: "string \<Rightarrow> RateLimitTracker \<Rightarrow> outage" where
  "rate_down q t = map_option (\<lambda>start. (start, mget (rlAlertRaised t) q = Some True)) (mget (rlStartedAt t) q)"

lemmas tracker_defs = RecordRateLimit_def RecordSuccess_provider_def rate_down_def Let_def

interpretation rate_alarm: outage_alarm rate_run "rate_probe q" "rate_down q" PersistentAlertThreshold for q
proof
  show "rate_probe q op = Some x \<Longrightarrow>
      fst (rate_run op s) = fst (alarm_step PersistentAlertThreshold x (rate_down q s)) \<and>
      rate_down q (snd (rate_run op s)) = snd (alarm_step PersistentAlertThreshold x (rate_down q s))" for op x s
    by (cases op) (auto simp: tracker_defs fail_since_def split: option.splits if_splits)
  show "rate_probe q op = None \<Longrightarrow> rate_down q (snd (rate_run op s)) = rate_down q s" for op s
    by (cases op) (auto simp: tracker_defs split: option.splits if_splits)
qed (simp add: PersistentAlertThreshold_def Minute_def Second_def)

text \<open>
  A provider that stays rate-limited raises one alert. Whatever is recorded for other providers in
  between, from a provider that is not marked as limited and until its next success, its rate limits
  raise exactly one alert when one of them comes ten minutes or more after the first, and none before.
\<close>

theorem rate_limit_alerts_once:
  assumes "\<not> IsRateLimited q t" "Succeeded q \<notin> set ops"
  shows "length (filter id (raised_by rate_run (rate_probe q) (RateLimited q t0 # ops) t)) =
    (if \<exists>t1. RateLimited q t1 \<in> set ops \<and> PersistentAlertThreshold \<le> time_sub t1 t0 then 1 else 0)"
proof -
  have probes: "rate_probe q op = Some (Failed t1) \<longleftrightarrow> op = RateLimited q t1" for op t1 by (cases op) auto
  have "rate_probe q op = Some Recovered \<longleftrightarrow> op = Succeeded q" for op by (cases op) auto
  then have "Some Recovered \<notin> rate_probe q ` set ops" using assms(2) by (metis imageE)
  from rate_alarm.alarms_from_healthy[OF _ _ this, of t "RateLimited q t0" t0] assms(1)
  have "length (filter id (raised_by rate_run (rate_probe q) (RateLimited q t0 # ops) t)) =
      (if \<exists>op \<in> set ops. \<exists>t1. op = RateLimited q t1 \<and> PersistentAlertThreshold \<le> time_sub t1 t0 then 1 else 0)"
    by (simp add: rate_down_def IsRateLimited_def probes del: raised_by.simps)
  moreover have "(\<exists>op \<in> set ops. \<exists>t1. op = RateLimited q t1 \<and> PersistentAlertThreshold \<le> time_sub t1 t0) \<longleftrightarrow>
      (\<exists>t1. RateLimited q t1 \<in> set ops \<and> PersistentAlertThreshold \<le> time_sub t1 t0)" by auto
  ultimately show ?thesis by (simp del: raised_by.simps)
qed

theorem rate_limit_alerts_once_witness:
  "length (filter id (raised_by rate_run (rate_probe ''github'')
     [RateLimited ''github'' 0, Succeeded ''gitea'', RateLimited ''github'' (11 * Minute),
      RateLimited ''github'' (12 * Minute)] (NewRateLimitTracker True))) = 1"
proof -
  let ?ops = "[Succeeded ''gitea'', RateLimited ''github'' (11 * Minute), RateLimited ''github'' (12 * Minute)]"
  have "\<exists>t1. RateLimited ''github'' t1 \<in> set ?ops \<and> PersistentAlertThreshold \<le> time_sub t1 0"
    by (rule exI[of _ "11 * Minute"])
       (simp add: PersistentAlertThreshold_def Minute_def Second_def time_sub_def sat64_def)
  with rate_limit_alerts_once[of "''github''" "NewRateLimitTracker True" ?ops 0] show ?thesis
    by (simp add: IsRateLimited_def NewRateLimitTracker_def del: raised_by.simps)
qed

section \<open>Delays\<close>

definition delay_cap :: "RateLimitTransport \<Rightarrow> duration" where
  "delay_cap t = (if rtMaxBackoff t \<le> 0 then MaxBackoffCap else rtMaxBackoff t)"

lemma clampDelay_eq:
  assumes "100 * Millisecond \<le> delay_cap t"
  shows "clampDelay t d = max (100 * Millisecond) (min (delay_cap t) d)"
  using assms by (auto simp: clampDelay_def delay_cap_def Let_def max_def min_def)

lemma calculateDelay_clamped: "\<exists>d. calculateDelay t e n resp a = clampDelay t d"
  by (auto simp: calculateDelay_def retry_after_delay_def date_delay_def backoff_delay_def Let_def
      split: option.splits if_splits)

lemma calculateDelay_range:
  assumes "100 * Millisecond \<le> delay_cap t"
  shows "calculateDelay t e n resp a \<in> {100 * Millisecond .. delay_cap t}"
  using calculateDelay_clamped[of t e n resp a] clampDelay_eq[OF assms] assms by auto

text \<open>
  The server's \<open>Retry-After\<close> is obeyed. Given in seconds, up to the \<open>9223372036\<close> that a duration can
  hold, it is waited for exactly, or the cap when it is longer; one second more overflows the duration
  and is waited for a tenth of a second.
\<close>

theorem calculateDelay_retry_after:
  assumes "100 * Millisecond \<le> delay_cap t" "0 < n" "Atoi (TrimSpace (response_header resp ''Retry-After'')) = Some n"
  shows "(n \<le> 9223372036 \<longrightarrow> calculateDelay t e k resp a = max (100 * Millisecond) (min (delay_cap t) (n * Second)))
    \<and> (n = 9223372037 \<longrightarrow> calculateDelay t e k resp a = 100 * Millisecond)"
proof -
  have "response_header resp ''Retry-After'' \<noteq> []" using assms(3) by (auto simp: Atoi_def)
  with assms have "calculateDelay t e k resp a = clampDelay t (seconds n)"
    by (simp add: calculateDelay_def retry_after_delay_def Let_def)
  then show ?thesis
    using assms(1,2) seconds_exact[of n] by (auto simp: clampDelay_eq Second_def seconds_def wrap64_def Millisecond_def)
qed

definition ex_limited :: "string \<Rightarrow> http_response" where
  "ex_limited after = \<lparr>hrStatusCode = 429, hrHeader = [(''Retry-After'', after)], hrBody = []\<rparr>"

definition ex_http :: http_env where
  "ex_http = \<lparr>heRoundTrip = (\<lambda>n. Inr (ex_limited ''2'')), heGetBody = None, heSleep = (\<lambda>n d. None),
     heNow = (\<lambda>n. 0), heParseTime = (\<lambda>s. None), heJitter = (\<lambda>n d. 0)\<rparr>"

lemma ex_header: "response_header (ex_limited a) ''Retry-After'' = a"
  by (simp add: response_header_def ex_limited_def EqualFold_def)

lemma ex_cap: "delay_cap (NewRateLimitTransport p) = 900 * Second"
  by (simp add: delay_cap_def NewRateLimitTransport_def MaxBackoffCap_def Minute_def Second_def)

theorem calculateDelay_retry_after_witness:
  "calculateDelay (NewRateLimitTransport ''github'') ex_http 0 (ex_limited ''2'') 0 = 2 * Second"
proof -
  have "Atoi (TrimSpace ''2'') = Some 2" by code_simp
  with calculateDelay_retry_after[of "NewRateLimitTransport ''github''" 2 "ex_limited ''2''" ex_http 0 0]
  show ?thesis by (simp add: ex_header ex_cap Second_def Millisecond_def)
qed

section \<open>The retry loop\<close>

text \<open>What the loop has done from \<open>s\<close> to \<open>s'\<close> with at most \<open>n\<close> requests left.\<close>

definition within_budget :: "RateLimitTransport \<Rightarrow> nat \<Rightarrow> rt_state \<Rightarrow> rt_state \<Rightarrow> bool" where
  "within_budget t n s s' \<longleftrightarrow> rtSent s \<le> rtSent s' \<and> rtSent s' \<le> rtSent s + n \<and>
     (\<exists>ds. rtSleeps s' = rtSleeps s @ ds \<and> length ds \<le> n - 1 \<and>
        (\<forall>d \<in> set ds. 100 * Millisecond \<le> d \<and> d \<le> delay_cap t))"

definition good_outcome :: "RateLimitTransport \<Rightarrow> nat \<Rightarrow> rt_state \<Rightarrow> rt_result \<Rightarrow> rt_state \<Rightarrow> bool" where
  "good_outcome t n s r s' \<longleftrightarrow>
     (case r of
        RtResponse None \<Rightarrow> n = 0
      | RtResponse (Some resp) \<Rightarrow>
          (if isRateLimited resp then rtSent s' = rtSent s + n
           else rtHasTracker t \<longrightarrow> \<not> IsRateLimited (rtProviderName t) (rtTracker s'))
      | _ \<Rightarrow> True)"

definition same_traffic :: "rt_state \<Rightarrow> rt_state \<Rightarrow> bool" where
  "same_traffic s s' \<longleftrightarrow> rtSent s' = rtSent s \<and> rtSleeps s' = rtSleeps s"

lemma run_reset_body: "\<exists>g s'. run_state (reset_body e a) s = (g, s') \<and> same_traffic s s'"
  by (auto simp: reset_body_def rt_tick_def same_traffic_def split: option.splits)

lemma run_rt_send:
  "run_state (rt_send e) s = (heRoundTrip e (rtTick s), s\<lparr>rtTick := Suc (rtTick s), rtSent := Suc (rtSent s)\<rparr>)"
  by (simp add: rt_send_def rt_tick_def)

lemma run_track_limit: "\<exists>s'. run_state (track_limit t e) s = ((), s') \<and> same_traffic s s'"
  by (auto simp: track_limit_def rt_tick_def same_traffic_def Let_def split: prod.splits)

lemma run_track_success:
  "\<exists>s'. run_state (track_success t) s = ((), s') \<and> same_traffic s s' \<and>
     (rtHasTracker t \<longrightarrow> \<not> IsRateLimited (rtProviderName t) (rtTracker s'))"
  by (auto simp: track_success_def RecordSuccess_provider_def IsRateLimited_def same_traffic_def)

lemma run_back_off:
  assumes "100 * Millisecond \<le> delay_cap t"
  shows "\<exists>g s' d. run_state (back_off t e resp a) s = (g, s') \<and> rtSent s' = rtSent s \<and>
     rtSleeps s' = rtSleeps s @ [d] \<and> 100 * Millisecond \<le> d \<and> d \<le> delay_cap t"
  using calculateDelay_range[OF assms] by (simp add: back_off_def rt_tick_def Let_def)

text \<open>One round of the loop.\<close>

inductive round :: "RateLimitTransport \<Rightarrow> int \<Rightarrow> rt_state \<Rightarrow> rt_result option \<Rightarrow> rt_state \<Rightarrow> bool" for t a s where
  body_lost: "rtSent s' = rtSent s \<Longrightarrow> rtSleeps s' = rtSleeps s \<Longrightarrow> round t a s (Some (RtResetBody err)) s'"
| failed: "rtSent s' = Suc (rtSent s) \<Longrightarrow> rtSleeps s' = rtSleeps s \<Longrightarrow> round t a s (Some (RtTransport err)) s'"
| answered: "rtSent s' = Suc (rtSent s) \<Longrightarrow> rtSleeps s' = rtSleeps s \<Longrightarrow> \<not> isRateLimited resp \<Longrightarrow>
    (rtHasTracker t \<longrightarrow> \<not> IsRateLimited (rtProviderName t) (rtTracker s')) \<Longrightarrow>
    round t a s (Some (RtResponse (Some resp))) s'"
| gave_up: "rtSent s' = Suc (rtSent s) \<Longrightarrow> rtSleeps s' = rtSleeps s \<Longrightarrow> isRateLimited resp \<Longrightarrow>
    a = rtMaxRetries t \<Longrightarrow> round t a s (Some (RtResponse (Some resp))) s'"
| canceled: "rtSent s' = Suc (rtSent s) \<Longrightarrow> a < rtMaxRetries t \<Longrightarrow>
    rtSleeps s' = rtSleeps s @ [d] \<Longrightarrow> 100 * Millisecond \<le> d \<and> d \<le> delay_cap t \<Longrightarrow>
    round t a s (Some (ErrContextCanceled err)) s'"
| slept: "rtSent s' = Suc (rtSent s) \<Longrightarrow> a < rtMaxRetries t \<Longrightarrow>
    rtSleeps s' = rtSleeps s @ [d] \<Longrightarrow> 100 * Millisecond \<le> d \<and> d \<le> delay_cap t \<Longrightarrow> round t a s None s'"

lemma rt_loop_round:
  assumes "100 * Millisecond \<le> delay_cap t" "a \<le> rtMaxRetries t"
  shows "\<exists>r s'. round t a s r s' \<and>
    (case r of Some res \<Rightarrow> run_state (rt_loop t e a lr) s = (res, s')
     | None \<Rightarrow> \<exists>resp. run_state (rt_loop t e a lr) s = run_state (rt_loop t e (a + 1) (Some resp)) s')"
proof -
  obtain g s1 where body: "run_state (reset_body e a) s = (g, s1)" "same_traffic s s1"
    using run_reset_body by blast
  define s2 where "s2 = s1\<lparr>rtTick := Suc (rtTick s1), rtSent := Suc (rtSent s1)\<rparr>"
  have s2: "rtSent s2 = Suc (rtSent s)" "rtSleeps s2 = rtSleeps s"
    using body(2) by (simp_all add: s2_def same_traffic_def)
  have run: "run_state (rt_loop t e a lr) s =
      (case g of Some err \<Rightarrow> (RtResetBody err, s1)
       | None \<Rightarrow> (case heRoundTrip e (rtTick s1) of Inl err \<Rightarrow> (RtTransport err, s2)
         | Inr resp \<Rightarrow> if \<not> isRateLimited resp
             then (RtResponse (Some resp), snd (run_state (track_success t) s2))
             else (let s3 = snd (run_state (track_limit t e) s2) in
               if a = rtMaxRetries t then (RtResponse (Some resp), s3)
               else (case run_state (back_off t e resp a) s3 of
                   (Some err, s4) \<Rightarrow> (ErrContextCanceled err, s4)
                 | (None, s4) \<Rightarrow> run_state (rt_loop t e (a + 1) (Some resp)) s4))))"
    using body(1) assms(2) by (subst rt_loop.simps) (auto simp: run_rt_send s2_def Let_def split: option.splits sum.splits prod.splits)
  show ?thesis
  proof (cases g)
    case (Some err)
    with run body(2) show ?thesis
      by (intro exI[of _ "Some (RtResetBody err)"] exI[of _ s1]) (auto simp: same_traffic_def intro: body_lost)
  next
    case g: None
    show ?thesis
    proof (cases "heRoundTrip e (rtTick s1)")
      case (Inl err)
      with g run s2 show ?thesis by (intro exI[of _ "Some (RtTransport err)"] exI[of _ s2]) (auto intro: failed)
    next
      case (Inr resp)
      obtain s3 where s3: "run_state (track_limit t e) s2 = ((), s3)" "same_traffic s2 s3"
        using run_track_limit by blast
      obtain s5 where s5: "run_state (track_success t) s2 = ((), s5)" "same_traffic s2 s5"
        "rtHasTracker t \<longrightarrow> \<not> IsRateLimited (rtProviderName t) (rtTracker s5)"
        using run_track_success by blast
      obtain h s4 d where s4: "run_state (back_off t e resp a) s3 = (h, s4)" "rtSent s4 = rtSent s3"
          "rtSleeps s4 = rtSleeps s3 @ [d]" "100 * Millisecond \<le> d \<and> d \<le> delay_cap t"
        using run_back_off[OF assms(1)] by blast
      note traffic = s2 s3(2)[unfolded same_traffic_def] s4(2,3)
      consider "\<not> isRateLimited resp" | "isRateLimited resp" "a = rtMaxRetries t"
        | "isRateLimited resp" "a < rtMaxRetries t" using assms(2) by linarith
      then show ?thesis
      proof cases
        case 1
        with g Inr run s5 s2 show ?thesis
          by (intro exI[of _ "Some (RtResponse (Some resp))"] exI[of _ s5])
             (auto simp: same_traffic_def intro: answered)
      next
        case 2
        with g Inr run s3(1) traffic show ?thesis
          by (intro exI[of _ "Some (RtResponse (Some resp))"] exI[of _ s3]) (auto intro: gave_up)
      next
        case 3
        with g Inr run s3(1) s4(1) traffic s4(4) show ?thesis
          by (intro exI[of _ "map_option ErrContextCanceled h"] exI[of _ s4])
             (auto intro: canceled slept split: option.splits)
      qed
    qed
  qed
qed

lemma rt_loop_good:
  assumes "100 * Millisecond \<le> delay_cap t" "a \<le> rtMaxRetries t"
    and "run_state (rt_loop t e a lr) s = (r, s')" "n = nat (rtMaxRetries t + 1 - a)"
  shows "within_budget t n s s' \<and> good_outcome t n s r s'"
  using assms(2-4)
proof (induction n arbitrary: a lr s)
  case (Suc n)
  from rt_loop_round[OF assms(1) Suc.prems(1), of s e lr] obtain x s1 where x: "round t a s x s1"
    "case x of Some res \<Rightarrow> run_state (rt_loop t e a lr) s = (res, s1)
      | None \<Rightarrow> \<exists>resp. run_state (rt_loop t e a lr) s = run_state (rt_loop t e (a + 1) (Some resp)) s1" by blast
  show ?case
  proof (cases x)
    case None
    with x(2) Suc.prems(2) obtain resp where "run_state (rt_loop t e (a + 1) (Some resp)) s1 = (r, s')" by auto
    moreover from x(1) None obtain d where d: "rtSent s1 = Suc (rtSent s)" "a < rtMaxRetries t"
      "rtSleeps s1 = rtSleeps s @ [d]" "100 * Millisecond \<le> d \<and> d \<le> delay_cap t" by (auto elim: round.cases)
    moreover have "0 < n" "n = nat (rtMaxRetries t + 1 - (a + 1))" using d(2) Suc.prems(3) by auto
    ultimately have IH: "within_budget t n s1 s'" "good_outcome t n s1 r s'" using Suc.IH[of "a + 1"] by auto
    from IH(1) obtain ds where "rtSleeps s' = rtSleeps s1 @ ds" "length ds \<le> n - 1"
      "\<forall>d \<in> set ds. 100 * Millisecond \<le> d \<and> d \<le> delay_cap t" by (auto simp: within_budget_def)
    with d(3,4) \<open>0 < n\<close> have "\<exists>ds. rtSleeps s' = rtSleeps s @ ds \<and> length ds \<le> Suc n - 1 \<and>
        (\<forall>d \<in> set ds. 100 * Millisecond \<le> d \<and> d \<le> delay_cap t)" by (intro exI[of _ "d # ds"]) auto
    with IH d(1) \<open>0 < n\<close> show ?thesis
      by (auto simp: within_budget_def good_outcome_def split: rt_result.splits option.splits if_splits)
  next
    case (Some res)
    with x(2) Suc.prems(2) have "res = r" "s1 = s'" by auto
    with x(1) Some Suc.prems(3) show ?thesis
      by (auto simp: within_budget_def good_outcome_def elim!: round.cases)
  qed
qed simp

text \<open>
  C11. A request ends within its budget. Whatever the server answers, \<open>RoundTrip\<close> returns after at most
  \<open>MaxRetries + 1\<close> requests and \<open>MaxRetries\<close> pauses, each of between a tenth of a second and the cap. A
  response that is not rate-limited clears the provider's mark; a rate-limited one is returned only when
  all the requests have been spent.
\<close>

theorem RoundTrip_budget:
  assumes "0 \<le> rtMaxRetries t" "100 * Millisecond \<le> delay_cap t" "run_state (RoundTrip t e) s = (r, s')"
  shows "within_budget t (nat (rtMaxRetries t + 1)) s s' \<and> good_outcome t (nat (rtMaxRetries t + 1)) s r s'"
  using rt_loop_good[OF assms(2,1), of e None] assms(3) by (simp add: RoundTrip_def)

definition ex_rt :: rt_state where
  "ex_rt = \<lparr>rtTracker = NewRateLimitTracker True, rtSent = 0, rtSleeps = [], rtAlerts = [], rtTick = 0\<rparr>"

theorem RoundTrip_budget_witness:
  "rtSent (exec (RoundTrip (NewRateLimitTransport ''github'') ex_http) ex_rt) \<le> 5 \<and>
   length (rtSleeps (exec (RoundTrip (NewRateLimitTransport ''github'') ex_http) ex_rt)) \<le> 4"
proof -
  have "0 \<le> rtMaxRetries (NewRateLimitTransport ''github'')"
    "nat (rtMaxRetries (NewRateLimitTransport ''github'') + 1) = 5"
    by (simp_all add: NewRateLimitTransport_def DefaultMaxRetries_def)
  then show ?thesis
    using RoundTrip_budget[of "NewRateLimitTransport ''github''" ex_http ex_rt, OF _ _ surjective_pairing]
    by (auto simp: ex_cap Millisecond_def Second_def within_budget_def exec_def ex_rt_def)
qed

end
