(* ===== verification/Segregation.thy ===== *)
theory Segregation
  imports Go_Prelude
begin

text \<open>
  \<open>src/internal/provider/segregation.go\<close>: the scanner that keeps master credentials out of container
  specifications, and the environments of runner and Renovate containers. The error texts are kept as
  the values they quote.
\<close>

section \<open>The scanner\<close>

datatype scan_error =
  ErrForbiddenEnvKey string
| ErrLeakEnvKey string
| ErrLeakEnvValue string
| ErrLeakLabel string
| ErrDangerousMount string string
| ErrLeakMount string
| ErrLeakCmd

record ContainerSpec =
  csEnv :: "string list"
  csLabels :: "(string, string) gomap"
  csMounts :: "string list"
  csImage :: string
  csCmd :: "string list"

record SegregationScanner =
  ForbiddenEnvKeys :: "string list"
  ForbiddenMounts :: "string list"

definition NewSegregationScanner :: SegregationScanner where
  "NewSegregationScanner =
     \<lparr>ForbiddenEnvKeys = [''DB_ENCRYPTION_KEY'', ''SUPERVISOR_DB_ENCRYPTION_KEY'', ''JWT_SECRET'',
        ''SUPERVISOR_PAT'', ''GITHUB_APP_PRIVATE_KEY'', ''MASTER_KEY'', ''APP_PRIVATE_KEY'',
        ''GITEA_MASTER_TOKEN'', ''FORGEJO_MASTER_TOKEN''],
      ForbiddenMounts = [''/data'', ''supervisor.db'', ''.db'', ''/etc/supervisor'']\<rparr>"

text \<open>\<open>strings.SplitN(env, "=", 2)\<close>: the key, and the value or the empty string without a \<open>=\<close>.\<close>

definition env_key :: "string \<Rightarrow> string" where
  "env_key env = TrimSpace (takeWhile (\<lambda>c. c \<noteq> CHR ''='') env)"

definition env_value :: "string \<Rightarrow> string" where
  "env_value env = drop 1 (dropWhile (\<lambda>c. c \<noteq> CHR ''='') env)"

text \<open>The first error that the elements of a slice give.\<close>

fun first_error :: "('a \<Rightarrow> 'e option) \<Rightarrow> 'a list \<Rightarrow> 'e option" where
  "first_error f [] = None"
| "first_error f (x # xs) = (case f x of Some e \<Rightarrow> Some e | None \<Rightarrow> first_error f xs)"

text \<open>The loop over the master credentials; those shorter than six bytes are skipped.\<close>

definition each_secret :: "string list \<Rightarrow> (string \<Rightarrow> 'e option) \<Rightarrow> 'e option" where
  "each_secret secrets f =
     first_error (\<lambda>secret. let cleanSecret = TrimSpace secret
                  in if length cleanSecret < 6 then None else f cleanSecret) secrets"

definition scan_env :: "SegregationScanner \<Rightarrow> string list \<Rightarrow> string \<Rightarrow> scan_error option" where
  "scan_env s secrets env =
     (let key = env_key env; val = env_value env in
      case first_error (\<lambda>forbiddenKey. if EqualFold key forbiddenKey then Some (ErrForbiddenEnvKey key) else None)
             (ForbiddenEnvKeys s) of
        Some e \<Rightarrow> Some e
      | None \<Rightarrow> each_secret secrets (\<lambda>cleanSecret.
          if Contains key cleanSecret then Some (ErrLeakEnvKey key)
          else if Contains val cleanSecret then Some (ErrLeakEnvValue key) else None))"

definition scan_label :: "string list \<Rightarrow> string \<times> string \<Rightarrow> scan_error option" where
  "scan_label secrets kv = each_secret secrets (\<lambda>cleanSecret.
     if Contains (fst kv) cleanSecret \<or> Contains (snd kv) cleanSecret then Some (ErrLeakLabel (fst kv)) else None)"

definition scan_mount :: "SegregationScanner \<Rightarrow> string list \<Rightarrow> string \<Rightarrow> scan_error option" where
  "scan_mount s secrets m =
     (case first_error (\<lambda>forbiddenMount. if Contains m forbiddenMount then Some (ErrDangerousMount forbiddenMount m) else None)
             (ForbiddenMounts s) of
        Some e \<Rightarrow> Some e
      | None \<Rightarrow> each_secret secrets (\<lambda>cleanSecret. if Contains m cleanSecret then Some (ErrLeakMount m) else None))"

definition scan_arg :: "string list \<Rightarrow> string \<Rightarrow> scan_error option" where
  "scan_arg secrets arg =
     each_secret secrets (\<lambda>cleanSecret. if Contains arg cleanSecret then Some ErrLeakCmd else None)"

definition Scan :: "nat list \<Rightarrow> SegregationScanner \<Rightarrow> ContainerSpec \<Rightarrow> string list \<Rightarrow> scan_error option" where
  "Scan ord s spec masterCredentials =
     (case first_error (scan_env s masterCredentials) (csEnv spec) of
        Some e \<Rightarrow> Some e
      | None \<Rightarrow>
        (case first_error (scan_label masterCredentials) (go_range ord (csLabels spec)) of
           Some e \<Rightarrow> Some e
         | None \<Rightarrow>
           (case first_error (scan_mount s masterCredentials) (csMounts spec) of
              Some e \<Rightarrow> Some e
            | None \<Rightarrow> first_error (scan_arg masterCredentials) (csCmd spec))))"

definition BuildRunnerEnv ::
  "string \<Rightarrow> string \<Rightarrow> string \<Rightarrow> string \<Rightarrow> string list \<Rightarrow> string \<Rightarrow> string list" where
  "BuildRunnerEnv provider token targetURL runnerName labels workDir =
     [''RUNNER_PROVIDER='' @ provider, ''RUNNER_TOKEN='' @ token, ''RUNNER_NAME='' @ runnerName,
      ''RUNNER_WORKDIR='' @ workDir, ''RUNNER_LABELS='' @ Join labels '',''] @
     (if provider = ''github'' then [''GITHUB_REPOSITORY_URL='' @ targetURL]
      else if provider = ''gitea'' then [''GITEA_INSTANCE_URL='' @ targetURL]
      else if provider = ''forgejo'' then [''FORGEJO_INSTANCE_URL='' @ targetURL]
      else [])"

definition BuildRenovateEnv :: "string \<Rightarrow> string \<Rightarrow> string \<Rightarrow> string list" where
  "BuildRenovateEnv provider token repoURL =
     [''RENOVATE_PLATFORM='' @ provider, ''RENOVATE_TOKEN='' @ token, ''RENOVATE_ENDPOINT='' @ repoURL]"

section \<open>What an accepted specification holds\<close>

lemma first_error_None: "first_error f xs = None \<longleftrightarrow> (\<forall>x \<in> set xs. f x = None)"
  by (induction xs) (auto split: option.splits)

definition master_secrets :: "string list \<Rightarrow> string set" where
  "master_secrets creds = {s. s \<in> TrimSpace ` set creds \<and> 6 \<le> length s}"

lemma each_secret_None: "each_secret creds f = None \<longleftrightarrow> (\<forall>s \<in> master_secrets creds. f s = None)"
  by (auto simp: each_secret_def first_error_None master_secrets_def Let_def not_less split: if_splits)

lemma env_split:
  "env = takeWhile (\<lambda>c. c \<noteq> CHR ''='') env @ (if CHR ''='' \<in> set env then CHR ''='' # env_value env else [])"
proof (cases "dropWhile (\<lambda>c. c \<noteq> CHR ''='') env")
  case Nil
  then show ?thesis by (auto simp: dropWhile_eq_Nil_conv intro: sym[OF takeWhile_eq_all_conv[THEN iffD2]])
next
  case (Cons c r)
  then have "c = CHR ''=''" by (metis (full_types) dropWhile_eq_Cons_conv)
  moreover have "c \<in> set env" by (metis Cons list.set_intros(1) set_dropWhileD)
  ultimately show ?thesis using Cons takeWhile_dropWhile_id[of "\<lambda>c. c \<noteq> CHR ''=''" env]
    by (simp add: env_value_def)
qed

text \<open>A string without \<open>c\<close> that occurs in \<open>a @ c # b\<close> occurs on one side.\<close>

lemma sublist_one_side:
  assumes "sublist s (a @ c # b)" "c \<notin> set s"
  shows "sublist s a \<or> sublist s b"
proof -
  from assms(1) obtain p q where pq: "a @ c # b = p @ s @ q" by (auto simp: sublist_def)
  then consider us where "a = p @ us" "us @ c # b = s @ q" | us where "p = a @ us" "c # b = us @ s @ q"
    by (auto simp: append_eq_append_conv2)
  then show ?thesis
  proof cases
    case 1
    from 1(2) consider vs where "us = s @ vs" | vs where "s = us @ vs" "c # b = vs @ q"
      by (auto simp: append_eq_append_conv2)
    then show ?thesis
    proof cases
      case 1
      with \<open>a = p @ us\<close> show ?thesis by (auto simp: sublist_def)
    next
      case 2
      with assms(2) have "vs = []" by (cases vs) auto
      with 2(1) 1(1) have "a = p @ s" by simp
      then show ?thesis by (metis sublist_appendI append_Nil2)
    qed
  next
    case 2
    show ?thesis
    proof (cases us)
      case Nil
      then have "s = []" using 2(2) assms(2) by (cases s) auto
      then show ?thesis by simp
    next
      case (Cons x xs)
      with 2(2) have "b = xs @ s @ q" by simp
      then show ?thesis by (auto simp: sublist_def)
    qed
  qed
qed

lemma dropWhile_keeps_sublist:
  assumes "sublist s x" "s \<noteq> []" "\<not> P (hd s)"
  shows "sublist s (dropWhile P x)"
  using assms
proof (induction x)
  case (Cons a x)
  then show ?case
    by (cases s) (auto simp: sublist_Cons_right)
qed simp

lemma TrimSpace_keeps_sublist:
  assumes "sublist s x" "s \<noteq> []" "TrimSpace s = s"
  shows "sublist s (TrimSpace x)"
proof -
  have "\<not> is_space (hd s)" "\<not> is_space (last s)" using assms(2,3) hd_TrimSpace last_TrimSpace by metis+
  with assms(2) show ?thesis
    using dropWhile_keeps_sublist[OF assms(1), of is_space]
      dropWhile_keeps_sublist[of "rev s" "rev (dropWhile is_space x)" is_space]
    by (simp add: TrimSpace_def TrimLeft_def TrimRight_def hd_rev)
      (metis rev_rev_ident sublist_rev)
qed

definition mentions :: "ContainerSpec \<Rightarrow> string set" where
  "mentions spec = set (csEnv spec) \<union> fst ` set (csLabels spec) \<union> snd ` set (csLabels spec) \<union>
     set (csMounts spec) \<union> set (csCmd spec)"

definition policy_clean :: "SegregationScanner \<Rightarrow> ContainerSpec \<Rightarrow> bool" where
  "policy_clean s spec \<longleftrightarrow>
     (\<forall>env \<in> set (csEnv spec). \<forall>f \<in> set (ForbiddenEnvKeys s). ToLower (env_key env) \<noteq> ToLower f) \<and>
     (\<forall>m \<in> set (csMounts spec). \<forall>f \<in> set (ForbiddenMounts s). \<not> sublist f m)"

lemma or_else_None: "(case x of None \<Rightarrow> y | Some e \<Rightarrow> Some e) = None \<longleftrightarrow> x = None \<and> y = None"
  by (cases x) auto

lemma if_error_None: "(if b then Some e else None) = None \<longleftrightarrow> \<not> b"
  by simp

lemmas scan_None = first_error_None each_secret_None or_else_None if_error_None

lemma Scan_None:
  "Scan ord s spec creds = None \<longleftrightarrow> policy_clean s spec \<and>
     (\<forall>k \<in> master_secrets creds.
        (\<forall>env \<in> set (csEnv spec). \<not> sublist k (env_key env) \<and> \<not> sublist k (env_value env)) \<and>
        (\<forall>kv \<in> set (csLabels spec). \<not> sublist k (fst kv) \<and> \<not> sublist k (snd kv)) \<and>
        (\<forall>m \<in> set (csMounts spec). \<not> sublist k m) \<and> (\<forall>a \<in> set (csCmd spec). \<not> sublist k a))"
proof -
  have "scan_env s creds env = None \<longleftrightarrow> (\<forall>f \<in> set (ForbiddenEnvKeys s). ToLower (env_key env) \<noteq> ToLower f) \<and>
      (\<forall>k \<in> master_secrets creds. \<not> sublist k (env_key env) \<and> \<not> sublist k (env_value env))" for env
    by (simp add: scan_env_def scan_None EqualFold_def Contains_iff_sublist Let_def) blast
  moreover have "scan_label creds kv = None \<longleftrightarrow>
      (\<forall>k \<in> master_secrets creds. \<not> sublist k (fst kv) \<and> \<not> sublist k (snd kv))" for kv
    by (simp add: scan_label_def scan_None Contains_iff_sublist)
  moreover have "scan_mount s creds m = None \<longleftrightarrow> (\<forall>f \<in> set (ForbiddenMounts s). \<not> sublist f m) \<and>
      (\<forall>k \<in> master_secrets creds. \<not> sublist k m)" for m
    by (simp add: scan_mount_def scan_None Contains_iff_sublist)
  moreover have "scan_arg creds a = None \<longleftrightarrow> (\<forall>k \<in> master_secrets creds. \<not> sublist k a)" for a
    by (simp add: scan_arg_def scan_None Contains_iff_sublist)
  ultimately show ?thesis by (simp add: Scan_def scan_None policy_clean_def) blast
qed

lemma secret_in_env:
  assumes "sublist k env" "CHR ''='' \<notin> set k" "k \<noteq> []" "TrimSpace k = k"
  shows "sublist k (env_key env) \<or> sublist k (env_value env)"
proof -
  let ?key = "takeWhile (\<lambda>c. c \<noteq> CHR ''='') env"
  have "sublist k ?key \<or> sublist k (env_value env)"
  proof (cases "CHR ''='' \<in> set env")
    case True
    then have "env = ?key @ CHR ''='' # env_value env" using env_split[of env] by simp
    with assms(1,2) show ?thesis using sublist_one_side by metis
  next
    case False
    then show ?thesis using env_split[of env] assms(1) by simp
  qed
  then show ?thesis using TrimSpace_keeps_sublist[OF _ assms(3,4)] by (auto simp: env_key_def)
qed

lemma env_parts: "sublist (env_key env) env" "sublist (env_value env) env"
proof -
  have "sublist (TrimSpace x) x" for x
    unfolding TrimSpace_def TrimLeft_def using TrimRight_prefix suffix_dropWhile
    by (meson prefix_imp_sublist sublist_order.order_trans suffix_imp_sublist)
  then show "sublist (env_key env) env" unfolding env_key_def
    by (meson prefix_imp_sublist sublist_order.order_trans takeWhile_is_prefix)
  show "sublist (env_value env) env" unfolding env_value_def
    by (meson sublist_drop sublist_order.order_trans suffix_dropWhile suffix_imp_sublist)
qed


definition ex_scanner :: SegregationScanner where
  "ex_scanner = NewSegregationScanner\<lparr>ForbiddenEnvKeys := [''MASTER_KEY'']\<rparr>"

definition ex_spec :: "string \<Rightarrow> ContainerSpec" where
  "ex_spec token = \<lparr>csEnv = [''RUNNER_TOKEN='' @ token], csLabels = [(''managed'', ''true'')], csMounts = [''/cache:/cache''], csImage = ''img'', csCmd = [''run'']\<rparr>"


end
