(* ===== verification/Cron_Scheduler.thy ===== *)
theory Cron_Scheduler
  imports Go_Effects
begin

text \<open>
  \<open>src/internal/cron\<close>: the scheduler of Renovate jobs. A job entry is an object that the scheduler's map
  and the goroutine of a running task share, so entries live in a heap (\<open>scHeap\<close>) and the map holds
  addresses; replacing a job allocates a new entry and leaves the old one to its goroutine. A task that
  has been started and has not ended is an element of \<open>scActive\<close>; \<open>scFired\<close> records the starts.

  The parser of cron expressions is third-party code and a parameter: it returns an error or a schedule,
  the function from a time to the next activation. The clock is a parameter too, asked with the number
  of the call; the iteration order of the map is an argument. A task is an opaque name.
\<close>

section \<open>Jobs\<close>

datatype MissedFirePolicy = MissedFirePolicyRunImmediately | MissedFirePolicySkip

type_synonym schedule = "gotime \<Rightarrow> gotime"
type_synonym cron_parser = "string \<Rightarrow> string + schedule"

record JobConfig =
  jcPoolID :: int
  jcSchedule :: string
  jcLastRun :: gotime
  jcMissedFirePolicy :: MissedFirePolicy
  jcTask :: "string option"

record JobInfo =
  jiPoolID :: int
  jiSchedule :: string
  jiNextRun :: gotime
  jiLastRun :: gotime
  jiIsRunning :: bool
  jiMissedFirePolicy :: MissedFirePolicy

record jobEntry =
  jePoolID :: int
  jeExpr :: string
  jeSchedule :: schedule
  jeTask :: string
  jeLastRun :: gotime
  jeNextRun :: gotime
  jeRunning :: bool
  jeMissedFirePolicy :: MissedFirePolicy
  jePendingImmediate :: bool

datatype cron_error =
  ErrJobNotFound int
| ErrNilTask
| ErrSchedulerRunning
| ErrSchedulerStopped
| ErrInvalidSchedule string
| ListingConfigs string

definition ParseSchedule :: "cron_parser \<Rightarrow> string \<Rightarrow> cron_error + schedule" where
  "ParseSchedule parse expr =
     (let trimmed = TrimSpace expr in
      if trimmed = [] then Inl (ErrInvalidSchedule ''schedule cannot be empty'')
      else (case parse trimmed of Inl err \<Rightarrow> Inl (ErrInvalidSchedule err) | Inr sched \<Rightarrow> Inr sched))"

definition ComputeNextRun :: "cron_parser \<Rightarrow> string \<Rightarrow> gotime \<Rightarrow> cron_error + gotime" where
  "ComputeNextRun parse expr from =
     (case ParseSchedule parse expr of Inl e \<Rightarrow> Inl e | Inr sched \<Rightarrow> Inr (sched from))"

section \<open>The scheduler\<close>

record scheduler =
  scJobs :: "(int, nat) gomap"
  scHeap :: "jobEntry list"
  scWakeup :: bool
  scRunning :: bool
  scStopped :: bool
  scLoop :: bool
  scActive :: "nat list"
  scFired :: "(int \<times> gotime) list"
  scTick :: nat

definition NewScheduler :: scheduler where
  "NewScheduler = \<lparr>scJobs = [], scHeap = [], scWakeup = False, scRunning = False, scStopped = False,
     scLoop = False, scActive = [], scFired = [], scTick = 0\<rparr>"

type_synonym clock = "nat \<Rightarrow> gotime"

definition clock_now :: "clock \<Rightarrow> (scheduler, gotime) state" where
  "clock_now clk = do { n \<leftarrow> gets scTick; modify (\<lambda>s. s\<lparr>scTick := Suc n\<rparr>); State_Monad.return (clk n) }"

definition update_entry :: "nat \<Rightarrow> (jobEntry \<Rightarrow> jobEntry) \<Rightarrow> scheduler \<Rightarrow> scheduler" where
  "update_entry a f s = s\<lparr>scHeap := (scHeap s)[a := f (scHeap s ! a)]\<rparr>"

text \<open>The goroutine that runs a task: started with the entry, and its end.\<close>

definition start_task :: "nat \<Rightarrow> scheduler \<Rightarrow> scheduler" where
  "start_task a s = s\<lparr>scActive := a # scActive s,
     scFired := scFired s @ [(jePoolID (scHeap s ! a), jeLastRun (scHeap s ! a))]\<rparr>"

definition end_task :: "nat \<Rightarrow> scheduler \<Rightarrow> scheduler" where
  "end_task a s = update_entry a (\<lambda>e. e\<lparr>jeRunning := False\<rparr>) (s\<lparr>scActive := remove1 a (scActive s)\<rparr>)"

definition signalWakeupLocked :: "(scheduler, unit) state" where
  "signalWakeupLocked = modify (\<lambda>s. s\<lparr>scWakeup := True\<rparr>)"

definition dispatchJobLocked :: "clock \<Rightarrow> nat \<Rightarrow> (scheduler, unit) state" where
  "dispatchJobLocked clk a = do {
     running \<leftarrow> gets (\<lambda>s. jeRunning (scHeap s ! a));
     if running then skip
     else do {
       now \<leftarrow> clock_now clk;
       modify (update_entry a (\<lambda>e. e\<lparr>jeRunning := True, jeLastRun := now\<rparr>));
       modify (start_task a)
     }
   }"

text \<open>When a job registered at \<open>now\<close> runs next, and whether a missed run is made up for at once.\<close>

definition registration :: "schedule \<Rightarrow> gotime \<Rightarrow> JobConfig \<Rightarrow> bool \<times> gotime" where
  "registration sched now cfg =
     (if \<not> IsZero (jcLastRun cfg)
      then (let expected = sched (jcLastRun cfg) in
            if expected < now
            then (jcMissedFirePolicy cfg = MissedFirePolicyRunImmediately, sched now)
            else (False, expected))
      else (False, sched now))"

definition RegisterJob :: "cron_parser \<Rightarrow> clock \<Rightarrow> JobConfig \<Rightarrow> (scheduler, cron_error option) state" where
  "RegisterJob parse clk cfg =
     (case jcTask cfg of
        None \<Rightarrow> State_Monad.return (Some ErrNilTask)
      | Some task \<Rightarrow>
        (case ParseSchedule parse (jcSchedule cfg) of
           Inl err \<Rightarrow> State_Monad.return (Some err)
         | Inr sched \<Rightarrow> do {
             stopped \<leftarrow> gets scStopped;
             if stopped then State_Monad.return (Some ErrSchedulerStopped)
             else do {
               now \<leftarrow> clock_now clk;
               a \<leftarrow> gets (\<lambda>s. length (scHeap s));
               modify (\<lambda>s. s\<lparr>scHeap := scHeap s @
                 [\<lparr>jePoolID = jcPoolID cfg, jeExpr = jcSchedule cfg, jeSchedule = sched, jeTask = task,
                   jeLastRun = jcLastRun cfg, jeNextRun = snd (registration sched now cfg),
                   jeRunning = False, jeMissedFirePolicy = jcMissedFirePolicy cfg,
                   jePendingImmediate = fst (registration sched now cfg)\<rparr>],
                 scJobs := mput (jcPoolID cfg) a (scJobs s)\<rparr>);
               running \<leftarrow> gets scRunning;
               (if running \<and> fst (registration sched now cfg)
                then do {
                  modify (update_entry a (\<lambda>e. e\<lparr>jePendingImmediate := False\<rparr>));
                  dispatchJobLocked clk a
                }
                else skip);
               signalWakeupLocked;
               State_Monad.return None
             }
           }))"

definition UnregisterJob :: "int \<Rightarrow> (scheduler, bool) state" where
  "UnregisterJob poolID = do {
     known \<leftarrow> gets (\<lambda>s. mget (scJobs s) poolID \<noteq> None);
     if \<not> known then State_Monad.return False
     else do {
       modify (\<lambda>s. s\<lparr>scJobs := mdel poolID (scJobs s)\<rparr>);
       signalWakeupLocked;
       State_Monad.return True
     }
   }"

definition HasJob :: "int \<Rightarrow> scheduler \<Rightarrow> bool" where
  "HasJob poolID s \<longleftrightarrow> mget (scJobs s) poolID \<noteq> None"

definition NextRun :: "int \<Rightarrow> scheduler \<Rightarrow> cron_error + gotime" where
  "NextRun poolID s =
     (case mget (scJobs s) poolID of
        None \<Rightarrow> Inl (ErrJobNotFound poolID)
      | Some a \<Rightarrow> Inr (jeNextRun (scHeap s ! a)))"

definition job_info :: "jobEntry \<Rightarrow> JobInfo" where
  "job_info e = \<lparr>jiPoolID = jePoolID e, jiSchedule = jeExpr e, jiNextRun = jeNextRun e,
     jiLastRun = jeLastRun e, jiIsRunning = jeRunning e, jiMissedFirePolicy = jeMissedFirePolicy e\<rparr>"

definition GetJob :: "int \<Rightarrow> scheduler \<Rightarrow> cron_error + JobInfo" where
  "GetJob poolID s =
     (case mget (scJobs s) poolID of
        None \<Rightarrow> Inl (ErrJobNotFound poolID)
      | Some a \<Rightarrow> Inr (job_info (scHeap s ! a)))"

definition ListJobs :: "nat list \<Rightarrow> scheduler \<Rightarrow> JobInfo list" where
  "ListJobs ord s = map (\<lambda>(i, a). job_info (scHeap s ! a)) (go_range ord (scJobs s))"

definition keep_jobs :: "int list \<Rightarrow> (scheduler, unit) state" where
  "keep_jobs desired = do {
     modify (\<lambda>s. s\<lparr>scJobs := filter (\<lambda>(i, a). i \<in> set desired) (scJobs s)\<rparr>);
     signalWakeupLocked
   }"

fun register_all :: "cron_parser \<Rightarrow> clock \<Rightarrow> JobConfig list \<Rightarrow> (scheduler, cron_error option) state" where
  "register_all parse clk [] = State_Monad.return None"
| "register_all parse clk (cfg # cfgs) = do {
     r \<leftarrow> RegisterJob parse clk cfg;
     case r of Some err \<Rightarrow> State_Monad.return (Some err) | None \<Rightarrow> register_all parse clk cfgs
   }"

definition SyncJobs :: "cron_parser \<Rightarrow> clock \<Rightarrow> JobConfig list \<Rightarrow> (scheduler, cron_error option) state" where
  "SyncJobs parse clk configs = do {
     r \<leftarrow> register_all parse clk configs;
     case r of
       Some err \<Rightarrow> State_Monad.return (Some err)
     | None \<Rightarrow> do { keep_jobs (map jcPoolID configs); State_Monad.return None }
   }"

record RenovateConfig =
  rvPoolID :: int
  rvEnabled :: bool
  rvCronSchedule :: "string option"
  rvImage :: string

text \<open>
  \<open>SyncFromDB\<close>: the reader's answer, the task factory (which may return nil, replaced by a stub) and
  the resolver of last runs are arguments.
\<close>

definition usable :: "RenovateConfig \<Rightarrow> bool" where
  "usable cfg \<longleftrightarrow> rvEnabled cfg \<and> rvCronSchedule cfg \<noteq> None \<and> rvCronSchedule cfg \<noteq> Some []"

definition job_of :: "(int \<Rightarrow> string \<Rightarrow> string option) option \<Rightarrow> (int \<Rightarrow> gotime) option \<Rightarrow> RenovateConfig \<Rightarrow> JobConfig" where
  "job_of taskFactory lastRunResolver cfg =
     \<lparr>jcPoolID = rvPoolID cfg, jcSchedule = the (rvCronSchedule cfg),
      jcLastRun = (case lastRunResolver of None \<Rightarrow> zero_time | Some f \<Rightarrow> f (rvPoolID cfg)),
      jcMissedFirePolicy = MissedFirePolicyRunImmediately,
      jcTask = Some (case taskFactory of
          None \<Rightarrow> ''stub''
        | Some f \<Rightarrow> (case f (rvPoolID cfg) (rvImage cfg) of None \<Rightarrow> ''stub'' | Some t \<Rightarrow> t))\<rparr>"

definition SyncFromDB ::
  "cron_parser \<Rightarrow> clock \<Rightarrow> (string + RenovateConfig list) option \<Rightarrow> (int \<Rightarrow> string \<Rightarrow> string option) option \<Rightarrow>
   (int \<Rightarrow> gotime) option \<Rightarrow> (scheduler, cron_error option) state" where
  "SyncFromDB parse clk reader taskFactory lastRunResolver =
     (case reader of
        None \<Rightarrow> State_Monad.return None
      | Some (Inl err) \<Rightarrow> State_Monad.return (Some (ListingConfigs err))
      | Some (Inr configs) \<Rightarrow> do {
          for_each (filter usable configs)
            (\<lambda>cfg. do { r \<leftarrow> RegisterJob parse clk (job_of taskFactory lastRunResolver cfg); skip });
          keep_jobs (map rvPoolID (filter usable configs));
          State_Monad.return None
        })"

section \<open>Running\<close>

definition dispatch_pending :: "clock \<Rightarrow> nat \<Rightarrow> (scheduler, unit) state" where
  "dispatch_pending clk a = do {
     pending \<leftarrow> gets (\<lambda>s. jePendingImmediate (scHeap s ! a));
     if pending then do {
       modify (update_entry a (\<lambda>e. e\<lparr>jePendingImmediate := False\<rparr>));
       dispatchJobLocked clk a
     } else skip
   }"

definition Start :: "clock \<Rightarrow> nat list \<Rightarrow> (scheduler, cron_error option) state" where
  "Start clk ord = do {
     running \<leftarrow> gets scRunning;
     stopped \<leftarrow> gets scStopped;
     if running then State_Monad.return (Some ErrSchedulerRunning)
     else if stopped then State_Monad.return (Some ErrSchedulerStopped)
     else do {
       modify (\<lambda>s. s\<lparr>scRunning := True\<rparr>);
       jobs \<leftarrow> gets (\<lambda>s. go_range ord (scJobs s));
       for_each jobs (\<lambda>(i, a). dispatch_pending clk a);
       modify (\<lambda>s. s\<lparr>scLoop := True\<rparr>);
       State_Monad.return None
     }
   }"

text \<open>
  \<open>Stop\<close> up to the point where it waits for the loop and for the running tasks (\<open>stop_waits\<close>).
\<close>

definition Stop :: "(scheduler, unit) state" where
  "Stop = modify (\<lambda>s. if \<not> scRunning s \<or> scStopped s then s else s\<lparr>scStopped := True, scRunning := False\<rparr>)"

definition stop_waits :: "scheduler \<Rightarrow> bool" where
  "stop_waits s \<longleftrightarrow> scLoop s \<or> scActive s \<noteq> []"

definition earliest_step :: "gotime \<Rightarrow> gotime \<Rightarrow> gotime" where
  "earliest_step t earliest =
     (if IsZero t then earliest else if IsZero earliest \<or> t < earliest then t else earliest)"

definition earliestNextRunLocked :: "nat list \<Rightarrow> scheduler \<Rightarrow> gotime \<times> bool" where
  "earliestNextRunLocked ord s =
     (if scJobs s = [] then (zero_time, False)
      else (let earliest = fold (\<lambda>(i, a). earliest_step (jeNextRun (scHeap s ! a))) (go_range ord (scJobs s)) zero_time
            in (earliest, \<not> IsZero earliest)))"

text \<open>The timer that the loop arms before it waits; \<open>None\<close> is the nil channel.\<close>

definition loop_wait :: "gotime \<Rightarrow> nat list \<Rightarrow> scheduler \<Rightarrow> duration option" where
  "loop_wait now ord s =
     (let (nextFire, hasJobs) = earliestNextRunLocked ord s in
      if hasJobs \<and> \<not> IsZero nextFire
      then Some (if nextFire > now then time_sub nextFire now else 0) else None)"

definition due :: "gotime \<Rightarrow> jobEntry \<Rightarrow> bool" where
  "due now e \<longleftrightarrow> \<not> IsZero (jeNextRun e) \<and> \<not> jeNextRun e > now"

text \<open>The first loop of \<open>fireDueJobs\<close> on one entry, and the entries it collects.\<close>

definition mark_due :: "gotime \<Rightarrow> nat \<Rightarrow> scheduler \<times> nat list \<Rightarrow> scheduler \<times> nat list" where
  "mark_due now a acc =
     (let (s, toDispatch) = acc; e = scHeap s ! a in
      if due now e
      then (if \<not> jeRunning e
            then (update_entry a (\<lambda>e. e\<lparr>jeLastRun := now, jeNextRun := jeSchedule e now, jeRunning := True\<rparr>) s,
                  toDispatch @ [a])
            else (update_entry a (\<lambda>e. e\<lparr>jeNextRun := jeSchedule e now\<rparr>) s, toDispatch))
      else acc)"

definition fireDueJobs :: "clock \<Rightarrow> nat list \<Rightarrow> (scheduler, unit) state" where
  "fireDueJobs clk ord = do {
     now \<leftarrow> clock_now clk;
     s \<leftarrow> gets (\<lambda>s. s);
     let (s1, toDispatch) = fold (\<lambda>(i, a). mark_due now a) (go_range ord (scJobs s)) (s, []);
     modify (\<lambda>_. fold start_task toDispatch s1)
   }"

end
