(* ===== verification/Cron_Props.thy ===== *)
theory Cron_Props
  imports Cron_Scheduler
begin

text \<open>
  What the scheduler guarantees: the invariant that ties the entries marked as running to the tasks that
  run, in every state that any sequence of calls can reach; exactly which jobs a tick starts; which jobs
  are registered after a synchronisation with the database; and the overlap of two runs of one job that
  a re-registration makes possible.
\<close>

section \<open>The invariant\<close>

text \<open>\<open>D\<close>: entries that are marked and whose goroutine is still to be started.\<close>

definition cron_inv :: "nat list \<Rightarrow> scheduler \<Rightarrow> bool" where
  "cron_inv D s \<longleftrightarrow> wf_map (scJobs s) \<and>
     (\<forall>i a. mget (scJobs s) i = Some a \<longrightarrow> a < length (scHeap s) \<and> jePoolID (scHeap s ! a) = i) \<and>
     distinct (scActive s @ D) \<and>
     (\<forall>a. a \<in> set (scActive s @ D) \<longleftrightarrow> a < length (scHeap s) \<and> jeRunning (scHeap s ! a))"

abbreviation cron_ok :: "scheduler \<Rightarrow> bool" where
  "cron_ok \<equiv> cron_inv []"

lemma cron_inv_frame:
  "cron_inv D (s\<lparr>scTick := n\<rparr>) = cron_inv D s" "cron_inv D (s\<lparr>scWakeup := b\<rparr>) = cron_inv D s"
  "cron_inv D (s\<lparr>scRunning := b\<rparr>) = cron_inv D s" "cron_inv D (s\<lparr>scStopped := b\<rparr>) = cron_inv D s"
  "cron_inv D (s\<lparr>scLoop := b\<rparr>) = cron_inv D s"
  by (simp_all add: cron_inv_def)

lemma cron_inv_New: "cron_ok NewScheduler"
  by (simp add: cron_inv_def NewScheduler_def)

lemma cron_inv_jobs:
  assumes "cron_inv D s" "wf_map js" "mget js \<subseteq>\<^sub>m mget (scJobs s)"
  shows "cron_inv D (s\<lparr>scJobs := js\<rparr>)"
proof -
  have "mget js i = Some a \<Longrightarrow> mget (scJobs s) i = Some a" for i a
    using assms(3) by (metis domI map_le_def)
  with assms(1,2) show ?thesis unfolding cron_inv_def by (simp del: map_of_eq_Some_iff) blast
qed

lemma entry_after:
  "b < length h \<Longrightarrow> h[a := f (h ! a)] ! b = (if b = a then f (h ! a) else h ! b)"
  by (auto simp: nth_list_update)

lemma scHeap_update_entry:
  "length (scHeap (update_entry a f s)) = length (scHeap s)"
  "b < length (scHeap s) \<Longrightarrow> scHeap (update_entry a f s) ! b = (if b = a then f (scHeap s ! a) else scHeap s ! b)"
  "scJobs (update_entry a f s) = scJobs s" "scActive (update_entry a f s) = scActive s"
  by (simp_all add: update_entry_def entry_after)

text \<open>A change of an entry that leaves its pool and its running mark alone.\<close>

lemma cron_inv_update:
  assumes "cron_inv D s" "jePoolID (f (scHeap s ! a)) = jePoolID (scHeap s ! a)"
    and "jeRunning (f (scHeap s ! a)) = jeRunning (scHeap s ! a)"
  shows "cron_inv D (update_entry a f s)"
  using assms by (simp add: cron_inv_def scHeap_update_entry cong: conj_cong)

lemma cron_inv_mark:
  assumes "cron_inv D s" "a < length (scHeap s)" "\<not> jeRunning (scHeap s ! a)"
    and "jePoolID (f (scHeap s ! a)) = jePoolID (scHeap s ! a)" "jeRunning (f (scHeap s ! a))"
  shows "cron_inv (D @ [a]) (update_entry a f s)"
proof -
  have "a \<notin> set (scActive s @ D)" using assms(1,3) by (auto simp: cron_inv_def)
  with assms show ?thesis by (auto simp: cron_inv_def scHeap_update_entry)
qed

lemma cron_inv_start: "cron_inv (a # D) s \<Longrightarrow> cron_inv D (start_task a s)"
  by (auto simp: cron_inv_def start_task_def)

lemma cron_inv_end: "cron_ok s \<Longrightarrow> cron_ok (end_task a s)"
  by (auto simp: cron_inv_def end_task_def scHeap_update_entry split: if_splits)

lemma cron_inv_alloc:
  assumes "cron_ok s" "jePoolID e = i" "\<not> jeRunning e"
  shows "cron_ok (s\<lparr>scHeap := scHeap s @ [e], scJobs := mput i (length (scHeap s)) (scJobs s)\<rparr>)"
  using assms by (fastforce simp: cron_inv_def nth_append less_Suc_eq)

section \<open>The operations keep it\<close>

lemma clock_now_ok: "preserves (\<lambda>s. cron_inv D s \<and> P (length (scHeap s))) (clock_now clk)"
  by (simp add: preserves_def hoare_def clock_now_def cron_inv_frame)

lemma clock_ok [keeps]: "preserves cron_ok (clock_now clk)"
  using clock_now_ok[of "[]" "\<lambda>_. True"] by simp

lemma run_dispatch:
  "exec (dispatchJobLocked clk a) s =
     (if jeRunning (scHeap s ! a) then s
      else start_task a (update_entry a (\<lambda>e. e\<lparr>jeRunning := True, jeLastRun := clk (scTick s)\<rparr>)
        (s\<lparr>scTick := Suc (scTick s)\<rparr>)))"
  by (simp add: dispatchJobLocked_def clock_now_def exec_def)

lemma dispatch_inv:
  assumes "cron_ok s" "a < length (scHeap s)"
  shows "cron_ok (exec (dispatchJobLocked clk a) s)"
proof (cases "jeRunning (scHeap s ! a)")
  case False
  have "cron_inv ([] @ [a]) (update_entry a (\<lambda>e. e\<lparr>jeRunning := True, jeLastRun := clk (scTick s)\<rparr>)
      (s\<lparr>scTick := Suc (scTick s)\<rparr>))"
    by (rule cron_inv_mark) (use assms False in \<open>simp_all add: cron_inv_frame\<close>)
  then show ?thesis using False cron_inv_start[of a "[]"] by (simp add: run_dispatch)
qed (simp add: run_dispatch assms)

lemma dispatch_heap: "length (scHeap (exec (dispatchJobLocked clk a) s)) = length (scHeap s)"
  by (simp add: run_dispatch start_task_def update_entry_def)

lemma signal_ok [keeps]: "preserves cron_ok signalWakeupLocked"
  unfolding signalWakeupLocked_def by (rule preserves_modify) (simp add: cron_inv_frame)

lemma RegisterJob_ok [keeps]: "preserves cron_ok (RegisterJob parse clk cfg)"
proof (rule preservesI)
  fix s assume ok: "cron_ok s"
  show "cron_ok (exec (RegisterJob parse clk cfg) s)"
  proof (cases "jcTask cfg")
    case (Some task)
    show ?thesis
    proof (cases "ParseSchedule parse (jcSchedule cfg)")
      case (Inr sched)
      define reg where "reg = registration sched (clk (scTick s)) cfg"
      define e where "e = \<lparr>jePoolID = jcPoolID cfg, jeExpr = jcSchedule cfg, jeSchedule = sched, jeTask = task,
          jeLastRun = jcLastRun cfg, jeNextRun = snd reg, jeRunning = False,
          jeMissedFirePolicy = jcMissedFirePolicy cfg, jePendingImmediate = fst reg\<rparr>"
      define s1 where "s1 = s\<lparr>scTick := Suc (scTick s)\<rparr>"
      define s2 where "s2 = s1\<lparr>scHeap := scHeap s1 @ [e], scJobs := mput (jcPoolID cfg) (length (scHeap s1)) (scJobs s1)\<rparr>"
      have s2: "cron_ok s2" unfolding s2_def
        by (rule cron_inv_alloc) (use ok in \<open>simp_all add: s1_def cron_inv_frame e_def\<close>)
      define s3 where "s3 = update_entry (length (scHeap s)) (\<lambda>e. e\<lparr>jePendingImmediate := False\<rparr>) s2"
      have "cron_ok s3" unfolding s3_def by (rule cron_inv_update[OF s2]) simp_all
      then have s4: "cron_ok (exec (dispatchJobLocked clk (length (scHeap s))) s3)"
        by (rule dispatch_inv) (simp add: s3_def s2_def s1_def update_entry_def)
      have "exec (RegisterJob parse clk cfg) s =
          (if scStopped s then s
           else (if scRunning s \<and> fst reg then exec (dispatchJobLocked clk (length (scHeap s))) s3 else s2)
             \<lparr>scWakeup := True\<rparr>)"
        using Some Inr
        by (simp add: RegisterJob_def clock_now_def signalWakeupLocked_def exec_def s1_def s2_def s3_def
            reg_def e_def split_beta)
      with ok s2 s4 show ?thesis by (simp add: cron_inv_frame)
    qed (use ok Some in \<open>simp add: RegisterJob_def\<close>)
  qed (use ok in \<open>simp add: RegisterJob_def\<close>)
qed

lemma mget_filter_keys:
  "mget (filter (\<lambda>(i, a). P i) m) k = (if P k then mget m k else None)"
  by (induction m) auto

lemma keep_jobs_ok [keeps]: "preserves cron_ok (keep_jobs ids)"
  unfolding keep_jobs_def
proof (intro keeps preserves_modify cron_inv_jobs)
  fix s assume "cron_ok s"
  then have wf: "wf_map (scJobs s)" by (simp add: cron_inv_def)
  then show "wf_map (filter (\<lambda>(i, a). i \<in> set ids) (scJobs s))" by (simp add: distinct_map_filter)
  show "mget (filter (\<lambda>(i, a). i \<in> set ids) (scJobs s)) \<subseteq>\<^sub>m mget (scJobs s)"
    using wf by (auto simp: mget_filter_keys map_le_def split: if_splits)
qed simp

lemma UnregisterJob_ok [keeps]: "preserves cron_ok (UnregisterJob i)"
  unfolding UnregisterJob_def
  by (intro keeps preserves_modify cron_inv_jobs) (auto simp: cron_inv_def map_le_def)

lemma register_all_ok [keeps]: "preserves cron_ok (register_all parse clk cfgs)"
  by (induction cfgs) (auto intro!: keeps)

lemma SyncJobs_ok [keeps]: "preserves cron_ok (SyncJobs parse clk cfgs)"
  unfolding SyncJobs_def by (intro keeps)

lemma SyncFromDB_ok [keeps]: "preserves cron_ok (SyncFromDB parse clk reader tf lr)"
  unfolding SyncFromDB_def by (intro keeps)

lemma dispatch_pending_ok:
  assumes "cron_ok s" "a < length (scHeap s)"
  shows "cron_ok (exec (dispatch_pending clk a) s) \<and>
    length (scHeap (exec (dispatch_pending clk a) s)) = length (scHeap s)"
proof -
  let ?s = "update_entry a (\<lambda>e. e\<lparr>jePendingImmediate := False\<rparr>) s"
  have "cron_ok ?s" by (rule cron_inv_update[OF assms(1)]) simp_all
  then have "cron_ok (exec (dispatchJobLocked clk a) ?s)"
    by (rule dispatch_inv) (simp add: assms(2) scHeap_update_entry)
  then show ?thesis using assms(1) dispatch_heap[of clk a ?s]
    by (simp add: dispatch_pending_def exec_def scHeap_update_entry)
qed

lemma dispatch_all_ok:
  "hoare (\<lambda>s. cron_ok s \<and> (\<forall>(i, a) \<in> set xs. a < length (scHeap s)))
     (for_each xs (\<lambda>(i, a). dispatch_pending clk a)) (\<lambda>_. cron_ok)"
proof (induction xs)
  case (Cons x xs)
  obtain i a where x: "x = (i, a)" by (cases x)
  show ?case unfolding for_each.simps
    by (rule hoare_bind[OF _ Cons.IH], rule hoareI)
       (use dispatch_pending_ok[of _ a clk] x in \<open>force simp: exec_def\<close>)
qed (auto simp: hoare_def)

lemma jobs_allocated: "cron_ok s \<Longrightarrow> (i, a) \<in> set (scJobs s) \<Longrightarrow> a < length (scHeap s) \<and> jePoolID (scHeap s ! a) = i"
  by (auto simp: cron_inv_def)

lemma Start_ok: "preserves cron_ok (Start clk ord)"
proof -
  have "hoare (\<lambda>s. cron_ok s \<and> go_range ord (scJobs s) = js) (for_each js (\<lambda>(i, a). dispatch_pending clk a)) (\<lambda>_. cron_ok)"
    for js
    by (rule hoare_pre[OF dispatch_all_ok]) (use jobs_allocated set_go_range in fastforce)
  moreover define tail where "tail = do { jobs \<leftarrow> gets (\<lambda>s. go_range ord (scJobs s));
      for_each jobs (\<lambda>(i, a). dispatch_pending clk a);
      modify (\<lambda>s. s\<lparr>scLoop := True\<rparr>); State_Monad.return (None :: cron_error option) }"
  ultimately have "preserves cron_ok tail"
    unfolding preserves_def tail_def
    by (intro hoare_bind_gets hoare_bind[where R = "\<lambda>_. cron_ok"] hoare_return hoare_modify)
       (simp_all add: cron_inv_frame)
  then show ?thesis unfolding Start_def tail_def[symmetric]
    by (intro preserves_bind preserves_gets preserves_if preserves_return preserves_modify)
       (simp_all add: cron_inv_frame)
qed

section \<open>A tick\<close>

definition marked :: "gotime \<Rightarrow> jobEntry \<Rightarrow> jobEntry" where
  "marked now e =
     (if due now e
      then (if jeRunning e then e\<lparr>jeNextRun := jeSchedule e now\<rparr>
            else e\<lparr>jeLastRun := now, jeNextRun := jeSchedule e now, jeRunning := True\<rparr>)
      else e)"

definition starts :: "gotime \<Rightarrow> jobEntry \<Rightarrow> bool" where
  "starts now e \<longleftrightarrow> due now e \<and> \<not> jeRunning e"

lemma mark_due_eq:
  "mark_due now a (s, D) = (update_entry a (marked now) s, D @ (if starts now (scHeap s ! a) then [a] else []))"
  by (simp add: mark_due_def Let_def marked_def starts_def update_entry_def)

lemma fold_mark_due:
  assumes "distinct as" "\<forall>a \<in> set as. a < length (scHeap s)"
  shows "\<exists>h. fold (mark_due now) as (s, D) = (s\<lparr>scHeap := h\<rparr>, D @ filter (\<lambda>a. starts now (scHeap s ! a)) as) \<and>
     length h = length (scHeap s) \<and>
     (\<forall>b < length h. h ! b = (if b \<in> set as then marked now (scHeap s ! b) else scHeap s ! b))"
  using assms
proof (induction as arbitrary: s D)
  case (Cons a as)
  let ?s = "update_entry a (marked now) s"
  have "filter (\<lambda>b. starts now (scHeap ?s ! b)) as = filter (\<lambda>b. starts now (scHeap s ! b)) as"
    using Cons.prems by (intro filter_cong) (auto simp: scHeap_update_entry)
  with Cons.IH[of ?s "D @ (if starts now (scHeap s ! a) then [a] else [])"] Cons.prems
  obtain h where h: "fold (mark_due now) (a # as) (s, D) =
        (?s\<lparr>scHeap := h\<rparr>, D @ filter (\<lambda>b. starts now (scHeap s ! b)) (a # as))"
      "length h = length (scHeap s)"
      "\<forall>b < length h. h ! b = (if b \<in> set as then marked now (scHeap ?s ! b) else scHeap ?s ! b)"
    by (auto simp: mark_due_eq scHeap_update_entry)
  with Cons.prems show ?case
    by (intro exI[of _ h]) (auto simp: scHeap_update_entry, simp add: update_entry_def)
next
  case Nil
  then show ?case by (intro exI[of _ "scHeap s"]) simp
qed

lemma fold_over_snd: "fold (\<lambda>(i, a). f a) js x = fold f (map snd js) x"
  by (induction js arbitrary: x) auto

lemma fold_start_task:
  "fold start_task D s = s\<lparr>scActive := rev D @ scActive s,
     scFired := scFired s @ map (\<lambda>a. (jePoolID (scHeap s ! a), jeLastRun (scHeap s ! a))) D\<rparr>"
  by (induction D arbitrary: s) (simp_all add: start_task_def)

text \<open>The due entries of the map, in the order of the loop.\<close>

definition due_entries :: "gotime \<Rightarrow> nat list \<Rightarrow> scheduler \<Rightarrow> nat list" where
  "due_entries now ord s = filter (\<lambda>a. starts now (scHeap s ! a)) (map snd (go_range ord (scJobs s)))"

lemma addresses_distinct:
  assumes "cron_ok s"
  shows "distinct (map snd (go_range ord (scJobs s)))"
proof -
  have wf: "wf_map (go_range ord (scJobs s))" using assms by (simp add: cron_inv_def)
  then have "inj_on snd (set (go_range ord (scJobs s)))"
    using jobs_allocated[OF assms] by (intro inj_onI) (metis prod.collapse set_go_range)
  with wf show ?thesis by (simp add: distinct_map)
qed

lemma run_fireDueJobs:
  assumes "cron_ok s" "now = clk (scTick s)"
  shows "\<exists>h. exec (fireDueJobs clk ord) s = s\<lparr>scTick := Suc (scTick s), scHeap := h,
       scActive := rev (due_entries now ord s) @ scActive s,
       scFired := scFired s @ map (\<lambda>a. (jePoolID (scHeap s ! a), now)) (due_entries now ord s)\<rparr> \<and>
     length h = length (scHeap s) \<and>
     (\<forall>b < length h. h ! b = (if b \<in> snd ` set (scJobs s) then marked now (scHeap s ! b) else scHeap s ! b))"
proof -
  let ?s = "s\<lparr>scTick := Suc (scTick s)\<rparr>" and ?as = "map snd (go_range ord (scJobs s))"
  have alloc: "\<forall>a \<in> set ?as. a < length (scHeap ?s)" using jobs_allocated[OF assms(1)] by auto
  from fold_mark_due[OF addresses_distinct[OF assms(1)] alloc, of now "[]"] obtain h where
    h: "fold (\<lambda>(i, a). mark_due now a) (go_range ord (scJobs s)) (?s, []) = (?s\<lparr>scHeap := h\<rparr>, due_entries now ord s)"
      "length h = length (scHeap s)"
      "\<forall>b < length h. h ! b = (if b \<in> snd ` set (scJobs s) then marked now (scHeap s ! b) else scHeap s ! b)"
    by (auto simp: due_entries_def fold_over_snd)
  have entry: "jePoolID (h ! a) = jePoolID (scHeap s ! a) \<and> jeLastRun (h ! a) = now" if "a \<in> set (due_entries now ord s)" for a
  proof -
    from that have "a \<in> snd ` set (scJobs s)" "starts now (scHeap s ! a)" by (auto simp: due_entries_def)
    moreover from this(1) have "a < length h" using alloc h(2) by auto
    ultimately show ?thesis using h(3) by (simp add: marked_def starts_def)
  qed
  have "exec (fireDueJobs clk ord) s = fold start_task (due_entries now ord s) (?s\<lparr>scHeap := h\<rparr>)"
    using h(1) assms(2) by (simp add: fireDueJobs_def clock_now_def exec_def Let_def)
  also have "\<dots> = s\<lparr>scTick := Suc (scTick s), scHeap := h, scActive := rev (due_entries now ord s) @ scActive s,
      scFired := scFired s @ map (\<lambda>a. (jePoolID (scHeap s ! a), now)) (due_entries now ord s)\<rparr>"
    using entry by (simp add: fold_start_task cong: map_cong)
  finally show ?thesis using h(2,3) by blast
qed

lemma fireDueJobs_ok: "preserves cron_ok (fireDueJobs clk ord)"
proof (rule preservesI)
  fix s assume ok: "cron_ok s"
  define now where "now = clk (scTick s)"
  from run_fireDueJobs[of s now clk ord, OF ok now_def] obtain h where
    run: "exec (fireDueJobs clk ord) s = s\<lparr>scTick := Suc (scTick s), scHeap := h,
       scActive := rev (due_entries now ord s) @ scActive s,
       scFired := scFired s @ map (\<lambda>a. (jePoolID (scHeap s ! a), now)) (due_entries now ord s)\<rparr>"
    and h: "length h = length (scHeap s)"
      "\<forall>b < length h. h ! b = (if b \<in> snd ` set (scJobs s) then marked now (scHeap s ! b) else scHeap s ! b)"
    by blast
  have pool: "b < length h \<Longrightarrow> jePoolID (h ! b) = jePoolID (scHeap s ! b)" for b
    using h by (simp add: marked_def)
  have running: "b < length h \<Longrightarrow> jeRunning (h ! b) \<longleftrightarrow> jeRunning (scHeap s ! b) \<or> b \<in> set (due_entries now ord s)" for b
    using h by (auto simp: marked_def due_entries_def starts_def)
  have D: "set (due_entries now ord s) \<subseteq> {a. a < length (scHeap s) \<and> \<not> jeRunning (scHeap s ! a)}"
    using jobs_allocated[OF ok] by (auto simp: due_entries_def starts_def)
  have "distinct (due_entries now ord s)" using addresses_distinct[OF ok] by (simp add: due_entries_def)
  with ok D h(1) pool running show "cron_ok (exec (fireDueJobs clk ord) s)"
    unfolding run cron_inv_def by (auto simp del: map_of_eq_Some_iff)
qed

section \<open>Reachable states\<close>

inductive cron_step :: "cron_parser \<Rightarrow> clock \<Rightarrow> scheduler \<Rightarrow> scheduler \<Rightarrow> bool" for parse clk where
  step_register: "cron_step parse clk s (exec (RegisterJob parse clk cfg) s)"
| step_unregister: "cron_step parse clk s (exec (UnregisterJob i) s)"
| step_sync: "cron_step parse clk s (exec (SyncJobs parse clk cfgs) s)"
| step_sync_db: "cron_step parse clk s (exec (SyncFromDB parse clk reader tf lr) s)"
| step_start: "cron_step parse clk s (exec (Start clk ord) s)"
| step_stop: "cron_step parse clk s (exec Stop s)"
| step_wakeup: "scLoop s \<Longrightarrow> scWakeup s \<Longrightarrow> cron_step parse clk s (s\<lparr>scWakeup := False\<rparr>)"
| step_fire: "scLoop s \<Longrightarrow> loop_wait now ord' s \<noteq> None \<Longrightarrow> cron_step parse clk s (exec (fireDueJobs clk ord) s)"
| step_exit: "scLoop s \<Longrightarrow> cron_step parse clk s (s\<lparr>scLoop := False\<rparr>)"
| step_end: "a \<in> set (scActive s) \<Longrightarrow> cron_step parse clk s (end_task a s)"

inductive_cases cron_stepE: "cron_step parse clk s s'"

inductive cron_reach :: "cron_parser \<Rightarrow> clock \<Rightarrow> scheduler \<Rightarrow> bool" for parse clk where
  reach_new: "cron_reach parse clk NewScheduler"
| reach_more: "cron_reach parse clk s \<Longrightarrow> cron_step parse clk s s' \<Longrightarrow> cron_reach parse clk s'"

lemma Stop_ok: "cron_ok s \<Longrightarrow> cron_ok (exec Stop s)"
  by (simp add: Stop_def exec_def cron_inv_def)

lemma cron_step_ok: "cron_step parse clk s s' \<Longrightarrow> cron_ok s \<Longrightarrow> cron_ok s'"
  by (erule cron_stepE)
     (auto simp: cron_inv_frame cron_inv_end Stop_ok
       intro: preservesD[OF RegisterJob_ok] preservesD[OF UnregisterJob_ok] preservesD[OF SyncJobs_ok]
         preservesD[OF SyncFromDB_ok] preservesD[OF Start_ok] preservesD[OF fireDueJobs_ok])

lemma cron_reach_ok: "cron_reach parse clk s \<Longrightarrow> cron_ok s"
  by (induction rule: cron_reach.induct) (auto intro: cron_inv_New cron_step_ok)

lemma count_distinct: "distinct xs \<Longrightarrow> count_list xs a = (if a \<in> set xs then 1 else 0)"
  by (induction xs) auto

text \<open>
  C17. The running marks are exact. In every state that registrations, removals, synchronisations,
  starting, stopping, ticks and the ends of tasks can reach in any order, a job entry is marked as
  running exactly when one goroutine runs its task, and no entry has two; the map holds one entry for
  each pool, of that pool.
\<close>

theorem cron_running_exact:
  assumes "cron_reach parse clk s" "a < length (scHeap s)"
  shows "count_list (scActive s) a = (if jeRunning (scHeap s ! a) then 1 else 0) \<and>
    (\<forall>i b. mget (scJobs s) i = Some b \<longrightarrow> b < length (scHeap s) \<and> jePoolID (scHeap s ! b) = i)"
proof -
  from cron_reach_ok[OF assms(1)] have ok: "distinct (scActive s)" "a \<in> set (scActive s) \<longleftrightarrow> jeRunning (scHeap s ! a)"
    "\<forall>i b. mget (scJobs s) i = Some b \<longrightarrow> b < length (scHeap s) \<and> jePoolID (scHeap s ! b) = i"
    using assms(2) unfolding cron_inv_def by simp_all
  then show ?thesis by (simp add: count_distinct)
qed

definition ex_cfg :: JobConfig where
  "ex_cfg = \<lparr>jcPoolID = 1, jcSchedule = ''@hourly'', jcLastRun = zero_time,
     jcMissedFirePolicy = MissedFirePolicyRunImmediately, jcTask = Some ''renovate''\<rparr>"

definition ex_parse :: cron_parser where
  "ex_parse e = Inr (\<lambda>t. t + 60)"

definition ex_clock :: clock where
  "ex_clock n = 100 * int n"

definition ex_sched :: scheduler where
  "ex_sched = exec (Start ex_clock []) (exec (RegisterJob ex_parse ex_clock ex_cfg) NewScheduler)"

lemma ex_sched_reach: "cron_reach ex_parse ex_clock ex_sched"
  unfolding ex_sched_def by (intro reach_more[OF reach_more[OF reach_new step_register] step_start])

lemma ex_sched_heap: "length (scHeap ex_sched) = 1" "scTick ex_sched = 1"
  by code_simp+

theorem cron_running_exact_witness:
  "count_list (scActive ex_sched) 0 = (if jeRunning (scHeap ex_sched ! 0) then 1 else 0)"
  using cron_running_exact[OF ex_sched_reach, of 0] ex_sched_heap by simp

section \<open>What a tick starts\<close>

text \<open>
  A tick starts exactly the jobs that are due. From any reachable state, \<open>fireDueJobs\<close> starts one
  task for each registered job whose next run has come and that is not running, and for no other; and
  when every schedule's next activation is later than the time asked about, or none, no job is due
  any more afterwards, so that the loop does not spin.
\<close>

theorem fireDueJobs_exact:
  assumes "cron_reach parse clk s" "now = clk (scTick s)"
    and "\<forall>e \<in> set (scHeap s). \<forall>t. IsZero (jeSchedule e t) \<or> t < jeSchedule e t"
  shows "\<exists>D. scFired (exec (fireDueJobs clk ord) s) = scFired s @ map (\<lambda>i. (i, now)) D \<and> distinct D \<and>
      set D = {i. \<exists>a. mget (scJobs s) i = Some a \<and> due now (scHeap s ! a) \<and> \<not> jeRunning (scHeap s ! a)} \<and>
      scJobs (exec (fireDueJobs clk ord) s) = scJobs s \<and>
      (\<forall>i a. mget (scJobs s) i = Some a \<longrightarrow> \<not> due now (scHeap (exec (fireDueJobs clk ord) s) ! a))"
proof -
  note ok = cron_reach_ok[OF assms(1)]
  have jobs: "mget (scJobs s) i = Some a \<Longrightarrow> a < length (scHeap s) \<and> jePoolID (scHeap s ! a) = i" for i a
    using ok unfolding cron_inv_def by blast
  have wf: "wf_map (scJobs s)" using ok by (simp add: cron_inv_def)
  from run_fireDueJobs[of s now clk ord, OF ok assms(2)] obtain h where
    run: "exec (fireDueJobs clk ord) s = s\<lparr>scTick := Suc (scTick s), scHeap := h,
       scActive := rev (due_entries now ord s) @ scActive s,
       scFired := scFired s @ map (\<lambda>a. (jePoolID (scHeap s ! a), now)) (due_entries now ord s)\<rparr>"
    and h: "length h = length (scHeap s)"
      "\<forall>b < length h. h ! b = (if b \<in> snd ` set (scJobs s) then marked now (scHeap s ! b) else scHeap s ! b)"
    by blast
  let ?D = "map (\<lambda>a. jePoolID (scHeap s ! a)) (due_entries now ord s)"
  have "set (due_entries now ord s) =
      {a. \<exists>i. mget (scJobs s) i = Some a \<and> starts now (scHeap s ! a)}"
    using wf by (force simp: due_entries_def)
  then have "set ?D = {i. \<exists>a. mget (scJobs s) i = Some a \<and> due now (scHeap s ! a) \<and> \<not> jeRunning (scHeap s ! a)}"
    using jobs by (fastforce simp: starts_def)
  moreover have "inj_on (\<lambda>a. jePoolID (scHeap s ! a)) (set (due_entries now ord s))"
  proof (rule inj_onI)
    fix a b assume "a \<in> set (due_entries now ord s)" "b \<in> set (due_entries now ord s)"
      and eq: "jePoolID (scHeap s ! a) = jePoolID (scHeap s ! b)"
    then obtain i j where "mget (scJobs s) i = Some a" "mget (scJobs s) j = Some b"
      using wf by (force simp: due_entries_def)
    with jobs[of i a] jobs[of j b] eq show "a = b" by simp
  qed
  then have "distinct ?D" using addresses_distinct[OF ok] by (simp add: distinct_map due_entries_def)
  moreover have "\<not> due now (h ! a)" if "mget (scJobs s) i = Some a" for i a
  proof -
    from that jobs have "a < length h" "scHeap s ! a \<in> set (scHeap s)" using h(1) by auto
    moreover have "a \<in> snd ` set (scJobs s)" using that map_of_SomeD by force
    ultimately have "h ! a = marked now (scHeap s ! a)" using h(2) by simp
    then show ?thesis using assms(3) \<open>scHeap s ! a \<in> set (scHeap s)\<close>
      by (auto simp: marked_def due_def split: if_splits)
  qed
  ultimately show ?thesis by (intro exI[of _ ?D]) (simp add: run)
qed

theorem fireDueJobs_exact_witness:
  "\<exists>D. scFired (exec (fireDueJobs ex_clock []) ex_sched) = scFired ex_sched @ map (\<lambda>i. (i, 100)) D \<and> set D = {1}"
proof -
  have jobs: "scJobs ex_sched = [(1, 0)]" by code_simp
  have entry: "due 100 (scHeap ex_sched ! 0) \<and> \<not> jeRunning (scHeap ex_sched ! 0)" by code_simp
  have "map jeSchedule (scHeap ex_sched) = [\<lambda>t. t + 60]"
    by (simp add: ex_sched_def Start_def RegisterJob_def ParseSchedule_def ex_parse_def ex_cfg_def exec_def
        registration_def clock_now_def NewScheduler_def signalWakeupLocked_def dispatch_pending_def Let_def go_range_def
        mput_simps TrimSpace_def TrimLeft_def TrimRight_def is_space_def IsZero_def)
  then have "\<forall>e \<in> set (scHeap ex_sched). \<forall>t. IsZero (jeSchedule e t) \<or> t < jeSchedule e t"
    by (auto simp: map_eq_Cons_conv)
  moreover have "100 = ex_clock (scTick ex_sched)" by (simp add: ex_clock_def ex_sched_heap)
  moreover have "{i. \<exists>a. mget (scJobs ex_sched) i = Some a \<and> due 100 (scHeap ex_sched ! a) \<and>
      \<not> jeRunning (scHeap ex_sched ! a)} = {1}"
    using entry by (auto simp: jobs split: if_splits)
  ultimately show ?thesis
    using fireDueJobs_exact[OF ex_sched_reach, of 100 "[]"] by metis
qed

text \<open>
  Overlapping runs of one job. Registering a job again while its task runs (as \<open>SyncFromDB\<close> does for
  every enabled pool) replaces the entry that carries the running mark, and the next tick starts the
  same pool's task a second time beside the first.
\<close>

theorem reregistration_overlaps:
  "let s1 = exec (fireDueJobs ex_clock []) ex_sched;
       s2 = exec (RegisterJob ex_parse ex_clock ex_cfg) s1;
       s3 = exec (fireDueJobs ex_clock []) s2
   in length (scActive s1) = 1 \<and> length (scActive s3) = 2 \<and> map fst (scFired s3) = [1, 1]"
  by code_simp

section \<open>Synchronisation with the database\<close>

definition registers :: "cron_parser \<Rightarrow> JobConfig \<Rightarrow> bool" where
  "registers parse cfg \<longleftrightarrow> jcTask cfg \<noteq> None \<and> (\<exists>sched. ParseSchedule parse (jcSchedule cfg) = Inr sched)"

lemma RegisterJob_jobs:
  assumes "\<not> scStopped s"
  shows "HasJob i (exec (RegisterJob parse clk cfg) s) \<longleftrightarrow> HasJob i s \<or> (registers parse cfg \<and> i = jcPoolID cfg)"
    and "\<not> scStopped (exec (RegisterJob parse clk cfg) s)"
  using assms
  by (auto simp: RegisterJob_def exec_def clock_now_def dispatchJobLocked_def signalWakeupLocked_def
      update_entry_def start_task_def HasJob_def registers_def split: option.splits sum.splits)

lemma sync_loop_jobs:
  assumes "\<not> scStopped s"
  shows "HasJob i (exec (for_each cfgs (\<lambda>cfg. do { r \<leftarrow> RegisterJob parse clk (job_of tf lr cfg); skip })) s) \<longleftrightarrow>
    HasJob i s \<or> (\<exists>cfg \<in> set cfgs. registers parse (job_of tf lr cfg) \<and> i = rvPoolID cfg)"
  using assms
proof (induction cfgs arbitrary: s)
  case (Cons cfg cfgs)
  let ?s = "exec (RegisterJob parse clk (job_of tf lr cfg)) s"
  have "exec (for_each (cfg # cfgs) (\<lambda>cfg. do { r \<leftarrow> RegisterJob parse clk (job_of tf lr cfg); skip })) s =
      exec (for_each cfgs (\<lambda>cfg. do { r \<leftarrow> RegisterJob parse clk (job_of tf lr cfg); skip })) ?s"
    by (simp add: exec_def split: prod.splits)
  with Cons.IH[of ?s] RegisterJob_jobs[OF Cons.prems, where parse = parse and clk = clk and cfg = "job_of tf lr cfg"]
  show ?case by (auto simp: job_of_def)
qed (simp add: exec_def)

text \<open>
  The jobs after a synchronisation. When the enabled configurations can be read and the scheduler is
  not stopped, a pool has a job afterwards exactly when an enabled configuration with a schedule exists
  for it and either that schedule is valid or the pool had a job before: an invalid new schedule
  leaves the old job in place, and pools without a configuration lose theirs.
\<close>

theorem SyncFromDB_jobs:
  assumes "\<not> scStopped s"
  shows "HasJob i (exec (SyncFromDB parse clk (Some (Inr configs)) tf lr) s) \<longleftrightarrow>
    (\<exists>cfg \<in> set configs. usable cfg \<and> rvPoolID cfg = i) \<and>
    (HasJob i s \<or> (\<exists>cfg \<in> set configs. usable cfg \<and> rvPoolID cfg = i \<and>
       (\<exists>sched. ParseSchedule parse (the (rvCronSchedule cfg)) = Inr sched)))"
proof -
  let ?loop = "for_each (filter usable configs) (\<lambda>cfg. do { r \<leftarrow> RegisterJob parse clk (job_of tf lr cfg); skip })"
  have "HasJob i (exec (SyncFromDB parse clk (Some (Inr configs)) tf lr) s) \<longleftrightarrow>
      i \<in> set (map rvPoolID (filter usable configs)) \<and> HasJob i (exec ?loop s)"
    by (simp add: SyncFromDB_def keep_jobs_def signalWakeupLocked_def exec_def HasJob_def mget_filter_keys
        split: prod.splits)
  then show ?thesis
    using sync_loop_jobs[OF assms, of i "filter usable configs" parse clk tf lr]
    by (auto simp: registers_def job_of_def)
qed

definition ex_rv :: RenovateConfig where
  "ex_rv = \<lparr>rvPoolID = 7, rvEnabled = True, rvCronSchedule = Some ''0 2 * * *'', rvImage = ''img''\<rparr>"

theorem SyncFromDB_jobs_witness:
  "HasJob 7 (exec (SyncFromDB ex_parse ex_clock (Some (Inr [ex_rv])) None None) ex_sched) \<and>
   \<not> HasJob 1 (exec (SyncFromDB ex_parse ex_clock (Some (Inr [ex_rv])) None None) ex_sched)"
proof -
  have run: "\<not> scStopped ex_sched" by code_simp
  have "\<exists>sched. ParseSchedule ex_parse ''0 2 * * *'' = Inr sched"
    by (simp add: ParseSchedule_def ex_parse_def Let_def TrimSpace_def TrimLeft_def TrimRight_def is_space_def)
  then show ?thesis
    using SyncFromDB_jobs[OF run, of 7 ex_parse ex_clock "[ex_rv]" None None]
      SyncFromDB_jobs[OF run, of 1 ex_parse ex_clock "[ex_rv]" None None]
    by (simp add: ex_rv_def usable_def)
qed

end
