(* ===== verification/Pool_Store.thy ===== *)
theory Pool_Store
  imports Controller Cron_Scheduler "HOL-Library.Char_ord" "HOL-Library.List_Lexorder"
begin

text \<open>
  The tables of the supervisor's database that hold pools, and the queries on them
  (\<open>src/internal/db/runner_pools.sql.go\<close>, \<open>pool_targets.sql.go\<close>, \<open>renovate_configs.sql.go\<close> and the insertion
  of \<open>audit_logs.sql.go\<close>), with the constraints that the migrations declare: primary keys that only grow,
  unique names, checked columns, foreign keys and cascading deletes. Every statement may also fail for a
  reason of its own (the database is locked, the context is done): \<open>fail\<close>, asked with the number of the
  statement, decides, and a failed statement changes nothing. A statement's time is \<open>dbClock\<close>.
\<close>

section \<open>Tables\<close>

datatype detail = DString string | DInt int | DBool bool

record audit_row =
  alUserID :: "int option"
  alAction :: string
  alResourceType :: "string option"
  alResourceID :: "int option"
  alDetails :: "(string \<times> detail) list"

record pool_tables =
  tPools :: "RunnerPool list"
  tTargets :: "PoolTarget list"
  tRenovate :: "RenovateConfig list"
  tProfiles :: "int list"
  tAudit :: "audit_row list"
  tNextPool :: int
  tNextTarget :: int
  tTick :: nat
  tReloads :: nat

datatype db_error = ErrNoRows | ForeignKey | UniqueConstraint | CheckConstraint | DbFailure string

record db_env =
  dbFail :: "nat \<Rightarrow> string option"
  dbClock :: "nat \<Rightarrow> gotime"

text \<open>One statement: it fails as a whole, or runs on the tables.\<close>

definition statement ::
  "db_env \<Rightarrow> (gotime \<Rightarrow> pool_tables \<Rightarrow> (db_error + 'a) \<times> pool_tables) \<Rightarrow> (pool_tables, db_error + 'a) state" where
  "statement env f = do {
     n \<leftarrow> gets tTick;
     modify (\<lambda>t. t\<lparr>tTick := Suc n\<rparr>);
     case dbFail env n of
       Some err \<Rightarrow> State_Monad.return (Inl (DbFailure err))
     | None \<Rightarrow> do {
         t \<leftarrow> gets (\<lambda>t. t);
         let (r, t') = f (dbClock env n) t;
         (case r of Inl _ \<Rightarrow> skip | Inr _ \<Rightarrow> modify (\<lambda>_. t'));
         State_Monad.return r
       }
   }"

section \<open>Pools\<close>

definition pool_checked :: "RunnerPool \<Rightarrow> bool" where
  "pool_checked p \<longleftrightarrow> pProvider p \<in> {''github'', ''gitea'', ''forgejo''} \<and> pScope p \<in> {''repo'', ''org'', ''global''}"

definition find_pool :: "int \<Rightarrow> pool_tables \<Rightarrow> RunnerPool option" where
  "find_pool i t = find (\<lambda>p. pID p = i) (tPools t)"

text \<open>The row to insert, whose id and times are still to be set.\<close>

definition CreateRunnerPool :: "db_env \<Rightarrow> RunnerPool \<Rightarrow> (pool_tables, db_error + RunnerPool) state" where
  "CreateRunnerPool env arg = statement env (\<lambda>now t.
     if \<not> pool_checked arg then (Inl CheckConstraint, t)
     else if pName arg \<in> pName ` set (tPools t) then (Inl UniqueConstraint, t)
     else if pAuthProfileID arg \<notin> set (tProfiles t) then (Inl ForeignKey, t)
     else (let row = arg\<lparr>pID := tNextPool t, pCreatedAt := now, pUpdatedAt := now\<rparr>
           in (Inr row, t\<lparr>tPools := tPools t @ [row], tNextPool := tNextPool t + 1\<rparr>)))"

definition GetRunnerPoolById :: "db_env \<Rightarrow> int \<Rightarrow> (pool_tables, db_error + RunnerPool) state" where
  "GetRunnerPoolById env i = statement env (\<lambda>now t.
     (case find_pool i t of None \<Rightarrow> (Inl ErrNoRows, t) | Some p \<Rightarrow> (Inr p, t)))"

definition ListRunnerPools :: "db_env \<Rightarrow> (pool_tables, db_error + RunnerPool list) state" where
  "ListRunnerPools env = statement env (\<lambda>now t. (Inr (sort_key pName (tPools t)), t))"

definition replace_pool :: "RunnerPool \<Rightarrow> RunnerPool list \<Rightarrow> RunnerPool list" where
  "replace_pool row ps = map (\<lambda>p. if pID p = pID row then row else p) ps"

definition UpdateRunnerPool :: "db_env \<Rightarrow> RunnerPool \<Rightarrow> (pool_tables, db_error + RunnerPool) state" where
  "UpdateRunnerPool env arg = statement env (\<lambda>now t.
     case find_pool (pID arg) t of
       None \<Rightarrow> (Inl ErrNoRows, t)
     | Some old \<Rightarrow>
         if \<not> pool_checked arg then (Inl CheckConstraint, t)
         else if \<exists>p \<in> set (tPools t). pID p \<noteq> pID arg \<and> pName p = pName arg then (Inl UniqueConstraint, t)
         else if pAuthProfileID arg \<notin> set (tProfiles t) then (Inl ForeignKey, t)
         else (let row = arg\<lparr>pCreatedAt := pCreatedAt old, pUpdatedAt := now\<rparr>
               in (Inr row, t\<lparr>tPools := replace_pool row (tPools t)\<rparr>)))"

text \<open>The deletion cascades to the targets and to the Renovate configuration of the pool.\<close>

definition DeleteRunnerPool :: "db_env \<Rightarrow> int \<Rightarrow> (pool_tables, db_error + unit) state" where
  "DeleteRunnerPool env i = statement env (\<lambda>now t.
     (Inr (), t\<lparr>tPools := filter (\<lambda>p. pID p \<noteq> i) (tPools t),
                tTargets := filter (\<lambda>x. ptPoolID x \<noteq> i) (tTargets t),
                tRenovate := filter (\<lambda>x. rvPoolID x \<noteq> i) (tRenovate t)\<rparr>))"

section \<open>Targets and Renovate configurations\<close>

definition AddPoolTarget :: "db_env \<Rightarrow> int \<Rightarrow> string \<Rightarrow> (pool_tables, db_error + PoolTarget) state" where
  "AddPoolTarget env i url = statement env (\<lambda>now t.
     if \<exists>x \<in> set (tTargets t). ptPoolID x = i \<and> ptTargetUrl x = url then (Inl UniqueConstraint, t)
     else if find_pool i t = None then (Inl ForeignKey, t)
     else (let row = \<lparr>ptID = tNextTarget t, ptPoolID = i, ptTargetUrl = url, ptCreatedAt = now\<rparr>
           in (Inr row, t\<lparr>tTargets := tTargets t @ [row], tNextTarget := tNextTarget t + 1\<rparr>)))"

definition ListPoolTargetsByPoolId :: "db_env \<Rightarrow> int \<Rightarrow> (pool_tables, db_error + PoolTarget list) state" where
  "ListPoolTargetsByPoolId env i = statement env (\<lambda>now t.
     (Inr (sort_key ptTargetUrl (filter (\<lambda>x. ptPoolID x = i) (tTargets t))), t))"

definition DeletePoolTargetsByPoolId :: "db_env \<Rightarrow> int \<Rightarrow> (pool_tables, db_error + unit) state" where
  "DeletePoolTargetsByPoolId env i = statement env (\<lambda>now t.
     (Inr (), t\<lparr>tTargets := filter (\<lambda>x. ptPoolID x \<noteq> i) (tTargets t)\<rparr>))"

definition find_renovate :: "int \<Rightarrow> pool_tables \<Rightarrow> RenovateConfig option" where
  "find_renovate i t = find (\<lambda>x. rvPoolID x = i) (tRenovate t)"

definition GetRenovateConfigByPoolId :: "db_env \<Rightarrow> int \<Rightarrow> (pool_tables, db_error + RenovateConfig) state" where
  "GetRenovateConfigByPoolId env i = statement env (\<lambda>now t.
     (case find_renovate i t of None \<Rightarrow> (Inl ErrNoRows, t) | Some x \<Rightarrow> (Inr x, t)))"

definition CreateRenovateConfig :: "db_env \<Rightarrow> RenovateConfig \<Rightarrow> (pool_tables, db_error + RenovateConfig) state" where
  "CreateRenovateConfig env row = statement env (\<lambda>now t.
     if find_renovate (rvPoolID row) t \<noteq> None then (Inl UniqueConstraint, t)
     else if find_pool (rvPoolID row) t = None then (Inl ForeignKey, t)
     else (Inr row, t\<lparr>tRenovate := tRenovate t @ [row]\<rparr>))"

definition UpdateRenovateConfig :: "db_env \<Rightarrow> RenovateConfig \<Rightarrow> (pool_tables, db_error + RenovateConfig) state" where
  "UpdateRenovateConfig env row = statement env (\<lambda>now t.
     if find_renovate (rvPoolID row) t = None then (Inl ErrNoRows, t)
     else (Inr row, t\<lparr>tRenovate := map (\<lambda>x. if rvPoolID x = rvPoolID row then row else x) (tRenovate t)\<rparr>))"

definition ListEnabledRenovateConfigs :: "db_env \<Rightarrow> (pool_tables, db_error + RenovateConfig list) state" where
  "ListEnabledRenovateConfigs env = statement env (\<lambda>now t. (Inr (sort_key rvPoolID (filter rvEnabled (tRenovate t))), t))"

definition CreateAuditLog :: "db_env \<Rightarrow> audit_row \<Rightarrow> (pool_tables, db_error + unit) state" where
  "CreateAuditLog env row = statement env (\<lambda>now t. (Inr (), t\<lparr>tAudit := tAudit t @ [row]\<rparr>))"

section \<open>Consistency\<close>

definition tables_ok :: "pool_tables \<Rightarrow> bool" where
  "tables_ok t \<longleftrightarrow>
     distinct (map pID (tPools t)) \<and> distinct (map pName (tPools t)) \<and>
     (\<forall>p \<in> set (tPools t). 0 < pID p \<and> pID p < tNextPool t \<and> pool_checked p \<and> pAuthProfileID p \<in> set (tProfiles t)) \<and>
     0 < tNextPool t \<and>
     (\<forall>x \<in> set (tTargets t). ptPoolID x \<in> pID ` set (tPools t)) \<and>
     distinct (map (\<lambda>x. (ptPoolID x, ptTargetUrl x)) (tTargets t)) \<and>
     (\<forall>x \<in> set (tRenovate t). rvPoolID x \<in> pID ` set (tPools t)) \<and> distinct (map rvPoolID (tRenovate t))"

lemma tables_ok_frame:
  "tables_ok (t\<lparr>tTick := n\<rparr>) = tables_ok t" "tables_ok (t\<lparr>tAudit := a\<rparr>) = tables_ok t"
  "tables_ok (t\<lparr>tReloads := r\<rparr>) = tables_ok t"
  by (simp_all add: tables_ok_def)

lemma find_pool_None: "find_pool i t = None \<longleftrightarrow> i \<notin> pID ` set (tPools t)"
  by (auto simp: find_pool_def find_None_iff)

lemma find_pool_Some: "find_pool i t = Some p \<Longrightarrow> p \<in> set (tPools t) \<and> pID p = i"
  by (auto simp: find_pool_def find_Some_iff)

lemma find_renovate_None: "find_renovate i t = None \<longleftrightarrow> i \<notin> rvPoolID ` set (tRenovate t)"
  by (auto simp: find_renovate_def find_None_iff)

text \<open>A statement keeps the tables consistent when its effect on the rows does.\<close>

lemma statement_ok:
  assumes "\<And>now t r t'. tables_ok t \<Longrightarrow> f now t = (Inr r, t') \<Longrightarrow> tables_ok t'"
  shows "preserves tables_ok (statement env f)"
proof (rule preservesI)
  fix t assume ok: "tables_ok t"
  show "tables_ok (exec (statement env f) t)"
    using ok assms[of "t\<lparr>tTick := Suc (tTick t)\<rparr>"]
    by (auto simp: statement_def exec_def tables_ok_frame Let_def split: option.splits prod.splits sum.splits)
qed

lemma CreateRunnerPool_ok [keeps]: "preserves tables_ok (CreateRunnerPool env arg)"
  unfolding CreateRunnerPool_def
  by (rule statement_ok) (fastforce simp: tables_ok_def pool_checked_def Let_def split: if_splits)

lemma map_replace_pool:
  "map pID (replace_pool row ps) = map pID ps" "set (replace_pool row ps) \<subseteq> insert row (set ps)"
  by (induction ps) (auto simp: replace_pool_def)

lemma distinct_replaced_names:
  assumes "distinct (map pID ps)" "distinct (map pName ps)"
    and "\<forall>p \<in> set ps. pID p \<noteq> pID row \<longrightarrow> pName p \<noteq> pName row"
  shows "distinct (map pName (replace_pool row ps))"
  using assms
proof (induction ps)
  case (Cons p ps)
  then have IH: "distinct (map pName (replace_pool row ps))" by simp
  show ?case
  proof (cases "pID p = pID row")
    case True
    with Cons.prems(1) have "pID row \<notin> pID ` set ps" by simp
    then have "\<forall>x \<in> set ps. pID x \<noteq> pID row" by (metis imageI)
    then have "replace_pool row ps = ps" by (auto simp: replace_pool_def intro: map_idI)
    moreover from \<open>\<forall>x \<in> set ps. pID x \<noteq> pID row\<close> have "pName row \<notin> pName ` set ps" using Cons.prems(3) by auto
    ultimately show ?thesis using True IH by (simp add: replace_pool_def)
  next
    case False
    with Cons.prems have "pName p \<noteq> pName row" "pName p \<notin> pName ` set ps" by auto
    then have "pName p \<notin> pName ` set (replace_pool row ps)" using map_replace_pool(2)[of row ps] by blast
    moreover have "replace_pool row (p # ps) = p # replace_pool row ps" using False by (simp add: replace_pool_def)
    ultimately show ?thesis using IH by simp
  qed
qed (simp add: replace_pool_def)

lemma UpdateRunnerPool_ok [keeps]: "preserves tables_ok (UpdateRunnerPool env arg)"
  unfolding UpdateRunnerPool_def
proof (rule statement_ok)
  fix now t r t'
  assume ok: "tables_ok t" and run: "(case find_pool (pID arg) t of
       None \<Rightarrow> (Inl ErrNoRows, t)
     | Some old \<Rightarrow>
         if \<not> pool_checked arg then (Inl CheckConstraint, t)
         else if \<exists>p \<in> set (tPools t). pID p \<noteq> pID arg \<and> pName p = pName arg then (Inl UniqueConstraint, t)
         else if pAuthProfileID arg \<notin> set (tProfiles t) then (Inl ForeignKey, t)
         else (let row = arg\<lparr>pCreatedAt := pCreatedAt old, pUpdatedAt := now\<rparr>
               in (Inr row, t\<lparr>tPools := replace_pool row (tPools t)\<rparr>))) = (Inr r, t')"
  then obtain old where old: "find_pool (pID arg) t = Some old" by (cases "find_pool (pID arg) t") auto
  define row where "row = arg\<lparr>pCreatedAt := pCreatedAt old, pUpdatedAt := now\<rparr>"
  from run old have t': "t' = t\<lparr>tPools := replace_pool row (tPools t)\<rparr>" and checks: "pool_checked row"
    "\<forall>p \<in> set (tPools t). pID p \<noteq> pID row \<longrightarrow> pName p \<noteq> pName row" "pAuthProfileID row \<in> set (tProfiles t)"
    by (auto simp: row_def pool_checked_def Let_def split: if_splits)
  have "0 < pID row" "pID row < tNextPool t"
    using find_pool_Some[OF old] ok by (auto simp: tables_ok_def row_def)
  moreover have "pID ` set (replace_pool row (tPools t)) = pID ` set (tPools t)"
    using map_replace_pool(1)[of row "tPools t"] by (metis list.set_map)
  ultimately show "tables_ok t'"
    using ok checks map_replace_pool[of row "tPools t"] distinct_replaced_names[OF _ _ checks(2)]
    unfolding t' tables_ok_def by (auto dest!: subsetD)
qed

lemma image_filter_neq: "x \<in> f ` A \<Longrightarrow> x \<noteq> i \<Longrightarrow> x \<in> f ` {y \<in> A. f y \<noteq> i}"
  by blast

lemma DeleteRunnerPool_ok [keeps]: "preserves tables_ok (DeleteRunnerPool env i)"
  unfolding DeleteRunnerPool_def
  by (rule statement_ok) (auto simp: tables_ok_def distinct_map_filter intro!: image_filter_neq)

lemma AddPoolTarget_ok [keeps]: "preserves tables_ok (AddPoolTarget env i url)"
  unfolding AddPoolTarget_def
  by (rule statement_ok) (auto simp: tables_ok_def find_pool_None Let_def split: if_splits)

lemma DeletePoolTargets_ok [keeps]: "preserves tables_ok (DeletePoolTargetsByPoolId env i)"
  unfolding DeletePoolTargetsByPoolId_def
  by (rule statement_ok) (auto simp: tables_ok_def distinct_map_filter)

lemma CreateRenovateConfig_ok [keeps]: "preserves tables_ok (CreateRenovateConfig env row)"
  unfolding CreateRenovateConfig_def
  by (rule statement_ok) (auto simp: tables_ok_def find_pool_None find_renovate_None split: if_splits)

lemma UpdateRenovateConfig_ok [keeps]: "preserves tables_ok (UpdateRenovateConfig env row)"
  unfolding UpdateRenovateConfig_def
proof (rule statement_ok)
  fix now t r t'
  assume "tables_ok t" "(if find_renovate (rvPoolID row) t = None then (Inl ErrNoRows, t)
     else (Inr row, t\<lparr>tRenovate := map (\<lambda>x. if rvPoolID x = rvPoolID row then row else x) (tRenovate t)\<rparr>)) = (Inr r, t')"
  then obtain ok: "tables_ok t" and t': "t' = t\<lparr>tRenovate := map (\<lambda>x. if rvPoolID x = rvPoolID row then row else x) (tRenovate t)\<rparr>"
    by (auto split: if_splits)
  have ids: "map rvPoolID (map (\<lambda>x. if rvPoolID x = rvPoolID row then row else x) xs) = map rvPoolID xs" for xs
    by (induction xs) auto
  then have "rvPoolID ` set (map (\<lambda>x. if rvPoolID x = rvPoolID row then row else x) (tRenovate t)) = rvPoolID ` set (tRenovate t)"
    by (metis list.set_map)
  then have "rvPoolID x \<in> pID ` set (tPools t)"
    if "x \<in> set (map (\<lambda>x. if rvPoolID x = rvPoolID row then row else x) (tRenovate t))" for x
    using ok that unfolding tables_ok_def by (metis (no_types, lifting) imageE imageI)
  with ok show "tables_ok t'" using ids[of "tRenovate t"] by (simp add: t' tables_ok_def del: set_map map_map)
qed

lemma CreateAuditLog_ok [keeps]: "preserves tables_ok (CreateAuditLog env row)"
  unfolding CreateAuditLog_def by (rule statement_ok) (auto simp: tables_ok_frame)

lemma reads_ok [keeps]:
  "preserves tables_ok (GetRunnerPoolById env i)" "preserves tables_ok (ListRunnerPools env)"
  "preserves tables_ok (ListPoolTargetsByPoolId env i)" "preserves tables_ok (GetRenovateConfigByPoolId env i)"
  "preserves tables_ok (ListEnabledRenovateConfigs env)"
  unfolding GetRunnerPoolById_def ListRunnerPools_def ListPoolTargetsByPoolId_def GetRenovateConfigByPoolId_def
    ListEnabledRenovateConfigs_def
  by (rule statement_ok; auto split: option.splits)+

end
