(* ===== verification/Pool_Service.thy ===== *)
theory Pool_Service
  imports Pool_Store Go_Url
begin

text \<open>
  \<open>src/internal/server/pool.go\<close>: the API service that creates, updates, deletes and lists pools, over the
  tables of \<open>Pool_Store\<close>, and the recording of audit rows (\<open>src/internal/server/audit.go\<close>). The statistics
  provider (the pool controller) is the function \<open>stats\<close>, with \<open>None\<close> for nil; its \<open>Reload\<close> is counted
  in \<open>tReloads\<close>. The user of the request's context is an argument. Error texts are left out, the
  code of an error and what it is about are kept.
\<close>

section \<open>Messages\<close>

record proto_renovate =
  prEnabled :: bool
  prCronSchedule :: string
  prImage :: string

record proto_pool =
  ppId :: int
  ppName :: string
  ppProvider :: string
  ppRepositoryUrl :: string
  ppMinIdleRunners :: int
  ppMaxConcurrency :: int
  ppLabels :: "string list"
  ppRunnerImage :: string
  ppAllowDocker :: bool
  ppAuthProfileId :: int
  ppScope :: string
  ppCpuLimit :: string
  ppMemoryLimit :: string
  ppMaxRunnerLifetimeSeconds :: int
  ppTargetUrls :: "string list"
  ppActiveRunners :: int
  ppIdleRunners :: int
  ppRenovate :: "proto_renovate option"

datatype connect_error = InvalidArgument string | CodeNotFound db_error | CodeInternal db_error

text \<open>\<open>int32(x)\<close>.\<close>

definition wrap32 :: "int \<Rightarrow> int" where
  "wrap32 x = (x + 2 ^ 31) mod 2 ^ 32 - 2 ^ 31"

definition parseLabels :: "string \<Rightarrow> string list" where
  "parseLabels raw =
     (if TrimSpace raw = [] then [] else filter (\<lambda>t. t \<noteq> []) (map TrimSpace (Split raw (CHR '',''))))"

definition null_string :: "string option \<Rightarrow> string" where
  "null_string s = (case s of None \<Rightarrow> [] | Some v \<Rightarrow> v)"

definition ConvertDBPoolToProto :: "RunnerPool \<Rightarrow> (string \<Rightarrow> int \<times> int) option \<Rightarrow> proto_pool" where
  "ConvertDBPoolToProto p stats =
     \<lparr>ppId = pID p, ppName = pName p, ppProvider = pProvider p, ppRepositoryUrl = pRepositoryUrl p,
      ppMinIdleRunners = wrap32 (pMinIdleRunners p), ppMaxConcurrency = wrap32 (pMaxConcurrency p),
      ppLabels = parseLabels (pLabels p), ppRunnerImage = pRunnerImage p, ppAllowDocker = pAllowDocker p,
      ppAuthProfileId = pAuthProfileID p, ppScope = pScope p, ppCpuLimit = null_string (pCpuLimit p),
      ppMemoryLimit = null_string (pMemoryLimit p),
      ppMaxRunnerLifetimeSeconds = wrap32 (pMaxRunnerLifetimeSeconds p),
      ppTargetUrls = (if pRepositoryUrl p \<noteq> [] then [pRepositoryUrl p] else []),
      ppActiveRunners = (case stats of None \<Rightarrow> 0 | Some f \<Rightarrow> fst (f (pName p))),
      ppIdleRunners = (case stats of None \<Rightarrow> 0 | Some f \<Rightarrow> snd (f (pName p))), ppRenovate = None\<rparr>"

definition toProto :: "db_env \<Rightarrow> (string \<Rightarrow> int \<times> int) option \<Rightarrow> RunnerPool \<Rightarrow> (pool_tables, proto_pool) state" where
  "toProto env stats p = do {
     cfg \<leftarrow> GetRenovateConfigByPoolId env (pID p);
     targets \<leftarrow> ListPoolTargetsByPoolId env (pID p);
     let proto = ConvertDBPoolToProto p stats;
     let proto1 = (case cfg of
         Inl _ \<Rightarrow> proto
       | Inr c \<Rightarrow> proto\<lparr>ppRenovate := Some \<lparr>prEnabled = rvEnabled c, prCronSchedule = null_string (rvCronSchedule c),
           prImage = rvImage c\<rparr>\<rparr>);
     State_Monad.return (case targets of
         Inr ts \<Rightarrow> if ts \<noteq> [] then proto1\<lparr>ppTargetUrls := map ptTargetUrl ts\<rparr>
                    else if pRepositoryUrl p \<noteq> [] then proto1\<lparr>ppTargetUrls := [pRepositoryUrl p]\<rparr> else proto1
       | Inl _ \<Rightarrow> if pRepositoryUrl p \<noteq> [] then proto1\<lparr>ppTargetUrls := [pRepositoryUrl p]\<rparr> else proto1)
   }"

section \<open>Validation\<close>

definition lower_trim :: "string \<Rightarrow> string" where
  "lower_trim s = ToLower (TrimSpace s)"

text \<open>One target of the loop: \<open>None\<close> when it is accepted (or blank, and skipped).\<close>

definition check_target :: "string \<Rightarrow> string \<Rightarrow> connect_error option" where
  "check_target scope target =
     (let t = TrimSpace target in
      if t = [] then None
      else (case Parse t of
              None \<Rightarrow> Some (InvalidArgument target)
            | Some u \<Rightarrow>
                if uHost u = [] then Some (InvalidArgument target)
                else (let trimmedPath = TrimChar (uPath u) (CHR ''/''); parts = Split trimmedPath (CHR ''/'') in
                      if scope = ''repo'' \<and> (trimmedPath = [] \<or> length parts < 2) then Some (InvalidArgument target)
                      else if scope = ''org'' \<and> length parts \<ge> 2 then Some (InvalidArgument target)
                      else None)))"

fun check_targets :: "string \<Rightarrow> string list \<Rightarrow> connect_error option" where
  "check_targets scope [] = None"
| "check_targets scope (t # ts) = (case check_target scope t of Some e \<Rightarrow> Some e | None \<Rightarrow> check_targets scope ts)"

definition check_renovate :: "cron_parser \<Rightarrow> proto_renovate option \<Rightarrow> connect_error option" where
  "check_renovate parse rv =
     (case rv of
        None \<Rightarrow> None
      | Some r \<Rightarrow>
          if prEnabled r \<and> TrimSpace (prCronSchedule r) \<noteq> []
          then (case ParseSchedule parse (TrimSpace (prCronSchedule r)) of
                  Inl _ \<Rightarrow> Some (InvalidArgument ''renovate'') | Inr _ \<Rightarrow> None)
          else None)"

text \<open>
  The validation also fills in the repository URL from the first target (the pool is passed by
  reference), so it returns the pool.
\<close>

definition validatePoolInput :: "cron_parser \<Rightarrow> proto_pool option \<Rightarrow> connect_error + proto_pool" where
  "validatePoolInput parse pool =
     (case pool of
        None \<Rightarrow> Inl (InvalidArgument ''pool'')
      | Some p0 \<Rightarrow>
        if TrimSpace (ppName p0) = [] then Inl (InvalidArgument ''name'')
        else (let prov = lower_trim (ppProvider p0) in
          if prov \<notin> {''github'', ''gitea'', ''forgejo''} then Inl (InvalidArgument ''provider'')
          else if TrimSpace (ppRepositoryUrl p0) = [] \<and> ppTargetUrls p0 = [] then Inl (InvalidArgument ''repository_url'')
          else (let p = (if TrimSpace (ppRepositoryUrl p0) = []
                         then p0\<lparr>ppRepositoryUrl := TrimSpace (hd (ppTargetUrls p0))\<rparr> else p0);
                    scope = (if lower_trim (ppScope p) = [] then ''repo'' else lower_trim (ppScope p)) in
            if scope \<notin> {''repo'', ''org'', ''global''} then Inl (InvalidArgument ''scope'')
            else (let targets = (if ppTargetUrls p = [] \<and> ppRepositoryUrl p \<noteq> [] then [ppRepositoryUrl p] else ppTargetUrls p) in
              case check_targets scope targets of
                Some e \<Rightarrow> Inl e
              | None \<Rightarrow>
                if prov \<in> {''gitea'', ''forgejo''} \<and> \<not> ppAllowDocker p then Inl (InvalidArgument ''allow_docker'')
                else if ppAuthProfileId p \<le> 0 then Inl (InvalidArgument ''auth_profile_id'')
                else if ppMinIdleRunners p < 0 then Inl (InvalidArgument ''min_idle_runners'')
                else if ppMaxConcurrency p < 0 then Inl (InvalidArgument ''max_concurrency'')
                else if ppMaxRunnerLifetimeSeconds p < 0 then Inl (InvalidArgument ''max_runner_lifetime_seconds'')
                else (case check_renovate parse (ppRenovate p) of Some e \<Rightarrow> Inl e | None \<Rightarrow> Inr p)))))"

section \<open>Audit rows\<close>

definition positive_id :: "int option \<Rightarrow> int option" where
  "positive_id i = (case i of None \<Rightarrow> None | Some n \<Rightarrow> if n > 0 then Some n else None)"

definition RecordAuditLogWithUser ::
  "db_env \<Rightarrow> int option \<Rightarrow> string \<Rightarrow> string \<Rightarrow> int option \<Rightarrow> (string \<times> detail) list \<Rightarrow> (pool_tables, unit) state" where
  "RecordAuditLogWithUser env user action resourceType resourceID details = do {
     r \<leftarrow> CreateAuditLog env
       \<lparr>alUserID = positive_id user, alAction = action,
        alResourceType = (if resourceType \<noteq> [] then Some resourceType else None),
        alResourceID = positive_id resourceID, alDetails = details\<rparr>;
     skip
   }"

definition reload :: "(string \<Rightarrow> int \<times> int) option \<Rightarrow> (pool_tables, unit) state" where
  "reload stats = (if stats \<noteq> None then modify (\<lambda>t. t\<lparr>tReloads := Suc (tReloads t)\<rparr>) else skip)"

section \<open>Operations\<close>

text \<open>The row of a pool message; \<open>created_at\<close> and \<open>updated_at\<close> are set by the statement.\<close>

definition pool_row :: "string \<Rightarrow> proto_pool \<Rightarrow> RunnerPool" where
  "pool_row scope pool =
     \<lparr>pID = ppId pool, pName = TrimSpace (ppName pool), pProvider = lower_trim (ppProvider pool),
      pRepositoryUrl = TrimSpace (ppRepositoryUrl pool), pScope = scope, pAuthProfileID = ppAuthProfileId pool,
      pMinIdleRunners = ppMinIdleRunners pool, pMaxConcurrency = ppMaxConcurrency pool,
      pLabels = Join (ppLabels pool) '','', pRunnerImage = TrimSpace (ppRunnerImage pool),
      pAllowDocker = ppAllowDocker pool, pMaxRunnerLifetimeSeconds = ppMaxRunnerLifetimeSeconds pool,
      pCpuLimit = (if ppCpuLimit pool \<noteq> [] then Some (ppCpuLimit pool) else None),
      pMemoryLimit = (if ppMemoryLimit pool \<noteq> [] then Some (ppMemoryLimit pool) else None),
      pCreatedAt = zero_time, pUpdatedAt = zero_time\<rparr>"

definition store_error :: "db_error \<Rightarrow> connect_error" where
  "store_error err = (if err = ForeignKey then InvalidArgument ''auth_profile_id'' else CodeInternal err)"

definition renovate_row :: "int \<Rightarrow> proto_renovate \<Rightarrow> RenovateConfig" where
  "renovate_row i r =
     (let img = TrimSpace (prImage r); cronSched = TrimSpace (prCronSchedule r)
      in \<lparr>rvPoolID = i, rvEnabled = prEnabled r, rvCronSchedule = (if cronSched \<noteq> [] then Some cronSched else None),
          rvImage = (if img = [] then ''renovate/renovate:latest'' else img)\<rparr>)"

definition target_list :: "proto_pool \<Rightarrow> RunnerPool \<Rightarrow> string list" where
  "target_list pool row =
     (if ppTargetUrls pool = [] \<and> pRepositoryUrl row \<noteq> [] then [pRepositoryUrl row] else ppTargetUrls pool)"

definition add_targets :: "db_env \<Rightarrow> int \<Rightarrow> string list \<Rightarrow> (pool_tables, unit) state" where
  "add_targets env i urls =
     for_each (filter (\<lambda>t. t \<noteq> []) (map TrimSpace urls)) (\<lambda>t. do { r \<leftarrow> AddPoolTarget env i t; skip })"

definition CreatePool ::
  "db_env \<Rightarrow> cron_parser \<Rightarrow> (string \<Rightarrow> int \<times> int) option \<Rightarrow> int option \<Rightarrow> proto_pool option \<Rightarrow>
   (pool_tables, connect_error + proto_pool) state" where
  "CreatePool env parse stats user req =
     (case validatePoolInput parse req of
        Inl e \<Rightarrow> State_Monad.return (Inl e)
      | Inr pool \<Rightarrow> do {
          let scope = (if TrimSpace (ppScope pool) = [] then ''repo'' else TrimSpace (ppScope pool));
          r \<leftarrow> CreateRunnerPool env (pool_row scope pool);
          case r of
            Inl err \<Rightarrow> State_Monad.return (Inl (store_error err))
          | Inr created \<Rightarrow>
            (case check_renovate parse (ppRenovate pool) of
               Some e \<Rightarrow> State_Monad.return (Inl e)
             | None \<Rightarrow> do {
              (case ppRenovate pool of
                 None \<Rightarrow> skip
               | Some rv \<Rightarrow> do { x \<leftarrow> CreateRenovateConfig env (renovate_row (pID created) rv); skip });
              add_targets env (pID created) (target_list pool created);
              RecordAuditLogWithUser env user ''pool.create'' ''runner_pool'' (Some (pID created))
                [(''name'', DString (pName created)), (''provider'', DString (pProvider created)),
                 (''repository_url'', DString (pRepositoryUrl created)), (''scope'', DString (pScope created)),
                 (''min_idle'', DInt (pMinIdleRunners created)), (''max_concurrency'', DInt (pMaxConcurrency created))];
              reload stats;
              proto \<leftarrow> toProto env stats created;
              State_Monad.return (Inr proto)
            })
        })"

definition UpdatePool ::
  "db_env \<Rightarrow> cron_parser \<Rightarrow> (string \<Rightarrow> int \<times> int) option \<Rightarrow> int option \<Rightarrow> proto_pool option \<Rightarrow>
   (pool_tables, connect_error + proto_pool) state" where
  "UpdatePool env parse stats user req =
     (case validatePoolInput parse req of
        Inl e \<Rightarrow> State_Monad.return (Inl e)
      | Inr pool \<Rightarrow>
        if ppId pool \<le> 0 then State_Monad.return (Inl (InvalidArgument ''id''))
        else do {
          ex \<leftarrow> GetRunnerPoolById env (ppId pool);
          case ex of
            Inl err \<Rightarrow> State_Monad.return (Inl (CodeNotFound err))
          | Inr existing \<Rightarrow> do {
              let scope = (if TrimSpace (ppScope pool) = [] then pScope existing else TrimSpace (ppScope pool));
              r \<leftarrow> UpdateRunnerPool env (pool_row scope pool);
              case r of
                Inl err \<Rightarrow> State_Monad.return (Inl (store_error err))
              | Inr updated \<Rightarrow>
                (case check_renovate parse (ppRenovate pool) of
                   Some e \<Rightarrow> State_Monad.return (Inl e)
                 | None \<Rightarrow> do {
                  (case ppRenovate pool of
                     None \<Rightarrow> skip
                   | Some rv \<Rightarrow> do {
                       x \<leftarrow> UpdateRenovateConfig env (renovate_row (pID updated) rv);
                       (if x = Inl ErrNoRows
                        then do { y \<leftarrow> CreateRenovateConfig env (renovate_row (pID updated) rv); skip } else skip)
                     });
                  d \<leftarrow> DeletePoolTargetsByPoolId env (ppId pool);
                  add_targets env (ppId pool) (target_list pool updated);
                  RecordAuditLogWithUser env user ''pool.update'' ''runner_pool'' (Some (pID updated))
                    [(''name'', DString (pName updated)), (''provider'', DString (pProvider updated)),
                     (''min_idle'', DInt (pMinIdleRunners updated)), (''max_concurrency'', DInt (pMaxConcurrency updated))];
                  reload stats;
                  proto \<leftarrow> toProto env stats updated;
                  State_Monad.return (Inr proto)
                })
            }
        })"

definition DeletePool ::
  "db_env \<Rightarrow> (string \<Rightarrow> int \<times> int) option \<Rightarrow> int option \<Rightarrow> int \<Rightarrow> (pool_tables, connect_error + bool) state" where
  "DeletePool env stats user i =
     (if i \<le> 0 then State_Monad.return (Inl (InvalidArgument ''id''))
      else do {
        ex \<leftarrow> GetRunnerPoolById env i;
        case ex of
          Inl err \<Rightarrow> State_Monad.return (Inl (CodeNotFound err))
        | Inr existing \<Rightarrow> do {
            x \<leftarrow> DeletePoolTargetsByPoolId env i;
            r \<leftarrow> DeleteRunnerPool env i;
            case r of
              Inl err \<Rightarrow> State_Monad.return (Inl (CodeInternal err))
            | Inr _ \<Rightarrow> do {
                RecordAuditLogWithUser env user ''pool.delete'' ''runner_pool'' (Some (pID existing))
                  [(''name'', DString (pName existing)), (''provider'', DString (pProvider existing))];
                reload stats;
                State_Monad.return (Inr True)
              }
          }
      })"

fun protos :: "db_env \<Rightarrow> (string \<Rightarrow> int \<times> int) option \<Rightarrow> RunnerPool list \<Rightarrow> (pool_tables, proto_pool list) state" where
  "protos env stats [] = State_Monad.return []"
| "protos env stats (p # ps) = do { x \<leftarrow> toProto env stats p; xs \<leftarrow> protos env stats ps; State_Monad.return (x # xs) }"

definition ListPools ::
  "db_env \<Rightarrow> (string \<Rightarrow> int \<times> int) option \<Rightarrow> (pool_tables, connect_error + proto_pool list) state" where
  "ListPools env stats = do {
     r \<leftarrow> ListRunnerPools env;
     case r of
       Inl err \<Rightarrow> State_Monad.return (Inl (CodeInternal err))
     | Inr pools \<Rightarrow> do { ps \<leftarrow> protos env stats pools; State_Monad.return (Inr ps) }
   }"

text \<open>The period of \<open>WatchPools\<close> and \<open>WatchRunners\<close>, from the request's milliseconds.\<close>

definition watch_interval :: "int \<Rightarrow> int" where
  "watch_interval intervalMs =
     (let a = (if intervalMs < 250 then 1000 else intervalMs) in if a > 10000 then 10000 else a)"

text \<open>The status of a runner as the API shows it.\<close>

definition instance_status :: "RunnerInstanceInfo \<Rightarrow> string" where
  "instance_status r = (if riState r \<noteq> ''running'' then riState r else if riIsBusy r then ''busy'' else ''idle'')"

end
