(* ===== verification/Pool_Props.thy ===== *)
theory Pool_Props
  imports Pool_Service Webhook_Scaling
begin

text \<open>
  What the pool service guarantees: consistent tables whatever statement fails, creation that stores
  exactly what was asked for or nothing, deletion that leaves no reference behind, labels that are read
  back as they were written, and where the validation and the database disagree.
\<close>

section \<open>Consistency\<close>

lemma audit_ok [keeps]: "preserves tables_ok (RecordAuditLogWithUser env user action rt ri ds)"
  unfolding RecordAuditLogWithUser_def by (intro keeps)

lemma reload_ok [keeps]: "preserves tables_ok (reload stats)"
  unfolding reload_def by (intro keeps preserves_modify) (simp add: tables_ok_frame)

lemma add_targets_ok [keeps]: "preserves tables_ok (add_targets env i urls)"
  unfolding add_targets_def by (intro keeps)

lemma toProto_ok [keeps]: "preserves tables_ok (toProto env stats p)"
  unfolding toProto_def by (intro keeps)

lemma protos_ok [keeps]: "preserves tables_ok (protos env stats ps)"
  by (induction ps) (auto intro!: keeps)


section \<open>Statements that succeed\<close>

definition reliable :: "db_env \<Rightarrow> bool" where
  "reliable env \<longleftrightarrow> (\<forall>n. dbFail env n = None)"

lemma run_statement:
  assumes "reliable env"
  shows "run_state (statement env f) t =
    (let (r, t') = f (dbClock env (tTick t)) (t\<lparr>tTick := Suc (tTick t)\<rparr>)
     in (r, case r of Inl _ \<Rightarrow> t\<lparr>tTick := Suc (tTick t)\<rparr> | Inr _ \<Rightarrow> t'))"
  using assms by (auto simp: statement_def reliable_def Let_def split: prod.splits sum.splits)

definition urls_of :: "int \<Rightarrow> pool_tables \<Rightarrow> string list" where
  "urls_of i t = map ptTargetUrl (filter (\<lambda>x. ptPoolID x = i) (tTargets t))"

text \<open>Everything but the targets of pool \<open>i\<close> (and the statement and target counters) is the same.\<close>

definition same_but_targets :: "int \<Rightarrow> pool_tables \<Rightarrow> pool_tables \<Rightarrow> bool" where
  "same_but_targets i t t' \<longleftrightarrow> tPools t' = tPools t \<and> tRenovate t' = tRenovate t \<and> tProfiles t' = tProfiles t \<and>
     tAudit t' = tAudit t \<and> tNextPool t' = tNextPool t \<and> tReloads t' = tReloads t \<and>
     filter (\<lambda>x. ptPoolID x \<noteq> i) (tTargets t') = filter (\<lambda>x. ptPoolID x \<noteq> i) (tTargets t)"

lemma run_AddPoolTarget:
  assumes "reliable env" "find_pool i t \<noteq> None"
  shows "same_but_targets i t (exec (AddPoolTarget env i url) t) \<and>
    urls_of i (exec (AddPoolTarget env i url) t) =
      urls_of i t @ (if url \<in> set (urls_of i t) then [] else [url])"
  using assms(2)
  by (auto simp: AddPoolTarget_def exec_def run_statement[OF assms(1)] same_but_targets_def urls_of_def find_pool_def Let_def)

lemma run_add_loop:
  assumes "reliable env" "find_pool i t \<noteq> None" "distinct (urls_of i t)"
  shows "let t' = exec (for_each us (\<lambda>u. do { r \<leftarrow> AddPoolTarget env i u; skip })) t
    in same_but_targets i t t' \<and> distinct (urls_of i t') \<and> set (urls_of i t') = set (urls_of i t) \<union> set us"
  using assms(2,3)
proof (induction us arbitrary: t)
  case (Cons u us)
  let ?t = "exec (AddPoolTarget env i u) t"
  have step: "same_but_targets i t ?t" "urls_of i ?t = urls_of i t @ (if u \<in> set (urls_of i t) then [] else [u])"
    using run_AddPoolTarget[OF assms(1) Cons.prems(1)] by simp_all
  have "find_pool i ?t \<noteq> None" using step(1) Cons.prems(1) by (simp add: same_but_targets_def find_pool_def)
  moreover have "distinct (urls_of i ?t)" using step(2) Cons.prems(2) by simp
  moreover have "exec (for_each (u # us) (\<lambda>u. do { r \<leftarrow> AddPoolTarget env i u; skip })) t =
      exec (for_each us (\<lambda>u. do { r \<leftarrow> AddPoolTarget env i u; skip })) ?t"
    by (simp add: exec_def split: prod.splits)
  ultimately show ?case using Cons.IH[of ?t] step by (auto simp: Let_def same_but_targets_def)
qed (simp add: exec_def same_but_targets_def)

definition clean_urls :: "string list \<Rightarrow> string set" where
  "clean_urls us = set (filter (\<lambda>u. u \<noteq> []) (map TrimSpace us))"

lemma run_add_targets:
  assumes "reliable env" "find_pool i t \<noteq> None" "urls_of i t = []"
  shows "let t' = exec (add_targets env i us) t
    in same_but_targets i t t' \<and> distinct (urls_of i t') \<and> set (urls_of i t') = clean_urls us"
  using run_add_loop[OF assms(1,2), of "filter (\<lambda>u. u \<noteq> []) (map TrimSpace us)"] assms(3)
  by (simp add: add_targets_def clean_urls_def)

section \<open>Deletion\<close>

definition mentions_pool :: "int \<Rightarrow> pool_tables \<Rightarrow> bool" where
  "mentions_pool i t \<longleftrightarrow> i \<in> pID ` set (tPools t) \<or> i \<in> ptPoolID ` set (tTargets t) \<or> i \<in> rvPoolID ` set (tRenovate t)"

text \<open>
  A deleted pool is gone. When \<open>DeletePool\<close> reports success, no pool, target or Renovate
  configuration mentions its id any more, all other pools are as they were, the deletion is audited (if
  the database takes the row) and the controller is asked to reload; on an error the pools are unchanged.
\<close>

theorem DeletePool_gone:
  "case run_state (DeletePool env stats user i) t of
     (Inr ok, t') \<Rightarrow> \<not> mentions_pool i t' \<and> tPools t' = filter (\<lambda>p. pID p \<noteq> i) (tPools t) \<and>
        tReloads t' = tReloads t + (if stats = None then 0 else 1)
   | (Inl e, t') \<Rightarrow> tPools t' = tPools t \<and> tReloads t' = tReloads t"
  by (auto simp: DeletePool_def GetRunnerPoolById_def DeletePoolTargetsByPoolId_def DeleteRunnerPool_def
      RecordAuditLogWithUser_def CreateAuditLog_def reload_def statement_def mentions_pool_def Let_def
      split: option.splits prod.splits sum.splits)

section \<open>Creation\<close>

lemma validated:
  assumes "validatePoolInput parse req = Inr pool"
  shows "check_renovate parse (ppRenovate pool) = None"
  using assms by (auto simp: validatePoolInput_def Let_def split: option.splits if_splits)

lemma validated_request:
  assumes "validatePoolInput parse (Some req) = Inr pool"
  shows "ppName pool = ppName req" "ppProvider pool = ppProvider req" "ppTargetUrls pool = ppTargetUrls req"
  using assms by (auto simp: validatePoolInput_def Let_def split: option.splits if_splits)

text \<open>What of the tables the steps after the insertion of a pool leave alone.\<close>

definition view :: "pool_tables \<Rightarrow> RunnerPool list \<times> PoolTarget list \<times> nat" where
  "view t = (tPools t, tTargets t, length (tAudit t))"

lemma view_reads:
  "view (exec (toProto env stats p) t) = view t" "view (exec (reload stats) t) = view t"
  "view (exec (CreateRenovateConfig env row) t) = view t"
  by (auto simp: toProto_def reload_def GetRenovateConfigByPoolId_def ListPoolTargetsByPoolId_def
      CreateRenovateConfig_def statement_def exec_def view_def Let_def split: option.splits prod.splits sum.splits)

lemma view_audit:
  assumes "reliable env"
  shows "view (exec (RecordAuditLogWithUser env user action rt ri ds) t) = (tPools t, tTargets t, Suc (length (tAudit t)))"
  by (simp add: RecordAuditLogWithUser_def CreateAuditLog_def exec_def run_statement[OF assms] view_def)

lemma run_CreateRunnerPool:
  assumes "reliable env" "run_state (CreateRunnerPool env arg) t = (r, t1)"
  shows "case r of Inl err \<Rightarrow> t1 = t\<lparr>tTick := Suc (tTick t)\<rparr>
    | Inr row \<Rightarrow> tPools t1 = tPools t @ [row] \<and> tTargets t1 = tTargets t \<and> tAudit t1 = tAudit t \<and>
        pID row = tNextPool t \<and> pName row = pName arg \<and> pProvider row = pProvider arg \<and>
        pRepositoryUrl row = pRepositoryUrl arg"
  using assms(2) by (auto simp: CreateRunnerPool_def run_statement[OF assms(1)] Let_def split: if_splits)

definition after_insert ::
  "db_env \<Rightarrow> (string \<Rightarrow> int \<times> int) option \<Rightarrow> int option \<Rightarrow> proto_pool \<Rightarrow> RunnerPool \<Rightarrow> (pool_tables, proto_pool) state" where
  "after_insert env stats user pool created = do {
     (case ppRenovate pool of
        None \<Rightarrow> skip
      | Some rv \<Rightarrow> do { x \<leftarrow> CreateRenovateConfig env (renovate_row (pID created) rv); skip });
     add_targets env (pID created) (target_list pool created);
     RecordAuditLogWithUser env user ''pool.create'' ''runner_pool'' (Some (pID created))
       [(''name'', DString (pName created)), (''provider'', DString (pProvider created)),
        (''repository_url'', DString (pRepositoryUrl created)), (''scope'', DString (pScope created)),
        (''min_idle'', DInt (pMinIdleRunners created)), (''max_concurrency'', DInt (pMaxConcurrency created))];
     reload stats;
     toProto env stats created
   }"

lemma exec_after_insert:
  assumes "reliable env" "created \<in> set (tPools t)" "urls_of (pID created) t = []"
  shows "let t' = exec (after_insert env stats user pool created) t in
    tPools t' = tPools t \<and> length (tAudit t') = Suc (length (tAudit t)) \<and> distinct (urls_of (pID created) t') \<and>
    set (urls_of (pID created) t') = clean_urls (target_list pool created) \<and>
    filter (\<lambda>x. ptPoolID x \<noteq> pID created) (tTargets t') = filter (\<lambda>x. ptPoolID x \<noteq> pID created) (tTargets t)"
proof -
  define t1 where "t1 = exec (case ppRenovate pool of None \<Rightarrow> skip
      | Some rv \<Rightarrow> do { x \<leftarrow> CreateRenovateConfig env (renovate_row (pID created) rv); skip }) t"
  have "view (exec (do { x \<leftarrow> CreateRenovateConfig env row; skip }) t) = view t" for row
    using view_reads(3)[of env row t] by (simp add: exec_def split_beta)
  then have v1: "view t1 = view t" by (cases "ppRenovate pool") (simp_all add: t1_def, simp add: exec_def)
  define t2 where "t2 = exec (add_targets env (pID created) (target_list pool created)) t1"
  have pools: "tPools t1 = tPools t" "tTargets t1 = tTargets t" using v1 by (simp_all add: view_def)
  then have "find_pool (pID created) t1 \<noteq> None" "urls_of (pID created) t1 = []"
    using assms(2,3) by (auto simp: find_pool_None urls_of_def)
  from run_add_targets[OF assms(1) this, of "target_list pool created"]
  have t2: "same_but_targets (pID created) t1 t2" "distinct (urls_of (pID created) t2)"
    "set (urls_of (pID created) t2) = clean_urls (target_list pool created)" by (simp_all add: t2_def Let_def)
  have "view (exec (after_insert env stats user pool created) t) = (tPools t2, tTargets t2, Suc (length (tAudit t2)))"
    by (simp add: after_insert_def exec_bind t1_def[symmetric] t2_def[symmetric] view_reads view_audit[OF assms(1)])
  moreover have "tAudit t2 = tAudit t1" "length (tAudit t1) = length (tAudit t)"
    using t2(1) v1 by (simp_all add: same_but_targets_def view_def)
  ultimately show ?thesis using t2 pools
    by (auto simp: view_def Let_def same_but_targets_def urls_of_def)
qed

text \<open>
  A pool is created as asked for or not at all. With a database that answers, an error of
  \<open>CreatePool\<close> leaves every table as it was; on success there is one new pool, with a fresh id and
  the trimmed name and lower-cased provider of the request, whose targets are exactly the
  distinct non-blank ones of the request (or the repository URL without any); one audit row is added,
  and the other pools and their targets are untouched.
\<close>

theorem CreatePool_stores:
  assumes "reliable env" "tables_ok t"
  shows "case run_state (CreatePool env parse stats user (Some req)) t of
     (Inl e, t') \<Rightarrow> \<exists>n. t' = t\<lparr>tTick := n\<rparr>
   | (Inr proto, t') \<Rightarrow> \<exists>row. tPools t' = tPools t @ [row] \<and> pID row = tNextPool t \<and>
       pID row \<notin> pID ` set (tPools t) \<and> pName row = TrimSpace (ppName req) \<and>
       pProvider row = ToLower (TrimSpace (ppProvider req)) \<and> distinct (urls_of (pID row) t') \<and>
       set (urls_of (pID row) t') = clean_urls (if ppTargetUrls req = [] then [pRepositoryUrl row] else ppTargetUrls req) \<and>
       filter (\<lambda>x. ptPoolID x \<noteq> pID row) (tTargets t') = filter (\<lambda>x. ptPoolID x \<noteq> pID row) (tTargets t) \<and>
       length (tAudit t') = Suc (length (tAudit t))"
proof -
  show ?thesis
  proof (cases "validatePoolInput parse (Some req)")
    case (Inl e)
    then show ?thesis by (auto simp: CreatePool_def intro: exI[of _ "tTick t"])
  next
    case (Inr pool)
    define scope where "scope = (if TrimSpace (ppScope pool) = [] then ''repo'' else TrimSpace (ppScope pool))"
    obtain r t1 where r: "run_state (CreateRunnerPool env (pool_row scope pool)) t = (r, t1)" by fastforce
    note ins = run_CreateRunnerPool[OF assms(1) r]
    show ?thesis
    proof (cases r)
      case l: (Inl err)
      with Inr r ins show ?thesis
        by (auto simp: CreatePool_def scope_def[symmetric] Let_def intro: exI[of _ "Suc (tTick t)"])
    next
      case c: (Inr row)
      define t' where "t' = exec (after_insert env stats user pool row) t1"
      have run: "run_state (CreatePool env parse stats user (Some req)) t =
          (Inr (fst (run_state (after_insert env stats user pool row) t1)), t')"
        using Inr r c validated[OF Inr]
        by (simp add: CreatePool_def scope_def[symmetric] Let_def t'_def after_insert_def exec_def split_beta)
      have fresh1: "tNextPool t \<notin> pID ` set (tPools t)" using assms(2) by (auto simp: tables_ok_def)
      moreover have "ptPoolID ` set (tTargets t) \<subseteq> pID ` set (tPools t)" using assms(2) by (auto simp: tables_ok_def)
      ultimately have fresh: "tNextPool t \<notin> pID ` set (tPools t)" "tNextPool t \<notin> ptPoolID ` set (tTargets t)" by blast+
      then have "\<forall>x \<in> set (tTargets t). ptPoolID x \<noteq> tNextPool t" by (metis imageI)
      then have "urls_of (pID row) t1 = []" using ins c by (simp add: urls_of_def filter_empty_conv)
      moreover have "row \<in> set (tPools t1)" using ins c by simp
      ultimately have after: "tPools t' = tPools t1 \<and> length (tAudit t') = Suc (length (tAudit t1)) \<and>
          distinct (urls_of (pID row) t') \<and> set (urls_of (pID row) t') = clean_urls (target_list pool row) \<and>
          filter (\<lambda>x. ptPoolID x \<noteq> pID row) (tTargets t') = filter (\<lambda>x. ptPoolID x \<noteq> pID row) (tTargets t1)"
        using exec_after_insert[OF assms(1), of row t1 stats user pool] by (simp add: t'_def Let_def)
      have "clean_urls (target_list pool row) = clean_urls (if ppTargetUrls req = [] then [pRepositoryUrl row] else ppTargetUrls req)"
        using validated_request[OF Inr] by (auto simp: target_list_def clean_urls_def)
      with after fresh ins c run validated_request[OF Inr] show ?thesis
        by (auto simp: pool_row_def lower_trim_def)
    qed
  qed
qed

section \<open>An example\<close>

definition ex_env :: db_env where
  "ex_env = \<lparr>dbFail = (\<lambda>n. None), dbClock = (\<lambda>n. int n)\<rparr>"

definition ex_tables :: pool_tables where
  "ex_tables = \<lparr>tPools = [], tTargets = [], tRenovate = [], tProfiles = [1], tAudit = [], tNextPool = 1,
     tNextTarget = 1, tTick = 0, tReloads = 0\<rparr>"

definition ex_proto :: "string \<Rightarrow> proto_pool" where
  "ex_proto scope = \<lparr>ppId = 0, ppName = '' ci '', ppProvider = ''GitHub'', ppRepositoryUrl = [],
     ppMinIdleRunners = 1, ppMaxConcurrency = 5, ppLabels = [''linux'', ''x64''], ppRunnerImage = ''img'',
     ppAllowDocker = False, ppAuthProfileId = 1, ppScope = scope, ppCpuLimit = [], ppMemoryLimit = [],
     ppMaxRunnerLifetimeSeconds = 60, ppTargetUrls = [''https://github.com/o''], ppActiveRunners = 0,
     ppIdleRunners = 0, ppRenovate = None\<rparr>"

definition ex_cron :: cron_parser where
  "ex_cron e = Inl ''no cron''"

lemma ex_tables_ok: "tables_ok ex_tables" "reliable ex_env"
  by (simp_all add: tables_ok_def ex_tables_def reliable_def ex_env_def)

lemma ex_created:
  "tPools (exec (CreatePool ex_env ex_cron None None (Some (ex_proto ''org''))) ex_tables) \<noteq> []"
  by code_simp


theorem CreatePool_stores_witness:
  "\<exists>row. tPools (exec (CreatePool ex_env ex_cron None None (Some (ex_proto ''org''))) ex_tables) = [row] \<and>
     pID row = 1 \<and> pProvider row = ToLower (TrimSpace ''GitHub'')"
proof -
  obtain r t' where run: "run_state (CreatePool ex_env ex_cron None None (Some (ex_proto ''org''))) ex_tables = (r, t')"
    by fastforce
  then have "tPools t' \<noteq> []" using ex_created by (simp add: exec_def)
  then show ?thesis
    using CreatePool_stores[OF ex_tables_ok(2,1), where parse = ex_cron and stats = None and user = None
        and req = "ex_proto ''org''"] run
    by (cases r) (auto simp: exec_def ex_tables_def ex_proto_def)
qed

section \<open>Labels\<close>

definition plain_label :: "string \<Rightarrow> bool" where
  "plain_label l \<longleftrightarrow> l \<noteq> [] \<and> TrimSpace l = l \<and> CHR '','' \<notin> set l"

text \<open>
  Labels survive the database. The labels of a stored pool, read back for the API, are the ones that
  it was created with, as long as they are not blank, have no surrounding white space and no comma.
\<close>

theorem labels_roundtrip:
  assumes "\<forall>l \<in> set (ppLabels pool). plain_label l"
  shows "ppLabels (ConvertDBPoolToProto (pool_row scope pool) stats) = ppLabels pool"
proof (cases "ppLabels pool")
  case Nil
  then show ?thesis by (simp add: ConvertDBPoolToProto_def pool_row_def parseLabels_def)
next
  case (Cons l ls)
  with assms have l: "plain_label l" by simp
  then have "\<not> is_space (hd l)" by (metis hd_TrimSpace plain_label_def)
  moreover have "hd l \<in> set (Join (l # ls) '','')" using l by (cases ls) (simp_all add: plain_label_def)
  ultimately have "TrimSpace (Join (l # ls) '','') \<noteq> []" by (auto simp: TrimSpace_blank)
  moreover have "Split (Join (l # ls) '','') (CHR '','') = l # ls"
    using assms Cons by (intro Split_Join) (auto simp: plain_label_def)
  moreover have "map TrimSpace (l # ls) = l # ls" "filter (\<lambda>t. t \<noteq> []) (l # ls) = l # ls"
    using assms Cons by (auto simp: plain_label_def intro!: map_idI filter_True)
  ultimately show ?thesis using Cons by (simp add: ConvertDBPoolToProto_def pool_row_def parseLabels_def)
qed

theorem labels_roundtrip_witness:
  "ppLabels (ConvertDBPoolToProto (pool_row ''org'' (ex_proto ''org'')) None) = [''linux'', ''x64'']"
proof -
  have "TrimSpace ''linux'' = ''linux''" "TrimSpace ''x64'' = ''x64''" by code_simp+
  then have "\<forall>l \<in> set (ppLabels (ex_proto ''org'')). plain_label l" by (simp add: ex_proto_def plain_label_def)
  from labels_roundtrip[OF this] show ?thesis by (simp add: ex_proto_def)
qed

section \<open>Where the parts disagree\<close>

text \<open>
  What the validation accepts, the database may refuse. A scope in capitals passes
  \<open>validatePoolInput\<close>, which lower-cases it, and is stored as it was given, so that the column check fails
  and the client gets an internal error; and a pool whose only target is blank passes too, and is stored
  without a repository and without a target.
\<close>

theorem validation_gaps:
  "fst (run_state (CreatePool ex_env ex_cron None None (Some (ex_proto ''Org''))) ex_tables) = Inl (CodeInternal CheckConstraint) \<and>
   map pRepositoryUrl (tPools (exec (CreatePool ex_env ex_cron None None
     (Some ((ex_proto ''org'')\<lparr>ppTargetUrls := ['' '']\<rparr>))) ex_tables)) = [[]] \<and>
   tTargets (exec (CreatePool ex_env ex_cron None None
     (Some ((ex_proto ''org'')\<lparr>ppTargetUrls := ['' '']\<rparr>))) ex_tables) = []"
  by code_simp

end
