(* ===== verification/Auth.thy ===== *)
theory Auth
  imports Go_Crypto Pool_Service
begin

text \<open>
  \<open>src/internal/server/auth.go\<close>: the administrator's account, login and sessions, and the interceptor in
  front of every procedure. The state holds the tables \<open>admin_users\<close> and \<open>sessions\<close>. JSON web tokens and
  bcrypt are third-party code and parameters (\<open>auth_env\<close>), as are the random nonce, the clock and the
  failures of the database, asked with the number of the call. The session hash is computed (SHA-256).
\<close>

section \<open>State and environment\<close>

record Claims =
  clUserID :: int
  clUsername :: string
  clID :: string
  clExpiresAt :: gotime
  clIssuedAt :: gotime

record UserContext =
  ucUserID :: int
  ucUsername :: string

record admin_user =
  adID :: int
  adUsername :: string
  adPasswordHash :: string

record session =
  seUserID :: int
  seTokenHash :: string
  seExpiresAt :: gotime

record auth_state =
  asUsers :: "admin_user list"
  asSessions :: "session list"
  asAudit :: "audit_row list"
  asNextUser :: int
  asTick :: nat

record auth_env =
  aeSign :: "Claims \<Rightarrow> string \<Rightarrow> string + string"
  aeParse :: "gotime \<Rightarrow> string \<Rightarrow> string \<Rightarrow> string + Claims"
  aeGenerateFromPassword :: "nat \<Rightarrow> string \<Rightarrow> string + string"
  aeCompare :: "string \<Rightarrow> string \<Rightarrow> bool"
  aeNonce :: "nat \<Rightarrow> string + string"
  aeNow :: "nat \<Rightarrow> gotime"
  aeFail :: "nat \<Rightarrow> string option"

datatype auth_error =
  Unauthenticated string
| InvalidCredentials
| AuthInvalidArgument
| FailedPrecondition
| AuthInternal string

definition SessionDuration :: duration where "SessionDuration = 24 * 60 * Minute"

definition au_tick :: "(auth_state, nat) state" where
  "au_tick = do { n \<leftarrow> gets asTick; modify (\<lambda>s. s\<lparr>asTick := Suc n\<rparr>); State_Monad.return n }"

text \<open>A query that may fail as a whole.\<close>

definition query :: "auth_env \<Rightarrow> (auth_state \<Rightarrow> (string + 'a) \<times> auth_state) \<Rightarrow> (auth_state, string + 'a) state" where
  "query env f = do {
     n \<leftarrow> au_tick;
     case aeFail env n of
       Some err \<Rightarrow> State_Monad.return (Inl err)
     | None \<Rightarrow> do {
         s \<leftarrow> gets (\<lambda>s. s);
         let (r, s') = f s;
         modify (\<lambda>_. s');
         State_Monad.return r
       }
   }"

definition CountAdminUsers :: "auth_env \<Rightarrow> (auth_state, string + int) state" where
  "CountAdminUsers env = query env (\<lambda>s. (Inr (int (length (asUsers s))), s))"

definition CreateAdminUser :: "auth_env \<Rightarrow> string \<Rightarrow> string \<Rightarrow> (auth_state, string + admin_user) state" where
  "CreateAdminUser env name hash = query env (\<lambda>s.
     if name \<in> adUsername ` set (asUsers s) then (Inl ''UNIQUE constraint failed'', s)
     else (let u = \<lparr>adID = asNextUser s, adUsername = name, adPasswordHash = hash\<rparr>
           in (Inr u, s\<lparr>asUsers := asUsers s @ [u], asNextUser := asNextUser s + 1\<rparr>)))"

definition GetAdminUserByUsername :: "auth_env \<Rightarrow> string \<Rightarrow> (auth_state, string + admin_user) state" where
  "GetAdminUserByUsername env name = query env (\<lambda>s.
     (case find (\<lambda>u. adUsername u = name) (asUsers s) of None \<Rightarrow> Inl ''no rows'' | Some u \<Rightarrow> Inr u, s))"

definition CreateSession :: "auth_env \<Rightarrow> session \<Rightarrow> (auth_state, string + session) state" where
  "CreateSession env se = query env (\<lambda>s.
     if seTokenHash se \<in> seTokenHash ` set (asSessions s) then (Inl ''UNIQUE constraint failed'', s)
     else if seUserID se \<notin> adID ` set (asUsers s) then (Inl ''FOREIGN KEY constraint failed'', s)
     else (Inr se, s\<lparr>asSessions := asSessions s @ [se]\<rparr>))"

definition GetSessionByTokenHash :: "auth_env \<Rightarrow> string \<Rightarrow> (auth_state, string + session) state" where
  "GetSessionByTokenHash env h = query env (\<lambda>s.
     (case find (\<lambda>x. seTokenHash x = h) (asSessions s) of None \<Rightarrow> Inl ''no rows'' | Some x \<Rightarrow> Inr x, s))"

text \<open>\<open>RecordAuditLogWithUser\<close> on these tables: a row that cannot be stored is dropped.\<close>

definition auth_audit ::
  "auth_env \<Rightarrow> int option \<Rightarrow> string \<Rightarrow> (string \<times> detail) list \<Rightarrow> (auth_state, unit) state" where
  "auth_audit env user action details = do {
     r \<leftarrow> query env (\<lambda>s. (Inr (), s\<lparr>asAudit := asAudit s @
       [\<lparr>alUserID = positive_id user, alAction = action, alResourceType = Some ''admin_user'',
         alResourceID = positive_id user, alDetails = details\<rparr>]\<rparr>));
     skip
   }"

section \<open>Tokens\<close>

definition HashToken :: "string \<Rightarrow> string" where
  "HashToken token = EncodeToString (sha256 token)"

definition GenerateToken ::
  "auth_env \<Rightarrow> int \<Rightarrow> string \<Rightarrow> string \<Rightarrow> duration \<Rightarrow> (auth_state, string + string \<times> gotime) state" where
  "GenerateToken env userID username secret dur =
     (if secret = [] then State_Monad.return (Inl ''jwt secret must not be empty'')
      else do {
        n \<leftarrow> au_tick;
        m \<leftarrow> au_tick;
        let expiresAt = aeNow env n + dur;
        State_Monad.return
          (case aeNonce env n of
             Inl err \<Rightarrow> Inl err
           | Inr nonce \<Rightarrow>
               (case aeSign env \<lparr>clUserID = userID, clUsername = username, clID = EncodeToString nonce,
                        clExpiresAt = expiresAt, clIssuedAt = aeNow env m\<rparr> secret of
                  Inl err \<Rightarrow> Inl err
                | Inr jwt \<Rightarrow> Inr (jwt, expiresAt)))
      })"

text \<open>The parser checks the signature, the HMAC method and the expiry at the given time.\<close>

definition ValidateToken :: "auth_env \<Rightarrow> gotime \<Rightarrow> string \<Rightarrow> string \<Rightarrow> string + Claims" where
  "ValidateToken env now tokenString secret =
     (if secret = [] then Inl ''jwt secret must not be empty'' else aeParse env now secret tokenString)"

text \<open>
  \<open>Request.Cookie\<close>: the first cookie of that name in the \<open>Cookie\<close> fields whose value is valid, without
  the quotes around it.
\<close>

definition cookie_byte :: "char \<Rightarrow> bool" where
  "cookie_byte c \<longleftrightarrow> (let n = (of_char c :: nat) in 32 \<le> n \<and> n < 127 \<and> n \<noteq> 34 \<and> n \<noteq> 59 \<and> n \<noteq> 92)"

definition unquote_cookie :: "string \<Rightarrow> string" where
  "unquote_cookie v =
     (if length v > 1 \<and> hd v = CHR 0x22 \<and> last v = CHR 0x22 then butlast (tl v) else v)"

definition cookie_of :: "string \<Rightarrow> string \<Rightarrow> string option" where
  "cookie_of name part =
     (let p = TrimSpace part;
          k = TrimSpace (takeWhile (\<lambda>c. c \<noteq> CHR ''='') p);
          v = unquote_cookie (drop 1 (dropWhile (\<lambda>c. c \<noteq> CHR ''='') p))
      in if p \<noteq> [] \<and> k = name \<and> list_all cookie_byte v then Some v else None)"

definition cookies_named :: "string \<Rightarrow> (string \<times> string) list \<Rightarrow> string list" where
  "cookies_named name header =
     concat (map (\<lambda>(k, line). if EqualFold k ''Cookie''
       then List.map_filter (cookie_of name) (Split line (CHR '';'')) else []) header)"

definition SessionCookieName :: string where "SessionCookieName = ''session_token''"

definition auth_header :: "(string \<times> string) list \<Rightarrow> string" where
  "auth_header header =
     (case find (\<lambda>(k, v). EqualFold k ''Authorization'') header of None \<Rightarrow> [] | Some (k, v) \<Rightarrow> v)"

definition bearer :: "(string \<times> string) list \<Rightarrow> string" where
  "bearer header =
     (let auth = auth_header header
      in if HasPrefix auth ''Bearer '' then TrimPrefix auth ''Bearer '' else [])"

definition ExtractSessionToken :: "(string \<times> string) list \<Rightarrow> string" where
  "ExtractSessionToken header =
     (case cookies_named SessionCookieName header of
        v # _ \<Rightarrow> if v \<noteq> [] then v else bearer header
      | [] \<Rightarrow> bearer header)"

section \<open>The interceptor\<close>

definition IsPublicProcedure :: "string \<Rightarrow> bool" where
  "IsPublicProcedure procedure \<longleftrightarrow> procedure \<in> set
     [''/supervisor.v1.AuthService/SetupAdmin'', ''/supervisor.v1.AuthService/Login'',
      ''/supervisor.v1.OnboardingService/GetOnboardingStatus'']"

text \<open>The checks that \<open>authenticate\<close> and \<open>GetSession\<close> make of the request's token.\<close>

definition check_session ::
  "auth_env \<Rightarrow> string \<Rightarrow> (string \<times> string) list \<Rightarrow> (auth_state, auth_error + Claims) state" where
  "check_session env secret header =
     (let tokenString = ExtractSessionToken header in
      if tokenString = [] then State_Monad.return (Inl (Unauthenticated ''missing session token''))
      else do {
        n \<leftarrow> au_tick;
        case ValidateToken env (aeNow env n) tokenString secret of
          Inl err \<Rightarrow> State_Monad.return (Inl (Unauthenticated err))
        | Inr claims \<Rightarrow> do {
            r \<leftarrow> GetSessionByTokenHash env (HashToken tokenString);
            case r of
              Inl _ \<Rightarrow> State_Monad.return (Inl (Unauthenticated ''session revoked or expired''))
            | Inr sess \<Rightarrow> do {
                m \<leftarrow> au_tick;
                State_Monad.return
                  (if seExpiresAt sess < aeNow env m then Inl (Unauthenticated ''session revoked or expired'')
                   else Inr claims)
              }
          }
      })"

text \<open>The user of the context: \<open>None\<close> before \<open>WithUserContext\<close>.\<close>

type_synonym user_ctx = "UserContext option"

definition authenticate ::
  "auth_env \<Rightarrow> string \<Rightarrow> user_ctx \<Rightarrow> (string \<times> string) list \<Rightarrow> string \<Rightarrow>
   (auth_state, auth_error + user_ctx) state" where
  "authenticate env secret ctx header procedure =
     (if IsPublicProcedure procedure then State_Monad.return (Inr ctx)
      else do {
        r \<leftarrow> check_session env secret header;
        State_Monad.return
          (case r of
             Inl err \<Rightarrow> Inl err
           | Inr claims \<Rightarrow> Inr (Some \<lparr>ucUserID = clUserID claims, ucUsername = clUsername claims\<rparr>))
      })"

text \<open>\<open>WrapUnary\<close> and \<open>WrapStreamingHandler\<close>: the handler runs only on what passed.\<close>

definition WrapUnary ::
  "auth_env \<Rightarrow> string \<Rightarrow> (user_ctx \<Rightarrow> (auth_state, auth_error + 'r) state) \<Rightarrow> user_ctx \<Rightarrow>
   (string \<times> string) list \<Rightarrow> string \<Rightarrow> (auth_state, auth_error + 'r) state" where
  "WrapUnary env secret handler ctx header procedure = do {
     r \<leftarrow> authenticate env secret ctx header procedure;
     case r of Inl err \<Rightarrow> State_Monad.return (Inl err) | Inr authCtx \<Rightarrow> handler authCtx
   }"

section \<open>The service\<close>

record Cookie =
  ckName :: string
  ckValue :: string
  ckPath :: string
  ckMaxAge :: int
  ckHttpOnly :: bool
  ckSecure :: bool
  ckSameSiteStrict :: bool

definition session_cookie :: "bool \<Rightarrow> string \<Rightarrow> Cookie" where
  "session_cookie secure tokenString =
     \<lparr>ckName = SessionCookieName, ckValue = tokenString, ckPath = ''/'', ckMaxAge = SessionDuration div Second,
      ckHttpOnly = True, ckSecure = secure, ckSameSiteStrict = True\<rparr>"

text \<open>A fresh token and its session row, as \<open>SetupAdmin\<close> and \<open>Login\<close> make them.\<close>

definition open_session :: "auth_env \<Rightarrow> string \<Rightarrow> admin_user \<Rightarrow> (auth_state, auth_error + string) state" where
  "open_session env secret user = do {
     g \<leftarrow> GenerateToken env (adID user) (adUsername user) secret SessionDuration;
     case g of
       Inl err \<Rightarrow> State_Monad.return (Inl (AuthInternal err))
     | Inr (tokenString, expiresAt) \<Rightarrow> do {
         r \<leftarrow> CreateSession env
           \<lparr>seUserID = adID user, seTokenHash = HashToken tokenString, seExpiresAt = expiresAt\<rparr>;
         State_Monad.return (case r of Inl err \<Rightarrow> Inl (AuthInternal err) | Inr _ \<Rightarrow> Inr tokenString)
       }
   }"

text \<open>
  \<open>SetupAdmin\<close> in two parts, before and after the count of the administrators has been judged, so that
  requests that run side by side can be interleaved there.
\<close>

definition SetupAdmin_check :: "auth_env \<Rightarrow> string \<Rightarrow> string \<Rightarrow> (auth_state, auth_error option) state" where
  "SetupAdmin_check env username password =
     (if TrimSpace username = [] \<or> password = [] then State_Monad.return (Some AuthInvalidArgument)
      else do {
        r \<leftarrow> CountAdminUsers env;
        State_Monad.return
          (case r of
             Inl err \<Rightarrow> Some (AuthInternal err)
           | Inr k \<Rightarrow> if k > 0 then Some FailedPrecondition else None)
      })"

definition SetupAdmin_create ::
  "auth_env \<Rightarrow> bool \<Rightarrow> string \<Rightarrow> string \<Rightarrow> string \<Rightarrow> (auth_state, auth_error + Cookie) state" where
  "SetupAdmin_create env secure secret username password = do {
     n \<leftarrow> au_tick;
     case aeGenerateFromPassword env n password of
       Inl err \<Rightarrow> State_Monad.return (Inl (AuthInternal err))
     | Inr hash \<Rightarrow> do {
         c \<leftarrow> CreateAdminUser env (TrimSpace username) hash;
         case c of
           Inl err \<Rightarrow> State_Monad.return (Inl (AuthInternal err))
         | Inr user \<Rightarrow> do {
             auth_audit env (Some (adID user)) ''auth.setup_admin'' [(''username'', DString (TrimSpace username))];
             r \<leftarrow> open_session env secret user;
             State_Monad.return (case r of Inl err \<Rightarrow> Inl err | Inr tok \<Rightarrow> Inr (session_cookie secure tok))
           }
       }
   }"

definition SetupAdmin ::
  "auth_env \<Rightarrow> bool \<Rightarrow> string \<Rightarrow> string \<Rightarrow> string \<Rightarrow> (auth_state, auth_error + Cookie) state" where
  "SetupAdmin env secure secret username password = do {
     r \<leftarrow> SetupAdmin_check env username password;
     case r of
       Some err \<Rightarrow> State_Monad.return (Inl err)
     | None \<Rightarrow> SetupAdmin_create env secure secret username password
   }"

text \<open>The answer of \<open>Login\<close> is the user's name and the cookie.\<close>

definition Login ::
  "auth_env \<Rightarrow> bool \<Rightarrow> string \<Rightarrow> string \<Rightarrow> string \<Rightarrow> (auth_state, auth_error + string \<times> Cookie) state" where
  "Login env secure secret username0 password =
     (let username = TrimSpace username0 in
      if username = [] \<or> password = [] then State_Monad.return (Inl AuthInvalidArgument)
      else do {
        u \<leftarrow> GetAdminUserByUsername env username;
        case u of
          Inl _ \<Rightarrow> do {
            auth_audit env None ''auth.login_failed''
              [(''username'', DString username), (''reason'', DString ''user_not_found'')];
            State_Monad.return (Inl InvalidCredentials)
          }
        | Inr user \<Rightarrow>
            if \<not> aeCompare env (adPasswordHash user) password then do {
              auth_audit env (Some (adID user)) ''auth.login_failed''
                [(''username'', DString username), (''reason'', DString ''invalid_password'')];
              State_Monad.return (Inl InvalidCredentials)
            }
            else do {
              r \<leftarrow> open_session env secret user;
              case r of
                Inl err \<Rightarrow> State_Monad.return (Inl err)
              | Inr tok \<Rightarrow> do {
                  auth_audit env (Some (adID user)) ''auth.login''
                    [(''username'', DString username), (''status'', DString ''success'')];
                  State_Monad.return (Inr (adUsername user, session_cookie secure tok))
                }
            }
      })"

text \<open>\<open>HostArch\<close> and \<open>HostOS\<close>: the override of the environment, else what the program was built for.\<close>

definition HostArch :: "(string \<Rightarrow> string) \<Rightarrow> string \<Rightarrow> string" where
  "HostArch getenv goarch =
     (let arch = TrimSpace (getenv ''SUPERVISOR_HOST_ARCH'') in if arch \<noteq> [] then arch else goarch)"

definition HostOS :: "(string \<Rightarrow> string) \<Rightarrow> string \<Rightarrow> string" where
  "HostOS getenv goos =
     (let osName = TrimSpace (getenv ''SUPERVISOR_HOST_OS'') in if osName \<noteq> [] then osName else goos)"

record GetSessionResponse =
  gsUsername :: string
  gsIsAdmin :: bool
  gsHostArch :: string
  gsHostOs :: string

definition GetSession ::
  "auth_env \<Rightarrow> (string \<Rightarrow> string) \<Rightarrow> string \<Rightarrow> string \<Rightarrow> string \<Rightarrow> (string \<times> string) list \<Rightarrow>
   (auth_state, auth_error + GetSessionResponse) state" where
  "GetSession env getenv goarch goos secret header = do {
     r \<leftarrow> check_session env secret header;
     State_Monad.return
       (case r of
          Inl err \<Rightarrow> Inl err
        | Inr claims \<Rightarrow> Inr \<lparr>gsUsername = clUsername claims, gsIsAdmin = True,
            gsHostArch = HostArch getenv goarch, gsHostOs = HostOS getenv goos\<rparr>)
   }"

end
