(* ===== verification/Auth_Props.thy ===== *)
theory Auth_Props
  imports Auth
begin

text \<open>
  What the authentication of the API guarantees, over every sequence of requests: a protected procedure
  is reached exactly with a token that the service issued and whose session has not expired, one
  administrator is set up at most as long as requests follow one another, and two requests side by
  side can set up two.
\<close>

section \<open>Running the statements\<close>

lemma run_au_tick [run_simps]: "run_state au_tick s = (asTick s, s\<lparr>asTick := Suc (asTick s)\<rparr>)"
  by (simp add: au_tick_def)

lemma run_query [run_simps]:
  "run_state (query env f) s =
    (let s1 = s\<lparr>asTick := Suc (asTick s)\<rparr> in
     case aeFail env (asTick s) of Some err \<Rightarrow> (Inl err, s1) | None \<Rightarrow> f s1)"
  by (simp add: query_def run_au_tick Let_def split: option.split prod.split)

text \<open>The tables that sessions are judged by; the audit rows and the call counter do not matter.\<close>

definition same_tables :: "auth_state \<Rightarrow> auth_state \<Rightarrow> bool" where
  "same_tables s s' \<longleftrightarrow> asUsers s' = asUsers s \<and> asSessions s' = asSessions s \<and>
     asNextUser s' = asNextUser s \<and> asTick s \<le> asTick s'"

lemma same_tables_refl [simp]: "same_tables s s"
  by (simp add: same_tables_def)

lemma same_tables_trans: "same_tables a b \<Longrightarrow> same_tables b c \<Longrightarrow> same_tables a c"
  by (simp add: same_tables_def)

lemma audit_same_tables: "same_tables s (exec (auth_audit env user action ds) s)"
  by (simp add: auth_audit_def exec_def same_tables_def run_query Let_def split: option.split)

lemma check_session_same_tables: "same_tables s (exec (check_session env secret h) s)"
  by (simp add: check_session_def exec_def same_tables_def run_simps Let_def GetSessionByTokenHash_def
      split: option.split sum.split)

section \<open>What the check of a session answers\<close>

lemma run_check_session:
  "fst (run_state (check_session env secret h) s) = Inr claims \<longleftrightarrow>
    ExtractSessionToken h \<noteq> [] \<and>
    ValidateToken env (aeNow env (asTick s)) (ExtractSessionToken h) secret = Inr claims \<and>
    aeFail env (Suc (asTick s)) = None \<and>
    (\<exists>se. find (\<lambda>x. seTokenHash x = HashToken (ExtractSessionToken h)) (asSessions s) = Some se \<and>
       aeNow env (asTick s + 2) \<le> seExpiresAt se)"
  by (auto simp: check_session_def run_simps Let_def GetSessionByTokenHash_def not_less
      split: option.split sum.split)

section \<open>Histories of requests\<close>

text \<open>
  What the service handed out: the token, the user it was issued to, and the clock before and after
  the request that issued it.
\<close>

record issue =
  isToken :: string
  isUser :: string
  isFrom :: gotime
  isUntil :: gotime

definition issue_of :: "auth_env \<Rightarrow> auth_state \<Rightarrow> auth_state \<Rightarrow> string \<Rightarrow> Cookie \<Rightarrow> issue" where
  "issue_of env s s' user c =
     \<lparr>isToken = ckValue c, isUser = user, isFrom = aeNow env (asTick s), isUntil = aeNow env (asTick s')\<rparr>"

inductive history :: "auth_env \<Rightarrow> bool \<Rightarrow> string \<Rightarrow> auth_state \<Rightarrow> issue list \<Rightarrow> bool"
  for env :: auth_env and secure :: bool and secret :: string where
  empty: "asUsers s = [] \<Longrightarrow> asSessions s = [] \<Longrightarrow> history env secure secret s []"
| set_up: "history env secure secret s L \<Longrightarrow>
    run_state (SetupAdmin env secure secret user pw) s = (Inr c, s') \<Longrightarrow>
    history env secure secret s' (issue_of env s s' (TrimSpace user) c # L)"
| set_up_refused: "history env secure secret s L \<Longrightarrow>
    run_state (SetupAdmin env secure secret user pw) s = (Inl err, s') \<Longrightarrow> history env secure secret s' L"
| login: "history env secure secret s L \<Longrightarrow>
    run_state (Login env secure secret user pw) s = (Inr (name, c), s') \<Longrightarrow>
    history env secure secret s' (issue_of env s s' name c # L)"
| login_refused: "history env secure secret s L \<Longrightarrow>
    run_state (Login env secure secret user pw) s = (Inl err, s') \<Longrightarrow> history env secure secret s' L"
| authenticated: "history env secure secret s L \<Longrightarrow>
    history env secure secret (exec (authenticate env secret ctx h proc) s) L"
| get_session: "history env secure secret s L \<Longrightarrow>
    history env secure secret (exec (GetSession env getenv arch os secret h) s) L"

section \<open>What opening a session does\<close>

text \<open>The session row that belongs to a token, and the claims the token was signed from.\<close>

definition backs :: "auth_env \<Rightarrow> string \<Rightarrow> string \<Rightarrow> string \<Rightarrow> gotime \<Rightarrow> gotime \<Rightarrow> session \<Rightarrow> bool" where
  "backs env secret user tok from until se \<longleftrightarrow>
     seTokenHash se = HashToken tok \<and> from + SessionDuration \<le> seExpiresAt se \<and>
     seExpiresAt se \<le> until + SessionDuration \<and>
     (\<exists>c. aeSign env c secret = Inr tok \<and> clUsername c = user \<and> clUserID c = seUserID se \<and>
        clExpiresAt c = seExpiresAt se)"

lemma open_session_ok:
  assumes "run_state (open_session env secret user) s = (Inr tok, s')" and "mono (aeNow env)"
  obtains se where "asSessions s' = asSessions s @ [se]" "asUsers s' = asUsers s"
    "asNextUser s' = asNextUser s" "asTick s \<le> asTick s'" "seUserID se = adID user" "adID user \<in> adID ` set (asUsers s)"
    "seTokenHash se \<notin> seTokenHash ` set (asSessions s)" "secret \<noteq> []"
    "backs env secret (adUsername user) tok (aeNow env (asTick s)) (aeNow env (asTick s')) se"
  using assms
  by (auto simp: open_session_def GenerateToken_def CreateSession_def run_simps Let_def backs_def monoD
      split: option.splits sum.splits prod.splits if_splits) (metis Claims.select_convs)

lemma open_session_err:
  assumes "run_state (open_session env secret user) s = (Inl err, s')"
  shows "same_tables s s'"
  using assms
  by (auto simp: open_session_def GenerateToken_def CreateSession_def run_simps Let_def same_tables_def
      split: option.splits sum.splits prod.splits if_splits)

section \<open>What a history keeps\<close>

text \<open>
  The invariant of histories: one administrator at most, no token hash twice, every session backs an
  issued token and every issued token is backed by a session.
\<close>

definition backed :: "auth_env \<Rightarrow> string \<Rightarrow> issue \<Rightarrow> session \<Rightarrow> bool" where
  "backed env secret i se \<longleftrightarrow> backs env secret (isUser i) (isToken i) (isFrom i) (isUntil i) se"

definition history_ok :: "auth_env \<Rightarrow> string \<Rightarrow> auth_state \<Rightarrow> issue list \<Rightarrow> bool" where
  "history_ok env secret s L \<longleftrightarrow>
     length (asUsers s) \<le> 1 \<and> distinct (map seTokenHash (asSessions s)) \<and>
     (\<forall>se \<in> set (asSessions s). \<exists>i \<in> set L. backed env secret i se) \<and>
     (\<forall>i \<in> set L. \<exists>se \<in> set (asSessions s). backed env secret i se) \<and>
     (\<forall>i \<in> set L. \<exists>u \<in> set (asUsers s). adUsername u = isUser i) \<and>
     (L \<noteq> [] \<longrightarrow> secret \<noteq> [])"

lemma backs_earlier:
  "backs env secret user tok from until se \<Longrightarrow> from' \<le> from \<Longrightarrow> until \<le> until' \<Longrightarrow>
    backs env secret user tok from' until' se"
  unfolding backs_def by force

lemma authenticate_same_tables: "same_tables s (exec (authenticate env secret ctx h proc) s)"
  using check_session_same_tables [of s env secret h]
  by (simp add: authenticate_def exec_bind)

lemma GetSession_same_tables: "same_tables s (exec (GetSession env getenv arch os secret h) s)"
  using check_session_same_tables [of s env secret h]
  by (simp add: GetSession_def exec_bind)

lemma history_ok_frame: "history_ok env secret s L \<Longrightarrow> same_tables s s' \<Longrightarrow> history_ok env secret s' L"
  by (simp add: history_ok_def same_tables_def)

lemma history_ok_open:
  assumes "history_ok env secret s L" and "length (asUsers s') \<le> 1" and "set (asUsers s) \<subseteq> set (asUsers s')"
    and "asSessions s' = asSessions s @ [se]" and "seTokenHash se \<notin> seTokenHash ` set (asSessions s)"
    and "backed env secret i se" and "secret \<noteq> []" and "\<exists>u \<in> set (asUsers s'). adUsername u = isUser i"
  shows "history_ok env secret s' (i # L)"
  using assms unfolding history_ok_def by (auto 0 4)

lemma run_auth_audit: "run_state (auth_audit env user action ds) s = ((), exec (auth_audit env user action ds) s)"
  by (simp add: exec_def prod_eq_iff)

lemma same_tables_tick: "same_tables s (s\<lparr>asTick := Suc (asTick s)\<rparr>)"
  by (simp add: same_tables_def)

text \<open>A login that succeeds opens one session for a stored user; everything else leaves the tables alone.\<close>

lemma Login_opens:
  assumes "run_state (Login env secure secret user pw) s = (Inr (name, c), s')"
  obtains u s1 s2 where "u \<in> set (asUsers s)" "adUsername u = name" "same_tables s s1"
    "run_state (open_session env secret u) s1 = (Inr (ckValue c), s2)" "same_tables s2 s'"
proof -
  let ?s1 = "s\<lparr>asTick := Suc (asTick s)\<rparr>"
  obtain u where u: "find (\<lambda>u. adUsername u = TrimSpace user) (asUsers s) = Some u"
    and r: "run_state (case_sum (\<lambda>e. State_Monad.return (Inl e)) (\<lambda>tok. do {
        auth_audit env (Some (adID u)) ''auth.login''
          [(''username'', DString (TrimSpace user)), (''status'', DString ''success'')];
        State_Monad.return (Inr (adUsername u, session_cookie secure tok)) })
      (fst (run_state (open_session env secret u) ?s1))) (snd (run_state (open_session env secret u) ?s1))
      = (Inr (name, c), s')"
    using assms by (auto simp: Login_def GetAdminUserByUsername_def run_simps run_auth_audit Let_def
        split: if_splits option.splits prod.splits)
  obtain x s2 where o1: "run_state (open_session env secret u) ?s1 = (x, s2)" by fastforce
  with r obtain tok where "x = Inr tok" "name = adUsername u" "c = session_cookie secure tok"
    and "same_tables s2 s'"
    by (cases x) (auto simp: run_auth_audit audit_same_tables)
  with u o1 show thesis
    by (intro that [OF _ _ same_tables_tick]) (auto simp: find_Some_iff session_cookie_def)
qed

lemma preserves_tables:
  "preserves (same_tables s) au_tick"
  "preserves (same_tables s) (GetAdminUserByUsername env name)"
  "preserves (same_tables s) (CountAdminUsers env)"
  "preserves (same_tables s) (auth_audit env user action ds)"
  by (auto intro!: preservesI simp: GetAdminUserByUsername_def CountAdminUsers_def auth_audit_def exec_def
      same_tables_def run_simps Let_def split: option.split)

lemmas tables_hoare = preserves_tables [unfolded preserves_def]

lemma open_session_refused:
  "hoare (same_tables s) (open_session env secret u) (\<lambda>r x. isl r \<longrightarrow> same_tables s x)"
proof (rule hoareI)
  fix x r x'
  assume "same_tables s x" "run_state (open_session env secret u) x = (r, x')"
  then show "isl r \<longrightarrow> same_tables s x'" using open_session_err same_tables_trans by (cases r) auto
qed

lemma hoare_top: "(\<And>r x. Q r x) \<Longrightarrow> hoare P m Q"
  by (auto simp: hoare_def split: prod.split)

lemma Login_refused: "hoare (same_tables s) (Login env secure secret user pw) (\<lambda>r x. isl r \<longrightarrow> same_tables s x)"
proof -
  have ok: "hoare P (State_Monad.bind m (\<lambda>_. State_Monad.return (Inr y))) (\<lambda>r x. isl r \<longrightarrow> same_tables s x)"
    for P y and m :: "(auth_state, unit) state"
    by (rule hoare_bind [where R = "\<lambda>_ _. True"]) (auto intro: hoare_top hoare_return)
  show ?thesis
    unfolding Login_def Let_def
    by (intro hoare_if hoare_return hoare_bind [OF tables_hoare(2)] hoare_bind [OF tables_hoare(4)]
        hoare_bind [OF open_session_refused] hoare_case_sum ok) auto
qed

lemma Login_err:
  "run_state (Login env secure secret user pw) s = (Inl err, s') \<Longrightarrow> same_tables s s'"
  using hoareD [OF Login_refused same_tables_refl] by fastforce

lemma SetupAdmin_opens:
  assumes "run_state (SetupAdmin env secure secret user pw) s = (Inr c, s')"
  obtains u s1 where "asUsers s = []" "asUsers s1 = [u]" "adUsername u = TrimSpace user"
    "asSessions s1 = asSessions s" "asTick s \<le> asTick s1"
    "run_state (open_session env secret u) s1 = (Inr (ckValue c), s')"
proof -
  note opened = that
  have open_it: thesis if "run_state (open_session env secret u) s1 = (Inr tok, s')" and "asUsers s = []"
    "asUsers s1 = [u]" "adUsername u = TrimSpace user" "asSessions s1 = asSessions s"
    "asTick s \<le> asTick s1" "session_cookie secure tok = c" for u s1 tok
    using that by (intro opened) (auto simp: session_cookie_def)
  show thesis using assms
    by (auto simp: SetupAdmin_def SetupAdmin_check_def SetupAdmin_create_def CountAdminUsers_def
      CreateAdminUser_def auth_audit_def run_simps Let_def elim!: open_it
      split: if_splits option.splits sum.splits prod.splits)
qed

lemma SetupAdmin_err:
  assumes "run_state (SetupAdmin env secure secret user pw) s = (Inl err, s')" and "length (asUsers s) \<le> 1"
  shows "asSessions s' = asSessions s \<and> set (asUsers s) \<subseteq> set (asUsers s') \<and> length (asUsers s') \<le> 1"
  using assms
  by (auto simp: SetupAdmin_def SetupAdmin_check_def SetupAdmin_create_def CountAdminUsers_def
      CreateAdminUser_def auth_audit_def run_simps Let_def same_tables_def dest!: open_session_err
      split: if_splits option.splits sum.splits prod.splits)

lemma history_invariant:
  assumes "history env secure secret s L" and "mono (aeNow env)"
  shows "history_ok env secret s L"
  using assms(1)
proof induction
  case (empty s)
  then show ?case by (simp add: history_ok_def)
next
  case (set_up s L user pw c s')
  then obtain u s1 where u: "asUsers s = []" "asUsers s1 = [u]" "adUsername u = TrimSpace user"
    "asSessions s1 = asSessions s" "asTick s \<le> asTick s1"
    "run_state (open_session env secret u) s1 = (Inr (ckValue c), s')"
    by (elim SetupAdmin_opens)
  obtain se where "asSessions s' = asSessions s1 @ [se]" "asUsers s' = asUsers s1" "secret \<noteq> []"
    "seTokenHash se \<notin> seTokenHash ` set (asSessions s1)"
    "backs env secret (adUsername u) (ckValue c) (aeNow env (asTick s1)) (aeNow env (asTick s')) se"
    by (rule open_session_ok [OF u(6) assms(2)])
  with u set_up.IH show ?case
    by (intro history_ok_open [where se = se and s = s])
      (auto simp: backed_def issue_of_def intro: backs_earlier [OF _ monoD [OF assms(2)]])
next
  case (login s L user pw name c s')
  then obtain u s1 s2 where u: "u \<in> set (asUsers s)" "adUsername u = name" "same_tables s s1"
    "run_state (open_session env secret u) s1 = (Inr (ckValue c), s2)" "same_tables s2 s'"
    by (elim Login_opens)
  obtain se where "asSessions s2 = asSessions s1 @ [se]" "asUsers s2 = asUsers s1" "secret \<noteq> []"
    "seTokenHash se \<notin> seTokenHash ` set (asSessions s1)"
    "backs env secret (adUsername u) (ckValue c) (aeNow env (asTick s1)) (aeNow env (asTick s2)) se"
    by (rule open_session_ok [OF u(4) assms(2)])
  with u login.IH show ?case
    by (intro history_ok_open [where se = se and s = s])
      (auto simp: backed_def issue_of_def same_tables_def history_ok_def
        intro: backs_earlier [OF _ monoD [OF assms(2)] monoD [OF assms(2)]])
next
  case (set_up_refused s L user pw err s')
  then show ?case using SetupAdmin_err [OF set_up_refused.hyps(2)]
    by (fastforce simp: history_ok_def)
next
  case (login_refused s L user pw err s')
  then show ?case by (blast intro: history_ok_frame Login_err)
next
  case (authenticated s L ctx h proc)
  then show ?case by (blast intro: history_ok_frame authenticate_same_tables)
next
  case (get_session s L getenv arch os h)
  then show ?case by (blast intro: history_ok_frame GetSession_same_tables)
qed

section \<open>Properties\<close>

text \<open>
  C19. Protected procedures are reached only with a live session. Over every sequence of set-ups, logins
  and requests, whatever fails on the way: the handler of a protected procedure runs only when the
  request carries a token that the JWT library accepts for the server's secret, whose hash is that of a
  token the service issued itself, at most 24 hours before; it then runs as the user of the token's
  claims. In every other case the request is refused as unauthenticated, before the handler does anything.
\<close>

theorem protected_needs_session:
  assumes "history env secure secret s L" and "mono (aeNow env)" and "\<not> IsPublicProcedure proc"
  shows "(\<exists>i claims s1. i \<in> set L \<and> HashToken (ExtractSessionToken h) = HashToken (isToken i) \<and>
      aeNow env (asTick s) \<le> isUntil i + SessionDuration \<and>
      aeParse env (aeNow env (asTick s)) secret (ExtractSessionToken h) = Inr claims \<and> same_tables s s1 \<and>
      run_state (WrapUnary env secret handler ctx h proc) s =
        run_state (handler (Some \<lparr>ucUserID = clUserID claims, ucUsername = clUsername claims\<rparr>)) s1) \<or>
    (\<exists>msg s'. run_state (WrapUnary env secret handler ctx h proc) s = (Inl (Unauthenticated msg), s') \<and>
      same_tables s s')"
proof -
  let ?tok = "ExtractSessionToken h" and ?s1 = "exec (check_session env secret h) s"
  have ok: "history_ok env secret s L" using assms by (intro history_invariant)
  have same: "same_tables s ?s1" by (rule check_session_same_tables)
  have run: "run_state (check_session env secret h) s = (fst (run_state (check_session env secret h) s), ?s1)"
    by (simp add: exec_def)
  show ?thesis
  proof (cases "fst (run_state (check_session env secret h) s)")
    case (Inl err)
    then obtain msg where "err = Unauthenticated msg"
      by (auto simp: check_session_def GetSessionByTokenHash_def run_simps Let_def
          split: if_splits option.splits sum.splits)
    with run Inl have "run_state (check_session env secret h) s = (Inl (Unauthenticated msg), ?s1)" by simp
    with same assms(3) show ?thesis by (simp add: WrapUnary_def authenticate_def)
  next
    case (Inr claims)
    then obtain se where se: "se \<in> set (asSessions s)" "seTokenHash se = HashToken ?tok"
      "aeNow env (asTick s + 2) \<le> seExpiresAt se" "ValidateToken env (aeNow env (asTick s)) ?tok secret = Inr claims"
      by (auto simp: run_check_session dest: find_SomeD)
    then obtain i where "i \<in> set L" "backed env secret i se" using ok by (auto simp: history_ok_def)
    moreover have "aeNow env (asTick s) \<le> aeNow env (asTick s + 2)" by (rule monoD [OF assms(2)]) simp
    ultimately have "i \<in> set L \<and> HashToken ?tok = HashToken (isToken i) \<and>
        aeNow env (asTick s) \<le> isUntil i + SessionDuration"
      using se by (auto simp: backed_def backs_def)
    moreover have "aeParse env (aeNow env (asTick s)) secret ?tok = Inr claims"
      using se(4) by (simp add: ValidateToken_def split: if_splits)
    moreover have "run_state (check_session env secret h) s = (Inr claims, ?s1)" using run Inr by simp
    ultimately show ?thesis using same assms(3) by (auto simp: WrapUnary_def authenticate_def)
  qed
qed

text \<open>
  What is documented of the JWT library: a signed token is non-empty text of the base64url alphabet and
  dots, and parses back to the user it was signed for until it expires (times of claims are truncated
  to seconds).
\<close>

definition jwt_char :: "char \<Rightarrow> bool" where
  "jwt_char c \<longleftrightarrow> (let n = (of_char c :: nat) in
     (48 \<le> n \<and> n \<le> 57) \<or> (65 \<le> n \<and> n \<le> 90) \<or> (97 \<le> n \<and> n \<le> 122) \<or> n = 45 \<or> n = 46 \<or> n = 95)"

definition jwt_laws :: "auth_env \<Rightarrow> string \<Rightarrow> bool" where
  "jwt_laws env secret \<longleftrightarrow> (\<forall>c tok now. aeSign env c secret = Inr tok \<longrightarrow>
     tok \<noteq> [] \<and> list_all jwt_char tok \<and>
     (now + Second < clExpiresAt c \<longrightarrow>
       (\<exists>c'. aeParse env now secret tok = Inr c' \<and> clUserID c' = clUserID c \<and> clUsername c' = clUsername c)))"

lemma jwt_char_plain: "jwt_char c \<Longrightarrow> \<not> is_space c \<and> cookie_byte c \<and> c \<noteq> CHR '';'' \<and> c \<noteq> CHR 0x22"
  by (auto simp: jwt_char_def is_space_def cookie_byte_def Let_def)

lemma list_all_last: "list_all P xs \<Longrightarrow> xs \<noteq> [] \<Longrightarrow> P (last xs)"
  by (simp add: list_all_iff)

text \<open>A browser sends the cookie back as \<open>session_token=\<close> and the token.\<close>

definition cookie_header :: "string \<Rightarrow> (string \<times> string) list" where
  "cookie_header tok = [(''Cookie'', SessionCookieName @ ''='' @ tok)]"

lemma ExtractSessionToken_cookie:
  assumes "tok \<noteq> []" and "list_all jwt_char tok"
  shows "ExtractSessionToken (cookie_header tok) = tok"
proof -
  let ?line = "SessionCookieName @ ''='' @ tok"
  have line: "CHR '';'' \<notin> set ?line" "\<not> is_space (hd ?line)" "\<not> is_space (last ?line)" "list_all cookie_byte tok"
    using assms jwt_char_plain list_all_last [OF assms(2,1)]
    by (auto simp: SessionCookieName_def list_all_iff is_space_def)
  have "hd tok \<noteq> CHR 0x22" using assms jwt_char_plain by (cases tok) auto
  then have "unquote_cookie tok = tok" by (simp add: unquote_cookie_def)
  moreover have "TrimSpace ?line = ?line" using line by (simp add: TrimSpace_def TrimLeft_id TrimRight_id)
  moreover have "TrimSpace SessionCookieName = SessionCookieName"
    by (simp add: TrimSpace_def TrimLeft_id TrimRight_id SessionCookieName_def is_space_def)
  moreover have "takeWhile (\<lambda>c. c \<noteq> CHR ''='') ?line = SessionCookieName"
    "drop 1 (dropWhile (\<lambda>c. c \<noteq> CHR ''='') ?line) = tok"
    by (simp_all add: SessionCookieName_def)
  ultimately have "cookie_of SessionCookieName ?line = Some tok"
    using line assms(1) by (simp add: cookie_of_def Let_def)
  with assms(1) Split_plain [OF line(1)] show ?thesis
    by (simp add: ExtractSessionToken_def cookie_header_def cookies_named_def List.map_filter_def EqualFold_def)
qed

text \<open>
  C20. A session works for its 24 hours. Over every sequence of requests: a token handed out by a
  login or by the set-up, sent back as the cookie it came in, is authenticated as the user it was issued
  to, in every later state until one second before 24 hours after the request that issued it began,
  unless the database fails the lookup. No other request, successful or not, ends a session.
\<close>

theorem session_usable:
  assumes "history env secure secret s L" and "mono (aeNow env)" and "jwt_laws env secret" and "i \<in> set L"
    and "\<not> IsPublicProcedure proc" and "aeFail env (Suc (asTick s)) = None"
    and "aeNow env (asTick s + 2) + Second < isFrom i + SessionDuration"
  shows "\<exists>uc. fst (run_state (authenticate env secret ctx (cookie_header (isToken i)) proc) s) = Inr (Some uc) \<and>
    ucUsername uc = isUser i"
proof -
  have ok: "history_ok env secret s L" using assms(1,2) by (rule history_invariant)
  with assms(4) obtain se where se: "se \<in> set (asSessions s)" and "backed env secret i se"
    by (auto simp: history_ok_def)
  then obtain c where c: "aeSign env c secret = Inr (isToken i)" "clUsername c = isUser i"
    "clExpiresAt c = seExpiresAt se" "seTokenHash se = HashToken (isToken i)"
    "isFrom i + SessionDuration \<le> seExpiresAt se"
    by (auto simp: backed_def backs_def)
  have le: "aeNow env (asTick s) \<le> aeNow env (asTick s + 2)" by (rule monoD [OF assms(2)]) simp
  have "aeNow env (asTick s) + Second < clExpiresAt c" using le assms(7) c by simp
  with assms(3) c(1) obtain c' where c': "aeParse env (aeNow env (asTick s)) secret (isToken i) = Inr c'"
    "clUsername c' = clUsername c" and tok: "isToken i \<noteq> []" "list_all jwt_char (isToken i)"
    unfolding jwt_laws_def by blast
  have "find (\<lambda>x. seTokenHash x = HashToken (isToken i)) (asSessions s) = Some se"
    using ok se c(4) by (auto simp: history_ok_def intro: find_unique)
  moreover have "secret \<noteq> []" using ok assms(4) by (auto simp: history_ok_def)
  moreover have "aeNow env (asTick s + 2) \<le> seExpiresAt se" using assms(7) c(5) by (simp add: Second_def)
  ultimately have "fst (run_state (check_session env secret (cookie_header (isToken i))) s) = Inr c'"
    using c'(1) tok assms(6) by (simp add: run_check_session ExtractSessionToken_cookie ValidateToken_def)
  with assms(5) c' c(2) show ?thesis
    by (cases "run_state (check_session env secret (cookie_header (isToken i))) s") (simp add: authenticate_def)
qed

text \<open>Opening a session and everything else but the set-up leave the administrators alone.\<close>

lemma open_session_users: "asUsers (exec (open_session env secret u) s) = asUsers s"
  by (simp add: open_session_def GenerateToken_def CreateSession_def exec_def run_simps Let_def
      split: option.split sum.split prod.split)

lemma Login_users: "run_state (Login env secure secret user pw) s = (r, s') \<Longrightarrow> asUsers s' = asUsers s"
proof (cases r)
  case (Inl err)
  then show "run_state (Login env secure secret user pw) s = (r, s') \<Longrightarrow> ?thesis"
    using Login_err by (fastforce simp: same_tables_def)
next
  case (Inr nc)
  assume "run_state (Login env secure secret user pw) s = (r, s')"
  with Inr obtain u s1 s2 where "same_tables s s1" "run_state (open_session env secret u) s1 = (Inr (ckValue (snd nc)), s2)"
    "same_tables s2 s'" by (cases nc) (auto elim: Login_opens)
  with open_session_users [of env secret u s1] show ?thesis by (simp add: same_tables_def exec_def)
qed

lemma SetupAdmin_users:
  "asUsers s \<noteq> [] \<Longrightarrow> same_tables s (exec (SetupAdmin env secure secret user pw) s) \<and>
    isl (fst (run_state (SetupAdmin env secure secret user pw) s))"
  by (simp add: SetupAdmin_def SetupAdmin_check_def CountAdminUsers_def exec_def run_simps Let_def same_tables_def
      split: option.split)

lemma SetupAdmin_one:
  assumes "length (asUsers s) \<le> 1" and "run_state (SetupAdmin env secure secret user pw) s = (r, s')"
  shows "length (asUsers s') \<le> 1"
proof (cases r)
  case (Inl err)
  then show ?thesis using assms SetupAdmin_err by blast
next
  case (Inr c)
  with assms(2) obtain u s1 where "asUsers s1 = [u]" "run_state (open_session env secret u) s1 = (Inr (ckValue c), s')"
    by (auto elim: SetupAdmin_opens)
  with open_session_users [of env secret u s1] show ?thesis by (simp add: exec_def)
qed

text \<open>
  C21. One administrator at most, as long as requests follow one another. Over every sequence of requests
  there is at most one administrator, and once there is one, every further set-up is refused and changes
  neither users nor sessions, whatever the database does.
\<close>

theorem single_admin:
  assumes "history env secure secret s L"
  shows "length (asUsers s) \<le> 1 \<and>
    (asUsers s \<noteq> [] \<longrightarrow> same_tables s (exec (SetupAdmin env secure secret user pw) s) \<and>
       isl (fst (run_state (SetupAdmin env secure secret user pw) s)))"
proof -
  have "length (asUsers s) \<le> 1" using assms
  proof induction
    case (authenticated s L ctx h proc)
    then show ?case using authenticate_same_tables [of s] by (simp add: same_tables_def)
  next
    case (get_session s L getenv arch os h)
    then show ?case using GetSession_same_tables [of s] by (simp add: same_tables_def)
  qed (auto dest: SetupAdmin_one [unfolded One_nat_def] Login_users)
  with SetupAdmin_users show ?thesis by blast
qed

lemma run_SetupAdmin_check:
  assumes "\<forall>n. aeFail env n = None" and "asUsers s = []" and "TrimSpace user \<noteq> []" and "pw \<noteq> []"
  shows "run_state (SetupAdmin_check env user pw) s = (None, s\<lparr>asTick := Suc (asTick s)\<rparr>)"
  using assms by (simp add: SetupAdmin_check_def CountAdminUsers_def run_simps Let_def)

lemma SetupAdmin_create_users:
  assumes "\<forall>n. aeFail env n = None" and "\<forall>n p. \<exists>h. aeGenerateFromPassword env n p = Inr h"
    and "TrimSpace user \<notin> adUsername ` set (asUsers s)"
  shows "map adUsername (asUsers (exec (SetupAdmin_create env secure secret user pw) s)) =
    map adUsername (asUsers s) @ [TrimSpace user]"
proof -
  obtain h where h: "aeGenerateFromPassword env (asTick s) pw = Inr h" using assms(2) by blast
  let ?t = "s\<lparr>asTick := Suc (asTick s)\<rparr>"
    and ?u = "\<lparr>adID = asNextUser s, adUsername = TrimSpace user, adPasswordHash = h\<rparr>"
  let ?t' = "s\<lparr>asTick := Suc (Suc (asTick s)), asUsers := asUsers s @ [?u], asNextUser := asNextUser s + 1\<rparr>"
  have r: "run_state (CreateAdminUser env (TrimSpace user) h) ?t = (Inr ?u, ?t')"
    using assms(1,3) by (simp add: CreateAdminUser_def run_query Let_def)
  moreover have "exec (CreateAdminUser env (TrimSpace user) h) ?t = ?t'" "exec au_tick s = ?t"
    by (simp_all only: exec_def r run_au_tick snd_conv)
  ultimately have "asUsers (exec (SetupAdmin_create env secure secret user pw) s) =
      asUsers (exec (auth_audit env (Some (asNextUser s)) ''auth.setup_admin'' [(''username'', DString (TrimSpace user))]) ?t')"
    using h by (simp add: SetupAdmin_create_def exec_bind run_au_tick open_session_users)
  also have "\<dots> = asUsers s @ [?u]"
    using audit_same_tables [of ?t'] by (simp add: same_tables_def)
  finally show ?thesis by simp
qed

text \<open>
  Two set-ups side by side create two administrators. When both requests count the administrators
  before either has stored its own, both find none and both are stored: the count and the insertion are
  separate statements, and only the names are kept apart by the table.
\<close>

theorem setup_admin_race:
  assumes "asUsers s = []" and "\<forall>n. aeFail env n = None" and "\<forall>n p. \<exists>h. aeGenerateFromPassword env n p = Inr h"
    and "TrimSpace u1 \<noteq> []" and "TrimSpace u2 \<noteq> []" and "TrimSpace u1 \<noteq> TrimSpace u2" and "p1 \<noteq> []" and "p2 \<noteq> []"
  shows "fst (run_state (do { a \<leftarrow> SetupAdmin_check env u1 p1; b \<leftarrow> SetupAdmin_check env u2 p2;
      State_Monad.return (a, b) }) s) = (None, None) \<and>
    map adUsername (asUsers (exec (do { SetupAdmin_check env u1 p1; SetupAdmin_check env u2 p2;
      SetupAdmin_create env secure secret u1 p1; SetupAdmin_create env secure secret u2 p2 }) s)) =
    [TrimSpace u1, TrimSpace u2]"
proof -
  let ?s2 = "s\<lparr>asTick := Suc (Suc (asTick s))\<rparr>"
  have two: "run_state (SetupAdmin_check env u1 p1) s = (None, s\<lparr>asTick := Suc (asTick s)\<rparr>)"
    "run_state (SetupAdmin_check env u2 p2) (s\<lparr>asTick := Suc (asTick s)\<rparr>) = (None, ?s2)"
    using assms by (simp_all add: run_SetupAdmin_check)
  let ?s3 = "exec (SetupAdmin_create env secure secret u1 p1) ?s2"
  have first: "map adUsername (asUsers ?s3) = [TrimSpace u1]"
    using assms(1) SetupAdmin_create_users [OF assms(2,3), of u1 ?s2] by simp
  then have "TrimSpace u2 \<notin> adUsername ` set (asUsers ?s3)"
    using assms(6) by (metis empty_iff empty_set insert_iff list.set_map list.simps(15))
  from SetupAdmin_create_users [OF assms(2,3) this] first
  have "map adUsername (asUsers (exec (SetupAdmin_create env secure secret u2 p2) ?s3)) = [TrimSpace u1, TrimSpace u2]"
    by simp
  with two show ?thesis by (simp add: exec_bind) (simp add: exec_def)
qed

section \<open>Witnesses\<close>

text \<open>A server with a clock of one second per call, a signer of one user's tokens and a database that works.\<close>

definition ex_auth :: auth_env where
  "ex_auth = \<lparr>
     aeSign = (\<lambda>c secret. if clUserID c = 1 \<and> clUsername c = ''root'' \<and> clExpiresAt c \<le> 2 * SessionDuration
                 then Inr ''eyJ.root'' else Inl ''key''),
     aeParse = (\<lambda>now secret tok. if tok = ''eyJ.root'' \<and> now < 2 * SessionDuration
                  then Inr \<lparr>clUserID = 1, clUsername = ''root'', clID = [], clExpiresAt = 2 * SessionDuration,
                    clIssuedAt = 0\<rparr> else Inl ''token is malformed''),
     aeGenerateFromPassword = (\<lambda>n pw. Inr (''hash:'' @ pw)),
     aeCompare = (\<lambda>h pw. h = ''hash:'' @ pw),
     aeNonce = (\<lambda>n. Inr ''0''),
     aeNow = (\<lambda>n. int n * Second),
     aeFail = (\<lambda>n. None)\<rparr>"

definition ex_start :: auth_state where
  "ex_start = \<lparr>asUsers = [], asSessions = [], asAudit = [], asNextUser = 1, asTick = 0\<rparr>"

definition ex_ready :: auth_state where
  "ex_ready = exec (SetupAdmin ex_auth False ''k'' ''root'' ''pw'') ex_start"

definition ex_issue :: issue where
  "ex_issue = \<lparr>isToken = ''eyJ.root'', isUser = ''root'', isFrom = 0, isUntil = 7 * Second\<rparr>"

lemma ex_mono: "mono (aeNow ex_auth)"
  by (simp add: mono_def ex_auth_def Second_def)

lemma ex_jwt: "jwt_laws ex_auth ''k''"
  by (auto simp: jwt_laws_def ex_auth_def jwt_char_def Second_def split: if_splits)

lemma ex_root: "TrimSpace ''root'' = ''root''"
  by (simp add: go_simps)

lemma ex_run: "run_state (SetupAdmin ex_auth False ''k'' ''root'' ''pw'') ex_start =
  (Inr (session_cookie False ''eyJ.root''), ex_ready)" and ex_tick: "asTick ex_ready = 7"
  by (simp_all add: ex_ready_def exec_def SetupAdmin_def SetupAdmin_check_def SetupAdmin_create_def CountAdminUsers_def
      CreateAdminUser_def auth_audit_def open_session_def GenerateToken_def CreateSession_def run_simps Let_def
      ex_root ex_auth_def ex_start_def SessionDuration_def Minute_def Second_def)

lemma ex_history: "history ex_auth False ''k'' ex_ready [ex_issue]"
proof -
  have "history ex_auth False ''k'' ex_start []" by (rule history.empty) (simp_all add: ex_start_def)
  from history.set_up [OF this ex_run] ex_tick show ?thesis
    by (simp add: issue_of_def ex_issue_def session_cookie_def ex_root ex_auth_def ex_start_def)
qed

definition ex_proc :: string where "ex_proc = ''/supervisor.v1.PoolService/DeletePool''"

lemma ex_protected: "\<not> IsPublicProcedure ex_proc"
  by (simp add: IsPublicProcedure_def ex_proc_def)

theorem protected_needs_session_witness:
  "\<exists>msg s'. run_state (WrapUnary ex_auth ''k'' (\<lambda>c. State_Monad.return (Inr c)) None [] ex_proc) ex_ready =
    (Inl (Unauthenticated msg), s') \<and> same_tables ex_ready s'"
proof -
  have "ExtractSessionToken [] = []"
    by (simp add: ExtractSessionToken_def cookies_named_def bearer_def auth_header_def HasPrefix_def)
  then show ?thesis
    using protected_needs_session [OF ex_history ex_mono ex_protected,
        where h = "[]" and handler = "\<lambda>c. State_Monad.return (Inr c)" and ctx = None]
    by (simp add: ex_auth_def)
qed

theorem session_usable_witness:
  "\<exists>uc. fst (run_state (authenticate ex_auth ''k'' None (cookie_header ''eyJ.root'') ex_proc) ex_ready) =
    Inr (Some uc) \<and> ucUsername uc = ''root''"
proof -
  have "aeFail ex_auth (Suc (asTick ex_ready)) = None"
    "aeNow ex_auth (asTick ex_ready + 2) + Second < isFrom ex_issue + SessionDuration"
    by (simp_all add: ex_auth_def ex_tick ex_issue_def SessionDuration_def Minute_def Second_def)
  then show ?thesis
    using session_usable [OF ex_history ex_mono ex_jwt _ ex_protected, of ex_issue None] by (simp add: ex_issue_def)
qed

theorem single_admin_witness: "length (asUsers ex_ready) \<le> 1"
  using single_admin [OF ex_history] by simp

theorem setup_admin_race_witness:
  "map adUsername (asUsers (exec (do { SetupAdmin_check ex_auth ''eve'' ''1''; SetupAdmin_check ex_auth ''root'' ''2'';
     SetupAdmin_create ex_auth True ''k'' ''eve'' ''1''; SetupAdmin_create ex_auth True ''k'' ''root'' ''2'' }) ex_start)) =
   [''eve'', ''root'']"
proof -
  have "TrimSpace ''eve'' = ''eve''" by (simp add: go_simps)
  with ex_root show ?thesis
    using setup_admin_race [of ex_start ex_auth "''eve''" "''root''" "''1''" "''2''" True "''k''"]
    by (simp add: ex_start_def ex_auth_def)
qed

end
