(* ===== verification/Registry.thy ===== *)
theory Registry
  imports Webhook Go_Url Rate_Limit
begin

text \<open>
  \<open>src/internal/registry/client.go\<close>: references of container images and the client that asks a registry
  for the digest of one. The HTTP client is a parameter that answers the n-th request; the
  requests made are kept in the state. Of \<open>net/url\<close> the query encoding is written out here.
\<close>

section \<open>References\<close>

record ParsedReference =
  piRegistry :: string
  piRepository :: string
  piTag :: string
  piInsecure :: bool

definition colon :: char where "colon = CHR '':''"
definition slash :: char where "slash = CHR ''/''"
definition at_sign :: char where "at_sign = CHR ''@''"

text \<open>The scheme in front: whether it is plain HTTP, and the rest.\<close>

definition strip_scheme :: "string \<Rightarrow> bool \<times> string" where
  "strip_scheme r =
     (if HasPrefix r ''http://'' then (True, TrimPrefix r ''http://'')
      else if HasPrefix r ''https://'' then (False, TrimPrefix r ''https://'')
      else (False, r))"

text \<open>The tag or digest, split off the repository.\<close>

definition split_tag :: "string \<Rightarrow> string \<times> string" where
  "split_tag r =
     (case Index r at_sign of
        Some atIdx \<Rightarrow> (take atIdx r, drop (Suc atIdx) r)
      | None \<Rightarrow>
          (case LastIndex r colon of
             None \<Rightarrow> (r, ''latest'')
           | Some colonIdx \<Rightarrow>
               (if (case Index r slash of None \<Rightarrow> True | Some slashIdx \<Rightarrow> slashIdx < colonIdx)
                then (take colonIdx r, drop (Suc colonIdx) r)
                else (r, ''latest''))))"

definition is_host :: "string \<Rightarrow> bool" where
  "is_host first \<longleftrightarrow> Contains first ''.'' \<or> Contains first '':'' \<or> first = ''localhost''"

definition split_registry :: "string \<Rightarrow> string \<times> string" where
  "split_registry repoPart =
     (let parts = Split repoPart slash in
      if length parts = 1 then (''registry-1.docker.io'', ''library/'' @ hd parts)
      else if is_host (hd parts) then (hd parts, Join (tl parts) ''/'')
      else (''registry-1.docker.io'', Join parts ''/''))"

definition ParseImageRef :: "string \<Rightarrow> string + ParsedReference" where
  "ParseImageRef imageRef =
     (let ref = TrimSpace imageRef in
      if ref = [] then Inl ''image reference cannot be empty''
      else (let (insec, rest) = strip_scheme ref; (repoPart, tag) = split_tag rest;
                (reg, repository) = split_registry repoPart
            in Inr \<lparr>piRegistry = reg, piRepository = repository, piTag = tag,
                 piInsecure = insec \<or> HasPrefix reg ''localhost'' \<or> HasPrefix reg ''127.0.0.1''\<rparr>))"

section \<open>Challenges\<close>

text \<open>The parts of a challenge between commas outside of quotes; an empty last part is dropped.\<close>

fun challenge_parts :: "string \<Rightarrow> bool \<Rightarrow> string \<Rightarrow> string list" where
  "challenge_parts [] inQuotes current = (if current \<noteq> [] then [current] else [])"
| "challenge_parts (ch # s) inQuotes current =
     (if ch = double_quote then challenge_parts s (\<not> inQuotes) (current @ [ch])
      else if ch = CHR '','' \<and> \<not> inQuotes then current # challenge_parts s inQuotes []
      else challenge_parts s inQuotes (current @ [ch]))"

definition challenge_param :: "string \<Rightarrow> (string, string) gomap \<Rightarrow> (string, string) gomap" where
  "challenge_param part res =
     (let p = TrimSpace part in
      case Index p (CHR ''='') of
        None \<Rightarrow> res
      | Some eq \<Rightarrow> mput (TrimSpace (take eq p)) (TrimChar (TrimSpace (drop (Suc eq) p)) double_quote) res)"

definition parseChallengeParams :: "string \<Rightarrow> (string, string) gomap" where
  "parseChallengeParams s = fold challenge_param (challenge_parts s False []) []"

definition param :: "string \<Rightarrow> (string, string) gomap \<Rightarrow> string" where
  "param k m = (case mget m k of None \<Rightarrow> [] | Some v \<Rightarrow> v)"

subsection \<open>Queries of a URL\<close>

definition query_plain :: "char \<Rightarrow> bool" where
  "query_plain c \<longleftrightarrow> is_letter c \<or> is_digit c \<or> c \<in> set ''-_.~''"

definition QueryEscape :: "string \<Rightarrow> string" where
  "QueryEscape s = concat (map (\<lambda>c.
     if query_plain c then [c] else if c = CHR '' '' then ''+''
     else [CHR ''%'', upper_hex (byte c div 16), upper_hex (byte c mod 16)]) s)"

definition QueryUnescape :: "string \<Rightarrow> string option" where
  "QueryUnescape s = unescape encodePath (map (\<lambda>c. if c = CHR ''+'' then CHR '' '' else c) s)"

text \<open>\<open>url.Values\<close> as an ordered list; \<open>ParseQuery\<close> skips pairs it cannot decode.\<close>

definition query_pair :: "string \<Rightarrow> (string \<times> string) list" where
  "query_pair p =
     (if p = [] \<or> CHR '';'' \<in> set p then []
      else (case (QueryUnescape (fst (cut (CHR ''='') p)), QueryUnescape (snd (cut (CHR ''='') p))) of
              (Some k, Some v) \<Rightarrow> [(k, v)]
            | _ \<Rightarrow> []))"

definition ParseQuery :: "string \<Rightarrow> (string \<times> string) list" where
  "ParseQuery q = concat (map query_pair (Split q (CHR ''&'')))"

definition query_set :: "string \<Rightarrow> string \<Rightarrow> (string \<times> string) list \<Rightarrow> (string \<times> string) list" where
  "query_set k v q = filter (\<lambda>(k', _). k' \<noteq> k) q @ [(k, v)]"

text \<open>\<open>Values.Encode\<close> sorts by key (by bytes) and keeps the order of the values of a key.\<close>

definition key_code :: "string \<times> string \<Rightarrow> nat list" where
  "key_code e = map byte (fst e)"

fun lex_le :: "nat list \<Rightarrow> nat list \<Rightarrow> bool" where
  "lex_le [] ys = True"
| "lex_le (x # xs) [] = False"
| "lex_le (x # xs) (y # ys) = (x < y \<or> (x = y \<and> lex_le xs ys))"

fun insert_pair :: "string \<times> string \<Rightarrow> (string \<times> string) list \<Rightarrow> (string \<times> string) list" where
  "insert_pair e [] = [e]"
| "insert_pair e (x # xs) = (if lex_le (key_code e) (key_code x) then e # x # xs else x # insert_pair e xs)"

definition Encode :: "(string \<times> string) list \<Rightarrow> string" where
  "Encode q = Join (map (\<lambda>(k, v). QueryEscape k @ ''='' @ QueryEscape v) (foldr insert_pair q [])) ''&''"

section \<open>The client\<close>

record registry_request =
  rqMethod :: string
  rqURL :: string
  rqAuthorization :: string

datatype registry_error =
  BadReference string
| BadRequest string
| TransportError string
| AuthFailed string
| ImageNotFound
| UnexpectedStatus int
| ReadingBody string

record registry_env =
  reDo :: "nat \<Rightarrow> registry_request \<Rightarrow> string + http_response"
  reReadAll :: "nat \<Rightarrow> string option"

type_synonym registry_state = "registry_request list"

definition registry_do ::
  "registry_env \<Rightarrow> string \<Rightarrow> string \<Rightarrow> string \<Rightarrow> (registry_state, registry_error + http_response) state" where
  "registry_do env meth u auth =
     (if Parse u = None then State_Monad.return (Inl (BadRequest u))
      else do {
        n \<leftarrow> gets length;
        let r = \<lparr>rqMethod = meth, rqURL = u, rqAuthorization = auth\<rparr>;
        modify (\<lambda>log. log @ [r]);
        State_Monad.return (case reDo env n r of Inl err \<Rightarrow> Inl (TransportError err) | Inr resp \<Rightarrow> Inr resp)
      })"

text \<open>The token of a token answer: the first JSON value of the body, decoded into two string fields.\<close>

definition token_field :: "string \<Rightarrow> json \<Rightarrow> string \<times> string \<Rightarrow> (string \<times> string) option" where
  "token_field k v r =
     (if EqualFold k ''token'' then map_option (\<lambda>x. (x, snd r)) (dec_string v (fst r))
      else if EqualFold k ''access_token'' then map_option (\<lambda>x. (fst r, x)) (dec_string v (snd r))
      else Some r)"

definition decode_token :: "string \<Rightarrow> (string \<times> string) option" where
  "decode_token body =
     (case json_value (Suc (2 * length body)) 0 body of
        None \<Rightarrow> None
      | Some (v, _) \<Rightarrow> dec_object token_field v ([], []))"

definition token_url :: "(string, string) gomap \<Rightarrow> string \<Rightarrow> URL \<Rightarrow> string" where
  "token_url params repository u =
     (let q0 = ParseQuery (uRawQuery u);
          q1 = (if param ''service'' params \<noteq> [] then query_set ''service'' (param ''service'' params) q0 else q0);
          q2 = (if param ''scope'' params \<noteq> [] then query_set ''scope'' (param ''scope'' params) q1
                else if repository \<noteq> [] then query_set ''scope'' (''repository:'' @ repository @ '':pull'') q1
                else q1)
      in url_string (u\<lparr>uRawQuery := Encode q2\<rparr>))"

definition resolveAuthToken ::
  "registry_env \<Rightarrow> string \<Rightarrow> string \<Rightarrow> (registry_state, registry_error + string) state" where
  "resolveAuthToken env authHeader repository =
     (if authHeader = [] then State_Monad.return (Inl (AuthFailed ''missing Www-Authenticate header''))
      else if \<not> HasPrefix (ToLower authHeader) ''bearer '' then
        State_Monad.return (Inl (AuthFailed ''unsupported auth challenge''))
      else (let params = parseChallengeParams (drop 7 authHeader); realm = param ''realm'' params in
        if realm = [] then State_Monad.return (Inl (AuthFailed ''missing realm in Www-Authenticate header''))
        else (case Parse realm of
          None \<Rightarrow> State_Monad.return (Inl (AuthFailed ''invalid realm URL''))
        | Some u \<Rightarrow> do {
            r \<leftarrow> registry_do env ''GET'' (token_url params repository u) [];
            State_Monad.return (case r of
              Inl err \<Rightarrow> Inl err
            | Inr resp \<Rightarrow>
                if hrStatusCode resp \<noteq> 200 then Inl (UnexpectedStatus (hrStatusCode resp))
                else (case decode_token (hrBody resp) of
                        None \<Rightarrow> Inl (AuthFailed ''decoding token response'')
                      | Some (token, accessToken) \<Rightarrow>
                          if token \<noteq> [] then Inr token
                          else if accessToken \<noteq> [] then Inr accessToken
                          else Inl (AuthFailed ''token endpoint returned empty token'')))
          })))"

definition manifest_url :: "ParsedReference \<Rightarrow> string" where
  "manifest_url ref =
     (if piInsecure ref then ''http'' else ''https'') @ ''://'' @ piRegistry ref @ ''/v2/'' @ piRepository ref @
     ''/manifests/'' @ piTag ref"

text \<open>The first answer to \<open>HEAD\<close>, repeated with a token when it is 401; with the token used.\<close>

definition head_manifest ::
  "registry_env \<Rightarrow> ParsedReference \<Rightarrow> (registry_state, registry_error + http_response \<times> string) state" where
  "head_manifest env ref = do {
     r \<leftarrow> registry_do env ''HEAD'' (manifest_url ref) [];
     case r of
       Inl err \<Rightarrow> State_Monad.return (Inl err)
     | Inr resp \<Rightarrow>
         if hrStatusCode resp \<noteq> 401 then State_Monad.return (Inr (resp, []))
         else do {
           t \<leftarrow> resolveAuthToken env (response_header resp ''Www-Authenticate'') (piRepository ref);
           case t of
             Inl err \<Rightarrow> State_Monad.return (Inl err)
           | Inr token \<Rightarrow> do {
               r2 \<leftarrow> registry_do env ''HEAD'' (manifest_url ref) (''Bearer '' @ token);
               State_Monad.return (case r2 of Inl err \<Rightarrow> Inl err | Inr resp2 \<Rightarrow> Inr (resp2, token))
             }
         }
   }"

definition max_manifest :: nat where "max_manifest = 4 * 1024 * 1024"

definition body_digest :: "string \<Rightarrow> string" where
  "body_digest body = ''sha256:'' @ EncodeToString (sha256 (take max_manifest body))"

definition get_manifest ::
  "registry_env \<Rightarrow> ParsedReference \<Rightarrow> string \<Rightarrow> (registry_state, registry_error + string) state" where
  "get_manifest env ref authToken = do {
     n \<leftarrow> gets length;
     r \<leftarrow> registry_do env ''GET'' (manifest_url ref) (if authToken \<noteq> [] then ''Bearer '' @ authToken else []);
     State_Monad.return (case r of
       Inl err \<Rightarrow> Inl err
     | Inr resp \<Rightarrow>
         if hrStatusCode resp \<noteq> 200 then Inl (UnexpectedStatus (hrStatusCode resp))
         else if response_header resp ''Docker-Content-Digest'' \<noteq> [] then
           Inr (response_header resp ''Docker-Content-Digest'')
         else (case reReadAll env n of
                 Some err \<Rightarrow> Inl (ReadingBody err)
               | None \<Rightarrow> Inr (body_digest (hrBody resp))))
   }"

definition GetRemoteImageDigest :: "registry_env \<Rightarrow> string \<Rightarrow> (registry_state, registry_error + string) state" where
  "GetRemoteImageDigest env imageRef =
     (case ParseImageRef imageRef of
        Inl err \<Rightarrow> State_Monad.return (Inl (BadReference err))
      | Inr ref \<Rightarrow> do {
          r \<leftarrow> head_manifest env ref;
          case r of
            Inl err \<Rightarrow> State_Monad.return (Inl err)
          | Inr (resp, authToken) \<Rightarrow>
              if hrStatusCode resp = 404 then State_Monad.return (Inl ImageNotFound)
              else if hrStatusCode resp \<noteq> 200 then State_Monad.return (Inl (UnexpectedStatus (hrStatusCode resp)))
              else if response_header resp ''Docker-Content-Digest'' \<noteq> [] then
                State_Monad.return (Inr (response_header resp ''Docker-Content-Digest''))
              else get_manifest env ref authToken
        })"

end
