(* ===== verification/Registry_Props.thy ===== *)
theory Registry_Props
  imports Registry
begin

text \<open>
  References are read back as they were written, and what asking a registry for a digest does.
\<close>

section \<open>References\<close>

text \<open>A part of a reference: text without the separators and without white space.\<close>

definition plain_part :: "string \<Rightarrow> bool" where
  "plain_part s \<longleftrightarrow> s \<noteq> [] \<and> list_all (\<lambda>c. c \<noteq> slash \<and> c \<noteq> at_sign \<and> \<not> is_space c) s"

definition image_ref :: "string \<Rightarrow> string list \<Rightarrow> string \<Rightarrow> string" where
  "image_ref host path tag = host @ ''/'' @ Join path ''/'' @ '':'' @ tag"

lemma Index_first: "c \<notin> set x \<Longrightarrow> Index (x @ c # s) c = Some (length x)"
  by (induction x) auto

lemma LastIndex_last: "c \<notin> set s \<Longrightarrow> LastIndex (x @ c # s) c = Some (length x)"
proof (induction x)
  case Nil
  then show ?case using LastIndex_None [of s c] by simp
qed auto

lemma Index_append: "Index x c = Some i \<Longrightarrow> Index (x @ y) c = Some i"
  by (induction x arbitrary: i) (auto split: if_splits)

lemma set_Join: "set (Join ps sep) \<subseteq> \<Union> (set ` set ps) \<union> set sep"
  by (induction ps sep rule: Join.induct) auto

lemma Join_eq_Nil: "Join ps [c] = [] \<Longrightarrow> ps = [] \<or> ps = [[]]"
  by (induction ps "[c]" rule: Join.induct) auto

text \<open>A scheme needs two slashes in a row, which no reference of non-empty parts has.\<close>

lemma no_double_slash:
  assumes "slash \<notin> set host" and "slash \<notin> set p" and "c \<noteq> slash"
  shows "\<not> HasPrefix (host @ slash # c # r) (p @ ''//'')"
proof
  assume "HasPrefix (host @ slash # c # r) (p @ ''//'')"
  then obtain t where t: "host @ slash # c # r = p @ slash # slash # t"
    by (auto simp: HasPrefix_iff_prefix prefix_def slash_def)
  have "slash \<notin> set a \<Longrightarrow> takeWhile (\<lambda>x. x \<noteq> slash) (a @ slash # b) = a" for a b by (induction a) auto
  with assms(1,2) t have "host = p" by metis
  with t assms(3) show False by simp
qed

lemma strip_scheme_kept:
  assumes "slash \<notin> set host" and "c \<noteq> slash"
  shows "strip_scheme (host @ slash # c # r) = (False, host @ slash # c # r)"
  using no_double_slash [OF assms(1) _ assms(2), of "''http:''"] no_double_slash [OF assms(1) _ assms(2), of "''https:''"]
  by (simp add: strip_scheme_def) (simp add: slash_def)

lemma plain_ends: "plain_part s \<Longrightarrow> \<not> is_space (hd s) \<and> \<not> is_space (last s) \<and> s \<noteq> []"
  by (auto simp: plain_part_def list_all_iff)

lemma plain_chars: "plain_part s \<Longrightarrow> slash \<notin> set s \<and> at_sign \<notin> set s"
  by (auto simp: plain_part_def list_all_iff)

lemma split_tag_last:
  assumes "at_sign \<notin> set (x @ colon # tag)" and "colon \<notin> set tag" and "slash \<notin> set tag"
  shows "split_tag (x @ colon # tag) = (x, tag)"
proof -
  have "Index (x @ colon # tag) at_sign = None" using assms(1) Index_None by blast
  moreover have "(case Index (x @ colon # tag) slash of None \<Rightarrow> True | Some i \<Rightarrow> i < length x)"
  proof (cases "slash \<in> set x")
    case True
    then obtain i where "Index x slash = Some i" using Index_None by (metis option.exhaust)
    then show ?thesis using Index_Some Index_append by fastforce
  next
    case False
    then have "Index (x @ colon # tag) slash = None"
      using assms(3) by (subst Index_None) (simp add: colon_def slash_def)
    then show ?thesis by simp
  qed
  ultimately show ?thesis using LastIndex_last [OF assms(2), of x] by (simp add: split_tag_def)
qed

lemma ParseImageRef_short:
  assumes "plain_part tag" and "colon \<notin> set tag" and "plain_part name" and "colon \<notin> set name"
  shows "ParseImageRef (name @ '':'' @ tag) =
    Inr \<lparr>piRegistry = ''registry-1.docker.io'', piRepository = ''library/'' @ name, piTag = tag, piInsecure = False\<rparr>"
proof -
  let ?r = "name @ colon # tag"
  have ref: "name @ '':'' @ tag = ?r" by (simp add: colon_def)
  have chars: "at_sign \<notin> set ?r" "slash \<notin> set ?r"
    using plain_chars [OF assms(1)] plain_chars [OF assms(3)] by (auto simp: at_sign_def slash_def colon_def)
  have "strip_scheme ?r = (False, ?r)"
    using chars(2) set_mono_prefix [of "''http://''" ?r] set_mono_prefix [of "''https://''" ?r]
    by (auto simp: strip_scheme_def HasPrefix_iff_prefix slash_def)
  moreover have "TrimSpace ?r = ?r"
    using plain_ends [OF assms(1)] plain_ends [OF assms(3)] by (simp add: TrimSpace_def TrimLeft_id TrimRight_id)
  moreover have "split_tag ?r = (name, tag)"
    using chars assms(2) by (intro split_tag_last) auto
  moreover have "split_registry name = (''registry-1.docker.io'', ''library/'' @ name)"
    using chars(2) by (simp add: split_registry_def Split_plain)
  ultimately show ?thesis
    unfolding ref by (simp add: ParseImageRef_def Let_def HasPrefix_def)
qed

text \<open>
  References are read back as they were written. A registry host, a path of one or more parts and a
  tag, written in the usual form, are parsed into exactly that host, path and tag, whatever ports
  and colons the host and the path contain; plain HTTP is used for local registries only. A single name
  with a tag is an official image of Docker Hub.
\<close>

theorem ParseImageRef_roundtrip:
  assumes "plain_part host" and "is_host host" and "path \<noteq> []" and "list_all plain_part path"
    and "plain_part tag" and "colon \<notin> set tag" and "plain_part name" and "colon \<notin> set name"
  shows "ParseImageRef (image_ref host path tag) =
      Inr \<lparr>piRegistry = host, piRepository = Join path ''/'', piTag = tag,
        piInsecure = HasPrefix host ''localhost'' \<or> HasPrefix host ''127.0.0.1''\<rparr> \<and>
    ParseImageRef (name @ '':'' @ tag) =
      Inr \<lparr>piRegistry = ''registry-1.docker.io'', piRepository = ''library/'' @ name, piTag = tag, piInsecure = False\<rparr>"
proof
  obtain p0 ps where path: "path = p0 # ps" using assms(3) by (cases path) auto
  obtain c0 p1 where p0: "p0 = c0 # p1" "c0 \<noteq> slash"
    using assms(4) path by (cases p0) (auto simp: plain_part_def)
  let ?x = "host @ slash # Join path ''/''"
  have ref: "image_ref host path tag = ?x @ colon # tag"
    by (simp add: image_ref_def slash_def colon_def)
  have parts: "\<forall>p \<in> set (host # path). slash \<notin> set p \<and> at_sign \<notin> set p"
    using assms(1,4) plain_chars by (auto simp: list_all_iff)
  have "at_sign \<notin> set (Join path ''/'')" using parts set_Join [of path "''/''"] by (auto simp: at_sign_def)
  then have at: "at_sign \<notin> set (?x @ colon # tag)"
    using parts plain_chars [OF assms(5)] by (simp add: at_sign_def slash_def colon_def)
  have trim: "TrimSpace (?x @ colon # tag) = ?x @ colon # tag"
    using plain_ends [OF assms(1)] plain_ends [OF assms(5)] by (simp add: TrimSpace_def TrimLeft_id TrimRight_id)
  have "\<exists>r. Join path ''/'' = c0 # r" using path p0 by (cases ps) auto
  then obtain r where r: "Join path ''/'' = c0 # r" by blast
  have strip: "strip_scheme (?x @ colon # tag) = (False, ?x @ colon # tag)"
    using strip_scheme_kept [of host c0 "r @ colon # tag"] parts p0(2) r by simp
  have "Split ?x slash = host # path"
    using Split_first [of slash host] Split_Join [of path slash] parts assms(3) by (simp add: slash_def)
  then have "split_registry ?x = (host, Join path ''/'')"
    using assms(2,3) by (simp add: split_registry_def Let_def)
  moreover have "split_tag (?x @ colon # tag) = (?x, tag)"
    using at assms(6) plain_chars [OF assms(5)] by (intro split_tag_last) auto
  ultimately show "ParseImageRef (image_ref host path tag) =
      Inr \<lparr>piRegistry = host, piRepository = Join path ''/'', piTag = tag,
        piInsecure = HasPrefix host ''localhost'' \<or> HasPrefix host ''127.0.0.1''\<rparr>"
    using trim strip unfolding ref by (simp add: ParseImageRef_def Let_def)
next
  show "ParseImageRef (name @ '':'' @ tag) =
      Inr \<lparr>piRegistry = ''registry-1.docker.io'', piRepository = ''library/'' @ name, piTag = tag, piInsecure = False\<rparr>"
    by (rule ParseImageRef_short) (use assms in auto)
qed

theorem ParseImageRef_roundtrip_witness:
  "ParseImageRef ''localhost:5000/ci/runner:v1'' =
    Inr \<lparr>piRegistry = ''localhost:5000'', piRepository = ''ci/runner'', piTag = ''v1'', piInsecure = True\<rparr>"
proof -
  have "plain_part ''localhost:5000''" "is_host ''localhost:5000''" "list_all plain_part [''ci'', ''runner'']"
    "plain_part ''v1''" "colon \<notin> set ''v1''"
    by (simp_all add: plain_part_def is_host_def slash_def at_sign_def colon_def is_space_def HasPrefix_def)
  from ParseImageRef_roundtrip [OF this(1,2) _ this(3-5,4,5)] show ?thesis
    by (simp add: image_ref_def HasPrefix_def)
qed

text \<open>A reference with both a tag and a digest keeps the tag in its repository.\<close>

lemma ParseImageRef_tag_and_digest:
  "ParseImageRef ''ubuntu:22.04@sha256:ab'' =
    Inr \<lparr>piRegistry = ''registry-1.docker.io'', piRepository = ''library/ubuntu:22.04'', piTag = ''sha256:ab'',
      piInsecure = False\<rparr>"
  by (simp add: ParseImageRef_def strip_scheme_def split_tag_def split_registry_def at_sign_def slash_def colon_def
      go_simps)

section \<open>Digests\<close>

text \<open>The answer to the last request, and that it was made to the manifest of the reference.\<close>

definition last_answer :: "registry_env \<Rightarrow> string \<Rightarrow> registry_state \<Rightarrow> http_response \<Rightarrow> bool" where
  "last_answer env u log resp \<longleftrightarrow>
     log \<noteq> [] \<and> rqURL (last log) = u \<and> reDo env (length log - 1) (last log) = Inr resp"

lemma run_registry_do:
  "run_state (registry_do env meth u auth) log =
    (if Parse u = None then (Inl (BadRequest u), log)
     else (let r = \<lparr>rqMethod = meth, rqURL = u, rqAuthorization = auth\<rparr>
           in (case reDo env (length log) r of Inl err \<Rightarrow> Inl (TransportError err) | Inr resp \<Rightarrow> Inr resp, log @ [r])))"
  by (simp add: registry_do_def Let_def)

lemma registry_do_log:
  "run_state (registry_do env meth u auth) log = (r, log') \<Longrightarrow>
    length log' \<le> Suc (length log) \<and>
    (\<forall>resp. r = Inr resp \<longrightarrow> last_answer env u log' resp \<and> rqMethod (last log') = meth)"
  by (auto simp: run_registry_do last_answer_def Let_def split: if_splits sum.splits)

lemma resolveAuthToken_log:
  "run_state (resolveAuthToken env h repo) log = (r, log') \<Longrightarrow> length log' \<le> Suc (length log)"
  by (auto simp: resolveAuthToken_def Let_def split: if_splits option.splits prod.splits dest!: registry_do_log)

lemma head_manifest_log:
  assumes "run_state (head_manifest env ref) log = (r, log')"
  shows "length log' \<le> 3 + length log \<and> (\<forall>resp tok. r = Inr (resp, tok) \<longrightarrow> last_answer env (manifest_url ref) log' resp)"
  using assms
  by (auto simp: head_manifest_def split: if_splits sum.splits prod.splits
      dest!: registry_do_log resolveAuthToken_log)

lemma get_manifest_log:
  assumes "run_state (get_manifest env ref tok) log = (r, log')"
  shows "length log' \<le> Suc (length log) \<and>
    (\<forall>d. r = Inr d \<longrightarrow> (\<exists>resp. last_answer env (manifest_url ref) log' resp \<and> hrStatusCode resp = 200 \<and>
       (d = response_header resp ''Docker-Content-Digest'' \<or> d = body_digest (hrBody resp))))"
  using assms
  by (auto simp: get_manifest_def split: if_splits sum.splits prod.splits option.splits dest!: registry_do_log)

text \<open>
  C22. A digest is what the registry answered for this image. Asking for the digest of an image makes at
  most four requests, and when it succeeds, the last one was for the manifest of exactly the parsed
  reference and was answered with status 200, and the digest is the one named in that answer or the SHA-256
  of its body. The answers of the token service and error answers never become digests.
\<close>

theorem remote_digest_genuine:
  assumes "run_state (GetRemoteImageDigest env imageRef) [] = (r, log)"
  shows "length log \<le> 4 \<and>
    (\<forall>d. r = Inr d \<longrightarrow> (\<exists>ref resp. ParseImageRef imageRef = Inr ref \<and> last_answer env (manifest_url ref) log resp \<and>
       hrStatusCode resp = 200 \<and>
       (d = response_header resp ''Docker-Content-Digest'' \<or> d = body_digest (hrBody resp))))"
proof (cases "ParseImageRef imageRef")
  case (Inl err)
  then show ?thesis using assms by (auto simp: GetRemoteImageDigest_def)
next
  case (Inr ref)
  obtain h log1 where h: "run_state (head_manifest env ref) [] = (h, log1)" by fastforce
  note head_manifest_log [OF h]
  with assms Inr h show ?thesis
    by (fastforce simp: GetRemoteImageDigest_def split: if_splits sum.splits prod.splits dest!: get_manifest_log)
qed

text \<open>A registry that asks for a token first.\<close>

definition ex_registry :: registry_env where
  "ex_registry = \<lparr>
     reDo = (\<lambda>n r. Inr (
       if rqMethod r = ''GET'' then
         \<lparr>hrStatusCode = 200, hrHeader = [], hrBody = [CHR ''{'', double_quote] @ ''token'' @
            [double_quote, CHR '':'', double_quote] @ ''t1'' @ [double_quote, CHR ''}'']\<rparr>
       else if rqAuthorization r = ''Bearer t1'' then
         \<lparr>hrStatusCode = 200, hrHeader = [(''docker-content-digest'', ''sha256:77'')], hrBody = []\<rparr>
       else
         \<lparr>hrStatusCode = 401, hrHeader = [(''www-authenticate'',
            ''Bearer realm='' @ [double_quote] @ ''https://auth.docker.io/token'' @ [double_quote] @ '',service=hub'')],
          hrBody = []\<rparr>)),
     reReadAll = (\<lambda>n. None)\<rparr>"

theorem remote_digest_genuine_witness:
  "length (snd (run_state (GetRemoteImageDigest ex_registry ''ubuntu:1'') [])) \<le> 4 \<and>
   fst (run_state (GetRemoteImageDigest ex_registry ''ubuntu:1'') []) = Inr ''sha256:77''"
proof -
  have "fst (run_state (GetRemoteImageDigest ex_registry ''ubuntu:1'') []) = Inr ''sha256:77''" by code_simp
  with remote_digest_genuine [OF surjective_pairing, of ex_registry "''ubuntu:1''"] show ?thesis by blast
qed

end
