(* ===== verification/Image_Update.thy ===== *)
theory Image_Update
  imports Pool_Service
begin

text \<open>
  \<open>src/internal/server/image_update.go\<close>: the notices that a newer runner image exists. The service keeps one
  notice per pool; an image is pulled by a goroutine that ends long after the request, so that the
  pulls under way are part of the state and ending one is a step of its own. The inspector of local
  images, the registry and the puller are parameters that may be nil (\<open>None\<close>), asked with the number of
  the call.
\<close>

section \<open>State\<close>

record ImageUpdate =
  imId :: int
  imPoolId :: int
  imCurrentImage :: string
  imLatestDigest :: string
  imStatus :: string
  imCheckedAt :: gotime

record image_service =
  isTables :: pool_tables
  isUpdates :: "(int, ImageUpdate) gomap"
  isNextID :: int
  isPulls :: "(int \<times> RunnerPool) list"
  isTick :: nat

record image_env =
  ieDB :: db_env
  ieInspector :: "(nat \<Rightarrow> string \<Rightarrow> string) option"
  ieRegistry :: "(nat \<Rightarrow> string \<Rightarrow> string + string) option"
  iePuller :: "(nat \<Rightarrow> string \<Rightarrow> string option) option"
  ieNow :: "nat \<Rightarrow> gotime"

datatype image_error =
  ImInvalidArgument
| ImNotFound
| ImUnavailable string
| ImInternal string

definition NewImageUpdateService :: "pool_tables \<Rightarrow> image_service" where
  "NewImageUpdateService t = \<lparr>isTables = t, isUpdates = [], isNextID = 1, isPulls = [], isTick = 0\<rparr>"

definition im_tick :: "(image_service, nat) state" where
  "im_tick = do { n \<leftarrow> gets isTick; modify (\<lambda>s. s\<lparr>isTick := Suc n\<rparr>); State_Monad.return n }"

definition on_tables :: "(pool_tables, 'a) state \<Rightarrow> (image_service, 'a) state" where
  "on_tables m = do {
     t \<leftarrow> gets isTables;
     let (a, t') = run_state m t;
     modify (\<lambda>s. s\<lparr>isTables := t'\<rparr>);
     State_Monad.return a
   }"

section \<open>Operations\<close>

text \<open>Recording a notice; it replaces the one the pool had.\<close>

definition FlagUpdate :: "image_env \<Rightarrow> int \<Rightarrow> string \<Rightarrow> string \<Rightarrow> (image_service, ImageUpdate) state" where
  "FlagUpdate env poolID currentImage latestDigest = do {
     n \<leftarrow> im_tick;
     i \<leftarrow> gets isNextID;
     let up = \<lparr>imId = i, imPoolId = poolID, imCurrentImage = currentImage, imLatestDigest = latestDigest,
               imStatus = ''available'', imCheckedAt = ieNow env n\<rparr>;
     modify (\<lambda>s. s\<lparr>isNextID := i + 1, isUpdates := mput poolID up (isUpdates s)\<rparr>);
     State_Monad.return up
   }"

definition image_of :: "RunnerPool \<Rightarrow> string" where
  "image_of p =
     (let imageRef = TrimSpace (pRunnerImage p)
      in if imageRef = [] then ''ghcr.io/noosxe/runner-aio:latest'' else imageRef)"

text \<open>What is offered as the newest image when no registry is configured.\<close>

definition fallback_digest :: "string \<Rightarrow> string" where
  "fallback_digest imageRef =
     (if Contains imageRef '':'' then hd (Split imageRef (CHR '':'')) @ '':latest'' else imageRef)"

definition remote_digest :: "image_env \<Rightarrow> string \<Rightarrow> (image_service, string + string) state" where
  "remote_digest env imageRef =
     (case ieRegistry env of
        None \<Rightarrow> State_Monad.return (Inr (fallback_digest imageRef))
      | Some ask \<Rightarrow> do { n \<leftarrow> im_tick; State_Monad.return (ask n imageRef) })"

definition local_digest :: "image_env \<Rightarrow> string \<Rightarrow> (image_service, string) state" where
  "local_digest env imageRef =
     (case ieInspector env of
        None \<Rightarrow> State_Monad.return []
      | Some inspect \<Rightarrow> do { n \<leftarrow> im_tick; State_Monad.return (inspect n imageRef) })"

text \<open>The image is up to date: an offer that is not being pulled is withdrawn.\<close>

definition withdraw :: "int \<Rightarrow> (int, ImageUpdate) gomap \<Rightarrow> (int, ImageUpdate) gomap" where
  "withdraw poolID m =
     (case mget m poolID of
        None \<Rightarrow> m
      | Some up \<Rightarrow> if imStatus up = ''available'' then mdel poolID m else m)"

definition CheckImageUpdate :: "image_env \<Rightarrow> int \<Rightarrow> (image_service, image_error + ImageUpdate option) state" where
  "CheckImageUpdate env poolID =
     (if poolID \<le> 0 then State_Monad.return (Inl ImInvalidArgument)
      else do {
        g \<leftarrow> on_tables (GetRunnerPoolById (ieDB env) poolID);
        case g of
          Inl _ \<Rightarrow> State_Monad.return (Inl ImNotFound)
        | Inr p \<Rightarrow> do {
            localDigest \<leftarrow> local_digest env (image_of p);
            r \<leftarrow> remote_digest env (image_of p);
            case r of
              Inl err \<Rightarrow> State_Monad.return (Inl (ImUnavailable err))
            | Inr remoteDigest \<Rightarrow>
                if localDigest \<noteq> [] \<and> remoteDigest \<noteq> [] \<and> localDigest = remoteDigest then do {
                  modify (\<lambda>s. s\<lparr>isUpdates := withdraw poolID (isUpdates s)\<rparr>);
                  State_Monad.return (Inr None)
                }
                else do {
                  up \<leftarrow> FlagUpdate env poolID (image_of p) remoteDigest;
                  State_Monad.return (Inr (Some up))
                }
          }
      })"

definition set_status :: "int \<Rightarrow> string \<Rightarrow> (int, ImageUpdate) gomap \<Rightarrow> (int, ImageUpdate) gomap" where
  "set_status poolID status m =
     (case mget m poolID of None \<Rightarrow> m | Some up \<Rightarrow> mput poolID (up\<lparr>imStatus := status\<rparr>) m)"

text \<open>The end of a pull: a failed one is offered again, a successful one clears the pool's notice.\<close>

definition executePull :: "image_env \<Rightarrow> int \<Rightarrow> RunnerPool \<Rightarrow> (image_service, string option) state" where
  "executePull env poolID p = do {
     pullErr \<leftarrow> (case iePuller env of
                    None \<Rightarrow> State_Monad.return None
                  | Some pull \<Rightarrow> do { n \<leftarrow> im_tick; State_Monad.return (pull n (pRunnerImage p)) });
     modify (\<lambda>s. s\<lparr>isUpdates :=
       (if pullErr \<noteq> None then set_status poolID ''available'' (isUpdates s) else mdel poolID (isUpdates s))\<rparr>);
     State_Monad.return pullErr
   }"

definition PullImage :: "image_env \<Rightarrow> bool \<Rightarrow> int option \<Rightarrow> int \<Rightarrow> (image_service, image_error + unit) state" where
  "PullImage env syncPull user poolID =
     (if poolID \<le> 0 then State_Monad.return (Inl ImInvalidArgument)
      else do {
        g \<leftarrow> on_tables (GetRunnerPoolById (ieDB env) poolID);
        case g of
          Inl _ \<Rightarrow> State_Monad.return (Inl ImNotFound)
        | Inr p \<Rightarrow> do {
            modify (\<lambda>s. s\<lparr>isUpdates := set_status poolID ''pulling'' (isUpdates s)\<rparr>);
            on_tables (RecordAuditLogWithUser (ieDB env) user ''image.pull'' ''runner_pool'' (Some poolID)
              [(''pool_name'', DString (pName p)), (''image'', DString (pRunnerImage p))]);
            if syncPull then do {
              err \<leftarrow> executePull env poolID p;
              State_Monad.return (case err of Some e \<Rightarrow> Inl (ImInternal e) | None \<Rightarrow> Inr ())
            }
            else do {
              modify (\<lambda>s. s\<lparr>isPulls := (poolID, p) # isPulls s\<rparr>);
              State_Monad.return (Inr ())
            }
          }
      })"

text \<open>The goroutine of a pull under way ends.\<close>

definition end_pull :: "image_env \<Rightarrow> int \<times> RunnerPool \<Rightarrow> (image_service, string option) state" where
  "end_pull env job = do {
     modify (\<lambda>s. s\<lparr>isPulls := remove1 job (isPulls s)\<rparr>);
     executePull env (fst job) (snd job)
   }"

text \<open>The pending notices of a pool, or of all pools; \<open>ord\<close> is the iteration order of the map.\<close>

definition ListImageUpdates :: "nat list \<Rightarrow> int \<Rightarrow> image_service \<Rightarrow> ImageUpdate list" where
  "ListImageUpdates ord poolID s =
     map snd (filter (\<lambda>(pid, up). \<not> (poolID > 0 \<and> pid \<noteq> poolID) \<and>
       (imStatus up = ''available'' \<or> imStatus up = ''pulling'')) (go_range ord (isUpdates s)))"

definition DismissImageUpdate ::
  "image_env \<Rightarrow> nat list \<Rightarrow> int option \<Rightarrow> int \<Rightarrow> (image_service, image_error + unit) state" where
  "DismissImageUpdate env ord user updateID =
     (if updateID \<le> 0 then State_Monad.return (Inl ImInvalidArgument)
      else do {
        m \<leftarrow> gets isUpdates;
        case find (\<lambda>(pid, up). imId up = updateID) (go_range ord m) of
          None \<Rightarrow> State_Monad.return (Inl ImNotFound)
        | Some (pid, _) \<Rightarrow> do {
            modify (\<lambda>s. s\<lparr>isUpdates := mdel pid (isUpdates s)\<rparr>);
            on_tables (RecordAuditLogWithUser (ieDB env) user ''image.dismiss_update'' ''image_update'' (Some updateID)
              [(''notification_id'', DInt updateID)]);
            State_Monad.return (Inr ())
          }
      })"

section \<open>Steps\<close>

inductive image_step :: "image_env \<Rightarrow> image_service \<Rightarrow> image_service \<Rightarrow> bool" for env :: image_env where
  flag: "image_step env s (exec (FlagUpdate env i img dg) s)"
| check: "image_step env s (exec (CheckImageUpdate env i) s)"
| pull: "image_step env s (exec (PullImage env sync user i) s)"
| pulled: "job \<in> set (isPulls s) \<Longrightarrow> image_step env s (exec (end_pull env job) s)"
| dismiss: "image_step env s (exec (DismissImageUpdate env ord user i) s)"

inductive image_reach :: "image_env \<Rightarrow> image_service \<Rightarrow> bool" for env :: image_env where
  fresh: "image_reach env (NewImageUpdateService t)"
| step: "image_reach env s \<Longrightarrow> image_step env s s' \<Longrightarrow> image_reach env s'"

section \<open>The invariant\<close>

definition updates_ok :: "image_service \<Rightarrow> bool" where
  "updates_ok s \<longleftrightarrow>
     wf_map (isUpdates s) \<and> inj_on (\<lambda>e. imId (snd e)) (set (isUpdates s)) \<and> 0 < isNextID s \<and>
     (\<forall>(pid, up) \<in> set (isUpdates s). imPoolId up = pid \<and> 0 < imId up \<and> imId up < isNextID s \<and>
        imStatus up \<in> {''available'', ''pulling''})"

end
