(* ===== verification/Image_Props.thy ===== *)
theory Image_Props
  imports Image_Update Example_Env
begin

text \<open>
  What the image notices guarantee over every interleaving of requests and pulls, what a check answers,
  and the notice that a pull under way loses.
\<close>

section \<open>The notices\<close>

definition notices_ok :: "int \<Rightarrow> (int, ImageUpdate) gomap \<Rightarrow> bool" where
  "notices_ok n m \<longleftrightarrow>
     wf_map m \<and> inj_on (\<lambda>e. imId (snd e)) (set m) \<and> 0 < n \<and>
     (\<forall>(pid, up) \<in> set m. imPoolId up = pid \<and> 0 < imId up \<and> imId up < n \<and>
        imStatus up \<in> {''available'', ''pulling''})"

lemma updates_ok_notices: "updates_ok s \<longleftrightarrow> notices_ok (isNextID s) (isUpdates s)"
  by (simp add: updates_ok_def notices_ok_def)

lemma notices_mdel [simp]: "notices_ok n m \<Longrightarrow> notices_ok n (mdel k m)"
  by (auto simp: notices_ok_def set_mdel inj_on_def)

lemma notices_mput:
  assumes "notices_ok n m" and "n \<le> n'" and "imPoolId up = k" and "0 < imId up" and "imId up < n'"
    and "imStatus up \<in> {''available'', ''pulling''}" and "\<forall>(k', x) \<in> set m. k' \<noteq> k \<longrightarrow> imId x \<noteq> imId up"
  shows "notices_ok n' (mput k up m)"
  using assms by (auto simp: notices_ok_def set_mput inj_on_def)

lemma notices_flag:
  "notices_ok n m \<Longrightarrow> imPoolId up = k \<Longrightarrow> imId up = n \<Longrightarrow> imStatus up = ''available'' \<Longrightarrow>
    notices_ok (n + 1) (mput k up m)"
  by (rule notices_mput) (auto simp: notices_ok_def)

lemma notices_set_status:
  assumes "notices_ok n m" and "st \<in> {''available'', ''pulling''}"
  shows "notices_ok n (set_status k st m)"
proof (cases "mget m k")
  case (Some up)
  then have "(k, up) \<in> set m" by (rule map_of_SomeD)
  with assms(1) have up: "imPoolId up = k" "0 < imId up" "imId up < n"
    and other: "\<forall>(k', x) \<in> set m. k' \<noteq> k \<longrightarrow> imId x \<noteq> imId up"
    by (auto simp: notices_ok_def inj_on_def) fastforce
  have "notices_ok n (mput k (up\<lparr>imStatus := st\<rparr>) m)"
    using assms up other by (intro notices_mput [OF assms(1)]) auto
  with Some show ?thesis by (simp add: set_status_def)
qed (use assms in \<open>simp add: set_status_def\<close>)

lemma notices_withdraw: "notices_ok n m \<Longrightarrow> notices_ok n (withdraw k m)"
  by (simp add: withdraw_def split: option.split)

section \<open>Every operation keeps them\<close>

lemma updates_frame:
  "updates_ok s \<Longrightarrow> isUpdates s' = isUpdates s \<Longrightarrow> isNextID s' = isNextID s \<Longrightarrow> updates_ok s'"
  by (simp add: updates_ok_notices)

lemma keeps_quiet [keeps]:
  "preserves updates_ok im_tick"
  "preserves updates_ok (on_tables m)"
  by (auto intro!: preservesI elim!: updates_frame simp: im_tick_def on_tables_def exec_def split: prod.split)

lemma keeps_digests [keeps]:
  "preserves updates_ok (local_digest env r)"
  "preserves updates_ok (remote_digest env r)"
  unfolding local_digest_def remote_digest_def by (intro keeps)+

lemma FlagUpdate_ok [keeps]: "preserves updates_ok (FlagUpdate env i img dg)"
  by (rule preservesI)
    (auto simp: FlagUpdate_def im_tick_def exec_def updates_ok_notices Let_def intro!: notices_flag)

lemma keeps_notices [keeps]:
  "preserves updates_ok (modify (\<lambda>s. s\<lparr>isUpdates := withdraw i (isUpdates s)\<rparr>))"
  "preserves updates_ok (modify (\<lambda>s. s\<lparr>isUpdates := mdel i (isUpdates s)\<rparr>))"
  "preserves updates_ok (modify (\<lambda>s. s\<lparr>isUpdates := set_status i ''pulling'' (isUpdates s)\<rparr>))"
  "preserves updates_ok (modify (\<lambda>s. s\<lparr>isUpdates :=
     (if e \<noteq> None then set_status i ''available'' (isUpdates s) else mdel i (isUpdates s))\<rparr>))"
  "preserves updates_ok (modify (\<lambda>s. s\<lparr>isPulls := f (isPulls s)\<rparr>))"
  by (auto intro!: preserves_modify simp: updates_ok_notices notices_withdraw notices_set_status)

lemma image_ops_ok [keeps]:
  "preserves updates_ok (CheckImageUpdate env i)"
  "preserves updates_ok (executePull env i p)"
  "preserves updates_ok (PullImage env sync user i)"
  "preserves updates_ok (end_pull env job)"
  "preserves updates_ok (DismissImageUpdate env ord user i)"
  unfolding CheckImageUpdate_def executePull_def PullImage_def end_pull_def DismissImageUpdate_def
  by (intro keeps)+

lemma image_reach_ok: "image_reach env s \<Longrightarrow> updates_ok s"
proof (induction rule: image_reach.induct)
  case (fresh t)
  then show ?case by (simp add: NewImageUpdateService_def updates_ok_def)
next
  case (step s s')
  from step(2) show ?case
    by cases (use step.IH in \<open>auto intro: preservesD [OF FlagUpdate_ok] preservesD [OF image_ops_ok(1)]
      preservesD [OF image_ops_ok(3)] preservesD [OF image_ops_ok(4)] preservesD [OF image_ops_ok(5)]\<close>)
qed

section \<open>Properties\<close>

text \<open>
  C23. Notices are sound over every interleaving. Whatever requests are made and whenever the pulls under
  way end: there is at most one notice per pool, it is filed under its own pool, ids are positive and never
  shared, and every notice is available or being pulled; so the list of all notices shows each of them
  once.
\<close>

theorem image_notices_sound:
  assumes "image_reach env s"
  shows "updates_ok s \<and> mset (ListImageUpdates ord 0 s) = mset (map snd (isUpdates s)) \<and>
    distinct (map imPoolId (ListImageUpdates ord 0 s)) \<and> distinct (map imId (ListImageUpdates ord 0 s))"
proof -
  have ok: "updates_ok s" using assms by (rule image_reach_ok)
  then have st: "\<forall>(pid, up) \<in> set (isUpdates s). imPoolId up = pid \<and> imStatus up \<in> {''available'', ''pulling''}"
    by (auto simp: updates_ok_def)
  then have "filter (\<lambda>(pid, up). imStatus up = ''available'' \<or> imStatus up = ''pulling'') (go_range ord (isUpdates s)) =
      go_range ord (isUpdates s)" by (intro filter_True) auto
  then have listed: "ListImageUpdates ord 0 s = map snd (go_range ord (isUpdates s))"
    by (simp add: ListImageUpdates_def)
  have "map imPoolId (map snd (go_range ord (isUpdates s))) = map fst (go_range ord (isUpdates s))"
    using st by auto
  moreover have "inj_on (\<lambda>e. imId (snd e)) (set (go_range ord (isUpdates s)))" using ok by (simp add: updates_ok_def)
  moreover have "wf_map (go_range ord (isUpdates s))" using ok by (simp add: updates_ok_def)
  ultimately show ?thesis
    using ok unfolding listed by (auto simp: distinct_map comp_def inj_on_def)
qed

text \<open>
  A successful pull withdraws a newer notice. While a pull of the pool's image is under way, a check
  that finds a newer digest files a notice for it; when the pull, begun before, then ends without an error,
  it deletes whatever notice the pool has, and the newer image is no longer offered.
\<close>

theorem pull_withdraws_newer_notice:
  assumes "(i, p) \<in> set (isPulls s)" and "run_state (CheckImageUpdate env i) s = (Inr (Some up), s')"
    and "run_state (end_pull env (i, p)) s' = (None, s'')"
  shows "mget (isUpdates s') i = Some up \<and> imStatus up = ''available'' \<and> mget (isUpdates s'') i = None"
proof -
  have "mget (isUpdates s') i = Some up \<and> imStatus up = ''available''"
    using assms(2)
    by (auto simp: CheckImageUpdate_def FlagUpdate_def im_tick_def Let_def split: if_splits sum.splits prod.splits)
  moreover have "isUpdates s'' = mdel i (isUpdates s')"
    using assms(3)
    by (auto simp: end_pull_def executePull_def im_tick_def split: option.splits prod.splits if_splits)
  ultimately show ?thesis by simp
qed

text \<open>
  What a check answers. For a stored pool, with a registry and an inspector that answer, a check finds
  no update exactly when the local digest is known and equal to the registry's; it then withdraws an offer
  that is not being pulled. Otherwise it files a fresh notice with the registry's digest.
\<close>

theorem CheckImageUpdate_exact:
  assumes "ieInspector env = Some (\<lambda>n. loc)" and "ieRegistry env = Some (\<lambda>n img. Inr (rem img))"
    and "dbFail (ieDB env) (tTick (isTables s)) = None" and "find_pool i (isTables s) = Some p" and "0 < i"
    and "run_state (CheckImageUpdate env i) s = (r, s')"
  shows "if loc (image_of p) \<noteq> [] \<and> loc (image_of p) = rem (image_of p)
    then r = Inr None \<and> isUpdates s' = withdraw i (isUpdates s)
    else (\<exists>up. r = Inr (Some up) \<and> isUpdates s' = mput i up (isUpdates s) \<and> imLatestDigest up = rem (image_of p) \<and>
      imCurrentImage up = image_of p \<and> imStatus up = ''available'' \<and> imId up = isNextID s)"
proof -
  have "fst (run_state (GetRunnerPoolById (ieDB env) i) (isTables s)) = Inr p"
    using assms(3,4) by (simp add: GetRunnerPoolById_def statement_def find_pool_def Let_def)
  then obtain t where "run_state (GetRunnerPoolById (ieDB env) i) (isTables s) = (Inr p, t)"
    by (metis prod.collapse)
  with assms(1,2,5,6) show ?thesis
    by (auto simp: CheckImageUpdate_def on_tables_def local_digest_def remote_digest_def FlagUpdate_def im_tick_def Let_def
        split: if_splits)
qed

section \<open>Witnesses\<close>

definition ex_images :: image_service where
  "ex_images = NewImageUpdateService \<lparr>tPools = [ex_pool], tTargets = [], tRenovate = [], tProfiles = [1], tAudit = [],
     tNextPool = 2, tNextTarget = 1, tTick = 0, tReloads = 0\<rparr>"

definition ex_image_env :: image_env where
  "ex_image_env = \<lparr>ieDB = \<lparr>dbFail = (\<lambda>n. None), dbClock = (\<lambda>n. 0)\<rparr>, ieInspector = Some (\<lambda>n img. ''sha256:1''),
     ieRegistry = Some (\<lambda>n img. Inr ''sha256:2''), iePuller = Some (\<lambda>n img. None), ieNow = (\<lambda>n. 0)\<rparr>"

text \<open>A pull of the image of pool 1 is under way.\<close>

definition ex_pulling :: image_service where
  "ex_pulling = exec (PullImage ex_image_env False None 1) ex_images"

definition ex_flagged :: image_service where
  "ex_flagged = exec (CheckImageUpdate ex_image_env 1) ex_pulling"

lemmas ex_image_defs = ex_images_def ex_image_env_def NewImageUpdateService_def ex_pool_def

lemma ex_pulling_reach: "image_reach ex_image_env ex_pulling"
  unfolding ex_pulling_def ex_images_def by (rule image_reach.step [OF image_reach.fresh image_step.pull])

lemmas image_run = PullImage_def CheckImageUpdate_def end_pull_def executePull_def FlagUpdate_def on_tables_def
  local_digest_def remote_digest_def im_tick_def RecordAuditLogWithUser_def CreateAuditLog_def
  GetRunnerPoolById_def find_pool_def statement_def set_status_def exec_def Let_def

lemma ex_pulls: "isPulls ex_pulling = [(1, ex_pool)]"
  by (simp add: ex_pulling_def image_run ex_image_defs)

definition ex_notice :: ImageUpdate where
  "ex_notice = \<lparr>imId = 1, imPoolId = 1, imCurrentImage = ''img'', imLatestDigest = ''sha256:2'',
     imStatus = ''available'', imCheckedAt = 0\<rparr>"

lemma ex_check: "run_state (CheckImageUpdate ex_image_env 1) ex_pulling = (Inr (Some ex_notice), ex_flagged)"
  and ex_updates: "isUpdates ex_flagged = [(1, ex_notice)]"
  by (simp_all add: ex_flagged_def ex_pulling_def image_run image_of_def ex_image_defs ex_notice_def mput_simps go_simps)

theorem image_notices_sound_witness:
  "updates_ok ex_flagged \<and> ListImageUpdates [] 0 ex_flagged = [ex_notice]"
proof -
  have "image_reach ex_image_env ex_flagged"
    unfolding ex_flagged_def by (rule image_reach.step [OF ex_pulling_reach image_step.check])
  from image_notices_sound [OF this, of "[]"] show ?thesis by (simp add: ex_updates)
qed

theorem pull_withdraws_newer_notice_witness:
  "mget (isUpdates ex_flagged) 1 = Some ex_notice \<and>
   mget (isUpdates (exec (end_pull ex_image_env (1, ex_pool)) ex_flagged)) 1 = None"
proof -
  have "fst (run_state (end_pull ex_image_env (1, ex_pool)) ex_flagged) = None"
    by (simp add: image_run ex_image_env_def)
  then have "run_state (end_pull ex_image_env (1, ex_pool)) ex_flagged =
      (None, exec (end_pull ex_image_env (1, ex_pool)) ex_flagged)" by (simp add: exec_def prod_eq_iff)
  from pull_withdraws_newer_notice [OF _ ex_check this] show ?thesis by (simp add: ex_pulls)
qed

theorem CheckImageUpdate_exact_witness:
  "map (imLatestDigest \<circ> snd) (isUpdates (exec (CheckImageUpdate ex_image_env 1) ex_images)) = [''sha256:2'']"
  using CheckImageUpdate_exact [of ex_image_env "\<lambda>img. ''sha256:1''" "\<lambda>img. ''sha256:2''" ex_images 1 ex_pool,
      OF _ _ _ _ _ surjective_pairing]
  by (auto simp: ex_image_defs find_pool_def exec_def mput_simps)

end
