(* ===== verification/Renovate.thy ===== *)
theory Renovate
  imports Pool_Service Naming Webhook Cron_Scheduler
begin

text \<open>
  \<open>src/internal/renovate/executor.go\<close> and \<open>src/internal/server/renovate.go\<close>: Renovate runs, from the request
  or the cron schedule over the task container to the record of its outcome, on the tables of pools and the
  table \<open>renovate_runs\<close>. The forges, the container engine and the clock are parameters, asked with the
  number of the call; each statement may fail. The text of a database error is left out.
\<close>

section \<open>State\<close>

record RenovateRun =
  rrID :: int
  rrPoolID :: int
  rrStatus :: string
  rrStartedAt :: gotime
  rrCompletedAt :: "gotime option"
  rrSummary :: string
  rrContainerID :: "string option"

record renovate_state =
  rnTables :: pool_tables
  rnRuns :: "RenovateRun list"
  rnNextRun :: int
  rnTasks :: "string list"
  rnTick :: nat

text \<open>A resolved provider and, when it has one, its function for Renovate tokens.\<close>

type_synonym renovate_provider = "GitProvider \<times> (nat \<Rightarrow> string \<Rightarrow> string + string) option"

record renovate_env =
  rnDB :: db_env
  rnResolve :: "nat \<Rightarrow> int \<Rightarrow> string + renovate_provider"
  rnSpawnTask :: "nat \<Rightarrow> RunnerConfig \<Rightarrow> string + string"
  rnNow :: "nat \<Rightarrow> gotime"
  rnHex :: "nat \<Rightarrow> string"

datatype renovate_error =
  GettingPool db_error
| GettingConfig db_error
| ResolvingProvider string
| RenovateToken string
| RecordingRun db_error
| SpawningTask string
| QueryingRun db_error
| CompletingRun db_error

definition rn_tick :: "(renovate_state, nat) state" where
  "rn_tick = do { n \<leftarrow> gets rnTick; modify (\<lambda>s. s\<lparr>rnTick := Suc n\<rparr>); State_Monad.return n }"

definition rn_tables :: "(pool_tables, 'a) state \<Rightarrow> (renovate_state, 'a) state" where
  "rn_tables m = do {
     t \<leftarrow> gets rnTables;
     let (a, t') = run_state m t;
     modify (\<lambda>s. s\<lparr>rnTables := t'\<rparr>);
     State_Monad.return a
   }"

text \<open>A statement on the runs: it answers, with the runs and the next id, or fails as a whole.\<close>

definition runs_statement ::
  "db_env \<Rightarrow> (renovate_state \<Rightarrow> (db_error + 'a) \<times> RenovateRun list \<times> int) \<Rightarrow> (renovate_state, db_error + 'a) state" where
  "runs_statement env f = do {
     n \<leftarrow> gets (\<lambda>s. tTick (rnTables s));
     modify (\<lambda>s. s\<lparr>rnTables := (rnTables s)\<lparr>tTick := Suc n\<rparr>\<rparr>);
     case dbFail env n of
       Some err \<Rightarrow> State_Monad.return (Inl (DbFailure err))
     | None \<Rightarrow> do {
         s \<leftarrow> gets (\<lambda>s. s);
         let (r, rs, i) = f s;
         (case r of Inl _ \<Rightarrow> skip | Inr _ \<Rightarrow> modify (\<lambda>s. s\<lparr>rnRuns := rs, rnNextRun := i\<rparr>));
         State_Monad.return r
       }
   }"

section \<open>Statements\<close>

definition CreateRenovateRun :: "db_env \<Rightarrow> RenovateRun \<Rightarrow> (renovate_state, db_error + RenovateRun) state" where
  "CreateRenovateRun env r = runs_statement env (\<lambda>s.
     if rrPoolID r \<notin> pID ` set (tPools (rnTables s)) then (Inl ForeignKey, rnRuns s, rnNextRun s)
     else (let r' = r\<lparr>rrID := rnNextRun s\<rparr> in (Inr r', rnRuns s @ [r'], rnNextRun s + 1)))"

definition update_run :: "int \<Rightarrow> (RenovateRun \<Rightarrow> RenovateRun) \<Rightarrow> RenovateRun list \<Rightarrow> RenovateRun list" where
  "update_run i f rs = map (\<lambda>r. if rrID r = i then f r else r) rs"

definition UpdateRenovateRunContainerID :: "db_env \<Rightarrow> int \<Rightarrow> string \<Rightarrow> (renovate_state, db_error + unit) state" where
  "UpdateRenovateRunContainerID env i cid = runs_statement env (\<lambda>s.
     (Inr (), update_run i (\<lambda>r. r\<lparr>rrContainerID := Some cid\<rparr>) (rnRuns s), rnNextRun s))"

definition CompleteRenovateRun ::
  "db_env \<Rightarrow> int \<Rightarrow> string \<Rightarrow> gotime \<Rightarrow> string \<Rightarrow> (renovate_state, db_error + unit) state" where
  "CompleteRenovateRun env i status now summary = runs_statement env (\<lambda>s.
     if i \<notin> rrID ` set (rnRuns s) then (Inl ErrNoRows, rnRuns s, rnNextRun s)
     else if status \<notin> {''running'', ''success'', ''failure''} then (Inl CheckConstraint, rnRuns s, rnNextRun s)
     else (Inr (), update_run i (\<lambda>r. r\<lparr>rrStatus := status, rrCompletedAt := Some now, rrSummary := summary\<rparr>)
       (rnRuns s), rnNextRun s))"

definition GetRenovateRunByContainerID :: "db_env \<Rightarrow> string \<Rightarrow> (renovate_state, db_error + RenovateRun) state" where
  "GetRenovateRunByContainerID env cid = runs_statement env (\<lambda>s.
     (case find (\<lambda>r. rrContainerID r = Some cid) (rnRuns s) of None \<Rightarrow> Inl ErrNoRows | Some r \<Rightarrow> Inr r,
      rnRuns s, rnNextRun s))"

text \<open>The runs of a pool, the latest first, by start and then by id.\<close>

definition runs_of :: "int \<Rightarrow> RenovateRun list \<Rightarrow> RenovateRun list" where
  "runs_of i rs = rev (sort_key rrStartedAt (sort_key rrID (filter (\<lambda>r. rrPoolID r = i) rs)))"

definition GetLatestRenovateRunByPoolId :: "db_env \<Rightarrow> int \<Rightarrow> (renovate_state, db_error + RenovateRun) state" where
  "GetLatestRenovateRunByPoolId env i = runs_statement env (\<lambda>s.
     (case runs_of i (rnRuns s) of [] \<Rightarrow> Inl ErrNoRows | r # _ \<Rightarrow> Inr r, rnRuns s, rnNextRun s))"

definition ListRenovateRunsByPoolId ::
  "db_env \<Rightarrow> int \<Rightarrow> int \<Rightarrow> int \<Rightarrow> (renovate_state, db_error + RenovateRun list) state" where
  "ListRenovateRunsByPoolId env i lim offset = runs_statement env (\<lambda>s.
     (Inr (take (nat lim) (drop (nat offset) (runs_of i (rnRuns s)))), rnRuns s, rnNextRun s))"

definition CountRenovateRunsByPoolId :: "db_env \<Rightarrow> int \<Rightarrow> (renovate_state, db_error + int) state" where
  "CountRenovateRunsByPoolId env i = runs_statement env (\<lambda>s.
     (Inr (int (length (runs_of i (rnRuns s)))), rnRuns s, rnNextRun s))"

section \<open>The executor\<close>

text \<open>The summary of a run from its log lines and exit code.\<close>

definition is_failure_line :: "string \<Rightarrow> bool" where
  "is_failure_line content \<longleftrightarrow> content \<noteq> [] \<and>
     (Contains (ToLower content) ''error'' \<or> Contains (ToLower content) ''fatal'' \<or> Contains (ToLower content) ''failed'')"

definition shorten :: "string \<Rightarrow> string" where
  "shorten content = (if length content > 140 then take 137 content @ ''...'' else content)"

definition is_pr_line :: "string \<Rightarrow> bool" where
  "is_pr_line line \<longleftrightarrow> Contains line ''Created PR'' \<or> Contains line ''Created pull request'' \<or>
     Contains line ''Branch created'' \<or> Contains line ''create PR''"

definition ExtractSummary :: "string list \<Rightarrow> int \<Rightarrow> string" where
  "ExtractSummary entries exitCode =
     (if exitCode \<noteq> 0 then
        (case find is_failure_line (rev (map TrimSpace entries)) of
           Some content \<Rightarrow> ''Renovate failed (exit code '' @ Itoa exitCode @ ''): '' @ shorten content
         | None \<Rightarrow> ''Renovate failed with exit code '' @ Itoa exitCode)
      else (let prCount = int (length (filter is_pr_line (map TrimSpace entries))) in
        if prCount > 0 then ''Renovate created '' @ Itoa prCount @ '' pull request(s)''
        else ''Renovate completed successfully (no pull requests needed)''))"

definition renovate_token :: "renovate_env \<Rightarrow> renovate_provider \<Rightarrow> string \<Rightarrow> (renovate_state, string + string) state" where
  "renovate_token env prov repo = do {
     n \<leftarrow> rn_tick;
     State_Monad.return (case snd prov of
       Some getToken \<Rightarrow> getToken n repo
     | None \<Rightarrow> gpGetRegistrationToken (fst prov) n ''repo'' repo)
   }"

definition task_config :: "string \<Rightarrow> RunnerPool \<Rightarrow> string \<Rightarrow> string \<Rightarrow> RunnerConfig" where
  "task_config hex pool token img = empty_config\<lparr>
     rcName := GenerateContainerName hex (pName pool), rcPoolName := pName pool, rcRepoURL := pRepositoryUrl pool,
     rcToken := token, rcImage := img, rcAllowDocker := pAllowDocker pool,
     rcCPULimit := null_string (pCpuLimit pool), rcMemoryLimit := null_string (pMemoryLimit pool)\<rparr>"

text \<open>The part of \<open>Execute\<close> from the recorded run on.\<close>

definition spawn_run ::
  "renovate_env \<Rightarrow> RunnerPool \<Rightarrow> string \<Rightarrow> string \<Rightarrow> RenovateRun \<Rightarrow> (renovate_state, renovate_error + RenovateRun) state" where
  "spawn_run env pool token img run = do {
     n \<leftarrow> rn_tick;
     case rnSpawnTask env n (task_config (rnHex env n) pool token img) of
       Inl err \<Rightarrow> do {
         k \<leftarrow> rn_tick;
         x \<leftarrow> CompleteRenovateRun (rnDB env) (rrID run) ''failure'' (rnNow env k) (''Failed to spawn container: '' @ err);
         State_Monad.return (Inl (SpawningTask err))
       }
     | Inr containerID \<Rightarrow> do {
         modify (\<lambda>s. s\<lparr>rnTasks := containerID # rnTasks s\<rparr>);
         x \<leftarrow> UpdateRenovateRunContainerID (rnDB env) (rrID run) containerID;
         State_Monad.return (Inr (run\<lparr>rrContainerID := Some containerID\<rparr>))
       }
   }"

definition Execute :: "renovate_env \<Rightarrow> int \<Rightarrow> (renovate_state, renovate_error + RenovateRun) state" where
  "Execute env poolID = do {
     g \<leftarrow> rn_tables (GetRunnerPoolById (rnDB env) poolID);
     case g of
       Inl err \<Rightarrow> State_Monad.return (Inl (GettingPool err))
     | Inr pool \<Rightarrow> do {
         cfg \<leftarrow> rn_tables (GetRenovateConfigByPoolId (rnDB env) poolID);
         if (case cfg of Inl err \<Rightarrow> err \<noteq> ErrNoRows | Inr _ \<Rightarrow> False)
         then State_Monad.return (Inl (GettingConfig (projl cfg)))
         else do {
           let img = (case cfg of Inl _ \<Rightarrow> ''renovate/renovate:latest''
                          | Inr c \<Rightarrow> if rvImage c \<noteq> [] then rvImage c else ''renovate/renovate:latest'');
           n \<leftarrow> rn_tick;
           case rnResolve env n (pAuthProfileID pool) of
             Inl err \<Rightarrow> State_Monad.return (Inl (ResolvingProvider err))
           | Inr prov \<Rightarrow> do {
               tok \<leftarrow> renovate_token env prov (pRepositoryUrl pool);
               case tok of
                 Inl err \<Rightarrow> State_Monad.return (Inl (RenovateToken err))
               | Inr token \<Rightarrow> do {
                   k \<leftarrow> rn_tick;
                   r \<leftarrow> CreateRenovateRun (rnDB env)
                     \<lparr>rrID = 0, rrPoolID = poolID, rrStatus = ''running'', rrStartedAt = rnNow env k,
                      rrCompletedAt = None, rrSummary = ''Renovate task running'', rrContainerID = None\<rparr>;
                   case r of
                     Inl err \<Rightarrow> State_Monad.return (Inl (RecordingRun err))
                   | Inr run \<Rightarrow> spawn_run env pool token img run
                 }
             }
         }
       }
   }"

text \<open>
  The exit of a container. \<open>readLogs\<close> reads the captured log, if it can; the answer tells whether the
  container belongs to a run.
\<close>

definition HandleContainerExit ::
  "renovate_env \<Rightarrow> (string \<Rightarrow> string list option) \<Rightarrow> string \<Rightarrow> int \<Rightarrow> string \<Rightarrow>
   (renovate_state, bool \<times> renovate_error option) state" where
  "HandleContainerExit env readLogs containerID exitCode logPath =
     (if containerID = [] then State_Monad.return (False, None)
      else do {
        g \<leftarrow> GetRenovateRunByContainerID (rnDB env) containerID;
        case g of
          Inl err \<Rightarrow> State_Monad.return (False, if err = ErrNoRows then None else Some (QueryingRun err))
        | Inr run \<Rightarrow>
            if rrStatus run \<noteq> ''running'' then State_Monad.return (True, None)
            else do {
              let entries = (if logPath \<noteq> [] then (case readLogs logPath of Some ls \<Rightarrow> ls | None \<Rightarrow> []) else []);
              n \<leftarrow> rn_tick;
              r \<leftarrow> CompleteRenovateRun (rnDB env) (rrID run) (if exitCode \<noteq> 0 then ''failure'' else ''success'')
                (rnNow env n) (ExtractSummary entries exitCode);
              State_Monad.return (True, case r of Inl err \<Rightarrow> Some (CompletingRun err) | Inr _ \<Rightarrow> None)
            }
      })"

definition LastRunResolver :: "renovate_env \<Rightarrow> int \<Rightarrow> (renovate_state, gotime) state" where
  "LastRunResolver env poolID = do {
     r \<leftarrow> GetLatestRenovateRunByPoolId (rnDB env) poolID;
     State_Monad.return (case r of Inl _ \<Rightarrow> zero_time | Inr run \<Rightarrow> rrStartedAt run)
   }"

section \<open>The service\<close>

datatype trigger_error =
  TrInvalidArgument
| TrNotFound
| TrInternal
| TrUnavailable
| TrFailedPrecondition

definition pool_known :: "renovate_env \<Rightarrow> int \<Rightarrow> (renovate_state, trigger_error option) state" where
  "pool_known env poolID =
     (if poolID \<le> 0 then State_Monad.return (Some TrInvalidArgument)
      else do {
        g \<leftarrow> rn_tables (GetRunnerPoolById (rnDB env) poolID);
        State_Monad.return (case g of
          Inl err \<Rightarrow> Some (if err = ErrNoRows then TrNotFound else TrInternal)
        | Inr _ \<Rightarrow> None)
      })"

definition TriggerRenovateRun ::
  "renovate_env \<Rightarrow> bool \<Rightarrow> int option \<Rightarrow> int \<Rightarrow> (renovate_state, trigger_error + int) state" where
  "TriggerRenovateRun env hasExecutor user poolID = do {
     e \<leftarrow> pool_known env poolID;
     case e of
       Some err \<Rightarrow> State_Monad.return (Inl err)
     | None \<Rightarrow>
         if \<not> hasExecutor then State_Monad.return (Inl TrUnavailable)
         else do {
           l \<leftarrow> GetLatestRenovateRunByPoolId (rnDB env) poolID;
           if (case l of Inl _ \<Rightarrow> False | Inr latest \<Rightarrow> rrStatus latest = ''running'')
           then State_Monad.return (Inl TrFailedPrecondition)
           else do {
             r \<leftarrow> Execute env poolID;
             case r of
               Inl _ \<Rightarrow> State_Monad.return (Inl TrInternal)
             | Inr run \<Rightarrow> do {
                 rn_tables (RecordAuditLogWithUser (rnDB env) user ''renovate.trigger'' ''runner_pool'' (Some poolID)
                   [(''run_id'', DInt (rrID run)), (''pool_id'', DInt poolID)]);
                 State_Monad.return (Inr (rrID run))
               }
           }
         }
   }"

definition history_page :: "int \<Rightarrow> int \<Rightarrow> int \<times> int" where
  "history_page lim offset =
     (if lim \<le> 0 then 20 else if lim > 100 then 100 else lim, if offset < 0 then 0 else offset)"

definition ListRenovateHistory ::
  "renovate_env \<Rightarrow> int \<Rightarrow> int \<Rightarrow> int \<Rightarrow> (renovate_state, trigger_error + RenovateRun list \<times> int) state" where
  "ListRenovateHistory env poolID lim0 offset0 = do {
     e \<leftarrow> pool_known env poolID;
     case e of
       Some err \<Rightarrow> State_Monad.return (Inl err)
     | None \<Rightarrow> do {
         rs \<leftarrow> ListRenovateRunsByPoolId (rnDB env) poolID (fst (history_page lim0 offset0))
           (snd (history_page lim0 offset0));
         case rs of
           Inl _ \<Rightarrow> State_Monad.return (Inl TrInternal)
         | Inr page \<Rightarrow> do {
             k \<leftarrow> CountRenovateRunsByPoolId (rnDB env) poolID;
             State_Monad.return (case k of Inl _ \<Rightarrow> Inl TrInternal | Inr n \<Rightarrow> Inr (page, wrap32 n))
           }
       }
   }"

text \<open>The status: the latest run and the next one of the cron schedule, \<open>next\<close> answering for the scheduler.\<close>

definition GetRenovateStatus ::
  "renovate_env \<Rightarrow> (int \<Rightarrow> gotime option) option \<Rightarrow> int \<Rightarrow>
   (renovate_state, trigger_error + RenovateRun option \<times> gotime option) state" where
  "GetRenovateStatus env cron poolID = do {
     e \<leftarrow> pool_known env poolID;
     case e of
       Some err \<Rightarrow> State_Monad.return (Inl err)
     | None \<Rightarrow> do {
         l \<leftarrow> GetLatestRenovateRunByPoolId (rnDB env) poolID;
         let nextRun = (case cron of
               None \<Rightarrow> None
             | Some nextOf \<Rightarrow> (case nextOf poolID of None \<Rightarrow> None | Some t \<Rightarrow> if IsZero t then None else Some t));
         State_Monad.return (case l of
           Inr latest \<Rightarrow> Inr (Some latest, nextRun)
         | Inl err \<Rightarrow> if err \<noteq> ErrNoRows then Inl TrInternal else Inr (None, nextRun))
       }
   }"

end
