(* ===== verification/Renovate_Props.thy ===== *)
theory Renovate_Props
  imports Renovate Example_Env
begin

text \<open>
  What the records of Renovate runs guarantee: they are consistent and final whatever fails, the exit of a
  task container is recorded once with its outcome, and a run whose container was not linked to it blocks
  its pool.
\<close>

section \<open>Running the statements\<close>

lemma run_rn_tick [run_simps]: "run_state rn_tick s = (rnTick s, s\<lparr>rnTick := Suc (rnTick s)\<rparr>)"
  by (simp add: rn_tick_def)

lemma run_runs_statement [run_simps]:
  "run_state (runs_statement env f) s =
    (let s1 = s\<lparr>rnTables := (rnTables s)\<lparr>tTick := Suc (tTick (rnTables s))\<rparr>\<rparr> in
     case dbFail env (tTick (rnTables s)) of
       Some err \<Rightarrow> (Inl (DbFailure err), s1)
     | None \<Rightarrow> (case f s1 of (r, rs, i) \<Rightarrow>
         (r, case r of Inl _ \<Rightarrow> s1 | Inr _ \<Rightarrow> s1\<lparr>rnRuns := rs, rnNextRun := i\<rparr>)))"
  by (simp add: runs_statement_def Let_def split: option.split prod.split sum.split)

lemma run_rn_tables [run_simps]:
  "run_state (rn_tables m) s = (fst (run_state m (rnTables s)), s\<lparr>rnTables := exec m (rnTables s)\<rparr>)"
  by (simp add: rn_tables_def exec_def split: prod.split)

text \<open>What belongs to the runs; statements on the pools and calls outside leave it alone.\<close>

definition same_runs :: "renovate_state \<Rightarrow> renovate_state \<Rightarrow> bool" where
  "same_runs s s' \<longleftrightarrow> rnRuns s' = rnRuns s \<and> rnNextRun s' = rnNextRun s"

section \<open>Consistency\<close>

definition run_ok :: "RenovateRun \<Rightarrow> bool" where
  "run_ok r \<longleftrightarrow> rrStatus r \<in> {''running'', ''success'', ''failure''} \<and>
     (rrStatus r = ''running'' \<longleftrightarrow> rrCompletedAt r = None)"

definition runs_ok :: "renovate_state \<Rightarrow> bool" where
  "runs_ok s \<longleftrightarrow> distinct (map rrID (rnRuns s)) \<and>
     (\<forall>r \<in> set (rnRuns s). run_ok r \<and> rrID r < rnNextRun s)"

text \<open>A later state of the table: every run is still there, and a completed one as it was.\<close>

definition later :: "renovate_state \<Rightarrow> renovate_state \<Rightarrow> bool" where
  "later s s' \<longleftrightarrow> (\<forall>r \<in> set (rnRuns s). \<exists>r' \<in> set (rnRuns s').
     rrID r' = rrID r \<and> rrPoolID r' = rrPoolID r \<and> rrStartedAt r' = rrStartedAt r \<and>
     (rrStatus r \<noteq> ''running'' \<longrightarrow> r' = r))"

lemma later_refl [simp]: "later s s"
  by (auto simp: later_def)

lemma later_trans: "later a b \<Longrightarrow> later b c \<Longrightarrow> later a c"
  unfolding later_def by (metis (no_types, lifting))

lemma same_runs_later: "same_runs s s' \<Longrightarrow> runs_ok s \<Longrightarrow> runs_ok s' \<and> later s s'"
  by (auto simp: same_runs_def runs_ok_def later_def)

lemma append_later:
  assumes "runs_ok s" and "rnRuns s' = rnRuns s @ [r]" and "rrID r = rnNextRun s" and "rnNextRun s' = rnNextRun s + 1"
    and "run_ok r"
  shows "runs_ok s' \<and> later s s'"
  using assms by (fastforce simp: runs_ok_def later_def)

lemma set_update_run: "set (update_run i f rs) = (\<lambda>r. if rrID r = i then f r else r) ` set rs"
  by (simp add: update_run_def)

lemma update_run_ids: "(\<And>r. rrID (f r) = rrID r) \<Longrightarrow> map rrID (update_run i f rs) = map rrID rs"
  by (simp add: update_run_def)

lemma update_run_append:
  "i \<notin> rrID ` set rs \<Longrightarrow> rrID r = i \<Longrightarrow> update_run i f (rs @ [r]) = rs @ [f r]"
  by (induction rs) (auto simp: update_run_def)

section \<open>Executing a run\<close>

lemma spawn_run_runs:
  assumes "rnRuns s = R @ [run]" and "rrID run \<notin> rrID ` set R" and "rrStatus run = ''running''" and "rrCompletedAt run = None"
    and "run_state (spawn_run env pool token img run) s = (res, s')"
  shows "\<exists>r. rnRuns s' = R @ [r] \<and> rrID r = rrID run \<and> rrPoolID r = rrPoolID run \<and> run_ok r \<and> rnNextRun s' = rnNextRun s"
  using assms
  by (auto simp: spawn_run_def CompleteRenovateRun_def UpdateRenovateRunContainerID_def run_simps Let_def update_run_append run_ok_def
      split: option.splits sum.splits if_splits)

lemma same_runs_keeps [keeps]:
  "preserves (same_runs s) rn_tick"
  "preserves (same_runs s) (rn_tables m)"
  by (auto intro!: preservesI simp: same_runs_def exec_def run_simps)

lemma renovate_token_keeps [keeps]: "preserves (same_runs s) (renovate_token env prov repo)"
  unfolding renovate_token_def by (intro keeps)

lemmas same_runs_hoare = same_runs_keeps [unfolded preserves_def] renovate_token_keeps [unfolded preserves_def]

definition appended :: "renovate_state \<Rightarrow> int \<Rightarrow> renovate_state \<Rightarrow> bool" where
  "appended s i s' \<longleftrightarrow> (\<exists>r. rnRuns s' = rnRuns s @ [r] \<and> rrID r = rnNextRun s \<and> rrPoolID r = i \<and> run_ok r \<and>
     rnNextRun s' = rnNextRun s + 1)"

text \<open>The state once the run is recorded and before its container is started.\<close>

definition recorded :: "renovate_state \<Rightarrow> int \<Rightarrow> RenovateRun \<Rightarrow> renovate_state \<Rightarrow> bool" where
  "recorded s i run x \<longleftrightarrow> rnRuns x = rnRuns s @ [run] \<and> rrID run = rnNextRun s \<and> rrPoolID run = i \<and>
     rrStatus run = ''running'' \<and> rrCompletedAt run = None \<and> rnNextRun x = rnNextRun s + 1"

lemma CreateRenovateRun_hoare:
  "rrStatus r = ''running'' \<Longrightarrow> rrCompletedAt r = None \<Longrightarrow> rrPoolID r = i \<Longrightarrow>
    hoare (same_runs s) (CreateRenovateRun env r)
      (\<lambda>res x. case res of Inl _ \<Rightarrow> same_runs s x | Inr run \<Rightarrow> recorded s i run x)"
  by (rule hoareI)
    (auto simp: CreateRenovateRun_def recorded_def same_runs_def run_simps Let_def split: option.splits if_splits)

lemma spawn_run_hoare:
  assumes "runs_ok s"
  shows "hoare (recorded s i run) (spawn_run env pool token img run) (\<lambda>_ x. same_runs s x \<or> appended s i x)"
proof (rule hoareI, rule disjI2)
  fix x res x'
  assume x: "recorded s i run x" and r: "run_state (spawn_run env pool token img run) x = (res, x')"
  have "rrID run \<notin> rrID ` set (rnRuns s)" using assms x by (auto simp: recorded_def runs_ok_def)
  with spawn_run_runs [OF _ this _ _ r] x show "appended s i x'" by (auto simp: recorded_def appended_def)
qed

lemma Execute_hoare:
  assumes "runs_ok s"
  shows "hoare (same_runs s) (Execute env i) (\<lambda>_ x. same_runs s x \<or> appended s i x)"
  unfolding Execute_def Let_def
  by (intro hoare_bind [OF same_runs_hoare(2)] hoare_bind [OF same_runs_hoare(1)] hoare_bind [OF same_runs_hoare(3)]
      hoare_case_sum hoare_if hoare_bind [OF CreateRenovateRun_hoare [where i = i]] hoare_return
      hoare_pre [OF spawn_run_hoare [OF assms]]) auto

section \<open>The other operations\<close>

lemma reads_keep [keeps]:
  "preserves (same_runs s) (GetLatestRenovateRunByPoolId env i)"
  "preserves (same_runs s) (GetRenovateRunByContainerID env cid)"
  "preserves (same_runs s) (ListRenovateRunsByPoolId env i lim offset)"
  "preserves (same_runs s) (CountRenovateRunsByPoolId env i)"
  by (auto intro!: preservesI simp: GetLatestRenovateRunByPoolId_def GetRenovateRunByContainerID_def
      ListRenovateRunsByPoolId_def CountRenovateRunsByPoolId_def same_runs_def exec_def run_simps Let_def
      split: option.split list.split)

lemma pool_known_keeps [keeps]: "preserves (same_runs s) (pool_known env i)"
  unfolding pool_known_def by (intro keeps)

lemma queries_keep [keeps]:
  "preserves (same_runs s) (LastRunResolver env i)"
  "preserves (same_runs s) (ListRenovateHistory env i lim offset)"
  "preserves (same_runs s) (GetRenovateStatus env cron i)"
  unfolding LastRunResolver_def ListRenovateHistory_def GetRenovateStatus_def Let_def by (intro keeps)+

lemma TriggerRenovateRun_hoare:
  assumes "runs_ok s"
  shows "hoare (same_runs s) (TriggerRenovateRun env has user i) (\<lambda>_ x. same_runs s x \<or> appended s i x)"
proof -
  have audit: "hoare (\<lambda>x. same_runs s x \<or> appended s i x) (rn_tables m) (\<lambda>_ x. same_runs s x \<or> appended s i x)" for m
    by (rule hoareI) (auto simp: same_runs_def appended_def run_simps)
  show ?thesis
    unfolding TriggerRenovateRun_def
    by (intro hoare_bind [OF pool_known_keeps [unfolded preserves_def]] hoare_bind [OF reads_keep(1) [unfolded preserves_def]]
        hoare_bind [OF Execute_hoare [OF assms]] hoare_bind [OF audit] hoare_case_option hoare_case_sum hoare_if hoare_return) auto
qed

text \<open>The row of a completed run.\<close>

definition completed :: "string \<Rightarrow> gotime \<Rightarrow> string \<Rightarrow> RenovateRun \<Rightarrow> RenovateRun" where
  "completed status now summary r = r\<lparr>rrStatus := status, rrCompletedAt := Some now, rrSummary := summary\<rparr>"

definition outcome :: "int \<Rightarrow> string" where
  "outcome exitCode = (if exitCode \<noteq> 0 then ''failure'' else ''success'')"

lemma CompleteRenovateRun_runs:
  "run_state (CompleteRenovateRun env i st now summary) s = (r, s') \<Longrightarrow>
    same_runs s s' \<or> (rnRuns s' = update_run i (completed st now summary) (rnRuns s) \<and> rnNextRun s' = rnNextRun s)"
  by (auto simp: CompleteRenovateRun_def completed_def [abs_def] same_runs_def run_simps Let_def
      split: option.splits if_splits)

lemma GetRenovateRun_runs:
  "run_state (GetRenovateRunByContainerID env cid) s = (r, s') \<Longrightarrow>
    same_runs s s' \<and> (\<forall>run. r = Inr run \<longrightarrow> run \<in> set (rnRuns s) \<and> rrContainerID run = Some cid)"
  by (auto simp: GetRenovateRunByContainerID_def same_runs_def run_simps Let_def dest: find_SomeD split: option.splits)

lemma HandleContainerExit_runs:
  assumes "run_state (HandleContainerExit env readLogs cid code path) s = (res, s')"
  shows "same_runs s s' \<or> (\<exists>run now summary. run \<in> set (rnRuns s) \<and> rrContainerID run = Some cid \<and> rrStatus run = ''running'' \<and>
    rnRuns s' = update_run (rrID run) (completed (outcome code) now summary) (rnRuns s) \<and> rnNextRun s' = rnNextRun s)"
proof (cases "cid = []")
  case True
  with assms show ?thesis by (simp add: HandleContainerExit_def same_runs_def)
next
  case False
  obtain g s1 where g: "run_state (GetRenovateRunByContainerID (rnDB env) cid) s = (g, s1)" by fastforce
  note read = GetRenovateRun_runs [OF g]
  show ?thesis
  proof (cases "\<exists>run. g = Inr run \<and> rrStatus run = ''running''")
    case True
    then obtain run where run: "g = Inr run" "rrStatus run = ''running''" by blast
    with assms False g obtain now summary r where
      "run_state (CompleteRenovateRun (rnDB env) (rrID run) (outcome code) now summary) (s1\<lparr>rnTick := Suc (rnTick s1)\<rparr>) = (r, s')"
      by (auto simp: HandleContainerExit_def run_rn_tick outcome_def split: prod.splits)
    from CompleteRenovateRun_runs [OF this] read run show ?thesis by (auto simp: same_runs_def)
  next
    case False
    with assms \<open>cid \<noteq> []\<close> g have "s' = s1"
      by (auto simp: HandleContainerExit_def split: sum.splits if_splits)
    with read show ?thesis by simp
  qed
qed

lemma update_run_later:
  assumes "runs_ok s" and "run \<in> set (rnRuns s)" and "rrStatus run = ''running''"
    and "rnRuns s' = update_run (rrID run) (completed (outcome code) now summary) (rnRuns s)" and "rnNextRun s' = rnNextRun s"
  shows "runs_ok s' \<and> later s s'"
proof
  have "map rrID (rnRuns s') = map rrID (rnRuns s)" using assms(4) update_run_ids by (simp add: completed_def)
  with assms(1,4,5) show "runs_ok s'"
    by (auto simp: runs_ok_def set_update_run run_ok_def completed_def outcome_def)
  have same: "r = run" if "r \<in> set (rnRuns s)" "rrID r = rrID run" for r
    using assms(1,2) that by (auto simp: runs_ok_def distinct_map dest: inj_onD)
  show "later s s'"
    unfolding later_def
  proof
    fix r assume r: "r \<in> set (rnRuns s)"
    let ?r' = "if rrID r = rrID run then completed (outcome code) now summary r else r"
    have "?r' \<in> set (rnRuns s')" using r assms(4) by (auto simp: set_update_run)
    moreover have "rrStatus r \<noteq> ''running'' \<longrightarrow> ?r' = r" using same [OF r] assms(3) by auto
    ultimately show "\<exists>r' \<in> set (rnRuns s'). rrID r' = rrID r \<and> rrPoolID r' = rrPoolID r \<and> rrStartedAt r' = rrStartedAt r \<and>
        (rrStatus r \<noteq> ''running'' \<longrightarrow> r' = r)"
      by (intro bexI [of _ ?r']) (auto simp: completed_def)
  qed
qed

section \<open>Steps\<close>

inductive renovate_step :: "renovate_env \<Rightarrow> (string \<Rightarrow> string list option) \<Rightarrow> renovate_state \<Rightarrow> renovate_state \<Rightarrow> bool"
  for env :: renovate_env and readLogs :: "string \<Rightarrow> string list option" where
  cron: "renovate_step env readLogs s (exec (Execute env i) s)"
| trigger: "renovate_step env readLogs s (exec (TriggerRenovateRun env has user i) s)"
| exited: "renovate_step env readLogs s (exec (HandleContainerExit env readLogs cid code path) s)"
| last_run: "renovate_step env readLogs s (exec (LastRunResolver env i) s)"
| page: "renovate_step env readLogs s (exec (ListRenovateHistory env i lim offset) s)"
| status: "renovate_step env readLogs s (exec (GetRenovateStatus env nextRun i) s)"

lemma appended_later: "runs_ok s \<Longrightarrow> same_runs s s' \<or> appended s i s' \<Longrightarrow> runs_ok s' \<and> later s s'"
  using same_runs_later append_later unfolding appended_def by blast

lemma renovate_step_later:
  assumes "renovate_step env readLogs s s'" and "runs_ok s"
  shows "runs_ok s' \<and> later s s'"
  using assms(1)
proof cases
  case (cron i)
  with hoareD [OF Execute_hoare [OF assms(2)]] appended_later [OF assms(2)] show ?thesis
    by (metis exec_def prod.collapse same_runs_def)
next
  case (trigger has user i)
  with hoareD [OF TriggerRenovateRun_hoare [OF assms(2)]] appended_later [OF assms(2)] show ?thesis
    by (metis exec_def prod.collapse same_runs_def)
next
  case (exited cid code path)
  then have "run_state (HandleContainerExit env readLogs cid code path) s =
      (fst (run_state (HandleContainerExit env readLogs cid code path) s), s')" by (simp add: exec_def)
  from HandleContainerExit_runs [OF this] show ?thesis
    using same_runs_later update_run_later assms(2) by metis
qed (use assms(2) same_runs_later preservesD [OF queries_keep(1), of s] preservesD [OF queries_keep(2), of s]
      preservesD [OF queries_keep(3), of s] in \<open>auto simp: same_runs_def\<close>)

text \<open>
  C24. The history of Renovate runs is consistent and final. Over every sequence of manual triggers, cron
  executions, container exits and queries, whatever the database, the forge or the engine refuse: the ids of
  runs stay unique, a run is marked as running exactly as long as it has no completion time, no run is
  lost, and a completed run is never changed again.
\<close>

theorem renovate_history_final:
  assumes "(renovate_step env readLogs)\<^sup>*\<^sup>* s s'" and "runs_ok s"
  shows "runs_ok s' \<and> later s s'"
  using assms
proof (induction rule: rtranclp_induct)
  case (step y z)
  then show ?case using renovate_step_later later_trans by blast
qed simp

lemma find_only:
  "x \<in> set xs \<Longrightarrow> P x \<Longrightarrow> \<forall>y \<in> set xs. P y \<longrightarrow> y = x \<Longrightarrow> find P xs = Some x"
  by (metis find_None_iff find_SomeD option.exhaust)

text \<open>
  The exit of a task container is recorded once. When the container of exactly one running run exits
  and the database answers, that run and no other is completed, as a success exactly for exit code 0, with
  the summary of its log; the container is reported as belonging to a run. A second exit of the same
  container, with whatever code, changes no run.
\<close>

theorem renovate_exit_recorded:
  assumes "r \<in> set (rnRuns s)" and "rrContainerID r = Some cid" and "rrStatus r = ''running''" and "cid \<noteq> []"
    and "\<forall>r' \<in> set (rnRuns s). rrContainerID r' = Some cid \<longrightarrow> r' = r"
    and "dbFail (rnDB env) (tTick (rnTables s)) = None" and "dbFail (rnDB env) (Suc (tTick (rnTables s))) = None"
    and "run_state (HandleContainerExit env readLogs cid code path) s = (res, s')"
  shows "res = (True, None) \<and>
    rnRuns s' = update_run (rrID r) (completed (outcome code) (rnNow env (rnTick s))
      (ExtractSummary (if path \<noteq> [] then (case readLogs path of Some ls \<Rightarrow> ls | None \<Rightarrow> []) else []) code)) (rnRuns s) \<and>
    rnRuns (exec (HandleContainerExit env readLogs cid code2 path2) s') = rnRuns s'"
proof -
  let ?entries = "if path \<noteq> [] then (case readLogs path of Some ls \<Rightarrow> ls | None \<Rightarrow> []) else []"
  let ?s1 = "s\<lparr>rnTables := (rnTables s)\<lparr>tTick := Suc (tTick (rnTables s))\<rparr>\<rparr>"
  let ?f = "completed (outcome code) (rnNow env (rnTick s)) (ExtractSummary ?entries code)"
  have "find (\<lambda>x. rrContainerID x = Some cid) (rnRuns s) = Some r"
    by (intro find_only) (use assms(1,2,5) in blast)+
  then have get: "run_state (GetRenovateRunByContainerID (rnDB env) cid) s = (Inr r, ?s1)"
    using assms(6) by (simp add: GetRenovateRunByContainerID_def run_runs_statement Let_def)
  have comp: "run_state (CompleteRenovateRun (rnDB env) (rrID r) (outcome code) (rnNow env (rnTick s)) (ExtractSummary ?entries code))
      (?s1\<lparr>rnTick := Suc (rnTick s)\<rparr>) =
    (Inr (), ?s1\<lparr>rnTick := Suc (rnTick s), rnTables := (rnTables s)\<lparr>tTick := Suc (Suc (tTick (rnTables s)))\<rparr>,
       rnRuns := update_run (rrID r) ?f (rnRuns s)\<rparr>)"
    using assms(1,7) by (simp add: CompleteRenovateRun_def run_runs_statement Let_def completed_def [abs_def] outcome_def)
  have main: "res = (True, None) \<and> rnRuns s' = update_run (rrID r) ?f (rnRuns s)"
    using assms(3,4,8) get comp [unfolded outcome_def]
    by (simp add: HandleContainerExit_def run_rn_tick outcome_def Let_def) auto
  have "\<forall>x \<in> set (rnRuns s'). rrContainerID x = Some cid \<longrightarrow> rrStatus x \<noteq> ''running''"
    using main assms(5) by (auto simp: set_update_run completed_def outcome_def split: if_splits)
  with HandleContainerExit_runs [of env readLogs cid code2 path2 s', OF surjective_pairing] main show ?thesis
    by (auto simp: same_runs_def exec_def)
qed

section \<open>A run without its container\<close>

lemma runs_of_update:
  assumes "\<And>r. rrID (f r) = rrID r \<and> rrStartedAt (f r) = rrStartedAt r \<and> rrPoolID (f r) = rrPoolID r"
  shows "runs_of i (update_run j f rs) = update_run j f (runs_of i rs)"
proof -
  let ?g = "\<lambda>r. if rrID r = j then f r else r"
  have "filter (\<lambda>r. rrPoolID r = i) (map ?g rs) = map ?g (filter (\<lambda>r. rrPoolID r = i) rs)"
    using assms by (induction rs) auto
  moreover have "rrID (?g r) = rrID r" "rrStartedAt (?g r) = rrStartedAt r" for r using assms by auto
  ultimately show ?thesis
    unfolding runs_of_def update_run_def using sort_key_map [of rrID ?g] sort_key_map [of rrStartedAt ?g]
    by (simp add: rev_map)
qed

text \<open>The latest run of the pool is running and has no container.\<close>

definition unlinked :: "int \<Rightarrow> int \<Rightarrow> renovate_state \<Rightarrow> bool" where
  "unlinked i j s \<longleftrightarrow> runs_ok s \<and> i \<in> pID ` set (tPools (rnTables s)) \<and>
     (\<exists>r rest. runs_of i (rnRuns s) = r # rest \<and> rrID r = j \<and> rrStatus r = ''running'' \<and> rrContainerID r = None)"

definition exits :: "renovate_env \<Rightarrow> (string \<Rightarrow> string list option) \<Rightarrow> (string \<times> int \<times> string) list \<Rightarrow> renovate_state \<Rightarrow> renovate_state" where
  "exits env readLogs es s = fold (\<lambda>(cid, code, path). exec (HandleContainerExit env readLogs cid code path)) es s"

lemma exit_tables:
  "rnTables (exec (HandleContainerExit env readLogs cid code path) s) =
    (rnTables s)\<lparr>tTick := tTick (rnTables (exec (HandleContainerExit env readLogs cid code path) s))\<rparr>"
  by (auto simp: HandleContainerExit_def GetRenovateRunByContainerID_def CompleteRenovateRun_def exec_def run_simps Let_def
      split: option.split sum.split)

lemma set_runs_of: "set (runs_of i rs) = {r \<in> set rs. rrPoolID r = i}"
  by (simp add: runs_of_def)

lemma unlinked_exit:
  assumes "unlinked i j s"
  shows "unlinked i j (exec (HandleContainerExit env readLogs cid code path) s)"
proof -
  let ?s' = "exec (HandleContainerExit env readLogs cid code path) s"
  obtain r rest where r: "runs_of i (rnRuns s) = r # rest" "rrID r = j" "rrStatus r = ''running''" "rrContainerID r = None"
    using assms by (auto simp: unlinked_def)
  have ok: "runs_ok ?s'"
    using renovate_step_later [OF renovate_step.exited] assms by (auto simp: unlinked_def)
  have pools: "tPools (rnTables ?s') = tPools (rnTables s)"
    by (subst exit_tables) simp
  from HandleContainerExit_runs [of env readLogs cid code path s, OF surjective_pairing]
  consider "rnRuns ?s' = rnRuns s"
    | run now summary where "run \<in> set (rnRuns s)" "rrContainerID run = Some cid"
      "rnRuns ?s' = update_run (rrID run) (completed (outcome code) now summary) (rnRuns s)"
    by (auto simp: same_runs_def exec_def)
  then show ?thesis
  proof cases
    case 1
    with assms ok pools show ?thesis by (simp add: unlinked_def)
  next
    case 2
    have "r \<in> set (rnRuns s)" using r(1) set_runs_of [of i "rnRuns s"] by auto
    then have "rrID run \<noteq> j"
      using 2(1,2) r(2,4) assms by (auto simp: unlinked_def runs_ok_def distinct_map dest: inj_onD)
    then have "runs_of i (rnRuns ?s') = r # update_run (rrID run) (completed (outcome code) now summary) rest"
      using 2(3) r(1,2) by (simp add: runs_of_update completed_def) (simp add: update_run_def)
    with assms ok pools r show ?thesis by (simp add: unlinked_def)
  qed
qed

text \<open>
  A run whose container was not linked to it blocks its pool. When the statement that stores the container
  of a new run fails, the failure is only logged: the run stays marked as running whatever containers
  exit, and every later trigger for the pool is refused because a run is in progress.
\<close>

theorem unlinked_run_blocks_pool:
  assumes "unlinked i j s" and "0 < i" and "\<forall>n. dbFail (rnDB env) n = None"
  shows "unlinked i j (exits env readLogs es s) \<and>
    fst (run_state (TriggerRenovateRun env True user i) (exits env readLogs es s)) = Inl TrFailedPrecondition"
proof -
  have u: "unlinked i j (exits env readLogs es s)"
    using assms(1) unfolding exits_def by (induction es arbitrary: s) (auto intro: unlinked_exit)
  moreover have "fst (run_state (TriggerRenovateRun env True user i) x) = Inl TrFailedPrecondition" if link: "unlinked i j x" for x
  proof -
    obtain p where "find_pool i (rnTables x) = Some p"
      using link find_pool_None [of i "rnTables x"] by (cases "find_pool i (rnTables x)") (auto simp: unlinked_def)
    moreover obtain r rest where "runs_of i (rnRuns x) = r # rest" "rrStatus r = ''running''" using link by (auto simp: unlinked_def)
    ultimately show ?thesis
      using assms(2,3) by (simp add: TriggerRenovateRun_def pool_known_def GetRunnerPoolById_def statement_def find_pool_def
          GetLatestRenovateRunByPoolId_def run_simps Let_def)
  qed
  ultimately show ?thesis by blast
qed

section \<open>Witnesses\<close>

definition ex_run :: RenovateRun where
  "ex_run = \<lparr>rrID = 1, rrPoolID = 1, rrStatus = ''running'', rrStartedAt = 5, rrCompletedAt = None, rrSummary = [],
     rrContainerID = Some ''c1''\<rparr>"

definition ex_renovate :: "RenovateRun list \<Rightarrow> renovate_state" where
  "ex_renovate rs = \<lparr>rnTables = \<lparr>tPools = [ex_pool], tTargets = [], tRenovate = [], tProfiles = [1], tAudit = [],
     tNextPool = 2, tNextTarget = 1, tTick = 0, tReloads = 0\<rparr>, rnRuns = rs, rnNextRun = 2, rnTasks = [], rnTick = 0\<rparr>"

definition ex_renovate_env :: renovate_env where
  "ex_renovate_env = \<lparr>rnDB = \<lparr>dbFail = (\<lambda>n. None), dbClock = (\<lambda>n. 0)\<rparr>, rnResolve = (\<lambda>n a. Inr (ex_provider, None)),
     rnSpawnTask = (\<lambda>n cfg. Inr ''c2''), rnNow = (\<lambda>n. 9), rnHex = (\<lambda>n. ''ab'')\<rparr>"

lemmas ex_renovate_defs = ex_run_def ex_renovate_def ex_renovate_env_def ex_pool_def

lemma ex_runs_ok: "runs_ok (ex_renovate [ex_run])"
  by (simp add: runs_ok_def run_ok_def ex_renovate_defs)

theorem renovate_history_final_witness:
  "runs_ok (exec (Execute ex_renovate_env 1) (ex_renovate [ex_run])) \<and>
   later (ex_renovate [ex_run]) (exec (Execute ex_renovate_env 1) (ex_renovate [ex_run]))"
proof -
  have "(renovate_step ex_renovate_env (\<lambda>p. None))\<^sup>*\<^sup>* (ex_renovate [ex_run])
      (exec (Execute ex_renovate_env 1) (ex_renovate [ex_run]))"
    by (rule r_into_rtranclp) (rule renovate_step.cron)
  then show ?thesis using ex_runs_ok by (rule renovate_history_final)
qed

theorem renovate_exit_recorded_witness:
  "map rrStatus (rnRuns (exec (HandleContainerExit ex_renovate_env (\<lambda>p. None) ''c1'' 0 []) (ex_renovate [ex_run]))) =
    [''success'']"
proof -
  have "rrContainerID ex_run = Some ''c1''" "rrStatus ex_run = ''running''" "rnRuns (ex_renovate [ex_run]) = [ex_run]"
    "dbFail (rnDB ex_renovate_env) n = None" for n
    by (simp_all add: ex_renovate_defs)
  with renovate_exit_recorded [of ex_run "ex_renovate [ex_run]" "''c1''" ex_renovate_env "\<lambda>p. None" 0 "[]",
      OF _ _ _ _ _ _ _ surjective_pairing] show ?thesis
    by (simp add: exec_def update_run_def completed_def outcome_def)
qed

theorem unlinked_run_blocks_pool_witness:
  "fst (run_state (TriggerRenovateRun ex_renovate_env True None 1)
     (exits ex_renovate_env (\<lambda>p. None) [(''c1'', 0, [])] (ex_renovate [ex_run\<lparr>rrContainerID := None\<rparr>]))) =
    Inl TrFailedPrecondition"
proof -
  have "unlinked 1 1 (ex_renovate [ex_run\<lparr>rrContainerID := None\<rparr>])"
    by (simp add: unlinked_def runs_ok_def run_ok_def runs_of_def ex_renovate_defs)
  moreover have "\<forall>n. dbFail (rnDB ex_renovate_env) n = None" by (simp add: ex_renovate_env_def)
  ultimately show ?thesis using unlinked_run_blocks_pool by fastforce
qed

end
