(* ===== verification/Maintenance.thy ===== *)
theory Maintenance
  imports Go_Effects Log_Files "HOL-Library.List_Lexorder" "HOL-Library.Char_ord"
begin

text \<open>
  The housekeeping of the database: the retention of job records and their log files
  (\<open>src/internal/db/retention.go\<close>) and of backups (\<open>src/internal/db/backup.go\<close>). The state holds the job
  records, the settings and the regular files on disk; the outcome of a statement, of a removal and of the
  count of runners are parameters, asked with the number of the call. Calendar days are 24 hours, as they are
  in UTC.
\<close>

section \<open>State\<close>

record job_row =
  jhID :: int
  jhCompletedAt :: "gotime option"
  jhCreatedAt :: gotime
  jhLogPath :: "string option"

record maintenance =
  mtJobs :: "job_row list"
  mtSettings :: "(string, string) gomap"
  mtFiles :: "string list"
  mtTick :: nat

record maintenance_env =
  meFail :: "nat \<Rightarrow> string option"
  meRemove :: "nat \<Rightarrow> string \<Rightarrow> string option"
  meNow :: "nat \<Rightarrow> gotime"

record PruneResult =
  prSkipped :: bool
  prRowsDeleted :: int
  prFilesDeleted :: int

definition mt_tick :: "(maintenance, nat) state" where
  "mt_tick = do { n \<leftarrow> gets mtTick; modify (\<lambda>s. s\<lparr>mtTick := Suc n\<rparr>); State_Monad.return n }"

text \<open>\<open>os.Remove\<close> of a file that exists.\<close>

definition remove_file :: "maintenance_env \<Rightarrow> string \<Rightarrow> (maintenance, bool) state" where
  "remove_file env path = do {
     n \<leftarrow> mt_tick;
     if meRemove env n path = None then do {
       modify (\<lambda>s. s\<lparr>mtFiles := removeAll path (mtFiles s)\<rparr>);
       State_Monad.return True
     }
     else State_Monad.return False
   }"

section \<open>Retention\<close>

definition Day :: duration where "Day = 24 * 60 * Minute"

definition DefaultJobRetentionDays :: int where "DefaultJobRetentionDays = 30"
definition DefaultTotalAllowed :: int where "DefaultTotalAllowed = 20"
definition LoadSkipThresholdPercent :: int where "LoadSkipThresholdPercent = 80"

text \<open>A positive setting, or the default when it cannot be read.\<close>

definition positive_setting :: "maintenance_env \<Rightarrow> string \<Rightarrow> int \<Rightarrow> (maintenance, int) state" where
  "positive_setting env key dflt = do {
     n \<leftarrow> mt_tick;
     settings \<leftarrow> gets mtSettings;
     State_Monad.return
       (case (meFail env n, mget settings key) of
          (None, Some v) \<Rightarrow> (case Atoi v of Some x \<Rightarrow> if x > 0 then x else dflt | None \<Rightarrow> dflt)
        | _ \<Rightarrow> dflt)
   }"

definition high_load :: "int \<Rightarrow> int \<Rightarrow> bool" where
  "high_load activeRunners totalAllowed \<longleftrightarrow>
     wrap64 (activeRunners * 100) > wrap64 (totalAllowed * LoadSkipThresholdPercent)"

definition expired :: "gotime \<Rightarrow> job_row \<Rightarrow> bool" where
  "expired cutoff r \<longleftrightarrow> (case jhCompletedAt r of Some t \<Rightarrow> t < cutoff | None \<Rightarrow> jhCreatedAt r < cutoff)"

definition PruneJobHistoryOlderThan :: "maintenance_env \<Rightarrow> gotime \<Rightarrow> (maintenance, string + job_row list) state" where
  "PruneJobHistoryOlderThan env cutoff = do {
     n \<leftarrow> mt_tick;
     case meFail env n of
       Some err \<Rightarrow> State_Monad.return (Inl err)
     | None \<Rightarrow> do {
         rows \<leftarrow> gets (\<lambda>s. filter (expired cutoff) (mtJobs s));
         modify (\<lambda>s. s\<lparr>mtJobs := filter (\<lambda>r. \<not> expired cutoff r) (mtJobs s)\<rparr>);
         State_Monad.return (Inr rows)
       }
   }"

text \<open>The log file of a pruned row is deleted when it is there.\<close>

definition delete_log :: "maintenance_env \<Rightarrow> job_row \<Rightarrow> (maintenance, bool) state" where
  "delete_log env r = do {
     files \<leftarrow> gets mtFiles;
     case jhLogPath r of
       Some path \<Rightarrow> if path \<noteq> [] \<and> path \<in> set files then remove_file env path else State_Monad.return False
     | None \<Rightarrow> State_Monad.return False
   }"

text \<open>The number of files deleted.\<close>

fun delete_logs :: "maintenance_env \<Rightarrow> job_row list \<Rightarrow> (maintenance, int) state" where
  "delete_logs env [] = State_Monad.return 0"
| "delete_logs env (r # rs) = do {
     d \<leftarrow> delete_log env r;
     k \<leftarrow> delete_logs env rs;
     State_Monad.return ((if d then 1 else 0) + k)
   }"

definition PruneJobHistory :: "maintenance_env \<Rightarrow> int \<Rightarrow> (maintenance, string + PruneResult) state" where
  "PruneJobHistory env activeRunners = do {
     totalAllowed \<leftarrow> positive_setting env ''total_allowed_runners'' DefaultTotalAllowed;
     retentionDays \<leftarrow> positive_setting env ''job_retention_days'' DefaultJobRetentionDays;
     if high_load activeRunners totalAllowed then
       State_Monad.return (Inr \<lparr>prSkipped = True, prRowsDeleted = 0, prFilesDeleted = 0\<rparr>)
     else do {
       n \<leftarrow> mt_tick;
       r \<leftarrow> PruneJobHistoryOlderThan env (meNow env n - retentionDays * Day);
       case r of
         Inl err \<Rightarrow> State_Monad.return (Inl err)
       | Inr rows \<Rightarrow> do {
           k \<leftarrow> delete_logs env rows;
           State_Monad.return (Inr \<lparr>prSkipped = False, prRowsDeleted = int (length rows), prFilesDeleted = k\<rparr>)
         }
     }
   }"

text \<open>One cycle; a failed count of runners counts as none, and so does a missing counter.\<close>

definition Prune :: "maintenance_env \<Rightarrow> (nat \<Rightarrow> string + int) option \<Rightarrow> (maintenance, string + PruneResult) state" where
  "Prune env activeRunnerFn = do {
     active \<leftarrow> (case activeRunnerFn of
                  None \<Rightarrow> State_Monad.return 0
                | Some count_active \<Rightarrow> do {
                    n \<leftarrow> mt_tick;
                    State_Monad.return (case count_active n of Inl _ \<Rightarrow> 0 | Inr k \<Rightarrow> k)
                  });
     PruneJobHistory env active
   }"

definition NextMidnightUTC :: "gotime \<Rightarrow> duration" where
  "NextMidnightUTC now = (now div Day + 1) * Day - now"

section \<open>Backups\<close>

record backup_manager =
  bmDir :: string
  bmInterval :: duration
  bmRetentionCount :: nat

definition NewBackupManager :: "string \<Rightarrow> int \<Rightarrow> int \<Rightarrow> backup_manager" where
  "NewBackupManager dataDir intervalHours retentionCount =
     \<lparr>bmDir = path_join [dataDir, ''backups''],
      bmInterval = wrap64 ((if intervalHours \<le> 0 then 6 else intervalHours) * 60 * Minute),
      bmRetentionCount = nat (if retentionCount \<le> 0 then 7 else retentionCount)\<rparr>"

definition is_backup :: "string \<Rightarrow> bool" where
  "is_backup name \<longleftrightarrow> HasPrefix name ''supervisor-'' \<and> HasSuffix name ''.db''"

text \<open>The snapshots among the regular files of the backup directory, by name, the newest first.\<close>

definition ListBackups :: "backup_manager \<Rightarrow> maintenance \<Rightarrow> string list" where
  "ListBackups bm s = rev (sort (filter (\<lambda>f. HasPrefix f (bmDir bm @ ''/'') \<and>
     (let name = drop (Suc (length (bmDir bm))) f in CHR ''/'' \<notin> set name \<and> is_backup name)) (mtFiles s)))"

fun remove_backups :: "maintenance_env \<Rightarrow> string list \<Rightarrow> (maintenance, int) state" where
  "remove_backups env [] = State_Monad.return 0"
| "remove_backups env (f # fs) = do {
     d \<leftarrow> remove_file env f;
     k \<leftarrow> remove_backups env fs;
     State_Monad.return ((if d then 1 else 0) + k)
   }"

text \<open>Reading the directory may fail; a directory that does not exist yet has no snapshots.\<close>

definition Prune_backups :: "maintenance_env \<Rightarrow> backup_manager \<Rightarrow> (maintenance, string + int) state" where
  "Prune_backups env bm = do {
     n \<leftarrow> mt_tick;
     case meFail env n of
       Some err \<Rightarrow> State_Monad.return (Inl err)
     | None \<Rightarrow> do {
         backups \<leftarrow> gets (ListBackups bm);
         if length backups \<le> bmRetentionCount bm then State_Monad.return (Inr 0)
         else do {
           k \<leftarrow> remove_backups env (drop (bmRetentionCount bm) backups);
           State_Monad.return (Inr k)
         }
       }
   }"

text \<open>
  \<open>Backup\<close>: the directory is made and an older file of that name removed (both may fail, the removal
  silently) before \<open>VACUUM INTO\<close> writes the file, which it refuses to when the file is still there.
\<close>

definition Backup :: "maintenance_env \<Rightarrow> bool \<Rightarrow> string \<Rightarrow> (maintenance, string option) state" where
  "Backup env inMemory dest =
     (if inMemory then State_Monad.return (Some ''cannot backup in-memory database'')
      else do {
        n \<leftarrow> mt_tick;
        case meFail env n of
          Some err \<Rightarrow> State_Monad.return (Some err)
        | None \<Rightarrow> do {
            files \<leftarrow> gets mtFiles;
            _ \<leftarrow> (if dest \<in> set files then remove_file env dest else State_Monad.return False);
            k \<leftarrow> mt_tick;
            left \<leftarrow> gets mtFiles;
            case (if dest \<in> set left then Some ''output file already exists'' else meFail env k) of
              Some err \<Rightarrow> State_Monad.return (Some err)
            | None \<Rightarrow> do { modify (\<lambda>s. s\<lparr>mtFiles := dest # mtFiles s\<rparr>); State_Monad.return None }
          }
      })"

text \<open>A snapshot; \<open>stamp\<close> formats the time. A failure to prune is only logged.\<close>

definition Snapshot :: "maintenance_env \<Rightarrow> bool \<Rightarrow> (gotime \<Rightarrow> string) \<Rightarrow> backup_manager \<Rightarrow> (maintenance, string + string) state" where
  "Snapshot env inMemory stamp bm = do {
     n \<leftarrow> mt_tick;
     case meFail env n of
       Some err \<Rightarrow> State_Monad.return (Inl err)
     | None \<Rightarrow> do {
         k \<leftarrow> mt_tick;
         let dest = path_join [bmDir bm, ''supervisor-'' @ stamp (meNow env k) @ ''.db''];
         r \<leftarrow> Backup env inMemory dest;
         case r of
           Some err \<Rightarrow> State_Monad.return (Inl err)
         | None \<Rightarrow> do { _ \<leftarrow> Prune_backups env bm; State_Monad.return (Inr dest) }
       }
   }"

section \<open>The schedulers\<close>

text \<open>
  Both background loops run their task each time their timer fires, whatever the task answers, until the
  context is cancelled: the argument is the number of times the timer fires before that.
\<close>

fun Start_retention :: "maintenance_env \<Rightarrow> (nat \<Rightarrow> string + int) option \<Rightarrow> nat \<Rightarrow> (maintenance, unit) state" where
  "Start_retention env activeRunnerFn 0 = State_Monad.return ()"
| "Start_retention env activeRunnerFn (Suc k) = do { _ \<leftarrow> Prune env activeRunnerFn; Start_retention env activeRunnerFn k }"

fun Start_backups :: "maintenance_env \<Rightarrow> bool \<Rightarrow> (gotime \<Rightarrow> string) \<Rightarrow> backup_manager \<Rightarrow> nat \<Rightarrow> (maintenance, unit) state" where
  "Start_backups env inMemory stamp bm 0 = State_Monad.return ()"
| "Start_backups env inMemory stamp bm (Suc k) =
     do { _ \<leftarrow> Snapshot env inMemory stamp bm; Start_backups env inMemory stamp bm k }"

end
