(* ===== verification/Maintenance_Props.thy ===== *)
theory Maintenance_Props
  imports Maintenance
begin

text \<open>
  What a retention cycle deletes and keeps, when it runs, and which backups survive.
\<close>

section \<open>Files\<close>

lemma run_mt_tick [run_simps]: "run_state mt_tick s = (mtTick s, s\<lparr>mtTick := Suc (mtTick s)\<rparr>)"
  by (simp add: mt_tick_def)

lemma run_remove_file [run_simps]:
  "run_state (remove_file env path) s =
    (let s1 = s\<lparr>mtTick := Suc (mtTick s)\<rparr> in
     if meRemove env (mtTick s) path = None then (True, s1\<lparr>mtFiles := removeAll path (mtFiles s)\<rparr>) else (False, s1))"
  by (simp add: remove_file_def run_mt_tick Let_def)

text \<open>The log files of rows: what a cycle may delete.\<close>

definition logs_of :: "job_row list \<Rightarrow> string set" where
  "logs_of rows = {p. p \<noteq> [] \<and> (\<exists>r \<in> set rows. jhLogPath r = Some p)}"

lemma logs_of_simps:
  "logs_of [] = {}"
  "logs_of (r # rs) = (case jhLogPath r of Some p \<Rightarrow> if p \<noteq> [] then {p} else {} | None \<Rightarrow> {}) \<union> logs_of rs"
  by (auto simp: logs_of_def split: option.split)

lemma delete_log_files:
  assumes "run_state (delete_log env r) s = (d, s1)"
  shows "mtJobs s1 = mtJobs s \<and> mtSettings s1 = mtSettings s \<and>
    (if d then \<exists>p. p \<in> set (mtFiles s) \<and> p \<in> logs_of [r] \<and> set (mtFiles s1) = set (mtFiles s) - {p}
     else mtFiles s1 = mtFiles s) \<and>
    ((\<forall>n p. meRemove env n p = None) \<longrightarrow> set (mtFiles s1) = set (mtFiles s) - logs_of [r])"
  using assms
  by (auto simp: delete_log_def run_simps Let_def logs_of_simps split: option.splits if_splits)

definition deletes :: "maintenance_env \<Rightarrow> job_row list \<Rightarrow> maintenance \<Rightarrow> int \<Rightarrow> maintenance \<Rightarrow> bool" where
  "deletes env rows s k s' \<longleftrightarrow>
     mtJobs s' = mtJobs s \<and> mtSettings s' = mtSettings s \<and> set (mtFiles s') \<subseteq> set (mtFiles s) \<and>
     set (mtFiles s) - set (mtFiles s') \<subseteq> logs_of rows \<and> k = int (card (set (mtFiles s) - set (mtFiles s'))) \<and>
     ((\<forall>n p. meRemove env n p = None) \<longrightarrow> set (mtFiles s') = set (mtFiles s) - logs_of rows)"

lemma delete_logs_files:
  "run_state (delete_logs env rows) s = (k, s') \<Longrightarrow> deletes env rows s k s'"
proof (induction rows arbitrary: s k s')
  case Nil
  then show ?case by (simp add: deletes_def logs_of_simps)
next
  case (Cons r rs)
  obtain d s1 k1 where d: "run_state (delete_log env r) s = (d, s1)"
    and k: "run_state (delete_logs env rs) s1 = (k1, s')" "k = (if d then 1 else 0) + k1"
    using Cons.prems by (auto split: prod.splits)
  note step = delete_log_files [OF d] and rest = Cons.IH [OF k(1)]
  have logs: "logs_of (r # rs) = logs_of [r] \<union> logs_of rs" by (auto simp: logs_of_def)
  show ?case
  proof (cases d)
    case True
    then obtain p where p: "p \<in> set (mtFiles s)" "p \<in> logs_of [r]" "set (mtFiles s1) = set (mtFiles s) - {p}"
      using step by auto
    then have gone: "set (mtFiles s) - set (mtFiles s') = insert p (set (mtFiles s1) - set (mtFiles s'))"
      using rest by (auto simp: deletes_def)
    have "k = int (card (set (mtFiles s) - set (mtFiles s')))"
      unfolding gone using k(2) True p(3) rest by (simp add: deletes_def)
    then show ?thesis using step rest p gone logs unfolding deletes_def by auto
  next
    case False
    then show ?thesis using step rest k(2) logs unfolding deletes_def by auto
  qed
qed

section \<open>Retention\<close>

lemma run_PruneOlderThan [run_simps]:
  "run_state (PruneJobHistoryOlderThan env c) s =
    (let s1 = s\<lparr>mtTick := Suc (mtTick s)\<rparr> in
     case meFail env (mtTick s) of
       Some err \<Rightarrow> (Inl err, s1)
     | None \<Rightarrow> (Inr (filter (expired c) (mtJobs s)), s1\<lparr>mtJobs := filter (\<lambda>r. \<not> expired c r) (mtJobs s)\<rparr>))"
  by (simp add: PruneJobHistoryOlderThan_def run_mt_tick Let_def split: option.split)

definition setting_at :: "maintenance_env \<Rightarrow> nat \<Rightarrow> maintenance \<Rightarrow> string \<Rightarrow> int \<Rightarrow> int" where
  "setting_at env n s key dflt =
     (case (meFail env n, mget (mtSettings s) key) of
        (None, Some v) \<Rightarrow> (case Atoi v of Some x \<Rightarrow> if x > 0 then x else dflt | None \<Rightarrow> dflt)
      | _ \<Rightarrow> dflt)"

lemma run_positive_setting [run_simps]:
  "run_state (positive_setting env key dflt) s = (setting_at env (mtTick s) s key dflt, s\<lparr>mtTick := Suc (mtTick s)\<rparr>)"
  by (simp add: positive_setting_def setting_at_def run_mt_tick split: option.split)

text \<open>Without overflow the threshold is four fifths of the allowed runners, exactly.\<close>

lemma high_load_exact:
  assumes "0 \<le> active" "active < 2 ^ 56" "0 \<le> allowed" "allowed < 2 ^ 56"
  shows "high_load active allowed \<longleftrightarrow> 4 * allowed < 5 * active"
proof -
  have "int64_range (active * 100)" "int64_range (allowed * 80)" using assms by (simp_all add: int64_range_def)
  then show ?thesis by (auto simp: high_load_def LoadSkipThresholdPercent_def wrap64_id)
qed

lemma high_load_overflow: "high_load 1 (2 ^ 62)"
  by (simp add: high_load_def LoadSkipThresholdPercent_def wrap64_def)

text \<open>
  C25. What a retention cycle deletes. A cycle that does not fail either skips everything, exactly when the
  active runners exceed the load threshold of the allowed ones, or it deletes exactly the job records that
  completed (or, never completed, were created) before the cutoff of the configured number of days, and of
  the files on disk only logs of those records, all of them when their removal succeeds; it reports how many
  of each.
\<close>

theorem retention_exact:
  assumes "run_state (PruneJobHistory env active) s = (Inr res, s')"
    and "allowed = setting_at env (mtTick s) s ''total_allowed_runners'' 20"
    and "days = setting_at env (Suc (mtTick s)) s ''job_retention_days'' 30"
    and "old = expired (meNow env (mtTick s + 2) - days * Day)"
  shows "if high_load active allowed
    then prSkipped res \<and> mtJobs s' = mtJobs s \<and> mtFiles s' = mtFiles s
    else \<not> prSkipped res \<and> mtJobs s' = filter (\<lambda>r. \<not> old r) (mtJobs s) \<and>
      prRowsDeleted res = int (length (filter old (mtJobs s))) \<and> set (mtFiles s') \<subseteq> set (mtFiles s) \<and>
      set (mtFiles s) - set (mtFiles s') \<subseteq> logs_of (filter old (mtJobs s)) \<and>
      prFilesDeleted res = int (card (set (mtFiles s) - set (mtFiles s'))) \<and>
      ((\<forall>n p. meRemove env n p = None) \<longrightarrow> set (mtFiles s') = set (mtFiles s) - logs_of (filter old (mtJobs s)))"
proof -
  have settings: "setting_at env n (s\<lparr>mtTick := k\<rparr>) key d = setting_at env n s key d" for n k key d
    by (simp add: setting_at_def)
  show ?thesis
  proof (cases "high_load active allowed")
    case True
    then show ?thesis using assms
      by (auto simp: PruneJobHistory_def DefaultTotalAllowed_def DefaultJobRetentionDays_def run_simps settings)
  next
    case False
    let ?s1 = "s\<lparr>mtTick := mtTick s + 4, mtJobs := filter (\<lambda>r. \<not> old r) (mtJobs s)\<rparr>"
    obtain k s2 where k: "run_state (delete_logs env (filter old (mtJobs s))) ?s1 = (k, s2)" by fastforce
    have "meFail env (mtTick s + 3) = None"
      using assms False
      by (auto simp: PruneJobHistory_def DefaultTotalAllowed_def DefaultJobRetentionDays_def run_simps settings numeral_3_eq_3 Let_def
          split: option.splits)
    with assms False k have "s' = s2 \<and>
        res = \<lparr>prSkipped = False, prRowsDeleted = int (length (filter old (mtJobs s))), prFilesDeleted = k\<rparr>"
      by (simp add: PruneJobHistory_def DefaultTotalAllowed_def DefaultJobRetentionDays_def run_simps settings
          Let_def eval_nat_numeral)
    with delete_logs_files [OF k] False show ?thesis by (auto simp: deletes_def)
  qed
qed

lemma NextMidnight_bounds:
  "0 < NextMidnightUTC now \<and> NextMidnightUTC now \<le> Day \<and> (now + NextMidnightUTC now) mod Day = 0"
proof -
  define q m where "q = now div Day" and "m = now mod Day"
  have "now = q * Day + m" by (simp add: q_def m_def)
  moreover have "0 \<le> m" "m < Day" by (simp_all add: m_def Day_def Minute_def Second_def)
  moreover have "NextMidnightUTC now = Day - m"
    unfolding NextMidnightUTC_def q_def [symmetric] using \<open>now = q * Day + m\<close> by (simp add: algebra_simps)
  moreover from this have "now + NextMidnightUTC now = (q + 1) * Day"
    using \<open>now = q * Day + m\<close> by (simp add: algebra_simps)
  ultimately show ?thesis by simp
qed

section \<open>Backups\<close>

lemma remove_backups_files:
  assumes "\<forall>n p. meRemove env n p = None"
  shows "mtFiles (exec (remove_backups env fs) s) = filter (\<lambda>f. f \<notin> set fs) (mtFiles s)"
proof (induction fs arbitrary: s)
  case (Cons f fs)
  have "exec (remove_file env f) s = s\<lparr>mtTick := Suc (mtTick s), mtFiles := removeAll f (mtFiles s)\<rparr>"
    using assms by (simp add: exec_def run_remove_file Let_def)
  with Cons show ?case by (simp add: exec_bind removeAll_filter_not_eq) (metis (mono_tags, lifting))
qed simp

lemma newest_filter: "rev (sort (filter P (filter Q xs))) = filter Q (rev (sort (filter P xs)))"
proof -
  have "filter P (filter Q xs) = filter Q (filter P xs)" by (simp add: conj_commute)
  then show ?thesis by (simp only: filter_sort [symmetric] rev_filter [symmetric])
qed

lemma filter_not_drop: "distinct xs \<Longrightarrow> filter (\<lambda>x. x \<notin> set (drop n xs)) xs = take n xs"
proof -
  assume "distinct xs"
  then have "distinct (take n xs @ drop n xs)" by simp
  then have "filter (\<lambda>x. x \<notin> set (drop n xs)) (take n xs @ drop n xs) = take n xs"
    unfolding filter_append distinct_append by (auto intro!: filter_True)
  then show ?thesis by simp
qed

lemma Prune_backups_files:
  assumes "meFail env (mtTick s) = None" and "\<forall>n p. meRemove env n p = None"
  shows "mtFiles (exec (Prune_backups env bm) s) =
    filter (\<lambda>f. f \<notin> set (drop (bmRetentionCount bm) (ListBackups bm s))) (mtFiles s)"
proof -
  let ?s = "s\<lparr>mtTick := Suc (mtTick s)\<rparr>"
  have "ListBackups bm ?s = ListBackups bm s" by (simp add: ListBackups_def)
  moreover have "mtFiles (exec (remove_backups env fs) ?s) = filter (\<lambda>f. f \<notin> set fs) (mtFiles s)" for fs
    using remove_backups_files [OF assms(2), of fs ?s] by simp
  ultimately show ?thesis using assms(1) by (simp add: Prune_backups_def exec_def run_simps split: prod.split) (metis snd_conv)
qed

lemma ListBackups_kept:
  assumes "mtFiles t = filter Q (mtFiles s)" shows "ListBackups bm t = filter Q (ListBackups bm s)"
  unfolding ListBackups_def assms by (rule newest_filter)

text \<open>
  Pruning keeps the newest backups. When the directory can be read and files can be removed, pruning
  leaves exactly the newest snapshots of the backup directory, as many as the retention count or all there
  are, and it touches no file that is not a snapshot.
\<close>

theorem backups_keep_newest:
  assumes "distinct (mtFiles s)" and "meFail env (mtTick s) = None" and "\<forall>n p. meRemove env n p = None"
  shows "ListBackups bm (exec (Prune_backups env bm) s) = take (bmRetentionCount bm) (ListBackups bm s) \<and>
    set (mtFiles s) - set (mtFiles (exec (Prune_backups env bm) s)) \<subseteq> set (ListBackups bm s)"
proof -
  let ?B = "ListBackups bm s" and ?n = "bmRetentionCount bm"
  have files: "mtFiles (exec (Prune_backups env bm) s) = filter (\<lambda>f. f \<notin> set (drop ?n ?B)) (mtFiles s)"
    using assms(2,3) by (rule Prune_backups_files)
  have "distinct ?B" using assms(1) by (simp add: ListBackups_def)
  then have "ListBackups bm (exec (Prune_backups env bm) s) = take ?n ?B"
    using ListBackups_kept [OF files] filter_not_drop by simp
  then show ?thesis using files set_drop_subset by fastforce
qed

section \<open>Witnesses\<close>

definition ex_maint_env :: maintenance_env where
  "ex_maint_env = \<lparr>meFail = (\<lambda>n. None), meRemove = (\<lambda>n p. None), meNow = (\<lambda>n. 100 * Day)\<rparr>"

definition ex_maint :: maintenance where
  "ex_maint = \<lparr>mtJobs = [\<lparr>jhID = 1, jhCompletedAt = Some (69 * Day), jhCreatedAt = 69 * Day, jhLogPath = Some ''/d/logs/1''\<rparr>,
       \<lparr>jhID = 2, jhCompletedAt = Some (70 * Day), jhCreatedAt = 60 * Day, jhLogPath = Some ''/d/logs/2''\<rparr>],
     mtSettings = [], mtFiles = [''/d/backups/supervisor-1.db'', ''/d/logs/1'', ''/d/logs/2'', ''/d/backups/supervisor-2.db''],
     mtTick = 0\<rparr>"

theorem retention_exact_witness:
  "map jhID (mtJobs (exec (PruneJobHistory ex_maint_env 16) ex_maint)) = [2] \<and>
   set (mtFiles ex_maint) - set (mtFiles (exec (PruneJobHistory ex_maint_env 16) ex_maint)) \<subseteq> {''/d/logs/1''}"
proof -
  let ?old = "expired (meNow ex_maint_env (mtTick ex_maint + 2) -
      setting_at ex_maint_env (Suc (mtTick ex_maint)) ex_maint ''job_retention_days'' 30 * Day)"
  have "setting_at ex_maint_env n ex_maint key d = d" for n key d by (simp add: setting_at_def ex_maint_def ex_maint_env_def)
  then have old: "filter ?old (mtJobs ex_maint) = [mtJobs ex_maint ! 0]" "filter (\<lambda>r. \<not> ?old r) (mtJobs ex_maint) = [mtJobs ex_maint ! 1]"
    and load: "\<not> high_load 16 (setting_at ex_maint_env (mtTick ex_maint) ex_maint ''total_allowed_runners'' 20)"
    by (simp_all add: ex_maint_def ex_maint_env_def expired_def Day_def Minute_def Second_def high_load_exact)
  have "\<not> isl (fst (run_state (PruneJobHistory ex_maint_env 16) ex_maint))"
    by (simp add: PruneJobHistory_def run_simps Let_def ex_maint_env_def split: prod.split)
  then obtain res where "fst (run_state (PruneJobHistory ex_maint_env 16) ex_maint) = Inr res"
    by (cases "fst (run_state (PruneJobHistory ex_maint_env 16) ex_maint)") auto
  then have "run_state (PruneJobHistory ex_maint_env 16) ex_maint = (Inr res, exec (PruneJobHistory ex_maint_env 16) ex_maint)"
    by (simp add: exec_def prod_eq_iff)
  note cycle = retention_exact [OF this refl refl refl]
  have "logs_of [mtJobs ex_maint ! 0] = {''/d/logs/1''}" "jhID (mtJobs ex_maint ! 1) = 2"
    by (auto simp: logs_of_def ex_maint_def)
  with cycle [unfolded old] load show ?thesis by simp
qed

theorem backups_keep_newest_witness:
  "ListBackups (NewBackupManager ''/d'' 0 1) (exec (Prune_backups ex_maint_env (NewBackupManager ''/d'' 0 1)) ex_maint) =
    [''/d/backups/supervisor-2.db'']"
proof -
  have "distinct (mtFiles ex_maint)" "meFail ex_maint_env (mtTick ex_maint) = None" "\<forall>n p. meRemove ex_maint_env n p = None" by (simp_all add: ex_maint_def ex_maint_env_def)
  moreover have "take (bmRetentionCount (NewBackupManager ''/d'' 0 1)) (ListBackups (NewBackupManager ''/d'' 0 1) ex_maint) =
    [''/d/backups/supervisor-2.db'']"
    by (simp add: ListBackups_def NewBackupManager_def ex_maint_def is_backup_def Let_def go_simps less_eq_char_def)
  ultimately show ?thesis using backups_keep_newest [of ex_maint ex_maint_env "NewBackupManager ''/d'' 0 1"] by simp
qed

end
