(* ===== verification/Go_Aead.thy ===== *)
theory Go_Aead
  imports Go_Crypto
begin

unbundle bit_operations_syntax

text \<open>
  The primitives of \<open>crypto/aes\<close>, \<open>crypto/cipher\<close>, \<open>crypto/hkdf\<close> and \<open>encoding/base64\<close> that protect
  credentials: AES-256 (FIPS 197), its Galois/Counter mode with 96-bit nonces and no associated data
  (SP 800-38D), HKDF on SHA-256 (RFC 5869) and base64 (RFC 4648). Byte strings are lists of characters.
\<close>

section \<open>AES-256\<close>

type_synonym w8 = "8 word"
type_synonym block = "128 word"

definition sbox :: "w8 list" where
  "sbox = [
   0x63, 0x7c, 0x77, 0x7b, 0xf2, 0x6b, 0x6f, 0xc5, 0x30, 0x01, 0x67, 0x2b, 0xfe, 0xd7, 0xab, 0x76,
   0xca, 0x82, 0xc9, 0x7d, 0xfa, 0x59, 0x47, 0xf0, 0xad, 0xd4, 0xa2, 0xaf, 0x9c, 0xa4, 0x72, 0xc0,
   0xb7, 0xfd, 0x93, 0x26, 0x36, 0x3f, 0xf7, 0xcc, 0x34, 0xa5, 0xe5, 0xf1, 0x71, 0xd8, 0x31, 0x15,
   0x04, 0xc7, 0x23, 0xc3, 0x18, 0x96, 0x05, 0x9a, 0x07, 0x12, 0x80, 0xe2, 0xeb, 0x27, 0xb2, 0x75,
   0x09, 0x83, 0x2c, 0x1a, 0x1b, 0x6e, 0x5a, 0xa0, 0x52, 0x3b, 0xd6, 0xb3, 0x29, 0xe3, 0x2f, 0x84,
   0x53, 0xd1, 0x00, 0xed, 0x20, 0xfc, 0xb1, 0x5b, 0x6a, 0xcb, 0xbe, 0x39, 0x4a, 0x4c, 0x58, 0xcf,
   0xd0, 0xef, 0xaa, 0xfb, 0x43, 0x4d, 0x33, 0x85, 0x45, 0xf9, 0x02, 0x7f, 0x50, 0x3c, 0x9f, 0xa8,
   0x51, 0xa3, 0x40, 0x8f, 0x92, 0x9d, 0x38, 0xf5, 0xbc, 0xb6, 0xda, 0x21, 0x10, 0xff, 0xf3, 0xd2,
   0xcd, 0x0c, 0x13, 0xec, 0x5f, 0x97, 0x44, 0x17, 0xc4, 0xa7, 0x7e, 0x3d, 0x64, 0x5d, 0x19, 0x73,
   0x60, 0x81, 0x4f, 0xdc, 0x22, 0x2a, 0x90, 0x88, 0x46, 0xee, 0xb8, 0x14, 0xde, 0x5e, 0x0b, 0xdb,
   0xe0, 0x32, 0x3a, 0x0a, 0x49, 0x06, 0x24, 0x5c, 0xc2, 0xd3, 0xac, 0x62, 0x91, 0x95, 0xe4, 0x79,
   0xe7, 0xc8, 0x37, 0x6d, 0x8d, 0xd5, 0x4e, 0xa9, 0x6c, 0x56, 0xf4, 0xea, 0x65, 0x7a, 0xae, 0x08,
   0xba, 0x78, 0x25, 0x2e, 0x1c, 0xa6, 0xb4, 0xc6, 0xe8, 0xdd, 0x74, 0x1f, 0x4b, 0xbd, 0x8b, 0x8a,
   0x70, 0x3e, 0xb5, 0x66, 0x48, 0x03, 0xf6, 0x0e, 0x61, 0x35, 0x57, 0xb9, 0x86, 0xc1, 0x1d, 0x9e,
   0xe1, 0xf8, 0x98, 0x11, 0x69, 0xd9, 0x8e, 0x94, 0x9b, 0x1e, 0x87, 0xe9, 0xce, 0x55, 0x28, 0xdf,
   0x8c, 0xa1, 0x89, 0x0d, 0xbf, 0xe6, 0x42, 0x68, 0x41, 0x99, 0x2d, 0x0f, 0xb0, 0x54, 0xbb, 0x16]"

definition sub_byte :: "w8 \<Rightarrow> w8" where "sub_byte b = sbox ! unat b"

definition xtime :: "w8 \<Rightarrow> w8" where
  "xtime b = push_bit 1 b XOR (if bit b 7 then 0x1b else 0)"

text \<open>The state is the list of its sixteen bytes, column by column.\<close>

definition shift_rows :: "w8 list \<Rightarrow> w8 list" where
  "shift_rows s = map (\<lambda>i. s ! i) [0, 5, 10, 15, 4, 9, 14, 3, 8, 13, 2, 7, 12, 1, 6, 11]"

fun mix_columns :: "w8 list \<Rightarrow> w8 list" where
  "mix_columns (a # b # c # d # s) =
     (xtime a XOR xtime b XOR b XOR c XOR d) # (a XOR xtime b XOR xtime c XOR c XOR d) #
     (a XOR b XOR xtime c XOR xtime d XOR d) # (xtime a XOR a XOR b XOR c XOR xtime d) # mix_columns s"
| "mix_columns s = s"

definition add_key :: "w8 list \<Rightarrow> w8 list \<Rightarrow> w8 list" where "add_key k s = map2 (XOR) k s"

text \<open>The key schedule, on the eight latest words of four bytes; \<open>n\<close> words are still to be made.\<close>

definition next_word :: "nat \<Rightarrow> w8 list list \<Rightarrow> w8 list" where
  "next_word i ws =
     (let t = ws ! 7;
          t' = (if i mod 8 = 0 then (case map sub_byte (rotate1 t) of [] \<Rightarrow> [] | b # bs \<Rightarrow> (b XOR push_bit (i div 8 - 1) 1) # bs)
                else if i mod 8 = 4 then map sub_byte t else t)
      in map2 (XOR) (ws ! 0) t')"

fun key_words :: "nat \<Rightarrow> nat \<Rightarrow> w8 list list \<Rightarrow> w8 list list" where
  "key_words 0 i ws = ws"
| "key_words (Suc n) i ws = hd ws # key_words n (Suc i) (tl ws @ [next_word i ws])"

definition round_keys :: "string \<Rightarrow> w8 list list" where
  "round_keys key =
     map concat (groups 15 4 (key_words 52 8 (groups 8 4 (map (\<lambda>c. word_of_nat (byte c)) key))))"

definition aes_state :: "string \<Rightarrow> w8 list \<Rightarrow> w8 list" where
  "aes_state key s =
     (let ks = round_keys key;
          middle = fold (\<lambda>k s. add_key k (mix_columns (shift_rows (map sub_byte s)))) (butlast (tl ks)) (add_key (hd ks) s)
      in add_key (last ks) (shift_rows (map sub_byte middle)))"

definition block_bytes :: "block \<Rightarrow> string" where
  "block_bytes w = map (\<lambda>k. char_of (unat (drop_bit (120 - 8 * k) w) mod 256)) [0..<16]"

definition be_block :: "w8 list \<Rightarrow> block" where
  "be_block bs = fold (\<lambda>b w. push_bit 8 w OR ucast b) bs 0"

definition aes256 :: "string \<Rightarrow> block \<Rightarrow> block" where
  "aes256 key w = be_block (aes_state key (map (\<lambda>c. word_of_nat (byte c)) (block_bytes w)))"

section \<open>Galois/Counter mode\<close>

text \<open>Multiplication in the field of GHASH; the first bit of a block is its most significant one.\<close>

fun gf_loop :: "nat \<Rightarrow> block \<Rightarrow> block \<Rightarrow> block \<Rightarrow> block" where
  "gf_loop 0 x v z = z"
| "gf_loop (Suc i) x v z =
     gf_loop i x (drop_bit 1 v XOR (if bit v 0 then push_bit 120 0xe1 else 0)) (if bit x i then z XOR v else z)"

definition gf_mult :: "block \<Rightarrow> block \<Rightarrow> block" where "gf_mult x y = gf_loop 128 x y 0"

definition byte_block :: "string \<Rightarrow> block" where
  "byte_block s = be_block (map (\<lambda>c. word_of_nat (byte c)) (s @ replicate (16 - length s) (char_of (0 :: nat))))"

definition blocks_of :: "string \<Rightarrow> block list" where
  "blocks_of s = map byte_block (groups ((length s + 15) div 16) 16 s)"

definition ghash :: "block \<Rightarrow> string \<Rightarrow> block" where
  "ghash h c = fold (\<lambda>b y. gf_mult (y XOR b) h) (blocks_of c @ [word_of_nat (8 * length c mod 2 ^ 64)]) 0"

definition counter :: "string \<Rightarrow> nat \<Rightarrow> block" where
  "counter nonce n = push_bit 32 (be_block (map (\<lambda>c. word_of_nat (byte c)) nonce)) OR word_of_nat (n mod 2 ^ 32)"

definition key_stream :: "string \<Rightarrow> string \<Rightarrow> nat \<Rightarrow> string" where
  "key_stream key nonce n =
     concat (map (\<lambda>i. block_bytes (aes256 key (counter nonce (i + 2)))) [0..<(n + 15) div 16])"

definition xor_char :: "char \<Rightarrow> char \<Rightarrow> char" where
  "xor_char a b = char_of (byte a XOR byte b)"

definition gcm_xor :: "string \<Rightarrow> string \<Rightarrow> string \<Rightarrow> string" where
  "gcm_xor key nonce s = map2 xor_char s (key_stream key nonce (length s))"

definition gcm_tag :: "string \<Rightarrow> string \<Rightarrow> string \<Rightarrow> string" where
  "gcm_tag key nonce c = block_bytes (aes256 key (counter nonce 1) XOR ghash (aes256 key 0) c)"

definition NonceSize :: nat where "NonceSize = 12"
definition Overhead :: nat where "Overhead = 16"

definition Seal :: "string \<Rightarrow> string \<Rightarrow> string \<Rightarrow> string" where
  "Seal key nonce plaintext = (let c = gcm_xor key nonce plaintext in c @ gcm_tag key nonce c)"

definition Open :: "string \<Rightarrow> string \<Rightarrow> string \<Rightarrow> string option" where
  "Open key nonce ciphertext =
     (if length ciphertext < Overhead then None
      else let n = length ciphertext - Overhead; c = take n ciphertext
           in if drop n ciphertext = gcm_tag key nonce c then Some (gcm_xor key nonce c) else None)"

text \<open>Decryption accepts exactly what encryption under that key and nonce produces.\<close>

lemma length_block_bytes [simp]: "length (block_bytes w) = 16" by (simp add: block_bytes_def)

lemma length_key_stream: "n \<le> length (key_stream key nonce n)"
proof -
  have "length (concat (map (\<lambda>i. block_bytes (f i)) xs)) = 16 * length xs" for f and xs :: "nat list"
    by (induction xs) auto
  then show ?thesis by (simp add: key_stream_def)
qed

lemma length_gcm_xor [simp]: "length (gcm_xor key nonce s) = length s"
  using length_key_stream by (simp add: gcm_xor_def)

lemma xor_char_cancel [simp]: "xor_char (xor_char a b) b = a"
proof -
  have "byte a XOR byte b < 256"
    using take_bit_nat_eq_self_iff [of 8 "byte a XOR byte b"] by (simp add: take_bit_xor take_bit_nat_eq_self)
  then have "byte (xor_char a b) = byte a XOR byte b" by (simp add: xor_char_def of_char_of)
  then show ?thesis by (simp add: xor_char_def xor.assoc)
qed

lemma map2_cancel:
  "(\<And>a b. f (f a b) b = a) \<Longrightarrow> length xs \<le> length ys \<Longrightarrow> map2 f (map2 f xs ys) ys = xs"
proof (induction xs arbitrary: ys)
  case (Cons x xs)
  then show ?case by (cases ys) auto
qed simp

lemma gcm_xor_cancel [simp]: "gcm_xor key nonce (gcm_xor key nonce s) = s"
proof -
  have "gcm_xor key nonce (gcm_xor key nonce s) =
      map2 xor_char (map2 xor_char s (key_stream key nonce (length s))) (key_stream key nonce (length s))"
    using length_gcm_xor [of key nonce s] unfolding gcm_xor_def by simp
  also have "\<dots> = s" using length_key_stream by (intro map2_cancel) simp_all
  finally show ?thesis .
qed

lemma Open_iff: "Open key nonce x = Some p \<longleftrightarrow> x = Seal key nonce p"
proof
  assume "Open key nonce x = Some p"
  then have len: "16 \<le> length x" and t: "drop (length x - 16) x = gcm_tag key nonce (take (length x - 16) x)"
    and p: "p = gcm_xor key nonce (take (length x - 16) x)"
    by (auto simp: Open_def Let_def Overhead_def split: if_splits)
  have "Seal key nonce p = take (length x - 16) x @ gcm_tag key nonce (take (length x - 16) x)"
    unfolding Seal_def p by (simp add: Let_def)
  then show "x = Seal key nonce p" by (metis t append_take_drop_id)
next
  assume "x = Seal key nonce p"
  then show "Open key nonce x = Some p" by (simp add: Seal_def Open_def Let_def Overhead_def gcm_tag_def)
qed

section \<open>HKDF\<close>

text \<open>\<open>hkdf.Key(sha256.New, secret, nil, info, n)\<close> for \<open>n\<close> up to 255 blocks.\<close>

fun hkdf_blocks :: "nat \<Rightarrow> nat \<Rightarrow> string \<Rightarrow> string \<Rightarrow> string \<Rightarrow> string" where
  "hkdf_blocks 0 i prk info prev = []"
| "hkdf_blocks (Suc k) i prk info prev =
     (let t = hmac_sha256 prk (prev @ info @ [char_of i]) in t @ hkdf_blocks k (Suc i) prk info t)"

definition hkdf_key :: "string \<Rightarrow> string \<Rightarrow> nat \<Rightarrow> string option" where
  "hkdf_key secret info n =
     (if n > 255 * 32 then None
      else Some (take n (hkdf_blocks ((n + 31) div 32) 1 (hmac_sha256 (replicate 32 (char_of (0 :: nat))) secret) info [])))"

lemma length_hmac [simp]: "length (hmac_sha256 k m) = 32"
  by (simp add: hmac_sha256_def Let_def length_sha256)

lemma length_hkdf_blocks: "length (hkdf_blocks k i prk info prev) = 32 * k"
  by (induction k i prk info prev rule: hkdf_blocks.induct) (simp_all add: Let_def)

lemma length_hkdf_key: "hkdf_key secret info n = Some k \<Longrightarrow> length k = n"
  by (auto simp: hkdf_key_def length_hkdf_blocks split: if_splits)

section \<open>Base64\<close>

text \<open>\<open>base64.StdEncoding\<close>: line breaks are skipped and padding is required; surplus bits are not checked.\<close>

definition b64_char :: "nat \<Rightarrow> char" where
  "b64_char n = char_of (if n < 26 then 65 + n else if n < 52 then 71 + n else if n < 62 then n - 4 else if n = 62 then 43 else 47)"

definition b64_val :: "char \<Rightarrow> nat option" where
  "b64_val c = (let b = byte c in
     if 65 \<le> b \<and> b \<le> 90 then Some (b - 65) else if 97 \<le> b \<and> b \<le> 122 then Some (b - 71)
     else if 48 \<le> b \<and> b \<le> 57 then Some (b + 4) else if b = 43 then Some 62 else if b = 47 then Some 63 else None)"

definition sextets :: "nat \<Rightarrow> string" where
  "sextets n = map b64_char [n div 262144 mod 64, n div 4096 mod 64, n div 64 mod 64, n mod 64]"

definition octets :: "nat \<Rightarrow> string" where
  "octets n = map char_of [n div 65536 mod 256, n div 256 mod 256, n mod 256]"

fun b64_encode :: "string \<Rightarrow> string" where
  "b64_encode (a # b # c # s) = sextets (byte a * 65536 + byte b * 256 + byte c) @ b64_encode s"
| "b64_encode [a, b] = take 3 (sextets (byte a * 65536 + byte b * 256)) @ ''=''"
| "b64_encode [a] = take 2 (sextets (byte a * 65536)) @ ''==''"
| "b64_encode [] = []"

definition quantum :: "char list \<Rightarrow> nat option" where
  "quantum cs = fold (\<lambda>c acc. case (acc, b64_val c) of (Some n, Some v) \<Rightarrow> Some (64 * n + v) | _ \<Rightarrow> None) cs (Some 0)"

fun b64_quanta :: "string \<Rightarrow> string option" where
  "b64_quanta [] = Some []"
| "b64_quanta (a # b # c # d # s) =
     (if c = CHR ''='' then
        (if d = CHR ''='' \<and> s = [] then map_option (\<lambda>n. take 1 (octets (4096 * n))) (quantum [a, b]) else None)
      else if d = CHR ''='' then
        (if s = [] then map_option (\<lambda>n. take 2 (octets (64 * n))) (quantum [a, b, c]) else None)
      else (case (quantum [a, b, c, d], b64_quanta s) of (Some n, Some t) \<Rightarrow> Some (octets n @ t) | _ \<Rightarrow> None))"
| "b64_quanta _ = None"

definition b64_decode :: "string \<Rightarrow> string option" where
  "b64_decode s = b64_quanta (filter (\<lambda>c. byte c \<noteq> 10 \<and> byte c \<noteq> 13) s)"

lemma byte_b64_char: "n < 64 \<Longrightarrow> byte (b64_char n) =
  (if n < 26 then 65 + n else if n < 52 then 71 + n else if n < 62 then n - 4 else if n = 62 then 43 else 47)"
  by (simp add: b64_char_def of_char_of)

lemma b64_val_char [simp]: "n < 64 \<Longrightarrow> b64_val (b64_char n) = Some n"
  by (auto simp: b64_val_def byte_b64_char Let_def)

lemma b64_char_plain [simp]:
  assumes "n < 64" shows "b64_char n \<noteq> CHR ''=''" "byte (b64_char n) \<noteq> 10" "byte (b64_char n) \<noteq> 13"
proof -
  have b: "byte (b64_char n) \<noteq> 61" "byte (b64_char n) \<noteq> 10" "byte (b64_char n) \<noteq> 13"
    using assms by (auto simp: byte_b64_char)
  then show "byte (b64_char n) \<noteq> 10" "byte (b64_char n) \<noteq> 13" by simp_all
  from b(1) show "b64_char n \<noteq> CHR ''=''" by auto
qed

lemma last_digit: "y < 256 \<Longrightarrow> (256 * x + y) mod 256 = y \<and> (256 * x + y) div 256 = (x :: nat)"
  by simp

lemma octets_join: "octets (byte a * 65536 + byte b * 256 + byte c) = [a, b, c]"
proof -
  let ?n = "byte a * 65536 + byte b * 256 + byte c"
  have "?n mod 256 = byte c \<and> ?n div 256 = 256 * byte a + byte b"
    using last_digit [of "byte c" "256 * byte a + byte b"] by (simp add: mult.commute)
  moreover have "(256 * byte a + byte b) mod 256 = byte b \<and> (256 * byte a + byte b) div 256 = byte a"
    using last_digit [of "byte b" "byte a"] by simp
  moreover have "?n div 65536 = ?n div 256 div 256" by (simp add: div_mult2_eq [symmetric])
  ultimately show ?thesis by (simp add: octets_def)
qed

lemma digit64: "64 * (n div (64 * k)) + n div k mod 64 = n div (k :: nat)"
  by (simp add: div_mult2_eq mult.commute [of 64 k])

lemma split64:
  assumes "n < 16777216"
  shows "64 * (n div 262144 mod 64) + n div 4096 mod 64 = (n :: nat) div 4096"
    "64 * (n div 4096) + n div 64 mod 64 = n div 64" "64 * (n div 64) + n mod 64 = n"
proof -
  have "n div 262144 < 64" using assms by (simp add: less_mult_imp_div_less)
  then show "64 * (n div 262144 mod 64) + n div 4096 mod 64 = n div 4096" using digit64 [of n 4096] by simp
  show "64 * (n div 4096) + n div 64 mod 64 = n div 64" "64 * (n div 64) + n mod 64 = n"
    using digit64 [of n 64] digit64 [of n 1] by simp_all
qed

lemma quantum_sextets:
  assumes "n < 16777216"
  shows "quantum (take 2 (sextets n)) = Some (n div 4096)" "quantum (take 3 (sextets n)) = Some (n div 64)"
    "quantum (sextets n) = Some n"
  using split64 [OF assms] by (simp_all add: quantum_def sextets_def)

lemma sextets_eq: "sextets n = [b64_char (n div 262144 mod 64), b64_char (n div 4096 mod 64), b64_char (n div 64 mod 64), b64_char (n mod 64)]"
  by (simp add: sextets_def)

lemma b64_quanta_encode: "b64_quanta (b64_encode s) = Some s"
proof (induction s rule: b64_encode.induct)
  case (1 a b c s)
  let ?n = "byte a * 65536 + byte b * 256 + byte c"
  have "byte a < 256" "byte b < 256" "byte c < 256" by simp_all
  then have "?n < 16777216" by linarith
  from quantum_sextets(3) [OF this] 1 octets_join [of a b c] show ?case by (simp add: sextets_eq)
next
  case (2 a b)
  let ?n = "byte a * 65536 + byte b * 256"
  have "byte a < 256" "byte b < 256" by simp_all
  then have "?n < 16777216" by linarith
  moreover have "64 * (?n div 64) = ?n" by simp
  ultimately show ?case using quantum_sextets(2) [of ?n] octets_join [of a b "char_of (0 :: nat)"]
    by (simp add: sextets_eq mult.commute)
next
  case (3 a)
  let ?n = "byte a * 65536"
  have "byte a < 256" by simp
  then have "?n < 16777216" by linarith
  moreover have "4096 * (?n div 4096) = ?n" by simp
  ultimately show ?case
    using quantum_sextets(1) [of ?n] octets_join [of a "char_of (0 :: nat)" "char_of (0 :: nat)"]
    by (simp add: sextets_eq mult.commute)
qed simp

lemma b64_encode_plain: "filter (\<lambda>c. byte c \<noteq> 10 \<and> byte c \<noteq> 13) (b64_encode s) = b64_encode s"
  by (induction s rule: b64_encode.induct) (auto simp: sextets_def)

lemma b64_roundtrip [simp]: "b64_decode (b64_encode s) = Some s"
  by (simp add: b64_decode_def b64_encode_plain b64_quanta_encode)

end
