(* ===== verification/Credentials.thy ===== *)
theory Credentials
  imports Go_Aead
begin

text \<open>
  \<open>src/internal/keys/keys.go\<close> and the encryption of \<open>src/internal/db/crypto.go\<close>: the secrets derived from the
  master key, and credentials encrypted with one of them. The random nonce is an argument, \<open>Inl\<close> when the
  system's source of randomness fails. Logging is left out.
\<close>

section \<open>Derived keys\<close>

definition LabelDBEncryption :: string where "LabelDBEncryption = ''gh-runner/supervisor/db-encryption/aes-256/v1''"
definition LabelJWTSigning :: string where "LabelJWTSigning = ''gh-runner/supervisor/jwt-signing/hmac-sha256/v1''"
definition DBEncryptionKeySize :: nat where "DBEncryptionKeySize = 32"
definition JWTSigningKeySize :: nat where "JWTSigningKeySize = 32"
definition MinMasterKeyBytes :: nat where "MinMasterKeyBytes = 32"

record Derived =
  dvDBEncryptionKey :: string
  dvJWTSigningSecret :: string

datatype derive_error = WeakMasterKey nat | DerivingDBKey | DerivingJWTSecret

definition derive :: "string \<Rightarrow> string \<Rightarrow> nat \<Rightarrow> string option" where
  "derive ikm label n = hkdf_key ikm label n"

definition Derive :: "string \<Rightarrow> derive_error + Derived" where
  "Derive masterKey =
     (if length masterKey < MinMasterKeyBytes then Inl (WeakMasterKey (length masterKey))
      else case derive masterKey LabelDBEncryption DBEncryptionKeySize of
             None \<Rightarrow> Inl DerivingDBKey
           | Some dbKey \<Rightarrow> (case derive masterKey LabelJWTSigning JWTSigningKeySize of
               None \<Rightarrow> Inl DerivingJWTSecret
             | Some jwtSecret \<Rightarrow> Inr \<lparr>dvDBEncryptionKey = dbKey, dvJWTSigningSecret = jwtSecret\<rparr>))"

section \<open>Encryption\<close>

datatype crypto_error = ErrInvalidKey nat | ErrInvalidCiphertext | ErrAuthenticationFailed | GeneratingNonce string

text \<open>An encryptor holds its key; \<open>NewEncryptor\<close> is the only place that makes one, so that the key has 32 bytes.\<close>

record Encryptor =
  encKey :: string

definition NewEncryptor :: "string \<Rightarrow> crypto_error + Encryptor" where
  "NewEncryptor key = (if length key \<noteq> 32 then Inl (ErrInvalidKey (length key)) else Inr \<lparr>encKey = key\<rparr>)"

definition Encrypt :: "Encryptor \<Rightarrow> string + string \<Rightarrow> string \<Rightarrow> crypto_error + string" where
  "Encrypt e rand plaintext =
     (if plaintext = [] then Inr []
      else case rand of
             Inl err \<Rightarrow> Inl (GeneratingNonce err)
           | Inr nonce \<Rightarrow> Inr (b64_encode (nonce @ Seal (encKey e) nonce plaintext)))"

definition Decrypt :: "Encryptor \<Rightarrow> string \<Rightarrow> crypto_error + string" where
  "Decrypt e encoded =
     (if encoded = [] then Inr []
      else case b64_decode encoded of
             None \<Rightarrow> Inl ErrInvalidCiphertext
           | Some data \<Rightarrow>
               if length data < NonceSize + Overhead then Inl ErrInvalidCiphertext
               else (case Open (encKey e) (take NonceSize data) (drop NonceSize data) of
                       None \<Rightarrow> Inl ErrAuthenticationFailed
                     | Some plaintext \<Rightarrow> Inr plaintext))"

text \<open>Nullable columns: a \<open>sql.NullString\<close> is an option.\<close>

definition EncryptNullString :: "Encryptor \<Rightarrow> string + string \<Rightarrow> string option \<Rightarrow> crypto_error + string option" where
  "EncryptNullString e rand ns =
     (case ns of
        None \<Rightarrow> Inr None
      | Some s \<Rightarrow> if s = [] then Inr None
                  else (case Encrypt e rand s of Inl err \<Rightarrow> Inl err | Inr c \<Rightarrow> Inr (Some c)))"

definition DecryptNullString :: "Encryptor \<Rightarrow> string option \<Rightarrow> crypto_error + string option" where
  "DecryptNullString e ns =
     (case ns of
        None \<Rightarrow> Inr None
      | Some s \<Rightarrow> if s = [] then Inr None
                  else (case Decrypt e s of Inl err \<Rightarrow> Inl err | Inr p \<Rightarrow> Inr (Some p)))"

section \<open>Properties\<close>

lemma length_derive: "derive ikm label n = Some k \<Longrightarrow> length k = n"
  by (simp add: derive_def length_hkdf_key)

lemma Derive_total: "32 \<le> length masterKey \<Longrightarrow> \<exists>d. Derive masterKey = Inr d"
  by (simp add: Derive_def derive_def hkdf_key_def MinMasterKeyBytes_def DBEncryptionKeySize_def JWTSigningKeySize_def)

lemma Derive_sizes: "Derive masterKey = Inr d \<Longrightarrow> length (dvDBEncryptionKey d) = 32 \<and> length (dvJWTSigningSecret d) = 32"
  by (auto simp: Derive_def DBEncryptionKeySize_def JWTSigningKeySize_def dest!: length_derive split: if_splits option.splits)

lemma b64_encode_Nil_iff [simp]: "b64_encode s = [] \<longleftrightarrow> s = []"
  by (cases s rule: b64_encode.cases) (simp_all add: sextets_def)

lemma length_Seal [simp]: "length (Seal key nonce p) = length p + 16"
  by (simp add: Seal_def Let_def gcm_tag_def)

lemma Decrypt_sealed:
  "length nonce = 12 \<Longrightarrow> b64_decode s = Some (nonce @ Seal (encKey e) nonce p) \<Longrightarrow> s \<noteq> [] \<Longrightarrow> Decrypt e s = Inr p"
  using Open_iff [of "encKey e" nonce "Seal (encKey e) nonce p" p]
  by (simp add: Decrypt_def NonceSize_def Overhead_def)

lemma Decrypt_Encrypt:
  assumes "Encrypt e (Inr nonce) p = Inr c" and "length nonce = 12"
  shows "Decrypt e c = Inr p"
proof (cases "p = []")
  case True
  then show ?thesis using assms(1) by (simp add: Encrypt_def Decrypt_def)
next
  case False
  with assms(1) have c: "c = b64_encode (nonce @ Seal (encKey e) nonce p)" by (simp add: Encrypt_def)
  moreover have "Seal (encKey e) nonce p \<noteq> []" using length_Seal [of "encKey e" nonce p] by force
  ultimately show ?thesis using assms(2) by (intro Decrypt_sealed) simp_all
qed

lemma null_string_roundtrip:
  assumes "length nonce = 12"
  shows "\<exists>c. EncryptNullString e (Inr nonce) ns = Inr c \<and>
    DecryptNullString e c = Inr (if ns = Some [] then None else ns) \<and> (c = None \<longleftrightarrow> ns = None \<or> ns = Some [])"
proof (cases "ns = None \<or> ns = Some []")
  case True
  then show ?thesis by (auto simp: EncryptNullString_def DecryptNullString_def)
next
  case False
  then obtain p where p: "ns = Some p" "p \<noteq> []" by (cases ns) auto
  moreover have "nonce \<noteq> []" using assms by auto
  ultimately obtain c where "Encrypt e (Inr nonce) p = Inr c" "c \<noteq> []" by (simp add: Encrypt_def)
  moreover from this(1) assms have "Decrypt e c = Inr p" by (rule Decrypt_Encrypt)
  ultimately show ?thesis using p by (simp add: EncryptNullString_def DecryptNullString_def)
qed

text \<open>
  C26. Credentials survive encryption. A master key of at least 32 bytes, and no shorter one, yields a key
  that the encryptor accepts; under it, whenever the source of nonces answers, every credential is
  encrypted and decrypted to itself, an empty or missing one stays missing, and a credential that is there
  is never stored as a missing one.
\<close>

theorem credentials_roundtrip:
  assumes "length nonce = 12"
  shows "if length masterKey < 32 then Derive masterKey = Inl (WeakMasterKey (length masterKey))
    else \<exists>d e c. Derive masterKey = Inr d \<and> NewEncryptor (dvDBEncryptionKey d) = Inr e \<and>
      EncryptNullString e (Inr nonce) ns = Inr c \<and>
      DecryptNullString e c = Inr (if ns = Some [] then None else ns) \<and> (c = None \<longleftrightarrow> ns = None \<or> ns = Some [])"
proof (cases "length masterKey < 32")
  case True
  then show ?thesis by (simp add: Derive_def MinMasterKeyBytes_def)
next
  case False
  then obtain d where d: "Derive masterKey = Inr d" using Derive_total [of masterKey] by auto
  define e where "e = \<lparr>encKey = dvDBEncryptionKey d\<rparr>"
  have "NewEncryptor (dvDBEncryptionKey d) = Inr e" using Derive_sizes [OF d] by (simp add: NewEncryptor_def e_def)
  with False d show ?thesis using null_string_roundtrip [OF assms, of e ns] by auto
qed

text \<open>
  C27. Decryption accepts exactly encryptions. A stored value decrypts to a plaintext exactly when it is empty
  and so is the plaintext, or when it decodes to some nonce followed by the sealing of that plaintext under
  this key and nonce, tag included; every other value is refused. So a changed byte of the nonce, the
  ciphertext or the tag is accepted only when the change is itself an encryption under the same key.
\<close>

theorem Decrypt_exact:
  "Decrypt e s = Inr p \<longleftrightarrow> (s = [] \<and> p = []) \<or>
    (s \<noteq> [] \<and> (\<exists>nonce. length nonce = 12 \<and> b64_decode s = Some (nonce @ Seal (encKey e) nonce p)))"
proof (cases "s = []")
  case True
  then show ?thesis by (auto simp: Decrypt_def)
next
  case False
  have "\<exists>nonce. length nonce = 12 \<and> b64_decode s = Some (nonce @ Seal (encKey e) nonce p)" if ok: "Decrypt e s = Inr p"
  proof -
    from ok False obtain data where data: "b64_decode s = Some data" "28 \<le> length data"
        "Open (encKey e) (take 12 data) (drop 12 data) = Some p"
      by (auto simp: Decrypt_def NonceSize_def Overhead_def split: option.splits if_splits)
    then have "drop 12 data = Seal (encKey e) (take 12 data) p" by (simp add: Open_iff)
    then have "data = take 12 data @ Seal (encKey e) (take 12 data) p" by (metis append_take_drop_id)
    with data show ?thesis by (intro exI [of _ "take 12 data"]) simp
  qed
  with False Decrypt_sealed show ?thesis by blast
qed

theorem credentials_roundtrip_witness:
  "\<exists>d e c. Derive (replicate 32 CHR ''k'') = Inr d \<and> NewEncryptor (dvDBEncryptionKey d) = Inr e \<and>
     EncryptNullString e (Inr (replicate 12 CHR ''n'')) (Some ''token'') = Inr c \<and> c \<noteq> None \<and>
     DecryptNullString e c = Inr (Some ''token'')"
  using credentials_roundtrip [of "replicate 12 CHR ''n''" "replicate 32 CHR ''k''" "Some ''token''"] by auto

end
