(* ===== verification/Profiles.thy ===== *)
theory Profiles
  imports Pool_Service Credentials
begin

text \<open>
  Authentication profiles and application settings: the queries of \<open>src/internal/db/auth_profiles.sql.go\<close> and
  \<open>app_settings.sql.go\<close>, the encrypting helpers of \<open>src/internal/db/crypto.go\<close>, and the services
  \<open>src/internal/server/auth_profile.go\<close> and \<open>onboarding.go\<close>, over the tables of pools. Each statement may fail,
  and each encryption draws its own nonce, asked with the number of the call. Timestamps of rows are left
  out.
\<close>

section \<open>Tables\<close>

record auth_profile =
  apID :: int
  apName :: string
  apMethod :: string
  apAppID :: "int option"
  apPrivateKey :: "string option"
  apToken :: "string option"

record config_db =
  cbTables :: pool_tables
  cbProfiles :: "auth_profile list"
  cbSettings :: "(string, string) gomap"
  cbNextProfile :: int
  cbAdmins :: int
  cbTick :: nat

definition cb_tick :: "(config_db, nat) state" where
  "cb_tick = do { n \<leftarrow> gets cbTick; modify (\<lambda>s. s\<lparr>cbTick := Suc n\<rparr>); State_Monad.return n }"

text \<open>A computation on the tables of pools, and a statement on the other tables.\<close>

definition cb_tables :: "(pool_tables, 'a) state \<Rightarrow> (config_db, 'a) state" where
  "cb_tables m = do {
     t \<leftarrow> gets cbTables;
     let (a, t') = run_state m t;
     modify (\<lambda>s. s\<lparr>cbTables := t'\<rparr>);
     State_Monad.return a
   }"

definition cb_statement :: "db_env \<Rightarrow> (config_db \<Rightarrow> (db_error + 'a) \<times> config_db) \<Rightarrow> (config_db, db_error + 'a) state" where
  "cb_statement env f = do {
     n \<leftarrow> gets (\<lambda>s. tTick (cbTables s));
     modify (\<lambda>s. s\<lparr>cbTables := (cbTables s)\<lparr>tTick := Suc n\<rparr>\<rparr>);
     case dbFail env n of
       Some err \<Rightarrow> State_Monad.return (Inl (DbFailure err))
     | None \<Rightarrow> do {
         s \<leftarrow> gets (\<lambda>s. s);
         let (r, s') = f s;
         (case r of Inl _ \<Rightarrow> skip | Inr _ \<Rightarrow> modify (\<lambda>_. s'));
         State_Monad.return r
       }
   }"

definition valid_method :: "string \<Rightarrow> bool" where
  "valid_method m \<longleftrightarrow> m \<in> {''github_app'', ''gitea_token'', ''forgejo_token'', ''pat''}"

definition CountAuthProfiles :: "db_env \<Rightarrow> (config_db, db_error + int) state" where
  "CountAuthProfiles env = cb_statement env (\<lambda>s. (Inr (int (length (cbProfiles s))), s))"

definition CountRunnerPools :: "db_env \<Rightarrow> (config_db, db_error + int) state" where
  "CountRunnerPools env = cb_statement env (\<lambda>s. (Inr (int (length (tPools (cbTables s)))), s))"

definition count_admins :: "db_env \<Rightarrow> (config_db, db_error + int) state" where
  "count_admins env = cb_statement env (\<lambda>s. (Inr (cbAdmins s), s))"

definition GetAuthProfileById :: "db_env \<Rightarrow> int \<Rightarrow> (config_db, db_error + auth_profile) state" where
  "GetAuthProfileById env i = cb_statement env (\<lambda>s.
     (case find (\<lambda>p. apID p = i) (cbProfiles s) of None \<Rightarrow> Inl ErrNoRows | Some p \<Rightarrow> Inr p, s))"

definition GetAuthProfileByName :: "db_env \<Rightarrow> string \<Rightarrow> (config_db, db_error + auth_profile) state" where
  "GetAuthProfileByName env name = cb_statement env (\<lambda>s.
     (case find (\<lambda>p. apName p = name) (cbProfiles s) of None \<Rightarrow> Inl ErrNoRows | Some p \<Rightarrow> Inr p, s))"

definition ListAuthProfiles :: "db_env \<Rightarrow> (config_db, db_error + auth_profile list) state" where
  "ListAuthProfiles env = cb_statement env (\<lambda>s. (Inr (sort_key apName (cbProfiles s)), s))"

definition CreateAuthProfile :: "db_env \<Rightarrow> auth_profile \<Rightarrow> (config_db, db_error + auth_profile) state" where
  "CreateAuthProfile env arg = cb_statement env (\<lambda>s.
     if \<not> valid_method (apMethod arg) then (Inl CheckConstraint, s)
     else if apName arg \<in> apName ` set (cbProfiles s) then (Inl UniqueConstraint, s)
     else (let p = arg\<lparr>apID := cbNextProfile s\<rparr>
           in (Inr p, s\<lparr>cbProfiles := cbProfiles s @ [p], cbNextProfile := cbNextProfile s + 1,
                 cbTables := (cbTables s)\<lparr>tProfiles := tProfiles (cbTables s) @ [apID p]\<rparr>\<rparr>)))"

definition UpdateAuthProfile :: "db_env \<Rightarrow> auth_profile \<Rightarrow> (config_db, db_error + auth_profile) state" where
  "UpdateAuthProfile env arg = cb_statement env (\<lambda>s.
     if apID arg \<notin> apID ` set (cbProfiles s) then (Inl ErrNoRows, s)
     else if \<not> valid_method (apMethod arg) then (Inl CheckConstraint, s)
     else if \<exists>p \<in> set (cbProfiles s). apID p \<noteq> apID arg \<and> apName p = apName arg then (Inl UniqueConstraint, s)
     else (Inr arg, s\<lparr>cbProfiles := map (\<lambda>p. if apID p = apID arg then arg else p) (cbProfiles s)\<rparr>))"

definition DeleteAuthProfile :: "db_env \<Rightarrow> int \<Rightarrow> (config_db, db_error + unit) state" where
  "DeleteAuthProfile env i = cb_statement env (\<lambda>s.
     if i \<in> pAuthProfileID ` set (tPools (cbTables s)) then (Inl ForeignKey, s)
     else (Inr (), s\<lparr>cbProfiles := filter (\<lambda>p. apID p \<noteq> i) (cbProfiles s),
             cbTables := (cbTables s)\<lparr>tProfiles := filter (\<lambda>j. j \<noteq> i) (tProfiles (cbTables s))\<rparr>\<rparr>))"

definition SetAppSetting :: "db_env \<Rightarrow> string \<Rightarrow> string \<Rightarrow> (config_db, db_error + unit) state" where
  "SetAppSetting env key val = cb_statement env (\<lambda>s. (Inr (), s\<lparr>cbSettings := mput key val (cbSettings s)\<rparr>))"

definition GetAppSetting :: "db_env \<Rightarrow> string \<Rightarrow> (config_db, db_error + string) state" where
  "GetAppSetting env key = cb_statement env (\<lambda>s.
     (case mget (cbSettings s) key of None \<Rightarrow> Inl ErrNoRows | Some v \<Rightarrow> Inr v, s))"

definition ListAppSettings :: "db_env \<Rightarrow> (config_db, db_error + (string \<times> string) list) state" where
  "ListAppSettings env = cb_statement env (\<lambda>s. (Inr (sort_key fst (cbSettings s)), s))"

section \<open>Encrypted profiles\<close>

text \<open>The encryptor of the database, \<open>None\<close> for nil, with the nonces it draws.\<close>

record crypto_env =
  ceEncryptor :: "Encryptor option"
  ceRand :: "nat \<Rightarrow> string + string"

datatype profile_error = ErrNoEncryptor | Crypto crypto_error | Database db_error

text \<open>A credential as a nullable column: the empty one is null. A null needs no nonce.\<close>

definition encrypt_column :: "(nat \<Rightarrow> string + string) \<Rightarrow> Encryptor \<Rightarrow> string \<Rightarrow> (config_db, crypto_error + string option) state" where
  "encrypt_column rand e raw = do {
     n \<leftarrow> cb_tick;
     State_Monad.return (EncryptNullString e (rand n) (if raw \<noteq> [] then Some raw else None))
   }"

definition with_columns ::
  "crypto_env \<Rightarrow> string \<Rightarrow> string \<Rightarrow> (string option \<Rightarrow> string option \<Rightarrow> (config_db, db_error + 'a) state) \<Rightarrow>
   (config_db, profile_error + 'a) state" where
  "with_columns crypto rawPrivateKey rawToken store =
     (case ceEncryptor crypto of
        None \<Rightarrow> State_Monad.return (Inl ErrNoEncryptor)
      | Some e \<Rightarrow> do {
          k \<leftarrow> encrypt_column (ceRand crypto) e rawPrivateKey;
          case k of
            Inl err \<Rightarrow> State_Monad.return (Inl (Crypto err))
          | Inr encPriv \<Rightarrow> do {
              t \<leftarrow> encrypt_column (ceRand crypto) e rawToken;
              case t of
                Inl err \<Rightarrow> State_Monad.return (Inl (Crypto err))
              | Inr encTok \<Rightarrow> do {
                  r \<leftarrow> store encPriv encTok;
                  State_Monad.return (case r of Inl err \<Rightarrow> Inl (Database err) | Inr x \<Rightarrow> Inr x)
                }
            }
        })"

definition CreateEncryptedAuthProfile ::
  "db_env \<Rightarrow> crypto_env \<Rightarrow> string \<Rightarrow> string \<Rightarrow> int option \<Rightarrow> string \<Rightarrow> string \<Rightarrow> (config_db, profile_error + auth_profile) state" where
  "CreateEncryptedAuthProfile env crypto name authMethod appID rawPrivateKey rawToken =
     with_columns crypto rawPrivateKey rawToken (\<lambda>encPriv encTok. CreateAuthProfile env
       \<lparr>apID = 0, apName = name, apMethod = authMethod, apAppID = appID, apPrivateKey = encPriv, apToken = encTok\<rparr>)"

definition UpdateEncryptedAuthProfile ::
  "db_env \<Rightarrow> crypto_env \<Rightarrow> int \<Rightarrow> string \<Rightarrow> string \<Rightarrow> int option \<Rightarrow> string \<Rightarrow> string \<Rightarrow> (config_db, profile_error + auth_profile) state" where
  "UpdateEncryptedAuthProfile env crypto i name authMethod appID rawPrivateKey rawToken =
     with_columns crypto rawPrivateKey rawToken (\<lambda>encPriv encTok. UpdateAuthProfile env
       \<lparr>apID = i, apName = name, apMethod = authMethod, apAppID = appID, apPrivateKey = encPriv, apToken = encTok\<rparr>)"

text \<open>A profile with its decrypted private key and token.\<close>

definition decrypted :: "Encryptor \<Rightarrow> auth_profile \<Rightarrow> profile_error + auth_profile \<times> string \<times> string" where
  "decrypted e p =
     (case Decrypt e (null_string (apPrivateKey p)) of
        Inl err \<Rightarrow> Inl (Crypto err)
      | Inr privKey \<Rightarrow> (case Decrypt e (null_string (apToken p)) of
          Inl err \<Rightarrow> Inl (Crypto err)
        | Inr token \<Rightarrow> Inr (p, privKey, token)))"

definition get_decrypted ::
  "crypto_env \<Rightarrow> (config_db, db_error + auth_profile) state \<Rightarrow> (config_db, profile_error + auth_profile \<times> string \<times> string) state" where
  "get_decrypted crypto lookup_profile =
     (case ceEncryptor crypto of
        None \<Rightarrow> State_Monad.return (Inl ErrNoEncryptor)
      | Some e \<Rightarrow> do {
          r \<leftarrow> lookup_profile;
          State_Monad.return (case r of Inl err \<Rightarrow> Inl (Database err) | Inr p \<Rightarrow> decrypted e p)
        })"

definition GetDecryptedAuthProfileById ::
  "db_env \<Rightarrow> crypto_env \<Rightarrow> int \<Rightarrow> (config_db, profile_error + auth_profile \<times> string \<times> string) state" where
  "GetDecryptedAuthProfileById env crypto i = get_decrypted crypto (GetAuthProfileById env i)"

definition GetDecryptedAuthProfileByName ::
  "db_env \<Rightarrow> crypto_env \<Rightarrow> string \<Rightarrow> (config_db, profile_error + auth_profile \<times> string \<times> string) state" where
  "GetDecryptedAuthProfileByName env crypto name = get_decrypted crypto (GetAuthProfileByName env name)"

section \<open>The profile service\<close>

record proto_profile =
  fpId :: int
  fpName :: string
  fpAuthMethod :: string
  fpAppId :: int
  fpHasPrivateKey :: bool
  fpHasToken :: bool
  fpInstallUrl :: string
  fpInstallationsCount :: int

record create_request =
  crName :: string
  crAuthMethod :: string
  crAppId :: int
  crPrivateKey :: string
  crToken :: string

text \<open>
  The service's encryption key (empty when there is none), its validator (\<open>None\<close> for nil), the metadata of a
  GitHub App as the provider built from a decrypted profile answers it, and the random nonces.
\<close>

record profile_env =
  peDB :: db_env
  peKey :: string
  peRand :: "nat \<Rightarrow> string + string"
  peValidator :: "(nat \<Rightarrow> create_request \<Rightarrow> string option) option"
  peMetadata :: "nat \<Rightarrow> auth_profile \<Rightarrow> string \<Rightarrow> (string \<times> nat) option"

datatype service_error =
  PsInvalidArgument string
| PsNotFound
| PsFailedPrecondition
| PsInternal profile_error
| PsNoKey

definition column_set :: "string option \<Rightarrow> bool" where
  "column_set c \<longleftrightarrow> (case c of None \<Rightarrow> False | Some s \<Rightarrow> s \<noteq> [])"

definition toAuthProfileProto :: "auth_profile \<Rightarrow> proto_profile" where
  "toAuthProfileProto p =
     \<lparr>fpId = apID p, fpName = apName p, fpAuthMethod = apMethod p,
      fpAppId = (case apAppID p of None \<Rightarrow> 0 | Some i \<Rightarrow> i),
      fpHasPrivateKey = column_set (apPrivateKey p), fpHasToken = column_set (apToken p),
      fpInstallUrl = [], fpInstallationsCount = 0\<rparr>"

text \<open>\<open>db.Decrypt\<close> and \<open>db.Encrypt\<close> of the package: an encryptor for this one use.\<close>

definition package_Decrypt :: "string \<Rightarrow> string \<Rightarrow> crypto_error + string" where
  "package_Decrypt key c = (case NewEncryptor key of Inl err \<Rightarrow> Inl err | Inr e \<Rightarrow> Decrypt e c)"

definition package_Encrypt :: "string \<Rightarrow> string + string \<Rightarrow> string \<Rightarrow> crypto_error + string" where
  "package_Encrypt key rand s = (case NewEncryptor key of Inl err \<Rightarrow> Inl err | Inr e \<Rightarrow> Encrypt e rand s)"

definition populateAppMetadata :: "profile_env \<Rightarrow> proto_profile \<Rightarrow> auth_profile \<Rightarrow> (config_db, proto_profile) state" where
  "populateAppMetadata env proto p =
     (case (apPrivateKey p, apAppID p) of
        (Some c, Some _) \<Rightarrow>
          if apMethod p \<noteq> ''github_app'' \<or> peKey env = [] then State_Monad.return proto
          else (case package_Decrypt (peKey env) c of
                  Inl _ \<Rightarrow> State_Monad.return proto
                | Inr privKey \<Rightarrow> do {
                    n \<leftarrow> cb_tick;
                    State_Monad.return (case peMetadata env n p privKey of
                      None \<Rightarrow> proto
                    | Some (installURL, insts) \<Rightarrow>
                        proto\<lparr>fpInstallUrl := installURL, fpInstallationsCount := wrap32 (int insts)\<rparr>)
                  })
      | _ \<Rightarrow> State_Monad.return proto)"

definition validateCreateAuthProfileRequest :: "create_request option \<Rightarrow> string option" where
  "validateCreateAuthProfileRequest req =
     (case req of
        None \<Rightarrow> Some ''request''
      | Some r \<Rightarrow>
          if TrimSpace (crName r) = [] then Some ''name''
          else (let m = lower_trim (crAuthMethod r) in
            if m = ''github_app'' then
              (if crAppId r \<le> 0 then Some ''app_id'' else if crPrivateKey r = [] then Some ''private_key'' else None)
            else if m = ''gitea_token'' \<or> m = ''forgejo_token'' \<or> m = ''pat'' then
              (if TrimSpace (crToken r) = [] then Some ''token'' else None)
            else Some ''auth_method''))"

fun metadata_each :: "profile_env \<Rightarrow> auth_profile list \<Rightarrow> (config_db, proto_profile list) state" where
  "metadata_each env [] = State_Monad.return []"
| "metadata_each env (p # ps) = do {
     x \<leftarrow> populateAppMetadata env (toAuthProfileProto p) p;
     xs \<leftarrow> metadata_each env ps;
     State_Monad.return (x # xs)
   }"

definition ListAuthProfiles_api :: "profile_env \<Rightarrow> (config_db, service_error + proto_profile list) state" where
  "ListAuthProfiles_api env = do {
     r \<leftarrow> ListAuthProfiles (peDB env);
     case r of
       Inl err \<Rightarrow> State_Monad.return (Inl (PsInternal (Database err)))
     | Inr ps \<Rightarrow> do { xs \<leftarrow> metadata_each env ps; State_Monad.return (Inr xs) }
   }"

text \<open>The encryption of one secret of a request, when it is there.\<close>

definition seal_secret :: "profile_env \<Rightarrow> string \<Rightarrow> (config_db, service_error + string option) state" where
  "seal_secret env secret =
     (if secret = [] then State_Monad.return (Inr None)
      else if peKey env = [] then State_Monad.return (Inl PsNoKey)
      else do {
        n \<leftarrow> cb_tick;
        State_Monad.return (case package_Encrypt (peKey env) (peRand env n) secret of
          Inl err \<Rightarrow> Inl (PsInternal (Crypto err)) | Inr c \<Rightarrow> Inr (Some c))
      })"

definition validate_credentials :: "profile_env \<Rightarrow> create_request \<Rightarrow> (config_db, string option) state" where
  "validate_credentials env req =
     (case peValidator env of
        None \<Rightarrow> State_Monad.return None
      | Some check \<Rightarrow> do { n \<leftarrow> cb_tick; State_Monad.return (check n req) })"

definition store_profile ::
  "profile_env \<Rightarrow> int option \<Rightarrow> create_request \<Rightarrow> string option \<Rightarrow> string option \<Rightarrow>
   (config_db, service_error + proto_profile) state" where
  "store_profile env user req encPriv encTok = do {
     r \<leftarrow> CreateAuthProfile (peDB env)
       \<lparr>apID = 0, apName = TrimSpace (crName req), apMethod = lower_trim (crAuthMethod req),
        apAppID = (if crAppId req > 0 then Some (crAppId req) else None), apPrivateKey = encPriv, apToken = encTok\<rparr>;
     case r of
       Inl err \<Rightarrow> State_Monad.return (Inl (PsInternal (Database err)))
     | Inr created \<Rightarrow> do {
         cb_tables (RecordAuditLogWithUser (peDB env) user ''auth_profile.create'' ''auth_profile'' (Some (apID created))
           [(''name'', DString (apName created)), (''auth_method'', DString (apMethod created))]);
         proto \<leftarrow> populateAppMetadata env (toAuthProfileProto created) created;
         State_Monad.return (Inr proto)
       }
   }"

definition CreateAuthProfile_api ::
  "profile_env \<Rightarrow> int option \<Rightarrow> create_request option \<Rightarrow> (config_db, service_error + proto_profile) state" where
  "CreateAuthProfile_api env user msg =
     (case (validateCreateAuthProfileRequest msg, msg) of
        (Some err, _) \<Rightarrow> State_Monad.return (Inl (PsInvalidArgument err))
      | (None, None) \<Rightarrow> State_Monad.return (Inl (PsInvalidArgument []))
      | (None, Some req) \<Rightarrow> do {
          v \<leftarrow> validate_credentials env req;
          case v of
            Some err \<Rightarrow> State_Monad.return (Inl (PsInvalidArgument err))
          | None \<Rightarrow> do {
              k \<leftarrow> seal_secret env (crPrivateKey req);
              case k of
                Inl err \<Rightarrow> State_Monad.return (Inl err)
              | Inr encPriv \<Rightarrow> do {
                  t \<leftarrow> seal_secret env (TrimSpace (crToken req));
                  case t of
                    Inl err \<Rightarrow> State_Monad.return (Inl err)
                  | Inr encTok \<Rightarrow> store_profile env user req encPriv encTok
                }
            }
        })"

definition DeleteAuthProfile_api :: "profile_env \<Rightarrow> int option \<Rightarrow> int \<Rightarrow> (config_db, service_error + bool) state" where
  "DeleteAuthProfile_api env user i =
     (if i \<le> 0 then State_Monad.return (Inl (PsInvalidArgument ''id''))
      else do {
        e \<leftarrow> GetAuthProfileById (peDB env) i;
        case e of
          Inl _ \<Rightarrow> State_Monad.return (Inl PsNotFound)
        | Inr existing \<Rightarrow> do {
            ps \<leftarrow> cb_tables (ListRunnerPools (peDB env));
            case ps of
              Inl err \<Rightarrow> State_Monad.return (Inl (PsInternal (Database err)))
            | Inr pools \<Rightarrow>
                if \<exists>p \<in> set pools. pAuthProfileID p = i then State_Monad.return (Inl PsFailedPrecondition)
                else do {
                  d \<leftarrow> DeleteAuthProfile (peDB env) i;
                  case d of
                    Inl err \<Rightarrow> State_Monad.return (Inl (PsInternal (Database err)))
                  | Inr _ \<Rightarrow> do {
                      cb_tables (RecordAuditLogWithUser (peDB env) user ''auth_profile.delete'' ''auth_profile'' (Some (apID existing))
                        [(''name'', DString (apName existing)), (''auth_method'', DString (apMethod existing))]);
                      State_Monad.return (Inr True)
                    }
                }
          }
      })"

section \<open>Onboarding and settings\<close>

record onboarding_status =
  obAdminCreated :: bool
  obAuthProfileExists :: bool
  obPoolExists :: bool
  obSetupComplete :: bool
  obOnboardingCompleted :: bool

definition GetOnboardingStatus :: "db_env \<Rightarrow> (config_db, service_error + onboarding_status) state" where
  "GetOnboardingStatus env = do {
     a \<leftarrow> count_admins env;
     case a of Inl err \<Rightarrow> State_Monad.return (Inl (PsInternal (Database err))) | Inr adminCount \<Rightarrow> do {
     f \<leftarrow> CountAuthProfiles env;
     case f of Inl err \<Rightarrow> State_Monad.return (Inl (PsInternal (Database err))) | Inr profileCount \<Rightarrow> do {
     p \<leftarrow> CountRunnerPools env;
     case p of Inl err \<Rightarrow> State_Monad.return (Inl (PsInternal (Database err))) | Inr poolCount \<Rightarrow> do {
     v \<leftarrow> GetAppSetting env ''onboarding_completed'';
     let completed = (v = Inr ''true'');
     State_Monad.return (Inr \<lparr>obAdminCreated = adminCount > 0, obAuthProfileExists = profileCount > 0,
       obPoolExists = poolCount > 0, obSetupComplete = (adminCount > 0 \<and> (completed \<or> poolCount > 0)),
       obOnboardingCompleted = completed\<rparr>) }}}
   }"

definition CompleteOnboarding :: "db_env \<Rightarrow> int option \<Rightarrow> (config_db, service_error + bool) state" where
  "CompleteOnboarding env user = do {
     a \<leftarrow> count_admins env;
     case a of
       Inl err \<Rightarrow> State_Monad.return (Inl (PsInternal (Database err)))
     | Inr adminCount \<Rightarrow>
         if adminCount = 0 then State_Monad.return (Inl PsFailedPrecondition)
         else do {
           r \<leftarrow> SetAppSetting env ''onboarding_completed'' ''true'';
           case r of
             Inl err \<Rightarrow> State_Monad.return (Inl (PsInternal (Database err)))
           | Inr _ \<Rightarrow> do {
               cb_tables (RecordAuditLogWithUser env user ''onboarding.complete'' ''onboarding'' None
                 [(''completed'', DBool True)]);
               State_Monad.return (Inr True)
             }
         }
   }"

definition GetAppSettings :: "db_env \<Rightarrow> (config_db, service_error + (string \<times> string) list) state" where
  "GetAppSettings env = do {
     r \<leftarrow> ListAppSettings env;
     State_Monad.return (case r of Inl err \<Rightarrow> Inl (PsInternal (Database err)) | Inr xs \<Rightarrow> Inr xs)
   }"

definition SetAppSetting_api :: "db_env \<Rightarrow> int option \<Rightarrow> string \<Rightarrow> string \<Rightarrow> (config_db, service_error + string \<times> string) state" where
  "SetAppSetting_api env user key val =
     (if TrimSpace key = [] then State_Monad.return (Inl (PsInvalidArgument ''key''))
      else do {
        r \<leftarrow> SetAppSetting env (TrimSpace key) val;
        case r of
          Inl err \<Rightarrow> State_Monad.return (Inl (PsInternal (Database err)))
        | Inr _ \<Rightarrow> do {
            cb_tables (RecordAuditLogWithUser env user ''setting.update'' ''app_setting'' None
              [(''key'', DString (TrimSpace key)), (''value'', DString val)]);
            State_Monad.return (Inr (TrimSpace key, val))
          }
      })"

end
