(* ===== verification/Go_Marshal.thy ===== *)
theory Go_Marshal
  imports Go_Crypto
begin

text \<open>
  The writing half of \<open>encoding/json\<close> for strings, and that the decoder of \<open>Go_Json\<close> reads it back: every
  text in UTF-8 survives.
\<close>

section \<open>Writing\<close>

text \<open>
  \<open>json.Marshal\<close> of strings: control characters, quotes, backslashes and the characters that HTML gives a
  meaning are escaped, as are U+2028 and U+2029; a byte that is no UTF-8 becomes U+FFFD.
\<close>

definition unicode_escape :: "nat \<Rightarrow> string" where
  "unicode_escape n = [CHR 0x5C, CHR ''u''] @ map (\<lambda>k. lower_hex (n div 16 ^ k mod 16)) [3, 2, 1, 0]"

definition json_escape :: "char \<Rightarrow> string" where
  "json_escape c =
     (let b = byte c in
      if b = 34 \<or> b = 92 then [CHR 0x5C, c]
      else if b = 8 then [CHR 0x5C, CHR ''b''] else if b = 12 then [CHR 0x5C, CHR ''f'']
      else if b = 10 then [CHR 0x5C, CHR ''n''] else if b = 13 then [CHR 0x5C, CHR ''r'']
      else if b = 9 then [CHR 0x5C, CHR ''t'']
      else if b < 32 \<or> b = 60 \<or> b = 62 \<or> b = 38 then unicode_escape b
      else [c])"

function json_body :: "string \<Rightarrow> string" where
  "json_body [] = []"
| "json_body (c # s) =
     (if byte c < 128 then json_escape c @ json_body s
      else case rune_len (c # s) of
             0 \<Rightarrow> unicode_escape RuneError @ json_body s
           | Suc k \<Rightarrow>
               (if c # take k s = encode_rune 8232 then unicode_escape 8232
                else if c # take k s = encode_rune 8233 then unicode_escape 8233
                else c # take k s) @ json_body (drop k s))"
  by pat_completeness auto
termination by (relation "measure length") auto

definition json_quote :: "string \<Rightarrow> string" where
  "json_quote s = [CHR 0x22] @ json_body s @ [CHR 0x22]"

section \<open>Reading back\<close>

lemma hex_digit_lower: "n < 16 \<Longrightarrow> hex_digit (lower_hex n) = Some n"
  by (auto simp: hex_digit_def lower_hex_def Let_def of_char_of)

lemma append_single: "(@) [x] = Cons x" by (simp add: fun_eq_iff)

lemma hex4_digits:
  assumes "n < 65536"
  shows "hex4 (map (\<lambda>k. lower_hex (n div 16 ^ k mod 16)) [3, 2, 1, 0] @ r) = Some n"
proof -
  have "n div 4096 < 16" using assms by (simp add: less_mult_imp_div_less)
  moreover have "n div 4096 * 16 + n div 256 mod 16 = n div 256" "n div 256 * 16 + n div 16 mod 16 = n div 16" "n div 16 * 16 + n mod 16 = n"
    using div_mult_mod_eq [of "n div 256" 16] div_mult_mod_eq [of "n div 16" 16] div_mult_mod_eq [of n 16]
    by (simp_all add: div_mult2_eq [symmetric])
  ultimately show ?thesis by (simp add: hex_digit_lower)
qed

lemma unicode_escape_read:
  assumes "n < 65536" "\<not> (55296 \<le> n \<and> n < 57344)"
  shows "json_string (unicode_escape n @ r) = map_option (apfst (append (encode_rune n))) (json_string r)"
  using hex4_digits [OF assms(1), of r] assms(2) by (auto simp: unicode_escape_def simp del: hex4.simps)

lemma json_escape_read:
  assumes "byte c < 128"
  shows "json_string (json_escape c @ r) = map_option (apfst (Cons c)) (json_string r)"
proof -
  have c: "c = char_of k" if "byte c = k" for k using that by auto
  consider "byte c = 34 \<or> byte c = 92" | "byte c = 8" | "byte c = 12" | "byte c = 10" | "byte c = 13" | "byte c = 9"
    | "byte c \<notin> {34, 92, 8, 12, 10, 13, 9}" "byte c < 32 \<or> byte c = 60 \<or> byte c = 62 \<or> byte c = 38"
    | "byte c \<notin> {34, 92, 8, 12, 10, 13, 9}" "\<not> (byte c < 32 \<or> byte c = 60 \<or> byte c = 62 \<or> byte c = 38)" by auto
  then show ?thesis
  proof cases
    case 1
    then have "c \<noteq> CHR ''u''" "json_escape c = [CHR 0x5C, c]" "simple_escape c = Some [c]"
      by (auto simp: json_escape_def simple_escape_def)
    then show ?thesis by (simp add: append_single)
  next
    case 2
    with c [OF 2] show ?thesis by (simp add: json_escape_def simple_escape_def append_single)
  next
    case 3
    with c [OF 3] show ?thesis by (simp add: json_escape_def simple_escape_def append_single)
  next
    case 4
    with c [OF 4] show ?thesis by (simp add: json_escape_def simple_escape_def append_single)
  next
    case 5
    with c [OF 5] show ?thesis by (simp add: json_escape_def simple_escape_def append_single)
  next
    case 6
    with c [OF 6] show ?thesis by (simp add: json_escape_def simple_escape_def append_single)
  next
    case 7
    then show ?thesis
      using unicode_escape_read [of "byte c" r] assms by (simp add: json_escape_def encode_rune_def append_single)
  next
    case 8
    then show ?thesis using assms by (simp add: json_escape_def)
  qed
qed

text \<open>What a decoder makes of a text: each byte that is no UTF-8 is replaced.\<close>

function to_valid :: "string \<Rightarrow> string" where
  "to_valid [] = []"
| "to_valid (c # s) =
     (if byte c < 128 then c # to_valid s
      else case rune_len (c # s) of
             0 \<Rightarrow> encode_rune RuneError @ to_valid s
           | Suc k \<Rightarrow> c # take k s @ to_valid (drop k s))"
  by pat_completeness auto
termination by (relation "measure length") auto

lemma rune_len_take:
  assumes "rune_len (c # s) = Suc k" "\<not> byte c < 128"
  shows "rune_len (c # take k s @ x) = Suc k \<and> k \<le> length s"
  using assms by (auto simp: Let_def split: if_splits list.splits)

lemma json_body_read: "json_string (json_body s @ CHR 0x22 # r) = Some (to_valid s, r)"
proof (induction s rule: json_body.induct)
  case (2 c s)
  show ?case
  proof (cases "byte c < 128")
    case True
    then show ?thesis using 2(1) by (simp add: json_escape_read del: json_string.simps(2))
  next
    case False
    show ?thesis
    proof (cases "rune_len (c # s)")
      case 0
      then show ?thesis using False 2(2) unicode_escape_read [of RuneError]
        by (simp add: RuneError_def del: json_string.simps(2) rune_len.simps)
    next
      case (Suc k)
      let ?tail = "json_body (drop k s) @ CHR 0x22 # r"
      have IH: "json_string ?tail = Some (to_valid (drop k s), r)" using 2(3) [OF False Suc] .
      note len = rune_len_take [OF Suc False, of ?tail]
      have "byte c \<noteq> 34" "\<not> byte c < 32" "byte c \<noteq> 92" using False by auto
      then have plain: "json_string (c # take k s @ ?tail) = Some (c # take k s @ to_valid (drop k s), r)"
        using False len IH by (simp add: min_def del: rune_len.simps)
      have esc: "json_string (unicode_escape n @ ?tail) = Some (encode_rune n @ to_valid (drop k s), r)" if "n = 8232 \<or> n = 8233" for n
        using unicode_escape_read [of n ?tail] IH that by auto
      consider "c # take k s = encode_rune 8232" | "c # take k s = encode_rune 8233" "c # take k s \<noteq> encode_rune 8232"
        | "c # take k s \<noteq> encode_rune 8232" "c # take k s \<noteq> encode_rune 8233" by blast
      then show ?thesis
        using False Suc plain esc [of 8232] esc [of 8233]
        by cases (simp_all del: json_string.simps(2) rune_len.simps)
    qed
  qed
qed simp

end
