(* ===== verification/Seed.thy ===== *)
theory Seed
  imports Profiles Go_Marshal
begin

text \<open>
  \<open>src/internal/db/seed.go\<close>: the import of a seed configuration into the database in one transaction, and
  the export of a sanitised one. Reading and writing YAML is third-party code: a configuration is its parsed
  form. Files (read at the cleaned path), environment variables and nonces are parameters; each statement may fail, and so may beginning
  and committing the transaction. Fields of the configuration that no code reads are left out.
\<close>

section \<open>Configurations\<close>

record GlobalConfig =
  gcTotalAllowedRunners :: int
  gcTotalIdleWarmPool :: int
  gcShutdownTimeoutSeconds :: int
  gcJobRetentionDays :: int

record SeedAuthProfile =
  saAuthMethod :: string
  saAppID :: int
  saPrivateKeyPath :: string
  saPrivateKey :: string
  saGiteaTokenEnvVar :: string
  saForgejoTokenEnvVar :: string
  saTokenEnvVar :: string
  saToken :: string

record SeedRenovate =
  srEnabled :: bool
  srCronSchedule :: string
  srImage :: string

record SeedPool =
  spName :: string
  spProvider :: string
  spRepositoryURL :: string
  spScope :: string
  spAuthProfile :: string
  spMinIdleRunners :: int
  spMaxConcurrency :: int
  spLabels :: "string list"
  spRunnerImage :: string
  spAllowDocker :: bool
  spMaxRunnerLifetimeSeconds :: int
  spCPULimit :: string
  spMemoryLimit :: string
  spRenovate :: "SeedRenovate option"

record SeedConfig =
  scVersion :: string
  scGlobal :: GlobalConfig
  scAuthProfiles :: "(string, SeedAuthProfile) gomap"
  scPools :: "SeedPool list"

text \<open>\<open>ImportMode\<close> is a string; every mode but \<open>overwrite\<close> merges.\<close>

definition ImportModeOverwrite :: string where "ImportModeOverwrite = ''overwrite''"
definition ImportModeMerge :: string where "ImportModeMerge = ''merge''"
definition AppSettingSeedImported :: string where "AppSettingSeedImported = ''seed_imported''"

definition SanitizedRedactedPlaceholder :: string where "SanitizedRedactedPlaceholder = ''${REDACTED}''"

text \<open>What an import failed on; \<open>SeedMark\<close> is the failure to record an import that is already committed.\<close>

datatype seed_error =
  SeedNoEncryptor
| SeedInvalid string
| SeedTransaction string
| SeedStatement string db_error
| SeedCredentials string
| SeedCrypto crypto_error
| SeedUnknownProfile string
| SeedMark db_error

subsection \<open>Validation\<close>

definition valid_profile :: "string \<times> SeedAuthProfile \<Rightarrow> bool" where
  "valid_profile np \<longleftrightarrow> (case np of (name, prof) \<Rightarrow>
     TrimSpace name \<noteq> [] \<and> saAuthMethod prof \<in> set [''github_app'', ''gitea_token'', ''forgejo_token'', ''pat''] \<and>
     \<not> (saAuthMethod prof = ''github_app'' \<and> saAppID prof = 0))"

definition valid_pool :: "SeedPool \<Rightarrow> bool" where
  "valid_pool p \<longleftrightarrow> TrimSpace (spName p) \<noteq> [] \<and> spProvider p \<in> set [''github'', ''gitea'', ''forgejo''] \<and>
     TrimSpace (spRepositoryURL p) \<noteq> [] \<and>
     (if spScope p = [] then ''repo'' else spScope p) \<in> set [''repo'', ''org'', ''global''] \<and>
     spLabels p \<noteq> [] \<and> TrimSpace (spRunnerImage p) \<noteq> [] \<and> TrimSpace (spAuthProfile p) \<noteq> []"

text \<open>The first offending entry is named; \<open>ord\<close> is the iteration order of the profiles.\<close>

fun check_pools :: "string list \<Rightarrow> SeedPool list \<Rightarrow> string option" where
  "check_pools seen [] = None"
| "check_pools seen (p # ps) =
     (if TrimSpace (spName p) = [] \<or> spName p \<in> set seen \<or> \<not> valid_pool p then Some (spName p)
      else check_pools (spName p # seen) ps)"

definition Validate :: "nat list \<Rightarrow> SeedConfig \<Rightarrow> string option" where
  "Validate ord cfg =
     (case find (\<lambda>np. \<not> valid_profile np) (go_range ord (scAuthProfiles cfg)) of
        Some (name, _) \<Rightarrow> Some name
      | None \<Rightarrow> check_pools [] (scPools cfg))"

section \<open>Credentials\<close>

record seed_env =
  seDB :: db_env
  seCrypto :: crypto_env
  seReadFile :: "string \<Rightarrow> string + string"
  seGetenv :: "string \<Rightarrow> string"
  seBegin :: "nat \<Rightarrow> string option"
  seCommit :: "nat \<Rightarrow> string option"

definition resolveCredentials :: "seed_env \<Rightarrow> SeedAuthProfile \<Rightarrow> string + string \<times> string" where
  "resolveCredentials env prof =
     (let key = (if saPrivateKey prof \<noteq> [] then Inr (saPrivateKey prof)
                 else if saPrivateKeyPath prof \<noteq> [] \<and> saPrivateKeyPath prof \<noteq> SanitizedRedactedPlaceholder
                 then seReadFile env (saPrivateKeyPath prof) else Inr []);
          token = (if saToken prof \<noteq> [] then saToken prof
                   else if saGiteaTokenEnvVar prof \<noteq> [] then seGetenv env (saGiteaTokenEnvVar prof)
                   else if saForgejoTokenEnvVar prof \<noteq> [] then seGetenv env (saForgejoTokenEnvVar prof)
                   else if saTokenEnvVar prof \<noteq> [] then seGetenv env (saTokenEnvVar prof) else [])
      in case key of Inl err \<Rightarrow> Inl err | Inr k \<Rightarrow> Inr (k, token))"

section \<open>Import\<close>

text \<open>A computation that stops at its first error, and a loop of such.\<close>

definition attempt :: "('s, 'e + 'a) state \<Rightarrow> ('a \<Rightarrow> ('s, 'e + 'b) state) \<Rightarrow> ('s, 'e + 'b) state" where
  "attempt m k = do { r \<leftarrow> m; case r of Inl err \<Rightarrow> State_Monad.return (Inl err) | Inr x \<Rightarrow> k x }"

fun attempt_each :: "'a list \<Rightarrow> ('a \<Rightarrow> ('s, 'e + unit) state) \<Rightarrow> ('s, 'e + unit) state" where
  "attempt_each [] f = State_Monad.return (Inr ())"
| "attempt_each (x # xs) f = attempt (f x) (\<lambda>_. attempt_each xs f)"

text \<open>A statement whose error is named after what was being done.\<close>

definition naming :: "string \<Rightarrow> (config_db, db_error + 'a) state \<Rightarrow> (config_db, seed_error + 'a) state" where
  "naming what m = do { r \<leftarrow> m; State_Monad.return (case r of Inl err \<Rightarrow> Inl (SeedStatement what err) | Inr x \<Rightarrow> Inr x) }"

definition GetRunnerPoolByName :: "db_env \<Rightarrow> string \<Rightarrow> (pool_tables, db_error + RunnerPool) state" where
  "GetRunnerPoolByName env name = statement env (\<lambda>now t.
     (case find (\<lambda>p. pName p = name) (tPools t) of None \<Rightarrow> (Inl ErrNoRows, t) | Some p \<Rightarrow> (Inr p, t)))"

text \<open>Overwriting starts by deleting every pool and then every profile.\<close>

definition clean_out :: "db_env \<Rightarrow> (config_db, seed_error + unit) state" where
  "clean_out env =
     attempt (naming ''listing pools'' (cb_tables (ListRunnerPools env))) (\<lambda>pools.
     attempt (attempt_each pools (\<lambda>p. naming (pName p) (cb_tables (DeleteRunnerPool env (pID p))))) (\<lambda>_.
     attempt (naming ''listing auth profiles'' (ListAuthProfiles env)) (\<lambda>profiles.
     attempt_each profiles (\<lambda>p. naming (apName p) (DeleteAuthProfile env (apID p))))))"

text \<open>The global settings, of which only positive ones are imported.\<close>

definition import_setting :: "db_env \<Rightarrow> string \<times> int \<Rightarrow> (config_db, seed_error + unit) state" where
  "import_setting env kv =
     (if snd kv > 0 then naming (fst kv) (SetAppSetting env (fst kv) (Itoa (snd kv))) else State_Monad.return (Inr ()))"

definition global_settings :: "GlobalConfig \<Rightarrow> (string \<times> int) list" where
  "global_settings g =
     [(''total_allowed_runners'', gcTotalAllowedRunners g), (''total_idle_warm_pool'', gcTotalIdleWarmPool g),
      (''shutdown_timeout_seconds'', gcShutdownTimeoutSeconds g), (''job_retention_days'', gcJobRetentionDays g)]"

text \<open>A credential of a profile, encrypted.\<close>

definition seed_column :: "crypto_env \<Rightarrow> Encryptor \<Rightarrow> string \<Rightarrow> (config_db, seed_error + string option) state" where
  "seed_column crypto e raw = do {
     c \<leftarrow> encrypt_column (ceRand crypto) e raw;
     State_Monad.return (case c of Inl err \<Rightarrow> Inl (SeedCrypto err) | Inr x \<Rightarrow> Inr x)
   }"

text \<open>
  The credentials of an existing profile are kept where the incoming ones are empty. The result of one
  profile is its id; the loop collects them by name.
\<close>

definition keep_column :: "string option \<Rightarrow> string option \<Rightarrow> string option" where
  "keep_column enc existing = (if enc = None \<and> existing \<noteq> None then existing else enc)"

definition store_profile_row ::
  "db_env \<Rightarrow> string \<Rightarrow> SeedAuthProfile \<Rightarrow> string option \<Rightarrow> string option \<Rightarrow> (config_db, seed_error + int) state" where
  "store_profile_row env name prof encPriv encTok = do {
     let row = \<lparr>apID = 0, apName = name, apMethod = saAuthMethod prof,
       apAppID = (if saAppID prof > 0 then Some (saAppID prof) else None), apPrivateKey = encPriv, apToken = encTok\<rparr>;
     r \<leftarrow> GetAuthProfileByName env name;
     case r of
       Inr existing \<Rightarrow>
         attempt (naming name (UpdateAuthProfile env (row\<lparr>apID := apID existing,
           apPrivateKey := keep_column encPriv (apPrivateKey existing), apToken := keep_column encTok (apToken existing)\<rparr>)))
           (\<lambda>p. State_Monad.return (Inr (apID p)))
     | Inl err \<Rightarrow>
         if err = ErrNoRows then attempt (naming name (CreateAuthProfile env row)) (\<lambda>p. State_Monad.return (Inr (apID p)))
         else State_Monad.return (Inl (SeedStatement name err))
   }"

definition import_profile :: "seed_env \<Rightarrow> Encryptor \<Rightarrow> string \<times> SeedAuthProfile \<Rightarrow> (config_db, seed_error + int) state" where
  "import_profile env e np =
     (case resolveCredentials env (snd np) of
        Inl err \<Rightarrow> State_Monad.return (Inl (SeedCredentials err))
      | Inr (privKey, token) \<Rightarrow>
          attempt (seed_column (seCrypto env) e privKey) (\<lambda>encPriv.
          attempt (seed_column (seCrypto env) e token) (\<lambda>encTok.
          store_profile_row (seDB env) (fst np) (snd np) encPriv encTok)))"

fun import_profiles ::
  "seed_env \<Rightarrow> Encryptor \<Rightarrow> (string \<times> SeedAuthProfile) list \<Rightarrow> (config_db, seed_error + (string, int) gomap) state" where
  "import_profiles env e [] = State_Monad.return (Inr [])"
| "import_profiles env e (np # nps) =
     attempt (import_profile env e np) (\<lambda>i.
     attempt (import_profiles env e nps) (\<lambda>ids. State_Monad.return (Inr (mput (fst np) i ids))))"

text \<open>\<open>json.Marshal\<close> of a slice of strings that is not nil.\<close>

definition marshal_labels :: "string list \<Rightarrow> string" where
  "marshal_labels ls = ''['' @ Join (map json_quote ls) '','' @ '']''"

text \<open>The row of a pool, with the defaults of missing limits.\<close>

definition positive_or :: "int \<Rightarrow> int \<Rightarrow> int" where "positive_or dflt n = (if n \<le> 0 then dflt else n)"

definition non_empty :: "string \<Rightarrow> string option" where "non_empty s = (if s \<noteq> [] then Some s else None)"

definition seed_row :: "SeedPool \<Rightarrow> int \<Rightarrow> RunnerPool" where
  "seed_row p authID =
     \<lparr>pID = 0, pName = spName p, pProvider = spProvider p, pRepositoryUrl = spRepositoryURL p,
      pScope = (if spScope p = [] then ''repo'' else spScope p), pAuthProfileID = authID,
      pMinIdleRunners = positive_or 1 (spMinIdleRunners p), pMaxConcurrency = positive_or 5 (spMaxConcurrency p),
      pLabels = marshal_labels (spLabels p), pRunnerImage = spRunnerImage p, pAllowDocker = spAllowDocker p,
      pMaxRunnerLifetimeSeconds = positive_or 7200 (spMaxRunnerLifetimeSeconds p),
      pCpuLimit = non_empty (spCPULimit p), pMemoryLimit = non_empty (spMemoryLimit p),
      pCreatedAt = 0, pUpdatedAt = 0\<rparr>"

definition store_pool_row :: "db_env \<Rightarrow> SeedPool \<Rightarrow> int \<Rightarrow> (config_db, seed_error + int) state" where
  "store_pool_row env pool authID = do {
     r \<leftarrow> cb_tables (GetRunnerPoolByName env (spName pool));
     case r of
       Inr existing \<Rightarrow> attempt (naming (spName pool) (cb_tables (UpdateRunnerPool env ((seed_row pool authID)\<lparr>pID := pID existing\<rparr>))))
         (\<lambda>p. State_Monad.return (Inr (pID p)))
     | Inl err \<Rightarrow>
         if err = ErrNoRows then attempt (naming (spName pool) (cb_tables (CreateRunnerPool env (seed_row pool authID))))
           (\<lambda>p. State_Monad.return (Inr (pID p)))
         else State_Monad.return (Inl (SeedStatement (spName pool) err))
   }"

text \<open>The repository of a pool is made one of its targets; an error of the lookup counts as not found.\<close>

definition ensure_target :: "db_env \<Rightarrow> SeedPool \<Rightarrow> int \<Rightarrow> (config_db, seed_error + unit) state" where
  "ensure_target env pool poolID =
     (if spRepositoryURL pool = [] then State_Monad.return (Inr ())
      else do {
        ts \<leftarrow> cb_tables (ListPoolTargetsByPoolId env poolID);
        let targets = (case ts of Inl _ \<Rightarrow> [] | Inr xs \<Rightarrow> xs);
        if \<exists>t \<in> set targets. ptTargetUrl t = spRepositoryURL pool then State_Monad.return (Inr ())
        else attempt (naming (spName pool) (cb_tables (AddPoolTarget env poolID (spRepositoryURL pool))))
          (\<lambda>_. State_Monad.return (Inr ()))
      })"

definition seed_renovate_row :: "int \<Rightarrow> SeedRenovate \<Rightarrow> RenovateConfig" where
  "seed_renovate_row i r =
     \<lparr>rvPoolID = i, rvEnabled = srEnabled r, rvCronSchedule = non_empty (srCronSchedule r),
      rvImage = (if srImage r = [] then ''renovate/renovate:latest'' else srImage r)\<rparr>"

definition store_renovate :: "db_env \<Rightarrow> SeedPool \<Rightarrow> int \<Rightarrow> (config_db, seed_error + unit) state" where
  "store_renovate env pool poolID =
     (case spRenovate pool of
        None \<Rightarrow> State_Monad.return (Inr ())
      | Some rv \<Rightarrow> do {
          r \<leftarrow> cb_tables (GetRenovateConfigByPoolId env poolID);
          case r of
            Inr existing \<Rightarrow> attempt (naming (spName pool) (cb_tables (UpdateRenovateConfig env (seed_renovate_row (rvPoolID existing) rv))))
              (\<lambda>_. State_Monad.return (Inr ()))
          | Inl err \<Rightarrow>
              if err = ErrNoRows then attempt (naming (spName pool) (cb_tables (CreateRenovateConfig env (seed_renovate_row poolID rv))))
                (\<lambda>_. State_Monad.return (Inr ()))
              else State_Monad.return (Inl (SeedStatement (spName pool) err))
        })"

definition profile_id :: "db_env \<Rightarrow> (string, int) gomap \<Rightarrow> string \<Rightarrow> (config_db, seed_error + int) state" where
  "profile_id env ids name =
     (case mget ids name of
        Some i \<Rightarrow> State_Monad.return (Inr i)
      | None \<Rightarrow> do {
          r \<leftarrow> GetAuthProfileByName env name;
          State_Monad.return (case r of Inl _ \<Rightarrow> Inl (SeedUnknownProfile name) | Inr p \<Rightarrow> Inr (apID p))
        })"

definition import_pool :: "db_env \<Rightarrow> (string, int) gomap \<Rightarrow> SeedPool \<Rightarrow> (config_db, seed_error + unit) state" where
  "import_pool env ids pool =
     attempt (profile_id env ids (spAuthProfile pool)) (\<lambda>authID.
     attempt (store_pool_row env pool authID) (\<lambda>poolID.
     attempt (ensure_target env pool poolID) (\<lambda>_. store_renovate env pool poolID)))"

definition import_all :: "seed_env \<Rightarrow> Encryptor \<Rightarrow> nat list \<Rightarrow> string \<Rightarrow> SeedConfig \<Rightarrow> (config_db, seed_error + unit) state" where
  "import_all env e ord mode cfg =
     attempt (if mode = ImportModeOverwrite then clean_out (seDB env) else State_Monad.return (Inr ())) (\<lambda>_.
     attempt (attempt_each (global_settings (scGlobal cfg)) (import_setting (seDB env))) (\<lambda>_.
     attempt (import_profiles env e (go_range ord (scAuthProfiles cfg))) (\<lambda>ids.
     attempt_each (scPools cfg) (import_pool (seDB env) ids))))"

text \<open>
  A rolled-back transaction leaves the tables as they were; only the counters of the calls made so far, which
  are no data of the database, go on.
\<close>

definition rollback :: "config_db \<Rightarrow> (config_db, unit) state" where
  "rollback before = modify (\<lambda>s. before\<lparr>cbTables := (cbTables before)\<lparr>tTick := tTick (cbTables s)\<rparr>, cbTick := cbTick s\<rparr>)"

definition transaction :: "seed_env \<Rightarrow> (config_db, seed_error + 'a) state \<Rightarrow> (config_db, seed_error + 'a) state" where
  "transaction env body = do {
     n \<leftarrow> cb_tick;
     case seBegin env n of
       Some err \<Rightarrow> State_Monad.return (Inl (SeedTransaction err))
     | None \<Rightarrow> do {
         before \<leftarrow> gets (\<lambda>s. s);
         r \<leftarrow> body;
         case r of
           Inl err \<Rightarrow> do { rollback before; State_Monad.return (Inl err) }
         | Inr x \<Rightarrow> do {
             k \<leftarrow> cb_tick;
             case seCommit env k of
               Some err \<Rightarrow> do { rollback before; State_Monad.return (Inl (SeedTransaction err)) }
             | None \<Rightarrow> State_Monad.return (Inr x)
           }
       }
   }"

definition MarkSeedImported :: "db_env \<Rightarrow> (config_db, db_error + unit) state" where
  "MarkSeedImported env = SetAppSetting env AppSettingSeedImported ''true''"

definition ImportSeedConfig ::
  "seed_env \<Rightarrow> nat list \<Rightarrow> nat list \<Rightarrow> SeedConfig \<Rightarrow> string \<Rightarrow> (config_db, seed_error + unit) state" where
  "ImportSeedConfig env ord1 ord2 cfg mode =
     (case ceEncryptor (seCrypto env) of
        None \<Rightarrow> State_Monad.return (Inl SeedNoEncryptor)
      | Some e \<Rightarrow> (case Validate ord1 cfg of
          Some what \<Rightarrow> State_Monad.return (Inl (SeedInvalid what))
        | None \<Rightarrow> attempt (transaction env (import_all env e ord2 mode cfg)) (\<lambda>_. do {
            r \<leftarrow> MarkSeedImported (seDB env);
            State_Monad.return (case r of Inl err \<Rightarrow> Inl (SeedMark err) | Inr u \<Rightarrow> Inr ())
          })))"

definition ShouldAutoImportSeed :: "db_env \<Rightarrow> (config_db, db_error + bool) state" where
  "ShouldAutoImportSeed env = do {
     v \<leftarrow> GetAppSetting env AppSettingSeedImported;
     if v = Inr ''true'' then State_Monad.return (Inr False)
     else attempt (CountRunnerPools env) (\<lambda>poolsCount.
          attempt (CountAuthProfiles env) (\<lambda>profilesCount.
          State_Monad.return (Inr (poolsCount = 0 \<and> profilesCount = 0))))
   }"

section \<open>Export\<close>

text \<open>
  \<open>strconv.Atoi\<close> with its error ignored: 0 for a text that is no number, and the nearest value for one that is
  out of range, which is noticed before the rest of the text is read.
\<close>

fun uint_value :: "int \<Rightarrow> string \<Rightarrow> int option" where
  "uint_value acc [] = Some acc"
| "uint_value acc (c # s) =
     (case digit_val c of
        None \<Rightarrow> None
      | Some v \<Rightarrow> (let n = acc * 10 + v in if n \<ge> 2 ^ 64 then Some (2 ^ 64 - 1) else uint_value n s))"

definition atoi_value :: "string \<Rightarrow> int" where
  "atoi_value s =
     (let (neg, t) = (case s of [] \<Rightarrow> (False, [])
                      | c # r \<Rightarrow> if c = CHR ''-'' then (True, r)
                                 else if c = CHR ''+'' then (False, r) else (False, s))
      in if t = [] then 0
         else (case uint_value 0 t of None \<Rightarrow> 0 | Some n \<Rightarrow> sat64 (if neg then - n else n)))"

definition export_setting :: "string \<times> string \<Rightarrow> GlobalConfig \<Rightarrow> GlobalConfig" where
  "export_setting kv g =
     (let val = atoi_value (snd kv) in
      if fst kv = ''total_allowed_runners'' then g\<lparr>gcTotalAllowedRunners := val\<rparr>
      else if fst kv = ''total_idle_warm_pool'' then g\<lparr>gcTotalIdleWarmPool := val\<rparr>
      else if fst kv = ''shutdown_timeout_seconds'' then g\<lparr>gcShutdownTimeoutSeconds := val\<rparr>
      else if fst kv = ''job_retention_days'' then g\<lparr>gcJobRetentionDays := val\<rparr> else g)"

definition to_upper_char :: "char \<Rightarrow> char" where
  "to_upper_char c = (let n = byte c in if 97 \<le> n \<and> n \<le> 122 then char_of (n - 32) else c)"

definition token_variable :: "string \<Rightarrow> string" where
  "token_variable name = ''SUPERVISOR_'' @ map to_upper_char name @ ''_TOKEN''"

definition sanitized :: "auth_profile \<Rightarrow> SeedAuthProfile" where
  "sanitized p =
     (let var = (if column_set (apToken p) then token_variable (apName p) else []) in
      \<lparr>saAuthMethod = apMethod p, saAppID = (case apAppID p of None \<Rightarrow> 0 | Some i \<Rightarrow> i),
       saPrivateKeyPath = (if column_set (apPrivateKey p) then SanitizedRedactedPlaceholder else []), saPrivateKey = [],
       saGiteaTokenEnvVar = (if apMethod p = ''gitea_token'' then var else []),
       saForgejoTokenEnvVar = (if apMethod p = ''forgejo_token'' then var else []),
       saTokenEnvVar = (if apMethod p \<noteq> ''gitea_token'' \<and> apMethod p \<noteq> ''forgejo_token'' then var else []),
       saToken = []\<rparr>)"

definition export_pool :: "(int, string) gomap \<Rightarrow> RunnerPool \<Rightarrow> SeedRenovate option \<Rightarrow> SeedPool" where
  "export_pool nameByID p rv =
     \<lparr>spName = pName p, spProvider = pProvider p, spRepositoryURL = pRepositoryUrl p, spScope = pScope p,
      spAuthProfile = (case mget nameByID (pAuthProfileID p) of None \<Rightarrow> [] | Some n \<Rightarrow> n),
      spMinIdleRunners = pMinIdleRunners p, spMaxConcurrency = pMaxConcurrency p,
      spLabels = (case Unmarshal_strings (pLabels p) of None \<Rightarrow> [pLabels p] | Some ls \<Rightarrow> ls),
      spRunnerImage = pRunnerImage p, spAllowDocker = pAllowDocker p,
      spMaxRunnerLifetimeSeconds = pMaxRunnerLifetimeSeconds p,
      spCPULimit = null_string (pCpuLimit p), spMemoryLimit = null_string (pMemoryLimit p), spRenovate = rv\<rparr>"

fun export_pools :: "db_env \<Rightarrow> (int, string) gomap \<Rightarrow> RunnerPool list \<Rightarrow> (config_db, SeedPool list) state" where
  "export_pools env nameByID [] = State_Monad.return []"
| "export_pools env nameByID (p # ps) = do {
     r \<leftarrow> cb_tables (GetRenovateConfigByPoolId env (pID p));
     xs \<leftarrow> export_pools env nameByID ps;
     State_Monad.return (export_pool nameByID p (case r of
       Inl _ \<Rightarrow> None
     | Inr rv \<Rightarrow> Some \<lparr>srEnabled = rvEnabled rv, srCronSchedule = null_string (rvCronSchedule rv), srImage = rvImage rv\<rparr>) # xs)
   }"

definition ExportSanitizedConfig :: "db_env \<Rightarrow> (config_db, seed_error + SeedConfig) state" where
  "ExportSanitizedConfig env =
     attempt (naming ''listing app settings'' (ListAppSettings env)) (\<lambda>settings.
     attempt (naming ''listing auth profiles'' (ListAuthProfiles env)) (\<lambda>profiles.
     attempt (naming ''listing runner pools'' (cb_tables (ListRunnerPools env))) (\<lambda>pools. do {
       xs \<leftarrow> export_pools env (fold (\<lambda>p. mput (apID p) (apName p)) profiles []) pools;
       State_Monad.return (Inr \<lparr>scVersion = ''1.0'',
         scGlobal = fold export_setting settings \<lparr>gcTotalAllowedRunners = 0, gcTotalIdleWarmPool = 0, gcShutdownTimeoutSeconds = 0, gcJobRetentionDays = 0\<rparr>,
         scAuthProfiles = fold (\<lambda>p. mput (apName p) (sanitized p)) profiles [], scPools = xs\<rparr>)
     })))"

end
