(* ===== verification/Profile_Props.thy ===== *)
theory Profile_Props
  imports Profiles Pool_Props
begin

text \<open>
  The tables of profiles stay consistent with those of pools, what they store of credentials is encrypted,
  and a stored credential is read back.
\<close>

section \<open>Consistency\<close>

definition sealed_column :: "Encryptor \<Rightarrow> string option \<Rightarrow> bool" where
  "sealed_column e c \<longleftrightarrow> (case c of None \<Rightarrow> True | Some s \<Rightarrow> s \<noteq> [] \<and> (\<exists>x. x \<noteq> [] \<and> Decrypt e s = Inr x))"

definition profile_ok :: "Encryptor \<Rightarrow> auth_profile \<Rightarrow> bool" where
  "profile_ok e p \<longleftrightarrow> valid_method (apMethod p) \<and> sealed_column e (apPrivateKey p) \<and> sealed_column e (apToken p)"

definition profiles_ok :: "Encryptor \<Rightarrow> auth_profile list \<Rightarrow> int \<Rightarrow> bool" where
  "profiles_ok e ps k \<longleftrightarrow> distinct (map apID ps) \<and> distinct (map apName ps) \<and> (\<forall>p \<in> set ps. apID p < k \<and> profile_ok e p)"

definition config_ok :: "Encryptor \<Rightarrow> config_db \<Rightarrow> bool" where
  "config_ok e s \<longleftrightarrow> tables_ok (cbTables s) \<and> tProfiles (cbTables s) = map apID (cbProfiles s) \<and>
     profiles_ok e (cbProfiles s) (cbNextProfile s)"

lemma config_ok_frame [simp]:
  "config_ok e (s\<lparr>cbTick := n\<rparr>) = config_ok e s" "config_ok e (s\<lparr>cbSettings := m\<rparr>) = config_ok e s"
  "config_ok e (s\<lparr>cbTables := (cbTables s)\<lparr>tTick := n\<rparr>\<rparr>) = config_ok e s"
  by (simp_all add: config_ok_def tables_ok_frame)

lemma cb_tick_ok [keeps]: "preserves (config_ok e) cb_tick"
  unfolding cb_tick_def by (intro keeps preserves_modify) simp

lemma cb_statement_ok:
  assumes "\<And>s r s'. config_ok e s \<Longrightarrow> f s = (Inr r, s') \<Longrightarrow> config_ok e s'"
  shows "preserves (config_ok e) (cb_statement env f)"
proof (rule preservesI)
  fix s assume ok: "config_ok e s"
  then show "config_ok e (exec (cb_statement env f) s)"
    using assms [of "s\<lparr>cbTables := (cbTables s)\<lparr>tTick := Suc (tTick (cbTables s))\<rparr>\<rparr>"]
    by (auto simp: cb_statement_def exec_def Let_def split: option.splits prod.splits sum.splits)
qed

text \<open>A computation on the tables of pools that leaves the profile ids alone.\<close>

definition leaves_profiles :: "(pool_tables, 'a) state \<Rightarrow> bool" where
  "leaves_profiles m \<longleftrightarrow> (\<forall>ps. preserves (\<lambda>t. tables_ok t \<and> tProfiles t = ps) m)"

lemma leavesI:
  "preserves tables_ok m \<Longrightarrow> (\<And>ps. preserves (\<lambda>t. tProfiles t = ps) m) \<Longrightarrow> leaves_profiles m"
  by (simp add: leaves_profiles_def preserves_conj)

lemma cb_tables_ok [keeps]:
  assumes "leaves_profiles m" shows "preserves (config_ok e) (cb_tables m)"
proof (rule preservesI)
  fix s assume ok: "config_ok e s"
  obtain a t' where run: "run_state m (cbTables s) = (a, t')" by fastforce
  have "preserves (\<lambda>t. tables_ok t \<and> tProfiles t = map apID (cbProfiles s)) m" using assms by (simp add: leaves_profiles_def)
  from preservesD [OF this, of "cbTables s"] ok run have "tables_ok t' \<and> tProfiles t' = map apID (cbProfiles s)"
    by (simp add: config_ok_def exec_def)
  with ok run show "config_ok e (exec (cb_tables m) s)" by (simp add: cb_tables_def exec_def config_ok_def Let_def)
qed

lemma statement_stays:
  assumes "\<And>now t r t'. f now t = (Inr r, t') \<Longrightarrow> tProfiles t' = tProfiles (t :: pool_tables)"
  shows "preserves (\<lambda>t. tProfiles t = ps) (statement env f)"
proof (rule preservesI)
  fix t :: pool_tables assume "tProfiles t = ps"
  then show "tProfiles (exec (statement env f) t) = ps"
    using assms [of "dbClock env (tTick t)" "t\<lparr>tTick := Suc (tTick t)\<rparr>"]
    by (auto simp: statement_def exec_def Let_def split: option.splits prod.splits sum.splits)
qed

lemma leaves_bind [keeps]: "leaves_profiles m \<Longrightarrow> (\<And>a. leaves_profiles (k a)) \<Longrightarrow> leaves_profiles (State_Monad.bind m k)"
  unfolding leaves_profiles_def by (auto intro: preserves_bind)

lemma leaves_skip [keeps]: "leaves_profiles skip" "leaves_profiles (State_Monad.return x)"
  by (auto simp: leaves_profiles_def intro!: keeps)

lemma pool_queries_stay:
  "preserves (\<lambda>t. tProfiles t = ps) (ListRunnerPools env)" "preserves (\<lambda>t. tProfiles t = ps) (CreateAuditLog env row)"
  "preserves (\<lambda>t. tProfiles t = ps) (CreateRunnerPool env p)" "preserves (\<lambda>t. tProfiles t = ps) (UpdateRunnerPool env p)"
  "preserves (\<lambda>t. tProfiles t = ps) (DeleteRunnerPool env i)" "preserves (\<lambda>t. tProfiles t = ps) (AddPoolTarget env i url)"
  "preserves (\<lambda>t. tProfiles t = ps) (ListPoolTargetsByPoolId env i)" "preserves (\<lambda>t. tProfiles t = ps) (GetRenovateConfigByPoolId env i)"
  "preserves (\<lambda>t. tProfiles t = ps) (CreateRenovateConfig env rv)" "preserves (\<lambda>t. tProfiles t = ps) (UpdateRenovateConfig env rv)"
  unfolding ListRunnerPools_def CreateAuditLog_def CreateRunnerPool_def UpdateRunnerPool_def DeleteRunnerPool_def
    AddPoolTarget_def ListPoolTargetsByPoolId_def GetRenovateConfigByPoolId_def CreateRenovateConfig_def UpdateRenovateConfig_def
  by (rule statement_stays; auto simp: Let_def split: if_splits option.splits)+

lemma leaves_pool_queries [keeps]:
  "leaves_profiles (ListRunnerPools env)" "leaves_profiles (CreateAuditLog env row)"
  "leaves_profiles (CreateRunnerPool env p)" "leaves_profiles (UpdateRunnerPool env p)" "leaves_profiles (DeleteRunnerPool env i)"
  "leaves_profiles (AddPoolTarget env i url)" "leaves_profiles (ListPoolTargetsByPoolId env i)"
  "leaves_profiles (GetRenovateConfigByPoolId env i)" "leaves_profiles (CreateRenovateConfig env rv)"
  "leaves_profiles (UpdateRenovateConfig env rv)"
  by (rule leavesI; intro keeps pool_queries_stay)+

lemma leaves_audit [keeps]: "leaves_profiles (RecordAuditLogWithUser env user action rt ri ds)"
  unfolding RecordAuditLogWithUser_def by (intro keeps)

lemma profile_reads_ok [keeps]:
  "preserves (config_ok e) (ListAuthProfiles env)" "preserves (config_ok e) (GetAuthProfileById env i)"
  "preserves (config_ok e) (GetAuthProfileByName env name)" "preserves (config_ok e) (CountAuthProfiles env)"
  "preserves (config_ok e) (CountRunnerPools env)" "preserves (config_ok e) (count_admins env)"
  "preserves (config_ok e) (GetAppSetting env key)" "preserves (config_ok e) (ListAppSettings env)"
  "preserves (config_ok e) (SetAppSetting env key val)"
  unfolding ListAuthProfiles_def GetAuthProfileById_def GetAuthProfileByName_def CountAuthProfiles_def CountRunnerPools_def
    count_admins_def GetAppSetting_def ListAppSettings_def SetAppSetting_def
  by (rule cb_statement_ok; auto)+

section \<open>Changes of profiles\<close>

lemma tables_ok_profiles:
  "tables_ok t \<Longrightarrow> pAuthProfileID ` set (tPools t) \<subseteq> set ps \<Longrightarrow> tables_ok (t\<lparr>tProfiles := ps\<rparr>)"
  by (auto simp: tables_ok_def)

lemma tables_ok_pool_profiles: "tables_ok t \<Longrightarrow> pAuthProfileID ` set (tPools t) \<subseteq> set (tProfiles t)"
  by (auto simp: tables_ok_def)

lemma profiles_ok_append:
  "profiles_ok e ps k \<Longrightarrow> profile_ok e p \<Longrightarrow> apID p = k \<Longrightarrow> apName p \<notin> apName ` set ps \<Longrightarrow> profiles_ok e (ps @ [p]) (k + 1)"
  by (auto simp: profiles_ok_def)

lemma CreateAuthProfile_ok: "profile_ok e arg \<or> \<not> valid_method (apMethod arg) \<Longrightarrow> preserves (config_ok e) (CreateAuthProfile env arg)"
  unfolding CreateAuthProfile_def
proof (rule cb_statement_ok, goal_cases)
  case (1 s r s')
  then have ok: "tables_ok (cbTables s)" "tProfiles (cbTables s) = map apID (cbProfiles s)"
      "profiles_ok e (cbProfiles s) (cbNextProfile s)" and arg: "profile_ok e arg" "apName arg \<notin> apName ` set (cbProfiles s)"
    and s': "s' = s\<lparr>cbProfiles := cbProfiles s @ [arg\<lparr>apID := cbNextProfile s\<rparr>], cbNextProfile := cbNextProfile s + 1,
        cbTables := (cbTables s)\<lparr>tProfiles := tProfiles (cbTables s) @ [cbNextProfile s]\<rparr>\<rparr>"
    by (auto simp: config_ok_def Let_def split: if_splits)
  have "profiles_ok e (cbProfiles s @ [arg\<lparr>apID := cbNextProfile s\<rparr>]) (cbNextProfile s + 1)"
    using ok(3) arg by (intro profiles_ok_append) (auto simp: profile_ok_def)
  moreover have "tables_ok ((cbTables s)\<lparr>tProfiles := tProfiles (cbTables s) @ [cbNextProfile s]\<rparr>)"
    using ok(1) tables_ok_pool_profiles [OF ok(1)] by (intro tables_ok_profiles) auto
  ultimately show ?case using ok(2) by (simp add: s' config_ok_def)
qed

lemma map_replaced: "map apID (map (\<lambda>p. if apID p = apID arg then arg else p) ps) = map apID ps"
  by (induction ps) auto

lemma distinct_replaced_profiles:
  assumes "distinct (map apID ps)" "distinct (map apName ps)" "\<forall>p \<in> set ps. apID p \<noteq> apID arg \<longrightarrow> apName p \<noteq> apName arg"
  shows "distinct (map apName (map (\<lambda>p. if apID p = apID arg then arg else p) ps))"
  using assms by (induction ps) (auto simp: image_iff)

lemma UpdateAuthProfile_ok: "profile_ok e arg \<or> \<not> valid_method (apMethod arg) \<Longrightarrow> preserves (config_ok e) (UpdateAuthProfile env arg)"
  unfolding UpdateAuthProfile_def
proof (rule cb_statement_ok, goal_cases)
  case (1 s r s')
  let ?new = "map (\<lambda>p. if apID p = apID arg then arg else p) (cbProfiles s)"
  from 1 have ok: "tables_ok (cbTables s)" "tProfiles (cbTables s) = map apID (cbProfiles s)"
      "profiles_ok e (cbProfiles s) (cbNextProfile s)" and arg: "profile_ok e arg" "apID arg \<in> apID ` set (cbProfiles s)"
      "\<forall>p \<in> set (cbProfiles s). apID p \<noteq> apID arg \<longrightarrow> apName p \<noteq> apName arg"
    and s': "s' = s\<lparr>cbProfiles := ?new\<rparr>"
    by (auto simp: config_ok_def split: if_splits)
  have "\<forall>p \<in> set ?new. apID p < cbNextProfile s \<and> profile_ok e p" using ok(3) arg by (auto simp: profiles_ok_def)
  moreover have "distinct (map apName ?new)"
    using ok(3) arg(3) by (intro distinct_replaced_profiles) (auto simp: profiles_ok_def)
  moreover have "distinct (map apID ?new)" unfolding map_replaced using ok(3) by (simp add: profiles_ok_def)
  ultimately have "profiles_ok e ?new (cbNextProfile s)" unfolding profiles_ok_def by blast
  then show ?case using ok(1,2) map_replaced [of arg "cbProfiles s"] by (simp add: s' config_ok_def del: map_map)
qed

lemma DeleteAuthProfile_ok [keeps]: "preserves (config_ok e) (DeleteAuthProfile env i)"
  unfolding DeleteAuthProfile_def
proof (rule cb_statement_ok, goal_cases)
  case (1 s r s')
  then have ok: "tables_ok (cbTables s)" "tProfiles (cbTables s) = map apID (cbProfiles s)"
      "profiles_ok e (cbProfiles s) (cbNextProfile s)" and i: "i \<notin> pAuthProfileID ` set (tPools (cbTables s))"
    and s': "s' = s\<lparr>cbProfiles := filter (\<lambda>p. apID p \<noteq> i) (cbProfiles s),
        cbTables := (cbTables s)\<lparr>tProfiles := filter (\<lambda>j. j \<noteq> i) (tProfiles (cbTables s))\<rparr>\<rparr>"
    by (auto simp: config_ok_def split: if_splits)
  have "tables_ok ((cbTables s)\<lparr>tProfiles := filter (\<lambda>j. j \<noteq> i) (tProfiles (cbTables s))\<rparr>)"
    using ok(1) i tables_ok_pool_profiles [OF ok(1)] by (intro tables_ok_profiles) auto
  moreover have "profiles_ok e (filter (\<lambda>p. apID p \<noteq> i) (cbProfiles s)) (cbNextProfile s)"
    using ok(3) by (auto simp: profiles_ok_def distinct_map_filter)
  ultimately show ?case using ok(2) by (simp add: s' config_ok_def filter_map o_def)
qed

section \<open>The profile service\<close>

definition nonces_ok :: "(nat \<Rightarrow> string + string) \<Rightarrow> bool" where
  "nonces_ok rand \<longleftrightarrow> (\<forall>n x. rand n = Inr x \<longrightarrow> length x = 12)"

lemma package_Encrypt_sealed:
  assumes "package_Encrypt key r x = Inr c" "\<And>n. r = Inr n \<Longrightarrow> length n = 12" "x \<noteq> []"
  shows "c \<noteq> [] \<and> Decrypt \<lparr>encKey = key\<rparr> c = Inr x"
proof -
  from assms(1) have enc: "Encrypt \<lparr>encKey = key\<rparr> r x = Inr c"
    by (auto simp: package_Encrypt_def NewEncryptor_def split: if_splits sum.splits)
  then obtain n where n: "r = Inr n" using assms(3) by (auto simp: Encrypt_def split: sum.splits)
  with assms(2) have "length n = 12" by blast
  moreover from this enc n have "Decrypt \<lparr>encKey = key\<rparr> c = Inr x" by (intro Decrypt_Encrypt) simp_all
  ultimately show ?thesis using enc n assms(3) by (auto simp: Encrypt_def)
qed

lemma seal_secret_run:
  assumes "run_state (seal_secret env x) s = (Inr c, s')" "nonces_ok (peRand env)"
  shows "sealed_column \<lparr>encKey = peKey env\<rparr> c \<and> Decrypt \<lparr>encKey = peKey env\<rparr> (null_string c) = Inr x \<and> cbProfiles s' = cbProfiles s"
proof (cases "x = []")
  case True
  then show ?thesis using assms(1) by (auto simp: seal_secret_def sealed_column_def null_string_def Decrypt_def)
next
  case False
  with assms(1) obtain d where c: "c = Some d" "package_Encrypt (peKey env) (peRand env (cbTick s)) x = Inr d" "cbProfiles s' = cbProfiles s"
    by (auto simp: seal_secret_def cb_tick_def split: if_splits sum.splits)
  with package_Encrypt_sealed [OF c(2)] assms(2) False show ?thesis
    by (auto simp: nonces_ok_def sealed_column_def null_string_def)
qed

lemma seal_secret_ok:
  assumes "nonces_ok (peRand env)"
  shows "hoare (config_ok e) (seal_secret env x) (\<lambda>r s. config_ok e s \<and> (\<forall>c. r = Inr c \<longrightarrow> sealed_column \<lparr>encKey = peKey env\<rparr> c))"
proof (rule hoareI)
  fix s r s' assume ok: "config_ok e s" and run: "run_state (seal_secret env x) s = (r, s')"
  have "preserves (config_ok e) (seal_secret env x)" unfolding seal_secret_def by (intro keeps)
  from preservesD [OF this ok] run have "config_ok e s'" by (simp add: exec_def)
  moreover have "sealed_column \<lparr>encKey = peKey env\<rparr> c" if "r = Inr c" for c using seal_secret_run run that assms by blast
  ultimately show "config_ok e s' \<and> (\<forall>c. r = Inr c \<longrightarrow> sealed_column \<lparr>encKey = peKey env\<rparr> c)" by blast
qed

lemma metadata_ok [keeps]: "preserves (config_ok e) (populateAppMetadata env proto p)" "preserves (config_ok e) (metadata_each env ps)"
proof -
  show m: "preserves (config_ok e) (populateAppMetadata env proto p)" for proto p
    unfolding populateAppMetadata_def by (intro keeps)
  show "preserves (config_ok e) (metadata_each env ps)" by (induction ps) (auto intro!: keeps m)
qed

lemma store_profile_ok:
  assumes "sealed_column e k" "sealed_column e t"
  shows "preserves (config_ok e) (store_profile env user req k t)"
proof -
  have "preserves (config_ok e) (CreateAuthProfile (peDB env) \<lparr>apID = 0, apName = n, apMethod = m, apAppID = a, apPrivateKey = k, apToken = t\<rparr>)" for n m a
    using assms by (intro CreateAuthProfile_ok) (simp add: profile_ok_def)
  then show ?thesis unfolding store_profile_def by (intro keeps)
qed

lemma preserves_bind_result:
  assumes "hoare I m (\<lambda>r s. I s \<and> (\<forall>c. r = Inr c \<longrightarrow> Q c))" "\<And>err. preserves I (g err)" "\<And>c. Q c \<Longrightarrow> preserves I (h c)"
  shows "preserves I (do { r \<leftarrow> m; case r of Inl err \<Rightarrow> g err | Inr c \<Rightarrow> h c })"
  unfolding preserves_def
proof (rule hoare_bind [OF assms(1)])
  fix r
  show "hoare (\<lambda>s. I s \<and> (\<forall>c. r = Inr c \<longrightarrow> Q c)) (case r of Inl err \<Rightarrow> g err | Inr c \<Rightarrow> h c) (\<lambda>_. I)"
    using assms(2,3) by (cases r) (fastforce simp: preserves_def hoare_def)+
qed

lemma CreateAuthProfile_api_ok:
  assumes "nonces_ok (peRand env)"
  shows "preserves (config_ok \<lparr>encKey = peKey env\<rparr>) (CreateAuthProfile_api env user msg)"
proof -
  have "preserves (config_ok \<lparr>encKey = peKey env\<rparr>) (validate_credentials env req)" for req
    unfolding validate_credentials_def by (intro keeps)
  then show ?thesis unfolding CreateAuthProfile_api_def
    by (intro preserves_bind_result [OF seal_secret_ok [OF assms]] store_profile_ok keeps)
qed

text \<open>
  C28. Profiles stay consistent and encrypted. Every request to the profile and settings services, whatever
  statement or nonce fails, keeps: profile ids and names unique and known methods only; every pool's profile
  stored, so that a profile in use cannot be deleted; and every stored credential column null or the
  encryption, under the service's key, of a credential that is not empty.
\<close>

theorem profiles_stay_encrypted:
  assumes "config_ok \<lparr>encKey = peKey env\<rparr> s" and "nonces_ok (peRand env)"
    and "s' \<in> {exec (CreateAuthProfile_api env user msg) s, exec (DeleteAuthProfile_api env user i) s,
      exec (ListAuthProfiles_api env) s, exec (GetOnboardingStatus (peDB env)) s, exec (CompleteOnboarding (peDB env) user) s,
      exec (GetAppSettings (peDB env)) s, exec (SetAppSetting_api (peDB env) user key val) s}"
  shows "config_ok \<lparr>encKey = peKey env\<rparr> s'"
proof -
  let ?I = "config_ok \<lparr>encKey = peKey env\<rparr>"
  have "preserves ?I (DeleteAuthProfile_api env user i)" "preserves ?I (ListAuthProfiles_api env)"
    "preserves ?I (GetOnboardingStatus (peDB env))" "preserves ?I (CompleteOnboarding (peDB env) user)"
    "preserves ?I (GetAppSettings (peDB env))" "preserves ?I (SetAppSetting_api (peDB env) user key val)"
    unfolding DeleteAuthProfile_api_def ListAuthProfiles_api_def GetOnboardingStatus_def CompleteOnboarding_def
      GetAppSettings_def SetAppSetting_api_def
    by (intro keeps)+
  then show ?thesis using assms CreateAuthProfile_api_ok preservesD by (metis insertE emptyE)
qed

lemma run_cb_statement:
  "dbFail env (tTick (cbTables s)) = None \<Longrightarrow>
   run_state (cb_statement env f) s =
     (let s1 = s\<lparr>cbTables := (cbTables s)\<lparr>tTick := Suc (tTick (cbTables s))\<rparr>\<rparr>; (r, s') = f s1
      in (r, case r of Inl _ \<Rightarrow> s1 | Inr _ \<Rightarrow> s'))"
  by (auto simp: cb_statement_def Let_def split: prod.splits sum.splits)

lemma profiles_kept [keeps]:
  "preserves (\<lambda>s. cbProfiles s = ps) cb_tick" "preserves (\<lambda>s. cbProfiles s = ps) (cb_tables m)"
  by (auto simp: cb_tick_def cb_tables_def preserves_def hoare_def Let_def split: prod.splits)

lemma metadata_keeps: "preserves (\<lambda>s. cbProfiles s = ps) (populateAppMetadata env proto p)"
  unfolding populateAppMetadata_def by (intro keeps)

lemma metadata_id: "fpId (fst (run_state (populateAppMetadata env proto p) s)) = fpId proto"
  by (auto simp: populateAppMetadata_def cb_tick_def split: option.splits sum.splits)

lemma CreateAuthProfile_run:
  "run_state (CreateAuthProfile env arg) s = (Inr p, s') \<Longrightarrow>
   p = arg\<lparr>apID := cbNextProfile s\<rparr> \<and> cbProfiles s' = cbProfiles s @ [p] \<and> apName arg \<notin> apName ` set (cbProfiles s)"
  by (auto simp: CreateAuthProfile_def cb_statement_def Let_def split: option.splits if_splits sum.splits prod.splits)

lemma find_snoc: "\<forall>x \<in> set xs. \<not> P x \<Longrightarrow> P y \<Longrightarrow> find P (xs @ [y]) = Some y"
  by (induction xs) auto

lemma store_profile_run:
  assumes "run_state (store_profile env user req k t) s = (Inr proto, s')"
  shows "\<exists>p. cbProfiles s' = cbProfiles s @ [p] \<and> apName p = TrimSpace (crName req) \<and> apName p \<notin> apName ` set (cbProfiles s) \<and>
    apMethod p = lower_trim (crAuthMethod req) \<and> apPrivateKey p = k \<and> apToken p = t \<and> apID p = fpId proto"
proof -
  define row where "row = \<lparr>apID = 0, apName = TrimSpace (crName req), apMethod = lower_trim (crAuthMethod req),
        apAppID = (if crAppId req > 0 then Some (crAppId req) else None), apPrivateKey = k, apToken = t\<rparr>"
  obtain r s1 where r: "run_state (CreateAuthProfile (peDB env) row) s = (r, s1)" by fastforce
  with assms obtain p where p: "r = Inr p" by (cases r) (auto simp: store_profile_def row_def)
  define audit where "audit = cb_tables (RecordAuditLogWithUser (peDB env) user ''auth_profile.create'' ''auth_profile'' (Some (apID p))
           [(''name'', DString (apName p)), (''auth_method'', DString (apMethod p))])"
  have "cbProfiles (exec audit s1) = cbProfiles s1"
    using preservesD [OF profiles_kept(2), of s1 "cbProfiles s1"] unfolding audit_def by blast
  moreover have "run_state (populateAppMetadata env (toAuthProfileProto p) p) (exec audit s1) = (proto, s')"
    using assms r p unfolding store_profile_def row_def audit_def exec_def by (auto split: prod.splits)
  then have "cbProfiles s' = cbProfiles (exec audit s1)" "fpId proto = fpId (toAuthProfileProto p)"
    using preservesD [OF metadata_keeps, of "exec audit s1" "cbProfiles (exec audit s1)" env "toAuthProfileProto p" p]
      metadata_id [of env "toAuthProfileProto p" p "exec audit s1"] by (simp_all add: exec_def)
  ultimately show ?thesis using CreateAuthProfile_run [OF r [unfolded p]] by (auto simp: row_def toAuthProfileProto_def)
qed

text \<open>
  C29. Stored credentials are read back. When a profile has been created through the API, looking it up by
  its name in a database that uses the same key yields that profile with exactly the private key and the
  trimmed token that were sent, under the id that was answered, as long as the lookup itself does not fail.
\<close>

theorem profile_credentials_read_back:
  assumes "run_state (CreateAuthProfile_api env user (Some req)) s = (Inr proto, s')"
    and "nonces_ok (peRand env)" and "ceEncryptor crypto = Some \<lparr>encKey = peKey env\<rparr>"
    and "dbFail dbe (tTick (cbTables s')) = None"
  shows "\<exists>p. fst (run_state (GetDecryptedAuthProfileByName dbe crypto (TrimSpace (crName req))) s') =
      Inr (p, crPrivateKey req, TrimSpace (crToken req)) \<and>
    apID p = fpId proto \<and> apMethod p = lower_trim (crAuthMethod req) \<and> p \<in> set (cbProfiles s')"
proof -
  obtain v s0 where v: "run_state (validate_credentials env req) s = (v, s0)" by fastforce
  obtain k s1 where k: "run_state (seal_secret env (crPrivateKey req)) s0 = (k, s1)" by fastforce
  obtain t s2 where t: "run_state (seal_secret env (TrimSpace (crToken req))) s1 = (t, s2)" by fastforce
  from assms(1) v k t obtain encPriv encTok where enc: "k = Inr encPriv" "t = Inr encTok"
    and run: "run_state (store_profile env user req encPriv encTok) s2 = (Inr proto, s')"
    by (auto simp: CreateAuthProfile_api_def split: option.splits sum.splits)
  obtain p where p: "cbProfiles s' = cbProfiles s2 @ [p]" "apName p = TrimSpace (crName req)" "apName p \<notin> apName ` set (cbProfiles s2)"
      "apMethod p = lower_trim (crAuthMethod req)" "apPrivateKey p = encPriv" "apToken p = encTok" "apID p = fpId proto"
    using store_profile_run [OF run] by blast
  then have "\<forall>q \<in> set (cbProfiles s2). apName q \<noteq> TrimSpace (crName req)" by (metis imageI)
  then have find: "find (\<lambda>q. apName q = TrimSpace (crName req)) (cbProfiles s') = Some p"
    unfolding p(1) using p(2) by (intro find_snoc)
  have "Decrypt \<lparr>encKey = peKey env\<rparr> (null_string (apPrivateKey p)) = Inr (crPrivateKey req)"
    "Decrypt \<lparr>encKey = peKey env\<rparr> (null_string (apToken p)) = Inr (TrimSpace (crToken req))"
    using seal_secret_run [OF k [unfolded enc] assms(2)] seal_secret_run [OF t [unfolded enc] assms(2)] p(5,6) by simp_all
  then have "decrypted \<lparr>encKey = peKey env\<rparr> p = Inr (p, crPrivateKey req, TrimSpace (crToken req))" by (simp add: decrypted_def)
  then have "fst (run_state (GetDecryptedAuthProfileByName dbe crypto (TrimSpace (crName req))) s') =
      Inr (p, crPrivateKey req, TrimSpace (crToken req))"
    using assms(3,4) find
    by (simp add: GetDecryptedAuthProfileByName_def get_decrypted_def GetAuthProfileByName_def run_cb_statement Let_def)
  then show ?thesis using p by auto
qed

section \<open>Witnesses\<close>

definition ex_db_env :: db_env where "ex_db_env = \<lparr>dbFail = (\<lambda>n. None), dbClock = (\<lambda>n. 0)\<rparr>"

definition ex_profile_env :: profile_env where
  "ex_profile_env = \<lparr>peDB = ex_db_env, peKey = replicate 32 CHR ''k'', peRand = (\<lambda>n. Inr (replicate 12 CHR ''n'')),
     peValidator = None, peMetadata = (\<lambda>n p k. None)\<rparr>"

definition ex_config :: config_db where
  "ex_config = \<lparr>cbTables = \<lparr>tPools = [], tTargets = [], tRenovate = [], tProfiles = [], tAudit = [], tNextPool = 1,
       tNextTarget = 1, tTick = 0, tReloads = 0\<rparr>,
     cbProfiles = [], cbSettings = [], cbNextProfile = 1, cbAdmins = 1, cbTick = 0\<rparr>"

definition ex_profile_request :: create_request where
  "ex_profile_request = \<lparr>crName = ''ci'', crAuthMethod = ''PAT'', crAppId = 0, crPrivateKey = [], crToken = '' secret ''\<rparr>"

lemma ex_nonces: "nonces_ok (peRand ex_profile_env)"
  by (simp add: nonces_ok_def ex_profile_env_def)

lemma ex_config_ok: "config_ok e ex_config"
  by (simp add: config_ok_def ex_config_def tables_ok_def profiles_ok_def)

theorem profiles_stay_encrypted_witness:
  "config_ok \<lparr>encKey = peKey ex_profile_env\<rparr> (exec (CreateAuthProfile_api ex_profile_env None (Some ex_profile_request)) ex_config)"
  using profiles_stay_encrypted [OF ex_config_ok ex_nonces,
      of "exec (CreateAuthProfile_api ex_profile_env None (Some ex_profile_request)) ex_config" None "Some ex_profile_request"]
  by simp

theorem profile_credentials_read_back_witness:
  "\<exists>s p. fst (run_state (GetDecryptedAuthProfileByName ex_db_env
      \<lparr>ceEncryptor = Some \<lparr>encKey = peKey ex_profile_env\<rparr>, ceRand = peRand ex_profile_env\<rparr> ''ci'') s) = Inr (p, [], ''secret'')"
proof -
  let ?run = "run_state (CreateAuthProfile_api ex_profile_env None (Some ex_profile_request)) ex_config"
  have low: "lower_trim ''PAT'' = ''pat''" by code_simp
  have "\<exists>proto. fst ?run = Inr proto"
    by (simp add: CreateAuthProfile_api_def validateCreateAuthProfileRequest_def ex_profile_request_def low
        validate_credentials_def seal_secret_def ex_profile_env_def package_Encrypt_def NewEncryptor_def Encrypt_def
        cb_tick_def store_profile_def CreateAuthProfile_def run_cb_statement ex_db_env_def ex_config_def Let_def valid_method_def
        populateAppMetadata_def go_simps split: prod.split)
  then obtain proto s' where run: "?run = (Inr proto, s')" by (metis prod.exhaust_sel)
  have "TrimSpace (crName ex_profile_request) = ''ci''" "TrimSpace (crToken ex_profile_request) = ''secret''" "crPrivateKey ex_profile_request = []"
    by (simp_all add: ex_profile_request_def go_simps)
  moreover have "ceEncryptor \<lparr>ceEncryptor = Some \<lparr>encKey = peKey ex_profile_env\<rparr>, ceRand = peRand ex_profile_env\<rparr> =
      Some \<lparr>encKey = peKey ex_profile_env\<rparr>" "dbFail ex_db_env (tTick (cbTables s')) = None"
    by (simp_all add: ex_db_env_def)
  ultimately show ?thesis using profile_credentials_read_back [OF run ex_nonces] by metis
qed

end
