(* ===== verification/Seed_Props.thy ===== *)
theory Seed_Props
  imports Seed Profile_Props
begin

text \<open>
  An import is all or nothing and keeps the tables consistent and encrypted; merging keeps the credentials
  that the configuration does not name; an export depends on no credential.
\<close>

section \<open>Consistency\<close>

lemma attempt_ok [keeps]: "preserves I m \<Longrightarrow> (\<And>x. preserves I (k x)) \<Longrightarrow> preserves I (attempt m k)"
  unfolding attempt_def by (intro keeps)

lemma attempt_each_ok [keeps]: "(\<And>x. preserves I (f x)) \<Longrightarrow> preserves I (attempt_each xs f)"
  by (induction xs) (auto intro!: keeps)

lemma naming_ok [keeps]: "preserves I m \<Longrightarrow> preserves I (naming what m)"
  unfolding naming_def by (intro keeps)

lemma preserves_run: "preserves I m \<Longrightarrow> run_state m s = (r, s') \<Longrightarrow> I s \<Longrightarrow> I s'"
  by (auto simp: preserves_def hoare_def split: prod.splits)

lemma GetRunnerPoolByName_leaves [keeps]: "leaves_profiles (GetRunnerPoolByName env name)"
proof (rule leavesI)
  show "preserves tables_ok (GetRunnerPoolByName env name)"
    unfolding GetRunnerPoolByName_def by (rule statement_ok) (auto split: option.splits)
  show "preserves (\<lambda>t. tProfiles t = ps) (GetRunnerPoolByName env name)" for ps
    unfolding GetRunnerPoolByName_def by (rule statement_stays) (auto split: option.splits)
qed

lemma attempt_result:
  assumes "hoare I m (\<lambda>r s. I s \<and> (\<forall>c. r = Inr c \<longrightarrow> Q c))" "\<And>c. Q c \<Longrightarrow> preserves I (k c)"
  shows "preserves I (attempt m k)"
  unfolding attempt_def using assms by (intro preserves_bind_result keeps)

lemma hoare_of_preserves:
  "preserves I m \<Longrightarrow> (\<And>s r s'. I s \<Longrightarrow> run_state m s = (r, s') \<Longrightarrow> R r) \<Longrightarrow> hoare I m (\<lambda>r s. I s \<and> R r)"
  by (fastforce simp: preserves_def hoare_def)

lemma encrypt_column_sealed:
  assumes "run_state (encrypt_column rand e raw) s = (Inr c, s')" "nonces_ok rand"
  shows "sealed_column e c"
proof (cases "raw = []")
  case True
  then show ?thesis using assms(1) by (auto simp: encrypt_column_def cb_tick_def EncryptNullString_def sealed_column_def)
next
  case False
  with assms(1) obtain d where c: "c = Some d" "Encrypt e (rand (cbTick s)) raw = Inr d"
    by (auto simp: encrypt_column_def cb_tick_def EncryptNullString_def split: sum.splits)
  then obtain n where n: "rand (cbTick s) = Inr n" using False by (auto simp: Encrypt_def split: sum.splits)
  then have "length n = 12" using assms(2) by (auto simp: nonces_ok_def)
  with c(2) n have "Decrypt e d = Inr raw" by (intro Decrypt_Encrypt) simp_all
  moreover have "d \<noteq> []" using c(2) n False \<open>length n = 12\<close> by (auto simp: Encrypt_def)
  ultimately show ?thesis using False c(1) by (auto simp: sealed_column_def)
qed

lemma seed_column_ok:
  assumes "nonces_ok (ceRand crypto)"
  shows "hoare (config_ok e) (seed_column crypto e' raw) (\<lambda>r s. config_ok e s \<and> (\<forall>c. r = Inr c \<longrightarrow> sealed_column e' c))"
proof (rule hoare_of_preserves)
  show "preserves (config_ok e) (seed_column crypto e' raw)"
    unfolding seed_column_def encrypt_column_def by (intro keeps)
  fix s r s' assume "run_state (seed_column crypto e' raw) s = (r, s')"
  then have "run_state (encrypt_column (ceRand crypto) e' raw) s = (Inr c, s')" if "r = Inr c" for c
    using that by (auto simp: seed_column_def split: prod.splits sum.splits)
  then show "\<forall>c. r = Inr c \<longrightarrow> sealed_column e' c" using encrypt_column_sealed [OF _ assms] by blast
qed

lemma lookup_profile_ok:
  "hoare (config_ok e) (GetAuthProfileByName env name) (\<lambda>r s. config_ok e s \<and> (\<forall>p. r = Inr p \<longrightarrow> profile_ok e p))"
proof (rule hoare_of_preserves)
  fix s r s' assume "config_ok e s" "run_state (GetAuthProfileByName env name) s = (r, s')"
  then show "\<forall>p. r = Inr p \<longrightarrow> profile_ok e p"
    by (auto simp: GetAuthProfileByName_def cb_statement_def config_ok_def profiles_ok_def Let_def find_Some_iff
        split: option.splits sum.splits)
qed (rule keeps)

lemma keep_column_sealed: "sealed_column e a \<Longrightarrow> sealed_column e b \<Longrightarrow> sealed_column e (keep_column a b)"
  by (auto simp: keep_column_def)

lemma store_profile_row_ok:
  assumes "sealed_column e k" "sealed_column e t"
  shows "preserves (config_ok e) (store_profile_row env name prof k t)"
proof -
  have row: "profile_ok e p \<or> \<not> valid_method (apMethod p)" if "sealed_column e (apPrivateKey p)" "sealed_column e (apToken p)" for p
    using that by (simp add: profile_ok_def)
  show ?thesis unfolding store_profile_row_def Let_def
    by (intro preserves_bind_result [OF lookup_profile_ok] CreateAuthProfile_ok UpdateAuthProfile_ok row keeps)
      (use assms in \<open>auto simp: profile_ok_def intro!: keep_column_sealed\<close>)
qed

lemma import_profile_ok: "nonces_ok (ceRand (seCrypto env)) \<Longrightarrow> preserves (config_ok e) (import_profile env e np)"
  unfolding import_profile_def
  by (intro attempt_result [OF seed_column_ok] store_profile_row_ok keeps)

lemma import_profiles_ok: "nonces_ok (ceRand (seCrypto env)) \<Longrightarrow> preserves (config_ok e) (import_profiles env e nps)"
  by (induction nps) (auto intro!: keeps import_profile_ok)

lemma import_pool_ok [keeps]: "preserves (config_ok e) (import_pool env ids pool)"
  unfolding import_pool_def profile_id_def store_pool_row_def ensure_target_def store_renovate_def Let_def
  by (intro keeps)

lemma import_all_ok: "nonces_ok (ceRand (seCrypto env)) \<Longrightarrow> preserves (config_ok e) (import_all env e ord mode cfg)"
  unfolding import_all_def clean_out_def import_setting_def by (intro keeps import_profiles_ok)

section \<open>All or nothing\<close>

text \<open>The data of a database, without the counters of calls.\<close>

definition content :: "config_db \<Rightarrow> config_db" where
  "content s = s\<lparr>cbTables := (cbTables s)\<lparr>tTick := 0\<rparr>, cbTick := 0\<rparr>"

lemma content_simps [simp]:
  "content (s\<lparr>cbTick := n\<rparr>) = content s" "content (s\<lparr>cbTables := (cbTables s)\<lparr>tTick := k\<rparr>\<rparr>) = content s"
  "content (s\<lparr>cbTables := (cbTables s)\<lparr>tTick := k\<rparr>, cbTick := n\<rparr>) = content s"
  by (simp_all add: content_def)

lemma config_ok_content: "config_ok e (content s) = config_ok e s"
  by (simp add: content_def config_ok_def tables_ok_frame)

lemma transaction_rolled_back:
  "run_state (transaction env body) s = (Inl err, s') \<Longrightarrow> content s' = content s"
  by (auto simp: transaction_def cb_tick_def rollback_def split: option.splits sum.splits prod.splits)

lemma transaction_committed:
  "run_state (transaction env body) s = (Inr x, s') \<Longrightarrow>
   \<exists>s2. run_state body (s\<lparr>cbTick := Suc (cbTick s)\<rparr>) = (Inr x, s2) \<and> content s' = content s2"
  by (auto simp: transaction_def cb_tick_def rollback_def split: option.splits sum.splits prod.splits)

lemma transaction_keeps:
  assumes "preserves I body" "\<And>x n. I (x\<lparr>cbTick := n\<rparr>) = I x" "\<And>x k. I (x\<lparr>cbTables := (cbTables x)\<lparr>tTick := k\<rparr>\<rparr>) = I x"
  shows "preserves I (transaction env body)"
proof (rule preservesI)
  fix s assume s: "I s"
  obtain r s1 where body: "run_state body (s\<lparr>cbTick := Suc (cbTick s)\<rparr>) = (r, s1)" by fastforce
  then have "I s1" using preserves_run [OF assms(1) body] s assms(2) by simp
  then show "I (exec (transaction env body) s)"
    using s body by (auto simp: transaction_def exec_def cb_tick_def rollback_def assms(2,3) split: option.splits sum.splits)
qed

lemma ImportSeedConfig_ok:
  assumes "ceEncryptor (seCrypto env) = Some e" "nonces_ok (ceRand (seCrypto env))"
  shows "preserves (config_ok e) (ImportSeedConfig env ord1 ord2 cfg mode)"
proof -
  have "preserves (config_ok e) (transaction env (import_all env e ord2 mode cfg))"
    by (rule transaction_keeps [OF import_all_ok [OF assms(2)]]) simp_all
  moreover have "preserves (config_ok e) (MarkSeedImported (seDB env))" unfolding MarkSeedImported_def by (intro keeps)
  ultimately show ?thesis unfolding ImportSeedConfig_def assms(1) option.case by (intro keeps)
qed

lemma mark_content:
  assumes "run_state (MarkSeedImported env) s = (r, s')"
  shows "if isl r then content s' = content s
    else content s' = content (s\<lparr>cbSettings := mput AppSettingSeedImported ''true'' (cbSettings s)\<rparr>)"
  using assms by (auto simp: MarkSeedImported_def SetAppSetting_def cb_statement_def content_def split: option.splits)

section \<open>What an import stores\<close>

text \<open>The success of a computation implies a postcondition.\<close>

definition gives :: "(config_db \<Rightarrow> bool) \<Rightarrow> (config_db, 'e + 'a) state \<Rightarrow> ('a \<Rightarrow> config_db \<Rightarrow> bool) \<Rightarrow> bool" where
  "gives P m Q \<longleftrightarrow> (\<forall>s x s'. P s \<longrightarrow> run_state m s = (Inr x, s') \<longrightarrow> Q x s')"

lemma givesD: "gives P m Q \<Longrightarrow> P s \<Longrightarrow> run_state m s = (Inr x, s') \<Longrightarrow> Q x s'"
  by (auto simp: gives_def)

lemma gives_attempt:
  assumes "gives P m R" "\<And>x. gives (R x) (k x) Q" shows "gives P (attempt m k) Q"
  unfolding gives_def attempt_def
proof (intro allI impI)
  fix s x s'
  assume P: "P s" and run: "run_state (do { r \<leftarrow> m; case r of Inl err \<Rightarrow> State_Monad.return (Inl err) | Inr y \<Rightarrow> k y }) s = (Inr x, s')"
  then obtain y s1 where "run_state m s = (Inr y, s1)" "run_state (k y) s1 = (Inr x, s')"
    by (auto split: prod.splits sum.splits)
  then show "Q x s'" using givesD [OF assms(1) P] givesD [OF assms(2)] by blast
qed

lemma gives_return: "(\<And>s. P s \<Longrightarrow> Q x s) \<Longrightarrow> gives P (State_Monad.return (Inr x)) Q"
  by (simp add: gives_def)

lemma gives_naming: "gives P m Q \<Longrightarrow> gives P (naming what m) Q"
  by (auto simp: gives_def naming_def split: sum.splits prod.splits)

lemma gives_keeps: "preserves P m \<Longrightarrow> gives P m (\<lambda>_. P)"
  by (fastforce simp: gives_def preserves_def hoare_def)

lemma gives_weaken: "gives P' m Q' \<Longrightarrow> (\<And>s. P s \<Longrightarrow> P' s) \<Longrightarrow> (\<And>x s. Q' x s \<Longrightarrow> Q x s) \<Longrightarrow> gives P m Q"
  by (fastforce simp: gives_def)

lemma gives_conj: "gives P m Q \<Longrightarrow> gives P' m Q' \<Longrightarrow> gives (\<lambda>s. P s \<and> P' s) m (\<lambda>x s. Q x s \<and> Q' x s)"
  by (fastforce simp: gives_def)

lemma attempt_named_run:
  "run_state (attempt (naming what m) (\<lambda>p. State_Monad.return (Inr (f p)))) s = (Inr i, s') \<Longrightarrow>
   \<exists>p. run_state m s = (Inr p, s') \<and> i = f p"
  by (auto simp: attempt_def naming_def split: prod.splits sum.splits)

lemma UpdateAuthProfile_run:
  "run_state (UpdateAuthProfile env arg) s = (Inr p, s') \<Longrightarrow>
   p = arg \<and> cbProfiles s' = map (\<lambda>p. if apID p = apID arg then arg else p) (cbProfiles s)"
  by (auto simp: UpdateAuthProfile_def cb_statement_def split: option.splits if_splits)

text \<open>Profiles: what is stored of one, and that the profiles of other names are left as they are.\<close>

definition profile_stored :: "string \<times> SeedAuthProfile \<Rightarrow> auth_profile \<Rightarrow> bool" where
  "profile_stored np q \<longleftrightarrow> apName q = fst np \<and> apMethod q = saAuthMethod (snd np) \<and>
     apAppID q = (if saAppID (snd np) > 0 then Some (saAppID (snd np)) else None)"

lemma store_profile_row_gives:
  "gives (\<lambda>s. config_ok e s \<and> cbProfiles s = ps) (store_profile_row env name prof k t) (\<lambda>i s.
     (\<exists>q \<in> set (cbProfiles s). apID q = i \<and> profile_stored (name, prof) q) \<and>
     (\<forall>q \<in> set ps. apName q \<noteq> name \<longrightarrow> q \<in> set (cbProfiles s)))"
  unfolding gives_def
proof (intro allI impI, elim conjE)
  fix s i s'
  assume ok: "config_ok e s" and ps: "cbProfiles s = ps" and run: "run_state (store_profile_row env name prof k t) s = (Inr i, s')"
  define row where "row = \<lparr>apID = 0, apName = name, apMethod = saAuthMethod prof,
       apAppID = (if saAppID prof > 0 then Some (saAppID prof) else None), apPrivateKey = k, apToken = t\<rparr>"
  obtain r s1 where get: "run_state (GetAuthProfileByName env name) s = (r, s1)" by fastforce
  then have s1: "cbProfiles s1 = ps" and r: "\<And>p. r = Inr p \<Longrightarrow> p \<in> set ps \<and> apName p = name"
    using ps by (auto simp: GetAuthProfileByName_def cb_statement_def Let_def find_Some_iff split: option.splits sum.splits)
  show "(\<exists>q \<in> set (cbProfiles s'). apID q = i \<and> profile_stored (name, prof) q) \<and>
      (\<forall>q \<in> set ps. apName q \<noteq> name \<longrightarrow> q \<in> set (cbProfiles s'))"
  proof (cases r)
    case (Inl err)
    with run get have "run_state (attempt (naming name (CreateAuthProfile env row)) (\<lambda>p. State_Monad.return (Inr (apID p)))) s1 = (Inr i, s')"
      by (auto simp: store_profile_row_def row_def split: if_splits)
    from attempt_named_run [OF this] obtain p where "run_state (CreateAuthProfile env row) s1 = (Inr p, s')" "i = apID p" by blast
    then have "i = apID p" "p = row\<lparr>apID := cbNextProfile s1\<rparr>" "cbProfiles s' = ps @ [p]"
      using CreateAuthProfile_run [of env row s1 p s'] s1 by auto
    then show ?thesis by (auto simp: row_def profile_stored_def)
  next
    case (Inr old)
    define new where "new = row\<lparr>apID := apID old, apPrivateKey := keep_column k (apPrivateKey old), apToken := keep_column t (apToken old)\<rparr>"
    from Inr run get have "run_state (attempt (naming name (UpdateAuthProfile env new)) (\<lambda>p. State_Monad.return (Inr (apID p)))) s1 = (Inr i, s')"
      by (auto simp: store_profile_row_def new_def row_def)
    from attempt_named_run [OF this] have i: "i = apID new" and s': "cbProfiles s' = map (\<lambda>p. if apID p = apID new then new else p) ps"
      using UpdateAuthProfile_run [of env new s1] s1 by blast+
    have old: "old \<in> set ps" "apName old = name" "apID new = apID old" using r [OF Inr] by (simp_all add: new_def)
    have "distinct (map apID ps)" using ok ps by (simp add: config_ok_def profiles_ok_def)
    then have "q = old" if "q \<in> set ps" "apID q = apID old" for q using that old(1) by (simp add: distinct_map inj_on_def)
    then have "q \<in> set (cbProfiles s')" if "q \<in> set ps" "apName q \<noteq> name" for q
      using that old unfolding s' by (force simp: image_iff)
    moreover have "new \<in> set (cbProfiles s')" unfolding s' using old by force
    moreover have "profile_stored (name, prof) new" by (simp add: profile_stored_def new_def row_def)
    ultimately show ?thesis using i by blast
  qed
qed

lemma attempt_runE:
  assumes "run_state (attempt m k) s = (Inr x, s')"
  obtains y s1 where "run_state m s = (Inr y, s1)" "run_state (k y) s1 = (Inr x, s')"
  using assms by (auto simp: attempt_def split: prod.splits sum.splits)

lemma seed_column_profiles: "preserves (\<lambda>s. cbProfiles s = ps) (seed_column crypto e raw)"
  unfolding seed_column_def encrypt_column_def by (intro keeps)

lemma import_profile_run:
  assumes run: "run_state (import_profile env e np) s = (Inr i, s')" and ok: "config_ok e s"
  shows "(\<exists>q \<in> set (cbProfiles s'). apID q = i \<and> profile_stored np q) \<and>
    (\<forall>q \<in> set (cbProfiles s). apName q \<noteq> fst np \<longrightarrow> q \<in> set (cbProfiles s'))"
proof -
  obtain pk tok where "resolveCredentials env (snd np) = Inr (pk, tok)"
    using run by (cases "resolveCredentials env (snd np)") (auto simp: import_profile_def)
  with run obtain k s1 t s2 where k: "run_state (seed_column (seCrypto env) e pk) s = (Inr k, s1)"
      and t: "run_state (seed_column (seCrypto env) e tok) s1 = (Inr t, s2)"
      and store: "run_state (store_profile_row (seDB env) (fst np) (snd np) k t) s2 = (Inr i, s')"
    by (auto simp: import_profile_def elim!: attempt_runE)
  have "preserves (config_ok e) (seed_column (seCrypto env) e x)" for x
    unfolding seed_column_def encrypt_column_def by (intro keeps)
  from preserves_run [OF this t preserves_run [OF this k ok]] have "config_ok e s2" .
  moreover have "cbProfiles s2 = cbProfiles s"
    using preserves_run [OF seed_column_profiles k refl] preserves_run [OF seed_column_profiles t refl] by simp
  ultimately show ?thesis using givesD [OF store_profile_row_gives _ store, of e "cbProfiles s"] by auto
qed

lemma import_profiles_run:
  assumes "run_state (import_profiles env e nps) s = (Inr ids, s')" and "config_ok e s" and "distinct (map fst nps)"
    and "nonces_ok (ceRand (seCrypto env))"
  shows "(\<forall>np \<in> set nps. \<exists>q \<in> set (cbProfiles s'). profile_stored np q \<and> mget ids (fst np) = Some (apID q)) \<and>
    (\<forall>n. n \<notin> fst ` set nps \<longrightarrow> mget ids n = None) \<and>
    (\<forall>q \<in> set (cbProfiles s). apName q \<notin> fst ` set nps \<longrightarrow> q \<in> set (cbProfiles s'))"
  using assms(1-3)
proof (induction nps arbitrary: s ids)
  case (Cons np nps)
  from Cons.prems(1) obtain i s1 ids' where one: "run_state (import_profile env e np) s = (Inr i, s1)"
    and rest: "run_state (import_profiles env e nps) s1 = (Inr ids', s')" and ids: "ids = mput (fst np) i ids'"
    by (auto elim!: attempt_runE)
  have "config_ok e s1" using preserves_run [OF import_profile_ok [OF assms(4)] one Cons.prems(2)] .
  note IH = Cons.IH [OF rest this] and one' = import_profile_run [OF one Cons.prems(2)]
  have new: "fst np \<notin> fst ` set nps" using Cons.prems(3) by simp
  obtain q where "q \<in> set (cbProfiles s1)" "apID q = i" "profile_stored np q" using one' by blast
  then have "q \<in> set (cbProfiles s')" using IH Cons.prems(3) new by (simp add: profile_stored_def)
  then show ?case using IH Cons.prems(3) one' new \<open>apID q = i\<close> \<open>profile_stored np q\<close>
    by (auto simp: ids mget_mput)
qed auto

text \<open>Pools.\<close>

definition plain_row :: "RunnerPool \<Rightarrow> RunnerPool" where
  "plain_row p = p\<lparr>pID := 0, pCreatedAt := 0, pUpdatedAt := 0\<rparr>"

definition pool_view :: "config_db \<Rightarrow> auth_profile list \<times> RunnerPool list" where
  "pool_view s = (cbProfiles s, tPools (cbTables s))"

lemma statement_pools:
  assumes "\<And>now t r t'. f now t = (Inr r, t') \<Longrightarrow> tPools t' = tPools (t :: pool_tables)"
  shows "preserves (\<lambda>t. tPools t = ps) (statement env f)"
proof (rule preservesI)
  fix t :: pool_tables assume "tPools t = ps"
  then show "tPools (exec (statement env f) t) = ps"
    using assms [of "dbClock env (tTick t)" "t\<lparr>tTick := Suc (tTick t)\<rparr>"]
    by (auto simp: statement_def exec_def Let_def split: option.splits prod.splits sum.splits)
qed

lemma view_statement:
  assumes "\<And>now t r t'. f now t = (Inr r, t') \<Longrightarrow> tPools t' = tPools (t :: pool_tables)"
  shows "preserves (\<lambda>s. pool_view s = v) (cb_tables (statement env f))"
proof (rule preservesI)
  fix s assume v: "pool_view s = v"
  have "pool_view (exec (cb_tables (statement env f)) s) = (cbProfiles s, tPools (exec (statement env f) (cbTables s)))"
    by (simp add: cb_tables_def exec_def pool_view_def Let_def split: prod.split)
  moreover have "preserves (\<lambda>t. tPools t = tPools (cbTables s)) (statement env f)" using assms by (rule statement_pools)
  then have "tPools (exec (statement env f) (cbTables s)) = tPools (cbTables s)" by (rule preservesD) simp
  ultimately show "pool_view (exec (cb_tables (statement env f)) s) = v" using v by (simp add: pool_view_def)
qed

lemma view_kept:
  "preserves (\<lambda>s. pool_view s = v) (cb_tables (ListPoolTargetsByPoolId env i))"
  "preserves (\<lambda>s. pool_view s = v) (cb_tables (AddPoolTarget env i url))"
  "preserves (\<lambda>s. pool_view s = v) (cb_tables (GetRenovateConfigByPoolId env i))"
  "preserves (\<lambda>s. pool_view s = v) (cb_tables (CreateRenovateConfig env rv))"
  "preserves (\<lambda>s. pool_view s = v) (cb_tables (UpdateRenovateConfig env rv))"
  "preserves (\<lambda>s. pool_view s = v) (cb_tables (GetRunnerPoolByName env name))"
  unfolding ListPoolTargetsByPoolId_def AddPoolTarget_def GetRenovateConfigByPoolId_def CreateRenovateConfig_def
    UpdateRenovateConfig_def GetRunnerPoolByName_def
  by (rule view_statement; auto simp: Let_def split: if_splits option.splits)+

lemma pool_details_view:
  "preserves (\<lambda>s. pool_view s = v) (ensure_target env pool i)" "preserves (\<lambda>s. pool_view s = v) (store_renovate env pool i)"
  unfolding ensure_target_def store_renovate_def Let_def by (intro keeps view_kept)+

lemma run_cb_tables: "run_state (cb_tables m) s = (let (a, t) = run_state m (cbTables s) in (a, s\<lparr>cbTables := t\<rparr>))"
  by (simp add: cb_tables_def Let_def split: prod.split)

lemma pool_statements_run:
  "run_state (CreateRunnerPool env arg) t = (Inr p, t') \<Longrightarrow>
   plain_row p = plain_row arg \<and> tPools t' = tPools t @ [p]"
  "run_state (UpdateRunnerPool env arg) t = (Inr p, t') \<Longrightarrow>
   plain_row p = plain_row arg \<and> pID p = pID arg \<and> tPools t' = replace_pool p (tPools t)"
  "run_state (GetRunnerPoolByName env name) t = (Inr p, t') \<Longrightarrow> p \<in> set (tPools t) \<and> pName p = name"
  by (auto simp: CreateRunnerPool_def UpdateRunnerPool_def GetRunnerPoolByName_def statement_def Let_def plain_row_def
      find_pool_def find_Some_iff split: option.splits if_splits)

lemma store_pool_row_run:
  assumes run: "run_state (store_pool_row env pool a) s = (Inr i, s')" and ok: "config_ok e s"
  shows "cbProfiles s' = cbProfiles s \<and> (\<exists>row \<in> set (tPools (cbTables s')). plain_row row = seed_row pool a) \<and>
    (\<forall>row \<in> set (tPools (cbTables s)). pName row \<noteq> spName pool \<longrightarrow> row \<in> set (tPools (cbTables s')))"
proof -
  have plain: "plain_row ((seed_row pool a)\<lparr>pID := j\<rparr>) = seed_row pool a" for j by (simp add: plain_row_def seed_row_def)
  have seed: "plain_row (seed_row pool a) = seed_row pool a" by (simp add: plain_row_def seed_row_def)
  obtain r s1 where get: "run_state (cb_tables (GetRunnerPoolByName env (spName pool))) s = (r, s1)" by fastforce
  have view: "pool_view s1 = pool_view s" using preserves_run [OF view_kept(6) get refl] .
  show ?thesis
  proof (cases r)
    case (Inl err)
    with run get have "run_state (attempt (naming (spName pool) (cb_tables (CreateRunnerPool env (seed_row pool a))))
        (\<lambda>p. State_Monad.return (Inr (pID p)))) s1 = (Inr i, s')"
      by (auto simp: store_pool_row_def split: if_splits)
    from attempt_named_run [OF this] obtain p t where "run_state (CreateRunnerPool env (seed_row pool a)) (cbTables s1) = (Inr p, t)"
        "s' = s1\<lparr>cbTables := t\<rparr>"
      by (auto simp: run_cb_tables Let_def split: prod.splits)
    then show ?thesis using pool_statements_run(1) [of env "seed_row pool a" "cbTables s1" p t] view seed by (auto simp: pool_view_def)
  next
    case (Inr old)
    from get Inr obtain t where "run_state (GetRunnerPoolByName env (spName pool)) (cbTables s) = (Inr old, t)"
      by (auto simp: run_cb_tables Let_def split: prod.splits)
    then have old: "old \<in> set (tPools (cbTables s))" "pName old = spName pool" using pool_statements_run(3) by blast+
    from Inr run get have "run_state (attempt (naming (spName pool) (cb_tables (UpdateRunnerPool env ((seed_row pool a)\<lparr>pID := pID old\<rparr>))))
        (\<lambda>p. State_Monad.return (Inr (pID p)))) s1 = (Inr i, s')"
      by (auto simp: store_pool_row_def)
    from attempt_named_run [OF this] obtain p t where
        "run_state (UpdateRunnerPool env ((seed_row pool a)\<lparr>pID := pID old\<rparr>)) (cbTables s1) = (Inr p, t)"
        and s': "s' = s1\<lparr>cbTables := t\<rparr>"
      by (auto simp: run_cb_tables Let_def split: prod.splits)
    then have p: "plain_row p = seed_row pool a" "pID p = pID old" "tPools t = replace_pool p (tPools (cbTables s))"
      using pool_statements_run(2) [of env "(seed_row pool a)\<lparr>pID := pID old\<rparr>" "cbTables s1" p t] view plain
      by (auto simp: pool_view_def)
    have "distinct (map pID (tPools (cbTables s)))" using ok by (simp add: config_ok_def tables_ok_def)
    then have only: "q = old" if "q \<in> set (tPools (cbTables s))" "pID q = pID old" for q
      using that old(1) by (simp add: distinct_map inj_on_def)
    then have "q \<in> set (tPools t)" if "q \<in> set (tPools (cbTables s))" "pName q \<noteq> spName pool" for q
      using that old p(2) unfolding p(3) replace_pool_def by (force simp: image_iff)
    moreover have "p \<in> set (tPools t)" using old p(2) unfolding p(3) replace_pool_def by force
    ultimately show ?thesis using p(1) s' view by (auto simp: pool_view_def)
  qed
qed

definition pool_stored :: "SeedPool \<Rightarrow> config_db \<Rightarrow> bool" where
  "pool_stored p s \<longleftrightarrow> (\<exists>row \<in> set (tPools (cbTables s)). \<exists>q \<in> set (cbProfiles s).
     apName q = spAuthProfile p \<and> plain_row row = seed_row p (apID q))"

lemma import_pool_run:
  assumes run: "run_state (import_pool env ids pool) s = (Inr u, s')" and ok: "config_ok e s"
    and ids: "\<And>n i. mget ids n = Some i \<Longrightarrow> \<exists>q \<in> set (cbProfiles s). apName q = n \<and> apID q = i"
  shows "cbProfiles s' = cbProfiles s \<and> pool_stored pool s' \<and>
    (\<forall>row \<in> set (tPools (cbTables s)). pName row \<noteq> spName pool \<longrightarrow> row \<in> set (tPools (cbTables s')))"
proof -
  from run obtain a s1 i s2 u3 s3 where a: "run_state (profile_id env ids (spAuthProfile pool)) s = (Inr a, s1)"
      and st: "run_state (store_pool_row env pool a) s1 = (Inr i, s2)"
      and t: "run_state (ensure_target env pool i) s2 = (Inr u3, s3)" and rv: "run_state (store_renovate env pool i) s3 = (Inr u, s')"
    by (auto simp: import_pool_def elim!: attempt_runE)
  have "pool_view s' = pool_view s2"
    using preserves_run [OF pool_details_view(1) t refl] preserves_run [OF pool_details_view(2) rv refl] by simp
  moreover have "preserves (config_ok e) (profile_id env ids n)" for n unfolding profile_id_def by (intro keeps)
  from preserves_run [OF this a ok] have "config_ok e s1" .
  note stored = store_pool_row_run [OF st this]
  moreover have "pool_view s1 = pool_view s \<and> (\<exists>q \<in> set (cbProfiles s). apName q = spAuthProfile pool \<and> apID q = a)"
    using a ids
    by (auto simp: profile_id_def GetAuthProfileByName_def cb_statement_def Let_def pool_view_def find_Some_iff
        split: option.splits sum.splits)
  ultimately show ?thesis by (auto simp: pool_view_def pool_stored_def)
qed

lemma pool_stored_frame:
  assumes "pool_stored p s" "spName p \<noteq> n" "cbProfiles s' = cbProfiles s"
    and "\<forall>row \<in> set (tPools (cbTables s)). pName row \<noteq> n \<longrightarrow> row \<in> set (tPools (cbTables s'))"
  shows "pool_stored p s'"
proof -
  from assms(1) obtain row q where row: "row \<in> set (tPools (cbTables s))" "q \<in> set (cbProfiles s)"
      "apName q = spAuthProfile p" "plain_row row = seed_row p (apID q)" by (auto simp: pool_stored_def)
  from row(4) have "pName row = spName p" by (auto simp: plain_row_def seed_row_def dest: arg_cong [where f = pName])
  then show ?thesis using assms(2-4) row by (auto simp: pool_stored_def)
qed

lemma import_pools_run:
  assumes "run_state (attempt_each ps (import_pool env ids)) s = (Inr u, s')" and "config_ok e s" and "distinct (map spName ps)"
    and "\<And>n i. mget ids n = Some i \<Longrightarrow> \<exists>q \<in> set (cbProfiles s). apName q = n \<and> apID q = i"
  shows "cbProfiles s' = cbProfiles s \<and> (\<forall>p \<in> set ps. pool_stored p s') \<and>
    (\<forall>p. spName p \<notin> spName ` set ps \<longrightarrow> pool_stored p s \<longrightarrow> pool_stored p s')"
  using assms
proof (induction ps arbitrary: s)
  case (Cons p ps)
  from Cons.prems(1) obtain v s1 where one: "run_state (import_pool env ids p) s = (Inr v, s1)"
    and rest: "run_state (attempt_each ps (import_pool env ids)) s1 = (Inr u, s')" by (auto elim!: attempt_runE)
  note step = import_pool_run [OF one Cons.prems(2,4)]
  have "config_ok e s1" using preserves_run [OF import_pool_ok one Cons.prems(2)] .
  then have IH: "cbProfiles s' = cbProfiles s1" "\<forall>p \<in> set ps. pool_stored p s'"
      "\<forall>p. spName p \<notin> spName ` set ps \<longrightarrow> pool_stored p s1 \<longrightarrow> pool_stored p s'"
    using Cons.IH [OF rest] Cons.prems(3,4) step by auto
  have "pool_stored p s'" using IH(3) step Cons.prems(3) by simp
  moreover have "pool_stored x s'" if "spName x \<notin> spName ` set (p # ps)" "pool_stored x s" for x
    using that IH(3) step pool_stored_frame [of x s "spName p" s1] by auto
  ultimately show ?case using IH step by auto
qed simp

lemma check_pools_distinct: "check_pools seen ps = None \<Longrightarrow> distinct (map spName ps) \<and> set (map spName ps) \<inter> set seen = {}"
  by (induction seen ps rule: check_pools.induct) (auto split: if_splits)

definition seeded :: "SeedConfig \<Rightarrow> config_db \<Rightarrow> bool" where
  "seeded cfg s \<longleftrightarrow> (\<forall>np \<in> set (scAuthProfiles cfg). \<exists>q \<in> set (cbProfiles s). profile_stored np q) \<and>
     (\<forall>p \<in> set (scPools cfg). pool_stored p s)"

lemma seeded_content: "seeded cfg (content s) = seeded cfg s"
  by (simp add: seeded_def pool_stored_def content_def)

lemma import_all_run:
  assumes run: "run_state (import_all env e ord mode cfg) s = (Inr u, s')" and ok: "config_ok e s"
    and nonces: "nonces_ok (ceRand (seCrypto env))" and cfg: "wf_map (scAuthProfiles cfg)" "distinct (map spName (scPools cfg))"
  shows "seeded cfg s'"
proof -
  from run obtain s1 s2 s3 ids v1 v2 where
      one: "run_state (if mode = ImportModeOverwrite then clean_out (seDB env) else State_Monad.return (Inr ())) s = (Inr v1, s1)"
      and two: "run_state (attempt_each (global_settings (scGlobal cfg)) (import_setting (seDB env))) s1 = (Inr v2, s2)"
      and three: "run_state (import_profiles env e (go_range ord (scAuthProfiles cfg))) s2 = (Inr ids, s3)"
      and four: "run_state (attempt_each (scPools cfg) (import_pool (seDB env) ids)) s3 = (Inr u, s')"
    unfolding import_all_def by (elim attempt_runE)
  have p1: "preserves (config_ok e) (if mode = ImportModeOverwrite then clean_out (seDB env) else State_Monad.return (Inr ()))"
    unfolding clean_out_def by (intro keeps)
  have p2: "preserves (config_ok e) (attempt_each (global_settings (scGlobal cfg)) (import_setting (seDB env)))"
    unfolding import_setting_def by (intro keeps)
  have ok2: "config_ok e s2" using preserves_run [OF p2 two preserves_run [OF p1 one ok]] .
  then have ok3: "config_ok e s3" using preserves_run [OF import_profiles_ok [OF nonces] three] by blast
  have "distinct (map fst (go_range ord (scAuthProfiles cfg)))" using cfg(1) by (simp add: distinct_map_fst_go_range)
  note profiles = import_profiles_run [OF three ok2 this nonces]
  have ids: "\<exists>q \<in> set (cbProfiles s3). apName q = n \<and> apID q = i" if "mget ids n = Some i" for n i
    using profiles that by (fastforce simp: profile_stored_def)
  then show ?thesis using import_pools_run [OF four ok3 cfg(2) ids] profiles by (auto simp: seeded_def set_go_range)
qed

lemma content_eq:
  assumes "content a = content b" shows "config_ok e a = config_ok e b" "seeded cfg a = seeded cfg b" "cbSettings a = cbSettings b"
proof -
  show "config_ok e a = config_ok e b" by (metis assms config_ok_content)
  show "seeded cfg a = seeded cfg b" by (metis assms seeded_content)
  show "cbSettings a = cbSettings b" using arg_cong [OF assms, of cbSettings] by (simp add: content_def)
qed

lemma mark_result:
  assumes "run_state (MarkSeedImported env) s = (y, s')"
  shows "config_ok e s' = config_ok e s \<and> seeded cfg s' = seeded cfg s \<and>
    (\<not> isl y \<longrightarrow> mget (cbSettings s') AppSettingSeedImported = Some ''true'')"
proof (cases "isl y")
  case True
  then have "content s' = content s" using mark_content [OF assms] by simp
  from content_eq [OF this] True show ?thesis by simp
next
  case False
  then have "content s' = content (s\<lparr>cbSettings := mput AppSettingSeedImported ''true'' (cbSettings s)\<rparr>)"
    using mark_content [OF assms] by simp
  from content_eq [OF this] show ?thesis by (simp add: seeded_def pool_stored_def)
qed


section \<open>Merging keeps credentials\<close>

definition same_credentials :: "auth_profile \<Rightarrow> auth_profile \<Rightarrow> bool" where
  "same_credentials p q \<longleftrightarrow> apID q = apID p \<and> apName q = apName p \<and> apPrivateKey q = apPrivateKey p \<and> apToken q = apToken p"

definition credentials_kept :: "auth_profile list \<Rightarrow> config_db \<Rightarrow> bool" where
  "credentials_kept ps s \<longleftrightarrow> (\<forall>p \<in> set ps. \<exists>q \<in> set (cbProfiles s). same_credentials p q)"

lemma kept_profiles_only:
  assumes "\<And>xs. preserves (\<lambda>s. cbProfiles s = xs) m" shows "preserves (credentials_kept ps) m"
proof (rule preservesI)
  fix s assume "credentials_kept ps s"
  moreover have "cbProfiles (exec m s) = cbProfiles s" using preservesD [OF assms, of s] by simp
  ultimately show "credentials_kept ps (exec m s)" by (simp add: credentials_kept_def)
qed

lemma statement_profiles:
  assumes "\<And>s r s'. f s = (Inr r, s') \<Longrightarrow> cbProfiles s' = cbProfiles s"
  shows "preserves (\<lambda>s. cbProfiles s = xs) (cb_statement env f)"
proof (rule preservesI)
  fix s :: config_db assume "cbProfiles s = xs"
  then show "cbProfiles (exec (cb_statement env f) s) = xs"
    using assms [of "s\<lparr>cbTables := (cbTables s)\<lparr>tTick := Suc (tTick (cbTables s))\<rparr>\<rparr>"]
    by (auto simp: cb_statement_def exec_def Let_def split: option.splits prod.splits sum.splits)
qed

lemma profile_reads_keep [keeps]:
  "preserves (\<lambda>s. cbProfiles s = xs) (GetAuthProfileByName env name)" "preserves (\<lambda>s. cbProfiles s = xs) (SetAppSetting env key val)"
  "preserves (\<lambda>s. cbProfiles s = xs) (ListAuthProfiles env)" "preserves (\<lambda>s. cbProfiles s = xs) (ListAppSettings env)"
  unfolding GetAuthProfileByName_def SetAppSetting_def ListAuthProfiles_def ListAppSettings_def
  by (rule statement_profiles; auto)+

lemma kept_more: "credentials_kept ps s \<Longrightarrow> set (cbProfiles s) \<subseteq> set (cbProfiles s') \<Longrightarrow> credentials_kept ps s'"
  unfolding credentials_kept_def by blast

lemma kept_map:
  assumes "credentials_kept ps s" "\<forall>q \<in> set (cbProfiles s). same_credentials q (f q)" "cbProfiles s' = map f (cbProfiles s)"
  shows "credentials_kept ps s'"
  unfolding credentials_kept_def
proof
  fix p assume "p \<in> set ps"
  then obtain q where "q \<in> set (cbProfiles s)" "same_credentials p q" using assms(1) by (auto simp: credentials_kept_def)
  moreover from this(1) have "same_credentials q (f q)" "f q \<in> set (cbProfiles s')" using assms(2,3) by auto
  ultimately show "\<exists>q \<in> set (cbProfiles s'). same_credentials p q" by (auto simp: same_credentials_def)
qed

lemma create_keeps: "preserves (credentials_kept ps) (CreateAuthProfile env row)"
  by (rule preservesI, erule kept_more)
    (auto simp: CreateAuthProfile_def cb_statement_def exec_def Let_def split: option.splits if_splits)

lemma update_keeps:
  assumes "credentials_kept ps s" "distinct (map apID (cbProfiles s))" "old \<in> set (cbProfiles s)" "same_credentials old new"
  shows "credentials_kept ps (exec (UpdateAuthProfile env new) s)"
proof -
  have "q = old" if "q \<in> set (cbProfiles s)" "apID q = apID old" for q using that assms(2,3) by (simp add: distinct_map inj_on_def)
  with assms(4) have all: "\<forall>q \<in> set (cbProfiles s). same_credentials q (if apID q = apID new then new else q)"
    by (auto simp: same_credentials_def)
  have "cbProfiles (exec (UpdateAuthProfile env new) s) = cbProfiles s \<or>
      cbProfiles (exec (UpdateAuthProfile env new) s) = map (\<lambda>q. if apID q = apID new then new else q) (cbProfiles s)"
    by (auto simp: UpdateAuthProfile_def cb_statement_def exec_def Let_def split: option.splits if_splits)
  then show ?thesis
  proof
    assume "cbProfiles (exec (UpdateAuthProfile env new) s) = cbProfiles s"
    then show ?thesis using kept_more [OF assms(1)] by simp
  qed (rule kept_map [OF assms(1) all])
qed

lemma exec_attempt_named: "exec (attempt (naming what m) (\<lambda>p. State_Monad.return (Inr (f p)))) s = exec m s"
  by (auto simp: attempt_def naming_def exec_def split: prod.splits sum.splits)

lemma store_without_credentials:
  assumes ok: "config_ok e s" and kept: "credentials_kept ps s"
  shows "credentials_kept ps (exec (store_profile_row env name prof None None) s)"
proof -
  define row where "row = \<lparr>apID = 0, apName = name, apMethod = saAuthMethod prof,
       apAppID = (if saAppID prof > 0 then Some (saAppID prof) else None), apPrivateKey = None, apToken = None\<rparr>"
  obtain g s1 where get: "run_state (GetAuthProfileByName env name) s = (g, s1)" by fastforce
  have s1: "cbProfiles s1 = cbProfiles s" using preserves_run [OF profile_reads_keep(1) get refl] .
  then have kept1: "credentials_kept ps s1" using kept by (simp add: credentials_kept_def)
  show ?thesis
  proof (cases g)
    case (Inl err)
    then have "exec (store_profile_row env name prof None None) s = (if err = ErrNoRows then exec (CreateAuthProfile env row) s1 else s1)"
      using get by (simp add: store_profile_row_def row_def exec_bind exec_attempt_named) (simp add: exec_def)
    then show ?thesis using preservesD [OF create_keeps kept1] kept1 by simp
  next
    case (Inr old)
    define new where "new = row\<lparr>apID := apID old, apPrivateKey := keep_column None (apPrivateKey old), apToken := keep_column None (apToken old)\<rparr>"
    have old: "old \<in> set (cbProfiles s1)" "apName old = name"
      using get Inr s1 by (auto simp: GetAuthProfileByName_def cb_statement_def Let_def find_Some_iff split: option.splits sum.splits)
    then have "same_credentials old new" by (simp add: same_credentials_def new_def row_def keep_column_def)
    moreover have "distinct (map apID (cbProfiles s1))" using ok s1 by (simp add: config_ok_def profiles_ok_def)
    moreover have "exec (store_profile_row env name prof None None) s = exec (UpdateAuthProfile env new) s1"
      using get Inr by (simp add: store_profile_row_def new_def row_def exec_bind exec_attempt_named) (simp add: exec_def)
    ultimately show ?thesis using update_keeps kept1 old(1) by simp
  qed
qed

text \<open>The invariant of a merge of profiles that name no credentials.\<close>

abbreviation merging :: "Encryptor \<Rightarrow> auth_profile list \<Rightarrow> config_db \<Rightarrow> bool" where
  "merging e ps s \<equiv> config_ok e s \<and> credentials_kept ps s"

lemma seed_column_empty: "run_state (seed_column crypto e []) s = (Inr None, s\<lparr>cbTick := Suc (cbTick s)\<rparr>)"
  by (simp add: seed_column_def encrypt_column_def cb_tick_def EncryptNullString_def)

lemma import_profile_merging:
  assumes "resolveCredentials env (snd np) = Inr ([], [])" "nonces_ok (ceRand (seCrypto env))"
  shows "preserves (merging e ps) (import_profile env e np)"
proof (rule preservesI)
  fix s assume s: "merging e ps s"
  let ?s = "s\<lparr>cbTick := Suc (Suc (cbTick s))\<rparr>"
  have "exec (import_profile env e np) s = exec (store_profile_row (seDB env) (fst np) (snd np) None None) ?s"
    using assms(1) by (simp add: import_profile_def attempt_def exec_def seed_column_empty)
  moreover have "credentials_kept ps ?s" "config_ok e ?s" using s by (simp_all add: credentials_kept_def)
  moreover have "config_ok e (exec (import_profile env e np) s)" using preservesD [OF import_profile_ok [OF assms(2)]] s by blast
  ultimately show "merging e ps (exec (import_profile env e np) s)" using store_without_credentials by auto
qed

lemma import_profiles_merging:
  "\<forall>np \<in> set nps. resolveCredentials env (snd np) = Inr ([], []) \<Longrightarrow> nonces_ok (ceRand (seCrypto env)) \<Longrightarrow>
   preserves (merging e ps) (import_profiles env e nps)"
  by (induction nps) (auto intro!: keeps import_profile_merging)

lemma merging_conj: "preserves (config_ok e) m \<Longrightarrow> (\<And>xs. preserves (\<lambda>s. cbProfiles s = xs) m) \<Longrightarrow> preserves (merging e ps) m"
  by (intro preserves_conj kept_profiles_only)

lemma import_all_merging:
  assumes "\<forall>np \<in> set (scAuthProfiles cfg). resolveCredentials env (snd np) = Inr ([], [])"
    and "nonces_ok (ceRand (seCrypto env))" and "mode \<noteq> ImportModeOverwrite"
  shows "preserves (merging e ps) (import_all env e ord mode cfg)"
proof -
  have setting: "preserves (merging e ps) (import_setting (seDB env) kv)" for kv
    by (rule merging_conj; unfold import_setting_def; intro keeps)
  have "preserves (\<lambda>s. cbProfiles s = xs) (import_pool (seDB env) ids p)" for xs ids p
    unfolding import_pool_def profile_id_def store_pool_row_def ensure_target_def store_renovate_def Let_def by (intro keeps)
  then have pool: "preserves (merging e ps) (import_pool (seDB env) ids p)" for ids p by (intro merging_conj import_pool_ok)
  have "preserves (merging e ps) (import_profiles env e (go_range ord (scAuthProfiles cfg)))"
    using assms by (intro import_profiles_merging) simp_all
  with assms(3) show ?thesis unfolding import_all_def by (simp del: preserves_bind) (intro keeps setting pool)
qed

section \<open>Exports\<close>

text \<open>A profile of which only the presence of credentials is left.\<close>

definition blind :: "auth_profile \<Rightarrow> auth_profile" where
  "blind p = p\<lparr>apPrivateKey := (if column_set (apPrivateKey p) then Some ''x'' else None),
               apToken := (if column_set (apToken p) then Some ''x'' else None)\<rparr>"

definition blinded :: "config_db \<Rightarrow> config_db" where
  "blinded s = s\<lparr>cbProfiles := map blind (cbProfiles s)\<rparr>"

lemma blind_fields [simp]:
  "apID (blind p) = apID p" "apName (blind p) = apName p" "sanitized (blind p) = sanitized p"
  by (simp_all add: blind_def sanitized_def column_set_def Let_def)

lemma fold_blind:
  "fold (\<lambda>p. mput (apName p) (sanitized p)) (map blind ps) m = fold (\<lambda>p. mput (apName p) (sanitized p)) ps m"
  "fold (\<lambda>p. mput (apID p) (apName p)) (map blind ps) n = fold (\<lambda>p. mput (apID p) (apName p)) ps n"
  by (induction ps arbitrary: m n) simp_all

lemma run_blinded_tables: "run_state (cb_tables m) (blinded s) = map_prod id blinded (run_state (cb_tables m) s)"
  by (simp add: run_cb_tables blinded_def Let_def split: prod.split)

lemma run_blinded_settings: "run_state (ListAppSettings env) (blinded s) = map_prod id blinded (run_state (ListAppSettings env) s)"
  by (simp add: ListAppSettings_def cb_statement_def blinded_def split: option.split)

lemma run_blinded_profiles:
  "run_state (ListAuthProfiles env) (blinded s) = map_prod (map_sum id (map blind)) blinded (run_state (ListAuthProfiles env) s)"
  by (simp add: ListAuthProfiles_def cb_statement_def blinded_def sort_key_map split: option.split)

lemma run_blinded_pools: "run_state (export_pools env n ps) (blinded s) = map_prod id blinded (run_state (export_pools env n ps) s)"
  by (induction ps arbitrary: s) (simp_all add: run_blinded_tables split: prod.split)

lemma export_blinded: "fst (run_state (ExportSanitizedConfig env) (blinded s)) = fst (run_state (ExportSanitizedConfig env) s)"
proof -
  obtain r1 s1 where 1: "run_state (ListAppSettings env) s = (r1, s1)" by fastforce
  obtain r2 s2 where 2: "run_state (ListAuthProfiles env) s1 = (r2, s2)" by fastforce
  obtain r3 s3 where 3: "run_state (cb_tables (ListRunnerPools env)) s2 = (r3, s3)" by fastforce
  show ?thesis
    by (cases r1; cases r2; cases r3)
      (simp_all add: ExportSanitizedConfig_def attempt_def naming_def 1 2 3 run_blinded_settings run_blinded_profiles
        run_blinded_tables run_blinded_pools fold_blind split: prod.split)
qed

lemma set_fold_mput:
  "set (fold (\<lambda>p. mput (k p) (v p)) ps m) \<subseteq> set m \<union> (\<lambda>p. (k p, v p)) ` set ps"
proof (induction ps arbitrary: m)
  case (Cons p ps)
  have "set (mput (k p) (v p) m) \<subseteq> insert (k p, v p) (set m)" by (induction m) (auto simp: mput_simps)
  then show ?case using Cons [of "mput (k p) (v p) m"] by auto
qed simp

lemma export_pools_keep: "preserves (\<lambda>s. cbProfiles s = xs) (export_pools env n ps)"
  by (induction ps) (auto intro!: keeps)

lemma exported_profiles:
  assumes "run_state (ExportSanitizedConfig env) s = (Inr cfg, s')"
  shows "set (scAuthProfiles cfg) \<subseteq> (\<lambda>p. (apName p, sanitized p)) ` set (cbProfiles s) \<and> cbProfiles s' = cbProfiles s"
proof -
  have "preserves (\<lambda>s. cbProfiles s = xs) (ExportSanitizedConfig env)" for xs
    unfolding ExportSanitizedConfig_def by (intro keeps export_pools_keep)
  from preserves_run [OF this assms] have s': "cbProfiles s' = cbProfiles s" by simp
  from assms obtain xs s1 where 1: "run_state (naming ''listing app settings'' (ListAppSettings env)) s = (Inr xs, s1)"
    and rest: "run_state (attempt (naming ''listing auth profiles'' (ListAuthProfiles env)) (\<lambda>profiles.
     attempt (naming ''listing runner pools'' (cb_tables (ListRunnerPools env))) (\<lambda>pools. do {
       ys \<leftarrow> export_pools env (fold (\<lambda>p. mput (apID p) (apName p)) profiles []) pools;
       State_Monad.return (Inr \<lparr>scVersion = ''1.0'',
         scGlobal = fold export_setting xs \<lparr>gcTotalAllowedRunners = 0, gcTotalIdleWarmPool = 0, gcShutdownTimeoutSeconds = 0, gcJobRetentionDays = 0\<rparr>,
         scAuthProfiles = fold (\<lambda>p. mput (apName p) (sanitized p)) profiles [], scPools = ys\<rparr>)
     }))) s1 = (Inr cfg, s')"
    unfolding ExportSanitizedConfig_def by (rule attempt_runE)
  have s1: "cbProfiles s1 = cbProfiles s"
    using preserves_run [OF naming_ok [OF profile_reads_keep(4)] 1] by simp
  from rest obtain ps s2 where 2: "run_state (naming ''listing auth profiles'' (ListAuthProfiles env)) s1 = (Inr ps, s2)"
    and cfg: "scAuthProfiles cfg = fold (\<lambda>p. mput (apName p) (sanitized p)) ps []"
    by (auto elim!: attempt_runE split: prod.splits)
  have "set ps = set (cbProfiles s1)"
    using 2 by (auto simp: naming_def ListAuthProfiles_def cb_statement_def split: option.splits sum.splits prod.splits)
  then show ?thesis using set_fold_mput [of apName sanitized ps "[]"] s1 s' cfg by simp
qed

text \<open>
  C31. An export reveals no credential. Two databases that agree on everything but the contents of their
  credential columns, which are set in the same places, export the same configuration; and no exported
  profile carries an inline key or token: a key is at most the placeholder, a token at most the name of an
  environment variable made from the profile's name.
\<close>

theorem seed_export_hides_credentials:
  assumes "blinded s = blinded t"
  shows "fst (run_state (ExportSanitizedConfig env) s) = fst (run_state (ExportSanitizedConfig env) t) \<and>
    (\<forall>cfg s'. run_state (ExportSanitizedConfig env) s = (Inr cfg, s') \<longrightarrow>
      (\<forall>(name, prof) \<in> set (scAuthProfiles cfg). saPrivateKey prof = [] \<and> saToken prof = [] \<and>
        saPrivateKeyPath prof \<in> {[], SanitizedRedactedPlaceholder} \<and>
        {saTokenEnvVar prof, saGiteaTokenEnvVar prof, saForgejoTokenEnvVar prof} \<subseteq> {[], token_variable name}))"
proof
  show "fst (run_state (ExportSanitizedConfig env) s) = fst (run_state (ExportSanitizedConfig env) t)"
    using export_blinded [of env s] export_blinded [of env t] assms by simp
  show "\<forall>cfg s'. run_state (ExportSanitizedConfig env) s = (Inr cfg, s') \<longrightarrow>
      (\<forall>(name, prof) \<in> set (scAuthProfiles cfg). saPrivateKey prof = [] \<and> saToken prof = [] \<and>
        saPrivateKeyPath prof \<in> {[], SanitizedRedactedPlaceholder} \<and>
        {saTokenEnvVar prof, saGiteaTokenEnvVar prof, saForgejoTokenEnvVar prof} \<subseteq> {[], token_variable name})"
    using exported_profiles [of env s] by (fastforce simp: sanitized_def Let_def)
qed

lemma resolve_sanitized:
  "\<forall>name. seGetenv env (token_variable name) = [] \<Longrightarrow> resolveCredentials env (sanitized p) = Inr ([], [])"
  by (simp add: resolveCredentials_def sanitized_def Let_def)

text \<open>
  Importing an export back keeps the credentials. When an export is merged into the database it was
  taken from and the environment variables it names are not set, every profile keeps its id, its name, its
  private key and its token, whether the import succeeds or fails at whatever statement.
\<close>

theorem seed_reimport_keeps_credentials:
  assumes "run_state (ExportSanitizedConfig (seDB env)) s = (Inr cfg, s1)"
    and "run_state (ImportSeedConfig env ord1 ord2 cfg mode) s1 = (r, s')" and "mode \<noteq> ImportModeOverwrite"
    and "config_ok e s1" and "ceEncryptor (seCrypto env) = Some e" and "nonces_ok (ceRand (seCrypto env))"
    and "\<forall>name. seGetenv env (token_variable name) = []"
  shows "\<forall>p \<in> set (cbProfiles s). \<exists>q \<in> set (cbProfiles s').
    apID q = apID p \<and> apName q = apName p \<and> apPrivateKey q = apPrivateKey p \<and> apToken q = apToken p"
proof -
  let ?I = "merging e (cbProfiles s)"
  note exported = exported_profiles [OF assms(1)]
  have start: "?I s1" using exported assms(4) by (auto simp: credentials_kept_def same_credentials_def)
  have "\<forall>np \<in> set (scAuthProfiles cfg). resolveCredentials env (snd np) = Inr ([], [])"
    using exported resolve_sanitized [OF assms(7)] by auto
  then have all: "preserves ?I (import_all env e ord2 mode cfg)" using assms(6,3) by (rule import_all_merging)
  have tx: "preserves ?I (transaction env (import_all env e ord2 mode cfg))"
    by (rule transaction_keeps [OF all]) (simp_all add: credentials_kept_def config_ok_def tables_ok_frame)
  have mark: "preserves ?I (MarkSeedImported (seDB env))"
    by (rule merging_conj; unfold MarkSeedImported_def; intro keeps)
  have "preserves ?I (ImportSeedConfig env ord1 ord2 cfg mode)"
    unfolding ImportSeedConfig_def assms(5) option.case by (intro keeps tx mark)
  from preserves_run [OF this assms(2) start] have "?I s'" .
  then show ?thesis by (simp add: credentials_kept_def same_credentials_def)
qed

section \<open>Pools through an export\<close>

text \<open>Labels written as JSON are read back.\<close>

lemma label_value: "to_valid l = l \<Longrightarrow> json_value (Suc n) d (json_quote l @ x) = Some (JStr l, x)"
  using json_body_read [of l x] by (simp add: json_quote_def json_ws_def)

lemma labels_read:
  assumes "\<forall>l \<in> set ls. to_valid l = l" "ls \<noteq> []"
  shows "json_elems (Suc n + length ls) d (Join (map json_quote ls) '','' @ CHR '']'' # r) = Some (map JStr ls, r)"
  using assms
proof (induction ls)
  case (Cons l ls)
  show ?case
  proof (cases ls)
    case Nil
    then show ?thesis using Cons.prems by (simp add: label_value json_ws_def del: json_value.simps)
  next
    case ls: (Cons l2 ls2)
    have "Join (map json_quote (l # ls)) '','' = json_quote l @ CHR '','' # Join (map json_quote ls) '',''" by (simp add: ls)
    then show ?thesis using Cons by (simp add: label_value json_ws_def ls del: json_value.simps)
  qed
qed simp

lemma string_elems_JStr: "string_elems (map JStr ls) = Some ls"
  by (induction ls) simp_all

lemma length_marshal: "ls \<noteq> [] \<Longrightarrow> Suc (length ls) \<le> length (Join (map json_quote ls) '','')"
  by (induction ls rule: induct_list012) (simp_all add: json_quote_def)

lemma labels_roundtrip_json:
  assumes "\<forall>l \<in> set ls. to_valid l = l" "ls \<noteq> []"
  shows "Unmarshal_strings (marshal_labels ls) = Some ls"
proof -
  let ?j = "Join (map json_quote ls) '','' @ CHR '']'' # []"
  obtain l ls' where ls: "ls = l # ls'" using assms(2) by (cases ls) auto
  have first: "\<exists>x. Join (map json_quote ls) '','' = CHR 0x22 # x" by (cases ls') (simp_all add: ls json_quote_def)
  define k where "k = 2 * length (marshal_labels ls) - Suc (length ls)"
  have "Suc (length ls) \<le> length (marshal_labels ls)" using length_marshal [OF assms(2)] by (simp add: marshal_labels_def)
  then have k: "2 * length (marshal_labels ls) = Suc k + length ls" by (simp add: k_def)
  have "json_value (Suc (2 * length (marshal_labels ls))) 0 (marshal_labels ls) = Some (JArr (map JStr ls), [])"
    using first labels_read [OF assms, of k 1 "[]"] unfolding k
    by (auto simp: marshal_labels_def json_ws_def maxNestingDepth_def simp del: json_elems.simps)
  then show ?thesis by (simp add: Unmarshal_strings_def parse_json_def string_elems_JStr)
qed
text \<open>
  An imported pool survives export and import. The row that an import stores for a pool, exported under the
  name of its profile and imported again, yields the same row, and the exported pool names the same
  profile and the same labels, whatever characters they contain, as long as they are UTF-8.
\<close>

theorem seed_pool_roundtrip:
  assumes "mget nameByID a = Some (spAuthProfile p)" and "spLabels p \<noteq> []" and "\<forall>l \<in> set (spLabels p). to_valid l = l"
  shows "seed_row (export_pool nameByID (seed_row p a) rv) a = seed_row p a \<and>
    spAuthProfile (export_pool nameByID (seed_row p a) rv) = spAuthProfile p \<and>
    spLabels (export_pool nameByID (seed_row p a) rv) = spLabels p"
proof -
  have "Unmarshal_strings (marshal_labels (spLabels p)) = Some (spLabels p)" using assms(3,2) by (rule labels_roundtrip_json)
  then show ?thesis
    using assms(1) by (simp add: seed_row_def export_pool_def positive_or_def non_empty_def null_string_def)
qed

text \<open>Pools that were not imported may change: one scaled to zero comes back with an idle runner.\<close>

lemma reimport_scale_to_zero:
  "pMinIdleRunners p = 0 \<Longrightarrow> pMinIdleRunners (seed_row (export_pool nameByID p rv) a) = 1"
  by (simp add: seed_row_def export_pool_def positive_or_def)

section \<open>Witnesses\<close>

definition ex_seed_env :: seed_env where
  "ex_seed_env = \<lparr>seDB = ex_db_env,
     seCrypto = \<lparr>ceEncryptor = Some \<lparr>encKey = peKey ex_profile_env\<rparr>, ceRand = peRand ex_profile_env\<rparr>,
     seReadFile = (\<lambda>f. Inl ''no such file''), seGetenv = (\<lambda>v. []), seBegin = (\<lambda>n. None), seCommit = (\<lambda>n. None)\<rparr>"

definition ex_seed :: SeedConfig where
  "ex_seed = \<lparr>scVersion = ''1.0'',
     scGlobal = \<lparr>gcTotalAllowedRunners = 8, gcTotalIdleWarmPool = 0, gcShutdownTimeoutSeconds = 0, gcJobRetentionDays = 0\<rparr>,
     scAuthProfiles = [(''ci'', \<lparr>saAuthMethod = ''pat'', saAppID = 0, saPrivateKeyPath = [], saPrivateKey = [], saGiteaTokenEnvVar = [],
       saForgejoTokenEnvVar = [], saTokenEnvVar = [], saToken = ''secret''\<rparr>)],
     scPools = [\<lparr>spName = ''p'', spProvider = ''github'', spRepositoryURL = ''u'', spScope = [], spAuthProfile = ''ci'',
       spMinIdleRunners = 0, spMaxConcurrency = 3, spLabels = [''x''], spRunnerImage = ''i'', spAllowDocker = False,
       spMaxRunnerLifetimeSeconds = 0, spCPULimit = [], spMemoryLimit = [], spRenovate = None\<rparr>]\<rparr>"

lemma ex_seed_nonces: "nonces_ok (ceRand (seCrypto ex_seed_env))" using ex_nonces by (simp add: ex_seed_env_def)

lemma ex_seed_import:
  "fst (run_state (ImportSeedConfig ex_seed_env [] [] ex_seed ImportModeMerge) ex_config) = Inr () \<and>
   map apName (cbProfiles (snd (run_state (ImportSeedConfig ex_seed_env [] [] ex_seed ImportModeMerge) ex_config))) = [''ci'']"
  by (simp add: ImportSeedConfig_def ex_seed_env_def ex_seed_def Validate_def valid_profile_def valid_pool_def transaction_def
      cb_tick_def import_all_def ImportModeMerge_def ImportModeOverwrite_def attempt_def global_settings_def import_setting_def
      naming_def SetAppSetting_def GetAuthProfileByName_def CreateAuthProfile_def run_cb_statement ex_db_env_def ex_config_def Let_def
      import_profile_def resolveCredentials_def seed_column_def encrypt_column_def EncryptNullString_def Encrypt_def ex_profile_env_def
      store_profile_row_def valid_method_def import_pool_def profile_id_def store_pool_row_def run_cb_tables statement_def
      GetRunnerPoolByName_def CreateRunnerPool_def pool_checked_def seed_row_def ensure_target_def ListPoolTargetsByPoolId_def
      AddPoolTarget_def find_pool_def store_renovate_def MarkSeedImported_def go_range_def go_simps)


definition ex_stored :: "string \<Rightarrow> config_db" where
  "ex_stored c = ex_config\<lparr>cbProfiles := [\<lparr>apID = 1, apName = ''ci'', apMethod = ''pat'', apAppID = None, apPrivateKey = None, apToken = Some c\<rparr>]\<rparr>"

theorem seed_export_hides_credentials_witness:
  "fst (run_state (ExportSanitizedConfig ex_db_env) (ex_stored ''a'')) = fst (run_state (ExportSanitizedConfig ex_db_env) (ex_stored ''b''))"
proof -
  have "blinded (ex_stored ''a'') = blinded (ex_stored ''b'')" by (simp add: blinded_def ex_stored_def blind_def column_set_def)
  from seed_export_hides_credentials [OF this] show ?thesis by blast
qed

lemma export_pools_ok: "preserves (config_ok e) (export_pools env n ps)"
  by (induction ps) (auto intro!: keeps)

lemma export_succeeds:
  assumes "\<forall>n. dbFail env n = None" shows "\<exists>cfg. fst (run_state (ExportSanitizedConfig env) s) = Inr cfg"
  using assms
  by (simp add: ExportSanitizedConfig_def attempt_def naming_def ListAppSettings_def ListAuthProfiles_def run_cb_statement Let_def
      run_cb_tables ListRunnerPools_def statement_def split: prod.split)

theorem seed_reimport_keeps_credentials_witness:
  "\<exists>(s :: config_db) (s' :: config_db). cbProfiles s \<noteq> [] \<and> (\<forall>p \<in> set (cbProfiles s). \<exists>q \<in> set (cbProfiles s'). apID q = apID p \<and> apToken q = apToken p)"
proof -
  let ?e = "\<lparr>encKey = peKey ex_profile_env\<rparr>"
  define s where "s = snd (run_state (ImportSeedConfig ex_seed_env [] [] ex_seed ImportModeMerge) ex_config)"
  have run: "run_state (ImportSeedConfig ex_seed_env [] [] ex_seed ImportModeMerge) ex_config = (Inr (), s)"
    using ex_seed_import by (simp add: prod_eq_iff s_def)
  have crypto: "ceEncryptor (seCrypto ex_seed_env) = Some ?e" "wf_map (scAuthProfiles ex_seed)" "seDB ex_seed_env = ex_db_env"
    by (simp_all add: ex_seed_env_def ex_seed_def)
  have "config_ok ?e s" using preserves_run [OF ImportSeedConfig_ok [OF crypto(1) ex_seed_nonces] run ex_config_ok] .
  obtain cfg s1 where export: "run_state (ExportSanitizedConfig (seDB ex_seed_env)) s = (Inr cfg, s1)"
    using export_succeeds [of "seDB ex_seed_env" s] by (metis crypto(3) ex_db_env_def db_env.select_convs(1) prod.exhaust_sel)
  have "preserves (config_ok ?e) (ExportSanitizedConfig env)" for env
    unfolding ExportSanitizedConfig_def by (intro keeps export_pools_ok)
  from preserves_run [OF this export \<open>config_ok ?e s\<close>] have ok: "config_ok ?e s1" .
  obtain r s' where imp: "run_state (ImportSeedConfig ex_seed_env [] [] cfg ImportModeMerge) s1 = (r, s')" by fastforce
  have "ImportModeMerge \<noteq> ImportModeOverwrite" "\<forall>name. seGetenv ex_seed_env (token_variable name) = []"
    by (simp_all add: ImportModeMerge_def ImportModeOverwrite_def ex_seed_env_def)
  note kept = seed_reimport_keeps_credentials [OF export imp this(1) ok crypto(1) ex_seed_nonces this(2)]
  moreover have "cbProfiles s \<noteq> []" using ex_seed_import by (auto simp: s_def)
  ultimately show ?thesis by blast
qed

theorem seed_pool_roundtrip_witness:
  "spLabels (export_pool [(1, ''ci'')] (seed_row (hd (scPools ex_seed)) 1) None) = [''x'']"
  using seed_pool_roundtrip [of "[(1, ''ci'')]" 1 "hd (scPools ex_seed)" None] by (simp add: ex_seed_def)

end
