(* ===== verification/Job_Logs.thy ===== *)
theory Job_Logs
  imports Webhook Go_Marshal Log_Files "HOL-Library.List_Lexorder" "HOL-Library.Char_ord"
begin

text \<open>
  \<open>src/internal/orchestrator/logs.go\<close> and \<open>src/internal/server/log.go\<close>: the output of a container captured
  into a compressed file of JSON lines, read back, and streamed live. Docker's demultiplexer is third-party
  code: the sequence of its writes, and its error, are a parameter. A compressed file is its decompressed
  bytes, or broken when writing it failed: reading a broken one fails, and which of the reading steps reports
  that is not distinguished. The parsers and the formatter of times and the clock, asked
  with the number of the call, are parameters.
\<close>

section \<open>Lines\<close>

record LogEntry =
  leTimestamp :: string
  leStream :: string
  leContent :: string

record log_env =
  lvParseNano :: "string \<Rightarrow> gotime option"
  lvParse :: "string \<Rightarrow> gotime option"
  lvFormat :: "gotime \<Rightarrow> string"
  lvNow :: "nat \<Rightarrow> gotime"

definition LF :: char where "LF = char_of (10 :: nat)"
definition CR :: char where "CR = char_of (13 :: nat)"

definition trim_line :: "string \<Rightarrow> string" where
  "trim_line s = TrimRight (\<lambda>c. c = CR \<or> c = LF) s"

text \<open>\<open>strings.SplitN(raw, " ", 2)\<close>, and the time a line starts with.\<close>

definition line_time :: "log_env \<Rightarrow> string \<Rightarrow> (gotime \<times> string) option" where
  "line_time env raw =
     (case Index raw (CHR '' '') of
        None \<Rightarrow> None
      | Some i \<Rightarrow>
          (case lvParseNano env (take i raw) of
             Some t \<Rightarrow> Some (t, drop (Suc i) raw)
           | None \<Rightarrow> (case lvParse env (take i raw) of Some t \<Rightarrow> Some (t, drop (Suc i) raw) | None \<Rightarrow> None)))"

definition parseLogLine :: "log_env \<Rightarrow> nat \<Rightarrow> string \<Rightarrow> string \<Rightarrow> LogEntry" where
  "parseLogLine env n raw stream =
     (case line_time env raw of
        Some (t, rest) \<Rightarrow> \<lparr>leTimestamp = lvFormat env t, leStream = stream, leContent = rest\<rparr>
      | None \<Rightarrow> \<lparr>leTimestamp = lvFormat env (lvNow env n), leStream = stream, leContent = raw\<rparr>)"

text \<open>
  The two collectors, which append to one list of entries. The length of that list numbers the calls of
  the clock.
\<close>

record capture =
  cpOut :: string
  cpErr :: string
  cpEntries :: "LogEntry list"

definition add_line :: "log_env \<Rightarrow> string \<Rightarrow> string \<Rightarrow> LogEntry list \<Rightarrow> LogEntry list" where
  "add_line env stream line es =
     (let clean = trim_line line in if clean \<noteq> [] then es @ [parseLogLine env (length es) clean stream] else es)"

text \<open>The complete lines of a buffer, each with its line feed, are taken; the rest is left in it.\<close>

function take_lines :: "log_env \<Rightarrow> string \<Rightarrow> string \<Rightarrow> LogEntry list \<Rightarrow> string \<times> LogEntry list" where
  "take_lines env stream buf es =
     (case Index buf LF of
        None \<Rightarrow> (buf, es)
      | Some i \<Rightarrow> take_lines env stream (drop (Suc i) buf) (add_line env stream (take (Suc i) buf) es))"
  by pat_completeness auto
termination
proof (relation "measure (\<lambda>(env, stream, buf, es). length buf)", simp_all)
  show "Index buf LF = Some i \<Longrightarrow> length buf - Suc i < length buf" for buf i
    by (cases buf) auto
qed

definition Write :: "log_env \<Rightarrow> bool \<times> string \<Rightarrow> capture \<Rightarrow> capture" where
  "Write env w c =
     (if fst w then (let (buf, es) = take_lines env ''stderr'' (cpErr c @ snd w) (cpEntries c) in c\<lparr>cpErr := buf, cpEntries := es\<rparr>)
      else (let (buf, es) = take_lines env ''stdout'' (cpOut c @ snd w) (cpEntries c) in c\<lparr>cpOut := buf, cpEntries := es\<rparr>))"

definition Flush :: "log_env \<Rightarrow> bool \<Rightarrow> capture \<Rightarrow> capture" where
  "Flush env err c =
     (if err then (if cpErr c \<noteq> [] then c\<lparr>cpErr := [], cpEntries := add_line env ''stderr'' (cpErr c) (cpEntries c)\<rparr> else c)
      else (if cpOut c \<noteq> [] then c\<lparr>cpOut := [], cpEntries := add_line env ''stdout'' (cpOut c) (cpEntries c)\<rparr> else c))"

text \<open>
  \<open>bufio.Scanner\<close> with its default limits: the lines up to the first that does not fit into the buffer, and
  whether there was one.
\<close>

definition MaxLine :: nat where "MaxLine = 65535"

definition drop_cr :: "string \<Rightarrow> string" where
  "drop_cr l = (if l \<noteq> [] \<and> last l = CR then butlast l else l)"

definition scan_lines :: "string \<Rightarrow> string list \<times> bool" where
  "scan_lines s =
     (let ps = Split s LF; ls = (if last ps = [] then butlast ps else ps)
      in (map drop_cr (takeWhile (\<lambda>l. length l \<le> MaxLine) ls), \<exists>l \<in> set ls. MaxLine < length l))"

section \<open>Capture\<close>

definition fallback_entries :: "log_env \<Rightarrow> nat \<Rightarrow> string \<Rightarrow> LogEntry list" where
  "fallback_entries env n data =
     fold (\<lambda>l es. if TrimSpace l \<noteq> [] then es @ [parseLogLine env (n + length es) l ''stdout''] else es) (fst (scan_lines data)) []"

definition collected :: "log_env \<Rightarrow> (bool \<times> string) list \<Rightarrow> LogEntry list" where
  "collected env ws = cpEntries (Flush env True (Flush env False (fold (Write env) ws \<lparr>cpOut = [], cpErr = [], cpEntries = []\<rparr>)))"

definition captured_entries :: "log_env \<Rightarrow> (string \<Rightarrow> (bool \<times> string) list \<times> string option) \<Rightarrow> string \<Rightarrow> LogEntry list" where
  "captured_entries env stdCopy data =
     (let (ws, copyErr) = stdCopy data; es = collected env ws
      in sort_key leTimestamp (if copyErr \<noteq> None \<or> es = [] then fallback_entries env (length es) data else es))"

definition key_text :: "string \<Rightarrow> string" where "key_text k = [CHR 0x22] @ k @ [CHR 0x22] @ '':''"

definition entry_json :: "LogEntry \<Rightarrow> string" where
  "entry_json e =
     ''{'' @ key_text ''timestamp'' @ json_quote (leTimestamp e) @ '','' @ key_text ''stream'' @ json_quote (leStream e) @
     '','' @ key_text ''content'' @ json_quote (leContent e) @ ''}''"

text \<open>A compressed file; the failures of making the directory, opening and writing the file are \<open>fail\<close>.\<close>

datatype gz_file = Complete string | Broken

datatype capture_error = NilStream | ReadingStream string | MakingDirectory string | CreatingFile string | WritingFile string

definition CaptureAndCompressLogs ::
  "log_env \<Rightarrow> (string \<Rightarrow> (bool \<times> string) list \<times> string option) \<Rightarrow> (nat \<Rightarrow> string option) \<Rightarrow> (string + string) option \<Rightarrow> string \<Rightarrow>
   (string, gz_file) gomap \<Rightarrow> (capture_error + nat) \<times> (string, gz_file) gomap" where
  "CaptureAndCompressLogs env stdCopy fail stream destPath files =
     (case stream of
        None \<Rightarrow> (Inl NilStream, files)
      | Some content \<Rightarrow>
          (case fail 0 of
             Some err \<Rightarrow> (Inl (MakingDirectory err), files)
           | None \<Rightarrow>
               (case content of
                  Inl err \<Rightarrow> (Inl (ReadingStream err), files)
                | Inr data \<Rightarrow>
                    (let entries = captured_entries env stdCopy data in
                     case fail 1 of
                       Some err \<Rightarrow> (Inl (CreatingFile err), files)
                     | None \<Rightarrow>
                         (case fail 2 of
                            Some err \<Rightarrow> (Inl (WritingFile err), mput destPath Broken files)
                          | None \<Rightarrow> (Inr (length entries),
                              mput destPath (Complete (concat (map (\<lambda>e. entry_json e @ [LF]) entries))) files))))))"

section \<open>Reading\<close>

datatype read_error = NoSuchFile | BadGzip | BadLine string | LineTooLong

definition entry_field :: "string \<Rightarrow> json \<Rightarrow> LogEntry \<Rightarrow> LogEntry option" where
  "entry_field k v e =
     (if EqualFold k ''timestamp'' then map_option (\<lambda>x. e\<lparr>leTimestamp := x\<rparr>) (dec_string v (leTimestamp e))
      else if EqualFold k ''stream'' then map_option (\<lambda>x. e\<lparr>leStream := x\<rparr>) (dec_string v (leStream e))
      else if EqualFold k ''content'' then map_option (\<lambda>x. e\<lparr>leContent := x\<rparr>) (dec_string v (leContent e))
      else Some e)"

definition Unmarshal_entry :: "string \<Rightarrow> LogEntry option" where
  "Unmarshal_entry line =
     (case parse_json line of
        None \<Rightarrow> None
      | Some v \<Rightarrow> dec_object entry_field v \<lparr>leTimestamp = [], leStream = [], leContent = []\<rparr>)"

fun read_entries :: "string list \<Rightarrow> read_error + LogEntry list" where
  "read_entries [] = Inr []"
| "read_entries (l # ls) =
     (if TrimSpace l = [] then read_entries ls
      else case Unmarshal_entry l of
             None \<Rightarrow> Inl (BadLine l)
           | Some e \<Rightarrow> (case read_entries ls of Inl err \<Rightarrow> Inl err | Inr es \<Rightarrow> Inr (e # es)))"

definition ReadGzippedJSONLLogs :: "(string, gz_file) gomap \<Rightarrow> string \<Rightarrow> read_error + LogEntry list" where
  "ReadGzippedJSONLLogs files srcPath =
     (case mget files srcPath of
        None \<Rightarrow> Inl NoSuchFile
      | Some Broken \<Rightarrow> Inl BadGzip
      | Some (Complete data) \<Rightarrow>
          (case read_entries (fst (scan_lines data)) of
             Inl err \<Rightarrow> Inl err
           | Inr es \<Rightarrow> if snd (scan_lines data) then Inl LineTooLong else Inr es))"

section \<open>The log service\<close>

text \<open>\<open>server/log.go\<close>: the files it serves are those that the capture writes, under the same name.\<close>

record LogChunk =
  lcTimestamp :: string
  lcStream :: string
  lcContent :: string

datatype log_error = LogInvalidArgument | LogUnavailable | LogNotFound | LogInternal | SendFailed string

definition runnerLogPath :: "string \<Rightarrow> string \<Rightarrow> string" where
  "runnerLogPath dataDir runnerID = path_join [dataDir, ''logs'', runnerID @ ''.log.jsonl.gz'']"

definition chunk_of :: "LogEntry \<Rightarrow> LogChunk" where
  "chunk_of e = \<lparr>lcTimestamp = leTimestamp e, lcStream = leStream e, lcContent = leContent e\<rparr>"

text \<open>Opening a file that exists may fail too, which \<open>openFails\<close> says of each path.\<close>

definition GetRunnerLogs ::
  "string \<Rightarrow> (string \<Rightarrow> bool) \<Rightarrow> (string, gz_file) gomap \<Rightarrow> string \<Rightarrow> log_error + LogChunk list" where
  "GetRunnerLogs dataDir openFails files runnerId =
     (let runnerID = TrimSpace runnerId; srcPath = runnerLogPath dataDir runnerID in
      if runnerID = [] then Inl LogInvalidArgument
      else case mget files srcPath of
             None \<Rightarrow> Inl LogNotFound
           | Some f \<Rightarrow>
               if openFails srcPath then Inl LogInternal
               else (case f of
                       Broken \<Rightarrow> Inl LogInternal
                     | Complete data \<Rightarrow>
                         (case read_entries (fst (scan_lines data)) of
                            Inl _ \<Rightarrow> Inl LogInternal
                          | Inr es \<Rightarrow> if snd (scan_lines data) then Inl LogInternal else Inr (map chunk_of es))))"

section \<open>Live streams\<close>

text \<open>
  Sending the \<open>n\<close>-th chunk fails when \<open>send n\<close> says so; the chunks sent so far number the calls of the
  clock, too.
\<close>

definition parseDockerTimestamp :: "log_env \<Rightarrow> nat \<Rightarrow> string \<Rightarrow> string \<times> string" where
  "parseDockerTimestamp env n raw =
     (let (timestamp, content) =
            (case Index raw (CHR '' '') of
               None \<Rightarrow> ([], raw)
             | Some idx \<Rightarrow>
                 let cand = take idx raw in
                 if 0 < idx \<and> (lvParseNano env cand \<noteq> None \<or> lvParse env cand \<noteq> None) then (cand, drop (Suc idx) raw)
                 else ([], raw))
      in (if timestamp = [] then lvFormat env (lvNow env n) else timestamp, trim_line content))"

type_synonym sent = "LogChunk list"

definition send_chunk :: "log_env \<Rightarrow> (nat \<Rightarrow> string option) \<Rightarrow> string \<Rightarrow> string \<Rightarrow> sent \<Rightarrow> string option \<times> sent" where
  "send_chunk env send stream text sent =
     (let (ts, content) = parseDockerTimestamp env (length sent) text in
      case send (length sent) of
        Some err \<Rightarrow> (Some err, sent)
      | None \<Rightarrow> (None, sent @ [\<lparr>lcTimestamp = ts, lcStream = stream, lcContent = content\<rparr>]))"

definition sendPlainLine :: "log_env \<Rightarrow> (nat \<Rightarrow> string option) \<Rightarrow> string \<Rightarrow> sent \<Rightarrow> string option \<times> sent" where
  "sendPlainLine env send raw sent =
     (let trimmed = trim_line raw in if trimmed = [] then (None, sent) else send_chunk env send ''stdout'' trimmed sent)"

fun send_lines :: "log_env \<Rightarrow> (nat \<Rightarrow> string option) \<Rightarrow> string list \<Rightarrow> sent \<Rightarrow> string option \<times> sent" where
  "send_lines env send [] sent = (None, sent)"
| "send_lines env send (l # ls) sent =
     (case sendPlainLine env send l sent of
        (Some err, sent') \<Rightarrow> (Some err, sent')
      | (None, sent') \<Rightarrow> send_lines env send ls sent')"

text \<open>
  Docker's frames: the stream, three zero bytes, the size of the payload as a 32-bit integer, most
  significant byte first, and the payload.
\<close>

definition is_frame :: "string \<Rightarrow> bool" where
  "is_frame peek =
     (byte (peek ! 1) = 0 \<and> byte (peek ! 2) = 0 \<and> byte (peek ! 3) = 0 \<and> (byte (peek ! 0) = 1 \<or> byte (peek ! 0) = 2))"

definition frame_size :: "string \<Rightarrow> nat" where
  "frame_size header = ((byte (header ! 4) * 256 + byte (header ! 5)) * 256 + byte (header ! 6)) * 256 + byte (header ! 7)"

text \<open>
  How the bytes of the container end: at the end of the stream (or because the client has gone), or by an
  error of another kind, after which the reader may deliver more.
\<close>

datatype stream_end = Ended | Failed string

function stream_loop ::
  "log_env \<Rightarrow> (nat \<Rightarrow> string option) \<Rightarrow> (nat \<Rightarrow> bool) \<Rightarrow> stream_end \<Rightarrow> nat \<Rightarrow> string \<Rightarrow> sent \<Rightarrow> string option \<times> sent" where
  "stream_loop env send cancelled ending n data sent =
     (if cancelled n then (None, sent)
      else if length data < 8 then
        (case ending of Ended \<Rightarrow> (None, sent) | Failed rest \<Rightarrow> send_lines env send (fst (scan_lines (data @ rest))) sent)
      else if is_frame data then
        (let body = drop 8 data; size = frame_size data in
         if length body < size then (None, sent)
         else case send_chunk env send (if byte (data ! 0) = 2 then ''stderr'' else ''stdout'') (take size body) sent of
                (Some err, sent') \<Rightarrow> (Some err, sent')
              | (None, sent') \<Rightarrow> stream_loop env send cancelled ending (Suc n) (drop size body) sent')
      else case Index data LF of
             None \<Rightarrow> sendPlainLine env send data sent
           | Some i \<Rightarrow>
               (case sendPlainLine env send (take (Suc i) data) sent of
                  (Some err, sent') \<Rightarrow> (Some err, sent')
                | (None, sent') \<Rightarrow> stream_loop env send cancelled ending (Suc n) (drop (Suc i) data) sent'))"
  by pat_completeness auto
termination by (relation "measure (\<lambda>(env, send, cancelled, ending, n, data, sent). length data)") auto

declare stream_loop.simps [simp del]

definition StreamRunnerLogs ::
  "log_env \<Rightarrow> (string \<Rightarrow> (string + string \<times> stream_end)) option \<Rightarrow> (nat \<Rightarrow> string option) \<Rightarrow> (nat \<Rightarrow> bool) \<Rightarrow> string \<Rightarrow>
   log_error option \<times> LogChunk list" where
  "StreamRunnerLogs env logStreamer send cancelled runnerId =
     (let runnerID = TrimSpace runnerId in
      if runnerID = [] then (Some LogInvalidArgument, [])
      else case logStreamer of
             None \<Rightarrow> (Some LogUnavailable, [])
           | Some streamLogs \<Rightarrow>
               (case streamLogs runnerID of
                  Inl _ \<Rightarrow> (Some LogNotFound, [])
                | Inr (data, ending) \<Rightarrow>
                    (case stream_loop env send cancelled ending 0 data [] of
                       (err, sent) \<Rightarrow> (map_option SendFailed err, sent))))"

end
