(* ===== verification/Job_Logs_Props.thy ===== *)
theory Job_Logs_Props
  imports Job_Logs
begin

text \<open>
  The lines of a captured log do not depend on the pieces in which the output arrives, a captured log is read
  back by the service up to the length of a line that its reader accepts, and the frames of a live stream are
  delivered one by one.
\<close>

section \<open>Lines\<close>

lemma trim_line_LF: "trim_line (l @ [LF]) = trim_line l"
  by (simp add: trim_line_def TrimRight_def)

lemma trim_line_Nil [simp]: "trim_line [] = []"
  by (simp add: trim_line_def TrimRight_def)

lemma Split_at: "Index s c = Some i \<Longrightarrow> Split s c = take i s # Split (drop (Suc i) s) c"
  using Index_Some [of s c i] Split_first [of c "take i s" "drop (Suc i) s"] id_take_nth_drop [of i s] by simp

lemma Split_append: "Split (a @ b) c = butlast (Split a c) @ Split (last (Split a c) @ b) c"
proof (induction a)
  case (Cons x a)
  obtain p ps where ps: "Split a c = p # ps" by (cases "Split a c") simp_all
  note IH = Cons.IH
  show ?case
  proof (cases "x = c")
    case False
    show ?thesis
    proof (cases ps)
      case Nil
      then show ?thesis using False ps IH by simp
    next
      case (Cons q qs)
      then show ?thesis using False ps IH by simp
    qed
  qed (use Cons in simp)
qed simp

lemma take_lines_Split:
  "take_lines env stream buf es = (last (Split buf LF), fold (add_line env stream) (butlast (Split buf LF)) es)"
proof (induction env stream buf es rule: take_lines.induct)
  case (1 env stream buf es)
  show ?case
  proof (cases "Index buf LF")
    case None
    then have "Split buf LF = [buf]" by (simp add: Index_None Split_plain)
    with None show ?thesis by simp
  next
    case (Some i)
    have "add_line env stream (take (Suc i) buf) es = add_line env stream (take i buf) es"
      using Index_Some [OF Some] by (simp add: add_line_def take_Suc_conv_app_nth trim_line_LF)
    then show ?thesis using 1 [OF Some] Some Split_at [OF Some] by simp
  qed
qed

declare take_lines.simps [simp del]

section \<open>The lines of one stream\<close>

definition stream_name :: "bool \<Rightarrow> string" where "stream_name b = (if b then ''stderr'' else ''stdout'')"
definition buffer :: "bool \<Rightarrow> capture \<Rightarrow> string" where "buffer b c = (if b then cpErr c else cpOut c)"

text \<open>The entries of a stream are the lines, each parsed at some call of the clock.\<close>

definition entries_of :: "log_env \<Rightarrow> string \<Rightarrow> string list \<Rightarrow> LogEntry list \<Rightarrow> bool" where
  "entries_of env st ls es \<longleftrightarrow>
     (\<exists>ns. length ns = length ls \<and> filter (\<lambda>e. leStream e = st) es = map2 (\<lambda>n l. parseLogLine env n l st) ns ls)"

definition text_lines :: "string list \<Rightarrow> string list" where
  "text_lines ls = filter (\<lambda>l. l \<noteq> []) (map trim_line ls)"

lemma parseLogLine_stream [simp]: "leStream (parseLogLine env n l st) = st"
  by (simp add: parseLogLine_def split: option.split prod.split)

lemma entries_of_snoc:
  assumes "entries_of env st ls es"
  shows "entries_of env st (ls @ [l]) (es @ [parseLogLine env n l st])"
proof -
  obtain ns where "length ns = length ls" "filter (\<lambda>e. leStream e = st) es = map2 (\<lambda>n l. parseLogLine env n l st) ns ls"
    using assms by (auto simp: entries_of_def)
  then show ?thesis unfolding entries_of_def by (intro exI [of _ "ns @ [n]"]) simp
qed

lemma entries_of_add_line: "entries_of env st ls es \<Longrightarrow> entries_of env st (ls @ text_lines [l]) (add_line env st l es)"
  by (simp add: add_line_def text_lines_def Let_def entries_of_snoc)

lemma entries_of_other: "st' \<noteq> st \<Longrightarrow> entries_of env st ls (add_line env st' l es) = entries_of env st ls es"
  by (simp add: add_line_def entries_of_def Let_def)

lemma entries_of_fold: "entries_of env st ls es \<Longrightarrow> entries_of env st (ls @ text_lines ks) (fold (add_line env st) ks es)"
proof (induction ks arbitrary: ls es)
  case (Cons k ks)
  from Cons.IH [OF entries_of_add_line [OF Cons.prems, of k]] show ?case
    by (simp add: text_lines_def split: if_splits)
qed (simp add: text_lines_def)

lemma entries_of_fold_other: "st' \<noteq> st \<Longrightarrow> entries_of env st ls (fold (add_line env st') ks es) = entries_of env st ls es"
  by (induction ks arbitrary: es) (simp_all add: entries_of_other)

text \<open>What the collectors hold after a text has arrived: its last, unfinished line, and the entries of the others.\<close>

definition caught_up :: "log_env \<Rightarrow> bool \<Rightarrow> string \<Rightarrow> capture \<Rightarrow> bool" where
  "caught_up env b s c \<longleftrightarrow>
     buffer b c = last (Split s LF) \<and> entries_of env (stream_name b) (text_lines (butlast (Split s LF))) (cpEntries c)"

lemma Write_effect:
  "buffer b (Write env w c) = (if fst w = b then last (Split (buffer b c @ snd w) LF) else buffer b c)"
  "cpEntries (Write env w c) = fold (add_line env (stream_name (fst w))) (butlast (Split (buffer (fst w) c @ snd w) LF)) (cpEntries c)"
  by (auto simp: Write_def buffer_def stream_name_def take_lines_Split)

lemma stream_name_eq [simp]: "stream_name a = stream_name b \<longleftrightarrow> a = b"
  by (simp add: stream_name_def)

lemma caught_up_Write:
  assumes "caught_up env b s c"
  shows "caught_up env b (s @ (if fst w = b then snd w else [])) (Write env w c)"
proof (cases "fst w = b")
  case True
  have "Split (s @ snd w) LF = butlast (Split s LF) @ Split (last (Split s LF) @ snd w) LF" by (rule Split_append)
  moreover have "text_lines (butlast (xs @ Split t LF)) = text_lines xs @ text_lines (butlast (Split t LF))" for xs t
    by (simp add: butlast_append text_lines_def)
  ultimately show ?thesis
    using assms True entries_of_fold [of env "stream_name b" "text_lines (butlast (Split s LF))" "cpEntries c"]
    by (simp add: caught_up_def Write_effect)
next
  case False
  then show ?thesis using assms by (simp add: caught_up_def Write_effect entries_of_fold_other)
qed

definition arrived :: "bool \<Rightarrow> (bool \<times> string) list \<Rightarrow> string" where
  "arrived b ws = concat (map snd (filter (\<lambda>w. fst w = b) ws))"

lemma caught_up_writes: "caught_up env b s c \<Longrightarrow> caught_up env b (s @ arrived b ws) (fold (Write env) ws c)"
proof (induction ws arbitrary: s c)
  case (Cons w ws)
  from Cons.IH [OF caught_up_Write [OF Cons.prems, of w]] show ?case by (simp add: arrived_def split: if_splits)
qed (simp add: arrived_def)

lemma Flush_effect:
  "buffer b (Flush env a c) = (if a = b then [] else buffer b c)"
  "cpEntries (Flush env a c) = add_line env (stream_name a) (buffer a c) (cpEntries c)"
  by (auto simp: Flush_def buffer_def stream_name_def add_line_def)

lemma caught_up_Flush:
  assumes "caught_up env b s c"
  shows "entries_of env (stream_name b) (text_lines (Split s LF)) (cpEntries (Flush env b c))"
proof -
  have "Split s LF = butlast (Split s LF) @ [last (Split s LF)]" by simp
  then have "text_lines (Split s LF) = text_lines (butlast (Split s LF)) @ text_lines [last (Split s LF)]"
    by (metis filter_append map_append text_lines_def)
  with assms show ?thesis using entries_of_add_line by (simp add: caught_up_def Flush_effect)
qed

text \<open>
  No line of a captured stream is lost, split or joined, however Docker cuts the output into pieces: the entries
  collected for standard output, or for standard error, are the lines of all the bytes that arrived on that
  stream, in order and without blank ones, each parsed at some reading of the clock.
\<close>

theorem capture_keeps_lines:
  "\<exists>ns. length ns = length (text_lines (Split (arrived b ws) LF)) \<and>
     filter (\<lambda>e. leStream e = stream_name b) (collected env ws) =
       map2 (\<lambda>n l. parseLogLine env n l (stream_name b)) ns (text_lines (Split (arrived b ws) LF))"
proof -
  let ?c = "fold (Write env) ws \<lparr>cpOut = [], cpErr = [], cpEntries = []\<rparr>"
  have c: "caught_up env b (arrived b ws) ?c" for b
    using caught_up_writes [of env b "[]" "\<lparr>cpOut = [], cpErr = [], cpEntries = []\<rparr>" ws]
    by (simp add: caught_up_def buffer_def entries_of_def text_lines_def)
  have "entries_of env (stream_name b) (text_lines (Split (arrived b ws) LF)) (cpEntries (Flush env True (Flush env False ?c)))"
  proof (cases b)
    case True
    have "caught_up env True (arrived True ws) (Flush env False ?c)"
      using c [of True] by (simp add: caught_up_def Flush_effect entries_of_other)
    with True caught_up_Flush [of env True] show ?thesis by simp
  next
    case False
    with caught_up_Flush [OF c [of False]] show ?thesis by (simp add: Flush_effect(2) [of env True] entries_of_other)
  qed
  then show ?thesis by (simp add: entries_of_def collected_def)
qed

section \<open>Reading back\<close>

lemma lower_hex_printable: "n < 16 \<Longrightarrow> 32 \<le> byte (lower_hex n)"
  by (simp add: lower_hex_def of_char_of)

lemma unicode_escape_printable:
  assumes "x \<in> set (unicode_escape n)"
  shows "32 \<le> byte x"
proof -
  from assms consider "x = CHR 0x5C" | "x = CHR ''u''" | m where "x = lower_hex (m mod 16)"
    by (auto simp: unicode_escape_def)
  then show ?thesis by cases (simp_all add: lower_hex_printable)
qed

lemma json_escape_printable:
  assumes "x \<in> set (json_escape c)"
  shows "32 \<le> byte x"
  using assms unicode_escape_printable [of x "byte c"]
  by (auto simp: json_escape_def Let_def simp del: of_char_eq_iff split: if_splits)

lemma LF_char: "LF = CHR 0x0A" by (simp add: LF_def char_of_def bit_0)

lemma rune_bytes_printable:
  assumes "rune_len (c # s) = Suc k" "\<not> byte c < 128" "x \<in> set (take k s)"
  shows "32 \<le> byte x"
  using assms by (auto simp: Let_def cont_def split: if_splits list.splits)

lemma json_body_printable: "x \<in> set (json_body s) \<Longrightarrow> 32 \<le> byte x"
proof (induction s rule: json_body.induct)
  case (2 c s)
  show ?case
  proof (cases "byte c < 128")
    case True
    then show ?thesis using 2(1) 2(4) json_escape_printable by auto
  next
    case False
    show ?thesis
    proof (cases "rune_len (c # s)")
      case 0
      then show ?thesis using False 2(2) 2(4) unicode_escape_printable by (auto simp del: rune_len.simps)
    next
      case (Suc k)
      then have "x \<in> set (unicode_escape 8232) \<or> x \<in> set (unicode_escape 8233) \<or> x = c \<or> x \<in> set (take k s) \<or> x \<in> set (json_body (drop k s))"
        using False 2(4) by (auto simp del: rune_len.simps split: if_splits)
      then show ?thesis using False 2(3) [OF False Suc] unicode_escape_printable rune_bytes_printable [OF Suc False] by auto
    qed
  qed
qed simp

lemma entry_json_no_LF: "LF \<notin> set (entry_json e)"
proof -
  have "LF \<notin> set (json_body s)" for s using json_body_printable [of LF s] by (auto simp: LF_def of_char_of)
  then show ?thesis by (simp add: entry_json_def key_text_def json_quote_def LF_char)
qed

text \<open>One member with a text as its value, followed by another or by the end of the object.\<close>

lemma json_member_read:
  assumes "\<And>r. json_string (k @ CHR 0x22 # r) = Some (k, r)"
  shows "json_members (Suc (Suc n)) d (key_text k @ json_quote v @ CHR ''}'' # r) = Some ([(k, JStr (to_valid v))], r)"
    and "json_members (Suc (Suc n)) d (key_text k @ json_quote v @ CHR '','' # r) =
           map_option (apfst (Cons (k, JStr (to_valid v)))) (json_members (Suc n) d r)"
proof -
  have "json_value (Suc n) d (json_quote v @ r) = Some (JStr (to_valid v), r)" for r
    by (simp add: json_quote_def json_ws_def json_body_read)
  then show "json_members (Suc (Suc n)) d (key_text k @ json_quote v @ CHR ''}'' # r) = Some ([(k, JStr (to_valid v))], r)"
    and "json_members (Suc (Suc n)) d (key_text k @ json_quote v @ CHR '','' # r) =
           map_option (apfst (Cons (k, JStr (to_valid v)))) (json_members (Suc n) d r)"
    by (simp_all only: json_members.simps) (simp_all add: key_text_def json_ws_def assms del: json_value.simps json_members.simps)
qed

definition valid_entry :: "LogEntry \<Rightarrow> LogEntry" where
  "valid_entry e = \<lparr>leTimestamp = to_valid (leTimestamp e), leStream = to_valid (leStream e), leContent = to_valid (leContent e)\<rparr>"

lemma entry_keys:
  "json_string (''timestamp'' @ CHR 0x22 # r) = Some (''timestamp'', r)"
  "json_string (''stream'' @ CHR 0x22 # r) = Some (''stream'', r)"
  "json_string (''content'' @ CHR 0x22 # r) = Some (''content'', r)"
  by simp_all

lemma parse_entry:
  "parse_json (entry_json e) =
     Some (JObj [(''timestamp'', JStr (to_valid (leTimestamp e))), (''stream'', JStr (to_valid (leStream e))),
       (''content'', JStr (to_valid (leContent e)))])"
proof -
  have "\<exists>n. 2 * length (entry_json e) = Suc (Suc (Suc (Suc n)))" 
    by (intro exI [of _ "2 * length (entry_json e) - 4"]) (simp add: entry_json_def)
  then obtain n where n: "2 * length (entry_json e) = Suc (Suc (Suc (Suc n)))" by blast
  let ?ms = "key_text ''timestamp'' @ json_quote (leTimestamp e) @ CHR '','' # key_text ''stream'' @ json_quote (leStream e) @
     CHR '','' # key_text ''content'' @ json_quote (leContent e) @ CHR ''}'' # []"
  have "json_members (Suc (Suc (Suc (Suc n)))) 1 ?ms =
      Some ([(''timestamp'', JStr (to_valid (leTimestamp e))), (''stream'', JStr (to_valid (leStream e))), (''content'', JStr (to_valid (leContent e)))], [])"
    by (simp only: json_member_read entry_keys) simp
  moreover have "entry_json e = CHR ''{'' # ?ms" by (simp add: entry_json_def)
  moreover have "skip_ws ?ms = CHR 0x22 # tl ?ms" by (simp add: key_text_def json_ws_def)
  ultimately show ?thesis using n
    by (simp add: parse_json_def json_ws_def maxNestingDepth_def del: json_members.simps)
qed

lemma Unmarshal_entry_json: "Unmarshal_entry (entry_json e) = Some (valid_entry e)"
  by (simp add: Unmarshal_entry_def parse_entry entry_field_def EqualFold_def ToLower_def to_lower_char_def valid_entry_def)

lemma Split_lines:
  assumes "\<And>l. l \<in> set ls \<Longrightarrow> c \<notin> set l"
  shows "Split (concat (map (\<lambda>l. l @ [c]) ls)) c = ls @ [[]]"
  using assms by (induction ls) (simp_all add: Split_first)

lemma read_lines:
  assumes "\<And>l. l \<in> set ls \<Longrightarrow> LF \<notin> set l \<and> l \<noteq> [] \<and> last l \<noteq> CR"
  shows "scan_lines (concat (map (\<lambda>l. l @ [LF]) ls)) = (takeWhile (\<lambda>l. length l \<le> MaxLine) ls, \<exists>l \<in> set ls. MaxLine < length l)"
proof -
  have "map drop_cr (takeWhile P ls) = takeWhile P ls" for P
    using assms by (intro map_idI) (auto simp: drop_cr_def dest: set_takeWhileD)
  then show ?thesis using assms by (simp add: scan_lines_def Split_lines)
qed

lemma entry_json_ends [simp]: "entry_json e \<noteq> []" "last (entry_json e) \<noteq> CR" "TrimSpace (entry_json e) \<noteq> []"
proof -
  have "TrimSpace (entry_json e) = entry_json e"
    by (simp add: TrimSpace_def TrimLeft_def TrimRight_def entry_json_def is_space_def)
  then show "TrimSpace (entry_json e) \<noteq> []" by (simp add: entry_json_def)
qed (simp_all add: entry_json_def CR_def char_of_def)

lemma read_entries_written: "read_entries (map entry_json es) = Inr (map valid_entry es)"
  by (induction es) (simp_all add: Unmarshal_entry_json)

lemma scan_written:
  "scan_lines (concat (map (\<lambda>e. entry_json e @ [LF]) es)) =
     (map entry_json (takeWhile (\<lambda>e. length (entry_json e) \<le> MaxLine) es), \<exists>e \<in> set es. MaxLine < length (entry_json e))"
proof -
  have "scan_lines (concat (map (\<lambda>l. l @ [LF]) (map entry_json es))) =
      (takeWhile (\<lambda>l. length l \<le> MaxLine) (map entry_json es), \<exists>l \<in> set (map entry_json es). MaxLine < length l)"
    by (rule read_lines) (auto simp: entry_json_no_LF)
  then show ?thesis by (simp add: comp_def takeWhile_map)
qed

lemma read_written:
  "ReadGzippedJSONLLogs (mput p (Complete (concat (map (\<lambda>e. entry_json e @ [LF]) es))) files) p =
     (if \<forall>e \<in> set es. length (entry_json e) \<le> MaxLine then Inr (map valid_entry es) else Inl LineTooLong)"
  by (auto simp: ReadGzippedJSONLLogs_def scan_written read_entries_written not_le takeWhile_eq_all_conv [THEN iffD2])

lemma served_written:
  assumes "TrimSpace rid = rid" "rid \<noteq> []" "\<not> openFails (LogPath dir rid)"
  shows "GetRunnerLogs dir openFails (mput (LogPath dir rid) (Complete (concat (map (\<lambda>e. entry_json e @ [LF]) es))) files) rid =
    (if \<forall>e \<in> set es. length (entry_json e) \<le> MaxLine then Inr (map (\<lambda>e. chunk_of (valid_entry e)) es) else Inl LogInternal)"
proof -
  have "runnerLogPath dir rid = LogPath dir rid" by (simp add: runnerLogPath_def LogPath_def)
  with assms show ?thesis
    by (auto simp: GetRunnerLogs_def scan_written read_entries_written not_le takeWhile_eq_all_conv [THEN iffD2])
qed

text \<open>
  C35. A log that was captured without a failure is read back and served in the order of its time stamps: every
  entry comes back, with the bytes that are no UTF-8 replaced, unless one of them takes more than 65535
  bytes as JSON, in which case nothing of the file can be read.
\<close>

theorem captured_log_served:
  assumes "CaptureAndCompressLogs env stdCopy fail (Some (Inr data)) (LogPath dir rid) files = (Inr n, files')"
    and "TrimSpace rid = rid" "rid \<noteq> []" "\<not> openFails (LogPath dir rid)"
  shows "let es = captured_entries env stdCopy data; fits = (\<forall>e \<in> set es. length (entry_json e) \<le> MaxLine) in
    n = length es \<and> sorted (map leTimestamp es) \<and>
    ReadGzippedJSONLLogs files' (LogPath dir rid) = (if fits then Inr (map valid_entry es) else Inl LineTooLong) \<and>
    GetRunnerLogs dir openFails files' rid = (if fits then Inr (map (\<lambda>e. chunk_of (valid_entry e)) es) else Inl LogInternal)"
proof -
  let ?es = "captured_entries env stdCopy data"
  have n: "n = length ?es"
    and files': "files' = mput (LogPath dir rid) (Complete (concat (map (\<lambda>e. entry_json e @ [LF]) ?es))) files"
    using assms(1) by (auto simp: CaptureAndCompressLogs_def Let_def split: option.splits)
  have "sorted (map leTimestamp ?es)" by (simp add: captured_entries_def Let_def split: prod.split)
  then show ?thesis using n read_written [of "LogPath dir rid"] served_written [of rid openFails dir, OF assms(2-4)]
    by (simp add: files' Let_def)
qed

section \<open>Live streams\<close>

definition be32 :: "nat \<Rightarrow> string" where
  "be32 n = map (\<lambda>k. char_of (n div 256 ^ k)) [3, 2, 1, 0]"

definition frame :: "bool \<times> string \<Rightarrow> string" where
  "frame p = [char_of (if fst p then 2 else 1 :: nat), char_of (0 :: nat), char_of (0 :: nat), char_of (0 :: nat)] @ be32 (length (snd p)) @ snd p"

definition frame_chunk :: "log_env \<Rightarrow> nat \<Rightarrow> bool \<times> string \<Rightarrow> LogChunk" where
  "frame_chunk env n p =
     (let (ts, content) = parseDockerTimestamp env n (snd p)
      in \<lparr>lcTimestamp = ts, lcStream = stream_name (fst p), lcContent = content\<rparr>)"

lemma base256:
  assumes "(n :: nat) < 2 ^ 32"
  shows "((n div 256 ^ 3 mod 256 * 256 + n div 256 ^ 2 mod 256) * 256 + n div 256 mod 256) * 256 + n mod 256 = n"
proof -
  have "n div 256 ^ 3 mod 256 = n div 256 ^ 3" using assms by (simp add: less_mult_imp_div_less)
  moreover have "n div 256 ^ 3 * 256 + n div 256 ^ 2 mod 256 = n div 256 ^ 2" "n div 256 ^ 2 * 256 + n div 256 mod 256 = n div 256"
    "n div 256 * 256 + n mod 256 = n"
    using div_mult_mod_eq [of "n div 256 ^ 2" 256] div_mult_mod_eq [of "n div 256" 256]
    by (simp_all add: div_mult2_eq [symmetric])
  ultimately show ?thesis by simp
qed

lemma frame_header:
  assumes "length (snd p) < 2 ^ 32"
  shows "is_frame (frame p @ r)" "frame_size (frame p @ r) = length (snd p)" "drop 8 (frame p @ r) = snd p @ r"
    "(byte ((frame p @ r) ! 0) = 2) = fst p"
proof -
  have "length (snd p) div 16777216 mod 256 = length (snd p) div 16777216" using assms by (simp add: less_mult_imp_div_less)
  then show "frame_size (frame p @ r) = length (snd p)"
    using base256 [OF assms] by (simp add: frame_size_def frame_def be32_def of_char_of)
qed (simp_all add: is_frame_def frame_def be32_def of_char_of)

lemma frame_prefix:
  assumes "length (snd p) < 2 ^ 32" "k < length (frame p)" "8 \<le> k"
  shows "is_frame (take k (frame p))" "length (drop 8 (take k (frame p))) < frame_size (take k (frame p))"
proof -
  have take8: "take k (frame p) ! i = frame p ! i" if "i < 8" for i using that assms(3) by simp
  have len: "length (frame p) = 8 + length (snd p)" by (simp add: frame_def be32_def)
  show "is_frame (take k (frame p))" using frame_header(1) [OF assms(1), of "[]"] by (simp add: is_frame_def take8)
  have "frame_size (take k (frame p)) = length (snd p)"
    using frame_header(2) [OF assms(1), of "[]"] by (simp add: frame_size_def take8)
  then show "length (drop 8 (take k (frame p))) < frame_size (take k (frame p))" using assms(2, 3) len by simp
qed

lemma stream_frames:
  assumes "\<And>p. p \<in> set (ps @ [q]) \<Longrightarrow> length (snd p) < 2 ^ 32" "k < length (frame q)"
  shows "stream_loop env (\<lambda>_. None) (\<lambda>_. False) Ended n (concat (map frame ps) @ take k (frame q)) sent =
    (None, sent @ map2 (frame_chunk env) [length sent..<length sent + length ps] ps)"
  using assms(1)
proof (induction ps arbitrary: n sent)
  case Nil
  then have q: "length (snd q) < 2 ^ 32" by simp
  show ?case
  proof (cases "k < 8")
    case False
    then have "\<not> length (take k (frame q)) < 8" using assms(2) by simp
    with False frame_prefix [OF q assms(2)] show ?thesis by (subst stream_loop.simps) (simp add: Let_def)
  next
    case True
    then have "length (take k (frame q)) < 8" by simp
    then show ?thesis by (subst stream_loop.simps) simp
  qed
next
  case (Cons p ps)
  let ?r = "concat (map frame ps) @ take k (frame q)"
  have p: "length (snd p) < 2 ^ 32" using Cons.prems by simp
  have "\<not> length (frame p @ ?r) < 8" by (simp add: frame_def be32_def)
  moreover have "send_chunk env (\<lambda>_. None) (if fst p then ''stderr'' else ''stdout'') (snd p) sent = (None, sent @ [frame_chunk env (length sent) p])"
    by (simp add: send_chunk_def frame_chunk_def stream_name_def Let_def split: prod.split)
  ultimately have "stream_loop env (\<lambda>_. None) (\<lambda>_. False) Ended n (frame p @ ?r) sent =
      stream_loop env (\<lambda>_. None) (\<lambda>_. False) Ended (Suc n) ?r (sent @ [frame_chunk env (length sent) p])"
    using frame_header [OF p, of ?r] by (subst stream_loop.simps) (simp add: Let_def)
  then show ?case using Cons by (simp add: upt_rec)
qed

text \<open>
  A live stream delivers every complete frame as one chunk, in order and on the stream it came from, wherever
  the connection is cut: of an unfinished last frame nothing is sent.
\<close>

theorem live_stream_delivers_frames:
  assumes "TrimSpace rid \<noteq> []"
    and "\<forall>p \<in> set (ps @ [q]). length (snd p) < 2 ^ 32" "k < length (frame q)"
    and "streamLogs (TrimSpace rid) = Inr (concat (map frame ps) @ take k (frame q), Ended)"
  shows "StreamRunnerLogs env (Some streamLogs) (\<lambda>_. None) (\<lambda>_. False) rid =
    (None, map2 (frame_chunk env) [0..<length ps] ps)"
proof -
  have "stream_loop env (\<lambda>_. None) (\<lambda>_. False) Ended 0 (concat (map frame ps) @ take k (frame q)) [] =
      (None, [] @ map2 (frame_chunk env) [length ([] :: sent)..<length ([] :: sent) + length ps] ps)"
    using assms(2) by (intro stream_frames assms(3)) blast
  with assms(1, 4) show ?thesis by (simp add: StreamRunnerLogs_def)
qed

section \<open>Examples\<close>

definition ex_log_env :: log_env where
  "ex_log_env = \<lparr>lvParseNano = (\<lambda>s. None), lvParse = (\<lambda>s. if s = ''1'' then Some 1 else if s = ''2'' then Some 2 else None),
     lvFormat = (\<lambda>t. if t = 1 then ''1'' else if t = 2 then ''2'' else ''3''), lvNow = (\<lambda>n. 3)\<rparr>"

definition ex_copy :: "string \<Rightarrow> (bool \<times> string) list \<times> string option" where
  "ex_copy data = ([(True, ''2 bad'' @ [LF]), (False, ''1 o''), (False, ''k'' @ [LF])], None)"

theorem captured_log_served_witness:
  "let files' = snd (CaptureAndCompressLogs ex_log_env ex_copy (\<lambda>_. None) (Some (Inr ''raw'')) (LogPath ''/data'' ''r1'') []) in
   ReadGzippedJSONLLogs files' (LogPath ''/data'' ''r1'') =
     Inr [\<lparr>leTimestamp = ''1'', leStream = ''stdout'', leContent = ''ok''\<rparr>, \<lparr>leTimestamp = ''2'', leStream = ''stderr'', leContent = ''bad''\<rparr>] \<and>
   GetRunnerLogs ''/data'' (\<lambda>_. False) files' ''r1'' =
     Inr [\<lparr>lcTimestamp = ''1'', lcStream = ''stdout'', lcContent = ''ok''\<rparr>, \<lparr>lcTimestamp = ''2'', lcStream = ''stderr'', lcContent = ''bad''\<rparr>]"
proof -
  let ?files = "snd (CaptureAndCompressLogs ex_log_env ex_copy (\<lambda>_. None) (Some (Inr ''raw'')) (LogPath ''/data'' ''r1'') [])"
  have es: "captured_entries ex_log_env ex_copy ''raw'' =
      [\<lparr>leTimestamp = ''1'', leStream = ''stdout'', leContent = ''ok''\<rparr>, \<lparr>leTimestamp = ''2'', leStream = ''stderr'', leContent = ''bad''\<rparr>]"
    by code_simp
  have "CaptureAndCompressLogs ex_log_env ex_copy (\<lambda>_. None) (Some (Inr ''raw'')) (LogPath ''/data'' ''r1'') [] = (Inr 2, ?files)"
    by (simp add: CaptureAndCompressLogs_def es)
  moreover have "TrimSpace ''r1'' = ''r1''" "''r1'' \<noteq> ([] :: string)" by (simp_all add: go_simps)
  moreover have "\<forall>e \<in> set (captured_entries ex_log_env ex_copy ''raw''). length (entry_json e) \<le> 99 \<and> valid_entry e = e"
    unfolding es by code_simp
  moreover have "99 \<le> MaxLine" by (simp add: MaxLine_def)
  ultimately show ?thesis
    using captured_log_served [of ex_log_env ex_copy "\<lambda>_. None" "''raw''" "''/data''" "''r1''" "[]" 2 ?files "\<lambda>_. False"]
    by (fastforce simp: es Let_def chunk_of_def)
qed

theorem live_stream_delivers_frames_witness:
  "StreamRunnerLogs ex_log_env (Some (\<lambda>_. Inr (frame (True, ''1 a'' @ [LF]) @ frame (False, ''b'') @ take 9 (frame (False, ''cc'')), Ended)))
     (\<lambda>_. None) (\<lambda>_. False) ''r1'' =
   (None, [\<lparr>lcTimestamp = ''1'', lcStream = ''stderr'', lcContent = ''a''\<rparr>, \<lparr>lcTimestamp = ''3'', lcStream = ''stdout'', lcContent = ''b''\<rparr>])"
proof -
  have "map2 (frame_chunk ex_log_env) [0..<Suc (Suc 0)] [(True, ''1 a'' @ [LF]), (False, ''b'')] =
      [\<lparr>lcTimestamp = ''1'', lcStream = ''stderr'', lcContent = ''a''\<rparr>, \<lparr>lcTimestamp = ''3'', lcStream = ''stdout'', lcContent = ''b''\<rparr>]"
    by code_simp
  moreover have "TrimSpace ''r1'' = ''r1''" by (simp add: go_simps)
  moreover have "9 < length (frame (False, ''cc''))" by (simp add: frame_def be32_def)
  ultimately show ?thesis
    using live_stream_delivers_frames [of "''r1''" "[(True, ''1 a'' @ [LF]), (False, ''b'')]" "(False, ''cc'')" 9
      "\<lambda>_. Inr (frame (True, ''1 a'' @ [LF]) @ frame (False, ''b'') @ take 9 (frame (False, ''cc'')), Ended)" ex_log_env]
    by simp
qed

text \<open>The last bytes of a plain stream, fewer than eight after the last line feed, are not sent.\<close>

lemma plain_tail_lost:
  "StreamRunnerLogs ex_log_env (Some (\<lambda>_. Inr (''Running'' @ [LF] @ ''done.'', Ended))) (\<lambda>_. None) (\<lambda>_. False) ''r1'' =
     (None, [\<lparr>lcTimestamp = ''3'', lcStream = ''stdout'', lcContent = ''Running''\<rparr>])"
  by code_simp

text \<open>The identifier of a runner is part of a path: it may lead out of the directory of logs.\<close>

lemma runner_id_leaves_logs: "runnerLogPath ''/data'' ''../../tmp/x'' = ''/tmp/x.log.jsonl.gz''"
  by (simp add: runnerLogPath_def go_simps)

end
