(* ===== verification/Forge_Api.thy ===== *)
theory Forge_Api
  imports Registry
begin

text \<open>
  What the clients of the forges share (\<open>src/internal/provider\<close>): requests over HTTP, answers in JSON, lists
  in pages and targets without duplicates. The HTTP client answers the n-th request; the requests made so far
  are part of a client's state. A request with a malformed URL is not made.
\<close>

section \<open>Decoding\<close>

text \<open>
  \<open>json.Unmarshal\<close> goes on behind a value of the wrong type, which it leaves alone, and reports it at the end:
  a decoder yields the value and whether all was of the right type.
\<close>

type_synonym 'a decoder = "json \<Rightarrow> 'a \<Rightarrow> 'a \<times> bool"

fun string_dec :: "string decoder" where
  "string_dec (JStr s) old = (s, True)"
| "string_dec JNull old = (old, True)"
| "string_dec _ old = (old, False)"

fun int_dec :: "int decoder" where
  "int_dec (JNum l) old = (case Atoi l of Some n \<Rightarrow> (n, True) | None \<Rightarrow> (old, False))"
| "int_dec JNull old = (old, True)"
| "int_dec _ old = (old, False)"

fun bool_dec :: "bool decoder" where
  "bool_dec (JBool b) old = (b, True)"
| "bool_dec JNull old = (old, True)"
| "bool_dec _ old = (old, False)"

text \<open>A field of a struct: its name, its decoder, and how it is read and written.\<close>

definition struct_field :: "string \<Rightarrow> 'a decoder \<Rightarrow> ('r \<Rightarrow> 'a) \<Rightarrow> (('a \<Rightarrow> 'a) \<Rightarrow> 'r \<Rightarrow> 'r) \<Rightarrow> string \<times> 'r decoder" where
  "struct_field name dec get upd = (name, \<lambda>v r. let (x, ok) = dec v (get r) in (upd (\<lambda>_. x) r, ok))"

fun member_dec :: "(string \<times> 'r decoder) list \<Rightarrow> string \<Rightarrow> 'r decoder" where
  "member_dec [] k v r = (r, True)"
| "member_dec ((name, dec) # fs) k v r = (if EqualFold k name then dec v r else member_dec fs k v r)"

fun object_dec :: "(string \<times> 'r decoder) list \<Rightarrow> 'r decoder" where
  "object_dec fs (JObj ms) r = fold (\<lambda>(k, v) (r, ok). let (r', ok') = member_dec fs k v r in (r', ok \<and> ok')) ms (r, True)"
| "object_dec fs JNull r = (r, True)"
| "object_dec fs _ r = (r, False)"

text \<open>An element of an array is decoded over the one the slice already has at its place.\<close>

fun elems_dec :: "'a decoder \<Rightarrow> 'a \<Rightarrow> json list \<Rightarrow> 'a list \<Rightarrow> 'a list \<times> bool" where
  "elems_dec dec zero [] old = ([], True)"
| "elems_dec dec zero (v # vs) old =
     (let (x, ok) = dec v (case old of [] \<Rightarrow> zero | o1 # _ \<Rightarrow> o1); (xs, oks) = elems_dec dec zero vs (tl old) in (x # xs, ok \<and> oks))"

fun array_dec :: "'a decoder \<Rightarrow> 'a \<Rightarrow> 'a list decoder" where
  "array_dec dec zero (JArr vs) old = elems_dec dec zero vs old"
| "array_dec dec zero JNull old = ([], True)"
| "array_dec dec zero _ old = (old, False)"

text \<open>\<open>Decoder.Decode\<close> reads the first value of a body, \<open>json.Unmarshal\<close> the whole text.\<close>

definition Decode :: "'a decoder \<Rightarrow> 'a \<Rightarrow> string \<Rightarrow> 'a \<times> bool" where
  "Decode dec zero body =
     (case json_value (Suc (2 * length body)) 0 body of None \<Rightarrow> (zero, False) | Some (v, _) \<Rightarrow> dec v zero)"

definition Unmarshal :: "'a decoder \<Rightarrow> 'a \<Rightarrow> string \<Rightarrow> 'a \<times> bool" where
  "Unmarshal dec zero text = (case parse_json text of None \<Rightarrow> (zero, False) | Some v \<Rightarrow> dec v zero)"

section \<open>Requests\<close>

datatype forge_error =
  MissingCredentials
| InvalidPrivateKey
| UnsupportedAuthMethod string
| LoadingProfile int
| InvalidTargetURL
| InstallationNotFound
| InvalidInstallation
| UnsupportedScope string
| NoInstanceURL
| BadURL string
| Transport string
| BadStatus int string
| Decoding
| EmptyToken
| Signing string

record forge_request =
  frMethod :: string
  frURL :: string
  frHeaders :: "(string \<times> string) list"
  frBody :: string

text \<open>
  The world of a client: the HTTP client with its transport, the clock (read with a number of requests made),
  the parsers of keys and times, the signature of the application and the environment variables.
\<close>

record forge_env =
  fgDo :: "nat \<Rightarrow> forge_request \<Rightarrow> string + http_response"
  fgNow :: "nat \<Rightarrow> gotime"
  fgParseTime :: "string \<Rightarrow> gotime option"
  fgParseKey :: "string \<Rightarrow> string option"
  fgSign :: "string \<Rightarrow> string \<Rightarrow> string + string"
  fgGetenv :: "string \<Rightarrow> string"

text \<open>An answer of one of the given kinds, decoded.\<close>

definition decoded :: "int list \<Rightarrow> 'a decoder \<Rightarrow> 'a \<Rightarrow> forge_error + http_response \<Rightarrow> forge_error + 'a" where
  "decoded statuses dec zero r =
     (case r of
        Inl err \<Rightarrow> Inl err
      | Inr resp \<Rightarrow>
          if hrStatusCode resp \<notin> set statuses then Inl (BadStatus (hrStatusCode resp) (TrimSpace (hrBody resp)))
          else (case Decode dec zero (hrBody resp) of (x, ok) \<Rightarrow> if ok then Inr x else Inl Decoding))"

text \<open>Continue with a result, or return the error.\<close>

definition and_then :: "('s, forge_error + 'a) state \<Rightarrow> ('a \<Rightarrow> ('s, forge_error + 'b) state) \<Rightarrow> ('s, forge_error + 'b) state" where
  "and_then m f = do { r \<leftarrow> m; case r of Inl err \<Rightarrow> State_Monad.return (Inl err) | Inr x \<Rightarrow> f x }"

definition id_dec :: "int decoder" where "id_dec = object_dec [(''id'', int_dec)]"

definition token_dec :: "string decoder" where "token_dec = object_dec [(''token'', string_dec)]"

section \<open>Pages\<close>

definition pageSize :: nat where "pageSize = 100"
definition maxPages :: nat where "maxPages = 50"

text \<open>
  \<open>for page := 1; page <= 50; page++\<close>: each page is fetched and its items are added to what there is, until a
  page is not full; an error ends the loop.
\<close>

fun pages :: "nat \<Rightarrow> nat \<Rightarrow> (nat \<Rightarrow> ('s, forge_error + 'i list) state) \<Rightarrow> ('i list \<Rightarrow> 'a \<Rightarrow> 'a) \<Rightarrow> 'a \<Rightarrow> ('s, forge_error + 'a) state" where
  "pages 0 page fetch add acc = State_Monad.return (Inr acc)"
| "pages (Suc k) page fetch add acc = do {
     r \<leftarrow> fetch page;
     case r of
       Inl err \<Rightarrow> State_Monad.return (Inl err)
     | Inr items \<Rightarrow>
         if length items < pageSize then State_Monad.return (Inr (add items acc))
         else pages k (Suc page) fetch add (add items acc)
   }"

section \<open>Targets\<close>

record DiscoveredTarget =
  dtName :: string
  dtFullName :: string
  dtHTMLURL :: string
  dtDescription :: string
  dtIsPrivate :: bool
  dtAvatarURL :: string

text \<open>The targets found so far, with the keys seen.\<close>

type_synonym found = "string list \<times> DiscoveredTarget list"

definition add_one :: "('i \<Rightarrow> string) \<Rightarrow> ('i \<Rightarrow> DiscoveredTarget) \<Rightarrow> 'i \<Rightarrow> found \<Rightarrow> found" where
  "add_one key target i acc =
     (if key i \<in> set (fst acc) then acc else (fst acc @ [key i], snd acc @ [target i]))"

definition add_found :: "('i \<Rightarrow> string) \<Rightarrow> ('i \<Rightarrow> DiscoveredTarget) \<Rightarrow> 'i list \<Rightarrow> found \<Rightarrow> found" where
  "add_found key target is acc = fold (add_one key target) is acc"

definition targets_of :: "forge_error + found \<Rightarrow> forge_error + DiscoveredTarget list" where
  "targets_of r = (case r of Inl err \<Rightarrow> Inl err | Inr acc \<Rightarrow> Inr (snd acc))"

text \<open>A repository, as every forge lists it.\<close>

record forge_repo =
  rpName :: string
  rpFullName :: string
  rpHTMLURL :: string
  rpDescription :: string
  rpPrivate :: bool
  rpOwnerAvatarURL :: string

definition empty_repo :: forge_repo where
  "empty_repo = \<lparr>rpName = [], rpFullName = [], rpHTMLURL = [], rpDescription = [], rpPrivate = False, rpOwnerAvatarURL = []\<rparr>"

definition owner_dec :: "string decoder" where
  "owner_dec = object_dec [(''avatar_url'', string_dec)]"

definition repo_dec :: "forge_repo decoder" where
  "repo_dec = object_dec
     [struct_field ''name'' string_dec rpName rpName_update, struct_field ''full_name'' string_dec rpFullName rpFullName_update,
      struct_field ''html_url'' string_dec rpHTMLURL rpHTMLURL_update,
      struct_field ''description'' string_dec rpDescription rpDescription_update,
      struct_field ''private'' bool_dec rpPrivate rpPrivate_update,
      struct_field ''owner'' owner_dec rpOwnerAvatarURL rpOwnerAvatarURL_update]"

definition repo_target :: "forge_repo \<Rightarrow> DiscoveredTarget" where
  "repo_target r = \<lparr>dtName = rpName r, dtFullName = rpFullName r, dtHTMLURL = rpHTMLURL r, dtDescription = rpDescription r,
     dtIsPrivate = rpPrivate r, dtAvatarURL = rpOwnerAvatarURL r\<rparr>"

section \<open>Target URLs\<close>

definition clean_target :: "string \<Rightarrow> string" where
  "clean_target rawURL = TrimSuffix (TrimSuffix (TrimSpace rawURL) ''.git'') ''/''"

text \<open>Owner and repository of \<open>git@host:owner/repo\<close>, with the part in front of the colon.\<close>

definition scp_target :: "string \<Rightarrow> (string \<times> string \<times> string) option" where
  "scp_target clean =
     (if HasPrefix clean ''git@'' then
        (case Split clean (CHR '':'') of
           [host, path] \<Rightarrow>
             (case Split path (CHR ''/'') of
                owner # repo # _ \<Rightarrow> Some (TrimPrefix host ''git@'', owner, repo)
              | [owner] \<Rightarrow> Some (TrimPrefix host ''git@'', owner, [])
              | [] \<Rightarrow> None)
         | _ \<Rightarrow> None)
      else None)"

definition path_parts :: "URL \<Rightarrow> string list" where
  "path_parts u = Split (TrimChar (uPath u) (CHR ''/'')) (CHR ''/'')"

end
