(* ===== verification/GitHub.thy ===== *)
theory GitHub
  imports Forge_Api Go_Aead
begin

text \<open>
  \<open>src/internal/provider/github\<close>: the client of GitHub, authenticated by a personal access token or as an
  application whose installation tokens it caches. A method is one computation over the client; that two
  goroutines may fill the cache side by side is not modelled.
\<close>

section \<open>The client\<close>

datatype gh_auth = AuthMethodGitHubApp | AuthMethodPAT

record github =
  ghBaseURL :: string
  ghAuthMethod :: gh_auth
  ghAppID :: int
  ghPrivateKey :: string
  ghPat :: string
  ghTokenCache :: "(string, string \<times> gotime) gomap"
  ghAppSlug :: string
  ghAppHTMLURL :: string
  ghLog :: "forge_request list"

definition DefaultBaseURL :: string where "DefaultBaseURL = ''https://api.github.com''"
definition GitHubAPIVersion :: string where "GitHubAPIVersion = ''2022-11-28''"

definition NewAppProvider :: "forge_env \<Rightarrow> int \<Rightarrow> string \<Rightarrow> forge_error + github" where
  "NewAppProvider env appID pemPrivateKey =
     (case fgParseKey env pemPrivateKey of
        None \<Rightarrow> Inl InvalidPrivateKey
      | Some key \<Rightarrow> Inr \<lparr>ghBaseURL = DefaultBaseURL, ghAuthMethod = AuthMethodGitHubApp, ghAppID = appID, ghPrivateKey = key,
          ghPat = [], ghTokenCache = [], ghAppSlug = [], ghAppHTMLURL = [], ghLog = []\<rparr>)"

definition NewPATProvider :: "string \<Rightarrow> forge_error + github" where
  "NewPATProvider pat =
     (if TrimSpace pat = [] then Inl MissingCredentials
      else Inr \<lparr>ghBaseURL = DefaultBaseURL, ghAuthMethod = AuthMethodPAT, ghAppID = 0, ghPrivateKey = [],
        ghPat = pat, ghTokenCache = [], ghAppSlug = [], ghAppHTMLURL = [], ghLog = []\<rparr>)"

definition WithBaseURL_github :: "string \<Rightarrow> github \<Rightarrow> github" where
  "WithBaseURL_github rawURL c =
     (if rawURL \<noteq> [] then c\<lparr>ghBaseURL := TrimRight (\<lambda>x. x = CHR ''/'') rawURL\<rparr> else c)"

section \<open>Tokens of the application\<close>

definition raw_url_char :: "char \<Rightarrow> char" where
  "raw_url_char c = (if c = CHR ''+'' then CHR ''-'' else if c = CHR ''/'' then CHR ''_'' else c)"

text \<open>\<open>base64.RawURLEncoding\<close>.\<close>

definition b64_url :: "string \<Rightarrow> string" where
  "b64_url s = map raw_url_char (filter (\<lambda>c. c \<noteq> CHR ''='') (b64_encode s))"

definition unix :: "gotime \<Rightarrow> int" where "unix t = t div Second"

definition quoted :: "string \<Rightarrow> string" where "quoted s = [CHR 0x22] @ s @ [CHR 0x22]"

definition jwt_header :: string where
  "jwt_header = ''{'' @ quoted ''alg'' @ '':'' @ quoted ''RS256'' @ '','' @ quoted ''typ'' @ '':'' @ quoted ''JWT'' @ ''}''"

text \<open>A map is written with its keys in order.\<close>

definition jwt_claims :: "int \<Rightarrow> gotime \<Rightarrow> string" where
  "jwt_claims appID now =
     ''{'' @ quoted ''exp'' @ '':'' @ Itoa (unix (now + 10 * Minute)) @ '','' @
     quoted ''iat'' @ '':'' @ Itoa (unix (now - 60 * Second)) @ '','' @
     quoted ''iss'' @ '':'' @ quoted (Itoa appID) @ ''}''"

definition GenerateAppJWT :: "forge_env \<Rightarrow> int \<Rightarrow> string \<Rightarrow> gotime \<Rightarrow> forge_error + string" where
  "GenerateAppJWT env appID key now =
     (let signingInput = b64_url jwt_header @ ''.'' @ b64_url (jwt_claims appID now) in
      case fgSign env key (sha256 signingInput) of
        Inl err \<Rightarrow> Inl (Signing err)
      | Inr sig \<Rightarrow> Inr (signingInput @ ''.'' @ b64_url sig))"

definition app_jwt :: "forge_env \<Rightarrow> (github, forge_error + string) state" where
  "app_jwt env = gets (\<lambda>c. GenerateAppJWT env (ghAppID c) (ghPrivateKey c) (fgNow env (length (ghLog c))))"

section \<open>Requests\<close>

definition setCommonHeaders :: "(string \<times> string) list \<Rightarrow> (string \<times> string) list" where
  "setCommonHeaders hs = hs @ [(''Accept'', ''application/vnd.github+json''), (''X-GitHub-Api-Version'', GitHubAPIVersion),
     (''User-Agent'', ''gh-runner-supervisor'')]"

definition gh_do :: "forge_env \<Rightarrow> string \<Rightarrow> string \<Rightarrow> string \<Rightarrow> string \<Rightarrow> (github, forge_error + http_response) state" where
  "gh_do env meth path token body = do {
     base \<leftarrow> gets ghBaseURL;
     if Parse (base @ path) = None then State_Monad.return (Inl (BadURL (base @ path)))
     else do {
       n \<leftarrow> gets (\<lambda>c. length (ghLog c));
       let r = \<lparr>frMethod = meth, frURL = base @ path, frHeaders = setCommonHeaders [(''Authorization'', ''Bearer '' @ token)], frBody = body\<rparr>;
       modify (\<lambda>c. c\<lparr>ghLog := ghLog c @ [r]\<rparr>);
       State_Monad.return (case fgDo env n r of Inl err \<Rightarrow> Inl (Transport err) | Inr resp \<Rightarrow> Inr resp)
     }
   }"

definition ValidateCredentials_github :: "forge_env \<Rightarrow> (github, forge_error option) state" where
  "ValidateCredentials_github env = do {
     m \<leftarrow> gets ghAuthMethod;
     r \<leftarrow> (case m of
            AuthMethodGitHubApp \<Rightarrow> and_then (app_jwt env) (\<lambda>jwt. gh_do env ''GET'' ''/app'' jwt [])
          | AuthMethodPAT \<Rightarrow> do { pat \<leftarrow> gets ghPat; gh_do env ''GET'' ''/user'' pat [] });
     State_Monad.return (case r of
       Inl err \<Rightarrow> Some err
     | Inr resp \<Rightarrow> if hrStatusCode resp \<noteq> 200 then Some (BadStatus (hrStatusCode resp) (TrimSpace (hrBody resp))) else None)
   }"

section \<open>Installations\<close>

definition queryInstallationEndpoint :: "forge_env \<Rightarrow> string \<Rightarrow> string \<Rightarrow> (github, forge_error + int) state" where
  "queryInstallationEndpoint env jwt path = do {
     r \<leftarrow> gh_do env ''GET'' path jwt [];
     State_Monad.return (case decoded [200] id_dec 0 r of
       Inl err \<Rightarrow> Inl err
     | Inr i \<Rightarrow> if i \<le> 0 then Inl InvalidInstallation else Inr i)
   }"

text \<open>The endpoints are asked in turn until one knows the installation.\<close>

fun first_installation :: "forge_env \<Rightarrow> string \<Rightarrow> string list \<Rightarrow> (github, forge_error + int) state" where
  "first_installation env jwt [] = State_Monad.return (Inl InstallationNotFound)"
| "first_installation env jwt (p # ps) = do {
     r \<leftarrow> queryInstallationEndpoint env jwt p;
     case r of Inr i \<Rightarrow> State_Monad.return (Inr i) | Inl _ \<Rightarrow> first_installation env jwt ps
   }"

definition findInstallationID :: "forge_env \<Rightarrow> string \<Rightarrow> string \<Rightarrow> (github, forge_error + int) state" where
  "findInstallationID env owner repo =
     and_then (app_jwt env) (\<lambda>jwt. first_installation env jwt
       ((if repo \<noteq> [] then [''/repos/'' @ owner @ ''/'' @ repo @ ''/installation''] else []) @
        [''/orgs/'' @ owner @ ''/installation'', ''/users/'' @ owner @ ''/installation'']))"

record access_token =
  atToken :: string
  atExpiresAt :: gotime

text \<open>\<open>time.Time\<close> is read from a text in RFC 3339.\<close>

fun time_dec :: "forge_env \<Rightarrow> gotime decoder" where
  "time_dec env (JStr s) old = (case fgParseTime env s of Some t \<Rightarrow> (t, True) | None \<Rightarrow> (old, False))"
| "time_dec env JNull old = (old, True)"
| "time_dec env _ old = (old, False)"

definition access_token_dec :: "forge_env \<Rightarrow> access_token decoder" where
  "access_token_dec env = object_dec
     [struct_field ''token'' string_dec atToken atToken_update, struct_field ''expires_at'' (time_dec env) atExpiresAt atExpiresAt_update]"

definition access_tokens_path :: "int \<Rightarrow> string" where
  "access_tokens_path i = ''/app/installations/'' @ Itoa i @ ''/access_tokens''"

definition getInstallationToken :: "forge_env \<Rightarrow> string \<Rightarrow> string \<Rightarrow> (github, forge_error + string) state" where
  "getInstallationToken env owner repo = do {
     let cacheKey = owner @ ''/'' @ repo;
     c \<leftarrow> gets (\<lambda>c. case mget (ghTokenCache c) cacheKey of
       Some (token, expiresAt) \<Rightarrow> if fgNow env (length (ghLog c)) < expiresAt then Some token else None
     | None \<Rightarrow> None);
     case c of
       Some token \<Rightarrow> State_Monad.return (Inr token)
     | None \<Rightarrow>
         and_then (findInstallationID env owner repo) (\<lambda>installationID.
         and_then (app_jwt env) (\<lambda>jwt. do {
           r \<leftarrow> gh_do env ''POST'' (access_tokens_path installationID) jwt ''{}'';
           and_then (State_Monad.return (decoded [201, 200] (access_token_dec env) \<lparr>atToken = [], atExpiresAt = zero_time\<rparr> r)) (\<lambda>res. do {
             modify (\<lambda>c. c\<lparr>ghTokenCache := mput cacheKey (atToken res, atExpiresAt res - 2 * Minute) (ghTokenCache c)\<rparr>);
             State_Monad.return (Inr (atToken res))
           })
         }))
   }"

definition getInstallationTokenByID :: "forge_env \<Rightarrow> int \<Rightarrow> (github, forge_error + string) state" where
  "getInstallationTokenByID env installationID =
     and_then (app_jwt env) (\<lambda>jwt. do {
       r \<leftarrow> gh_do env ''POST'' (access_tokens_path installationID) jwt ''{}'';
       State_Monad.return (decoded [201, 200] token_dec [] r)
     })"

definition getAuthBearerToken :: "forge_env \<Rightarrow> string \<Rightarrow> string \<Rightarrow> (github, forge_error + string) state" where
  "getAuthBearerToken env owner repo = do {
     m \<leftarrow> gets ghAuthMethod;
     case m of
       AuthMethodPAT \<Rightarrow> gets (\<lambda>c. Inr (ghPat c))
     | AuthMethodGitHubApp \<Rightarrow> getInstallationToken env owner repo
   }"

section \<open>Runners\<close>

definition parseTargetURL :: "string \<Rightarrow> forge_error + string \<times> string" where
  "parseTargetURL rawURL =
     (let clean = clean_target rawURL in
      case scp_target clean of
        Some (_, owner, repo) \<Rightarrow> Inr (owner, repo)
      | None \<Rightarrow>
          (case Parse clean of
             None \<Rightarrow> Inl InvalidTargetURL
           | Some parsed \<Rightarrow>
               (case path_parts parsed of
                  [] \<Rightarrow> Inl InvalidTargetURL
                | owner # rest \<Rightarrow>
                    if owner = [] then Inl InvalidTargetURL
                    else Inr (owner, case rest of [] \<Rightarrow> [] | repo # _ \<Rightarrow> repo))))"

definition registration_path :: "string \<Rightarrow> string \<Rightarrow> string \<Rightarrow> forge_error + string" where
  "registration_path scope owner repo =
     (if scope = ''repo'' then
        (if repo = [] then Inl InvalidTargetURL
         else Inr (''/repos/'' @ owner @ ''/'' @ repo @ ''/actions/runners/registration-token''))
      else if scope = ''org'' then Inr (''/orgs/'' @ owner @ ''/actions/runners/registration-token'')
      else if scope = ''global'' then Inr (''/enterprises/'' @ owner @ ''/actions/runners/registration-token'')
      else Inl (UnsupportedScope scope))"

text \<open>The answer has a second text field, which is not used but must be a text.\<close>

definition registration_dec :: "(string \<times> string) decoder" where
  "registration_dec = object_dec
     [struct_field ''token'' string_dec fst apfst, struct_field ''expires_at'' string_dec snd apsnd]"

definition GetRegistrationToken_github :: "forge_env \<Rightarrow> string \<Rightarrow> string \<Rightarrow> (github, forge_error + string) state" where
  "GetRegistrationToken_github env scope targetURL =
     and_then (State_Monad.return (parseTargetURL targetURL)) (\<lambda>(owner, repo).
     and_then (getAuthBearerToken env owner repo) (\<lambda>authToken.
     and_then (State_Monad.return (registration_path scope owner repo)) (\<lambda>path. do {
       r \<leftarrow> gh_do env ''POST'' path authToken [];
       State_Monad.return (case decoded [201, 200] registration_dec ([], []) r of
         Inl err \<Rightarrow> Inl err
       | Inr (token, _) \<Rightarrow> if token = [] then Inl EmptyToken else Inr token)
     })))"

definition GetRenovateToken_github :: "forge_env \<Rightarrow> string \<Rightarrow> (github, forge_error + string) state" where
  "GetRenovateToken_github env targetURL = do {
     m \<leftarrow> gets ghAuthMethod;
     case m of
       AuthMethodPAT \<Rightarrow> gets (\<lambda>c. Inr (ghPat c))
     | AuthMethodGitHubApp \<Rightarrow>
         and_then (State_Monad.return (parseTargetURL targetURL)) (\<lambda>(owner, repo). getInstallationToken env owner repo)
   }"

section \<open>Lists\<close>

record gh_installation =
  inID :: int
  inHTMLURL :: string
  inRepositorySelection :: string
  inLogin :: string
  inType :: string
  inAccountHTMLURL :: string
  inAvatarURL :: string
  inDescription :: string

definition empty_installation :: gh_installation where
  "empty_installation = \<lparr>inID = 0, inHTMLURL = [], inRepositorySelection = [], inLogin = [], inType = [], inAccountHTMLURL = [],
     inAvatarURL = [], inDescription = []\<rparr>"

definition account_field :: "(string \<times> gh_installation decoder) list \<Rightarrow> string \<times> gh_installation decoder" where
  "account_field fs = (''account'', object_dec fs)"

definition metadata_dec :: "gh_installation decoder" where
  "metadata_dec = object_dec
     [struct_field ''id'' int_dec inID inID_update, struct_field ''html_url'' string_dec inHTMLURL inHTMLURL_update,
      struct_field ''repository_selection'' string_dec inRepositorySelection inRepositorySelection_update,
      account_field
        [struct_field ''login'' string_dec inLogin inLogin_update, struct_field ''type'' string_dec inType inType_update,
         struct_field ''html_url'' string_dec inAccountHTMLURL inAccountHTMLURL_update]]"

definition org_installation_dec :: "gh_installation decoder" where
  "org_installation_dec = object_dec
     [struct_field ''id'' int_dec inID inID_update,
      account_field
        [struct_field ''login'' string_dec inLogin inLogin_update,
         struct_field ''html_url'' string_dec inAccountHTMLURL inAccountHTMLURL_update,
         struct_field ''avatar_url'' string_dec inAvatarURL inAvatarURL_update, struct_field ''type'' string_dec inType inType_update,
         struct_field ''description'' string_dec inDescription inDescription_update]]"

definition gh_page :: "forge_env \<Rightarrow> string \<Rightarrow> string \<Rightarrow> 'a decoder \<Rightarrow> 'a \<Rightarrow> nat \<Rightarrow> (github, forge_error + 'a list) state" where
  "gh_page env path token dec zero page = do {
     r \<leftarrow> gh_do env ''GET'' (path @ ''page='' @ Itoa (int page)) token [];
     State_Monad.return (decoded [200] (array_dec dec zero) [] r)
   }"

definition installations_path :: string where "installations_path = ''/app/installations?per_page=100&''"

subsection \<open>The application\<close>

record AppInstallation =
  aiID :: int
  aiAccountLogin :: string
  aiAccountType :: string
  aiHTMLURL :: string
  aiRepositorySelection :: string

definition app_installation :: "gh_installation \<Rightarrow> AppInstallation" where
  "app_installation i = \<lparr>aiID = inID i, aiAccountLogin = inLogin i, aiAccountType = inType i,
     aiHTMLURL =
       (if inHTMLURL i \<noteq> [] then inHTMLURL i
        else if inType i = ''Organization'' then
          ''https://github.com/organizations/'' @ inLogin i @ ''/settings/installations/'' @ Itoa (inID i)
        else ''https://github.com/settings/installations/'' @ Itoa (inID i)),
     aiRepositorySelection = inRepositorySelection i\<rparr>"

definition app_dec :: "(string \<times> string) decoder" where
  "app_dec = object_dec [struct_field ''slug'' string_dec fst apfst, struct_field ''html_url'' string_dec snd apsnd]"

text \<open>The slug of the application, asked for once; an answer that is not understood is no error.\<close>

definition app_slug :: "forge_env \<Rightarrow> string \<Rightarrow> (github, forge_error + string) state" where
  "app_slug env jwt = do {
     slug \<leftarrow> gets ghAppSlug;
     if slug \<noteq> [] then State_Monad.return (Inr slug)
     else do {
       r \<leftarrow> gh_do env ''GET'' ''/app'' jwt [];
       case r of
         Inl err \<Rightarrow> State_Monad.return (Inl err)
       | Inr resp \<Rightarrow>
           (case decoded [200] app_dec ([], []) (Inr resp) of
              Inl _ \<Rightarrow> State_Monad.return (Inr [])
            | Inr (s, htmlURL) \<Rightarrow> do {
                modify (\<lambda>c. c\<lparr>ghAppSlug := s, ghAppHTMLURL := htmlURL\<rparr>);
                State_Monad.return (Inr s)
              })
     }
   }"

definition install_url :: "string \<Rightarrow> string \<Rightarrow> string" where
  "install_url baseURL slug =
     (if slug = [] then []
      else (if Contains baseURL ''api.github.com'' then ''https://github.com'' else TrimSuffix baseURL ''/api/v3'') @
        ''/apps/'' @ slug @ ''/installations/new'')"

definition GetAppMetadata :: "forge_env \<Rightarrow> (github, string \<times> (forge_error + AppInstallation list)) state" where
  "GetAppMetadata env = do {
     m \<leftarrow> gets ghAuthMethod;
     if m \<noteq> AuthMethodGitHubApp then State_Monad.return ([], Inr [])
     else do {
       j \<leftarrow> app_jwt env;
       case j of
         Inl err \<Rightarrow> State_Monad.return ([], Inl err)
       | Inr jwt \<Rightarrow> do {
           s \<leftarrow> app_slug env jwt;
           case s of
             Inl err \<Rightarrow> State_Monad.return ([], Inl err)
           | Inr slug \<Rightarrow> do {
               installURL \<leftarrow> gets (\<lambda>c. install_url (ghBaseURL c) slug);
               r \<leftarrow> pages maxPages 1 (gh_page env installations_path jwt metadata_dec empty_installation) (\<lambda>is acc. acc @ is) [];
               State_Monad.return (installURL, case r of Inl err \<Rightarrow> Inl err | Inr is \<Rightarrow> Inr (map app_installation is))
             }
         }
     }
   }"

subsection \<open>Organizations\<close>

definition org_target :: "gh_installation \<Rightarrow> DiscoveredTarget" where
  "org_target i = \<lparr>dtName = inLogin i, dtFullName = inLogin i,
     dtHTMLURL = (if inAccountHTMLURL i = [] then ''https://github.com/'' @ inLogin i else inAccountHTMLURL i),
     dtDescription = inDescription i, dtIsPrivate = False, dtAvatarURL = inAvatarURL i\<rparr>"

text \<open>An organization of a user has the fields of an account.\<close>

definition user_org_dec :: "gh_installation decoder" where
  "user_org_dec = object_dec
     [struct_field ''login'' string_dec inLogin inLogin_update, struct_field ''description'' string_dec inDescription inDescription_update,
      struct_field ''avatar_url'' string_dec inAvatarURL inAvatarURL_update,
      struct_field ''html_url'' string_dec inAccountHTMLURL inAccountHTMLURL_update]"

definition DiscoverOrganizations_github :: "forge_env \<Rightarrow> (github, forge_error + DiscoveredTarget list) state" where
  "DiscoverOrganizations_github env = do {
     m \<leftarrow> gets ghAuthMethod;
     r \<leftarrow> (case m of
            AuthMethodGitHubApp \<Rightarrow> and_then (app_jwt env) (\<lambda>jwt.
              pages maxPages 1 (gh_page env installations_path jwt org_installation_dec empty_installation) (add_found inLogin org_target) ([], []))
          | AuthMethodPAT \<Rightarrow> do {
              pat \<leftarrow> gets ghPat;
              pages maxPages 1 (gh_page env ''/user/orgs?per_page=100&'' pat user_org_dec empty_installation) (add_found inLogin org_target) ([], [])
            });
     State_Monad.return (targets_of r)
   }"

subsection \<open>Repositories\<close>

definition repositories_dec :: "forge_repo list decoder" where
  "repositories_dec = object_dec [(''repositories'', array_dec repo_dec empty_repo)]"

text \<open>
  The repositories of one installation: a failed request ends its pages, and what could be decoded of a page
  is used.
\<close>

fun installation_repos :: "forge_env \<Rightarrow> nat \<Rightarrow> nat \<Rightarrow> string \<Rightarrow> found \<Rightarrow> (github, found) state" where
  "installation_repos env 0 page tok acc = State_Monad.return acc"
| "installation_repos env (Suc k) page tok acc = do {
     r \<leftarrow> gh_do env ''GET'' (''/installation/repositories?per_page=100&page='' @ Itoa (int page)) tok [];
     case r of
       Inl _ \<Rightarrow> State_Monad.return acc
     | Inr resp \<Rightarrow>
         if hrStatusCode resp \<noteq> 200 then State_Monad.return acc
         else (let repos = fst (Decode repositories_dec [] (hrBody resp)); acc' = add_found rpHTMLURL repo_target repos acc in
               if length repos < pageSize then State_Monad.return acc' else installation_repos env k (Suc page) tok acc')
   }"

text \<open>An installation for which there is no token is skipped.\<close>

fun installations_repos :: "forge_env \<Rightarrow> int list \<Rightarrow> found \<Rightarrow> (github, found) state" where
  "installations_repos env [] acc = State_Monad.return acc"
| "installations_repos env (i # is) acc = do {
     t \<leftarrow> getInstallationTokenByID env i;
     case t of
       Inl _ \<Rightarrow> installations_repos env is acc
     | Inr tok \<Rightarrow> do { acc' \<leftarrow> installation_repos env maxPages 1 tok acc; installations_repos env is acc' }
   }"

definition DiscoverRepositories_github :: "forge_env \<Rightarrow> (github, forge_error + DiscoveredTarget list) state" where
  "DiscoverRepositories_github env = do {
     m \<leftarrow> gets ghAuthMethod;
     case m of
       AuthMethodGitHubApp \<Rightarrow> and_then (app_jwt env) (\<lambda>jwt.
         and_then (pages maxPages 1 (gh_page env installations_path jwt id_dec 0) (\<lambda>is acc. acc @ is) []) (\<lambda>installations. do {
           acc \<leftarrow> installations_repos env installations ([], []);
           State_Monad.return (Inr (snd acc))
         }))
     | AuthMethodPAT \<Rightarrow> do {
         pat \<leftarrow> gets ghPat;
         r \<leftarrow> pages maxPages 1 (gh_page env ''/user/repos?per_page=100&sort=updated&'' pat repo_dec empty_repo) (add_found rpHTMLURL repo_target) ([], []);
         State_Monad.return (targets_of r)
       }
   }"

end
