(* ===== verification/Gitea_Forgejo.thy ===== *)
theory Gitea_Forgejo
  imports Forge_Api
begin

text \<open>
  \<open>src/internal/provider/gitea\<close> and \<open>src/internal/provider/forgejo\<close>: the two packages are copies of one
  another but for their names, the environment variable with the instance and the queue that only Forgejo's
  client polls. What they have in common is written once, over the state of a client.
\<close>

section \<open>The client\<close>

record forge_client =
  fcBaseURL :: string
  fcPat :: string
  fcLog :: "forge_request list"

definition WithBaseURL_forge :: "string \<Rightarrow> forge_client \<Rightarrow> forge_client" where
  "WithBaseURL_forge rawURL c =
     (if rawURL \<noteq> [] then c\<lparr>fcBaseURL := TrimRight (\<lambda>x. x = CHR ''/'') rawURL\<rparr> else c)"

definition NewClient :: "string \<Rightarrow> (forge_client \<Rightarrow> forge_client) list \<Rightarrow> forge_error + forge_client" where
  "NewClient pat opts =
     (if TrimSpace pat = [] then Inl MissingCredentials
      else Inr (fold (\<lambda>opt c. opt c) opts \<lparr>fcBaseURL = [], fcPat = TrimSpace pat, fcLog = []\<rparr>))"

definition setAuthHeader :: "string \<Rightarrow> string \<times> string" where
  "setAuthHeader pat =
     (''Authorization'', if HasPrefix pat ''token '' \<or> HasPrefix pat ''Bearer '' then pat else ''token '' @ pat)"

definition forge_do :: "forge_env \<Rightarrow> string \<Rightarrow> string \<Rightarrow> (forge_client, forge_error + http_response) state" where
  "forge_do env meth endpoint =
     (if Parse endpoint = None then State_Monad.return (Inl (BadURL endpoint))
      else do {
        n \<leftarrow> gets (\<lambda>c. length (fcLog c));
        pat \<leftarrow> gets fcPat;
        let r = \<lparr>frMethod = meth, frURL = endpoint, frHeaders = [setAuthHeader pat, (''Accept'', ''application/json'')], frBody = []\<rparr>;
        modify (\<lambda>c. c\<lparr>fcLog := fcLog c @ [r]\<rparr>);
        State_Monad.return (case fgDo env n r of Inl err \<Rightarrow> Inl (Transport err) | Inr resp \<Rightarrow> Inr resp)
      })"

definition forge_validate :: "forge_env \<Rightarrow> (forge_client, forge_error option) state" where
  "forge_validate env = do {
     baseURL \<leftarrow> gets fcBaseURL;
     if baseURL = [] then State_Monad.return None
     else do {
       r \<leftarrow> forge_do env ''GET'' (baseURL @ ''/api/v1/user'');
       State_Monad.return (case r of
         Inl err \<Rightarrow> Some err
       | Inr resp \<Rightarrow> if hrStatusCode resp \<noteq> 200 then Some (BadStatus (hrStatusCode resp) (TrimSpace (hrBody resp))) else None)
     }
   }"

section \<open>Targets\<close>

text \<open>The instance, the owner and the repository of a target.\<close>

definition instance_target :: "string \<Rightarrow> forge_error + string \<times> string \<times> string" where
  "instance_target rawURL =
     (let clean = clean_target rawURL in
      case scp_target clean of
        Some (host, owner, repo) \<Rightarrow> Inr (''https://'' @ host, owner, repo)
      | None \<Rightarrow>
          (case Parse clean of
             None \<Rightarrow> Inl InvalidTargetURL
           | Some parsed \<Rightarrow>
               if uScheme parsed = [] \<or> uHost parsed = [] then Inl InvalidTargetURL
               else (let parts = path_parts parsed in
                     Inr (uScheme parsed @ ''://'' @ uHost parsed, hd parts, case tl parts of [] \<Rightarrow> [] | repo # _ \<Rightarrow> repo))))"

text \<open>The first target a client is used for gives it its instance.\<close>

definition learn_instance :: "string \<Rightarrow> (forge_client, string) state" where
  "learn_instance instanceURL = do {
     modify (\<lambda>c. if fcBaseURL c = [] \<and> instanceURL \<noteq> [] then c\<lparr>fcBaseURL := instanceURL\<rparr> else c);
     gets (\<lambda>c. if fcBaseURL c = [] then instanceURL else fcBaseURL c)
   }"

section \<open>Registration tokens\<close>

definition token_endpoint :: "string \<Rightarrow> string \<Rightarrow> string \<Rightarrow> string \<Rightarrow> forge_error + string" where
  "token_endpoint scope baseURL owner repo =
     (if scope = ''repo'' then
        (if repo = [] then Inl InvalidTargetURL
         else Inr (baseURL @ ''/api/v1/repos/'' @ owner @ ''/'' @ repo @ ''/actions/runners/registration-token''))
      else if scope = ''org'' then
        (if owner = [] then Inl InvalidTargetURL
         else Inr (baseURL @ ''/api/v1/orgs/'' @ owner @ ''/actions/runners/registration-token''))
      else if scope = ''global'' then Inr (baseURL @ ''/api/v1/admin/actions/runners/registration-token'')
      else Inl (UnsupportedScope scope))"

definition executeTokenRequest :: "forge_env \<Rightarrow> string \<Rightarrow> string \<Rightarrow> (forge_client, forge_error + string) state" where
  "executeTokenRequest env meth endpoint = do {
     r \<leftarrow> forge_do env meth endpoint;
     State_Monad.return (case decoded [200, 201] token_dec [] r of
       Inl err \<Rightarrow> Inl err
     | Inr token \<Rightarrow> if token = [] then Inl EmptyToken else Inr token)
   }"

text \<open>\<open>GET\<close> first, then \<open>POST\<close> when the instance answers 405.\<close>

definition registration_token :: "forge_env \<Rightarrow> string \<Rightarrow> string \<Rightarrow> (forge_client, forge_error + string) state" where
  "registration_token env scope targetURL =
     and_then (State_Monad.return (instance_target targetURL)) (\<lambda>(instanceURL, owner, repo). do {
       baseURL \<leftarrow> learn_instance instanceURL;
       and_then (State_Monad.return (token_endpoint scope baseURL owner repo)) (\<lambda>endpoint. do {
         r \<leftarrow> executeTokenRequest env ''GET'' endpoint;
         case r of
           Inr tok \<Rightarrow> State_Monad.return (Inr tok)
         | Inl err \<Rightarrow>
             (case err of
                BadStatus code msg \<Rightarrow>
                  if code = 405 then executeTokenRequest env ''POST'' endpoint else State_Monad.return (Inl err)
              | _ \<Rightarrow> State_Monad.return (Inl err))
       })
     })"

section \<open>Discovery\<close>

definition discovery_base :: "forge_env \<Rightarrow> string \<Rightarrow> (forge_client, string) state" where
  "discovery_base env variable =
     gets (\<lambda>c. if fcBaseURL c = [] then TrimRight (\<lambda>x. x = CHR ''/'') (fgGetenv env variable) else fcBaseURL c)"

definition forge_page :: "forge_env \<Rightarrow> string \<Rightarrow> 'a decoder \<Rightarrow> 'a \<Rightarrow> nat \<Rightarrow> (forge_client, forge_error + 'a list) state" where
  "forge_page env endpoint dec zero page = do {
     r \<leftarrow> forge_do env ''GET'' (endpoint @ ''?limit=100&page='' @ Itoa (int page));
     State_Monad.return (decoded [200] (array_dec dec zero) [] r)
   }"

record forge_org =
  orUserName :: string
  orFullName :: string
  orAvatarURL :: string
  orDescription :: string

definition forge_org_dec :: "forge_org decoder" where
  "forge_org_dec = object_dec
     [struct_field ''username'' string_dec orUserName orUserName_update, struct_field ''full_name'' string_dec orFullName orFullName_update,
      struct_field ''avatar_url'' string_dec orAvatarURL orAvatarURL_update,
      struct_field ''description'' string_dec orDescription orDescription_update]"

definition forge_org_target :: "string \<Rightarrow> forge_org \<Rightarrow> DiscoveredTarget" where
  "forge_org_target baseURL o1 = \<lparr>dtName = orUserName o1,
     dtFullName = (if orFullName o1 = [] then orUserName o1 else orFullName o1),
     dtHTMLURL = baseURL @ ''/'' @ orUserName o1, dtDescription = orDescription o1, dtIsPrivate = False,
     dtAvatarURL = orAvatarURL o1\<rparr>"

definition discover_organizations :: "forge_env \<Rightarrow> string \<Rightarrow> (forge_client, forge_error + DiscoveredTarget list) state" where
  "discover_organizations env variable = do {
     baseURL \<leftarrow> discovery_base env variable;
     if baseURL = [] then State_Monad.return (Inl NoInstanceURL)
     else do {
       r \<leftarrow> pages maxPages 1
         (forge_page env (baseURL @ ''/api/v1/user/orgs'') forge_org_dec \<lparr>orUserName = [], orFullName = [], orAvatarURL = [], orDescription = []\<rparr>)
         (add_found orUserName (forge_org_target baseURL)) ([], []);
       State_Monad.return (targets_of r)
     }
   }"

definition discover_repositories :: "forge_env \<Rightarrow> string \<Rightarrow> (forge_client, forge_error + DiscoveredTarget list) state" where
  "discover_repositories env variable = do {
     baseURL \<leftarrow> discovery_base env variable;
     if baseURL = [] then State_Monad.return (Inl NoInstanceURL)
     else do {
       r \<leftarrow> pages maxPages 1 (forge_page env (baseURL @ ''/api/v1/user/repos'') repo_dec empty_repo) (add_found rpHTMLURL repo_target) ([], []);
       State_Monad.return (targets_of r)
     }
   }"

section \<open>Gitea\<close>

definition parseGiteaTargetURL where "parseGiteaTargetURL = instance_target"
definition ValidateCredentials_gitea where "ValidateCredentials_gitea = forge_validate"
definition GetRegistrationToken_gitea where "GetRegistrationToken_gitea = registration_token"
definition GetRenovateToken_gitea :: "(forge_client, string) state" where "GetRenovateToken_gitea = gets fcPat"
definition DiscoverOrganizations_gitea where "DiscoverOrganizations_gitea env = discover_organizations env ''GITEA_INSTANCE_URL''"
definition DiscoverRepositories_gitea where "DiscoverRepositories_gitea env = discover_repositories env ''GITEA_INSTANCE_URL''"

section \<open>Forgejo\<close>

definition parseForgejoTargetURL where "parseForgejoTargetURL = instance_target"
definition ValidateCredentials_forgejo where "ValidateCredentials_forgejo = forge_validate"
definition GetRegistrationToken_forgejo where "GetRegistrationToken_forgejo = registration_token"
definition GetRenovateToken_forgejo :: "(forge_client, string) state" where "GetRenovateToken_forgejo = gets fcPat"
definition DiscoverOrganizations_forgejo where "DiscoverOrganizations_forgejo env = discover_organizations env ''FORGEJO_INSTANCE_URL''"
definition DiscoverRepositories_forgejo where "DiscoverRepositories_forgejo env = discover_repositories env ''FORGEJO_INSTANCE_URL''"

subsection \<open>Its queue\<close>

record forge_task =
  ftID :: int
  ftStatus :: string

definition task_dec :: "forge_task decoder" where
  "task_dec = object_dec [struct_field ''id'' int_dec ftID ftID_update, struct_field ''status'' string_dec ftStatus ftStatus_update]"

definition tasks_dec :: "forge_task list decoder" where
  "tasks_dec = array_dec task_dec \<lparr>ftID = 0, ftStatus = []\<rparr>"

definition task_object_dec :: "(int \<times> forge_task list) decoder" where
  "task_object_dec = object_dec [struct_field ''total_count'' int_dec fst apfst, struct_field ''tasks'' tasks_dec snd apsnd]"

definition waiting :: "forge_task list \<Rightarrow> int" where
  "waiting ts = int (length (filter (\<lambda>t. ftStatus t = ''waiting'' \<or> ftStatus t = ''queued'' \<or> ftStatus t = []) ts))"

text \<open>A list of tasks, or else an object with their number or their list; nothing else is an error.\<close>

definition queued_tasks :: "string \<Rightarrow> int" where
  "queued_tasks body =
     (case Unmarshal tasks_dec [] body of
        (ts, True) \<Rightarrow> waiting ts
      | (_, False) \<Rightarrow>
          (case Unmarshal task_object_dec (0, []) body of
             ((total_count, ts), True) \<Rightarrow> if 0 < total_count then total_count else waiting ts
           | (_, False) \<Rightarrow> 0))"

definition tasks_endpoint :: "string \<Rightarrow> string \<Rightarrow> string \<Rightarrow> string" where
  "tasks_endpoint baseURL owner repo =
     baseURL @
     (if repo \<noteq> [] then ''/api/v1/repos/'' @ owner @ ''/'' @ repo
      else if owner \<noteq> [] then ''/api/v1/orgs/'' @ owner
      else ''/api/v1/admin'') @ ''/actions/tasks?status=waiting''"

definition PollQueuedJobs_forgejo :: "forge_env \<Rightarrow> string \<Rightarrow> (forge_client, forge_error + int) state" where
  "PollQueuedJobs_forgejo env targetURL =
     and_then (State_Monad.return (parseForgejoTargetURL targetURL)) (\<lambda>(instanceURL, owner, repo). do {
       baseURL \<leftarrow> learn_instance instanceURL;
       r \<leftarrow> forge_do env ''GET'' (tasks_endpoint baseURL owner repo);
       State_Monad.return (case r of
         Inl err \<Rightarrow> Inl err
       | Inr resp \<Rightarrow>
           if hrStatusCode resp \<noteq> 200 then Inl (BadStatus (hrStatusCode resp) (TrimSpace (hrBody resp)))
           else Inr (queued_tasks (hrBody resp)))
     })"

end
