(* ===== verification/Forge_Props.thy ===== *)
theory Forge_Props
  imports GitHub Gitea_Forgejo
begin

text \<open>
  The clients of the forges: what their lists contain, which requests they make with their credentials, where
  their tokens come from, and how they read the URL of a target.
\<close>

section \<open>Running\<close>

lemma run_and_then:
  "run_state (and_then m f) s = (case run_state m s of (Inl err, s') \<Rightarrow> (Inl err, s') | (Inr x, s') \<Rightarrow> run_state (f x) s')"
  by (simp add: and_then_def split: prod.split sum.split)

lemma and_then_return [simp]: "and_then (State_Monad.return r) f = (case r of Inl err \<Rightarrow> State_Monad.return (Inl err) | Inr x \<Rightarrow> f x)"
  by (simp add: and_then_def)

section \<open>Lists in pages\<close>

text \<open>The pages that were read, from the n-th request and page p on: every one but the last is full.\<close>

definition read_pages :: "(nat \<Rightarrow> nat \<Rightarrow> forge_error + 'i list) \<Rightarrow> nat \<Rightarrow> nat \<Rightarrow> 'i list list \<Rightarrow> bool" where
  "read_pages answer n p xss \<longleftrightarrow>
     (\<forall>i < length xss. answer (n + i) (p + i) = Inr (xss ! i)) \<and> (\<forall>xs \<in> set (butlast xss). pageSize \<le> length xs)"

text \<open>
  The interface of a list: fetching a page makes one request, whose answer depends on the number of requests
  made before, and leaves the rest of the client alone.
\<close>

locale paged_list =
  fixes fetch :: "nat \<Rightarrow> ('s, forge_error + 'i list) state"
    and good :: "'s \<Rightarrow> bool"
    and reqs :: "'s \<Rightarrow> forge_request list"
    and request :: "nat \<Rightarrow> forge_request"
    and answer :: "nat \<Rightarrow> nat \<Rightarrow> forge_error + 'i list"
  assumes fetch_answer: "good s \<Longrightarrow> fst (run_state (fetch p) s) = answer (length (reqs s)) p"
    and fetch_good: "good s \<Longrightarrow> good (snd (run_state (fetch p) s))"
    and fetch_request: "good s \<Longrightarrow> answer (length (reqs s)) p = Inr xs \<Longrightarrow> reqs (snd (run_state (fetch p) s)) = reqs s @ [request p]"
    and fetch_failed: "good s \<Longrightarrow> reqs (snd (run_state (fetch p) s)) \<in> {reqs s, reqs s @ [request p]}"
begin

lemma read_pages_single: "answer n p = Inr xs \<Longrightarrow> read_pages answer n p [xs]"
  by (simp add: read_pages_def)

lemma read_pages_Cons:
  assumes "answer n p = Inr xs" "pageSize \<le> length xs" "read_pages answer (Suc n) (Suc p) xss"
  shows "read_pages answer n p (xs # xss)"
proof -
  have "answer (n + i) (p + i) = Inr ((xs # xss) ! i)" if "i < length (xs # xss)" for i
    using assms that by (cases i) (simp_all add: read_pages_def)
  then show ?thesis using assms by (auto simp: read_pages_def)
qed

lemma pages_success:
  assumes "good s" "run_state (pages (Suc k) p fetch add acc) s = (Inr acc', s')"
  shows "\<exists>xss. xss \<noteq> [] \<and> length xss \<le> Suc k \<and> read_pages answer (length (reqs s)) p xss \<and>
    (length xss = Suc k \<or> length (last xss) < pageSize) \<and>
    acc' = fold add xss acc \<and> reqs s' = reqs s @ map request [p..<p + length xss] \<and> good s'"
  using assms
proof (induction k arbitrary: p acc s)
  case (0 p acc s)
  obtain r s1 where run: "run_state (fetch p) s = (r, s1)" by fastforce
  then have r: "r = answer (length (reqs s)) p" "good s1" using fetch_answer [OF 0(1), of p] fetch_good [OF 0(1), of p] by simp_all
  from 0(2) run obtain xs where xs: "r = Inr xs" "acc' = add xs acc" "s' = s1" by (cases r) (auto split: if_splits)
  then have "reqs s1 = reqs s @ [request p]" using fetch_request [OF 0(1), of p xs] run r by simp
  with r xs read_pages_single [of "length (reqs s)" p xs] show ?case by (intro exI [of _ "[xs]"]) simp
next
  case (Suc k p acc s)
  obtain r s1 where run: "run_state (fetch p) s = (r, s1)" by fastforce
  then have r: "r = answer (length (reqs s)) p" "good s1" using fetch_answer [OF Suc.prems(1), of p] fetch_good [OF Suc.prems(1), of p] by simp_all
  from Suc.prems(2) run obtain xs where xs: "r = Inr xs" by (cases r) auto
  then have log: "reqs s1 = reqs s @ [request p]" using fetch_request [OF Suc.prems(1), of p xs] run r by simp
  show ?case
  proof (cases "length xs < pageSize")
    case True
    then have "acc' = add xs acc" "s' = s1" using Suc.prems(2) run xs by simp_all
    with True r xs log read_pages_single [of "length (reqs s)" p xs] show ?thesis by (intro exI [of _ "[xs]"]) simp
  next
    case False
    then have rest: "run_state (pages (Suc k) (Suc p) fetch add (add xs acc)) s1 = (Inr acc', s')"
      using Suc.prems(2) run xs by (simp only: pages.simps) simp
    from Suc.IH [OF r(2) rest] obtain xss where IH: "xss \<noteq> []" "length xss \<le> Suc k" "read_pages answer (Suc (length (reqs s))) (Suc p) xss"
      "length xss = Suc k \<or> length (last xss) < pageSize" "acc' = fold add xss (add xs acc)"
      "reqs s' = reqs s1 @ map request [Suc p..<Suc p + length xss]" "good s'" by (auto simp: log)
    have "[p..<p + length (xs # xss)] = p # [Suc p..<Suc p + length xss]" by (simp add: upt_conv_Cons del: upt_Suc)
    with IH log False r xs read_pages_Cons [of "length (reqs s)" p xs xss] show ?thesis
      by (intro exI [of _ "xs # xss"]) (simp del: upt_Suc)
  qed
qed

lemma pages_requests:
  assumes "good s"
  shows "\<exists>m \<le> k. reqs (snd (run_state (pages k p fetch add acc) s)) = reqs s @ map request [p..<p + m]"
  using assms
proof (induction k arbitrary: p acc s)
  case (Suc k p acc s)
  obtain r s1 where run: "run_state (fetch p) s = (r, s1)" by fastforce
  have r: "r = answer (length (reqs s)) p" "good s1" "reqs s1 \<in> {reqs s, reqs s @ [request p]}"
    using fetch_answer [OF Suc.prems, of p] fetch_good [OF Suc.prems, of p] fetch_failed [OF Suc.prems, of p] run by simp_all
  then have short: "\<exists>m \<le> Suc k. reqs s1 = reqs s @ map request [p..<p + m]"
    by (auto intro: exI [of _ 0] exI [of _ 1])
  show ?case
  proof (cases "\<exists>xs. r = Inr xs \<and> \<not> length xs < pageSize")
    case True
    then obtain xs where xs: "r = Inr xs" "\<not> length xs < pageSize" by blast
    have log: "reqs s1 = reqs s @ [request p]" using fetch_request [OF Suc.prems, of p xs] run r(1) xs(1) by simp
    from Suc.IH [OF r(2)] obtain m where m: "m \<le> k"
      "reqs (snd (run_state (pages k (Suc p) fetch add (add xs acc)) s1)) = reqs s1 @ map request [Suc p..<Suc p + m]" by blast
    have "[p..<p + Suc m] = p # [Suc p..<Suc p + m]" by (simp add: upt_conv_Cons del: upt_Suc)
    with m log xs run show ?thesis by (intro exI [of _ "Suc m"]) (simp del: upt_Suc)
  next
    case False
    then have "snd (run_state (pages (Suc k) p fetch add acc) s) = s1" using run by (cases r) auto
    with short show ?thesis by simp
  qed
qed (auto intro: exI [of _ 0])

end

text \<open>The lists of the three clients.\<close>

definition list_request :: "string \<Rightarrow> string \<Rightarrow> nat \<Rightarrow> forge_request" where
  "list_request pat endpoint page = \<lparr>frMethod = ''GET'', frURL = endpoint @ ''?limit=100&page='' @ Itoa (int page),
     frHeaders = [setAuthHeader pat, (''Accept'', ''application/json'')], frBody = []\<rparr>"

definition gh_list_request :: "string \<Rightarrow> string \<Rightarrow> string \<Rightarrow> nat \<Rightarrow> forge_request" where
  "gh_list_request base token path page = \<lparr>frMethod = ''GET'', frURL = base @ path @ ''page='' @ Itoa (int page),
     frHeaders = setCommonHeaders [(''Authorization'', ''Bearer '' @ token)], frBody = []\<rparr>"

definition list_answer :: "forge_env \<Rightarrow> (nat \<Rightarrow> forge_request) \<Rightarrow> 'a decoder \<Rightarrow> 'a \<Rightarrow> nat \<Rightarrow> nat \<Rightarrow> forge_error + 'a list" where
  "list_answer env req dec zero n page = decoded [200] (array_dec dec zero) []
     (if Parse (frURL (req page)) = None then Inl (BadURL (frURL (req page)))
      else case fgDo env n (req page) of Inl err \<Rightarrow> Inl (Transport err) | Inr resp \<Rightarrow> Inr resp)"

lemma run_forge_do:
  "run_state (forge_do env meth u) c =
    (if Parse u = None then (Inl (BadURL u), c)
     else (let r = \<lparr>frMethod = meth, frURL = u, frHeaders = [setAuthHeader (fcPat c), (''Accept'', ''application/json'')], frBody = []\<rparr>
           in (case fgDo env (length (fcLog c)) r of Inl err \<Rightarrow> Inl (Transport err) | Inr resp \<Rightarrow> Inr resp, c\<lparr>fcLog := fcLog c @ [r]\<rparr>)))"
  by (simp add: forge_do_def Let_def)

lemma run_gh_do:
  "run_state (gh_do env meth path token body) c =
    (if Parse (ghBaseURL c @ path) = None then (Inl (BadURL (ghBaseURL c @ path)), c)
     else (let r = \<lparr>frMethod = meth, frURL = ghBaseURL c @ path, frHeaders = setCommonHeaders [(''Authorization'', ''Bearer '' @ token)], frBody = body\<rparr>
           in (case fgDo env (length (ghLog c)) r of Inl err \<Rightarrow> Inl (Transport err) | Inr resp \<Rightarrow> Inr resp, c\<lparr>ghLog := ghLog c @ [r]\<rparr>)))"
  by (simp add: gh_do_def Let_def)

lemma decoded_Inl [simp]: "decoded statuses dec zero (Inl err) = Inl err"
  by (simp add: decoded_def)

interpretation forge_list: paged_list "forge_page env endpoint dec zero" "\<lambda>c. fcPat c = pat" fcLog "list_request pat endpoint"
  "list_answer env (list_request pat endpoint) dec zero" for env endpoint dec zero pat
  by unfold_locales
    (auto simp: forge_page_def run_forge_do list_request_def list_answer_def Let_def split: if_splits)

interpretation gh_list: paged_list "gh_page env path token dec zero" "\<lambda>c. ghBaseURL c = base" ghLog "gh_list_request base token path"
  "list_answer env (gh_list_request base token path) dec zero" for env path token dec zero base
  by unfold_locales
    (auto simp: gh_page_def run_gh_do gh_list_request_def list_answer_def Let_def split: if_splits)

section \<open>Discovery\<close>

text \<open>The first item with each key.\<close>

fun firsts :: "('i \<Rightarrow> string) \<Rightarrow> 'i list \<Rightarrow> 'i list" where
  "firsts key [] = []"
| "firsts key (x # xs) = x # firsts key (filter (\<lambda>y. key y \<noteq> key x) xs)"

lemma firsts_keys: "distinct (map key (firsts key xs)) \<and> key ` set (firsts key xs) = key ` set xs"
proof (induction key xs rule: firsts.induct)
  case (2 key x xs)
  then show ?case by (auto simp: image_iff)
qed simp

lemma add_found_firsts:
  "add_found key target xs acc =
     (fst acc @ map key (firsts key (filter (\<lambda>x. key x \<notin> set (fst acc)) xs)),
      snd acc @ map target (firsts key (filter (\<lambda>x. key x \<notin> set (fst acc)) xs)))"
proof (induction xs arbitrary: acc)
  case (Cons x xs)
  show ?case
  proof (cases "key x \<in> set (fst acc)")
    case True
    then show ?thesis using Cons [of acc] by (simp add: add_found_def add_one_def)
  next
    case False
    have "filter (\<lambda>y. key y \<notin> set (fst acc @ [key x])) xs = filter (\<lambda>y. key y \<noteq> key x) (filter (\<lambda>y. key y \<notin> set (fst acc)) xs)"
      by (simp add: conj_commute)
    with False Cons [of "(fst acc @ [key x], snd acc @ [target x])"] show ?thesis
      by (simp add: add_found_def add_one_def)
  qed
qed (simp add: add_found_def)

lemma add_found_pages: "fold (add_found key target) xss ([], []) = add_found key target (concat xss) ([], [])"
proof -
  have "fold (add_found key target) xss acc = add_found key target (concat xss) acc" for acc
    by (induction xss arbitrary: acc) (simp_all add: add_found_def)
  then show ?thesis .
qed

text \<open>
  C34. A successful discovery of repositories at a Gitea or Forgejo instance lists exactly what the instance
  answered: it asked for pages 1, 2, ... with the client's token, every page but the last was full, the last was not
  unless it was page 50, and the result is the first repository with each URL, in the order of the pages.
\<close>

theorem forge_discovery_exact:
  assumes "run_state (discover_repositories env variable) c = (Inr ts, c')"
  defines "base \<equiv> (if fcBaseURL c = [] then TrimRight (\<lambda>x. x = CHR ''/'') (fgGetenv env variable) else fcBaseURL c)"
  shows "\<exists>xss. base \<noteq> [] \<and> 1 \<le> length xss \<and> length xss \<le> 50 \<and>
    read_pages (list_answer env (list_request (fcPat c) (base @ ''/api/v1/user/repos'')) repo_dec empty_repo) (length (fcLog c)) 1 xss \<and>
    (length xss = 50 \<or> length (last xss) < 100) \<and>
    fcLog c' = fcLog c @ map (list_request (fcPat c) (base @ ''/api/v1/user/repos'')) [1..<Suc (length xss)] \<and>
    ts = map repo_target (firsts rpHTMLURL (concat xss)) \<and> distinct (map dtHTMLURL ts)"
proof -
  let ?fetch = "forge_page env (base @ ''/api/v1/user/repos'') repo_dec empty_repo"
  obtain r c1 where run: "run_state (pages maxPages 1 ?fetch (add_found rpHTMLURL repo_target) ([], [])) c = (r, c1)" by fastforce
  with assms(1) have b: "base \<noteq> []" and r: "Inr ts = targets_of r" "c' = c1"
    by (auto simp: discover_repositories_def discovery_base_def base_def [symmetric] split: if_splits)
  then obtain acc where acc: "r = Inr acc" "ts = snd acc" by (auto simp: targets_of_def split: sum.splits)
  have "run_state (pages (Suc 49) 1 ?fetch (add_found rpHTMLURL repo_target) ([], [])) c = (Inr acc, c1)"
    using run acc by (simp add: maxPages_def)
  from forge_list.pages_success [OF refl this] obtain xss where xss: "xss \<noteq> []" "length xss \<le> Suc 49"
    "read_pages (list_answer env (list_request (fcPat c) (base @ ''/api/v1/user/repos'')) repo_dec empty_repo) (length (fcLog c)) 1 xss"
    "length xss = Suc 49 \<or> length (last xss) < pageSize" "acc = fold (add_found rpHTMLURL repo_target) xss ([], [])"
    "fcLog c1 = fcLog c @ map (list_request (fcPat c) (base @ ''/api/v1/user/repos'')) [1..<1 + length xss]" by blast
  have ts: "ts = map repo_target (firsts rpHTMLURL (concat xss))"
    using acc xss(5) by (simp add: add_found_pages add_found_firsts)
  have "map dtHTMLURL ts = map rpHTMLURL (firsts rpHTMLURL (concat xss))" by (simp add: ts repo_target_def)
  then have "distinct (map dtHTMLURL ts)" using firsts_keys by metis
  with b xss ts r show ?thesis
    by (intro exI [of _ xss]) (simp add: pageSize_def Suc_le_eq del: upt_Suc)
qed

section \<open>Registration tokens of Gitea and Forgejo\<close>

definition token_request :: "string \<Rightarrow> string \<Rightarrow> string \<Rightarrow> forge_request" where
  "token_request pat meth endpoint =
     \<lparr>frMethod = meth, frURL = endpoint, frHeaders = [setAuthHeader pat, (''Accept'', ''application/json'')], frBody = []\<rparr>"

text \<open>A token is the one in the answer to the last request of a client.\<close>

definition token_answered :: "forge_env \<Rightarrow> forge_client \<Rightarrow> string \<Rightarrow> bool" where
  "token_answered env c tok \<longleftrightarrow> (\<exists>resp. fcLog c \<noteq> [] \<and> fgDo env (length (fcLog c) - 1) (last (fcLog c)) = Inr resp \<and>
     hrStatusCode resp \<in> {200, 201} \<and> Decode token_dec [] (hrBody resp) = (tok, True) \<and> tok \<noteq> [])"

lemma executeTokenRequest_effect:
  assumes "run_state (executeTokenRequest env meth endpoint) c = (r, c')"
  shows "(c' = c \<and> (\<exists>err. r = Inl err \<and> (\<forall>code msg. err \<noteq> BadStatus code msg)) \<or>
      c' = c\<lparr>fcLog := fcLog c @ [token_request (fcPat c) meth endpoint]\<rparr>) \<and>
    (\<forall>tok. r = Inr tok \<longrightarrow> token_answered env c' tok) \<and>
    (\<forall>code msg. r = Inl (BadStatus code msg) \<longrightarrow>
       (\<exists>resp. fgDo env (length (fcLog c)) (token_request (fcPat c) meth endpoint) = Inr resp \<and> hrStatusCode resp = code))"
  using assms
  by (auto simp: executeTokenRequest_def run_forge_do token_request_def token_answered_def decoded_def Let_def
      split: if_splits sum.splits prod.splits)

text \<open>
  C33. Asking a Gitea or Forgejo instance for a registration token sends the credentials nowhere but to the
  endpoint of the scope and target at the client's instance, once with GET and, only after an answer 405, once
  with POST; a client that has an instance keeps it, and a token that is returned is the non-empty one of the
  last answer.
\<close>

theorem forge_registration_requests:
  assumes "run_state (registration_token env scope targetURL) c = (r, c')"
  shows "fcPat c' = fcPat c \<and> (fcBaseURL c \<noteq> [] \<longrightarrow> fcBaseURL c' = fcBaseURL c) \<and>
    (fcLog c' = fcLog c \<or>
     (\<exists>instanceURL owner repo endpoint. instance_target targetURL = Inr (instanceURL, owner, repo) \<and>
        token_endpoint scope (if fcBaseURL c = [] then instanceURL else fcBaseURL c) owner repo = Inr endpoint \<and>
        (fcLog c' = fcLog c @ [token_request (fcPat c) ''GET'' endpoint] \<or>
         fcLog c' = fcLog c @ [token_request (fcPat c) ''GET'' endpoint, token_request (fcPat c) ''POST'' endpoint] \<and>
         (\<exists>resp. fgDo env (length (fcLog c)) (token_request (fcPat c) ''GET'' endpoint) = Inr resp \<and> hrStatusCode resp = 405)))) \<and>
    (\<forall>tok. r = Inr tok \<longrightarrow> token_answered env c' tok \<and> fcLog c' \<noteq> fcLog c)"
proof (cases "instance_target targetURL")
  case (Inl err)
  then show ?thesis using assms by (auto simp: registration_token_def)
next
  case (Inr t)
  obtain instanceURL owner repo where t: "t = (instanceURL, owner, repo)" by (cases t)
  let ?base = "if fcBaseURL c = [] then instanceURL else fcBaseURL c"
  obtain c1 b where c1: "run_state (learn_instance instanceURL) c = (b, c1)" by fastforce
  then have b: "b = ?base" "fcPat c1 = fcPat c" "fcLog c1 = fcLog c" "fcBaseURL c \<noteq> [] \<longrightarrow> fcBaseURL c1 = fcBaseURL c"
    by (auto simp: learn_instance_def split: if_splits)
  show ?thesis
  proof (cases "token_endpoint scope ?base owner repo")
    case (Inl err)
    then show ?thesis using assms Inr t c1 b by (auto simp: registration_token_def)
  next
    case (Inr endpoint)
    obtain r1 c2 where get: "run_state (executeTokenRequest env ''GET'' endpoint) c1 = (r1, c2)" by fastforce
    note first = executeTokenRequest_effect [OF get]
    show ?thesis
    proof (cases "\<exists>msg. r1 = Inl (BadStatus 405 msg)")
      case True
      then have c2: "c2 = c1\<lparr>fcLog := fcLog c1 @ [token_request (fcPat c1) ''GET'' endpoint]\<rparr>" using first by auto
      have post: "run_state (executeTokenRequest env ''POST'' endpoint) c2 = (r, c')"
        using assms Inr \<open>instance_target targetURL = Inr t\<close> t c1 b(1) get True by (auto simp: registration_token_def)
      from first True obtain resp where "fgDo env (length (fcLog c)) (token_request (fcPat c) ''GET'' endpoint) = Inr resp" "hrStatusCode resp = 405"
        using b by auto
      with executeTokenRequest_effect [OF post] c2 b Inr \<open>instance_target targetURL = Inr t\<close> t show ?thesis by auto
    next
      case False
      then have "(r, c') = (r1, c2)"
        using assms Inr \<open>instance_target targetURL = Inr t\<close> t c1 b(1) get
        by (auto simp: registration_token_def split: sum.splits forge_error.splits if_splits)
      with first b Inr \<open>instance_target targetURL = Inr t\<close> t show ?thesis by auto
    qed
  qed
qed

section \<open>Installation tokens of GitHub\<close>

text \<open>What the other operations change of a client: they make requests and leave the cache alone.\<close>

definition grows :: "github \<Rightarrow> github \<Rightarrow> bool" where
  "grows c0 c \<longleftrightarrow> (\<exists>l. ghLog c = ghLog c0 @ l) \<and> ghTokenCache c = ghTokenCache c0 \<and> ghBaseURL c = ghBaseURL c0 \<and>
     ghAuthMethod c = ghAuthMethod c0"

lemma grows_refl [simp]: "grows c c"
  by (simp add: grows_def)

lemma grows_gh_do [keeps]: "preserves (grows c0) (gh_do env meth path token body)"
  by (rule preservesI) (auto simp: exec_def run_gh_do grows_def Let_def)

lemma preserves_and_then [keeps]:
  "preserves I m \<Longrightarrow> (\<And>a. preserves I (f a)) \<Longrightarrow> preserves I (and_then m f)"
  unfolding and_then_def by (intro keeps)

lemma preserves_case_gh_auth [keeps]:
  "preserves I m \<Longrightarrow> preserves I n \<Longrightarrow> preserves I (case x of AuthMethodGitHubApp \<Rightarrow> m | AuthMethodPAT \<Rightarrow> n)"
  by (cases x) simp_all

lemma preserves_pages [keeps]:
  assumes "\<And>p. preserves I (fetch p)"
  shows "preserves I (pages k p fetch add acc)"
  using assms by (induction k arbitrary: p acc) (auto intro!: keeps)

lemma grows_app_jwt [keeps]: "preserves (grows c0) (app_jwt env)"
  unfolding app_jwt_def by (intro keeps)

lemma grows_gh_page [keeps]: "preserves (grows c0) (gh_page env path token dec zero page)"
  unfolding gh_page_def by (intro keeps)

lemma grows_query [keeps]: "preserves (grows c0) (queryInstallationEndpoint env jwt path)"
  unfolding queryInstallationEndpoint_def by (intro keeps)

lemma grows_first_installation [keeps]: "preserves (grows c0) (first_installation env jwt ps)"
  by (induction ps) (auto intro!: keeps)

lemma grows_findInstallationID [keeps]: "preserves (grows c0) (findInstallationID env owner repo)"
  unfolding findInstallationID_def by (intro keeps)

lemma grows_tokenByID [keeps]: "preserves (grows c0) (getInstallationTokenByID env i)"
  unfolding getInstallationTokenByID_def by (intro keeps)

lemma grows_app_slug [keeps]: "preserves (grows c0) (app_slug env jwt)"
  unfolding app_slug_def by (intro keeps preserves_modify) (auto simp: grows_def)

lemma grows_installation_repos [keeps]: "preserves (grows c0) (installation_repos env k page tok acc)"
proof (induction k arbitrary: page acc)
  case (Suc k)
  show ?case unfolding installation_repos.simps Let_def by (intro keeps Suc)
qed (simp add: keeps)

lemma grows_installations_repos [keeps]: "preserves (grows c0) (installations_repos env is acc)"
  by (induction "is" arbitrary: acc) (auto intro!: keeps)

lemma grows_reads:
  "preserves (grows c0) (ValidateCredentials_github env)" "preserves (grows c0) (GetAppMetadata env)"
  "preserves (grows c0) (DiscoverOrganizations_github env)" "preserves (grows c0) (DiscoverRepositories_github env)"
  unfolding ValidateCredentials_github_def GetAppMetadata_def DiscoverOrganizations_github_def DiscoverRepositories_github_def
  by (intro keeps)+

text \<open>
  An access token was granted for an owner and a repository: an endpoint for the installation of that target
  named an installation, and a later request for a token of that installation was answered with this one.
\<close>

definition installation_paths :: "string \<Rightarrow> string \<Rightarrow> string list" where
  "installation_paths owner repo =
     [''/repos/'' @ owner @ ''/'' @ repo @ ''/installation'', ''/orgs/'' @ owner @ ''/installation'', ''/users/'' @ owner @ ''/installation'']"

definition answered :: "forge_env \<Rightarrow> forge_request list \<Rightarrow> nat \<Rightarrow> string \<Rightarrow> 'a decoder \<Rightarrow> 'a \<Rightarrow> 'a \<Rightarrow> bool" where
  "answered env log n url dec zero x \<longleftrightarrow>
     n < length log \<and> frURL (log ! n) = url \<and>
     (\<exists>resp. fgDo env n (log ! n) = Inr resp \<and> hrStatusCode resp \<in> {200, 201} \<and> Decode dec zero (hrBody resp) = (x, True))"

definition granted :: "forge_env \<Rightarrow> github \<Rightarrow> string \<Rightarrow> string \<Rightarrow> nat \<Rightarrow> access_token \<Rightarrow> bool" where
  "granted env c owner repo n res \<longleftrightarrow>
     (\<exists>m i. \<exists>p \<in> set (installation_paths owner repo). m < n \<and> 0 < i \<and> answered env (ghLog c) m (ghBaseURL c @ p) id_dec 0 i \<and>
        answered env (ghLog c) n (ghBaseURL c @ access_tokens_path i) (access_token_dec env) \<lparr>atToken = [], atExpiresAt = zero_time\<rparr> res)"

lemma answered_append: "answered env log n u dec zero x \<Longrightarrow> answered env (log @ l) n u dec zero x"
  by (auto simp: answered_def nth_append)

lemma granted_grows: "granted env c owner repo n res \<Longrightarrow> grows c c' \<Longrightarrow> granted env c' owner repo n res"
  unfolding granted_def grows_def by (elim exE bexE conjE) (metis answered_append)

definition cache_genuine :: "forge_env \<Rightarrow> github \<Rightarrow> bool" where
  "cache_genuine env c \<longleftrightarrow> ghAuthMethod c = AuthMethodGitHubApp \<and>
     (\<forall>(key, token, expiresAt) \<in> set (ghTokenCache c). \<exists>owner repo n res. key = owner @ ''/'' @ repo \<and> CHR ''/'' \<notin> set owner \<and>
        granted env c owner repo n res \<and> token = atToken res \<and> expiresAt = atExpiresAt res - 2 * Minute)"

lemma cache_genuine_grows: "cache_genuine env c \<Longrightarrow> grows c c' \<Longrightarrow> cache_genuine env c'"
  unfolding cache_genuine_def using granted_grows [of env c] by (fastforce simp: grows_def)

lemma query_found:
  assumes "run_state (queryInstallationEndpoint env jwt p) c = (Inr i, c')"
  shows "0 < i \<and> length (ghLog c') = Suc (length (ghLog c)) \<and> answered env (ghLog c') (length (ghLog c)) (ghBaseURL c @ p) id_dec 0 i"
  using assms
  by (auto simp: queryInstallationEndpoint_def run_gh_do decoded_def answered_def Let_def split: if_splits sum.splits prod.splits)

lemma grows_run: "preserves (grows c) m \<Longrightarrow> run_state m c = (r, c') \<Longrightarrow> grows c c'"
  using preservesD [of "grows c" m c] by (simp add: exec_def)

lemma first_installation_found:
  assumes "run_state (first_installation env jwt ps) c = (Inr i, c')"
  shows "\<exists>m. \<exists>p \<in> set ps. 0 < i \<and> answered env (ghLog c') m (ghBaseURL c @ p) id_dec 0 i"
  using assms
proof (induction ps arbitrary: c)
  case (Cons p ps)
  obtain r c1 where run: "run_state (queryInstallationEndpoint env jwt p) c = (r, c1)" by fastforce
  show ?case
  proof (cases r)
    case (Inl err)
    then have rest: "run_state (first_installation env jwt ps) c1 = (Inr i, c')" using Cons.prems run by simp
    have "ghBaseURL c1 = ghBaseURL c" using grows_run [OF grows_query run] by (simp add: grows_def)
    with Cons.IH [OF rest] show ?thesis by auto
  next
    case (Inr j)
    then have "j = i" "c1 = c'" using Cons.prems run by simp_all
    with query_found [of env jwt p c i c'] run Inr show ?thesis by auto
  qed
qed simp

lemma findInstallationID_found:
  assumes "run_state (findInstallationID env owner repo) c = (Inr i, c')"
  shows "grows c c' \<and> 0 < i \<and> (\<exists>m. \<exists>p \<in> set (installation_paths owner repo). answered env (ghLog c') m (ghBaseURL c @ p) id_dec 0 i)"
proof -
  obtain jwt where "run_state (first_installation env jwt
      ((if repo \<noteq> [] then [''/repos/'' @ owner @ ''/'' @ repo @ ''/installation''] else []) @
        [''/orgs/'' @ owner @ ''/installation'', ''/users/'' @ owner @ ''/installation''])) c = (Inr i, c')"
    using assms by (auto simp: findInstallationID_def run_and_then app_jwt_def split: sum.splits)
  from first_installation_found [OF this] show ?thesis
    using grows_run [OF grows_findInstallationID assms]
    by (auto simp: installation_paths_def split: if_splits)
qed

lemma fresh_token:
  assumes "run_state (gh_do env ''POST'' (access_tokens_path i) jwt ''{}'') c = (r, c')"
    and "decoded [201, 200] (access_token_dec env) \<lparr>atToken = [], atExpiresAt = zero_time\<rparr> r = Inr res"
  shows "grows c c' \<and> answered env (ghLog c') (length (ghLog c)) (ghBaseURL c @ access_tokens_path i) (access_token_dec env)
    \<lparr>atToken = [], atExpiresAt = zero_time\<rparr> res"
  using assms
  by (auto simp: run_gh_do decoded_def answered_def grows_def Let_def split: if_splits sum.splits prod.splits)

text \<open>The token of a call comes from the cache, or was granted by a request the call has made.\<close>

lemma getInstallationToken_source:
  assumes "run_state (getInstallationToken env owner repo) c = (r, c')"
  shows "(\<exists>tok expiresAt. r = Inr tok \<and> c' = c \<and> mget (ghTokenCache c) (owner @ ''/'' @ repo) = Some (tok, expiresAt) \<and>
      fgNow env (length (ghLog c)) < expiresAt) \<or>
    (\<exists>c1 n res. r = Inr (atToken res) \<and> grows c c1 \<and> length (ghLog c) \<le> n \<and> granted env c1 owner repo n res \<and>
      c' = c1\<lparr>ghTokenCache := mput (owner @ ''/'' @ repo) (atToken res, atExpiresAt res - 2 * Minute) (ghTokenCache c)\<rparr>) \<or>
    (\<exists>err. r = Inl err) \<and> grows c c'"
proof (cases "\<exists>tok expiresAt. mget (ghTokenCache c) (owner @ ''/'' @ repo) = Some (tok, expiresAt) \<and> fgNow env (length (ghLog c)) < expiresAt")
  case True
  then show ?thesis using assms by (auto simp: getInstallationToken_def Let_def)
next
  case False
  then have cached: "(case mget (ghTokenCache c) (owner @ ''/'' @ repo) of
       Some (token, expiresAt) \<Rightarrow> if fgNow env (length (ghLog c)) < expiresAt then Some token else None | None \<Rightarrow> None) = None"
    by (auto split: option.split)
  obtain f c1 where find: "run_state (findInstallationID env owner repo) c = (f, c1)" by fastforce
  have g1: "grows c c1" using grows_run [OF grows_findInstallationID find] .
  obtain j where j: "run_state (app_jwt env) c1 = (j, c1)" by (auto simp: app_jwt_def)
  show ?thesis
  proof (cases "\<exists>i jwt. f = Inr i \<and> j = Inr jwt")
    case False
    then have "(\<exists>err. r = Inl err) \<and> c' = c1" using assms cached find j
      by (cases f; cases j) (auto simp: getInstallationToken_def run_and_then Let_def)
    with g1 show ?thesis by blast
  next
    case True
    then obtain i jwt where i: "f = Inr i" and jwt: "run_state (app_jwt env) c1 = (Inr jwt, c1)" using j by auto
    obtain p c2 where post: "run_state (gh_do env ''POST'' (access_tokens_path i) jwt ''{}'') c1 = (p, c2)" by fastforce
    have g2: "grows c1 c2" using grows_run [OF grows_gh_do post] .
    have g: "grows c c2" using g1 g2 by (auto simp: grows_def)
    show ?thesis
    proof (cases "decoded [201, 200] (access_token_dec env) \<lparr>atToken = [], atExpiresAt = zero_time\<rparr> p")
      case (Inl err)
      then show ?thesis using assms cached find i jwt post g by (auto simp: getInstallationToken_def run_and_then Let_def)
    next
      case (Inr res)
      from findInstallationID_found [of env owner repo c i c1] find i obtain m q where
        q: "q \<in> set (installation_paths owner repo)" "0 < i" "answered env (ghLog c1) m (ghBaseURL c @ q) id_dec 0 i" by auto
      then have "m < length (ghLog c1)" by (simp add: answered_def)
      moreover have "answered env (ghLog c2) m (ghBaseURL c2 @ q) id_dec 0 i"
        using q(3) g1 g2 answered_append [of env "ghLog c1" m _ id_dec 0 i] by (auto simp: grows_def)
      moreover have "answered env (ghLog c2) (length (ghLog c1)) (ghBaseURL c2 @ access_tokens_path i) (access_token_dec env)
          \<lparr>atToken = [], atExpiresAt = zero_time\<rparr> res"
        using fresh_token [OF post Inr] g2 by (simp add: grows_def)
      ultimately have "granted env c2 owner repo (length (ghLog c1)) res" using q(1,2) unfolding granted_def by blast
      moreover have "length (ghLog c) \<le> length (ghLog c1)" using g1 by (auto simp: grows_def)
      moreover have "r = Inr (atToken res)"
        "c' = c2\<lparr>ghTokenCache := mput (owner @ ''/'' @ repo) (atToken res, atExpiresAt res - 2 * Minute) (ghTokenCache c)\<rparr>"
        using assms cached find i jwt post Inr g by (auto simp: getInstallationToken_def run_and_then grows_def Let_def)
      ultimately show ?thesis using g by blast
    qed
  qed
qed

lemma Split_hd: "Split s c = x # xs \<Longrightarrow> c \<notin> set x"
  using Split_no_sep [of x s c] by simp

lemma parse_slash_free: "parseTargetURL rawURL = Inr (owner, repo) \<Longrightarrow> CHR ''/'' \<notin> set owner"
  by (auto simp: parseTargetURL_def scp_target_def path_parts_def Let_def split: option.splits list.splits if_splits dest!: Split_hd)

lemma cache_key_inj:
  assumes "owner @ ''/'' @ repo = owner' @ ''/'' @ repo'" "CHR ''/'' \<notin> set owner" "CHR ''/'' \<notin> set owner'"
  shows "owner = owner' \<and> repo = repo'"
  using assms Split_first [of "CHR ''/''" owner repo] Split_first [of "CHR ''/''" owner' repo'] by simp

lemma genuine_getInstallationToken:
  assumes "cache_genuine env c" "CHR ''/'' \<notin> set owner" "run_state (getInstallationToken env owner repo) c = (r, c')"
  shows "cache_genuine env c'"
proof -
  from getInstallationToken_source [OF assms(3)] consider "c' = c" | "grows c c'"
    | c1 n res where "grows c c1" "granted env c1 owner repo n res"
      "c' = c1\<lparr>ghTokenCache := mput (owner @ ''/'' @ repo) (atToken res, atExpiresAt res - 2 * Minute) (ghTokenCache c)\<rparr>"
    by blast
  then show ?thesis
  proof cases
    case 3
    have same: "granted env c' = granted env c1" using 3(3) by (simp add: granted_def fun_eq_iff)
    have old: "cache_genuine env c1" using cache_genuine_grows [OF assms(1) 3(1)] .
    have "ghTokenCache c1 = ghTokenCache c" using 3(1) by (simp add: grows_def)
    then have "e = (owner @ ''/'' @ repo, atToken res, atExpiresAt res - 2 * Minute) \<or> e \<in> set (ghTokenCache c1)" if "e \<in> set (ghTokenCache c')" for e
      using that 3(3) by (auto dest!: set_mput_sub)
    moreover have "ghAuthMethod c' = ghAuthMethod c1" using 3(3) by simp
    ultimately show ?thesis using old 3(2) assms(2) unfolding cache_genuine_def same by fastforce
  qed (use assms(1) cache_genuine_grows in auto)
qed

datatype gh_call = Validate | Registration string string | Renovate string | Metadata | Organizations | Repositories

fun gh_step :: "forge_env \<Rightarrow> gh_call \<Rightarrow> github \<Rightarrow> github" where
  "gh_step env Validate c = exec (ValidateCredentials_github env) c"
| "gh_step env (Registration scope target) c = exec (GetRegistrationToken_github env scope target) c"
| "gh_step env (Renovate target) c = exec (GetRenovateToken_github env target) c"
| "gh_step env Metadata c = exec (GetAppMetadata env) c"
| "gh_step env Organizations c = exec (DiscoverOrganizations_github env) c"
| "gh_step env Repositories c = exec (DiscoverRepositories_github env) c"

lemma preserves_genuine: "(\<And>c0. preserves (grows c0) m) \<Longrightarrow> preserves (cache_genuine env) m"
proof (rule preservesI)
  fix c assume "\<And>c0. preserves (grows c0) m" and "cache_genuine env c"
  then show "cache_genuine env (exec m c)" using preservesD [of "grows c" m c] cache_genuine_grows by simp
qed

lemma genuine_token [keeps]: "CHR ''/'' \<notin> set owner \<Longrightarrow> preserves (cache_genuine env) (getInstallationToken env owner repo)"
  by (rule preservesI) (metis exec_def genuine_getInstallationToken prod.collapse)

lemma genuine_Registration: "preserves (cache_genuine env) (GetRegistrationToken_github env scope target)"
proof (cases "parseTargetURL target")
  case (Inr t)
  then obtain owner repo where t: "parseTargetURL target = Inr (owner, repo)" by (cases t) auto
  show ?thesis unfolding GetRegistrationToken_github_def getAuthBearerToken_def t and_then_return sum.case prod.case
    by (intro keeps parse_slash_free [OF t] preserves_genuine)
qed (simp add: GetRegistrationToken_github_def keeps)

lemma genuine_Renovate: "preserves (cache_genuine env) (GetRenovateToken_github env target)"
proof (cases "parseTargetURL target")
  case (Inr t)
  then obtain owner repo where t: "parseTargetURL target = Inr (owner, repo)" by (cases t) auto
  show ?thesis unfolding GetRenovateToken_github_def t and_then_return sum.case prod.case
    by (intro keeps parse_slash_free [OF t])
next
  case (Inl err)
  show ?thesis unfolding GetRenovateToken_github_def Inl and_then_return sum.case by (intro keeps)
qed

lemma genuine_steps: "cache_genuine env c \<Longrightarrow> cache_genuine env (fold (gh_step env) calls c)"
proof (induction calls arbitrary: c)
  case (Cons x calls)
  then have "cache_genuine env (gh_step env x c)"
    using preservesD [OF genuine_Registration] preservesD [OF genuine_Renovate] preservesD [OF preserves_genuine [OF grows_reads(1)]]
      preservesD [OF preserves_genuine [OF grows_reads(2)]] preservesD [OF preserves_genuine [OF grows_reads(3)]]
      preservesD [OF preserves_genuine [OF grows_reads(4)]]
    by (cases x) simp_all
  then show ?case using Cons.IH by simp
qed simp


section \<open>Tokens of the application\<close>

lemma is_digit_char: "(n :: nat) < 10 \<Longrightarrow> is_digit (char_of (48 + n))"
  by (simp add: is_digit_def of_char_of)

lemma digits_of_digits: "\<forall>c \<in> set (digits_of n). is_digit c"
proof (induction n rule: digits_of.induct)
  case (1 n)
  then show ?case by (subst digits_of.simps) (simp add: is_digit_char)
qed

lemma digits_of_ends: "digits_of n \<noteq> []" "0 < n \<Longrightarrow> hd (digits_of n) \<noteq> CHR ''0''"
proof -
  show ne: "digits_of n \<noteq> []" for n by (subst digits_of.simps) simp
  show "0 < n \<Longrightarrow> hd (digits_of n) \<noteq> CHR ''0''"
  proof (induction n rule: digits_of.induct)
    case (1 n)
    have "char_of (48 + n) \<noteq> CHR ''0''" if "n < 10" "0 < n"
    proof
      assume "char_of (48 + n) = CHR ''0''"
      then have "byte (char_of (48 + n)) = byte (CHR ''0'')" by simp
      then show False using that by (simp add: of_char_of)
    qed
    with 1 ne [of "n div 10"] show ?case by (subst digits_of.simps) (simp add: hd_append)
  qed
qed

lemma digits_of_first: "hd (digits_of n) \<noteq> CHR ''-''" "hd (digits_of n) \<noteq> CHR ''+''" "is_digit (hd (digits_of n))"
proof -
  show "is_digit (hd (digits_of n))" using digits_of_digits digits_of_ends(1) hd_in_set by blast
  then show "hd (digits_of n) \<noteq> CHR ''-''" "hd (digits_of n) \<noteq> CHR ''+''" by (auto simp: is_digit_def)
qed

text \<open>A number in front of a separator is read back as its text.\<close>

lemma json_int_digits:
  assumes "r \<noteq> []" "\<not> is_digit (hd r)"
  shows "json_int (digits_of n @ r) = Some (digits_of n, r)"
proof (cases "n = 0")
  case True
  then show ?thesis by (simp add: digits_of.simps json_int_def char_of_def bit_0)
next
  case False
  obtain c ds where ds: "digits_of n = c # ds" using digits_of_ends(1) by (cases "digits_of n") auto
  then have "c \<noteq> CHR ''0''" "is_digit c" "\<forall>x \<in> set ds. is_digit x"
    using False digits_of_ends(2) [of n] digits_of_first(3) [of n] digits_of_digits [of n] by simp_all
  moreover have "takeWhile is_digit (ds @ r) = ds" "dropWhile is_digit (ds @ r) = r"
    using \<open>\<forall>x \<in> set ds. is_digit x\<close> assms by (cases r; simp add: takeWhile_append dropWhile_append)+
  ultimately show ?thesis by (simp add: json_int_def ds)
qed

lemma json_number_Itoa:
  assumes "s = CHR '','' # t \<or> s = CHR ''}'' # t"
  shows "json_number (Itoa i @ s) = Some (Itoa i, s)"
proof -
  have int: "json_int (digits_of n @ s) = Some (digits_of n, s)" for n
    using assms by (intro json_int_digits) (auto simp: is_digit_def)
  have frac: "json_frac s = Some ([], s)" "json_exp s = Some ([], s)" using assms by (auto simp: json_frac_def json_exp_def)
  obtain c ds where ds: "digits_of (nat i) = c # ds" using digits_of_ends(1) by (cases "digits_of (nat i)") auto
  then have "c \<noteq> CHR ''-''" using digits_of_first(1) [of "nat i"] by simp
  with ds int [of "nat i"] int [of "nat (- i)"] frac show ?thesis
    by (cases "i < 0") (simp_all add: json_number_def Itoa_def)
qed

lemma json_value_Itoa:
  assumes "s = CHR '','' # t \<or> s = CHR ''}'' # t"
  shows "json_value (Suc n) d (Itoa i @ s) = Some (JNum (Itoa i), s)"
proof -
  obtain c ds where ds: "Itoa i = c # ds" and c: "is_digit c \<or> c = CHR ''-''"
    using digits_of_ends(1) [of "nat i"] digits_of_first(3) [of "nat i"]
    by (cases "digits_of (nat i)"; cases "i < 0") (simp_all add: Itoa_def)
  have "\<not> json_ws c" "c \<noteq> CHR ''[''" "c \<noteq> CHR ''{''" "byte c \<noteq> 34" "c \<noteq> CHR ''n''" "c \<noteq> CHR ''t''" "c \<noteq> CHR ''f''"
    using c by (auto simp: json_ws_def is_digit_def)
  then show ?thesis using json_number_Itoa [OF assms, of i] by (simp add: ds HasPrefix_def)
qed

lemma json_member_number:
  assumes "\<And>r. json_string (k @ CHR 0x22 # r) = Some (k, r)"
  shows "json_members (Suc (Suc n)) d (quoted k @ '':'' @ Itoa i @ CHR '','' # r) =
    map_option (apfst (Cons (k, JNum (Itoa i)))) (json_members (Suc n) d r)"
proof -
  have "json_value (Suc n) d (Itoa i @ CHR '','' # r) = Some (JNum (Itoa i), CHR '','' # r)"
    by (rule json_value_Itoa) simp
  then show ?thesis unfolding json_members.simps(2) [of "Suc n"]
    by (simp add: quoted_def json_ws_def assms del: json_value.simps json_members.simps)
qed

lemma json_string_digits: "\<forall>c \<in> set s. is_digit c \<or> c = CHR ''-'' \<Longrightarrow> json_string (s @ CHR 0x22 # r) = Some (s, r)"
  by (induction s) (auto simp: is_digit_def)

text \<open>
  A token of the application is the header, the claims and the signature of their hash; the claims name the
  application and expire ten minutes from now, having been issued a minute ago.
\<close>

theorem app_jwt_claims:
  assumes "GenerateAppJWT env appID key now = Inr tok"
    and "int64_range (unix now - 60)" "int64_range (unix now + 600)"
  shows "\<exists>h c sig e i. tok = b64_url h @ ''.'' @ b64_url c @ ''.'' @ b64_url sig \<and>
    fgSign env key (sha256 (b64_url h @ ''.'' @ b64_url c)) = Inr sig \<and>
    parse_json h = Some (JObj [(''alg'', JStr ''RS256''), (''typ'', JStr ''JWT'')]) \<and>
    parse_json c = Some (JObj [(''exp'', JNum e), (''iat'', JNum i), (''iss'', JStr (Itoa appID))]) \<and>
    Atoi e = Some (unix now + 600) \<and> Atoi i = Some (unix now - 60)"
proof -
  let ?e = "Itoa (unix (now + 10 * Minute))" and ?i = "Itoa (unix (now - 60 * Second))"
  have u: "unix (now + 10 * Minute) = unix now + 600" "unix (now - 60 * Second) = unix now - 60"
    by (simp_all add: unix_def Minute_def Second_def)
  have h: "parse_json jwt_header = Some (JObj [(''alg'', JStr ''RS256''), (''typ'', JStr ''JWT'')])" by code_simp
  let ?iss = "quoted ''iss'' @ '':'' @ quoted (Itoa appID) @ CHR ''}'' # []"
  let ?ms = "quoted ''exp'' @ '':'' @ ?e @ CHR '','' # quoted ''iat'' @ '':'' @ ?i @ CHR '','' # ?iss"
  have c: "jwt_claims appID now = CHR ''{'' # ?ms" by (simp add: jwt_claims_def)
  then have "\<exists>n. 2 * length (jwt_claims appID now) = Suc (Suc (Suc (Suc n)))"
    by (intro exI [of _ "2 * length (jwt_claims appID now) - 4"]) simp
  then obtain n where n: "2 * length (jwt_claims appID now) = Suc (Suc (Suc (Suc n)))" by blast
  have "\<forall>c \<in> set (Itoa appID). is_digit c \<or> c = CHR ''-''" using digits_of_digits by (auto simp: Itoa_def)
  from json_string_digits [OF this] have iss: "json_members (Suc (Suc n)) 1 ?iss = Some ([(''iss'', JStr (Itoa appID))], [])"
    by (simp add: quoted_def json_ws_def)
  have "json_members (Suc (Suc (Suc (Suc n)))) 1 ?ms =
      Some ([(''exp'', JNum ?e), (''iat'', JNum ?i), (''iss'', JStr (Itoa appID))], [])"
    by (subst json_member_number, simp, subst json_member_number, simp, simp only: iss) simp
  moreover have "skip_ws ?ms = CHR 0x22 # tl ?ms" by (simp add: quoted_def json_ws_def)
  ultimately have "parse_json (jwt_claims appID now) = Some (JObj [(''exp'', JNum ?e), (''iat'', JNum ?i), (''iss'', JStr (Itoa appID))])"
    unfolding parse_json_def n by (simp add: c json_ws_def maxNestingDepth_def del: json_members.simps)
  moreover have "Atoi ?e = Some (unix now + 600)" "Atoi ?i = Some (unix now - 60)" using assms(2, 3) by (simp_all add: u Atoi_Itoa)
  moreover obtain sig where "fgSign env key (sha256 (b64_url jwt_header @ ''.'' @ b64_url (jwt_claims appID now))) = Inr sig"
    "tok = b64_url jwt_header @ ''.'' @ b64_url (jwt_claims appID now) @ ''.'' @ b64_url sig"
    using assms(1) by (auto simp: GenerateAppJWT_def Let_def split: sum.splits)
  ultimately show ?thesis using h by blast
qed

section \<open>Examples\<close>

text \<open>Texts of JSON, with bars for their quotes.\<close>

definition bars :: "string \<Rightarrow> string" where "bars s = map (\<lambda>c. if c = CHR ''|'' then CHR 0x22 else c) s"

definition ex_answer :: "int \<Rightarrow> string \<Rightarrow> string + http_response" where
  "ex_answer status body = Inr \<lparr>hrStatusCode = status, hrHeader = [], hrBody = bars body\<rparr>"

definition ex_forge :: forge_env where
  "ex_forge = \<lparr>
     fgDo = (\<lambda>n r.
       if Contains (frURL r) ''registration-token'' then
         (if frMethod r = ''GET'' then ex_answer 405 [] else ex_answer 201 ''{|token|:|T1|}'')
       else if Contains (frURL r) ''access_tokens'' then ex_answer 201 ''{|token|:|ghs|,|expires_at|:|E|}''
       else if Contains (frURL r) ''installation'' then ex_answer 200 ''{|id|:7}''
       else ex_answer 200 ''[{|name|:|r|,|html_url|:|u1|},{|html_url|:|u1|},{|html_url|:|u2|}]''),
     fgNow = (\<lambda>n. 0), fgParseTime = (\<lambda>s. if s = ''E'' then Some (60 * Minute) else None), fgParseKey = Some,
     fgSign = (\<lambda>k h. Inr ''sig''), fgGetenv = (\<lambda>v. ''https://codeberg.org/'')\<rparr>"

definition ex_client :: forge_client where "ex_client = \<lparr>fcBaseURL = [], fcPat = ''p'', fcLog = []\<rparr>"

theorem forge_discovery_exact_witness:
  "\<exists>ts c'. run_state (discover_repositories ex_forge ''FORGEJO_INSTANCE_URL'') ex_client = (Inr ts, c') \<and>
     length (fcLog c') = 1 \<and> map dtHTMLURL ts = [''u1'', ''u2''] \<and> distinct (map dtHTMLURL ts)"
proof -
  let ?r = "run_state (discover_repositories ex_forge ''FORGEJO_INSTANCE_URL'') ex_client"
  have "map_sum id (map dtHTMLURL) (fst ?r) = Inr [''u1'', ''u2''] \<and> length (fcLog (snd ?r)) = 1" by code_simp
  moreover obtain a c' where r: "?r = (a, c')" by fastforce
  ultimately obtain ts where ts: "a = Inr ts" "map dtHTMLURL ts = [''u1'', ''u2'']" "length (fcLog c') = 1"
    by (cases a) auto
  moreover have "distinct (map dtHTMLURL ts)" using forge_discovery_exact [OF r [unfolded ts(1)]] by (elim exE conjE)
  ultimately show ?thesis using r by auto
qed

theorem forge_registration_requests_witness:
  "\<exists>c'. run_state (registration_token ex_forge ''repo'' ''https://codeberg.org/o/r'') ex_client = (Inr ''T1'', c') \<and>
     map frMethod (fcLog c') = [''GET'', ''POST''] \<and> token_answered ex_forge c' ''T1''"
proof -
  let ?r = "run_state (registration_token ex_forge ''repo'' ''https://codeberg.org/o/r'') ex_client"
  have "fst ?r = Inr ''T1'' \<and> map frMethod (fcLog (snd ?r)) = [''GET'', ''POST'']" by code_simp
  moreover obtain a c' where r: "?r = (a, c')" by fastforce
  ultimately have t: "a = Inr ''T1''" "map frMethod (fcLog c') = [''GET'', ''POST'']" by simp_all
  moreover have "token_answered ex_forge c' ''T1''" using forge_registration_requests [OF r [unfolded t(1)]] by simp
  ultimately show ?thesis using r by auto
qed

definition ex_app :: github where
  "ex_app = \<lparr>ghBaseURL = DefaultBaseURL, ghAuthMethod = AuthMethodGitHubApp, ghAppID = 5, ghPrivateKey = ''key'', ghPat = [],
     ghTokenCache = [], ghAppSlug = [], ghAppHTMLURL = [], ghLog = []\<rparr>"

lemma ex_signed: "\<exists>j. GenerateAppJWT ex_forge i k t = Inr j"
  by (simp add: GenerateAppJWT_def ex_forge_def Let_def)

lemma ex_app_token:
  "\<exists>c'. run_state (GetRenovateToken_github ex_forge ''https://github.com/o/r'') ex_app = (Inr ''ghs'', c') \<and>
     length (ghLog c') = 2"
proof -
  let ?find = "DefaultBaseURL @ ''/repos/o/r/installation''" and ?post = "DefaultBaseURL @ access_tokens_path 7"
  have t: "parseTargetURL ''https://github.com/o/r'' = Inr (''o'', ''r'')" by code_simp
  have "Parse ?find \<noteq> None" "Parse ?post \<noteq> None" by code_simp+
  then obtain p1 p2 where u: "Parse ?find = Some p1" "Parse ?post = Some p2" by auto
  have k: "\<not> Contains ?find ''registration-token''" "\<not> Contains ?find ''access_tokens''" "Contains ?find ''installation''"
    "\<not> Contains ?post ''registration-token''" "Contains ?post ''access_tokens''" by code_simp+
  have d: "Decode id_dec 0 (bars ''{|id|:7}'') = (7, True)"
    "Decode (access_token_dec ex_forge) \<lparr>atToken = [], atExpiresAt = zero_time\<rparr> (bars ''{|token|:|ghs|,|expires_at|:|E|}'') =
      (\<lparr>atToken = ''ghs'', atExpiresAt = 60 * Minute\<rparr>, True)" by code_simp+
  have app: "ghBaseURL ex_app = DefaultBaseURL" "ghLog ex_app = []" "ghAuthMethod ex_app = AuthMethodGitHubApp" "ghTokenCache ex_app = []"
    by (simp_all add: ex_app_def)
  have jwt: "\<exists>j. run_state (app_jwt ex_forge) c = (Inr j, c)" for c using ex_signed by (simp add: app_jwt_def)
  obtain j where j: "run_state (app_jwt ex_forge) ex_app = (Inr j, ex_app)" using jwt by blast
  have do: "fgDo ex_forge n \<lparr>frMethod = m, frURL = ?find, frHeaders = h, frBody = b\<rparr> = ex_answer 200 ''{|id|:7}''"
    "fgDo ex_forge n \<lparr>frMethod = m, frURL = ?post, frHeaders = h, frBody = b\<rparr> = ex_answer 201 ''{|token|:|ghs|,|expires_at|:|E|}''" for n m h b
    using k by (simp_all add: ex_forge_def)
  let ?r = "\<lambda>j. \<lparr>frMethod = ''GET'', frURL = ?find, frHeaders = setCommonHeaders [(''Authorization'', ''Bearer '' @ j)], frBody = []\<rparr>"
  let ?c1 = "ex_app\<lparr>ghLog := [?r j]\<rparr>"
  have find: "run_state (findInstallationID ex_forge ''o'' ''r'') ex_app = (Inr 7, ?c1)"
    using u do j d by (simp add: app findInstallationID_def run_and_then queryInstallationEndpoint_def run_gh_do decoded_def ex_answer_def Let_def)
  obtain j' where j': "run_state (app_jwt ex_forge) ?c1 = (Inr j', ?c1)" using jwt by blast
  show ?thesis
    using t find j' u do d by (simp add: app GetRenovateToken_github_def getInstallationToken_def run_and_then run_gh_do decoded_def ex_answer_def Let_def)
qed


theorem app_jwt_claims_witness:
  "\<exists>tok h c sig. GenerateAppJWT ex_forge 5 ''key'' 0 = Inr tok \<and> tok = b64_url h @ ''.'' @ b64_url c @ ''.'' @ b64_url sig \<and>
     (\<exists>e i. parse_json c = Some (JObj [(''exp'', JNum e), (''iat'', JNum i), (''iss'', JStr (Itoa 5))]) \<and> Atoi e = Some 600 \<and> Atoi i = Some (- 60))"
proof -
  obtain tok where tok: "GenerateAppJWT ex_forge 5 ''key'' 0 = Inr tok" using ex_signed by blast
  have "unix 0 = 0" by (simp add: unix_def)
  moreover have "int64_range (- 60)" "int64_range 600" by (simp_all add: int64_range_def)
  ultimately show ?thesis using app_jwt_claims [OF tok] tok by auto
qed

end
