(* ===== verification/Forge_Targets.thy ===== *)
theory Forge_Targets
  imports GitHub Gitea_Forgejo
begin

text \<open>
  The clients read the same owner and repository from every usual spelling of a repository's URL.
\<close>

section \<open>Plain names\<close>

definition plain_char :: "char \<Rightarrow> bool" where
  "plain_char c \<longleftrightarrow> is_letter c \<or> is_digit c \<or> c \<in> set ''-_.''"

definition plain_name :: "string \<Rightarrow> bool" where
  "plain_name s \<longleftrightarrow> s \<noteq> [] \<and> (\<forall>c \<in> set s. plain_char c)"

lemma plain_char_cases [simp]:
  "\<not> plain_char (CHR ''/'')" "\<not> plain_char (CHR '':'')" "\<not> plain_char (CHR ''#'')" "\<not> plain_char (CHR ''?'')"
  "\<not> plain_char (CHR ''@'')" "\<not> plain_char (CHR ''%'')" "\<not> plain_char (CHR ''['')"
  by (simp_all add: plain_char_def is_letter_def is_digit_def)

lemma plain_char_range: "plain_char c \<Longrightarrow> 45 \<le> byte c \<and> byte c \<le> 122"
  by (auto simp: plain_char_def is_letter_def is_digit_def)

lemma plain_char_not: "plain_char c \<Longrightarrow> \<not> is_space c" "plain_char c \<Longrightarrow> \<not> is_ctl c"
  using plain_char_range [of c] by (auto simp: is_space_def is_ctl_def Let_def)

lemma plain_not_escaped: "plain_char c \<Longrightarrow> \<not> shouldEscape c m"
  by (auto simp: plain_char_def shouldEscape_def)

lemma unescape_plain: "\<forall>c \<in> set s. plain_char c \<or> c = CHR ''/'' \<and> m = encodePath \<Longrightarrow> unescape m s = Some s"
proof (induction s)
  case (Cons c s)
  then have "c \<noteq> CHR ''%''" "\<not> (m = encodeHost \<and> shouldEscape c m)" using plain_not_escaped by fastforce+
  with Cons show ?case by simp
qed simp

lemma cut_none: "c \<notin> set s \<Longrightarrow> cut c s = (s, [])"
  by (induction s) (auto simp: cut_def)

lemma parseHost_plain:
  assumes "plain_name h"
  shows "parseHost h = Some h"
proof -
  have "\<not> HasPrefix h ''[''" "CHR '':'' \<notin> set h"
    using assms by (cases h; fastforce simp: plain_name_def HasPrefix_def)+
  then show ?thesis using assms unescape_plain [of h encodeHost] by (simp add: parseHost_def LastIndex_None [THEN iffD2] plain_name_def)
qed

lemma Parse_parts:
  assumes "\<forall>c \<in> set s. \<not> is_ctl c" "CHR ''#'' \<notin> set s" "CHR ''?'' \<notin> set rest" "s \<noteq> ''*''"
    and "getScheme s = Some (''https'', rest)" "rest = ''//'' @ a" "authority = takeWhile (\<lambda>x. x \<noteq> CHR ''/'') a"
    and "path = dropWhile (\<lambda>x. x \<noteq> CHR ''/'') a" "parseAuthority authority = Some (None, h)" "unescape encodePath path = Some path"
  shows "\<exists>u. Parse s = Some u \<and> uScheme u = ''https'' \<and> uHost u = h \<and> uPath u = path"
proof -
  have "filter (\<lambda>c. c = CHR ''?'') rest = []" using assms(3) by (auto simp: filter_empty_conv)
  moreover have "HasPrefix rest ''/''" "HasPrefix rest ''//''" "drop 2 rest = a" using assms(6) by (simp_all add: HasPrefix_def)
  ultimately show ?thesis using assms(1-5, 7-10) cut_none [OF assms(2)] cut_none [OF assms(3)]
    by (simp add: Parse_def parse_url_def parse_rest_def setPath_def ToLower_def to_lower_char_def empty_url_def Let_def)
qed

lemma Parse_plain:
  assumes "plain_name h" "plain_name owner" "plain_name repo"
  shows "\<exists>u. Parse (''https://'' @ h @ ''/'' @ owner @ ''/'' @ repo) = Some u \<and> uScheme u = ''https'' \<and> uHost u = h \<and>
    uPath u = ''/'' @ owner @ ''/'' @ repo"
proof (rule Parse_parts)
  let ?p = "''/'' @ owner @ ''/'' @ repo"
  let ?s = "''https://'' @ h @ ?p"
  have chars: "\<forall>c \<in> set (h @ owner @ repo). plain_char c" using assms by (auto simp: plain_name_def)
  then have sep: "CHR ''#'' \<notin> set ?s" "CHR ''?'' \<notin> set (''//'' @ h @ ?p)" "CHR ''@'' \<notin> set h" "CHR ''/'' \<notin> set h"
    using plain_char_cases by (auto dest: bspec)
  have "is_ctl c \<Longrightarrow> c \<notin> set ?s" for c using chars plain_char_not(2) by (auto simp: is_ctl_def)
  then show "\<forall>c \<in> set ?s. \<not> is_ctl c" by blast
  show "getScheme ?s = Some (''https'', ''//'' @ h @ ?p)" by (simp add: getScheme_def scheme_char_def is_letter_def is_digit_def)
  show "h = takeWhile (\<lambda>x. x \<noteq> CHR ''/'') (h @ ?p)" "?p = dropWhile (\<lambda>x. x \<noteq> CHR ''/'') (h @ ?p)"
    using sep(4) by (auto simp: takeWhile_append dropWhile_append)
  show "unescape encodePath ?p = Some ?p" using chars by (intro unescape_plain) auto
  show "parseAuthority h = Some (None, h)" using sep(3) parseHost_plain [OF assms(1)] by (simp add: parseAuthority_def LastIndex_None [THEN iffD2])
  show "CHR ''#'' \<notin> set ?s" "CHR ''?'' \<notin> set (''//'' @ h @ ?p)" using sep by blast+
qed simp_all

section \<open>Spellings\<close>

text \<open>The ways to write a repository that a forge offers.\<close>

definition spellings :: "string \<Rightarrow> string \<Rightarrow> string \<Rightarrow> string list" where
  "spellings h owner repo =
     [''https://'' @ h @ ''/'' @ owner @ ''/'' @ repo, ''https://'' @ h @ ''/'' @ owner @ ''/'' @ repo @ ''.git'',
      ''https://'' @ h @ ''/'' @ owner @ ''/'' @ repo @ ''/'', ''git@'' @ h @ '':'' @ owner @ ''/'' @ repo,
      ''git@'' @ h @ '':'' @ owner @ ''/'' @ repo @ ''.git'']"

lemma TrimSuffix_append: "TrimSuffix (x @ s) s = x"
  by (simp add: TrimSuffix_def HasSuffix_def HasPrefix_def)

lemma TrimSuffix_other: "\<not> HasSuffix x s \<Longrightarrow> TrimSuffix x s = x"
  by (simp add: TrimSuffix_def)

lemma clean_plain:
  assumes "plain_name repo" "\<not> HasSuffix (x @ repo) ''.git''" "x \<noteq> []" "\<not> is_space (hd x)"
  shows "clean_target (x @ repo) = x @ repo" "clean_target (x @ repo @ ''.git'') = x @ repo" "clean_target (x @ repo @ ''/'') = x @ repo"
proof -
  have last: "plain_char (last repo)" "repo \<noteq> []" using assms(1) last_in_set [of repo] by (auto simp: plain_name_def)
  then have slash: "\<not> HasSuffix (x @ repo) ''/''"
    by (cases repo rule: rev_cases) (auto simp: HasSuffix_def HasPrefix_def)
  have trim: "TrimSpace (x @ y) = x @ y" if "y \<noteq> []" "\<not> is_space (last y)" for y
    using assms(3, 4) that TrimRight_id [of "x @ y" is_space] by (cases x) (simp_all add: TrimSpace_def TrimLeft_def)
  show "clean_target (x @ repo) = x @ repo"
    using trim [of repo] last plain_char_not(1) assms(2) slash by (simp add: clean_target_def TrimSuffix_other)
  show "clean_target (x @ repo @ ''.git'') = x @ repo"
    using trim [of "repo @ ''.git''"] slash TrimSuffix_append [of "x @ repo" "''.git''"]
    by (simp add: clean_target_def TrimSuffix_other is_space_def)
  have "\<not> HasSuffix (x @ repo @ ''/'') ''.git''" by (simp add: HasSuffix_def HasPrefix_def)
  then show "clean_target (x @ repo @ ''/'') = x @ repo"
    using trim [of "repo @ ''/''"] TrimSuffix_append [of "x @ repo" "''/''"]
    by (simp add: clean_target_def TrimSuffix_other is_space_def)
qed

text \<open>
  Every usual spelling of a repository, with or without .git or a slash at its end and as a URL or in the form
  of scp, is read as the same owner and repository by the three clients, at the same instance.
\<close>

theorem target_spellings:
  assumes "plain_name h" "plain_name owner" "plain_name repo" "\<not> HasSuffix repo ''.git''" "u \<in> set (spellings h owner repo)"
  shows "parseTargetURL u = Inr (owner, repo) \<and> instance_target u = Inr (''https://'' @ h, owner, repo)"
proof -
  let ?web = "''https://'' @ h @ ''/'' @ owner @ ''/''" and ?scp = "''git@'' @ h @ '':'' @ owner @ ''/''"
  have notin: "c \<notin> set s" if "plain_name s" "\<not> plain_char c" for c s using that by (auto simp: plain_name_def)
  have suffix: "\<not> HasSuffix ((x @ ''/'') @ repo) ''.git''" for x
  proof
    assume "HasSuffix ((x @ ''/'') @ repo) ''.git''"
    then have H: "take 4 (rev repo @ CHR ''/'' # rev x) = ''tig.''" by (simp add: HasSuffix_def HasPrefix_def eval_nat_numeral)
    show False
    proof (cases "length repo < 4")
      case True
      then have "take 4 (rev repo @ CHR ''/'' # rev x) ! length repo = CHR ''/''" by (simp add: nth_append)
      with H have "''tig.'' ! length repo = CHR ''/''" by simp
      with True show False by (auto simp: less_Suc_eq numeral_eq_Suc)
    next
      case False
      with H have "take 4 (rev repo) = ''tig.''" by simp
      with assms(4) show False by (simp add: HasSuffix_def HasPrefix_def eval_nat_numeral)
    qed
  qed
  have clean: "clean_target u = ?web @ repo \<or> clean_target u = ?scp @ repo"
    using assms(5) clean_plain [OF assms(3), of ?web] clean_plain [OF assms(3), of ?scp] suffix [of "''https://'' @ h @ ''/'' @ owner"]
      suffix [of "''git@'' @ h @ '':'' @ owner"]
    by (auto simp: spellings_def is_space_def)
  have path: "Split (owner @ ''/'' @ repo) (CHR ''/'') = [owner, repo]"
    using notin [OF assms(2), of "CHR ''/''"] notin [OF assms(3), of "CHR ''/''"] by (simp add: Split_first Split_plain)
  from clean show ?thesis
  proof
    assume c: "clean_target u = ?web @ repo"
    obtain p where p: "Parse (?web @ repo) = Some p" "uScheme p = ''https''" "uHost p = h" "uPath p = ''/'' @ owner @ ''/'' @ repo"
      using Parse_plain [OF assms(1-3)] by auto
    have "path_parts p = [owner, repo]"
    proof -
      have "last repo \<noteq> CHR ''/''" using assms(3) notin [OF assms(3), of "CHR ''/''"] last_in_set [of repo]
        unfolding plain_name_def by (metis plain_char_cases(1))
      then have "TrimChar (''/'' @ owner @ ''/'' @ repo) (CHR ''/'') = owner @ ''/'' @ repo"
        using assms(2, 3) notin [OF assms(2), of "CHR ''/''"] notin [OF assms(3), of "CHR ''/''"]
          TrimRight_id [of "owner @ ''/'' @ repo" "\<lambda>x. x = CHR ''/''"]
        by (cases owner) (auto simp: TrimChar_def TrimLeft_def plain_name_def)
      with p path show ?thesis by (simp add: path_parts_def)
    qed
    moreover have "scp_target (?web @ repo) = None" by (simp add: scp_target_def HasPrefix_def)
    ultimately show ?thesis using c p assms(1, 2)
      by (simp add: parseTargetURL_def instance_target_def plain_name_def)
  next
    assume c: "clean_target u = ?scp @ repo"
    have "CHR '':'' \<notin> set (''git@'' @ h)" using notin [OF assms(1), of "CHR '':''"] by simp
    moreover have "CHR '':'' \<notin> set (owner @ ''/'' @ repo)"
      using notin [OF assms(2), of "CHR '':''"] notin [OF assms(3), of "CHR '':''"] by simp
    ultimately have "Split (?scp @ repo) (CHR '':'') = [''git@'' @ h, owner @ ''/'' @ repo]"
      using Split_first [of "CHR '':''" "''git@'' @ h" "owner @ ''/'' @ repo"] by (simp add: Split_plain)
    then have "scp_target (?scp @ repo) = Some (h, owner, repo)"
      using path by (simp add: scp_target_def HasPrefix_def TrimPrefix_def)
    with c show ?thesis by (simp add: parseTargetURL_def instance_target_def)
  qed
qed

theorem target_spellings_witness:
  "parseTargetURL ''git@github.com:noosxe/gh-runner.git'' = Inr (''noosxe'', ''gh-runner'') \<and>
   instance_target ''https://codeberg.org/noosxe/gh-runner/'' = Inr (''https://codeberg.org'', ''noosxe'', ''gh-runner'')"
proof -
  have p: "plain_name ''github.com''" "plain_name ''codeberg.org''" "plain_name ''noosxe''" "plain_name ''gh-runner''" "\<not> HasSuffix ''gh-runner'' ''.git''"
    by code_simp+
  show ?thesis
    using target_spellings [OF p(1,3,4,5), of "''git@github.com:noosxe/gh-runner.git''"]
      target_spellings [OF p(2,3,4,5), of "''https://codeberg.org/noosxe/gh-runner/''"]
    by (simp add: spellings_def)
qed

text \<open>The suffixes are taken off in one order only: one behind a slash stays.\<close>

lemma git_suffix_before_slash: "parseTargetURL ''https://github.com/o/r.git/'' = Inr (''o'', ''r.git'')"
  by code_simp

end
