(* ===== verification/Providers.thy ===== *)
theory Providers
  imports GitHub Gitea_Forgejo Profiles Controller
begin

text \<open>
  \<open>src/internal/provider/registry.go\<close> with the constructors that the packages of the forges register
  for their authentication methods.
\<close>

datatype git_client = GitHubClient github | GiteaClient forge_client | ForgejoClient forge_client

text \<open>A decrypted profile: its row, private key and token.\<close>

type_synonym decrypted_profile = "auth_profile \<times> string \<times> string"
type_synonym provider_constructor = "forge_env \<Rightarrow> decrypted_profile \<Rightarrow> forge_error + git_client"
type_synonym provider_registry = "(string, provider_constructor) gomap"

definition github_app_constructor :: provider_constructor where
  "github_app_constructor env profile =
     (case profile of (p, privateKey, token) \<Rightarrow>
        (case apAppID p of
           None \<Rightarrow> Inl MissingCredentials
         | Some appID \<Rightarrow>
             if appID \<le> 0 then Inl MissingCredentials
             else if privateKey = [] then Inl MissingCredentials
             else map_sum id GitHubClient (NewAppProvider env appID privateKey)))"

definition pat_constructor :: provider_constructor where
  "pat_constructor env profile =
     (case profile of (p, privateKey, token) \<Rightarrow>
        if token = [] then Inl MissingCredentials else map_sum id GitHubClient (NewPATProvider token))"

text \<open>A token may carry the URL of its instance in front of a bar.\<close>

definition token_client :: "string \<Rightarrow> forge_error + forge_client" where
  "token_client token =
     (if token = [] then Inl MissingCredentials
      else case Index token (CHR ''|'') of
             None \<Rightarrow> NewClient token []
           | Some i \<Rightarrow>
               if HasPrefix (take i token) ''http'' then NewClient (drop (Suc i) token) [WithBaseURL_forge (take i token)]
               else NewClient token [])"

definition gitea_constructor :: provider_constructor where
  "gitea_constructor env profile = (case profile of (p, privateKey, token) \<Rightarrow> map_sum id GiteaClient (token_client token))"

definition forgejo_constructor :: provider_constructor where
  "forgejo_constructor env profile = (case profile of (p, privateKey, token) \<Rightarrow> map_sum id ForgejoClient (token_client token))"

definition NewRegistry :: provider_registry where "NewRegistry = []"

definition Register :: "string \<Rightarrow> provider_constructor \<Rightarrow> provider_registry \<Rightarrow> provider_registry" where
  "Register meth constructor r = mput meth constructor r"

text \<open>The registry after the packages are initialized.\<close>

definition DefaultRegistry :: provider_registry where
  "DefaultRegistry =
     Register ''pat'' pat_constructor (Register ''github_app'' github_app_constructor
       (Register ''gitea_token'' gitea_constructor (Register ''forgejo_token'' forgejo_constructor NewRegistry)))"

definition Build :: "provider_registry \<Rightarrow> forge_env \<Rightarrow> decrypted_profile \<Rightarrow> forge_error + git_client" where
  "Build r env profile =
     (case mget r (apMethod (fst profile)) of
        None \<Rightarrow> Inl (UnsupportedAuthMethod (apMethod (fst profile)))
      | Some constructor \<Rightarrow> constructor env profile)"

definition BuildFromDB :: "provider_registry \<Rightarrow> forge_env \<Rightarrow> db_env \<Rightarrow> crypto_env \<Rightarrow> int \<Rightarrow> (config_db, forge_error + git_client) state" where
  "BuildFromDB r env dbe crypto authProfileID = do {
     p \<leftarrow> GetDecryptedAuthProfileById dbe crypto authProfileID;
     State_Monad.return (case p of Inl _ \<Rightarrow> Inl (LoadingProfile authProfileID) | Inr profile \<Rightarrow> Build r env profile)
   }"

text \<open>How each client scales its pools.\<close>

fun ScalingMode_of :: "git_client \<Rightarrow> ScalingMode" where
  "ScalingMode_of (GitHubClient _) = ScalingWebhook"
| "ScalingMode_of (GiteaClient _) = ScalingWebhook"
| "ScalingMode_of (ForgejoClient _) = ScalingPolling"

section \<open>What is built\<close>

text \<open>The credentials of a client are those of its profile, and a client is built of the kind its method names.\<close>

lemma token_client_parts:
  assumes "token_client token = Inr c"
  shows "fcLog c = [] \<and> fcPat c \<noteq> [] \<and> (fcBaseURL c = [] \<and> fcPat c = TrimSpace token \<or>
    (\<exists>base pat. token = base @ ''|'' @ pat \<and> HasPrefix base ''http'' \<and> fcPat c = TrimSpace pat \<and>
       fcBaseURL c = TrimRight (\<lambda>x. x = CHR ''/'') base))"
proof (cases "Index token (CHR ''|'')")
  case (Some i)
  then have "token = take i token @ ''|'' @ drop (Suc i) token"
    using Index_Some [OF Some] id_take_nth_drop [of i token] by simp
  moreover have "take i token \<noteq> []" if "HasPrefix (take i token) ''http''" using that by (cases "take i token") (simp_all add: HasPrefix_def)
  ultimately have parts: "token = take i token @ ''|'' @ drop (Suc i) token" "HasPrefix (take i token) ''http'' \<Longrightarrow> take i token \<noteq> []" by blast+
  show ?thesis
  proof (cases "HasPrefix (take i token) ''http''")
    case True
    with assms Some parts(2) have "c = \<lparr>fcBaseURL = TrimRight (\<lambda>x. x = CHR ''/'') (take i token), fcPat = TrimSpace (drop (Suc i) token), fcLog = []\<rparr>"
      "TrimSpace (drop (Suc i) token) \<noteq> []"
      by (auto simp: token_client_def NewClient_def WithBaseURL_forge_def split: if_splits)
    with True parts(1) show ?thesis by auto
  next
    case False
    with assms Some show ?thesis by (auto simp: token_client_def NewClient_def split: if_splits)
  qed
qed (use assms in \<open>auto simp: token_client_def NewClient_def split: if_splits\<close>)

lemma map_sum_Inr: "map_sum id f r = Inr x \<longleftrightarrow> (\<exists>c. r = Inr c \<and> x = f c)"
  by (cases r) auto

lemma DefaultRegistry_get:
  "mget DefaultRegistry m =
     (if m = ''pat'' then Some pat_constructor else if m = ''github_app'' then Some github_app_constructor
      else if m = ''gitea_token'' then Some gitea_constructor else if m = ''forgejo_token'' then Some forgejo_constructor else None)"
  by (simp add: DefaultRegistry_def Register_def NewRegistry_def)

text \<open>
  A client that is built for a profile is of the kind that the method of the profile names and holds the credentials
  of that profile, and no request has been made with them.
\<close>

theorem built_from_credentials:
  assumes "Build DefaultRegistry env (p, privateKey, token) = Inr client"
  shows "case client of
    GitHubClient c \<Rightarrow> ghLog c = [] \<and> ghBaseURL c = DefaultBaseURL \<and>
      (apMethod p = ''pat'' \<and> ghAuthMethod c = AuthMethodPAT \<and> ghPat c = token \<or>
       apMethod p = ''github_app'' \<and> ghAuthMethod c = AuthMethodGitHubApp \<and> apAppID p = Some (ghAppID c) \<and> 0 < ghAppID c \<and>
         fgParseKey env privateKey = Some (ghPrivateKey c))
  | GiteaClient c \<Rightarrow> apMethod p = ''gitea_token'' \<and> token_client token = Inr c
  | ForgejoClient c \<Rightarrow> apMethod p = ''forgejo_token'' \<and> token_client token = Inr c"
proof -
  from assms consider "apMethod p = ''pat''" "pat_constructor env (p, privateKey, token) = Inr client"
    | "apMethod p = ''github_app''" "github_app_constructor env (p, privateKey, token) = Inr client"
    | "apMethod p = ''gitea_token''" "gitea_constructor env (p, privateKey, token) = Inr client"
    | "apMethod p = ''forgejo_token''" "forgejo_constructor env (p, privateKey, token) = Inr client"
    by (auto simp: Build_def DefaultRegistry_get split: if_splits)
  then show ?thesis
    by cases (auto simp: pat_constructor_def github_app_constructor_def gitea_constructor_def forgejo_constructor_def map_sum_Inr
        NewPATProvider_def NewAppProvider_def split: if_splits option.splits)
qed

end
