(* ===== verification/Health_Checks.thy ===== *)
theory Health_Checks
  imports Controller
begin

text \<open>
  \<open>src/internal/server/health.go\<close>: the probes behind \<open>/healthz\<close> and \<open>/readyz\<close>. A probe answers for a context,
  which stands for the moment of a request; the order in which a map is gone through is an argument. The
  outcomes of a probe are declared with the controller, whose heartbeat is one.
\<close>

section \<open>The registry\<close>

record 'ctx health_check =
  hcName :: string
  hcProbe :: "'ctx \<Rightarrow> Status"

record 'ctx Health =
  hlLiveness :: "(string, 'ctx health_check) gomap"
  hlReadiness :: "(string, 'ctx health_check) gomap"

definition NewCheck :: "string \<Rightarrow> ('ctx \<Rightarrow> Status) \<Rightarrow> 'ctx health_check" where
  "NewCheck name probe = \<lparr>hcName = name, hcProbe = probe\<rparr>"

definition NewHealth :: "'ctx Health" where
  "NewHealth = \<lparr>hlLiveness = [], hlReadiness = []\<rparr>"

definition RegisterLiveness :: "'ctx health_check \<Rightarrow> 'ctx Health \<Rightarrow> 'ctx Health" where
  "RegisterLiveness c h = h\<lparr>hlLiveness := mput (hcName c) c (hlLiveness h)\<rparr>"

definition RegisterReadiness :: "'ctx health_check \<Rightarrow> 'ctx Health \<Rightarrow> 'ctx Health" where
  "RegisterReadiness c h = h\<lparr>hlReadiness := mput (hcName c) c (hlReadiness h)\<rparr>"

section \<open>Reports\<close>

record Report =
  reStatus :: string
  reChecks :: "(string, string) gomap"

definition snapshot :: "nat list \<Rightarrow> (string, 'a) gomap \<Rightarrow> (string, 'a) gomap" where
  "snapshot order m = fold (\<lambda>(name, c) out. mput name c out) (go_range order m) []"

definition runChecks :: "nat list \<Rightarrow> 'ctx \<Rightarrow> (string, 'ctx health_check) gomap \<Rightarrow> (string, Status) gomap" where
  "runChecks order ctx m = fold (\<lambda>(name, c) checks. mput name (hcProbe c ctx) checks) (go_range order m) []"

fun any_failed :: "Status list \<Rightarrow> bool" where
  "any_failed [] = False"
| "any_failed (s # ss) = (if s = StatusFail then True else any_failed ss)"

definition aggregate :: "nat list \<Rightarrow> (string, Status) gomap \<Rightarrow> string \<Rightarrow> string \<Rightarrow> string" where
  "aggregate order checks okStatus failedStatus =
     (if any_failed (map snd (go_range order checks)) then failedStatus else okStatus)"

fun status_text :: "Status \<Rightarrow> string" where
  "status_text StatusOK = ''ok''"
| "status_text StatusDegraded = ''degraded''"
| "status_text StatusFail = ''fail''"

definition newReport :: "nat list \<Rightarrow> string \<Rightarrow> (string, Status) gomap \<Rightarrow> Report" where
  "newReport order status checks =
     \<lparr>reStatus = status, reChecks = fold (\<lambda>(name, s) out. mput name (status_text s) out) (go_range order checks) []\<rparr>"

text \<open>A report goes through its maps four times, each in an order of its own.\<close>

definition report :: "(nat \<Rightarrow> nat list) \<Rightarrow> string \<Rightarrow> string \<Rightarrow> 'ctx \<Rightarrow> (string, 'ctx health_check) gomap \<Rightarrow> Report" where
  "report order okStatus failedStatus ctx m =
     (let checks = runChecks (order 1) ctx (snapshot (order 0) m)
      in newReport (order 3) (aggregate (order 2) checks okStatus failedStatus) checks)"

definition LivenessReport :: "(nat \<Rightarrow> nat list) \<Rightarrow> 'ctx \<Rightarrow> 'ctx Health \<Rightarrow> Report" where
  "LivenessReport order ctx h = report order ''healthy'' ''unhealthy'' ctx (hlLiveness h)"

definition ReadinessReport :: "(nat \<Rightarrow> nat list) \<Rightarrow> 'ctx \<Rightarrow> 'ctx Health \<Rightarrow> Report" where
  "ReadinessReport order ctx h = report order ''ready'' ''not_ready'' ctx (hlReadiness h)"

section \<open>What a report says\<close>

text \<open>Filling a map from the entries of another.\<close>

lemma fill_map:
  assumes "distinct (map fst xs)"
  shows "mget (fold (\<lambda>(k, v) m. mput k (f v) m) xs m0) k = (case map_of xs k of Some v \<Rightarrow> Some (f v) | None \<Rightarrow> mget m0 k)"
  using assms
proof (induction xs arbitrary: m0)
  case (Cons x xs)
  then have "map_of xs (fst x) = None" by (simp add: map_of_eq_None_iff)
  with Cons show ?case by (cases x) (auto split: option.split)
qed simp

lemma wf_fill: "wf_map m0 \<Longrightarrow> wf_map (fold (\<lambda>(k, v) m. mput k (f v) m) xs m0)"
  by (induction xs arbitrary: m0) (auto simp: split_beta)

lemma fill_range:
  assumes "wf_map m"
  shows "mget (fold (\<lambda>(k, v) m'. mput k (f v) m') (go_range order m) []) = map_option f \<circ> mget m"
    and "wf_map (fold (\<lambda>(k, v) m'. mput k (f v) m') (go_range order m) [])"
proof -
  show "mget (fold (\<lambda>(k, v) m'. mput k (f v) m') (go_range order m) []) = map_option f \<circ> mget m"
    using fill_map [of "go_range order m" f "[]"] assms by (auto simp: fun_eq_iff split: option.split)
qed (simp add: wf_fill)

lemma any_failed_iff: "any_failed ss \<longleftrightarrow> StatusFail \<in> set ss"
  by (induction ss) auto

lemma aggregate_eq:
  assumes "wf_map checks"
  shows "aggregate order checks a b = (if \<exists>name. mget checks name = Some StatusFail then b else a)"
proof -
  have "StatusFail \<in> snd ` set checks \<longleftrightarrow> (\<exists>name. (name, StatusFail) \<in> set checks)" by force
  with assms show ?thesis by (simp add: aggregate_def any_failed_iff)
qed

lemma report_eq:
  assumes "wf_map m"
  shows "reStatus (report order a b ctx m) = (if \<exists>name c. mget m name = Some c \<and> hcProbe c ctx = StatusFail then b else a)"
    and "mget (reChecks (report order a b ctx m)) name = map_option (\<lambda>c. status_text (hcProbe c ctx)) (mget m name)"
proof -
  let ?s = "snapshot (order 0) m"
  have s: "mget ?s = mget m" "wf_map ?s"
    using fill_range [OF assms, of "\<lambda>c. c" "order 0"] by (simp_all add: snapshot_def option.map_ident comp_def)
  let ?c = "runChecks (order 1) ctx ?s"
  have c: "mget ?c = map_option (\<lambda>c. hcProbe c ctx) \<circ> mget m" "wf_map ?c"
    using fill_range [OF s(2), of "\<lambda>c. hcProbe c ctx" "order 1"] s(1) by (simp_all add: runChecks_def comp_def)
  show "reStatus (report order a b ctx m) = (if \<exists>name c. mget m name = Some c \<and> hcProbe c ctx = StatusFail then b else a)"
  proof -
    have "(\<exists>name. mget ?c name = Some StatusFail) \<longleftrightarrow> (\<exists>name c. mget m name = Some c \<and> hcProbe c ctx = StatusFail)"
      unfolding c(1) by auto
    then show ?thesis unfolding report_def newReport_def Let_def aggregate_eq [OF c(2)] by simp
  qed
  show "mget (reChecks (report order a b ctx m)) name = map_option (\<lambda>c. status_text (hcProbe c ctx)) (mget m name)"
    unfolding report_def newReport_def Let_def Report.select_convs fill_range(1) [OF c(2), of status_text "order 3"] c(1)
    by (simp add: option.map_comp comp_def)
qed

text \<open>Registered probes, in the order of their registration; a name that is registered again replaces its probe.\<close>

definition latest :: "'ctx health_check list \<Rightarrow> string \<Rightarrow> 'ctx health_check option" where
  "latest cs name = find (\<lambda>c. hcName c = name) (rev cs)"

lemma registered:
  "wf_map (hlLiveness h) \<Longrightarrow> wf_map (hlLiveness (fold RegisterLiveness cs h)) \<and>
     mget (hlLiveness (fold RegisterLiveness cs h)) name = (case latest cs name of Some c \<Rightarrow> Some c | None \<Rightarrow> mget (hlLiveness h) name)"
  "wf_map (hlReadiness h) \<Longrightarrow> wf_map (hlReadiness (fold RegisterReadiness cs h)) \<and>
     mget (hlReadiness (fold RegisterReadiness cs h)) name = (case latest cs name of Some c \<Rightarrow> Some c | None \<Rightarrow> mget (hlReadiness h) name)"
  by (induction cs rule: rev_induct) (auto simp: latest_def RegisterLiveness_def RegisterReadiness_def)

text \<open>
  The health endpoints say what the registered probes say, whatever the orders of the maps: every registered
  name appears with the outcome of the probe last registered under it, and nothing else; the process is unhealthy,
  or not ready, exactly when one of these probes fails, and a degraded one makes it neither.
\<close>

theorem health_reports_exact:
  fixes live ready :: "'ctx health_check list"
  defines "h \<equiv> fold RegisterReadiness ready (fold RegisterLiveness live NewHealth)"
  shows "reStatus (LivenessReport order ctx h) = (if \<exists>name c. latest live name = Some c \<and> hcProbe c ctx = StatusFail then ''unhealthy'' else ''healthy'') \<and>
    mget (reChecks (LivenessReport order ctx h)) name = map_option (\<lambda>c. status_text (hcProbe c ctx)) (latest live name) \<and>
    reStatus (ReadinessReport order ctx h) = (if \<exists>name c. latest ready name = Some c \<and> hcProbe c ctx = StatusFail then ''not_ready'' else ''ready'') \<and>
    mget (reChecks (ReadinessReport order ctx h)) name = map_option (\<lambda>c. status_text (hcProbe c ctx)) (latest ready name)"
proof -
  let ?l = "fold RegisterLiveness live NewHealth"
  have keep: "hlLiveness (fold RegisterReadiness ready x) = hlLiveness x" "hlReadiness (fold RegisterLiveness live y) = hlReadiness y" for x y :: "'ctx Health"
    by (induction ready arbitrary: x, simp_all add: RegisterReadiness_def) (induction live arbitrary: y, simp_all add: RegisterLiveness_def)
  have l: "wf_map (hlLiveness h)" "\<And>name. mget (hlLiveness h) name = latest live name"
    using registered(1) [of NewHealth live] by (auto simp: h_def keep NewHealth_def split: option.splits)
  have r: "wf_map (hlReadiness h)" "\<And>name. mget (hlReadiness h) name = latest ready name"
    using registered(2) [of ?l ready] by (auto simp: h_def keep NewHealth_def split: option.splits)
  show ?thesis by (simp add: LivenessReport_def ReadinessReport_def report_eq l r)
qed

end
