(* ===== verification/Watch_Streams.thy ===== *)
theory Watch_Streams
  imports Go_Effects
begin

text \<open>
  The server streams of the API (\<open>WatchPools\<close>, \<open>WatchRunners\<close>, \<open>WatchDashboard\<close>) share one loop: a snapshot is
  sent at once and then at every tick of a timer, until the request is cancelled, a snapshot cannot be taken or
  sending fails. The signals a stream receives are a list; a tick carries what others have done to the state
  since the snapshot before. A list that ends leaves the stream waiting.
\<close>

datatype 's watch_signal = Tick "'s \<Rightarrow> 's" | Cancelled
datatype 'e watch_end = Watching | Closed | SnapshotFailed 'e | SendFailed string

text \<open>The state of a stream: the messages sent and, once it has ended, how.\<close>

type_synonym ('m, 'e) watched = "'m list \<times> 'e watch_end"

definition sendSnapshot ::
  "(nat \<Rightarrow> string option) \<Rightarrow> ('s, 'e + 'm) state \<Rightarrow> 'm list \<Rightarrow> ('s, ('m, 'e) watched) state" where
  "sendSnapshot send snap sent = do {
     r \<leftarrow> snap;
     State_Monad.return
       (case r of
          Inl err \<Rightarrow> (sent, SnapshotFailed err)
        | Inr m \<Rightarrow> (case send (length sent) of Some err \<Rightarrow> (sent, SendFailed err) | None \<Rightarrow> (sent @ [m], Watching)))
   }"

fun watch_loop ::
  "(nat \<Rightarrow> string option) \<Rightarrow> ('s, 'e + 'm) state \<Rightarrow> 's watch_signal list \<Rightarrow> ('m, 'e) watched \<Rightarrow> ('s, ('m, 'e) watched) state" where
  "watch_loop send snap [] w = State_Monad.return w"
| "watch_loop send snap (sig # sigs) (sent, e) =
     (if e \<noteq> Watching then State_Monad.return (sent, e)
      else case sig of
        Cancelled \<Rightarrow> State_Monad.return (sent, Closed)
      | Tick others \<Rightarrow> do {
          modify others;
          w \<leftarrow> sendSnapshot send snap sent;
          watch_loop send snap sigs w
        })"

definition watch ::
  "(nat \<Rightarrow> string option) \<Rightarrow> ('s, 'e + 'm) state \<Rightarrow> 's watch_signal list \<Rightarrow> ('s, ('m, 'e) watched) state" where
  "watch send snap sigs = do { w \<leftarrow> sendSnapshot send snap []; watch_loop send snap sigs w }"

section \<open>What a stream shows\<close>

text \<open>The states in which snapshots are taken, if nothing fails.\<close>

fun seen_after :: "('s, 'a) state \<Rightarrow> 's watch_signal list \<Rightarrow> 's \<Rightarrow> 's list" where
  "seen_after snap [] s = []"
| "seen_after snap (Cancelled # sigs) s = []"
| "seen_after snap (Tick others # sigs) s = others s # seen_after snap sigs (exec snap (others s))"

definition seen :: "('s, 'a) state \<Rightarrow> 's watch_signal list \<Rightarrow> 's \<Rightarrow> 's list" where
  "seen snap sigs s = s # seen_after snap sigs (exec snap s)"

text \<open>
  The contract of a snapshot: what it shows is true of the state it is taken in. The messages of its stream then
  show, one by one, the states at the ticks; none is left out or sent twice, and a stream that ends early has
  shown the first of them.
\<close>

locale snapshot_stream =
  fixes snap :: "('s, 'e + 'm) state" and true_of :: "'s \<Rightarrow> 'm \<Rightarrow> bool"
  assumes snap_shows: "run_state snap s = (Inr m, s') \<Longrightarrow> true_of s m"
begin

lemma loop_ended: "e \<noteq> Watching \<Longrightarrow> watch_loop send snap sigs (sent, e) = State_Monad.return (sent, e)"
  by (cases sigs) simp_all

lemma loop_shows:
  assumes "run_state (watch_loop send snap sigs (sent, Watching)) s = ((sent', e'), s')"
  shows "\<exists>new. sent' = sent @ new \<and> length new \<le> length (seen_after snap sigs s) \<and>
    list_all2 true_of (take (length new) (seen_after snap sigs s)) new \<and>
    (e' \<in> {Watching, Closed} \<longrightarrow> length new = length (seen_after snap sigs s))"
  using assms
proof (induction sigs arbitrary: sent s)
  case (Cons sig sigs)
  show ?case
  proof (cases sig)
    case (Tick others)
    obtain r s1 where snap: "run_state snap (others s) = (r, s1)" by (cases "run_state snap (others s)")
    then have s1: "exec snap (others s) = s1" by (simp add: exec_def)
    show ?thesis
    proof (cases "\<exists>m. r = Inr m \<and> send (length sent) = None")
      case True
      then obtain m where m: "r = Inr m" "send (length sent) = None" by blast
      with Cons.prems Tick snap have "run_state (watch_loop send snap sigs (sent @ [m], Watching)) s1 = ((sent', e'), s')"
        by (simp add: sendSnapshot_def)
      from Cons.IH [OF this] obtain new where new: "sent' = sent @ m # new" "length new \<le> length (seen_after snap sigs s1)"
        "list_all2 true_of (take (length new) (seen_after snap sigs s1)) new"
        "e' \<in> {Watching, Closed} \<longrightarrow> length new = length (seen_after snap sigs s1)" by auto
      moreover have "true_of (others s) m" using snap m(1) by (auto intro: snap_shows)
      ultimately show ?thesis using Tick s1 by (intro exI [of _ "m # new"]) auto
    next
      case False
      with Cons.prems Tick snap show ?thesis
        by (intro exI [of _ "[]"]) (auto simp: sendSnapshot_def loop_ended split: sum.splits option.splits)
    qed
  next
    case Cancelled
    with Cons.prems show ?thesis by (intro exI [of _ "[]"]) simp
  qed
qed simp

lemma stream_shows:
  assumes "run_state (watch send snap sigs) s = ((sent, e), s')"
  shows "length sent \<le> length (seen snap sigs s) \<and> list_all2 true_of (take (length sent) (seen snap sigs s)) sent \<and>
    (e \<in> {Watching, Closed} \<longrightarrow> length sent = length (seen snap sigs s))"
proof -
  obtain r s1 where snap: "run_state snap s = (r, s1)" by (cases "run_state snap s")
  then have s1: "exec snap s = s1" by (simp add: exec_def)
  show ?thesis
  proof (cases "\<exists>m. r = Inr m \<and> send 0 = None")
    case True
    then obtain m where m: "r = Inr m" "send 0 = None" by blast
    with assms snap have "run_state (watch_loop send snap sigs ([m], Watching)) s1 = ((sent, e), s')"
      by (simp add: watch_def sendSnapshot_def)
    from loop_shows [OF this] m(1) snap show ?thesis by (auto simp: seen_def s1 intro: snap_shows)
  next
    case False
    with assms snap show ?thesis by (auto simp: watch_def sendSnapshot_def loop_ended split: sum.splits option.splits)
  qed
qed

text \<open>A stream whose snapshots and messages do not fail is open until it is cancelled.\<close>

lemma stream_open:
  assumes "\<And>s. \<exists>m s'. run_state snap s = (Inr m, s')" "\<And>n. send n = None"
  shows "snd (fst (run_state (watch send snap sigs) s)) = (if Cancelled \<in> set sigs then Closed else Watching)"
proof -
  have "snd (fst (run_state (watch_loop send snap sigs (sent, Watching)) s)) = (if Cancelled \<in> set sigs then Closed else Watching)" for sent s
  proof (induction sigs arbitrary: sent s)
    case (Cons sig sigs)
    then show ?case
    proof (cases sig)
      case (Tick others)
      obtain m s' where "run_state snap (others s) = (Inr m, s')" using assms(1) by blast
      with Tick Cons show ?thesis by (simp add: sendSnapshot_def assms(2))
    qed simp
  qed simp
  moreover obtain m s' where "run_state snap s = (Inr m, s')" using assms(1) by blast
  ultimately show ?thesis by (simp add: watch_def sendSnapshot_def assms(2))
qed

end

end
