(* ===== verification/Pool_Runners.thy ===== *)
theory Pool_Runners
  imports Providers Watch_Streams Pool_Props System Example_Env
begin

text \<open>
  The operations of \<open>src/internal/server/pool.go\<close> that reach beyond the tables: listing, watching and
  terminating runners through the pool controller, and the discovery of targets through the client of a forge.
  Behind the interfaces \<open>RunnerManager\<close> and \<open>PoolStatsProvider\<close> of the service stands the controller of
  \<open>Controller\<close> itself, so that a request acts on the database and the controller together. Texts of
  errors are left out; a snapshot of a stream is one step.
\<close>

section \<open>The service and what it is wired to\<close>

record api_state =
  asConfig :: config_db
  asController :: controller

record DiscoveryResult =
  drTargets :: "DiscoveredTarget list"
  drInstallURL :: string
  drInstallations :: "AppInstallation list"

text \<open>
  \<open>aeManaged\<close> and \<open>aeCounted\<close> say whether the runner manager and the statistics provider are set. The clock of
  \<open>time.Since\<close> is read with the number of a call; the seconds of a duration, which are a floating-point number,
  are given as they are rounded, and so is the text of a time.
\<close>

record api_env =
  aeDb :: db_env
  aeCrypto :: crypto_env
  aeDeps :: deps
  aeForge :: forge_env
  aeManaged :: bool
  aeCounted :: bool
  aeClock :: "nat \<Rightarrow> gotime"
  aeSeconds :: "duration \<Rightarrow> int"
  aeFormat :: "gotime \<Rightarrow> string"
  aeDiscoverer :: "(decrypted_profile \<Rightarrow> string \<Rightarrow> forge_error + DiscoveryResult) option"

datatype api_error =
  Refused connect_error
| Terminating go_error
| ProfileNotFound
| FetchingProfile profile_error
| Discovering forge_error

definition on_config :: "(config_db, 'a) state \<Rightarrow> (api_state, 'a) state" where
  "on_config m = do {
     x \<leftarrow> gets asConfig;
     let (a, x') = run_state m x;
     modify (\<lambda>s. s\<lparr>asConfig := x'\<rparr>);
     State_Monad.return a
   }"

definition on_tables :: "(pool_tables, 'a) state \<Rightarrow> (api_state, 'a) state" where
  "on_tables m = on_config (cb_tables m)"

definition on_controller :: "(controller, 'a) state \<Rightarrow> (api_state, 'a) state" where
  "on_controller m = do {
     x \<leftarrow> gets asController;
     let (a, x') = run_state m x;
     modify (\<lambda>s. s\<lparr>asController := x'\<rparr>);
     State_Monad.return a
   }"

definition stats_of :: "api_env \<Rightarrow> controller \<Rightarrow> (string \<Rightarrow> int \<times> int) option" where
  "stats_of env c = (if aeCounted env then Some (\<lambda>name. PoolStats (aeDeps env) name c) else None)"

definition reload_controller :: "api_env \<Rightarrow> (api_state, unit) state" where
  "reload_controller env = (if aeCounted env then do { r \<leftarrow> on_controller (Reload (aeDeps env)); skip } else skip)"

section \<open>Runners\<close>

record RunnerInstance =
  riContainerId :: string
  riInstanceName :: string
  riInstancePool :: string
  riStatus :: string
  riAddress :: string
  riUptimeSeconds :: int
  riSpawned :: string
  riCpuLimit :: string
  riMemoryLimit :: string

definition uptime_of :: "api_env \<Rightarrow> RunnerInstanceInfo \<Rightarrow> (controller, int) state" where
  "uptime_of env r =
     (if IsZero (riSpawnedAt r) then State_Monad.return 0
      else do {
        n \<leftarrow> next_tick;
        let uptime = aeSeconds env (time_sub (aeClock env n) (riSpawnedAt r));
        State_Monad.return (if uptime < 0 then 0 else uptime)
      })"

fun instances :: "api_env \<Rightarrow> RunnerPool \<Rightarrow> RunnerInstanceInfo list \<Rightarrow> (controller, RunnerInstance list) state" where
  "instances env p [] = State_Monad.return []"
| "instances env p (r # rs) = do {
     uptime \<leftarrow> uptime_of env r;
     rest \<leftarrow> instances env p rs;
     State_Monad.return
       (\<lparr>riContainerId = riID r, riInstanceName = riName r, riInstancePool = riPoolName r, riStatus = instance_status r,
         riAddress = riIPAddress r, riUptimeSeconds = uptime, riSpawned = aeFormat env (riSpawnedAt r),
         riCpuLimit = null_string (pCpuLimit p), riMemoryLimit = null_string (pMemoryLimit p)\<rparr> # rest)
   }"

definition getRunnerInstances :: "api_env \<Rightarrow> RunnerPool \<Rightarrow> (api_state, RunnerInstance list) state" where
  "getRunnerInstances env p =
     (if aeManaged env
      then on_controller (do { rawRunners \<leftarrow> PoolRunners (aeDeps env) (pName p); instances env p rawRunners })
      else State_Monad.return [])"

text \<open>The pool a request names.\<close>

definition named_pool :: "api_env \<Rightarrow> int \<Rightarrow> (api_state, api_error + RunnerPool) state" where
  "named_pool env i = do {
     r \<leftarrow> on_tables (GetRunnerPoolById (aeDb env) i);
     State_Monad.return (case r of Inl err \<Rightarrow> Inl (Refused (CodeNotFound err)) | Inr p \<Rightarrow> Inr p)
   }"

definition ListRunners :: "api_env \<Rightarrow> int \<Rightarrow> (api_state, api_error + RunnerInstance list) state" where
  "ListRunners env poolID =
     (if poolID \<le> 0 then State_Monad.return (Inl (Refused (InvalidArgument ''pool_id'')))
      else do {
        r \<leftarrow> named_pool env poolID;
        case r of
          Inl err \<Rightarrow> State_Monad.return (Inl err)
        | Inr p \<Rightarrow> do { runners \<leftarrow> getRunnerInstances env p; State_Monad.return (Inr runners) }
      })"

definition terminate_managed :: "api_env \<Rightarrow> string \<Rightarrow> string \<Rightarrow> (api_state, go_error option) state" where
  "terminate_managed env poolName containerID =
     (if aeManaged env then on_controller (Controller.TerminateRunner (aeDeps env) poolName containerID)
      else State_Monad.return None)"

definition TerminateRunner_api :: "api_env \<Rightarrow> int option \<Rightarrow> int \<Rightarrow> string \<Rightarrow> (api_state, api_error + bool) state" where
  "TerminateRunner_api env user poolID containerId =
     (if poolID \<le> 0 then State_Monad.return (Inl (Refused (InvalidArgument ''pool_id'')))
      else let containerID = TrimSpace containerId in
        if containerID = [] then State_Monad.return (Inl (Refused (InvalidArgument ''container_id'')))
        else do {
          r \<leftarrow> named_pool env poolID;
          case r of
            Inl err \<Rightarrow> State_Monad.return (Inl err)
          | Inr p \<Rightarrow> do {
              e \<leftarrow> terminate_managed env (pName p) containerID;
              case e of
                Some err \<Rightarrow> State_Monad.return (Inl (Terminating err))
              | None \<Rightarrow> do {
                  on_tables (RecordAuditLogWithUser (aeDb env) user ''runner.terminate'' ''runner_container'' (Some (pID p))
                    [(''container_id'', DString containerID), (''pool_name'', DString (pName p)), (''pool_id'', DInt (pID p))]);
                  reload_controller env;
                  State_Monad.return (Inr True)
                }
            }
        })"

section \<open>Streams\<close>

definition pools_snapshot :: "api_env \<Rightarrow> (api_state, api_error + proto_pool list) state" where
  "pools_snapshot env = do {
     c \<leftarrow> gets asController;
     r \<leftarrow> on_tables (ListPools (aeDb env) (stats_of env c));
     State_Monad.return (case r of Inl err \<Rightarrow> Inl (Refused err) | Inr ps \<Rightarrow> Inr ps)
   }"

definition WatchPools ::
  "api_env \<Rightarrow> (nat \<Rightarrow> string option) \<Rightarrow> api_state watch_signal list \<Rightarrow> (api_state, (proto_pool list, api_error) watched) state" where
  "WatchPools env send sigs = watch send (pools_snapshot env) sigs"

definition runners_snapshot :: "api_env \<Rightarrow> RunnerPool \<Rightarrow> (api_state, api_error + RunnerInstance list) state" where
  "runners_snapshot env p = do { runners \<leftarrow> getRunnerInstances env p; State_Monad.return (Inr runners) }"

definition WatchRunners ::
  "api_env \<Rightarrow> (nat \<Rightarrow> string option) \<Rightarrow> int \<Rightarrow> api_state watch_signal list \<Rightarrow>
   (api_state, (RunnerInstance list, api_error) watched) state" where
  "WatchRunners env send poolID sigs =
     (if poolID \<le> 0 then State_Monad.return ([], SnapshotFailed (Refused (InvalidArgument ''pool_id'')))
      else do {
        r \<leftarrow> named_pool env poolID;
        case r of
          Inl err \<Rightarrow> State_Monad.return ([], SnapshotFailed err)
        | Inr p \<Rightarrow> watch send (runners_snapshot env p) sigs
      })"

section \<open>Discovery\<close>

text \<open>The methods of a forge client that discovery uses; a client of GitHub also knows its application.\<close>

fun discover_scope :: "forge_env \<Rightarrow> string \<Rightarrow> git_client \<Rightarrow> (forge_error + DiscoveredTarget list) \<times> git_client" where
  "discover_scope fe scope (GitHubClient c) =
     apsnd GitHubClient (run_state (if scope = ''org'' then DiscoverOrganizations_github fe else DiscoverRepositories_github fe) c)"
| "discover_scope fe scope (GiteaClient c) =
     apsnd GiteaClient (run_state (if scope = ''org'' then DiscoverOrganizations_gitea fe else DiscoverRepositories_gitea fe) c)"
| "discover_scope fe scope (ForgejoClient c) =
     apsnd ForgejoClient (run_state (if scope = ''org'' then DiscoverOrganizations_forgejo fe else DiscoverRepositories_forgejo fe) c)"

definition app_metadata :: "forge_env \<Rightarrow> git_client \<Rightarrow> string \<times> AppInstallation list" where
  "app_metadata fe client =
     (case client of
        GitHubClient c \<Rightarrow>
          (case fst (run_state (GetAppMetadata fe) c) of (url, Inr insts) \<Rightarrow> (url, insts) | (url, Inl _) \<Rightarrow> ([], []))
      | _ \<Rightarrow> ([], []))"

definition defaultDiscover :: "forge_env \<Rightarrow> decrypted_profile \<Rightarrow> string \<Rightarrow> forge_error + DiscoveryResult" where
  "defaultDiscover fe profile scope =
     (case Build DefaultRegistry fe profile of
        Inl err \<Rightarrow> Inl err
      | Inr prov \<Rightarrow>
          (case discover_scope fe scope prov of
             (Inl err, prov') \<Rightarrow> Inl err
           | (Inr targets, prov') \<Rightarrow>
               (case app_metadata fe prov' of (url, insts) \<Rightarrow>
                  Inr \<lparr>drTargets = targets, drInstallURL = url, drInstallations = insts\<rparr>)))"

definition DiscoverTargets :: "api_env \<Rightarrow> int \<Rightarrow> string \<Rightarrow> (config_db, api_error + DiscoveryResult) state" where
  "DiscoverTargets env profileID rawScope =
     (if profileID \<le> 0 then State_Monad.return (Inl (Refused (InvalidArgument ''auth_profile_id'')))
      else let scope = (if lower_trim rawScope = [] then ''repo'' else lower_trim rawScope) in
        if scope \<noteq> ''repo'' \<and> scope \<noteq> ''org'' then State_Monad.return (Inl (Refused (InvalidArgument ''scope'')))
        else do {
          r \<leftarrow> GetDecryptedAuthProfileById (aeDb env) (aeCrypto env) profileID;
          State_Monad.return (case r of
            Inl err \<Rightarrow> Inl (if err = Database ErrNoRows then ProfileNotFound else FetchingProfile err)
          | Inr profile \<Rightarrow>
              (case (case aeDiscoverer env of None \<Rightarrow> defaultDiscover (aeForge env) | Some f \<Rightarrow> f) profile scope of
                 Inl err \<Rightarrow> Inl (Discovering err)
               | Inr result \<Rightarrow> Inr result))
        })"

end
