(* ===== verification/Pool_Runner_Props.thy ===== *)
theory Pool_Runner_Props
  imports Pool_Runners
begin

text \<open>
  A termination by hand acts on the container asked for and is recorded, with the controller sound afterwards;
  the streams of pools and runners show the controller and the tables as they are.
\<close>

section \<open>The two halves of the state\<close>

abbreviation tables_of :: "api_state \<Rightarrow> pool_tables" where
  "tables_of s \<equiv> cbTables (asConfig s)"

definition put_tables :: "pool_tables \<Rightarrow> api_state \<Rightarrow> api_state" where
  "put_tables t s = s\<lparr>asConfig := (asConfig s)\<lparr>cbTables := t\<rparr>\<rparr>"

lemma put_tables [simp]: "tables_of (put_tables t s) = t" "asController (put_tables t s) = asController s"
  "put_tables t (put_tables t' s) = put_tables t s"
  by (simp_all add: put_tables_def)

lemma run_on_tables [run_simps]:
  "run_state (on_tables m) s = (case run_state m (tables_of s) of (a, t) \<Rightarrow> (a, put_tables t s))"
  by (simp add: on_tables_def on_config_def cb_tables_def put_tables_def Let_def split: prod.splits)

lemma run_on_controller [run_simps]:
  "run_state (on_controller m) s = (case run_state m (asController s) of (a, c) \<Rightarrow> (a, s\<lparr>asController := c\<rparr>))"
  by (simp add: on_controller_def Let_def split: prod.splits)

lemma keeps_controller [keeps]: "preserves I m \<Longrightarrow> preserves (\<lambda>s. I (asController s)) (on_controller m)"
  "preserves (\<lambda>s. I (asController s)) (on_tables m')"
  by (auto simp: preserves_def hoare_def run_simps split: prod.splits)

lemma keeps_tables [keeps]: "preserves I m \<Longrightarrow> preserves (\<lambda>s. I (tables_of s)) (on_tables m)"
  "preserves (\<lambda>s. I (tables_of s)) (on_controller m')"
  by (auto simp: preserves_def hoare_def run_simps split: prod.splits)

lemma run_GetRunnerPoolById [run_simps]:
  "run_state (GetRunnerPoolById env i) t =
     ((case dbFail env (tTick t) of Some err \<Rightarrow> Inl (DbFailure err)
       | None \<Rightarrow> (case find_pool i t of None \<Rightarrow> Inl ErrNoRows | Some p \<Rightarrow> Inr p)), t\<lparr>tTick := Suc (tTick t)\<rparr>)"
  by (simp add: GetRunnerPoolById_def statement_def find_pool_def split: option.split)

lemma run_audit [run_simps]:
  "run_state (RecordAuditLogWithUser env user action rt ri ds) t =
     ((), t\<lparr>tTick := Suc (tTick t), tAudit := tAudit t @ (if dbFail env (tTick t) = None then
        [\<lparr>alUserID = positive_id user, alAction = action, alResourceType = (if rt \<noteq> [] then Some rt else None),
          alResourceID = positive_id ri, alDetails = ds\<rparr>] else [])\<rparr>)"
  by (simp add: RecordAuditLogWithUser_def CreateAuditLog_def statement_def split: option.split)

lemma run_named_pool [run_simps]:
  "run_state (named_pool env i) s =
     ((case dbFail (aeDb env) (tTick (tables_of s)) of Some err \<Rightarrow> Inl (Refused (CodeNotFound (DbFailure err)))
       | None \<Rightarrow> (case find_pool i (tables_of s) of None \<Rightarrow> Inl (Refused (CodeNotFound ErrNoRows)) | Some p \<Rightarrow> Inr p)),
      put_tables ((tables_of s)\<lparr>tTick := Suc (tTick (tables_of s))\<rparr>) s)"
  by (simp add: named_pool_def run_simps split: option.split)

section \<open>Termination by hand\<close>

text \<open>Every operation on runners keeps the controller sound and the tables consistent.\<close>

lemma GetRunnerPoolById_keeps [keeps]: "preserves tables_ok (GetRunnerPoolById env i)"
  by (auto simp: preserves_def hoare_def run_simps tables_ok_frame)

lemma quiet_uptime [quiet_rules]: "quiet (uptime_of env r)"
  unfolding uptime_of_def Let_def by (intro quiet_rules)

lemma quiet_instances [quiet_rules]: "quiet (instances env p rs)"
  by (induction rs) (auto intro!: quiet_rules)

lemma quiet_PoolRunners [quiet_rules]: "quiet (PoolRunners d q)"
  unfolding PoolRunners_def tracked_pool_runners_def by (intro quiet_rules)

lemma sound_quiet: "quiet m \<Longrightarrow> preserves (sound d) m"
  unfolding preserves_def by (rule hoare_quiet) (simp_all add: sound_def)

lemma getRunnerInstances_keeps [keeps]:
  "preserves (\<lambda>s. sound d (asController s)) (getRunnerInstances env p)"
  unfolding getRunnerInstances_def by (intro keeps sound_quiet quiet_rules)

lemma sound_TerminateRunner [keeps]: "preserves (sound d) (Controller.TerminateRunner d q i)"
  by (rule no_panic.TerminateRunner_I)

lemma sound_Reload [keeps]: "preserves (sound d) (Reload d)"
  unfolding Reload_def by (rule no_panic.Reconcile_I)

lemma TerminateRunner_api_keeps:
  "preserves (\<lambda>s. sound (aeDeps env) (asController s)) (TerminateRunner_api env user i cid)"
  "preserves (\<lambda>s. tables_ok (tables_of s)) (TerminateRunner_api env user i cid)"
  unfolding TerminateRunner_api_def named_pool_def terminate_managed_def reload_controller_def Let_def
  by (intro keeps)+

text \<open>The controller right after it has stopped a container, and the audit row of a termination.\<close>

definition stopped :: "string \<Rightarrow> string \<Rightarrow> controller \<Rightarrow> controller" where
  "stopped q i c = c\<lparr>tick := Suc (tick c), trace := trace c @ [Terminated i], tracked := UntrackRunner q i (tracked c)\<rparr>"

definition terminate_row :: "int option \<Rightarrow> RunnerPool \<Rightarrow> string \<Rightarrow> audit_row" where
  "terminate_row user p i =
     \<lparr>alUserID = positive_id user, alAction = ''runner.terminate'', alResourceType = Some ''runner_container'',
      alResourceID = positive_id (Some (pID p)),
      alDetails = [(''container_id'', DString i), (''pool_name'', DString (pName p)), (''pool_id'', DInt (pID p))]\<rparr>"

lemma run_engine_terminate:
  assumes "engine d = Some e" "reconciler d \<noteq> None"
  shows "run_state (Controller.TerminateRunner d q i) c =
    (case cpTerminateRunner e (tick c) i of
       Some err \<Rightarrow> (Some (EngineError err), c\<lparr>tick := Suc (tick c), trace := trace c @ [Terminated i]\<rparr>)
     | None \<Rightarrow> (None, stopped q i c))"
  using assms
  by (auto simp: Controller.TerminateRunner_def engine_terminate_def next_tick_def emit_def untrack_def stopped_def split: option.split)


text \<open>A request for a pool that exists succeeds when the engine stops the container.\<close>

lemma terminate_succeeds:
  assumes "aeManaged env" "engine (aeDeps env) = Some e" "reconciler (aeDeps env) \<noteq> None"
    and "0 < poolID" "TrimSpace cid \<noteq> []" "reliable (aeDb env)" "find_pool poolID (tables_of s) = Some p"
    and "cpTerminateRunner e (tick (asController s)) (TrimSpace cid) = None"
  shows "fst (run_state (TerminateRunner_api env user poolID cid) s) = Inr True"
  using assms run_engine_terminate [OF assms(2,3)]
  by (auto simp: TerminateRunner_api_def terminate_managed_def reload_controller_def run_simps Let_def reliable_def split: if_splits prod.split)

definition ex_other :: RunnerPool where "ex_other = ex_pool\<lparr>pID := 2, pName := ''other''\<rparr>"

definition ex_api_env :: api_env where
  "ex_api_env = \<lparr>aeDb = ex_env, aeCrypto = \<lparr>ceEncryptor = None, ceRand = (\<lambda>n. Inl [])\<rparr>, aeDeps = ex_deps,
     aeForge = \<lparr>fgDo = (\<lambda>n r. Inl []), fgNow = (\<lambda>n. 0), fgParseTime = (\<lambda>t. None), fgParseKey = (\<lambda>k. None),
       fgSign = (\<lambda>k t. Inl []), fgGetenv = (\<lambda>v. [])\<rparr>,
     aeManaged = True, aeCounted = True, aeClock = (\<lambda>n. Second * 60 + 1), aeSeconds = (\<lambda>t. t div Second), aeFormat = (\<lambda>t. []),
     aeDiscoverer = None\<rparr>"

definition ex_api :: api_state where
  "ex_api = \<lparr>asConfig = \<lparr>cbTables = ex_tables\<lparr>tPools := [ex_pool, ex_other], tNextPool := 3\<rparr>, cbProfiles = [], cbSettings = [],
       cbNextProfile = 1, cbAdmins = 1, cbTick = 0\<rparr>, asController = ex_ctl\<rparr>"

lemmas ex_api_simps = ex_api_env_def ex_api_def ex_tables_def ex_other_def ex_env_def

lemma ex_api_ok: "sound ex_deps ex_ctl" "tables_ok (tables_of ex_api)" "engine ex_deps = Some ex_engine" "reconciler ex_deps \<noteq> None"
  by (simp_all add: sound_def wired_def ex_simps ex_api_simps tables_ok_def pool_checked_def wf_tracked_def wf_pool_def)

lemma ex_trimmed: "TrimSpace '' a '' = ''a''" "TrimSpace ''a'' = ''a''"
  by code_simp+

lemma ex_pools: "find_pool 1 (tables_of ex_api) = Some ex_pool" "find_pool 2 (tables_of ex_api) = Some ex_other"
  by (simp_all add: ex_api_simps ex_simps find_pool_def)

lemma ex_api_wired: "aeManaged ex_api_env" "aeCounted ex_api_env" "aeDeps ex_api_env = ex_deps" "asController ex_api = ex_ctl"
  "reliable (aeDb ex_api_env)" "tAudit (tables_of ex_api) = []" "cpTerminateRunner ex_engine n i = None"
  by (simp_all add: ex_api_env_def ex_api_def ex_tables_def reliable_def ex_env_def ex_engine_def)

text \<open>Terminating a container on behalf of either pool succeeds.\<close>

lemma ex_terminates:
  assumes "0 < poolID" "find_pool poolID (tables_of ex_api) = Some p" "TrimSpace cid = ''a''"
  shows "fst (run_state (TerminateRunner_api ex_api_env (Some 7) poolID cid) ex_api) = Inr True"
  by (rule terminate_succeeds [of ex_api_env ex_engine poolID cid ex_api p "Some 7"]) (use assms ex_api_wired ex_api_ok in simp_all)


text \<open>
  The container need not be one of the pool that is named: the service and the engine look at its id only. The
  container of another pool is stopped, the wrong pool is recorded, and it is still tracked as running when the controller
  reconciles.
\<close>

theorem terminate_ignores_pool:
  "fst (run_state (TerminateRunner_api ex_api_env (Some 7) 2 ''a'') ex_api) = Inr True \<and>
   tracked (stopped (pName ex_other) ''a'' ex_ctl) = tracked ex_ctl \<and> lookup (tracked ex_ctl) ''ci'' ''a'' = Some (ex_runner ''a'' True)"
  using ex_terminates [OF _ ex_pools(2) ex_trimmed(2)]
  by (simp add: stopped_def ex_other_def ex_simps UntrackRunner_def lookup_def pool_of_def)

section \<open>Streams\<close>

text \<open>What a message says of a runner and of a pool, and what there is to say.\<close>

definition runner_line :: "RunnerInstance \<Rightarrow> string \<times> string \<times> string \<times> string" where
  "runner_line i = (riContainerId i, riInstanceName i, riStatus i, riAddress i)"

definition tracked_line :: "RunnerStatus \<Rightarrow> string \<times> string \<times> string \<times> string" where
  "tracked_line r = (rsID r, rsName r,
     if rsState r \<noteq> ''running'' then rsState r else if rsIsBusy r then ''busy'' else ''idle'', rsIPAddress r)"

definition runners_true :: "api_env \<Rightarrow> RunnerPool \<Rightarrow> api_state \<Rightarrow> RunnerInstance list \<Rightarrow> bool" where
  "runners_true env p s m \<longleftrightarrow>
     mset (map runner_line m) =
       (if aeManaged env \<and> reconciler (aeDeps env) \<noteq> None
        then image_mset tracked_line (mset (map snd (pool_of (tracked (asController s)) (pName p)))) else {#}) \<and>
     (\<forall>i \<in> set m. 0 \<le> riUptimeSeconds i)"

definition pools_true :: "api_env \<Rightarrow> api_state \<Rightarrow> proto_pool list \<Rightarrow> bool" where
  "pools_true env s m \<longleftrightarrow>
     map (\<lambda>x. (ppId x, ppName x, ppActiveRunners x, ppIdleRunners x)) m =
     map (\<lambda>p. (pID p, pName p, if aeCounted env then PoolStats (aeDeps env) (pName p) (asController s) else (0, 0)))
       (sort_key pName (tPools (tables_of s)))"

lemma instances_lines:
  assumes "run_state (instances env p rs) c = (m, c')"
  shows "map runner_line m = map (\<lambda>r. (riID r, riName r, instance_status r, riIPAddress r)) rs \<and> (\<forall>i \<in> set m. 0 \<le> riUptimeSeconds i)"
  using assms
proof (induction rs arbitrary: m c)
  case (Cons r rs)
  obtain u c1 where u: "run_state (uptime_of env r) c = (u, c1)" by (cases "run_state (uptime_of env r) c")
  then have "0 \<le> u" by (auto simp: uptime_of_def next_tick_def Let_def split: if_splits)
  with Cons u show ?case by (auto simp: runner_line_def split: prod.splits)
qed simp

lemma PoolRunners_lines:
  assumes "run_state (PoolRunners d q) c = (rs, c')"
  shows "mset (map (\<lambda>r. (riID r, riName r, instance_status r, riIPAddress r)) rs) =
    (if reconciler d \<noteq> None then image_mset tracked_line (mset (map snd (pool_of (tracked c) q))) else {#})"
proof (cases "reconciler d = None")
  case True
  with assms show ?thesis by (simp add: PoolRunners_def)
next
  case False
  with assms obtain ord where rs: "rs = map (\<lambda>s. \<lparr>riID = rsID s, riName = rsName s, riPoolName = rsPoolName s, riState = rsState s,
      riIPAddress = rsIPAddress s, riSpawnedAt = rsSpawnedAt s, riIsBusy = rsIsBusy s\<rparr>) (TrackedPoolRunners ord q (tracked c))"
    by (auto simp: PoolRunners_def tracked_pool_runners_def next_tick_def)
  have "mset (TrackedPoolRunners ord q (tracked c)) = mset (map snd (pool_of (tracked c) q))"
    by (simp add: TrackedPoolRunners_def pool_of_def split: option.split)
  moreover have "map (\<lambda>r. (riID r, riName r, instance_status r, riIPAddress r)) rs = map tracked_line (TrackedPoolRunners ord q (tracked c))"
    unfolding rs by (simp add: tracked_line_def instance_status_def)
  ultimately show ?thesis using False by (simp only: mset_map if_True not_False_eq_True)
qed

interpretation runner_stream: snapshot_stream "runners_snapshot env p" "runners_true env p" for env p
proof
  fix s m s'
  assume run: "run_state (runners_snapshot env p) s = (Inr m, s')"
  show "runners_true env p s m"
  proof (cases "aeManaged env")
    case True
    with run obtain rs c c' where rs: "run_state (PoolRunners (aeDeps env) (pName p)) (asController s) = (rs, c)"
      and m: "run_state (instances env p rs) c = (m, c')"
      by (auto simp: runners_snapshot_def getRunnerInstances_def run_simps split: prod.splits)
    from instances_lines [OF m] PoolRunners_lines [OF rs] True show ?thesis unfolding runners_true_def by presburger
  qed (use run in \<open>simp add: runners_snapshot_def getRunnerInstances_def runners_true_def\<close>)
qed

lemma toProto_line:
  "(\<lambda>x. (ppId x, ppName x, ppActiveRunners x, ppIdleRunners x)) (fst (run_state (toProto env stats p) t)) =
     (pID p, pName p, case stats of None \<Rightarrow> (0, 0) | Some f \<Rightarrow> f (pName p))"
  by (auto simp: toProto_def ConvertDBPoolToProto_def Let_def split: prod.splits sum.splits option.splits)

lemma protos_lines:
  "map (\<lambda>x. (ppId x, ppName x, ppActiveRunners x, ppIdleRunners x)) (fst (run_state (protos env stats ps) t)) =
     map (\<lambda>p. (pID p, pName p, case stats of None \<Rightarrow> (0, 0) | Some f \<Rightarrow> f (pName p))) ps"
proof (induction ps arbitrary: t)
  case (Cons p ps)
  obtain x t1 where x: "run_state (toProto env stats p) t = (x, t1)" by (cases "run_state (toProto env stats p) t")
  obtain xs t2 where xs: "run_state (protos env stats ps) t1 = (xs, t2)" by (cases "run_state (protos env stats ps) t1")
  from toProto_line [of env stats p t] Cons [of t1] x xs show ?case by simp
qed simp

interpretation pool_stream: snapshot_stream "pools_snapshot env" "pools_true env" for env
proof
  fix s m s'
  assume "run_state (pools_snapshot env) s = (Inr m, s')"
  then obtain t t' where "run_state (protos (aeDb env) (stats_of env (asController s)) (sort_key pName (tPools (tables_of s)))) t = (m, t')"
    by (auto simp: pools_snapshot_def ListPools_def ListRunnerPools_def statement_def run_simps Let_def split: prod.splits sum.splits option.splits)
  with protos_lines [of "aeDb env" "stats_of env (asController s)" "sort_key pName (tPools (tables_of s))" t]
  show "pools_true env s m" by (simp add: pools_true_def stats_of_def)
qed

end
