(* ===== verification/Job_History.thy ===== *)
theory Job_History
  imports Pool_Runners
begin

text \<open>
  The table of finished jobs and its queries (\<open>src/internal/db/job_history.sql.go\<close>, \<open>RecordJobTimeout\<close> of
  \<open>db.go\<close>), beside the state the pool service works on: a statement fails as a whole or runs, like those of
  \<open>Pool_Store\<close>. How the database compares and reads the texts in which it keeps times, and the averages it
  computes in floating point, are arguments; of floating-point numbers only zero, the order, products and quotients are
  used, without any law.
\<close>

section \<open>The table\<close>

record JobHistory =
  jhrID :: int
  jhrPoolID :: int
  jhrRunnerName :: string
  jhrStatus :: string
  jhrQueuedAt :: "gotime option"
  jhrStartedAt :: "gotime option"
  jhrCompletedAt :: "gotime option"
  jhrLogRetentionPath :: "string option"
  jhrCreatedAt :: gotime

record dash_state =
  dsApi :: api_state
  dsJobs :: "JobHistory list"
  dsNextJob :: int

text \<open>A value of a column whose type the generated code does not know.\<close>

datatype 'f any_value = AnyFloat64 'f | AnyFloat32 'f | AnyInt64 int | AnyInt int | AnyBytes string | AnyString string | AnyNil

text \<open>
  \<open>created_at >= ?\<close>, \<open>strftime\<close> with the format of seconds (the null of a text it cannot read is \<open>None\<close>) and with that of
  an hour, and \<open>AVG\<close> over the values that are not null; the clock, the environment variables, and what Go says of the host.
\<close>

record 'f job_env =
  jeApi :: api_env
  jeSince :: "gotime \<Rightarrow> gotime \<Rightarrow> bool"
  jeEpoch :: "gotime \<Rightarrow> int option"
  jeHour :: "gotime \<Rightarrow> string"
  jeAvg :: "int list \<Rightarrow> 'f"
  jeFloat :: "int \<Rightarrow> 'f"
  jeSeconds :: "duration \<Rightarrow> 'f"
  jeScanFloat :: "string \<Rightarrow> 'f"
  jeScanInt :: "string \<Rightarrow> int"
  jePrint :: "'f any_value \<Rightarrow> string"
  jeTruncate :: "'f \<Rightarrow> int"
  jeNow :: "nat \<Rightarrow> gotime"
  jeGetenv :: "string \<Rightarrow> string"
  jeGo :: "string \<times> string"

abbreviation tables_in :: "dash_state \<Rightarrow> pool_tables" where
  "tables_in s \<equiv> cbTables (asConfig (dsApi s))"

definition on_api :: "(api_state, 'a) state \<Rightarrow> (dash_state, 'a) state" where
  "on_api m = do {
     x \<leftarrow> gets dsApi;
     let (a, x') = run_state m x;
     modify (\<lambda>s. s\<lparr>dsApi := x'\<rparr>);
     State_Monad.return a
   }"

definition job_statement ::
  "'f job_env \<Rightarrow> (gotime \<Rightarrow> dash_state \<Rightarrow> (db_error + 'a) \<times> dash_state) \<Rightarrow> (dash_state, db_error + 'a) state" where
  "job_statement env f = do {
     n \<leftarrow> on_api (on_tables (do { n \<leftarrow> gets tTick; modify (\<lambda>t. t\<lparr>tTick := Suc n\<rparr>); State_Monad.return n }));
     case dbFail (aeDb (jeApi env)) n of
       Some err \<Rightarrow> State_Monad.return (Inl (DbFailure err))
     | None \<Rightarrow> do {
         s \<leftarrow> gets (\<lambda>s. s);
         let (r, s') = f (dbClock (aeDb (jeApi env)) n) s;
         (case r of Inl _ \<Rightarrow> skip | Inr _ \<Rightarrow> modify (\<lambda>_. s'));
         State_Monad.return r
       }
   }"

definition job_query :: "'f job_env \<Rightarrow> (JobHistory list \<Rightarrow> 'a) \<Rightarrow> (dash_state, db_error + 'a) state" where
  "job_query env f = job_statement env (\<lambda>now s. (Inr (f (dsJobs s)), s))"

section \<open>Writing\<close>

text \<open>\<open>CURRENT_TIMESTAMP\<close> has no fraction of a second.\<close>

definition current_timestamp :: "gotime \<Rightarrow> gotime" where
  "current_timestamp now = now div Second * Second"

definition valid_job_status :: "string \<Rightarrow> bool" where
  "valid_job_status st \<longleftrightarrow> st \<in> {''success'', ''failure'', ''cancelled'', ''timeout''}"

definition CreateJobHistory :: "'f job_env \<Rightarrow> JobHistory \<Rightarrow> (dash_state, db_error + JobHistory) state" where
  "CreateJobHistory env arg = job_statement env (\<lambda>now s.
     if \<not> valid_job_status (jhrStatus arg) then (Inl CheckConstraint, s)
     else if find_pool (jhrPoolID arg) (tables_in s) = None then (Inl ForeignKey, s)
     else (let row = arg\<lparr>jhrID := dsNextJob s, jhrCreatedAt := current_timestamp now\<rparr>
           in (Inr row, s\<lparr>dsJobs := dsJobs s @ [row], dsNextJob := dsNextJob s + 1\<rparr>)))"

definition RecordJobTimeout ::
  "'f job_env \<Rightarrow> int \<Rightarrow> string \<Rightarrow> string \<Rightarrow> gotime \<Rightarrow> gotime \<Rightarrow> (dash_state, db_error option) state" where
  "RecordJobTimeout env poolID runnerName logPath startedAt completedAt = do {
     r \<leftarrow> CreateJobHistory env \<lparr>jhrID = 0, jhrPoolID = poolID, jhrRunnerName = runnerName, jhrStatus = ''timeout'', jhrQueuedAt = None,
       jhrStartedAt = (if IsZero startedAt then None else Some startedAt),
       jhrCompletedAt = (if IsZero completedAt then None else Some completedAt),
       jhrLogRetentionPath = (if logPath \<noteq> [] then Some logPath else None), jhrCreatedAt = zero_time\<rparr>;
     State_Monad.return (case r of Inl err \<Rightarrow> Some err | Inr _ \<Rightarrow> None)
   }"

definition UpdateJobHistoryStatus ::
  "'f job_env \<Rightarrow> string \<Rightarrow> gotime option \<Rightarrow> string option \<Rightarrow> int \<Rightarrow> (dash_state, db_error + JobHistory) state" where
  "UpdateJobHistoryStatus env status completedAt logPath i = job_statement env (\<lambda>now s.
     case find (\<lambda>j. jhrID j = i) (dsJobs s) of
       None \<Rightarrow> (Inl ErrNoRows, s)
     | Some old \<Rightarrow>
         if \<not> valid_job_status status then (Inl CheckConstraint, s)
         else (let row = old\<lparr>jhrStatus := status, jhrCompletedAt := completedAt, jhrLogRetentionPath := logPath\<rparr>
               in (Inr row, s\<lparr>dsJobs := map (\<lambda>j. if jhrID j = i then row else j) (dsJobs s)\<rparr>)))"

text \<open>A comparison with null holds for no row.\<close>

definition DeleteJobHistoryOlderThan :: "'f job_env \<Rightarrow> gotime option \<Rightarrow> (dash_state, db_error + unit) state" where
  "DeleteJobHistoryOlderThan env cutoff = job_statement env (\<lambda>now s.
     (Inr (), s\<lparr>dsJobs := filter (\<lambda>j. \<not> (case (jhrCompletedAt j, cutoff) of (Some t, Some c) \<Rightarrow> \<not> jeSince env t c | _ \<Rightarrow> False))
        (dsJobs s)\<rparr>))"

section \<open>Reading\<close>

text \<open>\<open>ORDER BY id DESC\<close>, and \<open>LIMIT\<close> with \<open>OFFSET\<close>: a negative limit is none, a negative offset is zero.\<close>

definition newest_first :: "JobHistory list \<Rightarrow> JobHistory list" where
  "newest_first js = rev (sort_key jhrID js)"

definition limit_offset :: "int \<Rightarrow> int \<Rightarrow> 'a list \<Rightarrow> 'a list" where
  "limit_offset limit offset xs = (let ys = drop (nat offset) xs in if limit < 0 then ys else take (nat limit) ys)"

definition CountJobHistory :: "'f job_env \<Rightarrow> (dash_state, db_error + int) state" where
  "CountJobHistory env = job_query env (\<lambda>js. int (length js))"

definition CountJobHistoryByPoolId :: "'f job_env \<Rightarrow> int \<Rightarrow> (dash_state, db_error + int) state" where
  "CountJobHistoryByPoolId env poolID = job_query env (\<lambda>js. int (length (filter (\<lambda>j. jhrPoolID j = poolID) js)))"

definition GetJobHistoryById :: "'f job_env \<Rightarrow> int \<Rightarrow> (dash_state, db_error + JobHistory) state" where
  "GetJobHistoryById env i = job_statement env (\<lambda>now s.
     (case find (\<lambda>j. jhrID j = i) (dsJobs s) of None \<Rightarrow> (Inl ErrNoRows, s) | Some j \<Rightarrow> (Inr j, s)))"

definition ListJobHistory :: "'f job_env \<Rightarrow> int \<Rightarrow> int \<Rightarrow> (dash_state, db_error + JobHistory list) state" where
  "ListJobHistory env limit offset = job_query env (\<lambda>js. limit_offset limit offset (newest_first js))"

definition ListJobHistoryByPoolId :: "'f job_env \<Rightarrow> int \<Rightarrow> int \<Rightarrow> int \<Rightarrow> (dash_state, db_error + JobHistory list) state" where
  "ListJobHistoryByPoolId env poolID limit offset =
     job_query env (\<lambda>js. limit_offset limit offset (newest_first (filter (\<lambda>j. jhrPoolID j = poolID) js)))"

text \<open>
  \<open>LIKE\<close>: a percent sign stands for any characters, an underscore for one, and letters of ASCII match in either case. A
  character may take several bytes.
\<close>

definition skip_char :: "string \<Rightarrow> string" where
  "skip_char s =
     (case s of
        [] \<Rightarrow> []
      | c # cs \<Rightarrow> if (of_char c :: nat) \<ge> 192 then dropWhile (\<lambda>x. 128 \<le> (of_char x :: nat) \<and> (of_char x :: nat) < 192) cs else cs)"

lemma length_skip_char: "s \<noteq> [] \<Longrightarrow> length (skip_char s) < length s"
  by (auto simp: skip_char_def le_imp_less_Suc length_dropWhile_le split: list.split)

function sql_like :: "string \<Rightarrow> string \<Rightarrow> bool" where
  "sql_like [] s = (s = [])"
| "sql_like (p # ps) s =
     (if p = CHR ''%'' then
        (if sql_like ps s then True else if s = [] then False else sql_like (p # ps) (skip_char s))
      else if s = [] then False
      else if p = CHR ''_'' then sql_like ps (skip_char s)
      else if to_lower_char p = to_lower_char (hd s) then sql_like ps (tl s) else False)"
  by pat_completeness auto
termination
  by (relation "measure (\<lambda>(p, s). length p + length s)") (auto simp: length_skip_char intro: less_SucI)

declare sql_like.simps(2) [simp del]

record search =
  seaPoolID :: int
  seaSearch :: string
  seaStatus :: string

definition matches_search :: "search \<Rightarrow> JobHistory \<Rightarrow> bool" where
  "matches_search q j \<longleftrightarrow>
     (seaPoolID q = 0 \<or> jhrPoolID j = seaPoolID q) \<and>
     (seaSearch q = [] \<or> sql_like (''%'' @ seaSearch q @ ''%'') (jhrRunnerName j)) \<and>
     (seaStatus q = [] \<or> jhrStatus j = seaStatus q)"

definition SearchJobHistory :: "'f job_env \<Rightarrow> search \<Rightarrow> int \<Rightarrow> int \<Rightarrow> (dash_state, db_error + JobHistory list) state" where
  "SearchJobHistory env q limit offset =
     job_query env (\<lambda>js. limit_offset limit offset (newest_first (filter (matches_search q) js)))"

definition CountSearchJobHistory :: "'f job_env \<Rightarrow> search \<Rightarrow> (dash_state, db_error + int) state" where
  "CountSearchJobHistory env q = job_query env (\<lambda>js. int (length (filter (matches_search q) js)))"

section \<open>Statistics\<close>

record 'f stats_row =
  srTotalJobs :: int
  srSuccessfulJobs :: "'f any_value"
  srFailedJobs :: "'f any_value"
  srAvgQueueSeconds :: "'f any_value"
  srAvgRuntimeSeconds :: "'f any_value"

definition seconds_between :: "'f job_env \<Rightarrow> gotime option \<Rightarrow> gotime option \<Rightarrow> int option" where
  "seconds_between env begun ended =
     (case (begun, ended) of
        (Some a, Some b) \<Rightarrow> (case (jeEpoch env a, jeEpoch env b) of (Some x, Some y) \<Rightarrow> Some (y - x) | _ \<Rightarrow> None)
      | _ \<Rightarrow> None)"

definition average :: "'f::zero job_env \<Rightarrow> int option list \<Rightarrow> 'f any_value" where
  "average env vs = (let xs = List.map_filter (\<lambda>v. v) vs in AnyFloat64 (if xs = [] then 0 else jeAvg env xs))"

definition stats_over :: "'f::zero job_env \<Rightarrow> JobHistory list \<Rightarrow> 'f stats_row" where
  "stats_over env js =
     \<lparr>srTotalJobs = int (length js),
      srSuccessfulJobs = AnyInt64 (int (length (filter (\<lambda>j. jhrStatus j = ''success'') js))),
      srFailedJobs = AnyInt64 (int (length (filter (\<lambda>j. jhrStatus j = ''failure'' \<or> jhrStatus j = ''failed'') js))),
      srAvgQueueSeconds = average env (map (\<lambda>j. seconds_between env (jhrQueuedAt j) (jhrStartedAt j)) js),
      srAvgRuntimeSeconds = average env (map (\<lambda>j. seconds_between env (jhrStartedAt j) (jhrCompletedAt j)) js)\<rparr>"

definition GetJobStatsSince :: "'f::zero job_env \<Rightarrow> gotime \<Rightarrow> (dash_state, db_error + 'f stats_row) state" where
  "GetJobStatsSince env cutoff = job_query env (\<lambda>js. stats_over env (filter (\<lambda>j. jeSince env (jhrCreatedAt j) cutoff) js))"

definition GetHourlyJobStatsSince ::
  "'f::zero job_env \<Rightarrow> gotime \<Rightarrow> (dash_state, db_error + ('f any_value \<times> 'f stats_row) list) state" where
  "GetHourlyJobStatsSince env cutoff = job_query env (\<lambda>js.
     let rows = filter (\<lambda>j. jeSince env (jhrCreatedAt j) cutoff) js
     in map (\<lambda>h. (AnyString h, stats_over env (filter (\<lambda>j. jeHour env (jhrCreatedAt j) = h) rows)))
          (sort (remdups (map (\<lambda>j. jeHour env (jhrCreatedAt j)) rows))))"

end
