(* ===== verification/Analytics.thy ===== *)
theory Analytics
  imports Job_History Auth
begin

text \<open>
  \<open>src/internal/server/analytics.go\<close>: the history of jobs page by page, single records, statistics over a timeframe
  and the stream of the dashboard. Texts of errors are left out. Times are formatted as the API environment
  formats them.
\<close>

section \<open>Values of unknown type\<close>

definition toFloat64 :: "'f::zero job_env \<Rightarrow> 'f any_value \<Rightarrow> 'f" where
  "toFloat64 env v =
     (case v of
        AnyFloat64 x \<Rightarrow> x | AnyFloat32 x \<Rightarrow> x | AnyInt64 n \<Rightarrow> jeFloat env n | AnyInt n \<Rightarrow> jeFloat env n
      | AnyBytes b \<Rightarrow> jeScanFloat env b | _ \<Rightarrow> 0)"

definition toInt32 :: "'f job_env \<Rightarrow> 'f any_value \<Rightarrow> int" where
  "toInt32 env v =
     (case v of
        AnyInt64 n \<Rightarrow> wrap32 n | AnyInt n \<Rightarrow> wrap32 n | AnyFloat64 x \<Rightarrow> jeTruncate env x
      | AnyBytes b \<Rightarrow> jeScanInt env b | _ \<Rightarrow> 0)"

section \<open>Job records\<close>

record 'f JobRecord =
  jrId :: int
  jrPoolId :: int
  jrRunnerName :: string
  jrStatus :: string
  jrPoolName :: string
  jrQueuedAt :: string
  jrStartedAt :: string
  jrCompletedAt :: string
  jrQueueTimeSeconds :: 'f
  jrDurationSeconds :: 'f

definition format_time :: "'f job_env \<Rightarrow> gotime option \<Rightarrow> string" where
  "format_time env t = (case t of None \<Rightarrow> [] | Some x \<Rightarrow> aeFormat (jeApi env) x)"

definition elapsed :: "'f::{zero,ord} job_env \<Rightarrow> gotime option \<Rightarrow> gotime option \<Rightarrow> 'f" where
  "elapsed env begun ended =
     (case (begun, ended) of
        (Some a, Some b) \<Rightarrow> (let x = jeSeconds env (time_sub b a) in if x < 0 then 0 else x)
      | _ \<Rightarrow> 0)"

text \<open>A record without its pool's name and durations, as the dashboard lists it, and the whole record.\<close>

definition plain_record :: "'f::zero job_env \<Rightarrow> JobHistory \<Rightarrow> 'f JobRecord" where
  "plain_record env j =
     \<lparr>jrId = jhrID j, jrPoolId = jhrPoolID j, jrRunnerName = jhrRunnerName j, jrStatus = jhrStatus j, jrPoolName = [],
      jrQueuedAt = format_time env (jhrQueuedAt j), jrStartedAt = format_time env (jhrStartedAt j),
      jrCompletedAt = format_time env (jhrCompletedAt j), jrQueueTimeSeconds = 0, jrDurationSeconds = 0\<rparr>"

definition full_record :: "'f::{zero,ord} job_env \<Rightarrow> string \<Rightarrow> JobHistory \<Rightarrow> 'f JobRecord" where
  "full_record env poolName j = (plain_record env j)
     \<lparr>jrPoolName := poolName, jrQueueTimeSeconds := elapsed env (jhrQueuedAt j) (jhrStartedAt j),
      jrDurationSeconds := elapsed env (jhrStartedAt j) (jhrCompletedAt j)\<rparr>"

definition all_pools :: "'f job_env \<Rightarrow> (dash_state, db_error + RunnerPool list) state" where
  "all_pools env = on_api (on_tables (ListRunnerPools (aeDb (jeApi env))))"

section \<open>The history\<close>

record history_request =
  hqLimit :: int
  hqOffset :: int
  hqSearch :: string
  hqStatus :: string
  hqPoolId :: int

definition page_limit :: "int \<Rightarrow> int" where
  "page_limit limit = (let l = (if limit \<le> 0 then 50 else limit) in if l > 100 then 100 else l)"

definition page_offset :: "int \<Rightarrow> int" where
  "page_offset offset = (if offset < 0 then 0 else offset)"

definition search_of :: "history_request \<Rightarrow> search" where
  "search_of req =
     (let status = TrimSpace (ToLower (hqStatus req))
      in \<lparr>seaPoolID = hqPoolId req, seaSearch = TrimSpace (hqSearch req),
          seaStatus = (if status = ''all'' then [] else status)\<rparr>)"

definition pool_names :: "db_error + RunnerPool list \<Rightarrow> (int, string) gomap" where
  "pool_names r = (case r of Inl _ \<Rightarrow> [] | Inr ps \<Rightarrow> fold (\<lambda>p. mput (pID p) (pName p)) ps [])"

definition name_in :: "(int, string) gomap \<Rightarrow> int \<Rightarrow> string" where
  "name_in poolMap i = (case mget poolMap i of None \<Rightarrow> [] | Some name \<Rightarrow> name)"

definition GetJobHistory ::
  "'f::{zero,ord} job_env \<Rightarrow> history_request \<Rightarrow> (dash_state, connect_error + 'f JobRecord list \<times> int) state" where
  "GetJobHistory env req = do {
     c \<leftarrow> CountSearchJobHistory env (search_of req);
     case c of
       Inl err \<Rightarrow> State_Monad.return (Inl (CodeInternal err))
     | Inr totalCount \<Rightarrow> do {
         r \<leftarrow> SearchJobHistory env (search_of req) (page_limit (hqLimit req)) (page_offset (hqOffset req));
         case r of
           Inl err \<Rightarrow> State_Monad.return (Inl (CodeInternal err))
         | Inr jobs \<Rightarrow> do {
             pools \<leftarrow> all_pools env;
             let poolMap = pool_names pools;
             State_Monad.return (Inr (map (\<lambda>j. full_record env (name_in poolMap (jhrPoolID j)) j) jobs, wrap32 totalCount))
           }
       }
   }"

fun first_name :: "int \<Rightarrow> RunnerPool list \<Rightarrow> string" where
  "first_name i [] = []"
| "first_name i (p # ps) = (if pID p = i then pName p else first_name i ps)"

definition GetJobRecord :: "'f::{zero,ord} job_env \<Rightarrow> int \<Rightarrow> (dash_state, connect_error + 'f JobRecord) state" where
  "GetJobRecord env i =
     (if i \<le> 0 then State_Monad.return (Inl (InvalidArgument ''job_id''))
      else do {
        r \<leftarrow> GetJobHistoryById env i;
        case r of
          Inl err \<Rightarrow> State_Monad.return (Inl (CodeNotFound err))
        | Inr j \<Rightarrow> do {
            pools \<leftarrow> all_pools env;
            let poolName = (case pools of Inl _ \<Rightarrow> [] | Inr ps \<Rightarrow> first_name (jhrPoolID j) ps);
            State_Monad.return (Inr (full_record env poolName j))
          }
      })"

section \<open>Statistics\<close>

record 'f LatencyBucket =
  lbTimestamp :: string
  lbAvgQueueSeconds :: 'f
  lbAvgRuntimeSeconds :: 'f
  lbTotalJobs :: int
  lbSuccessfulJobs :: int
  lbFailedJobs :: int

record 'f SystemStats =
  ssTotalActiveRunners :: int
  ssTotalIdleRunners :: int
  ssAverageQueueTimeSeconds :: 'f
  ssTotalJobs :: int
  ssSuccessfulJobs :: int
  ssFailedJobs :: int
  ssAverageRuntimeSeconds :: 'f
  ssSuccessRatePercent :: 'f
  ssQueueLatencyTrend :: "'f LatencyBucket list"
  ssHostArch :: string
  ssHostOs :: string

definition stats_cutoff :: "gotime \<Rightarrow> int \<Rightarrow> gotime" where
  "stats_cutoff now timeframe =
     (let timeframeHours = (if timeframe \<le> 0 then 24 else timeframe) in now + wrap64 (- timeframeHours * (60 * Minute)))"

definition success_rate :: "'f::{zero,times,inverse} job_env \<Rightarrow> int \<Rightarrow> int \<Rightarrow> 'f" where
  "success_rate env successfulJobs totalJobs =
     (if totalJobs > 0 then jeFloat env successfulJobs / jeFloat env totalJobs * jeFloat env 100 else 0)"

text \<open>A bucket's hour is printed whatever its type (\<open>%v\<close>); the database gives a text.\<close>

definition bucket_of :: "'f::zero job_env \<Rightarrow> 'f any_value \<times> 'f stats_row \<Rightarrow> 'f LatencyBucket" where
  "bucket_of env hr =
     (case hr of (hour, row) \<Rightarrow>
        \<lparr>lbTimestamp = (case hour of AnyString ts \<Rightarrow> ts | AnyBytes ts \<Rightarrow> ts | AnyNil \<Rightarrow> [] | v \<Rightarrow> jePrint env v),
         lbAvgQueueSeconds = toFloat64 env (srAvgQueueSeconds row), lbAvgRuntimeSeconds = toFloat64 env (srAvgRuntimeSeconds row),
         lbTotalJobs = wrap32 (srTotalJobs row), lbSuccessfulJobs = toInt32 env (srSuccessfulJobs row),
         lbFailedJobs = toInt32 env (srFailedJobs row)\<rparr>)"

definition GetSystemStats ::
  "'f::{zero,times,inverse} job_env \<Rightarrow> int \<Rightarrow> (dash_state, connect_error + 'f SystemStats) state" where
  "GetSystemStats env timeframe = do {
     c \<leftarrow> gets (\<lambda>s. asController (dsApi s));
     let (active, idle) = (if aeCounted (jeApi env) then SystemRunnerStats (aeDeps (jeApi env)) c else (0, 0));
     n \<leftarrow> gets (\<lambda>s. tTick (tables_in s));
     let cutoff = stats_cutoff (jeNow env n) timeframe;
     r \<leftarrow> GetJobStatsSince env cutoff;
     case r of
       Inl err \<Rightarrow> State_Monad.return (Inl (CodeInternal err))
     | Inr row \<Rightarrow> do {
         let totalJobs = wrap32 (srTotalJobs row);
         let successfulJobs = toInt32 env (srSuccessfulJobs row);
         h \<leftarrow> GetHourlyJobStatsSince env cutoff;
         case h of
           Inl err \<Rightarrow> State_Monad.return (Inl (CodeInternal err))
         | Inr hourlyRows \<Rightarrow> State_Monad.return (Inr
             \<lparr>ssTotalActiveRunners = active, ssTotalIdleRunners = idle,
              ssAverageQueueTimeSeconds = toFloat64 env (srAvgQueueSeconds row), ssTotalJobs = totalJobs,
              ssSuccessfulJobs = successfulJobs, ssFailedJobs = toInt32 env (srFailedJobs row),
              ssAverageRuntimeSeconds = toFloat64 env (srAvgRuntimeSeconds row),
              ssSuccessRatePercent = success_rate env successfulJobs totalJobs,
              ssQueueLatencyTrend = map (bucket_of env) hourlyRows,
              ssHostArch = HostArch (jeGetenv env) (fst (jeGo env)), ssHostOs = HostOS (jeGetenv env) (snd (jeGo env))\<rparr>)
       }
   }"

section \<open>The dashboard\<close>

record 'f Dashboard =
  dbStats :: "'f SystemStats"
  dbPools :: "proto_pool list"
  dbRecentJobs :: "'f JobRecord list"

definition dashboard_snapshot :: "'f::{zero,times,inverse} job_env \<Rightarrow> (dash_state, connect_error + 'f Dashboard) state" where
  "dashboard_snapshot env = do {
     r \<leftarrow> GetSystemStats env 0;
     case r of
       Inl err \<Rightarrow> State_Monad.return (Inl err)
     | Inr stats \<Rightarrow> do {
         p \<leftarrow> all_pools env;
         case p of
           Inl err \<Rightarrow> State_Monad.return (Inl (CodeInternal err))
         | Inr pools \<Rightarrow> do {
             c \<leftarrow> gets (\<lambda>s. asController (dsApi s));
             let protoPools = map (\<lambda>p. ConvertDBPoolToProto p (stats_of (jeApi env) c)) pools;
             j \<leftarrow> ListJobHistory env 10 0;
             State_Monad.return (case j of
               Inl err \<Rightarrow> Inl (CodeInternal err)
             | Inr jobs \<Rightarrow> Inr \<lparr>dbStats = stats, dbPools = protoPools, dbRecentJobs = map (plain_record env) jobs\<rparr>)
           }
       }
   }"

definition WatchDashboard ::
  "'f::{zero,times,inverse} job_env \<Rightarrow> (nat \<Rightarrow> string option) \<Rightarrow> dash_state watch_signal list \<Rightarrow>
   (dash_state, ('f Dashboard, connect_error) watched) state" where
  "WatchDashboard env send sigs = watch send (dashboard_snapshot env) sigs"

end
