(* ===== verification/Analytics_Props.thy ===== *)
theory Analytics_Props
  imports Analytics Pool_Runner_Props Complex_Main
begin

text \<open>
  The pages of the job history put together are the history; a search without wildcards finds what contains it;
  the statistics count what they say, up to a timeframe that overflows; and the three streams of the API
  show the state as it is.
\<close>

section \<open>Queries\<close>

lemma run_on_api [run_simps]:
  "run_state (on_api m) s = (case run_state m (dsApi s) of (a, x) \<Rightarrow> (a, s\<lparr>dsApi := x\<rparr>))"
  by (simp add: on_api_def Let_def split: prod.splits)

text \<open>The state after one more statement.\<close>

definition ticked :: "dash_state \<Rightarrow> dash_state" where
  "ticked s = s\<lparr>dsApi := put_tables ((tables_in s)\<lparr>tTick := Suc (tTick (tables_in s))\<rparr>) (dsApi s)\<rparr>"

lemma ticked_simps [simp]: "dsJobs (ticked s) = dsJobs s" "tTick (tables_in (ticked s)) = Suc (tTick (tables_in s))"
  "tPools (tables_in (ticked s)) = tPools (tables_in s)" "asController (dsApi (ticked s)) = asController (dsApi s)"
  by (simp_all add: ticked_def put_tables_def)

lemma run_job_query [run_simps]:
  "run_state (job_query env f) s =
     ((case dbFail (aeDb (jeApi env)) (tTick (tables_in s)) of Some err \<Rightarrow> Inl (DbFailure err) | None \<Rightarrow> Inr (f (dsJobs s))), ticked s)"
  by (simp add: job_query_def job_statement_def run_simps ticked_def split: option.split)

lemma run_all_pools [run_simps]:
  "run_state (all_pools env) s =
     ((case dbFail (aeDb (jeApi env)) (tTick (tables_in s)) of
         Some err \<Rightarrow> Inl (DbFailure err) | None \<Rightarrow> Inr (sort_key pName (tPools (tables_in s)))), ticked s)"
  by (simp add: all_pools_def ListRunnerPools_def statement_def run_simps ticked_def split: option.split)

section \<open>Pages\<close>

definition matching :: "history_request \<Rightarrow> dash_state \<Rightarrow> JobHistory list" where
  "matching req s = filter (matches_search (search_of req)) (dsJobs s)"

lemma run_GetJobHistory:
  assumes "reliable (aeDb (jeApi env))"
  shows "fst (run_state (GetJobHistory env req) s) = Inr
    (map (\<lambda>j. full_record env (name_in (pool_names (Inr (sort_key pName (tPools (tables_in s))))) (jhrPoolID j)) j) (limit_offset (page_limit (hqLimit req)) (page_offset (hqOffset req)) (newest_first (matching req s))),
     wrap32 (int (length (matching req s))))"
  using assms
  by (simp add: GetJobHistory_def CountSearchJobHistory_def SearchJobHistory_def run_simps reliable_def matching_def Let_def)

definition page_ids :: "'f::{zero,ord} job_env \<Rightarrow> history_request \<Rightarrow> dash_state \<Rightarrow> int list" where
  "page_ids env req s = (case fst (run_state (GetJobHistory env req) s) of Inl _ \<Rightarrow> [] | Inr (jobs, n) \<Rightarrow> map jrId jobs)"

lemma page_limit_range: "1 \<le> page_limit l \<and> page_limit l \<le> 100"
  by (simp add: page_limit_def Let_def)

lemma page_ids_eq:
  assumes "reliable (aeDb (jeApi env))"
  shows "page_ids env req s =
    map jhrID (take (nat (page_limit (hqLimit req))) (drop (nat (page_offset (hqOffset req))) (newest_first (matching req s))))"
proof -
  have "\<not> page_limit (hqLimit req) < 0" using page_limit_range [of "hqLimit req"] by linarith
  moreover have id: "jrId (full_record env x j) = jhrID j" for x j by (simp add: full_record_def plain_record_def)
  ultimately show ?thesis
    using run_GetJobHistory [OF assms, of req s] by (auto simp: page_ids_def limit_offset_def Let_def comp_def)
qed

lemma pages_join: "concat (map (\<lambda>k. take l (drop (k * l) xs)) [0..<n]) = take (n * l) xs"
proof (induction n)
  case (Suc n)
  then show ?case using take_add [of "n * l" l xs] by (simp add: add.commute)
qed simp

lemma newest_first_strict:
  assumes "distinct (map jhrID js)"
  shows "sorted_wrt (>) (map jhrID (newest_first js))" "set (newest_first js) = set js" "length (newest_first js) = length js"
proof -
  have "distinct (map jhrID (sort_key jhrID js))"
    using assms by (metis mset_map mset_sort mset_eq_imp_distinct_iff)
  then have "sorted_wrt (<) (map jhrID (sort_key jhrID js))" by (simp add: strict_sorted_iff)
  then show "sorted_wrt (>) (map jhrID (newest_first js))" by (simp only: newest_first_def rev_map [symmetric] sorted_wrt_rev)
qed (simp_all add: newest_first_def)

lemma matching_other_page: "matching (req\<lparr>hqOffset := k\<rparr>) s = matching req s" "matching (req\<lparr>hqLimit := l\<rparr>) s = matching req s"
  by (simp_all add: matching_def search_of_def)

text \<open>
  C38. Paging through the job history. A page never holds more than a hundred records, whatever limit and offset are
  asked for. Pages of a size between one and a hundred, asked for one after the other, join to the jobs that
  match the filters: newest first, each exactly once and none missing, as soon as there are enough pages; and the
  total that is reported with each page is their number.
\<close>

theorem job_history_paging:
  assumes "reliable (aeDb (jeApi env))" "distinct (map jhrID (dsJobs s))"
    and "0 < hqLimit req" "hqLimit req \<le> 100" "length (matching req s) < 2 ^ 31" "length (matching req s) \<le> n * nat (hqLimit req)"
  defines "ids \<equiv> concat (map (\<lambda>k. page_ids env (req\<lparr>hqOffset := int k * hqLimit req\<rparr>) s) [0..<n])"
  shows "length (page_ids env (req\<lparr>hqLimit := l, hqOffset := k\<rparr>) s) \<le> 100 \<and>
    sorted_wrt (>) ids \<and> set ids = jhrID ` {j \<in> set (dsJobs s). matches_search (search_of req) j} \<and>
    (\<exists>jobs. fst (run_state (GetJobHistory env req) s) = Inr (jobs, int (length ids)))"
proof -
  let ?m = "newest_first (matching req s)" and ?l = "nat (hqLimit req)"
  have d: "distinct (map jhrID (matching req s))" using assms(2) by (simp add: matching_def distinct_map_filter)
  have "page_ids env (req\<lparr>hqOffset := int j * hqLimit req\<rparr>) s = take ?l (drop (j * ?l) (map jhrID ?m))" for j
  proof -
    have "nat (page_offset (int j * hqLimit req)) = j * ?l" using assms(3) by (simp add: page_offset_def nat_mult_distrib mult_less_0_iff)
    moreover have "page_limit (hqLimit req) = hqLimit req" using assms(3,4) by (simp add: page_limit_def Let_def)
    ultimately show ?thesis by (simp add: page_ids_eq [OF assms(1)] matching_other_page take_map drop_map)
  qed
  then have ids: "ids = map jhrID ?m"
    unfolding ids_def using pages_join [of ?l "map jhrID ?m" n] assms(6) newest_first_strict(3) [OF d] by simp
  have "length (page_ids env (req\<lparr>hqLimit := l, hqOffset := k\<rparr>) s) \<le> 100"
    using page_limit_range [of l] by (simp add: page_ids_eq [OF assms(1)] min_le_iff_disj nat_le_iff)
  moreover have "sorted_wrt (>) ids" using newest_first_strict(1) [OF d] ids by simp
  moreover have "set ids = jhrID ` {j \<in> set (dsJobs s). matches_search (search_of req) j}"
    using newest_first_strict(2) [OF d] by (simp add: ids matching_def)
  moreover have "wrap32 (int (length (matching req s))) = int (length ids)"
    using assms(5) newest_first_strict(3) [OF d] by (simp add: wrap32_def ids)
  ultimately show ?thesis using run_GetJobHistory [OF assms(1), of req s] by auto
qed

section \<open>Searching\<close>

text \<open>For names of ASCII characters a search without wildcards is the search for a part, in either case.\<close>

lemma like_part:
  assumes "\<forall>c \<in> set q. c \<noteq> CHR ''%'' \<and> c \<noteq> CHR ''_''"
  shows "sql_like (q @ ''%'') s \<longleftrightarrow> prefix (ToLower q) (ToLower s)"
  using assms
proof (induction q arbitrary: s)
  case Nil
  have "sql_like ''%'' s"
  proof (induction s rule: measure_induct_rule [of length])
    case (less s)
    then show ?case using sql_like.simps(2) [of "CHR ''%''" "[]" s] by (cases "s = []") (auto simp: length_skip_char)
  qed
  then show ?case by (simp add: ToLower_def)
next
  case (Cons c q)
  then show ?case using sql_like.simps(2) [of c "q @ ''%''" s] by (cases s) (auto simp: ToLower_def)
qed

lemma like_anywhere:
  assumes "\<forall>c \<in> set s. (of_char c :: nat) < 128"
  shows "sql_like (CHR ''%'' # ps) s \<longleftrightarrow> (\<exists>k \<le> length s. sql_like ps (drop k s))"
  using assms
proof (induction s)
  case (Cons c s)
  then have "skip_char (c # s) = s" by (auto simp: skip_char_def)
  with Cons have "sql_like (CHR ''%'' # ps) (c # s) \<longleftrightarrow> sql_like ps (c # s) \<or> (\<exists>k \<le> length s. sql_like ps (drop k s))"
    using sql_like.simps(2) [of "CHR ''%''" ps "c # s"] by simp
  also have "\<dots> \<longleftrightarrow> (\<exists>k \<le> length (c # s). sql_like ps (drop k (c # s)))"
    by (metis Suc_le_mono drop0 drop_Suc_Cons le0 length_Cons not0_implies_Suc)
  finally show ?case .
qed (use sql_like.simps(2) [of "CHR ''%''" ps "[]"] in simp)

theorem search_finds_part:
  assumes "\<forall>c \<in> set q. c \<noteq> CHR ''%'' \<and> c \<noteq> CHR ''_''" "\<forall>c \<in> set name. (of_char c :: nat) < 128"
  shows "sql_like (''%'' @ q @ ''%'') name \<longleftrightarrow> (\<exists>a b. ToLower name = a @ ToLower q @ b)"
proof -
  have "sql_like (''%'' @ q @ ''%'') name \<longleftrightarrow> (\<exists>k \<le> length name. prefix (ToLower q) (drop k (ToLower name)))"
    by (simp add: like_anywhere [OF assms(2)] like_part [OF assms(1)] ToLower_def drop_map)
  also have "\<dots> \<longleftrightarrow> (\<exists>a b. ToLower name = a @ ToLower q @ b)"
  proof
    assume "\<exists>k \<le> length name. prefix (ToLower q) (drop k (ToLower name))"
    then obtain k b where "drop k (ToLower name) = ToLower q @ b" by (auto simp: prefix_def)
    then have "ToLower name = take k (ToLower name) @ ToLower q @ b" by (metis append_take_drop_id)
    then show "\<exists>a b. ToLower name = a @ ToLower q @ b" by blast
  next
    assume "\<exists>a b. ToLower name = a @ ToLower q @ b"
    then obtain a b where ab: "ToLower name = a @ ToLower q @ b" by blast
    then have "drop (length a) (ToLower name) = ToLower q @ b" "length a \<le> length (ToLower name)" by simp_all
    then show "\<exists>k \<le> length name. prefix (ToLower q) (drop k (ToLower name))" by (auto simp: prefix_def)
  qed
  finally show ?thesis .
qed

section \<open>Statistics\<close>

text \<open>The statistics count the jobs of the timeframe by their outcome, and the runners of the controller.\<close>

theorem system_stats_exact:
  fixes env :: "'f::{zero,times,inverse} job_env" and hours :: int
  assumes "reliable (aeDb (jeApi env))" "length (dsJobs s) < 2 ^ 31"
  defines "recent \<equiv> filter (\<lambda>j. jeSince env (jhrCreatedAt j) (stats_cutoff (jeNow env (tTick (tables_in s))) hours)) (dsJobs s)"
  shows "\<exists>st. fst (run_state (GetSystemStats env hours) s) = Inr st \<and> ssTotalJobs st = int (length recent) \<and>
    ssSuccessfulJobs st = int (length (filter (\<lambda>j. jhrStatus j = ''success'') recent)) \<and>
    ssFailedJobs st = int (length (filter (\<lambda>j. jhrStatus j = ''failure'' \<or> jhrStatus j = ''failed'') recent)) \<and>
    ssSuccessfulJobs st + ssFailedJobs st \<le> ssTotalJobs st \<and>
    (aeCounted (jeApi env) \<longrightarrow> (ssTotalActiveRunners st, ssTotalIdleRunners st) = SystemRunnerStats (aeDeps (jeApi env)) (asController (dsApi s))) \<and>
    (recent = [] \<longrightarrow> ssSuccessRatePercent st = 0)"
proof -
  have le: "length (filter P recent) < 2 ^ 31" "length recent < 2 ^ 31" for P
    using assms(2) length_filter_le [of P recent] length_filter_le [of _ "dsJobs s"] unfolding recent_def
    by (meson le_less_trans)+
  then have w: "wrap32 (int (length (filter P recent))) = int (length (filter P recent))" "wrap32 (int (length recent)) = int (length recent)" for P
    by (simp_all add: wrap32_def)
  have "length (filter (\<lambda>j. jhrStatus j = ''success'') recent) + length (filter (\<lambda>j. jhrStatus j = ''failure'' \<or> jhrStatus j = ''failed'') recent) \<le> length recent"
    by (induction recent) auto
  with assms(1) show ?thesis
    by (simp add: GetSystemStats_def GetJobStatsSince_def GetHourlyJobStatsSince_def run_simps reliable_def stats_over_def
        toInt32_def w recent_def [symmetric] success_rate_def Let_def del: filter_filter split: prod.split)
qed

text \<open>A timeframe of more hours than a duration holds begins in the future, so that no job is counted.\<close>

theorem stats_timeframe_overflow: "now + 292 * 365 * 24 * 60 * Minute < stats_cutoff now 2562048"
  by (simp add: stats_cutoff_def wrap64_def Minute_def Second_def)

section \<open>The dashboard\<close>

definition dashboard_true :: "'f::{zero,times,inverse} job_env \<Rightarrow> dash_state \<Rightarrow> 'f Dashboard \<Rightarrow> bool" where
  "dashboard_true env s m \<longleftrightarrow>
     (aeCounted (jeApi env) \<longrightarrow> (ssTotalActiveRunners (dbStats m), ssTotalIdleRunners (dbStats m)) =
        SystemRunnerStats (aeDeps (jeApi env)) (asController (dsApi s))) \<and>
     pools_true (jeApi env) (dsApi s) (dbPools m) \<and>
     map jrId (dbRecentJobs m) = take 10 (map jhrID (newest_first (dsJobs s)))"

interpretation dashboard_stream: snapshot_stream "dashboard_snapshot env" "dashboard_true env" for env :: "'f::{zero,times,inverse} job_env"
proof
  fix s m s'
  assume "run_state (dashboard_snapshot env) s = (Inr m, s')"
  then show "dashboard_true env s m"
    by (auto simp: dashboard_snapshot_def GetSystemStats_def GetJobStatsSince_def GetHourlyJobStatsSince_def ListJobHistory_def run_simps
        dashboard_true_def pools_true_def stats_of_def ConvertDBPoolToProto_def plain_record_def limit_offset_def take_map comp_def Let_def
        split: option.splits prod.splits)
qed

text \<open>The stream of a pool's runners, which begins once the pool is found.\<close>

lemma WatchRunners_shows:
  assumes "run_state (WatchRunners api send i sigs) s = ((runners, e), s')" "runners \<noteq> [] \<or> e \<in> {Watching, Closed}"
  shows "\<exists>p. find_pool i (tables_of s) = Some p \<and>
    list_all2 (runners_true api p) (take (length runners) (seen (runners_snapshot api p) sigs (exec (named_pool api i) s))) runners \<and>
    (e \<in> {Watching, Closed} \<longrightarrow> length runners = length (seen (runners_snapshot api p) sigs (exec (named_pool api i) s)))"
proof -
  from assms obtain p where p: "find_pool i (tables_of s) = Some p"
    and "run_state (watch send (runners_snapshot api p) sigs) (exec (named_pool api i) s) = ((runners, e), s')"
    by (auto simp: WatchRunners_def exec_def run_simps split: if_splits option.splits)
  from runner_stream.stream_shows [OF this(2)] p show ?thesis by blast
qed

text \<open>
  C37. The streams of the API are truthful. The messages of the stream of pools, of the runners of a pool and of the
  dashboard show, one by one, the states at the start and at the ticks: the pools with the controller's counts,
  the tracked runners with their status, the newest jobs. No state is left out or shown twice, and a stream that is
  waiting or was cancelled has shown all of them.
\<close>

theorem live_views_truthful:
  fixes env :: "'f::{zero,times,inverse} job_env"
  assumes "run_state (WatchPools api send sigs) s = ((pools, e), s')"
    and "run_state (WatchRunners api send' i sigs) s = ((runners, e1), s1)" "runners \<noteq> [] \<or> e1 \<in> {Watching, Closed}"
    and "run_state (WatchDashboard env send'' sigs') t = ((dashboards, e2), t')"
  shows "list_all2 (pools_true api) (take (length pools) (seen (pools_snapshot api) sigs s)) pools \<and>
    (e \<in> {Watching, Closed} \<longrightarrow> length pools = length (seen (pools_snapshot api) sigs s)) \<and>
    (\<exists>p. find_pool i (tables_of s) = Some p \<and>
      list_all2 (runners_true api p) (take (length runners) (seen (runners_snapshot api p) sigs (exec (named_pool api i) s))) runners \<and>
      (e1 \<in> {Watching, Closed} \<longrightarrow> length runners = length (seen (runners_snapshot api p) sigs (exec (named_pool api i) s)))) \<and>
    list_all2 (dashboard_true env) (take (length dashboards) (seen (dashboard_snapshot env) sigs' t)) dashboards \<and>
    (e2 \<in> {Watching, Closed} \<longrightarrow> length dashboards = length (seen (dashboard_snapshot env) sigs' t))"
  using pool_stream.stream_shows [OF assms(1) [unfolded WatchPools_def]] WatchRunners_shows [OF assms(2,3)]
    dashboard_stream.stream_shows [OF assms(4) [unfolded WatchDashboard_def]] by blast

section \<open>Examples\<close>

definition ex_job :: "int \<Rightarrow> string \<Rightarrow> JobHistory" where
  "ex_job i st = \<lparr>jhrID = i, jhrPoolID = 1, jhrRunnerName = ''ghrs-ci-a'', jhrStatus = st, jhrQueuedAt = None, jhrStartedAt = None,
     jhrCompletedAt = None, jhrLogRetentionPath = None, jhrCreatedAt = 0\<rparr>"

definition ex_dash :: dash_state where
  "ex_dash = \<lparr>dsApi = ex_api, dsJobs = [ex_job 1 ''success'', ex_job 2 ''timeout'', ex_job 3 ''success'', ex_job 4 ''success''], dsNextJob = 5\<rparr>"

definition ex_jobs_env :: "rat job_env" where
  "ex_jobs_env = \<lparr>jeApi = ex_api_env, jeSince = (\<lambda>a b. b \<le> a), jeEpoch = (\<lambda>t. Some (t div Second)), jeHour = (\<lambda>t. []),
     jeAvg = (\<lambda>xs. of_int (sum_list xs) / of_nat (length xs)), jeFloat = of_int, jeSeconds = (\<lambda>t. of_int t / of_int Second),
     jeScanFloat = (\<lambda>b. 0), jeScanInt = (\<lambda>b. 0), jePrint = (\<lambda>v. []), jeTruncate = floor, jeNow = (\<lambda>n. 0), jeGetenv = (\<lambda>v. []),
     jeGo = (''amd64'', ''linux'')\<rparr>"

definition ex_history :: history_request where
  "ex_history = \<lparr>hqLimit = 2, hqOffset = 0, hqSearch = '' CI '', hqStatus = ''Success'', hqPoolId = 0\<rparr>"

lemma ex_matching: "matching ex_history ex_dash = [ex_job 1 ''success'', ex_job 3 ''success'', ex_job 4 ''success'']"
  by code_simp

lemma ex_jobs_reliable: "reliable (aeDb (jeApi ex_jobs_env))"
  using ex_api_wired(5) by (simp add: ex_jobs_env_def)

theorem job_history_paging_witness:
  "set (concat (map (\<lambda>k. page_ids ex_jobs_env (ex_history\<lparr>hqOffset := int k * hqLimit ex_history\<rparr>) ex_dash) [0..<2])) =
     jhrID ` {j \<in> set (dsJobs ex_dash). matches_search (search_of ex_history) j} \<and> length (matching ex_history ex_dash) = 3"
proof -
  have "distinct (map jhrID (dsJobs ex_dash))" "0 < hqLimit ex_history" "hqLimit ex_history \<le> 100"
    "length (matching ex_history ex_dash) < 2 ^ 31" "length (matching ex_history ex_dash) \<le> 2 * nat (hqLimit ex_history)"
    by (simp_all add: ex_matching) (simp_all add: ex_dash_def ex_job_def ex_history_def)
  from job_history_paging [OF ex_jobs_reliable this, of 0 0] show ?thesis by (simp add: ex_matching)
qed

lemma ex_pools_shown: "\<exists>m s'. run_state (pools_snapshot ex_api_env) s = (Inr m, s')"
  using ex_api_wired(5)
  by (simp add: pools_snapshot_def ListPools_def ListRunnerPools_def run_statement run_simps Let_def split: prod.split)

lemma ex_runners_shown:
  "snd (fst (run_state (WatchRunners ex_api_env (\<lambda>n. None) 1 []) ex_api)) = Watching"
proof -
  have "\<exists>m s'. run_state (runners_snapshot ex_api_env ex_pool) s = (Inr m, s')" for s
    by (simp add: runners_snapshot_def split: prod.split)
  then show ?thesis
    using runner_stream.stream_open [of ex_api_env ex_pool "\<lambda>n. None" "[]"] ex_pools ex_api_wired(5)
    by (simp add: WatchRunners_def run_simps reliable_def)
qed

text \<open>Streams of pools and runners that were just opened.\<close>

theorem live_views_truthful_witness:
  "\<exists>m s' r s1. run_state (WatchPools ex_api_env (\<lambda>n. None) []) ex_api = (([m], Watching), s') \<and> pools_true ex_api_env ex_api m \<and>
     run_state (WatchRunners ex_api_env (\<lambda>n. None) 1 []) ex_api = (([r], Watching), s1) \<and>
     runners_true ex_api_env ex_pool (exec (named_pool ex_api_env 1) ex_api) r"
proof -
  obtain pools e s' where run: "run_state (WatchPools ex_api_env (\<lambda>n. None) []) ex_api = ((pools, e), s')"
    by (metis prod.collapse)
  obtain runners e1 s1 where runners: "run_state (WatchRunners ex_api_env (\<lambda>n. None) 1 []) ex_api = ((runners, e1), s1)"
    by (metis prod.collapse)
  obtain dashboards e2 t' where dash: "run_state (WatchDashboard ex_jobs_env (\<lambda>n. None) []) ex_dash = ((dashboards, e2), t')"
    by (metis prod.collapse)
  have "e = Watching"
    using pool_stream.stream_open [OF ex_pools_shown, of "\<lambda>n. None" "[]" ex_api] run by (simp add: WatchPools_def)
  moreover have e1: "e1 = Watching" using ex_runners_shown runners by simp
  ultimately have "list_all2 (pools_true ex_api_env) (take (length pools) [ex_api]) pools" "length pools = 1"
    "list_all2 (runners_true ex_api_env ex_pool) (take (length runners) [exec (named_pool ex_api_env 1) ex_api]) runners" "length runners = 1"
    using live_views_truthful [OF run runners _ dash] by (auto simp: seen_def ex_pools)
  with run runners \<open>e = Watching\<close> e1 show ?thesis by (auto simp: list_all2_Cons1)
qed

end
