(* ===== verification/Http_Server.thy ===== *)
theory Http_Server
  imports Webhook Health_Checks Go_Url
begin

text \<open>
  \<open>src/internal/server/server.go\<close>: what stands in front of the services. Every request passes the middleware that
  sets the security headers and refuses other origins, then the one that refuses JSON for the services; behind them
  the router of the web framework hands it to a service, the health endpoints, the webhook receiver or the files of
  the web interface. The router and the encoding of answers are not part of the repository: what is behind the
  middleware is an argument.
\<close>

section \<open>Requests and answers\<close>

record http_req =
  hrMethod :: string
  hrPath :: string
  hrHost :: string
  hrRequest :: request

record http_answer =
  haStatus :: int
  haHeader :: "(string, string) gomap"
  haBody :: string

text \<open>A handler sees the headers that are set already.\<close>

type_synonym 's http_handler = "http_req \<Rightarrow> (string, string) gomap \<Rightarrow> ('s, http_answer) state"

section \<open>Host names and ports\<close>

text \<open>\<open>URL.Hostname\<close> and \<open>URL.Port\<close>.\<close>

definition url_host_port :: "string \<Rightarrow> string \<times> string" where
  "url_host_port hostPort =
     (let (host, port) =
        (case LastIndex hostPort (CHR '':'') of
           None \<Rightarrow> (hostPort, [])
         | Some colon \<Rightarrow>
             if validOptionalPort (drop colon hostPort) then (take colon hostPort, drop (Suc colon) hostPort) else (hostPort, []))
      in (if HasPrefix host ''['' \<and> HasSuffix host '']'' then butlast (drop 1 host) else host, port))"

definition Hostname :: "URL \<Rightarrow> string" where "Hostname u = fst (url_host_port (uHost u))"
definition url_port :: "URL \<Rightarrow> string" where "url_port u = snd (url_host_port (uHost u))"

text \<open>\<open>net.SplitHostPort\<close>.\<close>

definition SplitHostPort :: "string \<Rightarrow> (string \<times> string) option" where
  "SplitHostPort hostport =
     (case LastIndex hostport (CHR '':'') of
        None \<Rightarrow> None
      | Some i \<Rightarrow>
          if HasPrefix hostport ''['' then
            (case Index hostport (CHR '']'') of
               None \<Rightarrow> None
             | Some close \<Rightarrow>
                 if Suc close \<noteq> i then None
                 else if CHR ''['' \<in> set (drop 1 hostport) \<or> CHR '']'' \<in> set (drop (Suc close) hostport) then None
                 else Some (drop 1 (take close hostport), drop (Suc i) hostport))
          else if CHR '':'' \<in> set (take i hostport) then None
          else if CHR ''['' \<in> set hostport \<or> CHR '']'' \<in> set hostport then None
          else Some (take i hostport, drop (Suc i) hostport))"

section \<open>Middleware\<close>

definition isSameOrigin :: "string \<Rightarrow> string \<Rightarrow> bool" where
  "isSameOrigin originStr expectedHost =
     (if originStr = [] then True
      else case Parse originStr of
        None \<Rightarrow> False
      | Some u \<Rightarrow>
          if EqualFold (uHost u) expectedHost then True
          else
            (let eHostname = (case SplitHostPort expectedHost of Some (h, _) \<Rightarrow> h | None \<Rightarrow> expectedHost) in
             if \<not> EqualFold (Hostname u) eHostname then False
             else
               (let oPort = (if url_port u = [] then (if uScheme u = ''https'' then ''443'' else if uScheme u = ''http'' then ''80'' else [])
                             else url_port u);
                    ePort0 = (case SplitHostPort expectedHost of Some (_, p) \<Rightarrow> p | None \<Rightarrow> []);
                    ePort = (if ePort0 = [] then oPort else ePort0)
                in oPort = ePort)))"

definition ValueCSP :: string where
  "ValueCSP = concat [''default-src '', [single_quote], ''self'', [single_quote], ''; script-src '', [single_quote], ''self'', [single_quote],
     ''; style-src '', [single_quote], ''self'', [single_quote], '' '', [single_quote], ''unsafe-inline'', [single_quote],
     ''; img-src '', [single_quote], ''self'', [single_quote], '' data:; connect-src '', [single_quote], ''self'', [single_quote],
     ''; frame-ancestors '', [single_quote], ''none'', [single_quote], '';'']"

definition security_headers :: "(string, string) gomap \<Rightarrow> (string, string) gomap" where
  "security_headers h =
     mput ''Referrer-Policy'' ''strict-origin-when-cross-origin''
       (mput ''Content-Security-Policy'' ValueCSP
         (mput ''X-Content-Type-Options'' ''nosniff'' (mput ''X-Frame-Options'' ''DENY'' h)))"

definition forbidden :: "(string, string) gomap \<Rightarrow> http_answer" where
  "forbidden h = \<lparr>haStatus = 403, haHeader = h, haBody = []\<rparr>"

definition expected_host :: "http_req \<Rightarrow> string" where
  "expected_host req =
     (let forwarded = header_get (hrRequest req) ''X-Forwarded-Host'' in if forwarded = [] then hrHost req else forwarded)"

definition securityMiddleware :: "'s http_handler \<Rightarrow> 's http_handler" where
  "securityMiddleware next_handler req h =
     (let h' = security_headers h in
      if HasPrefix (hrPath req) ''/hooks'' then next_handler req h'
      else let origin = header_get (hrRequest req) ''Origin'' in
        if origin \<noteq> [] \<and> \<not> isSameOrigin origin (expected_host req) then State_Monad.return (forbidden h')
        else if hrMethod req = ''OPTIONS'' \<and> origin \<noteq> [] then State_Monad.return (forbidden h')
        else next_handler req h')"

definition is_json_call :: "http_req \<Rightarrow> bool" where
  "is_json_call req \<longleftrightarrow>
     HasPrefix (hrPath req) ''/supervisor.v1.'' \<and> Contains (header_get (hrRequest req) ''Content-Type'') ''json''"

definition enforceBinaryTransportMiddleware :: "'s http_handler \<Rightarrow> 's http_handler" where
  "enforceBinaryTransportMiddleware next_handler req h =
     (if is_json_call req then State_Monad.return \<lparr>haStatus = 415, haHeader = h, haBody = []\<rparr> else next_handler req h)"

text \<open>The order in which \<open>New\<close> installs them.\<close>

definition http_gate :: "'s http_handler \<Rightarrow> http_req \<Rightarrow> ('s, http_answer) state" where
  "http_gate router req = securityMiddleware (enforceBinaryTransportMiddleware router) req []"

section \<open>Health and static files\<close>

definition reportHTTPStatus :: "string \<Rightarrow> string \<Rightarrow> int" where
  "reportHTTPStatus status okStatus = (if status \<noteq> okStatus then 503 else 200)"

definition handleHealthz :: "(nat \<Rightarrow> nat list) \<Rightarrow> 'ctx \<Rightarrow> 'ctx Health \<Rightarrow> int \<times> Report" where
  "handleHealthz order ctx h =
     (let report = LivenessReport order ctx h in (reportHTTPStatus (reStatus report) ''healthy'', report))"

definition handleReadyz :: "(nat \<Rightarrow> nat list) \<Rightarrow> 'ctx \<Rightarrow> 'ctx Health \<Rightarrow> int \<times> Report" where
  "handleReadyz order ctx h =
     (let report = ReadinessReport order ctx h in (reportHTTPStatus (reStatus report) ''ready'', report))"

text \<open>The file system of the web interface: the names that can be opened. The answer is the file to serve.\<close>

datatype spa_answer = NotFound | ServeFile string

definition serveSPA :: "(string \<Rightarrow> bool) option \<Rightarrow> string \<Rightarrow> spa_answer" where
  "serveSPA staticFS path =
     (case staticFS of
        None \<Rightarrow> NotFound
      | Some can_open \<Rightarrow>
          (let reqPath = TrimPrefix path ''/'' in
           if HasPrefix reqPath ''supervisor.v1.'' \<or> HasPrefix reqPath ''healthz'' \<or> HasPrefix reqPath ''readyz'' \<or> HasPrefix reqPath ''hooks''
           then NotFound
           else let p = (if reqPath = [] then ''index.html'' else reqPath) in
             if can_open p then ServeFile p else ServeFile ''index.html''))"

section \<open>The services\<close>

text \<open>Which of the dependencies in \<open>Options\<close> are set.\<close>

record server_options =
  soAuthDB :: bool
  soJWTSigningSecret :: string
  soPoolDB :: bool
  soAuthProfileDB :: bool
  soOnboardingDB :: bool
  soAnalyticsDB :: bool
  soImageUpdateDB :: bool
  soRenovateDB :: bool
  soPoolDBRenovates :: bool
  soDataDir :: string
  soLogStreamer :: bool
  soWebhookReceiver :: bool

text \<open>A mounted service: the prefix of its routes and whether its calls pass the interceptor that authenticates.\<close>

record mounted =
  moPrefix :: string
  moAuthenticated :: bool

definition ConnectHandlerOptions :: "server_options \<Rightarrow> bool" where
  "ConnectHandlerOptions opts \<longleftrightarrow> soAuthDB opts \<and> soJWTSigningSecret opts \<noteq> []"

definition MountConnectHandler :: "server_options \<Rightarrow> string \<Rightarrow> mounted" where
  "MountConnectHandler opts pattern = \<lparr>moPrefix = TrimSuffix pattern ''/'', moAuthenticated = ConnectHandlerOptions opts\<rparr>"

definition mount_if :: "server_options \<Rightarrow> bool \<Rightarrow> string \<Rightarrow> mounted list" where
  "mount_if opts b service = (if b then [MountConnectHandler opts (''/supervisor.v1.'' @ service @ ''/'')] else [])"

definition New_mounts :: "server_options \<Rightarrow> mounted list" where
  "New_mounts opts =
     mount_if opts (soAuthDB opts \<and> soJWTSigningSecret opts \<noteq> []) ''AuthService'' @
     mount_if opts (soPoolDB opts) ''PoolService'' @
     mount_if opts (soAuthProfileDB opts) ''AuthProfileService'' @
     mount_if opts (soOnboardingDB opts) ''OnboardingService'' @
     mount_if opts (soAnalyticsDB opts) ''AnalyticsService'' @
     mount_if opts (soImageUpdateDB opts \<or> soPoolDB opts) ''ImageUpdateService'' @
     mount_if opts (soDataDir opts \<noteq> [] \<or> soLogStreamer opts) ''LogService'' @
     mount_if opts (soRenovateDB opts \<or> soPoolDB opts \<and> soPoolDBRenovates opts) ''RenovateService''"

definition routed_to :: "mounted \<Rightarrow> http_req \<Rightarrow> bool" where
  "routed_to m req \<longleftrightarrow> hrPath req = moPrefix m \<or> HasPrefix (hrPath req) (moPrefix m @ ''/'')"

text \<open>The webhook route names the provider in its path.\<close>

definition handleWebhook ::
  "(string \<Rightarrow> string option) \<Rightarrow> (string \<Rightarrow> WorkflowJobEvent \<Rightarrow> ('s, 'e option) state) option \<Rightarrow> string \<Rightarrow> http_req \<Rightarrow> ('s, response) state" where
  "handleWebhook resolveSecret eventHandler prov req = Webhook.Handle resolveSecret eventHandler prov (hrRequest req)"

end
