(* ===== verification/Http_Props.thy ===== *)
theory Http_Props
  imports Http_Server Forge_Targets Registry_Props
begin

text \<open>
  Which origins the server accepts, in terms of host names and ports, and what stands in front of every service.
\<close>

section \<open>Hosts with ports\<close>

definition with_port :: "string \<Rightarrow> string \<Rightarrow> string" where
  "with_port h p = (if p = [] then h else h @ '':'' @ p)"

definition port_digits :: "string \<Rightarrow> bool" where
  "port_digits p \<longleftrightarrow> (\<forall>c \<in> set p. is_digit c)"

lemma digit_plain: "is_digit c \<Longrightarrow> plain_char c"
  by (simp add: plain_char_def)

lemma digit_not_special: "is_digit c \<Longrightarrow> c \<notin> {CHR '':'', CHR ''['', CHR '']'', CHR ''/'', CHR ''@'', CHR ''#'', CHR ''?'', CHR ''%''}"
  by (auto simp: is_digit_def)

lemma plain_char_close [simp]: "\<not> plain_char (CHR '']'')"
  by (simp add: plain_char_def is_letter_def is_digit_def)

lemma plain_special: "plain_name h \<Longrightarrow> x \<in> {CHR '':'', CHR ''['', CHR '']'', CHR ''/'', CHR ''@'', CHR ''#'', CHR ''?'', CHR ''%''} \<Longrightarrow> x \<notin> set h"
  using plain_char_cases plain_char_close by (auto simp: plain_name_def)

lemma port_special: "port_digits p \<Longrightarrow> x \<in> {CHR '':'', CHR ''['', CHR '']'', CHR ''/'', CHR ''@'', CHR ''#'', CHR ''?'', CHR ''%''} \<Longrightarrow> x \<notin> set p"
  using digit_not_special by (fastforce simp: port_digits_def)

lemma with_port_special:
  assumes "plain_name h" "port_digits p" "x \<in> {CHR ''['', CHR '']'', CHR ''/'', CHR ''@'', CHR ''#'', CHR ''?'', CHR ''%''}"
  shows "x \<notin> set (with_port h p)"
  using assms plain_special [OF assms(1), of x] port_special [OF assms(2), of x] by (auto simp: with_port_def)

lemma with_port_colon:
  assumes "plain_name h" "port_digits p"
  shows "LastIndex (with_port h p) (CHR '':'') = (if p = [] then None else Some (length h))"
  using plain_special [OF assms(1), of "CHR '':''"] port_special [OF assms(2), of "CHR '':''"] LastIndex_last [of "CHR '':''" p h]
  by (simp add: with_port_def LastIndex_None)

lemma no_bracket: "CHR ''['' \<notin> set s \<Longrightarrow> \<not> HasPrefix s ''[''"
  by (cases s) (auto simp: HasPrefix_def)

lemma url_host_port_with_port:
  assumes "plain_name h" "port_digits p"
  shows "url_host_port (with_port h p) = (h, p)"
proof -
  have "\<not> HasPrefix h ''[''" using no_bracket plain_special [OF assms(1), of "CHR ''[''"] by simp
  moreover have "validOptionalPort ('':'' @ p)" using assms(2) by (simp add: validOptionalPort_def port_digits_def)
  ultimately show ?thesis using with_port_colon [OF assms] by (simp add: url_host_port_def with_port_def)
qed

lemma SplitHostPort_with_port:
  assumes "plain_name h" "port_digits p"
  shows "SplitHostPort (with_port h p) = (if p = [] then None else Some (h, p))"
proof -
  note special = with_port_special [OF assms] plain_special [OF assms(1), of "CHR '':''"]
  have "\<not> HasPrefix (with_port h p) ''[''" using no_bracket special(1) by simp
  then show ?thesis using with_port_colon [OF assms] special by (simp add: SplitHostPort_def) (simp add: with_port_def)
qed

lemma parseHost_with_port:
  assumes "plain_name h" "port_digits p"
  shows "parseHost (with_port h p) = Some (with_port h p)"
proof (cases "p = []")
  case True
  then show ?thesis using parseHost_plain [OF assms(1)] by (simp add: with_port_def)
next
  case False
  have "\<not> HasPrefix (with_port h p) ''[''" using no_bracket with_port_special [OF assms] by simp
  moreover have "validOptionalPort ('':'' @ p)" using assms(2) by (simp add: validOptionalPort_def port_digits_def)
  moreover have "unescape encodeHost (h @ '':'' @ p) = Some (h @ '':'' @ p)"
  proof -
    have "unescape encodeHost s = Some s" if "\<forall>c \<in> set s. plain_char c \<or> c = CHR '':''" for s
      using that
    proof (induction s)
      case (Cons c s)
      then have c: "plain_char c \<or> c = CHR '':''" by simp
      then have "c \<noteq> CHR ''%''" by auto
      moreover have "\<not> shouldEscape (CHR '':'') encodeHost" by (simp add: shouldEscape_def is_letter_def is_digit_def)
      ultimately have "c \<noteq> CHR ''%''" "\<not> shouldEscape c encodeHost" using c plain_not_escaped by blast+
      with Cons show ?case by simp
    qed simp
    moreover have "\<forall>c \<in> set (h @ '':'' @ p). plain_char c \<or> c = CHR '':''"
      using assms digit_plain by (auto simp: plain_name_def port_digits_def)
    ultimately show ?thesis by blast
  qed
  ultimately show ?thesis using with_port_colon [OF assms] False by (simp add: parseHost_def) (simp add: with_port_def)
qed

lemma Parse_origin:
  assumes "plain_name h" "port_digits p" "scheme = ''http'' \<or> scheme = ''https''"
  shows "\<exists>u. Parse (scheme @ ''://'' @ with_port h p) = Some u \<and> uScheme u = scheme \<and> uHost u = with_port h p"
proof -
  let ?a = "with_port h p"
  note special = with_port_special [OF assms(1,2)]
  have "\<not> is_ctl c" if "c \<in> set ?a" for c
    using that assms digit_plain plain_char_not(2) by (auto simp: with_port_def plain_name_def port_digits_def is_ctl_def split: if_splits)
  then have ctl: "\<forall>c \<in> set (scheme @ ''://'' @ ?a). \<not> is_ctl c" using assms(3) by (auto simp: is_ctl_def)
  have hash: "CHR ''#'' \<notin> set (scheme @ ''://'' @ ?a)" using special [of "CHR ''#''"] assms(3) by auto
  have q: "CHR ''?'' \<notin> set (''//'' @ ?a)" using special [of "CHR ''?''"] by auto
  have gs: "getScheme (scheme @ ''://'' @ ?a) = Some (scheme, ''//'' @ ?a)"
    using assms(3) by (auto simp: getScheme_def scheme_char_def is_letter_def is_digit_def)
  have slash: "takeWhile (\<lambda>x. x \<noteq> CHR ''/'') ?a = ?a" "dropWhile (\<lambda>x. x \<noteq> CHR ''/'') ?a = []"
    using special [of "CHR ''/''"] by (auto simp: takeWhile_eq_all_conv dropWhile_eq_Nil_conv)
  have "CHR ''@'' \<notin> set ?a" using special [of "CHR ''@''"] by auto
  then have auth: "parseAuthority ?a = Some (None, ?a)"
    using parseHost_with_port [OF assms(1,2)] by (simp add: parseAuthority_def LastIndex_None [THEN iffD2])
  have "filter (\<lambda>c. c = CHR ''?'') (''//'' @ ?a) = []" using q by (auto simp: filter_empty_conv)
  moreover have "ToLower scheme = scheme" "scheme \<noteq> []" "scheme @ ''://'' @ ?a \<noteq> ''*''"
    using assms(3) by (auto simp: ToLower_def to_lower_char_def)
  ultimately show ?thesis using ctl gs auth cut_none [OF hash] cut_none [OF q]
    by (simp add: slash Parse_def parse_url_def parse_rest_def setPath_def empty_url_def HasPrefix_def Let_def)
qed

section \<open>Origins\<close>

definition effective_port :: "string \<Rightarrow> string \<Rightarrow> string" where
  "effective_port scheme p = (if p = [] then (if scheme = ''https'' then ''443'' else ''80'') else p)"

lemma ToLower_port: "port_digits p \<Longrightarrow> ToLower p = p"
  by (auto simp: ToLower_def port_digits_def is_digit_def to_lower_char_def Let_def intro!: map_idI)

lemma with_port_parts:
  assumes "CHR '':'' \<notin> set h"
  shows "takeWhile (\<lambda>x. x \<noteq> CHR '':'') (with_port h p) = h"
    "drop 1 (dropWhile (\<lambda>x. x \<noteq> CHR '':'') (with_port h p)) = p"
proof -
  have h: "\<And>x. x \<in> set h \<Longrightarrow> x \<noteq> CHR '':''" using assms by blast
  then show "takeWhile (\<lambda>x. x \<noteq> CHR '':'') (with_port h p) = h"
    using takeWhile_append2 [of h "\<lambda>x. x \<noteq> CHR '':''" "'':'' @ p"] by (simp add: with_port_def takeWhile_eq_all_conv)
  have d1: "dropWhile (\<lambda>x. x \<noteq> CHR '':'') h = []" using h by (simp only: dropWhile_eq_Nil_conv) blast
  have d2: "dropWhile (\<lambda>x. x \<noteq> CHR '':'') (h @ '':'' @ p) = '':'' @ p"
    using dropWhile_append2 [of h "\<lambda>x. x \<noteq> CHR '':''" "'':'' @ p"] h by simp
  show "drop 1 (dropWhile (\<lambda>x. x \<noteq> CHR '':'') (with_port h p)) = p"
  proof (cases "p = []")
    case True
    then show ?thesis by (simp only: with_port_def refl if_True d1 drop_Nil)
  next
    case False
    then show ?thesis by (simp only: with_port_def if_False d2) simp
  qed
qed

lemma EqualFold_with_port:
  assumes "plain_name h" "port_digits p" "plain_name h'" "port_digits p'"
  shows "EqualFold (with_port h p) (with_port h' p') \<longleftrightarrow> EqualFold h h' \<and> p = p'"
proof -
  have lower: "ToLower (with_port a q) = with_port (ToLower a) q" if "port_digits q" for a q
    using ToLower_port [OF that] by (simp add: with_port_def ToLower_def to_lower_char_def)
  have colon: "CHR '':'' \<notin> set (ToLower a)" if "plain_name a" for a
  proof -
    have "to_lower_char c = CHR '':'' \<Longrightarrow> c = CHR '':''" for c
    proof (cases "65 \<le> byte c \<and> byte c \<le> 90")
      case True
      then have "byte (to_lower_char c) = byte c + 32" by (simp add: to_lower_char_def Let_def of_char_of take_bit_eq_mod)
      moreover assume "to_lower_char c = CHR '':''"
      ultimately have "byte c + 32 = 58" by simp
      with True show ?thesis by simp
    qed (auto simp: to_lower_char_def Let_def)
    then show ?thesis using plain_special [OF that, of "CHR '':''"] by (auto simp: ToLower_def) metis
  qed
  show ?thesis
    unfolding EqualFold_def lower [OF assms(2)] lower [OF assms(4)]
    by (metis with_port_parts [OF colon [OF assms(1)]] with_port_parts [OF colon [OF assms(3)]])
qed

text \<open>The origins of a browser that are accepted for a host.\<close>

lemma isSameOrigin_iff:
  assumes "plain_name h" "port_digits p" "scheme = ''http'' \<or> scheme = ''https''" "plain_name h'" "port_digits p'"
  shows "isSameOrigin (scheme @ ''://'' @ with_port h p) (with_port h' p') \<longleftrightarrow>
    EqualFold h h' \<and> (p' = [] \<or> p' = effective_port scheme p)"
proof -
  obtain u where u: "Parse (scheme @ ''://'' @ with_port h p) = Some u" "uScheme u = scheme" "uHost u = with_port h p"
    using Parse_origin [OF assms(1-3)] by blast
  have "Hostname u = h" "url_port u = p"
    using url_host_port_with_port [OF assms(1,2)] by (simp_all add: Hostname_def url_port_def u(3))
  with u assms(3) show ?thesis
    by (auto simp: isSameOrigin_def SplitHostPort_with_port [OF assms(4,5)] EqualFold_with_port [OF assms(1,2,4,5)] effective_port_def Let_def)
      (auto simp: with_port_def)
qed


text \<open>A host that is asked for without a port accepts an origin on any port of it.\<close>

theorem other_port_accepted: "isSameOrigin ''http://ci.example:8080'' ''ci.example''"
  by code_simp

text \<open>A page of another host that asks the pool service to terminate a runner.\<close>

definition ex_foreign :: http_req where
  "ex_foreign = \<lparr>hrMethod = ''POST'', hrPath = ''/supervisor.v1.PoolService/TerminateRunner'', hrHost = ''ci.example:8090'',
     hrRequest = \<lparr>reqHeader = [(''Origin'', ''https://evil.example'')], reqBody = Inr []\<rparr>\<rparr>"

definition ex_options :: server_options where
  "ex_options = \<lparr>soAuthDB = True, soJWTSigningSecret = ''secret'', soPoolDB = True, soAuthProfileDB = False, soOnboardingDB = False,
     soAnalyticsDB = False, soImageUpdateDB = False, soRenovateDB = False, soPoolDBRenovates = False, soDataDir = [],
     soLogStreamer = False, soWebhookReceiver = False\<rparr>"

lemma ex_foreign_host: "plain_name ''evil.example''" "plain_name ''ci.example''" "port_digits []" "port_digits ''8090''"
  by (simp_all add: plain_name_def plain_char_def is_letter_def is_digit_def port_digits_def)

lemma ex_foreign_req:
  "header_get (hrRequest ex_foreign) ''Origin'' = ''https'' @ ''://'' @ with_port ''evil.example'' []"
  "expected_host ex_foreign = with_port ''ci.example'' ''8090''" "\<not> EqualFold ''evil.example'' ''ci.example''"
  by code_simp+

lemma ex_pool_service:
  "\<lparr>moPrefix = ''/supervisor.v1.PoolService'', moAuthenticated = True\<rparr> \<in> set (New_mounts ex_options)"
  "routed_to \<lparr>moPrefix = ''/supervisor.v1.PoolService'', moAuthenticated = True\<rparr> ex_foreign"
  by code_simp+


end
