(* ===== verification/Daemon.thy ===== *)
theory Daemon
  imports Http_Server Seed
begin

text \<open>
  The start of the daemon: its configuration (\<open>src/internal/config\<close>), the opening of the database
  (\<open>src/internal/db/db.go\<close>), the import of a seed on the first boot and the wiring of the services
  (\<open>src/cmd/supervisor/daemon.go\<close>). The library that merges defaults, file, environment and flags, the YAML parser, the
  migrations, the Docker client and the file system are arguments.
\<close>

section \<open>Configuration\<close>

record Config =
  cfDBEncryptionKey :: string
  cfPort :: int
  cfDBPath :: string
  cfLogLevel :: string
  cfDockerHost :: string
  cfDataDir :: string
  cfBackupIntervalHours :: int
  cfBackupRetentionCount :: int
  cfConfigFile :: string
  cfSecureCookie :: bool

datatype config_error =
  UnsupportedExtension string
| DecodingConfiguration string
| InvalidLogLevel string
| InvalidPort int
| EmptyDataDir
| EmptyDBPath
| EmptyDockerHost
| InvalidBackupInterval int
| InvalidBackupRetention int
| MissingEncryptionKey
| WeakEncryptionKey nat

definition EnvConfigFile :: string where "EnvConfigFile = ''SUPERVISOR_CONFIG''"
definition DefaultDBFileName :: string where "DefaultDBFileName = ''supervisor.db''"
definition MinEncryptionKeyBytes :: nat where "MinEncryptionKeyBytes = 32"

text \<open>The value of the flag \<open>--config\<close>, \<open>None\<close> without flags.\<close>

definition configFileFrom :: "string option \<Rightarrow> (string \<Rightarrow> string) \<Rightarrow> string" where
  "configFileFrom flag getenv =
     (case flag of
        Some v \<Rightarrow> if TrimSpace v \<noteq> [] then TrimSpace v else TrimSpace (getenv EnvConfigFile)
      | None \<Rightarrow> TrimSpace (getenv EnvConfigFile))"

text \<open>\<open>filepath.Ext\<close>: from the last dot of the last component on.\<close>

definition Ext :: "string \<Rightarrow> string" where
  "Ext path =
     (let base = rev (takeWhile (\<lambda>c. c \<noteq> CHR ''/'') (rev path))
      in case LastIndex base (CHR ''.'') of None \<Rightarrow> [] | Some i \<Rightarrow> drop i base)"

datatype config_parser = YamlParser | TomlParser

definition fileParser :: "string \<Rightarrow> config_error + config_parser" where
  "fileParser path =
     (let ext = ToLower (Ext path) in
      if ext = ''.yaml'' \<or> ext = ''.yml'' then Inr YamlParser
      else if ext = ''.toml'' then Inr TomlParser
      else Inl (UnsupportedExtension path))"

definition normalize :: "Config \<Rightarrow> Config" where
  "normalize c =
     (let level = ToLower (TrimSpace (cfLogLevel c));
          dataDir = TrimSpace (cfDataDir c);
          dbPath = TrimSpace (cfDBPath c)
      in c\<lparr>cfDBEncryptionKey := TrimSpace (cfDBEncryptionKey c),
           cfLogLevel := (if level = ''warning'' then ''warn'' else level),
           cfDataDir := dataDir,
           cfDBPath := (if dbPath = [] \<and> dataDir \<noteq> [] then path_join [dataDir, DefaultDBFileName] else dbPath),
           cfDockerHost := TrimSpace (cfDockerHost c)\<rparr>)"

definition validateDBEncryptionKey :: "Config \<Rightarrow> config_error option" where
  "validateDBEncryptionKey c =
     (if cfDBEncryptionKey c = [] then Some MissingEncryptionKey
      else if length (cfDBEncryptionKey c) < MinEncryptionKeyBytes then Some (WeakEncryptionKey (length (cfDBEncryptionKey c)))
      else None)"

definition Validate_config :: "Config \<Rightarrow> config_error option" where
  "Validate_config c =
     (if cfLogLevel c \<notin> {''debug'', ''info'', ''warn'', ''error''} then Some (InvalidLogLevel (cfLogLevel c))
      else if cfPort c < 1 \<or> cfPort c > 65535 then Some (InvalidPort (cfPort c))
      else if cfDataDir c = [] then Some EmptyDataDir
      else if cfDBPath c = [] then Some EmptyDBPath
      else if cfDockerHost c = [] then Some EmptyDockerHost
      else if cfBackupIntervalHours c < 1 then Some (InvalidBackupInterval (cfBackupIntervalHours c))
      else if cfBackupRetentionCount c < 1 then Some (InvalidBackupRetention (cfBackupRetentionCount c))
      else validateDBEncryptionKey c)"

text \<open>\<open>merged\<close> is what the library makes of the defaults, the file (with its parser), the environment and the flags.\<close>

definition Load ::
  "((string \<times> config_parser) option \<Rightarrow> string + Config) \<Rightarrow> string option \<Rightarrow> (string \<Rightarrow> string) \<Rightarrow> config_error + Config" where
  "Load merged flag getenv =
     (let configPath = configFileFrom flag getenv;
          layer = (if configPath = [] then Inr None else map_sum id (\<lambda>p. Some (configPath, p)) (fileParser configPath))
      in case layer of
           Inl err \<Rightarrow> Inl err
         | Inr file \<Rightarrow>
             (case merged file of
                Inl err \<Rightarrow> Inl (DecodingConfiguration err)
              | Inr cfg \<Rightarrow> (case Validate_config (normalize cfg) of Some err \<Rightarrow> Inl err | None \<Rightarrow> Inr (normalize cfg))))"

section \<open>The database\<close>

text \<open>
  What is met when a database is opened: the errors of the directory, of the driver and of the migrations, and the
  answer of the integrity check.
\<close>

record open_env =
  oeMkdirAll :: "string \<Rightarrow> string option"
  oeSqlOpen :: "string \<Rightarrow> string option"
  oeQuickCheck :: "string + string"
  oeMigrate :: "string option"

datatype open_error =
  EmptyPath
| CreatingDirectory string
| OpeningDatabase string
| ErrCorrupted string
| InitEncryptor crypto_error
| ErrMigration string

definition is_memory :: "string \<Rightarrow> bool" where
  "is_memory path \<longleftrightarrow> path = '':memory:'' \<or> HasPrefix path ''file::memory:''"

definition buildDSN :: "string \<Rightarrow> string" where
  "buildDSN path =
     (let pragmas = [''_pragma=busy_timeout(5000)'', ''_pragma=foreign_keys(ON)''] @
            (if is_memory path then [] else [''_pragma=journal_mode(WAL)'', ''_pragma=synchronous(NORMAL)'']);
          query = Join pragmas ''&''
      in if Contains path ''?'' then path @ ''&'' @ query else path @ ''?'' @ query)"

definition checkIntegrity :: "string + string \<Rightarrow> open_error option" where
  "checkIntegrity answer =
     (case answer of
        Inl err \<Rightarrow> Some (ErrCorrupted err)
      | Inr check \<Rightarrow> if ToLower (TrimSpace check) \<noteq> ''ok'' then Some (ErrCorrupted check) else None)"

text \<open>\<open>filepath.Dir\<close>.\<close>

definition Dir :: "string \<Rightarrow> string" where
  "Dir path = Clean (rev (dropWhile (\<lambda>c. c \<noteq> CHR ''/'') (rev path)))"

record open_options =
  ooPath :: string
  ooSkipMigrations :: bool
  ooMaxOpenConns :: int
  ooEncryptionKey :: string

record opened =
  odPath :: string
  odMaxOpenConns :: int
  odEncryptor :: "Encryptor option"

definition mkdir_parent :: "open_env \<Rightarrow> string \<Rightarrow> open_error option" where
  "mkdir_parent env path =
     (if is_memory path then None
      else let dir = Dir path in
        if dir \<noteq> [] \<and> dir \<noteq> ''.'' then map_option CreatingDirectory (oeMkdirAll env dir) else None)"

definition Open :: "open_env \<Rightarrow> open_options \<Rightarrow> open_error + opened" where
  "Open env opts =
     (if TrimSpace (ooPath opts) = [] then Inl EmptyPath
      else case mkdir_parent env (ooPath opts) of
        Some err \<Rightarrow> Inl err
      | None \<Rightarrow> (case oeSqlOpen env (buildDSN (ooPath opts)) of
          Some err \<Rightarrow> Inl (OpeningDatabase err)
        | None \<Rightarrow> (case checkIntegrity (oeQuickCheck env) of
            Some err \<Rightarrow> Inl err
          | None \<Rightarrow>
              (case (if ooEncryptionKey opts = [] then Inr None else map_sum InitEncryptor Some (NewEncryptor (ooEncryptionKey opts))) of
                 Inl err \<Rightarrow> Inl err
               | Inr enc \<Rightarrow>
                   (case (if ooSkipMigrations opts then None else oeMigrate env) of
                      Some err \<Rightarrow> Inl (ErrMigration err)
                    | None \<Rightarrow> Inr \<lparr>odPath = ooPath opts, odMaxOpenConns = (if ooMaxOpenConns opts \<le> 0 then 1 else ooMaxOpenConns opts),
                        odEncryptor = enc\<rparr>)))))"

section \<open>The first boot\<close>

record boot_env =
  beSeed :: seed_env
  beIsFile :: "string \<Rightarrow> bool"
  beReadFile :: "string \<Rightarrow> string + string"
  beUnmarshal :: "string \<Rightarrow> string + SeedConfig"
  beOrder :: "nat list"

datatype boot_error =
  EvaluatingSeed db_error
| MarkingSeed db_error
| ReadingSeed string
| ParsingSeed string
| InvalidSeed string
| ImportingSeed seed_error

definition ParseSeedConfig :: "boot_env \<Rightarrow> string \<Rightarrow> boot_error + SeedConfig" where
  "ParseSeedConfig env data =
     (case beUnmarshal env data of
        Inl err \<Rightarrow> Inl (ParsingSeed err)
      | Inr cfg \<Rightarrow> (case Seed.Validate (beOrder env) cfg of Some what \<Rightarrow> Inl (InvalidSeed what) | None \<Rightarrow> Inr cfg))"

definition candidatePaths :: "Config \<Rightarrow> string list" where
  "candidatePaths cfg =
     (if cfConfigFile cfg \<noteq> [] then [cfConfigFile cfg] else []) @
     [path_join [cfDataDir cfg, ''config.yml''], path_join [cfDataDir cfg, ''config.yaml''], ''/config.yml'', ''/config.yaml'']"

definition lift_error :: "('e \<Rightarrow> boot_error) \<Rightarrow> ('s, 'e + 'a) state \<Rightarrow> ('s, boot_error + 'a) state" where
  "lift_error f m = do { r \<leftarrow> m; State_Monad.return (case r of Inl err \<Rightarrow> Inl (f err) | Inr x \<Rightarrow> Inr x) }"

definition import_seed_file :: "boot_env \<Rightarrow> string \<Rightarrow> (config_db, boot_error + unit) state" where
  "import_seed_file env seedPath =
     (case beReadFile env seedPath of
        Inl err \<Rightarrow> State_Monad.return (Inl (ReadingSeed err))
      | Inr data \<Rightarrow> (case ParseSeedConfig env data of
          Inl err \<Rightarrow> State_Monad.return (Inl err)
        | Inr seedCfg \<Rightarrow> lift_error ImportingSeed (ImportSeedConfig (beSeed env) (beOrder env) (beOrder env) seedCfg ImportModeMerge)))"

definition checkAndImportSeed :: "boot_env \<Rightarrow> Config \<Rightarrow> (config_db, boot_error + unit) state" where
  "checkAndImportSeed env cfg =
     attempt (lift_error EvaluatingSeed (ShouldAutoImportSeed (seDB (beSeed env)))) (\<lambda>should.
       if \<not> should then State_Monad.return (Inr ())
       else (case find (beIsFile env) (candidatePaths cfg) of
               None \<Rightarrow> lift_error MarkingSeed (MarkSeedImported (seDB (beSeed env)))
             | Some seedPath \<Rightarrow> import_seed_file env seedPath))"

section \<open>The daemon\<close>

text \<open>
  The options the daemon gives the server. One database serves all the services that need one, also that of the
  Renovate runs.
\<close>

definition daemon_options :: "Config \<Rightarrow> Derived \<Rightarrow> server_options" where
  "daemon_options cfg keys =
     \<lparr>soAuthDB = True, soJWTSigningSecret = dvJWTSigningSecret keys, soPoolDB = True, soAuthProfileDB = True, soOnboardingDB = True,
      soAnalyticsDB = True, soImageUpdateDB = False, soRenovateDB = False, soPoolDBRenovates = True, soDataDir = cfDataDir cfg,
      soLogStreamer = False, soWebhookReceiver = False\<rparr>"

text \<open>The probes of the daemon: the database, and two that are always well.\<close>

definition registerHealthChecks :: "('ctx \<Rightarrow> bool) \<Rightarrow> 'ctx Health \<Rightarrow> 'ctx Health" where
  "registerHealthChecks ping h =
     (let dbCheck = NewCheck ''db'' (\<lambda>ctx. if ping ctx then StatusOK else StatusFail)
      in RegisterReadiness (NewCheck ''auditor'' (\<lambda>ctx. StatusOK))
           (RegisterReadiness (NewCheck ''docker'' (\<lambda>ctx. StatusOK))
             (RegisterReadiness dbCheck (RegisterLiveness dbCheck h))))"

datatype daemon_error =
  DaemonKeys derive_error
| DaemonDatabase open_error
| DaemonSeed boot_error
| DaemonDocker string
| DaemonRenovate string
| DaemonCron string

text \<open>
  The parts the daemon builds beside the database: their errors, when they have one. A failure to read the schedules is
  only logged. The result is what it serves.
\<close>

record daemon_env =
  dmOpen :: open_env
  dmBoot :: "Encryptor option \<Rightarrow> boot_env"
  dmDocker :: "string option"
  dmRenovate :: "string option"
  dmCron :: "string option"

definition runDaemon :: "daemon_env \<Rightarrow> Config \<Rightarrow> (config_db, daemon_error + mounted list) state" where
  "runDaemon env cfg =
     (case Derive (cfDBEncryptionKey cfg) of
        Inl err \<Rightarrow> State_Monad.return (Inl (DaemonKeys err))
      | Inr keys \<Rightarrow>
          (case Open (dmOpen env) \<lparr>ooPath = cfDBPath cfg, ooSkipMigrations = False, ooMaxOpenConns = 0,
              ooEncryptionKey = dvDBEncryptionKey keys\<rparr> of
             Inl err \<Rightarrow> State_Monad.return (Inl (DaemonDatabase err))
           | Inr database \<Rightarrow> do {
               r \<leftarrow> checkAndImportSeed (dmBoot env (odEncryptor database)) cfg;
               State_Monad.return
                 (case r of
                    Inl err \<Rightarrow> Inl (DaemonSeed err)
                  | Inr _ \<Rightarrow>
                      (case (dmDocker env, dmRenovate env, dmCron env) of
                         (Some err, _, _) \<Rightarrow> Inl (DaemonDocker err)
                       | (None, Some err, _) \<Rightarrow> Inl (DaemonRenovate err)
                       | (None, None, Some err) \<Rightarrow> Inl (DaemonCron err)
                       | (None, None, None) \<Rightarrow> Inr (New_mounts (daemon_options cfg keys))))
             }))"

end
