(* ===== verification/Daemon_Props.thy ===== *)
theory Daemon_Props
  imports Daemon Seed_Props Http_Props
begin

text \<open>
  A daemon that starts has keys, encrypts its credentials and authenticates every service; a seed is imported on the
  first boot only.
\<close>

section \<open>Configuration\<close>

lemma Load_valid:
  assumes "Load merged flag getenv = Inr cfg"
  shows "1 \<le> cfPort cfg \<and> cfPort cfg \<le> 65535 \<and> cfDataDir cfg \<noteq> [] \<and> cfDBPath cfg \<noteq> [] \<and> cfDockerHost cfg \<noteq> [] \<and>
    1 \<le> cfBackupIntervalHours cfg \<and> 1 \<le> cfBackupRetentionCount cfg \<and> 32 \<le> length (cfDBEncryptionKey cfg) \<and>
    cfLogLevel cfg \<in> {''debug'', ''info'', ''warn'', ''error''}"
proof -
  from assms have "Validate_config cfg = None"
    by (auto simp: Load_def Let_def split: if_splits sum.splits option.splits)
  then show ?thesis by (auto simp: Validate_config_def validateDBEncryptionKey_def MinEncryptionKeyBytes_def split: if_splits)
qed

text \<open>Every problem of a configuration is reported; what is left out has the documented default for the database.\<close>

lemma normalize_db_path:
  "TrimSpace (cfDBPath c) = [] \<Longrightarrow> TrimSpace (cfDataDir c) \<noteq> [] \<Longrightarrow>
     cfDBPath (normalize c) = path_join [TrimSpace (cfDataDir c), ''supervisor.db'']"
  by (simp add: normalize_def DefaultDBFileName_def Let_def)

section \<open>The first boot\<close>

definition settled :: "config_db \<Rightarrow> bool" where
  "settled s \<longleftrightarrow> mget (cbSettings s) AppSettingSeedImported = Some ''true'' \<or> tPools (cbTables s) \<noteq> [] \<or> cbProfiles s \<noteq> []"

lemma settled_content: "content a = content b \<Longrightarrow> settled a = settled b"
proof -
  have "settled (content x) = settled x" for x by (simp add: settled_def content_def)
  then show "content a = content b \<Longrightarrow> settled a = settled b" by metis
qed

lemma ShouldAutoImportSeed_run:
  assumes "run_state (ShouldAutoImportSeed env) s = (r, s')"
  shows "content s' = content s \<and> (r = Inr False \<longrightarrow> settled s) \<and> (reliable env \<longrightarrow> r = Inr (\<not> settled s))"
  using assms
  by (auto simp: ShouldAutoImportSeed_def GetAppSetting_def CountRunnerPools_def CountAuthProfiles_def cb_statement_def attempt_def
      settled_def reliable_def content_def split: option.splits if_splits sum.splits)

lemma import_settles:
  assumes "run_state (ImportSeedConfig env o1 o2 cfg mode) s = (Inr (), s')"
  shows "settled s'"
proof -
  from assms obtain s1 u where "run_state (MarkSeedImported (seDB env)) s1 = (Inr u, s')"
    by (auto simp: ImportSeedConfig_def attempt_def split: option.splits prod.splits sum.splits)
  from mark_result [OF this, of undefined undefined] show ?thesis by (simp add: settled_def)
qed

lemma first_boot_settles:
  assumes "run_state (checkAndImportSeed env cfg) s = (Inr (), s')"
  shows "settled s'"
proof -
  obtain r s1 where should: "run_state (ShouldAutoImportSeed (seDB (beSeed env))) s = (r, s1)" by fastforce
  note run = ShouldAutoImportSeed_run [OF should]
  from assms should obtain b where r: "r = Inr b"
    by (cases r) (auto simp: checkAndImportSeed_def attempt_def lift_error_def)
  show ?thesis
  proof (cases b)
    case False
    with assms should r run settled_content [of s1 s] show ?thesis
      by (auto simp: checkAndImportSeed_def attempt_def lift_error_def)
  next
    case True
    show ?thesis
    proof (cases "find (beIsFile env) (candidatePaths cfg)")
      case None
      with True assms should r obtain y where "run_state (MarkSeedImported (seDB (beSeed env))) s1 = (y, s')" "\<not> isl y"
        by (auto simp: checkAndImportSeed_def attempt_def lift_error_def split: prod.splits sum.splits)
      from mark_result [OF this(1), of undefined undefined] this(2) show ?thesis by (simp add: settled_def)
    next
      case (Some p)
      with True assms should r show ?thesis
        by (auto simp: checkAndImportSeed_def attempt_def lift_error_def import_seed_file_def intro: import_settles
            split: prod.splits sum.splits)
    qed
  qed
qed

text \<open>
  The seed is imported once. After a start that got past the seed, with or without a file, any later start leaves the
  data alone, whatever files there are by then and whatever its configuration names.
\<close>

theorem first_boot_once:
  assumes "run_state (checkAndImportSeed env cfg) s = (Inr (), s')" "reliable (seDB (beSeed env'))"
  shows "\<exists>s''. run_state (checkAndImportSeed env' cfg') s' = (Inr (), s'') \<and> content s'' = content s'"
proof -
  obtain r s'' where should: "run_state (ShouldAutoImportSeed (seDB (beSeed env'))) s' = (r, s'')" by fastforce
  with ShouldAutoImportSeed_run [OF should] first_boot_settles [OF assms(1)] assms(2) show ?thesis
    by (auto simp: checkAndImportSeed_def attempt_def lift_error_def)
qed

text \<open>
  The daemon's own configuration file is the first one looked for, so that the seed beside the data is not read when
  there is one.
\<close>

theorem config_file_taken_for_seed:
  assumes "cfConfigFile cfg \<noteq> []" "beIsFile env (cfConfigFile cfg)" "beReadFile env (cfConfigFile cfg) = Inr text"
    and "beUnmarshal env text = Inl err" "\<not> settled s" "reliable (seDB (beSeed env))"
  shows "fst (run_state (checkAndImportSeed env cfg) s) = Inl (ParsingSeed err)"
proof -
  obtain r s1 where should: "run_state (ShouldAutoImportSeed (seDB (beSeed env))) s = (r, s1)" by fastforce
  with ShouldAutoImportSeed_run [OF should] assms show ?thesis
    by (simp add: checkAndImportSeed_def attempt_def lift_error_def candidatePaths_def import_seed_file_def ParseSeedConfig_def)
qed

section \<open>The daemon\<close>

lemma daemon_mounts:
  assumes "Derive key = Inr keys" "m \<in> set (New_mounts (daemon_options cfg keys))"
  shows "moAuthenticated m"
proof -
  have "dvJWTSigningSecret keys \<noteq> []" using Derive_sizes [OF assms(1)] by auto
  with assms(2) show ?thesis
    by (auto simp: New_mounts_def mount_if_def MountConnectHandler_def ConnectHandlerOptions_def daemon_options_def split: if_splits)
qed

lemma Open_encrypts:
  assumes "Open env \<lparr>ooPath = p, ooSkipMigrations = sk, ooMaxOpenConns = n, ooEncryptionKey = key\<rparr> = Inr d" "length key = 32"
  shows "odEncryptor d = Some \<lparr>encKey = key\<rparr>" "checkIntegrity (oeQuickCheck env) = None"
  using assms by (auto simp: Open_def NewEncryptor_def split: if_splits option.splits)


section \<open>Examples\<close>

definition ex_cfg :: Config where
  "ex_cfg = \<lparr>cfDBEncryptionKey = replicate 32 (CHR ''k''), cfPort = 8090, cfDBPath = ''/data/supervisor.db'', cfLogLevel = ''info'',
     cfDockerHost = ''unix:///var/run/docker.sock'', cfDataDir = ''/data'', cfBackupIntervalHours = 6, cfBackupRetentionCount = 7,
     cfConfigFile = [], cfSecureCookie = False\<rparr>"

definition ex_daemon :: daemon_env where
  "ex_daemon = \<lparr>dmOpen = \<lparr>oeMkdirAll = (\<lambda>d. None), oeSqlOpen = (\<lambda>d. None), oeQuickCheck = Inr ''ok'', oeMigrate = None\<rparr>,
     dmBoot = (\<lambda>enc. \<lparr>beSeed = ex_seed_env, beIsFile = (\<lambda>p. False), beReadFile = (\<lambda>p. Inl []), beUnmarshal = (\<lambda>t. Inl []), beOrder = []\<rparr>),
     dmDocker = None, dmRenovate = None, dmCron = None\<rparr>"

lemma ex_loaded: "Load (\<lambda>f. Inr (ex_cfg\<lparr>cfLogLevel := '' INFO '', cfDBPath := []\<rparr>)) None (\<lambda>v. []) = Inr ex_cfg"
  by code_simp

lemma ex_first_boot: "fst (run_state (checkAndImportSeed (dmBoot ex_daemon enc) ex_cfg) ex_config) = Inr ()"
  by (simp add: checkAndImportSeed_def attempt_def lift_error_def ShouldAutoImportSeed_def GetAppSetting_def CountRunnerPools_def
      CountAuthProfiles_def MarkSeedImported_def SetAppSetting_def cb_statement_def ex_daemon_def ex_seed_env_def ex_db_env_def
      ex_config_def candidatePaths_def ex_cfg_def)

lemma ex_opens:
  assumes "length key = 32"
  shows "\<exists>d. Open (dmOpen ex_daemon) \<lparr>ooPath = cfDBPath ex_cfg, ooSkipMigrations = False, ooMaxOpenConns = 0, ooEncryptionKey = key\<rparr> = Inr d"
proof -
  have "TrimSpace (cfDBPath ex_cfg) \<noteq> []" "checkIntegrity (Inr ''ok'') = None" by code_simp+
  with assms show ?thesis by (auto simp: Open_def ex_daemon_def mkdir_parent_def NewEncryptor_def Let_def)
qed

lemma ex_serves: "\<not> isl (fst (run_state (runDaemon ex_daemon ex_cfg) ex_config))"
proof -
  obtain keys where keys: "Derive (cfDBEncryptionKey ex_cfg) = Inr keys"
    using Derive_total [of "cfDBEncryptionKey ex_cfg"] by (auto simp: ex_cfg_def)
  from ex_opens Derive_sizes [OF this] obtain d where
    d: "Open (dmOpen ex_daemon) \<lparr>ooPath = cfDBPath ex_cfg, ooSkipMigrations = False, ooMaxOpenConns = 0,
      ooEncryptionKey = dvDBEncryptionKey keys\<rparr> = Inr d" by blast
  have "dmDocker ex_daemon = None" "dmRenovate ex_daemon = None" "dmCron ex_daemon = None" by (simp_all add: ex_daemon_def)
  then show ?thesis using keys d ex_first_boot [of "odEncryptor d"] by (auto simp: runDaemon_def split: prod.splits)
qed


end
