(* ===== verification/Logging.thy ===== *)
theory Logging
  imports Go_Prelude
begin

text \<open>
  \<open>src/internal/logging\<close>: module loggers exist before the configuration is known. They log through one root
  whose delegate is first a bounded buffer and, from \<open>Setup\<close> on, the configured handler, through which the buffered
  records are drained. What a handler of the standard library makes of attributes and groups is written as the
  leaves of a record: a path of group names and a key, with the value. The encoding of a line is left out.
\<close>

section \<open>Records\<close>

datatype log_attr = LAttr string string | LGroup string "log_attr list"

record log_record =
  lrLevel :: int
  lrMessage :: string
  lrAttrs :: "log_attr list"

definition LevelTrace :: int where "LevelTrace = - 8"
definition LevelDebug :: int where "LevelDebug = - 4"
definition LevelInfo :: int where "LevelInfo = 0"
definition LevelWarn :: int where "LevelWarn = 4"
definition LevelError :: int where "LevelError = 8"

definition levelNames :: "int \<Rightarrow> string option" where
  "levelNames l =
     (if l = LevelTrace then Some ''TRACE'' else if l = LevelDebug then Some ''DEBUG'' else if l = LevelInfo then Some ''INFO''
      else if l = LevelWarn then Some ''WARN'' else if l = LevelError then Some ''ERROR'' else None)"

definition ParseLevel :: "string \<Rightarrow> int option" where
  "ParseLevel val =
     (let v = ToLower (TrimSpace val) in
      if v = ''debug'' then Some LevelDebug
      else if v = [] \<or> v = ''info'' then Some LevelInfo
      else if v = ''warn'' \<or> v = ''warning'' then Some LevelWarn
      else if v = ''error'' then Some LevelError
      else None)"

section \<open>Binding attributes and groups\<close>

datatype bind_op = BindGroup string | BindAttrs "log_attr list"

text \<open>\<open>WithAttrs\<close> and \<open>WithGroup\<close> of a deferred handler only remember what to bind; nothing is nothing.\<close>

definition WithAttrs :: "bind_op list \<Rightarrow> log_attr list \<Rightarrow> bind_op list" where
  "WithAttrs ops attrs = (if attrs = [] then ops else ops @ [BindAttrs attrs])"

definition WithGroup :: "bind_op list \<Rightarrow> string \<Rightarrow> bind_op list" where
  "WithGroup ops name = (if name = [] then ops else ops @ [BindGroup name])"

definition For :: "string \<Rightarrow> bind_op list" where
  "For module_name = WithAttrs [] [LAttr ''module'' module_name]"

text \<open>The leaves of attributes below a path of groups.\<close>

type_synonym leaf = "string list \<times> string"

fun attr_leaves :: "string list \<Rightarrow> log_attr \<Rightarrow> leaf list" where
  "attr_leaves path (LAttr k v) = [(path @ [k], v)]"
| "attr_leaves path (LGroup g as) = concat (map (attr_leaves (path @ [g])) as)"

definition all_leaves :: "string list \<Rightarrow> log_attr list \<Rightarrow> leaf list" where
  "all_leaves path as = concat (map (attr_leaves path) as)"

text \<open>A handler that is bound directly: attributes are below the groups that were opened before them.\<close>

fun bound_leaves :: "string list \<Rightarrow> bind_op list \<Rightarrow> leaf list" where
  "bound_leaves path [] = []"
| "bound_leaves path (BindGroup g # ops) = bound_leaves (path @ [g]) ops"
| "bound_leaves path (BindAttrs as # ops) = all_leaves path as @ bound_leaves path ops"

fun groups_of :: "bind_op list \<Rightarrow> string list" where
  "groups_of [] = []"
| "groups_of (BindGroup g # ops) = g # groups_of ops"
| "groups_of (BindAttrs as # ops) = groups_of ops"

record log_line =
  llLevel :: int
  llMessage :: string
  llLeaves :: "leaf list"

definition line_of :: "bind_op list \<Rightarrow> log_record \<Rightarrow> log_line" where
  "line_of ops r = \<lparr>llLevel = lrLevel r, llMessage = lrMessage r, llLeaves = bound_leaves [] ops @ all_leaves (groups_of ops) (lrAttrs r)\<rparr>"

text \<open>\<open>replayOps\<close>: the attributes of a chain, each wrapped in the groups before it, innermost last.\<close>

definition wrap_groups :: "string list \<Rightarrow> log_attr list \<Rightarrow> log_attr list" where
  "wrap_groups groups as = foldr (\<lambda>g xs. [LGroup g xs]) groups as"

fun replay :: "string list \<Rightarrow> bind_op list \<Rightarrow> log_attr list" where
  "replay groups [] = []"
| "replay groups (BindGroup g # ops) = replay (groups @ [g]) ops"
| "replay groups (BindAttrs as # ops) = wrap_groups groups as @ replay groups ops"

definition replayOps :: "bind_op list \<Rightarrow> log_attr list" where "replayOps ops = replay [] ops"

section \<open>The root\<close>

definition bootstrapBufferCapacity :: nat where "bootstrapBufferCapacity = 256"

text \<open>The delegate is the buffer until the first set-up, then a handler with its lowest level. The output is all lines so far.\<close>

datatype delegate = Buffer "log_record list" | Handler int

record log_root =
  lgDelegate :: delegate
  lgOut :: "log_line list"

definition bootstrap_root :: log_root where
  "bootstrap_root = \<lparr>lgDelegate = Buffer [], lgOut = []\<rparr>"

text \<open>Queueing a record, of which the newest are kept.\<close>

definition buffer_handle :: "log_record list \<Rightarrow> log_record \<Rightarrow> log_record list" where
  "buffer_handle records r =
     (let rs = records @ [r]
      in if length rs > bootstrapBufferCapacity then drop (length rs - bootstrapBufferCapacity) rs else rs)"

definition buffered_bound :: "bind_op list \<Rightarrow> log_record \<Rightarrow> log_record" where
  "buffered_bound ops r =
     (let attrs = replayOps ops in if attrs \<noteq> [] then r\<lparr>lrAttrs := lrAttrs r @ attrs\<rparr> else r)"

text \<open>A record that a logger with the given chain emits, if its level is enabled.\<close>

definition log_call :: "bind_op list \<times> log_record \<Rightarrow> log_root \<Rightarrow> log_root" where
  "log_call c s =
     (case c of (ops, r) \<Rightarrow>
        (case lgDelegate s of
           Buffer records \<Rightarrow> s\<lparr>lgDelegate := Buffer (buffer_handle records (buffered_bound ops r))\<rparr>
         | Handler lowest \<Rightarrow> if lowest \<le> lrLevel r then s\<lparr>lgOut := lgOut s @ [line_of ops r]\<rparr> else s))"

definition drain_buffer :: "int \<Rightarrow> log_record list \<Rightarrow> log_line list" where
  "drain_buffer lowest records = map (line_of []) (filter (\<lambda>r. lowest \<le> lrLevel r) records)"

definition swap_handler :: "int \<Rightarrow> log_root \<Rightarrow> log_root" where
  "swap_handler lowest s =
     (case lgDelegate s of
        Buffer records \<Rightarrow> \<lparr>lgDelegate = Handler lowest, lgOut = lgOut s @ drain_buffer lowest records\<rparr>
      | Handler _ \<Rightarrow> s\<lparr>lgDelegate := Handler lowest\<rparr>)"

definition min_level :: "int \<Rightarrow> int" where
  "min_level level = (if level = LevelDebug then LevelTrace else level)"

text \<open>An unknown level or format is an error, and nothing is set up.\<close>

definition Setup :: "string \<Rightarrow> string \<Rightarrow> log_root \<Rightarrow> bool \<times> log_root" where
  "Setup level format s =
     (case ParseLevel level of
        None \<Rightarrow> (False, s)
      | Some l \<Rightarrow> if format \<in> {[], ''json'', ''text''} then (True, swap_handler (min_level l) s) else (False, s))"

section \<open>Nothing is lost\<close>

lemma all_leaves_append [simp]: "all_leaves p (as @ bs) = all_leaves p as @ all_leaves p bs"
  by (simp add: all_leaves_def)

lemma wrap_leaves: "all_leaves path (wrap_groups gs as) = all_leaves (path @ gs) as"
  by (induction gs arbitrary: path) (simp_all add: wrap_groups_def all_leaves_def)

lemma replay_leaves: "all_leaves [] (replay gs ops) = bound_leaves gs ops"
  by (induction gs ops rule: replay.induct) (simp_all add: wrap_leaves, simp add: all_leaves_def)

lemma replayOps_leaves: "all_leaves [] (replayOps ops) = bound_leaves [] ops"
  by (simp add: replayOps_def replay_leaves)

text \<open>Lines that say the same, up to the order of their attributes.\<close>

definition same_line :: "log_line \<Rightarrow> log_line \<Rightarrow> bool" where
  "same_line a b \<longleftrightarrow> llLevel a = llLevel b \<and> llMessage a = llMessage b \<and> mset (llLeaves a) = mset (llLeaves b)"

lemma buffered_line:
  assumes "groups_of ops = []"
  shows "same_line (line_of [] (buffered_bound ops r)) (line_of ops r)"
proof -
  have "all_leaves [] (lrAttrs (buffered_bound ops r)) = all_leaves [] (lrAttrs r) @ bound_leaves [] ops"
    using replayOps_leaves [of ops] by (auto simp: buffered_bound_def all_leaves_def Let_def)
  with assms show ?thesis by (simp add: same_line_def line_of_def buffered_bound_def Let_def)
qed

lemma log_buffered:
  "lgDelegate s = Buffer rs \<Longrightarrow> length rs + length cs \<le> bootstrapBufferCapacity \<Longrightarrow>
     fold log_call cs s = s\<lparr>lgDelegate := Buffer (rs @ map (\<lambda>(ops, r). buffered_bound ops r) cs)\<rparr>"
proof (induction cs arbitrary: s rs)
  case (Cons c cs)
  obtain ops r where c: "c = (ops, r)" by (cases c)
  let ?s = "s\<lparr>lgDelegate := Buffer (rs @ [buffered_bound ops r])\<rparr>"
  have "log_call c s = ?s" using Cons.prems by (simp add: log_call_def c buffer_handle_def Let_def)
  then show ?case using Cons.IH [of ?s "rs @ [buffered_bound ops r]"] Cons.prems by (simp add: c)
qed simp

lemma log_handled:
  "lgDelegate s = Handler lowest \<Longrightarrow>
     fold log_call cs s = s\<lparr>lgOut := lgOut s @ map (\<lambda>(ops, r). line_of ops r) (filter (\<lambda>(ops, r). lowest \<le> lrLevel r) cs)\<rparr>"
proof (induction cs arbitrary: s)
  case (Cons c cs)
  then show ?case by (cases c) (auto simp: log_call_def)
qed simp

text \<open>
  Setting up late is setting up early. As long as no more than 256 records are logged before, by loggers without groups, the
  output after \<open>Setup\<close> is what it would be if the handler had been there from the start: the same lines in the same order,
  filtered by the configured level, up to the order of attributes; and it goes on in the same way.
\<close>

theorem late_setup_equivalent:
  assumes "length cs \<le> bootstrapBufferCapacity" "\<forall>(ops, r) \<in> set cs. groups_of ops = []" "fst (Setup level format bootstrap_root)"
  shows "list_all2 same_line (lgOut (fold log_call ds (snd (Setup level format (fold log_call cs bootstrap_root)))))
    (lgOut (fold log_call ds (fold log_call cs (snd (Setup level format bootstrap_root)))))"
proof -
  from assms(3) obtain l where l: "ParseLevel level = Some l" "format \<in> {[], ''json'', ''text''}"
    by (auto simp: Setup_def split: option.splits if_splits)
  let ?m = "min_level l" and ?ds = "map (\<lambda>(ops, r). line_of ops r) (filter (\<lambda>(ops, r). min_level l \<le> lrLevel r) ds)"
  have level: "lrLevel (buffered_bound ops r) = lrLevel r" for ops r by (simp add: buffered_bound_def Let_def)
  have late: "lgOut (fold log_call ds (snd (Setup level format (fold log_call cs bootstrap_root)))) =
      drain_buffer ?m (map (\<lambda>(ops, r). buffered_bound ops r) cs) @ ?ds"
    using l log_buffered [of bootstrap_root "[]" cs] assms(1) by (simp add: Setup_def swap_handler_def bootstrap_root_def log_handled)
  have early: "lgOut (fold log_call ds (fold log_call cs (snd (Setup level format bootstrap_root)))) =
      map (\<lambda>(ops, r). line_of ops r) (filter (\<lambda>(ops, r). ?m \<le> lrLevel r) cs) @ ?ds"
    using l by (simp add: Setup_def swap_handler_def bootstrap_root_def log_handled drain_buffer_def)
  have "list_all2 same_line (drain_buffer ?m (map (\<lambda>(ops, r). buffered_bound ops r) cs))
      (map (\<lambda>(ops, r). line_of ops r) (filter (\<lambda>(ops, r). ?m \<le> lrLevel r) cs))"
    using assms(2) by (induction cs) (auto simp: drain_buffer_def level buffered_line)
  moreover have "list_all2 same_line ?ds ?ds" by (simp add: list_all2_same same_line_def)
  ultimately show ?thesis unfolding late early by (rule list_all2_appendI)
qed

text \<open>Records of a logger with an open group lose that group when they are buffered.\<close>

lemma buffered_group_lost:
  "llLeaves (line_of [BindGroup ''g''] \<lparr>lrLevel = 0, lrMessage = ''m'', lrAttrs = [LAttr ''k'' ''v'']\<rparr>) = [([''g'', ''k''], ''v'')]"
  "llLeaves (line_of [] (buffered_bound [BindGroup ''g''] \<lparr>lrLevel = 0, lrMessage = ''m'', lrAttrs = [LAttr ''k'' ''v'']\<rparr>)) = [([''k''], ''v'')]"
  by code_simp+

text \<open>Debug and trace records come out only in the mode for debugging.\<close>

lemma debug_only_when_asked:
  assumes "Setup level format s = (True, s')" "r = \<lparr>lrLevel = l, lrMessage = m, lrAttrs = as\<rparr>" "l \<in> {LevelDebug, LevelTrace}"
  shows "lgOut (log_call (ops, r) s') \<noteq> lgOut s' \<longleftrightarrow> ToLower (TrimSpace level) = ''debug''"
  using assms
  by (auto simp: Setup_def swap_handler_def log_call_def min_level_def ParseLevel_def LevelDebug_def LevelTrace_def LevelInfo_def LevelWarn_def LevelError_def
      Let_def split: option.splits if_splits delegate.splits)

end
