(* ===== verification/Spec2Isabelle.thy ===== *)
theory Spec2Isabelle
  imports System Queue_Props Scale_Props Shutdown_Props Docker_Props Rate_Limit Segregation Cron_Props Pool_Props Auth_Props
    Registry_Props Image_Props Renovate_Props Maintenance_Props Seed_Props Job_Logs_Props Forge_Props Forge_Targets Providers Health_Checks Pool_Runner_Props Analytics_Props Http_Props Daemon_Props Logging
begin

text \<open>
  A verification library for the supervisor of ephemeral CI runners in \<open>src/\<close>: a daemon that keeps pools
  of runner containers on one Docker host, scales them from webhooks of GitHub, Gitea and Forgejo, and
  offers an authenticated API to configure them.

  \<^bold>\<open>The program and how its parts interact.\<close> The pool controller (\<open>internal/orchestrator/controller.go\<close>)
  owns the list of running containers through the reconciler (\<open>auditor.go\<close>), reads the pools from the
  database, registers runners at a forge and starts containers through the Docker engine
  (\<open>docker/docker.go\<close>), whose outages the health tracker (\<open>degraded.go\<close>) records. Containers that die come
  back through the event listener (\<open>events.go\<close>); jobs arrive through the webhook receiver
  (\<open>internal/webhook/webhook.go\<close>) and the scaling code (\<open>webhook_scaling.go\<close>). Requests to the forges pass
  the rate-limit transport, container specifications the credential scanner (\<open>internal/provider\<close>). Renovate
  jobs are fired by the cron scheduler (\<open>internal/cron\<close>). The API (\<open>internal/server\<close>) authenticates every
  request and edits the pools, profiles and settings that the controller reads. Credentials are encrypted with
  a key derived from the master key (\<open>internal/keys\<close>, \<open>internal/db/crypto.go\<close>). A first start imports a seed
  configuration (\<open>internal/db/seed.go\<close>); background loops prune the job history and take backups.

  \<^bold>\<open>Foundations.\<close> \<open>Go_Prelude\<close> (strings, \<open>int64\<close> arithmetic and saturation, times and durations as
  nanoseconds, Go maps as association lists whose iteration order is an argument), \<open>Go_Effects\<close> (code with
  effects as state monads, with Hoare triples and the collection \<open>keeps\<close> of invariant rules), \<open>Go_Json\<close>
  (a JSON decoder), \<open>Go_Marshal\<close> (its encoder), \<open>Go_Url\<close> (\<open>net/url\<close> parsing), \<open>Go_Crypto\<close> (SHA-256 and HMAC on 32-bit words, hex),
  \<open>Go_Aead\<close> (AES-256, GCM, HKDF and base64).

  \<^bold>\<open>Components.\<close> Each theory names the file it follows; definitions carry the names of the Go functions.
  \<^item> \<open>Reconciler\<close>, \<open>Audit_Props\<close>: \<open>auditor.go\<close>. An audit is characterised per container, and its report.
  \<^item> \<open>Naming\<close>, \<open>Log_Files\<close>: \<open>naming.go\<close> and the log clean-up. Names fit Docker's rules.
  \<^item> \<open>Controller\<close>: every method of \<open>PoolController\<close>, over a record of its fields, with the trace of calls to
    the engine. \<open>Controller_Logic\<close> states the contract of invariants as locales whose lemmas walk through
    each operation once; \<open>Controller_Invariants\<close> and \<open>System\<close> interpret them for the quota, the limit of a
    pool and the absence of nil dereferences. \<open>Queue_Props\<close>, \<open>Scale_Props\<close> and \<open>Shutdown_Props\<close> hold the
    behaviour of the queue, of scaling and of the shutdowns.
  \<^item> \<open>Webhook\<close>, \<open>Webhook_Scaling\<close>, \<open>Scaling_Props\<close>: the receiver from bytes to events, the match of a job
    with a pool.
  \<^item> \<open>Outage_Alarm\<close> is the abstract specification of an alarm that is raised once per outage (a locale);
    \<open>Docker_Health\<close> and \<open>Rate_Limit\<close> interpret it. \<open>Rate_Limit\<close> also has the retry loop and its delays.
  \<^item> \<open>Docker_Client\<close>, \<open>Docker_Props\<close>: the client of the Docker API, over an arbitrary API that may fail at
    any call. \<open>Container_Events\<close>: the listener with its reconnections.
  \<^item> \<open>Segregation\<close>: the scanner of container specifications for credentials.
  \<^item> \<open>Cron_Scheduler\<close>, \<open>Cron_Props\<close>: jobs as objects on a heap, shared with the goroutines that run them.
  \<^item> \<open>Pool_Store\<close>, \<open>Pool_Service\<close>, \<open>Pool_Props\<close>: the tables of pools with their constraints and the service
    that edits them; any statement may fail.
  \<^item> \<open>Auth\<close>, \<open>Auth_Props\<close>: the administrator, sessions and the interceptor, over histories of requests.
  \<^item> \<open>Credentials\<close>: key derivation and the encryption of credentials, which decrypt to themselves and nothing
    else decrypts. \<open>Profiles\<close>, \<open>Profile_Props\<close>: the tables of authentication profiles and settings, their
    services and the onboarding; stored credentials are always encrypted and read back as sent.
  \<^item> \<open>Seed\<close>, \<open>Seed_Props\<close>: import of a configuration in one transaction, all or nothing, and its export, which
    reveals no credential; an export merged back keeps every credential.
  \<^item> \<open>Registry\<close>, \<open>Registry_Props\<close>: image references and the client of image registries. \<open>Image_Update\<close>,
    \<open>Image_Props\<close>: the notices of newer images, with the pulls under way as steps of their own.
  \<^item> \<open>Renovate\<close>, \<open>Renovate_Props\<close>: Renovate runs from the trigger to the recorded outcome.
  \<^item> \<open>Maintenance\<close>, \<open>Maintenance_Props\<close>: retention of job records and log files, backups and their pruning.
  \<^item> \<open>Forge_Api\<close>, \<open>GitHub\<close>, \<open>Gitea_Forgejo\<close>: the clients of the forges (\<open>internal/provider/github\<close>, \<open>gitea\<close>,
    \<open>forgejo\<close>) over an arbitrary HTTP server. \<open>Forge_Props\<close>: to whom credentials are sent, which tokens are used
    and what a discovery lists; \<open>Forge_Targets\<close>: how addresses of repositories are read. \<open>Providers\<close>: the registry
    of clients, by kind of provider.
  \<^item> \<open>Job_Logs\<close>, \<open>Job_Logs_Props\<close>: captured logs from the container to the file (\<open>orchestrator/logs.go\<close>), and their
    service and live stream (\<open>server/log.go\<close>).
  \<^item> \<open>Watch_Streams\<close>: the loop behind every stream of the API, as a locale \<open>snapshot_stream\<close> that \<open>Pool_Runner_Props\<close> and
    \<open>Analytics_Props\<close> interpret. \<open>Pool_Runners\<close>: the runners of a pool and their termination by hand
    (\<open>server/pool.go\<close>). \<open>Job_History\<close>, \<open>Analytics\<close>: the table of jobs with its queries, the history in pages, the
    statistics and the dashboard (\<open>server/analytics.go\<close>).
  \<^item> \<open>Health_Checks\<close>: the probes and their reports. \<open>Http_Server\<close>, \<open>Http_Props\<close>: the middleware, the check of origins and
    the mounted services (\<open>server/server.go\<close>).
  \<^item> \<open>Daemon\<close>, \<open>Daemon_Props\<close>: configuration (\<open>internal/config\<close>), the opening of the database (\<open>db/db.go\<close>), the first
    boot and the wiring of the parts (\<open>cmd/supervisor/daemon.go\<close>). \<open>Logging\<close>: loggers before and after their set-up
    (\<open>internal/logging\<close>).
  This theory composes them: the limits of the controller on every path, and the webhook receiver in front
  of the controller, by interpretation of the receiver's locale \<open>event_handler\<close>.

  \<^bold>\<open>Concurrency.\<close> An operation under one lock is one step. Where the code releases a lock between a
  read and a write (\<open>drainQueue\<close>, \<open>SetupAdmin\<close>), the model splits the operation there, and the lost update
  and the double set-up are proved as properties of the code. Goroutines of the cron scheduler are steps
  of their own.

  \<^bold>\<open>Parameters.\<close> The Docker API, the database's failures, the forges, the clock, random bytes, the JWT
  library, bcrypt, the cron parser, floating-point numbers and the parsers of times are arguments; laws that
  a property needs of them are hypotheses of that property, with a witness that instantiates them. A call
  that can answer differently each time takes the number of the call.

  \<^bold>\<open>Termination.\<close> Loops over slices are structural. The retry loop has a measure; loops that wait for
  signals are folds over the list of signals received, so that nothing depends on fuel. The JSON parser takes
  fuel, more than its text has bytes, and more fuel changes no answer.

  \<^bold>\<open>Not modelled.\<close> Generated code (\<open>internal/pb\<close>) and the web interface; the flags of the command line, which a
  third-party library parses, and the commands that only call operations which are modelled; the merging of
  configuration layers, YAML, the compression of log files and the migrations of the database, all of them in
  third-party libraries or the standard library and parameters here; listening on a port; the encoding of log lines;
  mocks and tests. The manifest lists every part.
\<close>

section \<open>The limits\<close>

lemma within_start:
  assumes "reconciler d \<noteq> None" "wf_tracked (tracked c)" "0 < globalMaxRunners c"
    and "preserves (within_bound d (globalMaxRunners c) (max (int (total_running (tracked c))) (globalMaxRunners c))) m"
  shows "int (total_running (tracked (exec m c))) \<le> max (int (total_running (tracked c))) (globalMaxRunners c)"
  using preservesD[OF assms(4), of c] assms(1-3) by (simp add: within_bound_def)

lemma limited_start:
  assumes "wf_tracked (tracked c)"
    and "\<forall>p. from_db d p \<longrightarrow> pName p = q \<longrightarrow> 0 < pMaxConcurrency p \<and> pMaxConcurrency p \<le> B"
    and "preserves (limited d q (max (int (pool_running q (tracked c))) B)) m"
  shows "int (pool_running q (tracked (exec m c))) \<le> max (int (pool_running q (tracked c))) B"
  using preservesD[OF assms(3), of c] assms(1,2) by (force simp: limited_def)

lemma mark_busy_within: "preserves (within_bound d g B) (mark_busy d n busy)"
  unfolding mark_busy_def
  by (intro keeps quota.quiets_I preserves_modify)
     (use MarkRunnerBusy_counts in \<open>auto simp: within_bound_def\<close>)

lemma HandleWorkflowJob_within: "preserves (within_bound d g B) (HandleWorkflowJob d prov job)"
  unfolding HandleWorkflowJob_def by (intro keeps quota.handle_queued_I mark_busy_within)

lemma mark_busy_limited: "preserves (limited d q B) (mark_busy d n busy)"
  unfolding mark_busy_def
  by (intro keeps pool_limit.quiets_I preserves_modify)
     (use MarkRunnerBusy_counts in \<open>auto simp: limited_def\<close>)

lemma HandleWorkflowJob_limited: "preserves (limited d q B) (HandleWorkflowJob d prov job)"
  unfolding HandleWorkflowJob_def by (intro keeps pool_limit.handle_queued_I mark_busy_limited)

section \<open>The receiver in front of the controller\<close>

text \<open>The event handler that the supervisor gives to the webhook receiver.\<close>

abbreviation job_handler :: "deps \<Rightarrow> string \<Rightarrow> WorkflowJobEvent \<Rightarrow> (controller, go_error option) state" where
  "job_handler d prov e \<equiv> HandleWorkflowJob d prov (Some e)"

interpretation quota_handler: event_handler "job_handler d" "within_bound d g B" for d g B
  by unfold_locales (rule HandleWorkflowJob_within)

interpretation sound_handler: event_handler "job_handler d" "sound d" for d
  by unfold_locales (rule no_panic.HandleWorkflowJob_I)

section \<open>The example environment\<close>

lemma ex_wf: "wf_tracked (tracked ex_ctl)"
  by (simp add: ex_simps wf_tracked_def wf_pool_def)

lemma ex_from_db: "from_db ex_deps ex_pool"
  by (simp add: from_db_def ex_deps_def ex_db_def)

lemma ex_total: "total_running (tracked ex_ctl) = 1"
  by (simp add: ex_simps total_running_def running_in_def is_running_def)

lemma ex_spawns: "length (trace (exec (drainQueue ex_deps) ex_ctl)) = 1"
  by code_simp

text \<open>
  C1. The global quota. No operation that provisions runners (reconciling a pool, draining the queue,
  handling a container event or a webhook, checking lifetimes) lifts the number of running containers
  above \<open>globalMaxRunners\<close>: when it ends above the quota, it has not added to what was running before.
\<close>

theorem global_quota:
  assumes "reconciler d \<noteq> None" "wf_tracked (tracked c)" "0 < globalMaxRunners c" "from_db d p"
  shows "int (total_running (tracked (exec (reconcilePool d p) c)))
           \<le> max (int (total_running (tracked c))) (globalMaxRunners c)
    \<and> int (total_running (tracked (exec (drainQueue d) c)))
           \<le> max (int (total_running (tracked c))) (globalMaxRunners c)
    \<and> int (total_running (tracked (exec (HandleContainerEvent d ev) c)))
           \<le> max (int (total_running (tracked c))) (globalMaxRunners c)
    \<and> int (total_running (tracked (exec (HandleWorkflowJob d prov job) c)))
           \<le> max (int (total_running (tracked c))) (globalMaxRunners c)
    \<and> int (total_running (tracked (exec (CheckHungRunners d) c)))
           \<le> max (int (total_running (tracked c))) (globalMaxRunners c)"
  by (intro conjI within_start[OF assms(1-3)] quota.reconcilePool_I[OF assms(4)] quota.drainQueue_I
        quota.HandleContainerEvent_I quota.CheckHungRunners_I HandleWorkflowJob_within)

theorem global_quota_witness:
  "int (total_running (tracked (exec (drainQueue ex_deps) ex_ctl))) \<le> 2 \<and>
   length (trace (exec (drainQueue ex_deps) ex_ctl)) = 1"
  using global_quota[of ex_deps ex_ctl ex_pool ex_event "''github''" None] ex_spawns
  by (simp add: ex_wf ex_from_db ex_total) (simp add: ex_simps)

text \<open>
  C2. The limit of a pool. When every stored pool named \<open>q\<close> has a positive \<open>max_concurrency\<close> of at most
  \<open>B\<close>, no provisioning operation lifts the number of that pool's running containers above \<open>B\<close>, on
  whichever path the runner is asked for.
\<close>

theorem pool_concurrency_limit:
  assumes "wf_tracked (tracked c)" "from_db d p"
    and "\<forall>p. from_db d p \<longrightarrow> pName p = q \<longrightarrow> 0 < pMaxConcurrency p \<and> pMaxConcurrency p \<le> B"
  shows "int (pool_running q (tracked (exec (reconcilePool d p) c))) \<le> max (int (pool_running q (tracked c))) B
    \<and> int (pool_running q (tracked (exec (drainQueue d) c))) \<le> max (int (pool_running q (tracked c))) B
    \<and> int (pool_running q (tracked (exec (HandleContainerEvent d ev) c))) \<le> max (int (pool_running q (tracked c))) B
    \<and> int (pool_running q (tracked (exec (HandleWorkflowJob d prov job) c))) \<le> max (int (pool_running q (tracked c))) B
    \<and> int (pool_running q (tracked (exec (CheckHungRunners d) c))) \<le> max (int (pool_running q (tracked c))) B"
  by (intro conjI limited_start[OF assms(1,3)] pool_limit.reconcilePool_I[OF assms(2)] pool_limit.drainQueue_I
        pool_limit.HandleContainerEvent_I pool_limit.CheckHungRunners_I HandleWorkflowJob_limited)

theorem pool_concurrency_limit_witness:
  "int (pool_running ''ci'' (tracked (exec (reconcilePool ex_deps ex_pool) ex_ctl))) \<le> 3"
  using pool_concurrency_limit[OF ex_wf ex_from_db, of "''ci''" 3 ex_event "''github''" None]
  by (simp add: from_db_def ex_simps pool_running_def pool_of_def running_in_def)

text \<open>
  C3. A webhook from the outside cannot exceed the quota. Whatever request arrives, handled by the
  receiver with the controller behind it, the number of running containers does not rise above
  the global quota, no nil dependency is dereferenced and the tracking state stays well formed; and
  when the controller's state changes at all, the request was authentic and is answered with 202.
\<close>

theorem webhook_end_to_end:
  assumes "sound d c" "reconciler d \<noteq> None" "0 < globalMaxRunners c"
  shows "let c' = exec (Handle resolveSecret (Some (job_handler d)) prov req) c
    in int (total_running (tracked c')) \<le> max (int (total_running (tracked c))) (globalMaxRunners c) \<and>
       \<not> panicked c' \<and> wf_tracked (tracked c') \<and>
       (c' \<noteq> c \<longrightarrow> (\<exists>e. authentic resolveSecret req (ToLower (TrimSpace prov)) e) \<and>
          rspStatus (fst (run_state (Handle resolveSecret (Some (job_handler d)) prov req) c)) = 202)"
proof -
  have "wf_tracked (tracked c)" using assms(1) by (simp add: sound_def)
  from within_start[OF assms(2) this assms(3) quota_handler.Handle_I]
  have quota: "int (total_running (tracked (exec (Handle resolveSecret (Some (job_handler d)) prov req) c)))
      \<le> max (int (total_running (tracked c))) (globalMaxRunners c)" .
  have "sound d (exec (Handle resolveSecret (Some (job_handler d)) prov req) c)"
    using preservesD[OF sound_handler.Handle_I assms(1)] .
  moreover have "(\<exists>e. authentic resolveSecret req (ToLower (TrimSpace prov)) e) \<and>
      rspStatus (fst (run_state (Handle resolveSecret (Some (job_handler d)) prov req) c)) = 202"
    if "exec (Handle resolveSecret (Some (job_handler d)) prov req) c \<noteq> c"
    using Handle_changes_only_if_authentic[OF that] by blast
  ultimately show ?thesis using quota by (simp add: Let_def sound_def)
qed

theorem webhook_end_to_end_witness:
  "int (total_running (tracked (exec (Handle (\<lambda>p. Some ''key'') (Some (job_handler ex_deps)) ''github'' ex_request) ex_ctl))) \<le> 2"
proof -
  have "sound ex_deps ex_ctl" using ex_wf by (simp add: sound_def wired_def) (simp add: ex_simps)
  from webhook_end_to_end[OF this, of "\<lambda>p. Some ''key''" "''github''" ex_request] show ?thesis
    by (simp add: Let_def ex_total) (simp add: ex_simps)
qed

end
